(* ===== verification/PyBase.thy ===== *)
theory PyBase
  imports Main "HOL-Library.Char_ord" "HOL-Library.List_Lexorder"
begin

text \<open>
  The prelude of the development: exceptions as values, the sequencing of fallible steps, the
  string operations of the Python standard library that the sources use, decimal and hexadecimal
  text, and the generic lemmas and theorem collections the component theories share.

  Text is a list of characters. A Python \<open>str\<close> is modelled on ASCII: code points below 128 are
  treated exactly, and the classifications below (space, alphanumeric, lower case) are the ASCII
  ones. Python \<open>bytes\<close> are also lists of characters, one per byte, so that encoding an ASCII
  text as UTF-8 is the identity.
\<close>

named_theorems py_simps \<open>unfolding of the Python primitives\<close>
named_theorems exn_simps \<open>elimination of the fallible sequencing\<close>

section \<open>Exceptions as values\<close>

text \<open>One constructor per exception class that the sources raise or catch.\<close>

datatype exc =
    ValueError string
  | KeyError string
  | TypeError string
  | AttributeError string
  | RuntimeError string
  | IndexError string
  | AssertionError string
  | PermissionError string
  | FileNotFoundError string
  | IllegalTransition string
  | LadderError string
  | PolicyViolation string
  | AuthorizationContextMissing string
  | StackSelectionDenied string
  | TracePolicyError string
  | FoundryTraceFormatError string
  | CheatcodeDecodeError string
  | HarnessIdentityError string
  | EnvironmentMismatch string
  | IntegrityError string
  | JSONDecodeError string
  | ModelUnavailable string
  | RateLimited string
  | NotFound string
  | NoCandidatesAvailable string
  | Timeout string
  | MalformedStructuredOutput string
  | YAMLError string
  | OSError string
  | ToolExecutionError string
  | SandboxPathError string
  | StopIteration

type_synonym 'a res = "exc + 'a"

text \<open>\<open>str(exc)\<close>: the message the exception carries.\<close>

fun exc_msg :: "exc \<Rightarrow> string" where
  "exc_msg (ValueError m) = m"
| "exc_msg (KeyError m) = m"
| "exc_msg (TypeError m) = m"
| "exc_msg (AttributeError m) = m"
| "exc_msg (RuntimeError m) = m"
| "exc_msg (IndexError m) = m"
| "exc_msg (AssertionError m) = m"
| "exc_msg (PermissionError m) = m"
| "exc_msg (FileNotFoundError m) = m"
| "exc_msg (IllegalTransition m) = m"
| "exc_msg (LadderError m) = m"
| "exc_msg (PolicyViolation m) = m"
| "exc_msg (AuthorizationContextMissing m) = m"
| "exc_msg (StackSelectionDenied m) = m"
| "exc_msg (TracePolicyError m) = m"
| "exc_msg (FoundryTraceFormatError m) = m"
| "exc_msg (CheatcodeDecodeError m) = m"
| "exc_msg (HarnessIdentityError m) = m"
| "exc_msg (EnvironmentMismatch m) = m"
| "exc_msg (IntegrityError m) = m"
| "exc_msg (JSONDecodeError m) = m"
| "exc_msg (ModelUnavailable m) = m"
| "exc_msg (RateLimited m) = m"
| "exc_msg (NotFound m) = m"
| "exc_msg (NoCandidatesAvailable m) = m"
| "exc_msg (Timeout m) = m"
| "exc_msg (MalformedStructuredOutput m) = m"
| "exc_msg (YAMLError m) = m"
| "exc_msg (OSError m) = m"
| "exc_msg (ToolExecutionError m) = m"
| "exc_msg (SandboxPathError m) = m"
| "exc_msg StopIteration = []"

definition ebind :: "'e + 'a \<Rightarrow> ('a \<Rightarrow> 'e + 'b) \<Rightarrow> 'e + 'b" where
  "ebind r f = (case r of Inl e \<Rightarrow> Inl e | Inr x \<Rightarrow> f x)"

lemma ebind_Inl [simp]: "ebind (Inl e) f = Inl e"
  by (simp add: ebind_def)

lemma ebind_Inr [simp]: "ebind (Inr x) f = f x"
  by (simp add: ebind_def)

lemma ebind_eq_Inr [exn_simps]: "ebind r f = Inr y \<longleftrightarrow> (\<exists>x. r = Inr x \<and> f x = Inr y)"
  by (cases r) auto

lemma ebind_eq_Inl [exn_simps]:
  "ebind r f = Inl e \<longleftrightarrow> r = Inl e \<or> (\<exists>x. r = Inr x \<and> f x = Inl e)"
  by (cases r) auto

lemma ebind_cong [fundef_cong]:
  "r = r' \<Longrightarrow> (\<And>x. r' = Inr x \<Longrightarrow> f x = f' x) \<Longrightarrow> ebind r f = ebind r' f'"
  by (cases r') auto

definition require :: "bool \<Rightarrow> 'e \<Rightarrow> 'e + unit" where
  "require c e = (if c then Inr () else Inl e)"

lemma require_eq_Inr [simp, exn_simps]: "require c e = Inr u \<longleftrightarrow> c"
  by (simp add: require_def)

lemma require_eq_Inl [simp, exn_simps]: "require c e = Inl e' \<longleftrightarrow> \<not> c \<and> e = e'"
  by (auto simp: require_def)

lemma if_Inl_eq_Inr [simp, exn_simps]: "(if c then Inl e else r) = Inr y \<longleftrightarrow> \<not> c \<and> r = Inr y"
  by auto

text \<open>Running a fallible function over a list stops at the first exception.\<close>

fun emap :: "('a \<Rightarrow> 'e + 'b) \<Rightarrow> 'a list \<Rightarrow> 'e + 'b list" where
  "emap f [] = Inr []"
| "emap f (x # xs) = ebind (f x) (\<lambda>y. ebind (emap f xs) (\<lambda>ys. Inr (y # ys)))"

lemma emap_cong [fundef_cong]:
  "xs = ys \<Longrightarrow> (\<And>x. x \<in> set ys \<Longrightarrow> f x = g x) \<Longrightarrow> emap f xs = emap g ys"
proof (induction ys arbitrary: xs)
  case (Cons y ys)
  then show ?case by (auto intro!: ebind_cong)
qed simp

lemma emap_eq_Inr: "emap f xs = Inr ys \<longleftrightarrow> list_all2 (\<lambda>x y. f x = Inr y) xs ys"
  by (induction xs arbitrary: ys) (auto simp: ebind_eq_Inr list_all2_Cons1)

lemma emap_source: "emap f xs = Inr ys \<Longrightarrow> y \<in> set ys \<Longrightarrow> \<exists>x \<in> set xs. f x = Inr y"
  by (induction xs arbitrary: ys) (auto simp: ebind_eq_Inr)

lemma emap_length: "emap f xs = Inr ys \<Longrightarrow> length ys = length xs"
  by (simp add: emap_eq_Inr list_all2_lengthD)

text \<open>A loop whose body may raise, threading an accumulator.\<close>

fun efold :: "('a \<Rightarrow> 's \<Rightarrow> 'e + 's) \<Rightarrow> 'a list \<Rightarrow> 's \<Rightarrow> 'e + 's" where
  "efold f [] s = Inr s"
| "efold f (x # xs) s = ebind (f x s) (efold f xs)"

text \<open>An invariant of the body is an invariant of the loop.\<close>

lemma efold_invariant:
  assumes "efold f xs s = Inr t" and "I s"
    and "\<And>x s s'. x \<in> set xs \<Longrightarrow> I s \<Longrightarrow> f x s = Inr s' \<Longrightarrow> I s'"
  shows "I t"
  using assms
proof (induction xs arbitrary: s)
  case (Cons x xs)
  from Cons.prems(1) obtain u where u: "f x s = Inr u" "efold f xs u = Inr t"
    by (auto simp: ebind_eq_Inr)
  moreover from Cons.prems(2,3) u(1) have "I u" by (meson list.set_intros(1))
  ultimately show ?case using Cons.IH Cons.prems(3) by (meson list.set_intros(2))
qed simp

lemma efold_append: "efold f (xs @ ys) s = ebind (efold f xs s) (efold f ys)"
proof (induction xs arbitrary: s)
  case (Cons x xs)
  show ?case by (cases "f x s") (auto simp: Cons.IH)
qed simp

section \<open>Equality that stops early\<close>

text \<open>Code equations for \<open>code_simp\<close>: a conditional is evaluated only as far as it is needed.\<close>

lemma equal_list_code [code]:
  "HOL.equal [] ([] :: 'a :: equal list) \<longleftrightarrow> True"
  "HOL.equal [] (y # ys :: 'a list) \<longleftrightarrow> False"
  "HOL.equal (x # xs :: 'a list) [] \<longleftrightarrow> False"
  "HOL.equal (x # xs) (y # ys :: 'a list) \<longleftrightarrow> (if HOL.equal x y then HOL.equal xs ys else False)"
  by (simp_all add: equal_eq)

lemma equal_char_Char [code]:
  "HOL.equal (Char a0 a1 a2 a3 a4 a5 a6 a7) (Char b0 b1 b2 b3 b4 b5 b6 b7) \<longleftrightarrow>
     (if HOL.equal a0 b0 then if HOL.equal a1 b1 then if HOL.equal a2 b2 then if HOL.equal a3 b3 then
      if HOL.equal a4 b4 then if HOL.equal a5 b5 then if HOL.equal a6 b6 then HOL.equal a7 b7
      else False else False else False else False else False else False else False)"
  by (simp add: equal_eq)

section \<open>Strings\<close>

definition is_space :: "char \<Rightarrow> bool" where
  "is_space c = (let n = (of_char c :: nat) in (9 \<le> n \<and> n \<le> 13) \<or> (28 \<le> n \<and> n \<le> 32))"

definition is_digit :: "char \<Rightarrow> bool" where
  "is_digit c = (let n = (of_char c :: nat) in 48 \<le> n \<and> n \<le> 57)"

definition is_upper :: "char \<Rightarrow> bool" where
  "is_upper c = (let n = (of_char c :: nat) in 65 \<le> n \<and> n \<le> 90)"

definition is_lower :: "char \<Rightarrow> bool" where
  "is_lower c = (let n = (of_char c :: nat) in 97 \<le> n \<and> n \<le> 122)"

definition is_alnum :: "char \<Rightarrow> bool" where
  "is_alnum c = (is_digit c \<or> is_upper c \<or> is_lower c)"

definition lower_char :: "char \<Rightarrow> char" where
  "lower_char c = (if is_upper c then char_of (of_char c + 32 :: nat) else c)"

definition upper_char :: "char \<Rightarrow> char" where
  "upper_char c = (if is_lower c then char_of (of_char c - 32 :: nat) else c)"

text \<open>
  The same tests on the bits of a character, which the simplifier and \<open>code_simp\<close> decide without
  counting: they are the code equations used when a concrete text is evaluated.
\<close>

lemma is_digit_Char [simp, code]:
  "is_digit (Char b0 b1 b2 b3 b4 b5 b6 b7) =
     (\<not> b7 \<and> \<not> b6 \<and> b5 \<and> b4 \<and> (b3 \<longrightarrow> \<not> b2 \<and> \<not> b1))"
  by (cases b0; cases b1; cases b2; cases b3; cases b4; cases b5; cases b6; cases b7;
      simp add: is_digit_def)

lemma is_upper_Char [simp, code]:
  "is_upper (Char b0 b1 b2 b3 b4 b5 b6 b7) =
     (\<not> b7 \<and> b6 \<and> \<not> b5 \<and> (b4 \<or> b3 \<or> b2 \<or> b1 \<or> b0) \<and> \<not> (b4 \<and> b3 \<and> (b2 \<or> b1 \<and> b0)))"
  by (cases b0; cases b1; cases b2; cases b3; cases b4; cases b5; cases b6; cases b7;
      simp add: is_upper_def)

lemma is_lower_Char [simp, code]:
  "is_lower (Char b0 b1 b2 b3 b4 b5 b6 b7) =
     (\<not> b7 \<and> b6 \<and> b5 \<and> (b4 \<or> b3 \<or> b2 \<or> b1 \<or> b0) \<and> \<not> (b4 \<and> b3 \<and> (b2 \<or> b1 \<and> b0)))"
  by (cases b0; cases b1; cases b2; cases b3; cases b4; cases b5; cases b6; cases b7;
      simp add: is_lower_def)

lemma is_space_Char [simp, code]:
  "is_space (Char b0 b1 b2 b3 b4 b5 b6 b7) =
     (\<not> b7 \<and> \<not> b6 \<and>
      (if b5 then \<not> b4 \<and> \<not> b3 \<and> \<not> b2 \<and> \<not> b1 \<and> \<not> b0
       else b3 \<and> (if b4 then b2 else (b2 \<or> b1 \<or> b0) \<and> \<not> (b2 \<and> b1))))"
  by (cases b0; cases b1; cases b2; cases b3; cases b4; cases b5; cases b6; cases b7;
      simp add: is_space_def)

lemma lower_char_Char [simp, code]:
  "lower_char (Char b0 b1 b2 b3 b4 b5 b6 b7) =
     Char b0 b1 b2 b3 b4 (b5 \<or> is_upper (Char b0 b1 b2 b3 b4 b5 b6 b7)) b6 b7"
  by (cases b0; cases b1; cases b2; cases b3; cases b4; cases b5; cases b6; cases b7;
      simp add: lower_char_def char_of_def bit_simps)

text \<open>Characters are ordered by their bits, most significant first.\<close>

fun bits_less :: "bool list \<Rightarrow> bool list \<Rightarrow> bool" where
  "bits_less (x # xs) (y # ys) = (bits_less xs ys \<or> xs = ys \<and> \<not> x \<and> y)"
| "bits_less _ _ = False"

lemma bits_less_horner:
  "length xs = length ys \<Longrightarrow>
    (horner_sum of_bool 2 xs < (horner_sum of_bool 2 ys :: nat)) = bits_less xs ys \<and>
    (horner_sum of_bool 2 xs = (horner_sum of_bool 2 ys :: nat)) = (xs = ys)"
proof (induction xs ys rule: list_induct2)
  case (Cons x xs y ys)
  then show ?case by (cases x; cases y) (simp_all, linarith+)
qed simp

lemma less_char_Char [code]:
  "Char a0 a1 a2 a3 a4 a5 a6 a7 < Char b0 b1 b2 b3 b4 b5 b6 b7 \<longleftrightarrow>
     bits_less [a0, a1, a2, a3, a4, a5, a6, a7] [b0, b1, b2, b3, b4, b5, b6, b7]"
  using bits_less_horner [of "[a0, a1, a2, a3, a4, a5, a6, a7]" "[b0, b1, b2, b3, b4, b5, b6, b7]"]
  by (simp only: less_char_def of_char_Char) simp

lemma less_eq_char_Char [code]:
  "(c :: char) \<le> d \<longleftrightarrow> c < d \<or> c = d"
  by (rule order.order_iff_strict)

text \<open>\<open>str.lower\<close>, \<open>str.upper\<close>, \<open>str.strip\<close>, \<open>str.startswith\<close>, \<open>str.rstrip(c)\<close>, \<open>in\<close>.\<close>

definition lower :: "string \<Rightarrow> string" where
  "lower s = map lower_char s"

definition upper :: "string \<Rightarrow> string" where
  "upper s = map upper_char s"

definition strip :: "string \<Rightarrow> string" where
  "strip s = rev (dropWhile is_space (rev (dropWhile is_space s)))"

fun startswith :: "string \<Rightarrow> string \<Rightarrow> bool" where
  "startswith s [] = True"
| "startswith [] (p # ps) = False"
| "startswith (c # s) (p # ps) = (c = p \<and> startswith s ps)"

definition rstrip_char :: "char \<Rightarrow> string \<Rightarrow> string" where
  "rstrip_char c s = rev (dropWhile (\<lambda>d. d = c) (rev s))"

fun contains :: "string \<Rightarrow> string \<Rightarrow> bool" where
  "contains [] p = (p = [])"
| "contains (c # s) p = (startswith (c # s) p \<or> contains s p)"

text \<open>\<open>str.replace\<close>, for a pattern that is not empty; the fuel is the length of the text.\<close>

fun replace_from :: "nat \<Rightarrow> string \<Rightarrow> string \<Rightarrow> string \<Rightarrow> string" where
  "replace_from 0 s pat new = s"
| "replace_from (Suc n) [] pat new = []"
| "replace_from (Suc n) (c # s) pat new =
     (if startswith (c # s) pat then new @ replace_from n (drop (length pat) (c # s)) pat new
      else c # replace_from n s pat new)"

definition replace_all :: "string \<Rightarrow> string \<Rightarrow> string \<Rightarrow> string" where
  "replace_all s pat new = replace_from (length s) s pat new"

definition endswith :: "string \<Rightarrow> string \<Rightarrow> bool" where
  "endswith s p = startswith (rev s) (rev p)"

definition isalnum :: "string \<Rightarrow> bool" where
  "isalnum s = (s \<noteq> [] \<and> list_all is_alnum s)"

lemma startswith_iff: "startswith s p \<longleftrightarrow> (\<exists>t. s = p @ t)"
  by (induction s p rule: startswith.induct) auto

lemma startswith_append [simp]: "startswith (p @ s) p"
  by (auto simp: startswith_iff)

lemma startswith_take: "startswith s p \<Longrightarrow> p @ drop (length p) s = s"
  by (auto simp: startswith_iff)

lemma is_upper_lower_char [simp]: "\<not> is_upper (lower_char c)"
proof (cases "is_upper c")
  case True
  then have "of_char (char_of (of_char c + 32 :: nat)) = (of_char c + 32 :: nat)"
    by (simp add: is_upper_def Let_def)
  with True show ?thesis by (simp add: lower_char_def is_upper_def Let_def)
qed (simp add: lower_char_def)

lemma lower_char_idem [simp]: "lower_char (lower_char c) = lower_char c"
  by (subst lower_char_def) simp

lemma lower_idem [simp]: "lower (lower s) = lower s"
  by (simp add: lower_def)

lemma length_lower [simp]: "length (lower s) = length s"
  by (simp add: lower_def)

lemma lower_Nil [simp]: "lower [] = []" and lower_eq_Nil [simp]: "lower s = [] \<longleftrightarrow> s = []"
  by (simp_all add: lower_def)

lemma dropWhile_rev_dropWhile_idem:
  "dropWhile P (rev (dropWhile P (rev (dropWhile P s)))) = rev (dropWhile P (rev (dropWhile P s)))"
proof -
  let ?t = "dropWhile P s"
  have "dropWhile P (rev (dropWhile P (rev ?t))) = rev (dropWhile P (rev ?t))"
  proof (cases "rev (dropWhile P (rev ?t))")
    case Nil
    then show ?thesis by (simp only: Nil dropWhile.simps)
  next
    case (Cons x xs)
    then obtain ys where "?t = (x # xs) @ ys"
      by (metis rev_append rev_rev_ident takeWhile_dropWhile_id)
    then have "\<not> P x" by (metis append_Cons hd_dropWhile list.distinct(1) list.sel(1))
    with Cons show ?thesis by simp
  qed
  then show ?thesis .
qed

lemma strip_idem [simp]: "strip (strip s) = strip s"
  by (simp add: strip_def dropWhile_rev_dropWhile_idem)

lemma strip_Nil [simp]: "strip [] = []"
  by (simp add: strip_def)

section \<open>Decimal text\<close>

definition digit_char :: "nat \<Rightarrow> char" where
  "digit_char d = char_of (48 + d)"

fun nat_str :: "nat \<Rightarrow> string" where
  "nat_str n = (if n < 10 then [digit_char n] else nat_str (n div 10) @ [digit_char (n mod 10)])"

declare nat_str.simps [simp del]

definition int_str :: "int \<Rightarrow> string" where
  "int_str i = (if i < 0 then CHR ''-'' # nat_str (nat (- i)) else nat_str (nat i))"

text \<open>\<open>f"{n:03d}"\<close> on a natural number.\<close>

definition pad3 :: "nat \<Rightarrow> string" where
  "pad3 n = (let s = nat_str n in replicate (3 - length s) (CHR ''0'') @ s)"

definition digit_val :: "char \<Rightarrow> nat" where
  "digit_val c = of_char c - 48"

text \<open>The value of a digit string, most significant first: the inverse of \<open>nat_str\<close>.\<close>

fun digits_val :: "string \<Rightarrow> nat \<Rightarrow> nat" where
  "digits_val [] acc = acc"
| "digits_val (c # cs) acc = digits_val cs (10 * acc + digit_val c)"

lemma digits_val_append: "digits_val (s @ t) acc = digits_val t (digits_val s acc)"
  by (induction s arbitrary: acc) auto

lemma digit_val_char [simp]: "d < 10 \<Longrightarrow> digit_val (digit_char d) = d"
  by (simp add: digit_val_def digit_char_def)

lemma is_digit_char [simp]: "d < 10 \<Longrightarrow> is_digit (digit_char d)"
  by (simp add: is_digit_def digit_char_def)

lemma digits_val_nat_str [simp]: "digits_val (nat_str n) 0 = n"
proof (induction n rule: nat_str.induct)
  case (1 n)
  show ?case
    by (cases "n < 10") (simp_all add: nat_str.simps [of n] digits_val_append 1)
qed

lemma nat_str_inj [simp]: "nat_str m = nat_str n \<longleftrightarrow> m = n"
  by (metis digits_val_nat_str)

lemma nat_str_digits: "c \<in> set (nat_str n) \<Longrightarrow> is_digit c"
proof (induction n rule: nat_str.induct)
  case (1 n)
  then show ?case
    by (cases "n < 10") (auto simp: nat_str.simps [of n])
qed

lemma nat_str_not_Nil [simp]: "nat_str n \<noteq> []"
  by (simp add: nat_str.simps)

lemma digits_val_zeros: "digits_val (replicate k (CHR ''0'') @ s) 0 = digits_val s 0"
  by (induction k) (simp_all add: digit_val_def)

lemma pad3_inj [simp]: "pad3 m = pad3 n \<longleftrightarrow> m = n"
  by (metis digits_val_nat_str digits_val_zeros pad3_def)

lemma not_is_digit_minus [simp]: "\<not> is_digit (CHR ''-'')"
  by (simp add: is_digit_def)

lemma int_str_inj [simp]: "int_str i = int_str j \<longleftrightarrow> i = j"
proof
  have neg: "nat_str n = CHR ''-'' # s \<Longrightarrow> False" for n s
    by (metis list.set_intros(1) nat_str_digits not_is_digit_minus)
  assume "int_str i = int_str j"
  then show "i = j"
    by (auto simp: int_str_def eq_nat_nat_iff split: if_splits dest: neg neg [OF sym])
qed simp

section \<open>Hexadecimal text\<close>

definition hex_char :: "nat \<Rightarrow> char" where
  "hex_char d = (if d < 10 then char_of (48 + d) else char_of (87 + d))"

definition hex_val :: "char \<Rightarrow> nat option" where
  "hex_val c = (let n = (of_char c :: nat) in
     if 48 \<le> n \<and> n \<le> 57 then Some (n - 48)
     else if 97 \<le> n \<and> n \<le> 102 then Some (n - 87)
     else if 65 \<le> n \<and> n \<le> 70 then Some (n - 55)
     else None)"

text \<open>\<open>bytes.hex()\<close>.\<close>

fun to_hex :: "string \<Rightarrow> string" where
  "to_hex [] = []"
| "to_hex (b # bs) = hex_char (of_char b div 16) # hex_char (of_char b mod 16) # to_hex bs"

definition fromhex_space :: "char \<Rightarrow> bool" where
  "fromhex_space c = (let n = (of_char c :: nat) in (9 \<le> n \<and> n \<le> 13) \<or> n = 32)"

text \<open>
  \<open>bytes.fromhex\<close>: pairs of digits, with white space skipped before each pair and at the end.
  \<^term>\<open>None\<close> is the \<open>ValueError\<close>.
\<close>

fun from_hex :: "string \<Rightarrow> string option" where
  "from_hex [] = Some []"
| "from_hex [c] = (if fromhex_space c then Some [] else None)"
| "from_hex (c # d # ds) =
     (if fromhex_space c then from_hex (d # ds)
      else case (hex_val c, hex_val d) of
        (Some a, Some b) \<Rightarrow> map_option (\<lambda>bs. char_of (16 * a + b) # bs) (from_hex ds)
      | _ \<Rightarrow> None)"

lemma hex_val_char [simp]: "d < 16 \<Longrightarrow> hex_val (hex_char d) = Some d"
  by (auto simp: hex_val_def hex_char_def)

lemma not_space_hex_char [simp]: "d < 16 \<Longrightarrow> \<not> fromhex_space (hex_char d)"
  by (auto simp: fromhex_space_def hex_char_def Let_def)

lemma of_char_less_256: "(of_char c :: nat) < 256"
  by (metis UNIV_I image_eqI lessThan_iff range_nat_of_char atLeastLessThan_iff)

lemma char_of_eqI: "(of_char c :: nat) = n \<Longrightarrow> char_of n = c"
  by auto

lemma char_of_nat_div_mod [simp]:
  "char_of (16 * (of_char b div 16) + of_char b mod 16 :: nat) = b"
  by (metis char_of_char mult_div_mod_eq)

lemma from_hex_to_hex [simp]: "from_hex (to_hex bs) = Some bs"
proof (induction bs)
  case (Cons b bs)
  have "(of_char b :: nat) div 16 < 16" using of_char_less_256 [of b] by arith
  with Cons show ?case by simp
qed simp

lemma length_to_hex [simp]: "length (to_hex bs) = 2 * length bs"
  by (induction bs) auto

subsection \<open>The same on bits\<close>

text \<open>Code equations that evaluate hexadecimal text without arithmetic.\<close>

definition nibble :: "bool \<Rightarrow> bool \<Rightarrow> bool \<Rightarrow> bool \<Rightarrow> char" where
  "nibble b0 b1 b2 b3 =
     (if b3 \<and> (b2 \<or> b1) then Char (\<not> b0) (b1 = b0) (b2 \<and> (b1 \<or> b0)) False False True True False
      else Char b0 b1 b2 b3 True True False False)"

definition hex_bits :: "char \<Rightarrow> (bool \<times> bool \<times> bool \<times> bool) option" where
  "hex_bits c = map_option (\<lambda>n. (bit n 0, bit n 1, bit n 2, bit n 3)) (hex_val c)"

lemma hex_bits_Char [code]:
  "hex_bits (Char b0 b1 b2 b3 b4 b5 b6 b7) =
     (if is_digit (Char b0 b1 b2 b3 b4 b5 b6 b7) then Some (b0, b1, b2, b3)
      else if \<not> b7 \<and> b6 \<and> \<not> b4 \<and> \<not> b3 \<and> (b2 \<or> b1 \<or> b0) \<and> \<not> (b2 \<and> b1 \<and> b0)
      then Some (\<not> b0, b1 \<noteq> b0, b2 \<noteq> (b1 \<and> b0), True) else None)"
  by (cases b0; cases b1; cases b2; cases b3; cases b4; cases b5; cases b6; cases b7;
      simp add: hex_bits_def hex_val_def bit_iff_odd)

lemma hex_val_less: "hex_val c = Some n \<Longrightarrow> n < 16"
  by (auto simp: hex_val_def Let_def split: if_splits)

lemma nibble_exists:
  assumes "n < 16"
  obtains x0 x1 x2 x3 where "(n :: nat) = of_bool x0 + 2 * of_bool x1 + 4 * of_bool x2 + 8 * of_bool x3"
proof
  have d: "n div 4 = n div 2 div 2" "n div 8 = n div 4 div 2"
    by (simp_all flip: div_mult2_eq)
  have "n div 8 < 2" using assms by simp
  then have "n div 8 = n div 8 mod 2" by simp
  moreover have "n = 2 * (n div 2) + n mod 2" "n div 2 = 2 * (n div 4) + n div 2 mod 2"
    "n div 4 = 2 * (n div 8) + n div 4 mod 2"
    unfolding d by (simp_all only: mult_div_mod_eq)
  ultimately have "n = n mod 2 + 2 * (n div 2 mod 2) + 4 * (n div 4 mod 2) + 8 * (n div 8 mod 2)"
    by linarith
  then show "n = of_bool (odd n) + 2 * of_bool (odd (n div 2)) + 4 * of_bool (odd (n div 4)) +
      8 * of_bool (odd (n div 8))"
    by (simp only: of_bool_odd_eq_mod_2)
qed

lemma hex_bits_char:
  assumes "hex_val c = Some a" "hex_val d = Some b"
  shows "char_of (16 * a + b) =
    (case (hex_bits c, hex_bits d) of
       (Some (a0, a1, a2, a3), Some (c0, c1, c2, c3)) \<Rightarrow> Char c0 c1 c2 c3 a0 a1 a2 a3)"
proof -
  obtain x0 x1 x2 x3 where a: "a = of_bool x0 + 2 * of_bool x1 + 4 * of_bool x2 + 8 * of_bool x3"
    using hex_val_less [OF assms(1)] by (rule nibble_exists)
  obtain y0 y1 y2 y3 where b: "b = of_bool y0 + 2 * of_bool y1 + 4 * of_bool y2 + 8 * of_bool y3"
    using hex_val_less [OF assms(2)] by (rule nibble_exists)
  have "char_of (16 * a + b) = Char y0 y1 y2 y3 x0 x1 x2 x3"
    by (rule char_of_eqI) (simp add: a b)
  moreover have "bit n 0 = z0 \<and> bit n 1 = z1 \<and> bit n 2 = z2 \<and> bit n 3 = z3"
    if "n = of_bool z0 + 2 * of_bool z1 + 4 * of_bool z2 + 8 * of_bool z3" for n :: nat and z0 z1 z2 z3
    unfolding that by (cases z0; cases z1; cases z2; cases z3; simp add: bit_iff_odd)
  ultimately show ?thesis using assms a b by (simp add: hex_bits_def)
qed

lemma from_hex_code [code]:
  "from_hex [] = Some []"
  "from_hex [c] = (if fromhex_space c then Some [] else None)"
  "from_hex (c # d # ds) =
     (if fromhex_space c then from_hex (d # ds)
      else case (hex_bits c, hex_bits d) of
        (Some (a0, a1, a2, a3), Some (c0, c1, c2, c3)) \<Rightarrow>
          map_option ((#) (Char c0 c1 c2 c3 a0 a1 a2 a3)) (from_hex ds)
      | _ \<Rightarrow> None)"
proof -
  show "from_hex (c # d # ds) =
     (if fromhex_space c then from_hex (d # ds)
      else case (hex_bits c, hex_bits d) of
        (Some (a0, a1, a2, a3), Some (c0, c1, c2, c3)) \<Rightarrow>
          map_option ((#) (Char c0 c1 c2 c3 a0 a1 a2 a3)) (from_hex ds)
      | _ \<Rightarrow> None)"
  proof (cases "hex_val c = None \<or> hex_val d = None")
    case True
    then show ?thesis by (auto simp: hex_bits_def split: option.splits)
  next
    case False
    then obtain a b where "hex_val c = Some a" "hex_val d = Some b" by auto
    with hex_bits_char [OF this] show ?thesis by (simp add: hex_bits_def)
  qed
qed simp_all

lemma fromhex_space_Char [code]:
  "fromhex_space (Char b0 b1 b2 b3 b4 b5 b6 b7) =
     (\<not> b7 \<and> \<not> b6 \<and> \<not> b4 \<and>
      (if b5 then \<not> b3 \<and> \<not> b2 \<and> \<not> b1 \<and> \<not> b0 else b3 \<and> (b2 \<or> b1 \<or> b0) \<and> \<not> (b2 \<and> b1)))"
  by (cases b0; cases b1; cases b2; cases b3; cases b4; cases b5; cases b6; cases b7;
      simp add: fromhex_space_def)

lemma to_hex_Char [code]:
  "to_hex [] = []"
  "to_hex (Char b0 b1 b2 b3 b4 b5 b6 b7 # bs) = nibble b4 b5 b6 b7 # nibble b0 b1 b2 b3 # to_hex bs"
proof -
  show "to_hex (Char b0 b1 b2 b3 b4 b5 b6 b7 # bs) = nibble b4 b5 b6 b7 # nibble b0 b1 b2 b3 # to_hex bs"
    by (cases b0; cases b1; cases b2; cases b3; cases b4; cases b5; cases b6; cases b7;
        simp add: nibble_def hex_char_def char_of_def bit_simps)
qed simp

end
