(* ===== verification/PyJson.thy ===== *)
theory PyJson
  imports PyBase
begin

text \<open>
  Dynamically typed Python values, as the sources meet them in JSON and YAML documents and in
  entity payloads, with the built-in operations the sources apply to them: \<open>dict.get\<close>,
  \<open>dict.pop\<close>, item assignment, truth, \<open>str\<close>, \<open>int\<close>, \<open>==\<close> and \<open>json.dumps\<close>.

  A dictionary is its list of items in insertion order, with pairwise distinct string keys. A float
  is kept as its \<open>repr\<close> text and its integer part (\<^term>\<open>None\<close> for an infinity or a NaN): no
  float arithmetic is modelled here. The main theorem is that the canonical JSON text, on which
  every hash and MAC of the program is computed, determines the value.
\<close>

datatype pv =
    PNone
  | PBool bool
  | PInt int
  | PFloat string "int option"
  | PStr string
  | PList "pv list"
  | PTup "pv list"
  | PDict "(string \<times> pv) list"

type_synonym pdict = "(string \<times> pv) list"

lemma size_snd_list [termination_simp]:
  "kv \<in> set kvs \<Longrightarrow> size (snd kv) < Suc (size_list (size_prod (\<lambda>x. 0) size) kvs)"
  by (induction kvs) (auto simp: less_Suc_eq)

section \<open>Dictionaries\<close>

definition dget :: "pdict \<Rightarrow> string \<Rightarrow> pv option" where
  "dget d k = map_of d k"

text \<open>\<open>d.get(k)\<close> and \<open>d.get(k, dflt)\<close>.\<close>

definition dget_or :: "pdict \<Rightarrow> string \<Rightarrow> pv \<Rightarrow> pv" where
  "dget_or d k dflt = (case map_of d k of None \<Rightarrow> dflt | Some v \<Rightarrow> v)"

text \<open>\<open>d[k] = v\<close>: an existing key keeps its position.\<close>

fun dset :: "pdict \<Rightarrow> string \<Rightarrow> pv \<Rightarrow> pdict" where
  "dset [] k v = [(k, v)]"
| "dset ((k', v') # d) k v = (if k' = k then (k, v) # d else (k', v') # dset d k v)"

definition dpop :: "pdict \<Rightarrow> string \<Rightarrow> pdict" where
  "dpop d k = filter (\<lambda>kv. fst kv \<noteq> k) d"

text \<open>\<open>{**a, **b}\<close>.\<close>

definition dmerge :: "pdict \<Rightarrow> pdict \<Rightarrow> pdict" where
  "dmerge a b = foldl (\<lambda>d kv. dset d (fst kv) (snd kv)) a b"

definition dhas :: "pdict \<Rightarrow> string \<Rightarrow> bool" where
  "dhas d k = (map_of d k \<noteq> None)"

lemma map_of_dset [simp]: "map_of (dset d k v) = (map_of d)(k \<mapsto> v)"
  by (induction d k v rule: dset.induct) auto

lemma map_of_dpop [simp]: "map_of (dpop d k) = (map_of d)(k := None)"
  by (induction d) (auto simp: dpop_def fun_eq_iff)

lemma map_of_dmerge: "map_of (dmerge a b) = map_of a ++ map_of (rev b)"
  by (induction b rule: rev_induct) (auto simp: dmerge_def fun_eq_iff map_add_def)

lemma set_fst_dset [simp]: "fst ` set (dset d k v) = insert k (fst ` set d)"
  by (induction d k v rule: dset.induct) auto

lemma distinct_dset: "distinct (map fst d) \<Longrightarrow> distinct (map fst (dset d k v))"
  by (induction d k v rule: dset.induct) auto

lemma distinct_dmerge: "distinct (map fst a) \<Longrightarrow> distinct (map fst (dmerge a b))"
  by (induction b rule: rev_induct) (auto simp: dmerge_def distinct_dset)

lemma dget_or_simps [simp]:
  "dget_or [] k u = u"
  "dget_or ((k', v) # d) k u = (if k' = k then v else dget_or d k u)"
  by (simp_all add: dget_or_def)

lemma dget_simps [simp]:
  "dget [] k = None"
  "dget ((k', v) # d) k = (if k' = k then Some v else dget d k)"
  by (simp_all add: dget_def)

text \<open>\<open>x.get(k)\<close> on a value that must be a dictionary.\<close>

fun as_dict :: "pv \<Rightarrow> pdict option" where
  "as_dict (PDict d) = Some d"
| "as_dict _ = None"

fun as_list :: "pv \<Rightarrow> pv list option" where
  "as_list (PList vs) = Some vs"
| "as_list _ = None"

fun as_str :: "pv \<Rightarrow> string option" where
  "as_str (PStr s) = Some s"
| "as_str _ = None"

definition is_dict :: "pv \<Rightarrow> bool" where
  "is_dict v = (as_dict v \<noteq> None)"

section \<open>Truth, text and integers of a value\<close>

fun truthy :: "pv \<Rightarrow> bool" where
  "truthy PNone = False"
| "truthy (PBool b) = b"
| "truthy (PInt i) = (i \<noteq> 0)"
| "truthy (PFloat r _) = (r \<noteq> ''0.0'' \<and> r \<noteq> ''-0.0'')"
| "truthy (PStr s) = (s \<noteq> [])"
| "truthy (PList vs) = (vs \<noteq> [])"
| "truthy (PTup vs) = (vs \<noteq> [])"
| "truthy (PDict d) = (d \<noteq> [])"

fun join :: "string \<Rightarrow> string list \<Rightarrow> string" where
  "join sep [] = []"
| "join sep [x] = x"
| "join sep (x # y # xs) = x @ sep @ join sep (y # xs)"

text \<open>\<open>repr\<close> of a string, and \<open>str\<close> and \<open>repr\<close> of a value.\<close>

definition repr_char :: "char \<Rightarrow> char \<Rightarrow> string" where
  "repr_char q c = (let n = (of_char c :: nat) in
     if c = q \<or> n = 92 then [CHR 0x5C, c]
     else if n = 9 then [CHR 0x5C, CHR ''t'']
     else if n = 10 then [CHR 0x5C, CHR ''n'']
     else if n = 13 then [CHR 0x5C, CHR ''r'']
     else if n < 32 \<or> n = 127 then [CHR 0x5C, CHR ''x'', hex_char (n div 16), hex_char (n mod 16)]
     else [c])"

definition str_repr :: "string \<Rightarrow> string" where
  "str_repr s =
     (let sq = CHR 0x27; dq = CHR 0x22;
          q = (if sq \<in> set s \<and> dq \<notin> set s then dq else sq)
      in q # concat (map (repr_char q) s) @ [q])"

fun py_repr :: "pv \<Rightarrow> string" where
  "py_repr PNone = ''None''"
| "py_repr (PBool b) = (if b then ''True'' else ''False'')"
| "py_repr (PInt i) = int_str i"
| "py_repr (PFloat r _) = r"
| "py_repr (PStr s) = str_repr s"
| "py_repr (PList vs) = ''['' @ join '', '' (map py_repr vs) @ '']''"
| "py_repr (PTup vs) =
     ''('' @ join '', '' (map py_repr vs) @ (if length vs = 1 then '',)'' else '')'')"
| "py_repr (PDict d) =
     ''{'' @ join '', '' (map (\<lambda>kv. str_repr (fst kv) @ '': '' @ py_repr (snd kv)) d) @ ''}''"

definition py_str :: "pv \<Rightarrow> string" where
  "py_str v = (case v of PStr s \<Rightarrow> s | _ \<Rightarrow> py_repr v)"

lemma py_str_PStr [simp]: "py_str (PStr s) = s"
  by (simp add: py_str_def)

text \<open>\<open>d[k]\<close>, and the use of a value as a mapping (its method \<open>get\<close>).\<close>

definition need :: "pdict \<Rightarrow> string \<Rightarrow> pv res" where
  "need d k = (case map_of d k of None \<Rightarrow> Inl (KeyError (str_repr k)) | Some v \<Rightarrow> Inr v)"

fun need_dict :: "pv \<Rightarrow> pdict res" where
  "need_dict (PDict d) = Inr d"
| "need_dict _ = Inl (AttributeError ''get'')"

text \<open>
  \<open>int(text)\<close> in base ten: surrounding white space, one sign, digits with single underscores
  between them. \<^term>\<open>None\<close> is the \<open>ValueError\<close>.
\<close>

fun parse_digits :: "string \<Rightarrow> nat \<Rightarrow> nat option" where
  "parse_digits [] acc = Some acc"
| "parse_digits (c # cs) acc =
     (if is_digit c then parse_digits cs (10 * acc + digit_val c)
      else if c = CHR ''_'' then
        (case cs of d # _ \<Rightarrow> if is_digit d then parse_digits cs acc else None | [] \<Rightarrow> None)
      else None)"

definition parse_nat :: "string \<Rightarrow> nat option" where
  "parse_nat s = (case s of c # _ \<Rightarrow> if is_digit c then parse_digits s 0 else None | [] \<Rightarrow> None)"

definition parse_int :: "string \<Rightarrow> int option" where
  "parse_int s =
     (case strip s of
        [] \<Rightarrow> None
      | c # cs \<Rightarrow>
          if c = CHR ''-'' then map_option (\<lambda>n. - int n) (parse_nat cs)
          else if c = CHR ''+'' then map_option int (parse_nat cs)
          else map_option int (parse_nat (c # cs)))"

text \<open>\<open>int(x)\<close>: \<open>ValueError\<close> and \<open>OverflowError\<close> of bad text and non-finite floats, \<open>TypeError\<close> otherwise.\<close>

fun py_int :: "pv \<Rightarrow> int res" where
  "py_int (PBool b) = Inr (if b then 1 else 0)"
| "py_int (PInt i) = Inr i"
| "py_int (PFloat r (Some n)) = Inr n"
| "py_int (PFloat r None) = Inl (ValueError ''cannot convert float to integer'')"
| "py_int (PStr s) =
     (case parse_int s of Some i \<Rightarrow> Inr i
      | None \<Rightarrow> Inl (ValueError ''invalid literal for int() with base 10''))"
| "py_int _ = Inl (TypeError ''int() argument must be a string or a number'')"

section \<open>Equality and ordering\<close>

text \<open>
  \<open>a == b\<close>: \<open>True\<close> and \<open>False\<close> are the integers 1 and 0, dictionaries are equal up to the order of
  their items.
\<close>

fun pnorm :: "pv \<Rightarrow> pv" where
  "pnorm (PBool b) = PInt (if b then 1 else 0)"
| "pnorm (PList vs) = PList (map pnorm vs)"
| "pnorm (PTup vs) = PTup (map pnorm vs)"
| "pnorm (PDict d) = PDict (sort_key fst (map (\<lambda>kv. (fst kv, pnorm (snd kv))) d))"
| "pnorm v = v"

definition py_eq :: "pv \<Rightarrow> pv \<Rightarrow> bool" where
  "py_eq a b = (pnorm a = pnorm b)"

lemma py_eq_refl [simp]: "py_eq a a"
  by (simp add: py_eq_def)

lemma py_eq_PStr [simp]: "py_eq (PStr s) v \<longleftrightarrow> v = PStr s" "py_eq v (PStr s) \<longleftrightarrow> v = PStr s"
  by (cases v; auto simp: py_eq_def)+

text \<open>\<open>iter(v)\<close> and \<open>set(v)\<close>; a set is kept as the list of its elements.\<close>

fun py_iter :: "pv \<Rightarrow> pv list res" where
  "py_iter (PList vs) = Inr vs"
| "py_iter (PTup vs) = Inr vs"
| "py_iter (PDict d) = Inr (map (PStr \<circ> fst) d)"
| "py_iter (PStr s) = Inr (map (\<lambda>c. PStr [c]) s)"
| "py_iter _ = Inl (TypeError ''object is not iterable'')"

fun hashable :: "pv \<Rightarrow> bool" where
  "hashable (PList vs) = False"
| "hashable (PDict d) = False"
| "hashable (PTup vs) = (\<forall>v \<in> set vs. hashable v)"
| "hashable _ = True"

definition py_set :: "pv \<Rightarrow> pv list res" where
  "py_set v = ebind (py_iter v) (\<lambda>vs.
     if list_all hashable vs then Inr vs else Inl (TypeError ''unhashable type''))"

section \<open>Canonical JSON\<close>

definition jesc :: "char \<Rightarrow> string" where
  "jesc c = (let n = (of_char c :: nat); b = CHR 0x5C in
     if n = 34 \<or> n = 92 then [b, c]
     else if n = 10 then [b, CHR ''n'']
     else if n = 13 then [b, CHR ''r'']
     else if n = 9 then [b, CHR ''t'']
     else if n = 8 then [b, CHR ''b'']
     else if n = 12 then [b, CHR ''f'']
     else if n < 32 \<or> n > 126 then
       [b, CHR ''u'', CHR ''0'', CHR ''0'', hex_char (n div 16), hex_char (n mod 16)]
     else [c])"

text \<open>The same on the bits of the character, for evaluation.\<close>

lemma jesc_code [code]:
  "jesc (Char b0 b1 b2 b3 b4 b5 b6 b7) =
     (let c = Char b0 b1 b2 b3 b4 b5 b6 b7; b = CHR 0x5C in
      if \<not> b7 \<and> (b6 \<or> b5) \<and> c \<noteq> CHR 0x22 \<and> c \<noteq> CHR 0x5C \<and> c \<noteq> CHR 0x7F then [c]
      else if c = CHR 0x22 \<or> c = CHR 0x5C then [b, c]
      else if c = CHR 0x0A then [b, CHR ''n'']
      else if c = CHR 0x0D then [b, CHR ''r'']
      else if c = CHR 0x09 then [b, CHR ''t'']
      else if c = CHR 0x08 then [b, CHR ''b'']
      else if c = CHR 0x0C then [b, CHR ''f'']
      else [b, CHR ''u'', CHR ''0'', CHR ''0'', hex_char (of_char c div 16), hex_char (of_char c mod 16)])"
  by (cases b0; cases b1; cases b2; cases b3; cases b4; cases b5; cases b6; cases b7;
      simp add: jesc_def)

definition dquote :: char where
  "dquote = CHR 0x22"

definition jstr :: "string \<Rightarrow> string" where
  "jstr s = dquote # concat (map jesc s) @ [dquote]"

text \<open>\<open>json.dumps(v, sort_keys=True, separators=(isep, ksep))\<close>.\<close>

fun jdumps :: "string \<Rightarrow> string \<Rightarrow> pv \<Rightarrow> string" where
  "jdumps isep ksep PNone = ''null''"
| "jdumps isep ksep (PBool b) = (if b then ''true'' else ''false'')"
| "jdumps isep ksep (PInt i) = int_str i"
| "jdumps isep ksep (PFloat r _) = r"
| "jdumps isep ksep (PStr s) = jstr s"
| "jdumps isep ksep (PList vs) = ''['' @ join isep (map (jdumps isep ksep) vs) @ '']''"
| "jdumps isep ksep (PTup vs) = ''['' @ join isep (map (jdumps isep ksep) vs) @ '']''"
| "jdumps isep ksep (PDict d) =
     ''{'' @ join isep (map (\<lambda>kt. jstr (fst kt) @ ksep @ snd kt)
       (sort_key fst (map (\<lambda>kv. (fst kv, jdumps isep ksep (snd kv))) d))) @ ''}''"

definition canonical :: "pv \<Rightarrow> string" where
  "canonical v = jdumps '','' '':'' v"

text \<open>\<open>json.dumps(v)\<close> without \<open>sort_keys\<close>: the items in their order.\<close>

fun jtext :: "pv \<Rightarrow> string" where
  "jtext (PList vs) = ''['' @ join '', '' (map jtext vs) @ '']''"
| "jtext (PTup vs) = ''['' @ join '', '' (map jtext vs) @ '']''"
| "jtext (PDict d) = ''{'' @ join '', '' (map (\<lambda>kv. jstr (fst kv) @ '': '' @ jtext (snd kv)) d) @ ''}''"
| "jtext v = jdumps '', '' '': '' v"

text \<open>What a value is after a JSON round trip: tuples become lists; keys are sorted by \<open>sort_keys\<close>.\<close>

fun jnorm :: "pv \<Rightarrow> pv" where
  "jnorm (PList vs) = PList (map jnorm vs)"
| "jnorm (PTup vs) = PList (map jnorm vs)"
| "jnorm (PDict d) = PDict (sort_key fst (map (\<lambda>kv. (fst kv, jnorm (snd kv))) d))"
| "jnorm v = v"

fun nofloat :: "pv \<Rightarrow> bool" where
  "nofloat (PFloat _ _) = False"
| "nofloat (PList vs) = (\<forall>v \<in> set vs. nofloat v)"
| "nofloat (PTup vs) = (\<forall>v \<in> set vs. nofloat v)"
| "nofloat (PDict d) = (\<forall>kv \<in> set d. nofloat (snd kv))"
| "nofloat _ = True"

subsection \<open>The canonical text determines the value\<close>

text \<open>The text of a normalised value, without sorting.\<close>

fun enc :: "pv \<Rightarrow> string" where
  "enc PNone = ''null''"
| "enc (PBool b) = (if b then ''true'' else ''false'')"
| "enc (PInt i) = int_str i"
| "enc (PFloat r _) = r"
| "enc (PStr s) = jstr s"
| "enc (PList vs) = ''['' @ join '','' (map enc vs) @ '']''"
| "enc (PTup vs) = ''['' @ join '','' (map enc vs) @ '']''"
| "enc (PDict d) =
     ''{'' @ join '','' (map (\<lambda>kv. jstr (fst kv) @ '':'' @ enc (snd kv)) d) @ ''}''"

lemma map_of_sort_key:
  fixes d :: "('a :: linorder \<times> 'b) list"
  assumes "distinct (map fst d)"
  shows "map_of (sort_key fst d) = map_of d"
proof (rule map_of_inject_set [THEN iffD2])
  show "distinct (map fst (sort_key fst d))" using assms by (simp add: distinct_map)
qed (use assms in simp_all)

lemma sort_key_map_snd:
  "sort_key fst (map (\<lambda>kv. (fst kv, g (snd kv))) d) =
   map (\<lambda>kv. (fst kv, g (snd kv))) (sort_key fst d)"
proof (induction d)
  case (Cons a d)
  have ins: "insort_key fst (fst a, g (snd a)) (map (\<lambda>kv. (fst kv, g (snd kv))) xs) =
    map (\<lambda>kv. (fst kv, g (snd kv))) (insort_key fst a xs)" for xs
    by (induction xs) auto
  show ?case by (simp add: Cons ins)
qed simp

lemma canonical_enc: "canonical v = enc (jnorm v)"
proof -
  have "jdumps '','' '':'' v = enc (jnorm v)"
  proof (induction v rule: jnorm.induct)
    case (1 vs)
    then have "map (jdumps '','' '':'') vs = map enc (map jnorm vs)" by simp
    then show ?case by (simp only: jdumps.simps jnorm.simps enc.simps)
  next
    case (2 vs)
    then have "map (jdumps '','' '':'') vs = map enc (map jnorm vs)" by simp
    then show ?case by (simp only: jdumps.simps jnorm.simps enc.simps)
  next
    case (3 d)
    have *: "map (\<lambda>kv. (fst kv, jdumps '','' '':'' (snd kv))) d =
        map (\<lambda>kv. (fst kv, enc (snd kv))) (map (\<lambda>kv. (fst kv, jnorm (snd kv))) d)"
      using 3 by auto
    show ?case
      by (simp only: jdumps.simps jnorm.simps enc.simps * sort_key_map_snd [where g = enc])
        (simp add: comp_def)
  qed simp_all
  then show ?thesis by (simp add: canonical_def)
qed

lemma hex_char_inj: "a < 16 \<Longrightarrow> b < 16 \<Longrightarrow> hex_char a = hex_char b \<longleftrightarrow> a = b"
  by (metis hex_val_char option.inject)

text \<open>Reading one escaped character back.\<close>

definition unesc :: "string \<Rightarrow> char \<times> string" where
  "unesc s = (case s of [] \<Rightarrow> (dquote, [])
   | c # r \<Rightarrow>
     if c \<noteq> CHR 0x5C then (c, r)
     else (case r of [] \<Rightarrow> (dquote, [])
       | e # t \<Rightarrow>
         if e = CHR ''n'' then (char_of (10::nat), t)
         else if e = CHR ''r'' then (char_of (13::nat), t)
         else if e = CHR ''t'' then (char_of (9::nat), t)
         else if e = CHR ''b'' then (char_of (8::nat), t)
         else if e = CHR ''f'' then (char_of (12::nat), t)
         else if e = CHR ''u'' then
           (char_of (16 * the (hex_val (t ! 2)) + the (hex_val (t ! 3))), drop 4 t)
         else (e, t)))"

lemma unesc_jesc: "unesc (jesc c @ x) = (c, x)"
proof -
  let ?n = "of_char c :: nat"
  have b: "?n < 256" by (rule of_char_less_256)
  then have h: "?n div 16 < 16" by arith
  consider "?n = 34 \<or> ?n = 92" | "?n \<in> {10, 13, 9, 8, 12}"
    | "?n \<notin> {34, 92, 10, 13, 9, 8, 12}" "?n < 32 \<or> ?n > 126"
    | "?n \<notin> {34, 92, 10, 13, 9, 8, 12}" "\<not> (?n < 32 \<or> ?n > 126)"
    by blast
  then show ?thesis
  proof cases
    case 1
    then show ?thesis by (auto simp: jesc_def unesc_def)
  next
    case 2
    then show ?thesis by (auto simp: jesc_def unesc_def intro: char_of_eqI)
  next
    case 3
    then have j: "jesc c = [CHR 0x5C, CHR ''u'', CHR ''0'', CHR ''0'',
        hex_char (?n div 16), hex_char (?n mod 16)]"
      by (simp add: jesc_def Let_def)
    from h show ?thesis by (simp add: j unesc_def)
  next
    case 4
    then have "jesc c = [c]" and "c \<noteq> CHR 0x5C" by (auto simp: jesc_def Let_def)
    then show ?thesis by (simp add: unesc_def)
  qed
qed

lemma jesc_prefix: "jesc c @ x = jesc d @ y \<Longrightarrow> c = d \<and> x = y"
  by (metis unesc_jesc prod.inject)

lemma jesc_not_quote: "jesc c @ x \<noteq> dquote # y"
  by (auto simp: jesc_def dquote_def Let_def)

lemma jstr_body_prefix:
  "concat (map jesc s) @ dquote # r = concat (map jesc t) @ dquote # r' \<Longrightarrow> s = t \<and> r = r'"
proof (induction s arbitrary: t)
  case Nil
  then show ?case
    by (cases t) (auto simp: jesc_not_quote [symmetric])
next
  case (Cons c s)
  show ?case
  proof (cases t)
    case Nil
    with Cons.prems show ?thesis by (auto simp: jesc_not_quote)
  next
    case (Cons d t')
    with Cons.prems have "jesc c @ (concat (map jesc s) @ dquote # r) =
        jesc d @ (concat (map jesc t') @ dquote # r')" by simp
    then have "c = d" and "concat (map jesc s) @ dquote # r = concat (map jesc t') @ dquote # r'"
      by (auto dest: jesc_prefix)
    with Cons.IH Cons show ?thesis by blast
  qed
qed

lemma jstr_prefix: "jstr s @ r = jstr t @ r' \<Longrightarrow> s = t \<and> r = r'"
  by (rule jstr_body_prefix) (simp add: jstr_def)

text \<open>What may follow a value inside a document.\<close>

definition delim :: "string \<Rightarrow> bool" where
  "delim r = (r = [] \<or> hd r \<in> {CHR '','', CHR '']'', CHR ''}''})"

lemma delim_simps [simp]:
  "delim []" "delim (CHR '','' # r)" "delim (CHR '']'' # r)" "delim (CHR ''}'' # r)"
  by (simp_all add: delim_def)

lemma delim_not_digit: "delim r \<Longrightarrow> r = [] \<or> \<not> is_digit (hd r)"
  by (auto simp: delim_def is_digit_def)

lemma digits_prefix:
  assumes "s @ r = t @ r'" "\<forall>c \<in> set s. is_digit c" "\<forall>c \<in> set t. is_digit c" "delim r" "delim r'"
  shows "s = t \<and> r = r'"
proof -
  have tw: "takeWhile is_digit (u @ q) = u" if "\<forall>c \<in> set u. is_digit c" "delim q" for u q
    using that delim_not_digit [OF that(2)] by (cases q) (auto simp: takeWhile_append)
  have "s = t" using tw [OF assms(2,4)] tw [OF assms(3,5)] assms(1) by simp
  with assms(1) show ?thesis by simp
qed

lemma nat_str_hd_minus: "nat_str n @ r \<noteq> CHR ''-'' # x"
proof
  assume "nat_str n @ r = CHR ''-'' # x"
  then have "hd (nat_str n) = CHR ''-''"
    by (metis hd_append2 list.sel(1) nat_str_not_Nil)
  then show False
    by (metis hd_in_set nat_str_digits nat_str_not_Nil not_is_digit_minus)
qed

lemma int_str_prefix:
  assumes "int_str i @ r = int_str j @ r'" "delim r" "delim r'"
  shows "i = j \<and> r = r'"
proof -
  have n: "m = n \<and> r = r'" if "nat_str m @ r = nat_str n @ r'" for m n
    using digits_prefix [OF that] assms(2,3) nat_str_digits by (metis nat_str_inj)
  show ?thesis
    using assms(1) nat_str_hd_minus nat_str_hd_minus [symmetric]
    by (auto simp: int_str_def eq_nat_nat_iff split: if_splits dest: n)
qed

text \<open>The first character tells the shape of a value.\<close>

lemma int_str_hd: "\<exists>c s. int_str i = c # s \<and> (c = CHR ''-'' \<or> is_digit c)"
proof (cases "i < 0")
  case False
  then obtain c s where "int_str i = c # s"
    by (metis int_str_def nat_str_not_Nil neq_Nil_conv)
  with False show ?thesis
    by (metis int_str_def list.set_intros(1) nat_str_digits)
qed (simp add: int_str_def)

text \<open>Normal values: what \<^const>\<open>jnorm\<close> yields from values without floats.\<close>

fun jnormal :: "pv \<Rightarrow> bool" where
  "jnormal (PFloat _ _) = False"
| "jnormal (PTup _) = False"
| "jnormal (PList vs) = (\<forall>v \<in> set vs. jnormal v)"
| "jnormal (PDict d) = (\<forall>kv \<in> set d. jnormal (snd kv))"
| "jnormal _ = True"

lemma jnormal_jnorm: "nofloat v \<Longrightarrow> jnormal (jnorm v)"
  by (induction v rule: jnorm.induct) auto

lemma enc_hd: "jnormal v \<Longrightarrow> \<exists>c s. enc v = c # s \<and> c \<noteq> CHR '']'' \<and> c \<noteq> CHR ''}'' \<and> c \<noteq> CHR '','' "
  using int_str_hd [of "case v of PInt i \<Rightarrow> i | _ \<Rightarrow> 0"]
  by (cases v) (auto simp: jstr_def dquote_def is_digit_def)

lemma join_Cons: "join sep (x # xs) = x @ (if xs = [] then [] else sep @ join sep xs)"
  by (cases xs) auto

text \<open>
  A separated sequence of self-delimiting texts, closed by a character that no text starts with,
  determines the sequence: shared by lists and dictionaries.
\<close>

lemma join_prefix:
  assumes "join '','' (map f xs) @ cl # r = join '','' (map f ys) @ cl # r'"
    and "\<And>x y r r'. x \<in> set xs \<Longrightarrow> y \<in> set ys \<Longrightarrow> delim r \<Longrightarrow> delim r' \<Longrightarrow>
      f x @ r = f y @ r' \<Longrightarrow> x = y \<and> r = r'"
    and "\<And>x. x \<in> set xs \<union> set ys \<Longrightarrow> \<exists>c s. f x = c # s \<and> c \<noteq> cl"
    and "cl \<noteq> CHR '',''" and "\<And>r. delim (cl # r)"
  shows "xs = ys \<and> r = r'"
  using assms(1-3)
proof (induction xs arbitrary: ys)
  case Nil
  show ?case
  proof (cases ys)
    case (Cons y ys')
    with Nil.prems(3) obtain c s where "f y = c # s" "c \<noteq> cl" by force
    with Nil.prems(1) Cons show ?thesis by (simp add: join_Cons)
  qed (use Nil.prems(1) in simp)
next
  case (Cons x xs)
  show ?case
  proof (cases ys)
    case Nil
    with Cons.prems(3) obtain c s where "f x = c # s" "c \<noteq> cl" by force
    with Cons.prems(1) Nil show ?thesis by (simp add: join_Cons)
  next
    case ys: (Cons y ys')
    define tl where "tl zs q = (if zs = [] then [] else CHR '','' # join '','' (map f zs)) @ cl # q"
      for zs q
    have "delim (tl zs q)" for zs q by (simp add: tl_def assms(5))
    moreover have "f x @ tl xs r = f y @ tl ys' r'"
      using Cons.prems(1) ys by (auto simp: join_Cons tl_def split: if_splits)
    ultimately have "x = y" and tls: "tl xs r = tl ys' r'"
      using Cons.prems(2) [of x y "tl xs r" "tl ys' r'"] ys by auto
    show ?thesis
    proof (cases "xs = [] \<or> ys' = []")
      case True
      with tls assms(4) \<open>x = y\<close> ys show ?thesis by (auto simp: tl_def split: if_splits)
    next
      case False
      with tls have "join '','' (map f xs) @ cl # r = join '','' (map f ys') @ cl # r'"
        by (simp add: tl_def)
      then have "xs = ys' \<and> r = r'"
        by (rule Cons.IH) (use Cons.prems(2,3) ys in auto)
      with \<open>x = y\<close> ys show ?thesis by simp
    qed
  qed
qed

lemma enc_prefix:
  "jnormal v \<Longrightarrow> jnormal w \<Longrightarrow> delim r \<Longrightarrow> delim r' \<Longrightarrow> enc v @ r = enc w @ r' \<Longrightarrow>
    v = w \<and> r = r'"
proof (induction v arbitrary: w r r')
  case (PInt i)
  then show ?case
    using int_str_hd [of i] int_str_prefix [of i r]
    by (cases w) (auto simp: jstr_def dquote_def is_digit_def split: if_splits)
next
  case (PStr s)
  then show ?case
    using int_str_hd [of "case w of PInt i \<Rightarrow> i | _ \<Rightarrow> 0"] jstr_prefix [of s r]
    by (cases w) (auto simp: jstr_def dquote_def is_digit_def split: if_splits)
next
  case (PList vs)
  show ?case
  proof (cases "\<exists>ws. w = PList ws")
    case True
    then obtain ws where w: "w = PList ws" ..
    have "join '','' (map enc vs) @ CHR '']'' # r = join '','' (map enc ws) @ CHR '']'' # r'"
      using PList.prems(5) w by simp
    then have "vs = ws \<and> r = r'"
    proof (rule join_prefix)
      fix x y q q'
      assume "x \<in> set vs" "y \<in> set ws" "delim q" "delim q'" "enc x @ q = enc y @ q'"
      with PList.prems(1,2) w show "x = y \<and> q = q'"
        by (intro PList.IH) auto
    qed (use PList.prems(1,2) w in \<open>auto dest!: enc_hd\<close>)
    with w show ?thesis by simp
  next
    case False
    then show ?thesis
      using PList.prems int_str_hd [of "case w of PInt i \<Rightarrow> i | _ \<Rightarrow> 0"]
      by (cases w) (auto simp: jstr_def dquote_def is_digit_def split: if_splits)
  qed
next
  case (PDict d)
  show ?case
  proof (cases "\<exists>e. w = PDict e")
    case True
    then obtain e where w: "w = PDict e" ..
    let ?f = "\<lambda>kv. jstr (fst kv) @ '':'' @ enc (snd kv)"
    have "join '','' (map ?f d) @ CHR ''}'' # r = join '','' (map ?f e) @ CHR ''}'' # r'"
      using PDict.prems(5) w by simp
    then have "d = e \<and> r = r'"
    proof (rule join_prefix)
      fix x y q q'
      assume "x \<in> set d" "y \<in> set e" "delim q" "delim q'" and eq: "?f x @ q = ?f y @ q'"
      from eq have k: "fst x = fst y" and v: "enc (snd x) @ q = enc (snd y) @ q'"
        using jstr_prefix [of "fst x" "'':'' @ enc (snd x) @ q" "fst y" "'':'' @ enc (snd y) @ q'"]
        by auto
      have "snd x = snd y \<and> q = q'"
        by (rule PDict.IH [of x "snd x"])
          (use \<open>x \<in> set d\<close> \<open>y \<in> set e\<close> PDict.prems(1,2) w v \<open>delim q\<close> \<open>delim q'\<close> in
            \<open>auto simp: snds.simps\<close>)
      with k show "x = y \<and> q = q'" by (simp add: prod_eq_iff)
    qed (auto simp: jstr_def dquote_def)
    with w show ?thesis by simp
  next
    case False
    then show ?thesis
      using PDict.prems int_str_hd [of "case w of PInt i \<Rightarrow> i | _ \<Rightarrow> 0"]
      by (cases w) (auto simp: jstr_def dquote_def is_digit_def split: if_splits)
  qed
next
  case PNone
  then show ?case
    using int_str_hd [of "case w of PInt i \<Rightarrow> i | _ \<Rightarrow> 0"]
    by (cases w) (auto simp: jstr_def dquote_def is_digit_def split: if_splits)
next
  case (PBool b)
  then show ?case
    using int_str_hd [of "case w of PInt i \<Rightarrow> i | _ \<Rightarrow> 0"]
    by (cases w) (auto simp: jstr_def dquote_def is_digit_def split: if_splits)
qed simp_all

lemma canonical_inj:
  assumes "nofloat v" "nofloat w" "canonical v = canonical w"
  shows "jnorm v = jnorm w"
  using enc_prefix [of "jnorm v" "jnorm w" "[]" "[]"] assms
  by (simp add: canonical_enc jnormal_jnorm)

text \<open>For a dictionary: the canonical text determines the value under every key.\<close>

lemma canonical_dict_inj:
  assumes "nofloat (PDict d)" "nofloat (PDict e)" "canonical (PDict d) = canonical (PDict e)"
    and "distinct (map fst d)" "distinct (map fst e)"
  shows "map_option jnorm (map_of d k) = map_option jnorm (map_of e k)"
proof -
  let ?n = "map (\<lambda>kv. (fst kv, jnorm (snd kv)))"
  have "sort_key fst (?n d) = sort_key fst (?n e)"
    using canonical_inj [OF assms(1-3)] by simp
  then have "set (sort_key fst (?n d)) = set (sort_key fst (?n e))" by (simp only:)
  then have "set (?n d) = set (?n e)" by (simp only: set_sort)
  then have "map_of (?n d) = map_of (?n e)"
    using assms(4,5) by (intro map_of_inject_set [THEN iffD2]) (simp_all add: comp_def)
  moreover have "map_of (?n f) k = map_option jnorm (map_of f k)" for f :: pdict
    by (induction f) auto
  ultimately show ?thesis by metis
qed

end
