(* ===== verification/Redaction.thy ===== *)
theory Redaction
  imports PyJson
begin

text \<open>
  \<open>core/redaction.py\<close>: the secret patterns, \<open>redact\<close> and \<open>redact_payload\<close>. The patterns use a
  small part of Python's \<open>re\<close>: literals, character classes with repetition bounds (greedy or lazy),
  alternatives and the word boundary. Their matcher returns every way to match, in the order in
  which the backtracking engine tries them, so the first one is the engine's match; repetition is
  applied to character classes only, which makes the recursion structural.
\<close>

section \<open>The regular expressions in use\<close>

datatype rx =
    Cls "char \<Rightarrow> bool" nat "nat option" bool \<comment> \<open>class, minimum, maximum, greedy\<close>
  | Lit "char \<Rightarrow> char" string \<comment> \<open>case folding, literal\<close>
  | WordB
  | Alt "rx list list"

text \<open>A position: the character before it and the rest of the text.\<close>

type_synonym rpos = "char option \<times> string"

definition is_word :: "char \<Rightarrow> bool" where
  "is_word c = (is_alnum c \<or> c = CHR ''_'')"

fun advance :: "nat \<Rightarrow> rpos \<Rightarrow> rpos" where
  "advance 0 p = p"
| "advance (Suc n) (c, []) = (c, [])"
| "advance (Suc n) (c, d # s) = advance n (Some d, s)"

definition at_boundary :: "rpos \<Rightarrow> bool" where
  "at_boundary p =
     ((case fst p of None \<Rightarrow> False | Some c \<Rightarrow> is_word c) \<noteq>
      (case snd p of [] \<Rightarrow> False | c # _ \<Rightarrow> is_word c))"

fun ends :: "rx \<Rightarrow> rpos \<Rightarrow> rpos list" and ends_seq :: "rx list \<Rightarrow> rpos \<Rightarrow> rpos list"
  and ends_alt :: "rx list list \<Rightarrow> rpos \<Rightarrow> rpos list" where
  "ends (Cls P mn mx greedy) p =
     (let n = length (takeWhile P (snd p)); k = (case mx of None \<Rightarrow> n | Some m \<Rightarrow> min m n);
          ls = [mn ..< Suc k]
      in map (\<lambda>l. advance l p) (if greedy then rev ls else ls))"
| "ends (Lit fold_case l) p =
     (if startswith (map fold_case (snd p)) (map fold_case l) then [advance (length l) p] else [])"
| "ends WordB p = (if at_boundary p then [p] else [])"
| "ends (Alt rss) p = ends_alt rss p"
| "ends_seq [] p = [p]"
| "ends_seq (r # rs) p = concat (map (ends_seq rs) (ends r p))"
| "ends_alt [] p = []"
| "ends_alt (rs # rss) p = ends_seq rs p @ ends_alt rss p"

text \<open>The match at a position, as the number of characters it consumes.\<close>

definition match_at :: "rx list \<Rightarrow> rpos \<Rightarrow> nat option" where
  "match_at rs p = (case ends_seq rs p of [] \<Rightarrow> None | q # _ \<Rightarrow> Some (length (snd p) - length (snd q)))"

text \<open>
  \<open>pattern.sub(repl, text)\<close> for a pattern that never matches the empty text: the leftmost match is
  replaced and the scan goes on behind it. The fuel is the length of the text.
\<close>

fun re_sub :: "nat \<Rightarrow> rx list \<Rightarrow> string \<Rightarrow> rpos \<Rightarrow> string" where
  "re_sub 0 rs repl p = snd p"
| "re_sub (Suc fuel) rs repl (c, []) = []"
| "re_sub (Suc fuel) rs repl (c, d # s) =
     (case match_at rs (c, d # s) of
        Some (Suc n) \<Rightarrow> repl @ re_sub fuel rs repl (advance (Suc n) (c, d # s))
      | _ \<Rightarrow> d # re_sub fuel rs repl (Some d, s))"

definition sub_all :: "rx list \<Rightarrow> string \<Rightarrow> string \<Rightarrow> string" where
  "sub_all rs repl s = re_sub (length s) rs repl (None, s)"

subsection \<open>The patterns of the module\<close>

definition one_of :: "string \<Rightarrow> rx" where
  "one_of cs = Cls (\<lambda>c. c \<in> set cs) 1 (Some 1) True"

definition opt_of :: "string \<Rightarrow> rx" where
  "opt_of cs = Cls (\<lambda>c. c \<in> set cs) 0 (Some 1) True"

definition token_char :: "char \<Rightarrow> bool" where
  "token_char c = (is_alnum c \<or> c = CHR ''_'' \<or> c = CHR ''-'')"

definition quote_chars :: string where
  "quote_chars = [CHR 0x27, CHR 0x22]"

abbreviation ilit :: "string \<Rightarrow> rx" where
  "ilit \<equiv> Lit lower_char"

abbreviation lit :: "string \<Rightarrow> rx" where
  "lit \<equiv> Lit id"

abbreviation spaces :: rx where
  "spaces \<equiv> Cls is_space 0 None True"

definition rx_assignment :: "rx list" where
  "rx_assignment =
     [WordB,
      Alt [[ilit ''api'', opt_of ''_-'', ilit ''key''], [ilit ''access'', opt_of ''_-'', ilit ''key''],
           [ilit ''secret''], [ilit ''password''], [ilit ''passwd''],
           [ilit ''private'', opt_of ''_-'', ilit ''key''], [ilit ''privkey'']],
      spaces, one_of '':='', spaces, opt_of quote_chars,
      Cls (\<lambda>c. \<not> is_space c \<and> c \<notin> set ('',}'' @ quote_chars)) 1 None True]"

definition rx_pem :: "rx list" where
  "rx_pem =
     [lit ''-----BEGIN '', Cls (\<lambda>c. is_upper c \<or> is_digit c \<or> c = CHR '' '') 0 None True,
      lit ''PRIVATE KEY-----'', Cls (\<lambda>c. True) 0 None False,
      lit ''-----END '', Cls (\<lambda>c. is_upper c \<or> is_digit c \<or> c = CHR '' '') 0 None True,
      lit ''PRIVATE KEY-----'']"

definition rx_token :: "string \<Rightarrow> nat \<Rightarrow> rx list" where
  "rx_token prefix n = [WordB, lit prefix, Cls token_char n None True, WordB]"

definition rx_sk :: "rx list" where
  "rx_sk = [WordB, lit ''sk-'', Cls is_alnum 1 (Some 1) True, Cls token_char 7 None True, WordB]"

definition rx_provider_url :: "rx list \<Rightarrow> rx list list \<Rightarrow> rx list" where
  "rx_provider_url host versions =
     [ilit ''http'', opt_of ''sS'', ilit ''://'', Cls (\<lambda>c. \<not> is_space c \<and> c \<noteq> CHR ''/'') 1 None True]
     @ host @ [ilit ''/'', Alt versions, ilit ''/'', Cls token_char 8 None True]"

definition secret_patterns :: "rx list list" where
  "secret_patterns =
     [rx_assignment, rx_pem, rx_token ''sk-ant-'' 16, rx_token ''sk-proj-'' 16, rx_sk,
      rx_token ''gsk_'' 20, rx_token ''nvapi-'' 16, rx_token ''AIza'' 20,
      rx_provider_url [ilit ''.'', Alt [[ilit ''alchemyapi.io''], [ilit ''alchemy.com'']]]
        [[ilit ''v2''], [ilit ''v3'']],
      rx_provider_url [ilit ''.infura.io''] [[ilit ''v3''], [ilit ''v2'']]]"

definition private_value :: "rx list" where
  "private_value =
     [Alt [[ilit ''private'', opt_of ''_-'', ilit ''key''], [ilit ''privkey'']],
      spaces, one_of '':='', spaces, opt_of quote_chars, Alt [[ilit ''0x''], []],
      Cls (\<lambda>c. hex_val c \<noteq> None) 64 (Some 64) True, WordB]"

section \<open>\<open>redact\<close> and \<open>redact_payload\<close>\<close>

definition redact :: "string \<Rightarrow> string" where
  "redact text = sub_all private_value ''[REDACTED]''
     (foldl (\<lambda>t p. sub_all p ''[REDACTED]'' t) text secret_patterns)"

fun redact_payload :: "pv \<Rightarrow> pv" where
  "redact_payload (PStr s) = PStr (redact s)"
| "redact_payload (PList vs) = PList (map redact_payload vs)"
| "redact_payload (PTup vs) = PTup (map redact_payload vs)"
| "redact_payload (PDict d) = PDict (map (\<lambda>kv. (fst kv, redact_payload (snd kv))) d)"
| "redact_payload v = v"

section \<open>Properties\<close>

lemma length_advance [simp]: "length (snd (advance n p)) = length (snd p) - n"
  by (induction n p rule: advance.induct) auto

text \<open>A text in which no pattern matches anywhere is left alone.\<close>

fun no_match :: "rx list \<Rightarrow> rpos \<Rightarrow> bool" where
  "no_match rs (c, []) = True"
| "no_match rs (c, d # s) =
     ((match_at rs (c, d # s) = None \<or> match_at rs (c, d # s) = Some 0) \<and> no_match rs (Some d, s))"

lemma re_sub_no_match: "no_match rs p \<Longrightarrow> re_sub fuel rs repl p = snd p"
proof (induction fuel rs repl p rule: re_sub.induct)
  case (3 fuel rs repl c d s)
  then show ?case by (auto split: option.splits nat.splits)
qed auto

definition secret_free :: "string \<Rightarrow> bool" where
  "secret_free s = (\<forall>p \<in> set (private_value # secret_patterns). no_match p (None, s))"

lemma sub_all_no_match: "no_match p (None, s) \<Longrightarrow> sub_all p repl s = s"
  by (simp add: sub_all_def re_sub_no_match)

lemma redact_secret_free:
  assumes "secret_free s"
  shows "redact s = s"
proof -
  have "foldl (\<lambda>t p. sub_all p ''[REDACTED]'' t) s ps = s" if "set ps \<subseteq> set secret_patterns" for ps
    using that
  proof (induction ps)
    case (Cons p ps)
    then have "sub_all p ''[REDACTED]'' s = s"
      using assms by (intro sub_all_no_match) (auto simp: secret_free_def)
    with Cons show ?case by simp
  qed simp
  then show ?thesis
    using assms by (simp add: redact_def secret_free_def sub_all_no_match)
qed

text \<open>
  A cheap test that no pattern can match: every match begins with one of these words, whatever its case.
\<close>

definition hot_words :: "string list" where
  "hot_words = [''api'', ''acce'', ''secr'', ''pass'', ''priv'', ''----'', ''sk-'', ''gsk_'', ''nvap'', ''aiza'', ''http'']"

definition hot :: "string \<Rightarrow> bool" where
  "hot s = (let t = map lower_char (take 4 s) in list_ex (startswith t) hot_words)"

text \<open>A coarser test on two characters by the bits that do not depend on their case.\<close>

fun hot_pair :: "char \<Rightarrow> char \<Rightarrow> bool" where
  "hot_pair (Char p0 p1 p2 p3 p4 p5 p6 p7) (Char q0 q1 q2 q3 q4 q5 q6 q7) =
     (if p4 then (if p3 then False else (if p2 then False else (if p1 then (if p0 then (if q4 then False else (if
      q3 then (if q2 then False else (if q1 then (if q0 then True else False) else False)) else (if q2 then (if q1
      then False else (if q0 then True else False)) else False))) else False) else (if p0 then False else (if q4
      then (if q3 then False else (if q2 then False else (if q1 then (if q0 then False else True) else False))) else
      (if q3 then False else (if q2 then False else (if q1 then False else (if q0 then True else False))))))))) else
      (if p3 then (if p2 then (if p1 then (if p0 then False else (if q4 then (if q3 then False else (if q2 then (if
      q1 then (if q0 then False else True) else False) else False)) else False)) else (if p0 then (if q4 then False
      else (if q3 then (if q2 then (if q1 then False else (if q0 then True else False)) else False) else False))
      else False)) else (if p1 then False else (if p0 then False else (if q4 then (if q3 then False else (if q2 then
      (if q1 then False else (if q0 then False else True)) else False)) else False)))) else (if p2 then (if p1 then
      (if p0 then (if q4 then (if q3 then False else (if q2 then False else (if q1 then (if q0 then True else False)
      else False))) else False) else False) else False) else (if p1 then False else (if p0 then (if q4 then (if q3
      then False else (if q2 then False else (if q1 then False else (if q0 then False else True)))) else (if q3 then
      (if q2 then False else (if q1 then False else (if q0 then True else False))) else (if q2 then False else (if
      q1 then (if q0 then True else False) else False)))) else False)))))"

fun cold :: "string \<Rightarrow> bool" where
  "cold (c # d # s) = (if hot_pair c d then (if hot (c # d # s) then False else cold (d # s)) else cold (d # s))"
| "cold s = True"

lemma hot_pair_lower: "hot_pair c d = hot_pair (lower_char c) (lower_char d)"
  by (cases c; cases d) (simp del: is_upper_Char)

lemma hot_imp_pair:
  assumes "hot s"
  obtains c d t where "s = c # d # t" "hot_pair c d"
proof -
  from assms obtain w where w: "w \<in> set hot_words" "startswith (map lower_char (take 4 s)) w"
    by (auto simp: hot_def Let_def list_ex_iff)
  then obtain c d t where s: "s = c # d # t" by (cases s; cases "tl s") (auto simp: hot_words_def)
  with w have "hot_pair (lower_char c) (lower_char d)" by (auto simp: hot_words_def)
  with s hot_pair_lower that show thesis by blast
qed

lemma startswith_take_both: "startswith s p \<Longrightarrow> startswith (take n s) (take n p)"
  by (auto simp: startswith_iff)

lemma startswith_map: "startswith s p \<Longrightarrow> startswith (map f s) (map f p)"
  by (auto simp: startswith_iff)

lemma lit_head:
  assumes "startswith (map f s) (map f l)" "f = id \<or> f = lower_char"
  shows "startswith (map lower_char (take 4 s)) (map lower_char (take 4 l))"
proof -
  have "lower_char \<circ> f = lower_char" using assms(2) by (auto simp: fun_eq_iff)
  with startswith_map [OF startswith_take_both [OF assms(1), of 4], of lower_char] show ?thesis
    by (simp add: take_map)
qed

lemma lit_cold:
  assumes "\<not> hot s" "f = id \<or> f = lower_char" "list_ex (\<lambda>w. startswith (map lower_char (take 4 l)) w) hot_words"
  shows "ends (Lit f l) (c, s) = []"
proof -
  have "\<not> startswith (map f s) (map f l)"
  proof
    assume "startswith (map f s) (map f l)"
    from lit_head [OF this assms(2)] assms(3) have "hot s"
      by (force simp: hot_def Let_def list_ex_iff startswith_iff)
    with assms(1) show False by simp
  qed
  then show ?thesis by simp
qed

lemma hot_free_patterns:
  assumes "\<not> hot s" "p \<in> set (private_value # secret_patterns)"
  shows "ends_seq p (c, s) = []"
proof -
  note [simp] = lit_cold [OF assms(1)]
  note [simp del] = ends.simps(2)
  show ?thesis using assms(2)
    by (auto simp: private_value_def secret_patterns_def rx_assignment_def rx_pem_def rx_token_def rx_sk_def
      rx_provider_url_def hot_words_def)
qed

lemma cold_secret_free:
  assumes "cold s"
  shows "secret_free s"
proof -
  have "no_match p (c, s)" if p: "p \<in> set (private_value # secret_patterns)" for p c
    using assms
  proof (induction s arbitrary: c)
    case (Cons d s)
    have "\<not> hot (d # s)"
    proof
      assume "hot (d # s)"
      moreover from this obtain e t where "s = e # t" "hot_pair d e" by (rule hot_imp_pair) simp
      ultimately show False using Cons.prems by simp
    qed
    moreover have "cold s" using Cons.prems by (cases s) (auto split: if_splits)
    ultimately show ?case using Cons.IH hot_free_patterns [OF _ p] by (simp add: match_at_def)
  qed simp
  then show ?thesis by (simp add: secret_free_def)
qed

lemma redact_code [code]:
  "redact text = (if cold text then text else sub_all private_value ''[REDACTED]''
     (foldl (\<lambda>t p. sub_all p ''[REDACTED]'' t) text secret_patterns))"
  by (simp add: redact_secret_free cold_secret_free) (simp add: redact_def)

text \<open>Redaction keeps the shape of a payload: only the texts of its strings change.\<close>

fun shape :: "pv \<Rightarrow> pv" where
  "shape (PStr s) = PStr []"
| "shape (PList vs) = PList (map shape vs)"
| "shape (PTup vs) = PTup (map shape vs)"
| "shape (PDict d) = PDict (map (\<lambda>kv. (fst kv, shape (snd kv))) d)"
| "shape v = v"

lemma shape_redact_payload: "shape (redact_payload v) = shape v"
  by (induction v rule: redact_payload.induct) auto

lemma map_of_map_snd: "map_of (map (\<lambda>kv. (fst kv, f (snd kv))) d) k = map_option f (map_of d k)"
  by (induction d) auto

definition redact_items :: "pdict \<Rightarrow> pdict" where
  "redact_items d = map (\<lambda>kv. (fst kv, redact_payload (snd kv))) d"

lemma map_of_redact_items: "map_of (redact_items d) k = map_option redact_payload (map_of d k)"
  by (simp add: redact_items_def map_of_map_snd)

end
