(* ===== verification/CoreModels.thy ===== *)
theory CoreModels
  imports PyJson
begin

text \<open>
  \<open>core/models.py\<close>: the data model. A pydantic class is a record with the class's fields in their
  order (prefixed, because record fields are global constants); a \<open>StrEnum\<close> or a \<open>Literal\<close> that
  the operations branch on is a datatype; free-form \<open>dict[str, Any]\<close> fields are dynamic values.
  Times are ISO texts or integers of seconds, as the operation that reads them needs. Each
  \<open>..._ok\<close> predicate is the class's field constraints and \<open>model_validator\<close>.
\<close>

section \<open>Lifecycle states and levels\<close>

datatype hstate = OPEN | INVESTIGATING | CONFIRMED | FINDING | CLOSED | CLOSED_DUPLICATE | PARKED | MERGED

fun hstate_value :: "hstate \<Rightarrow> string" where
  "hstate_value OPEN = ''OPEN''"
| "hstate_value INVESTIGATING = ''INVESTIGATING''"
| "hstate_value CONFIRMED = ''CONFIRMED''"
| "hstate_value FINDING = ''FINDING''"
| "hstate_value CLOSED = ''CLOSED''"
| "hstate_value CLOSED_DUPLICATE = ''CLOSED_DUPLICATE''"
| "hstate_value PARKED = ''PARKED''"
| "hstate_value MERGED = ''MERGED''"

definition all_hstates :: "hstate list" where
  "all_hstates = [OPEN, INVESTIGATING, CONFIRMED, FINDING, CLOSED, CLOSED_DUPLICATE, PARKED, MERGED]"

lemma set_all_hstates [simp]: "set all_hstates = UNIV"
proof -
  have "h \<in> set all_hstates" for h by (cases h) (simp_all add: all_hstates_def)
  then show ?thesis by blast
qed

lemma hstate_value_inj [simp]: "hstate_value a = hstate_value b \<longleftrightarrow> a = b"
  by (cases a; cases b; simp)

text \<open>A ladder value: a level, or a text such as \<open>not_applicable\<close>.\<close>

datatype level = LInt int | LStr string

abbreviation not_applicable :: level where
  "not_applicable \<equiv> LStr ''not_applicable''"

text \<open>\<open>int(level)\<close>.\<close>

fun level_int :: "level \<Rightarrow> int res" where
  "level_int (LInt i) = Inr i"
| "level_int (LStr s) = py_int (PStr s)"

type_synonym ladder = "(string \<times> level) list"

datatype witness_class = Deployed_fork | Local_deployment

fun witness_class_value :: "witness_class \<Rightarrow> string" where
  "witness_class_value Deployed_fork = ''deployed_fork''"
| "witness_class_value Local_deployment = ''local_deployment''"

section \<open>Source spans\<close>

record span =
  sp_file :: string
  sp_start :: int
  sp_end :: int
  sp_sha256 :: string

definition span_ok :: "span \<Rightarrow> bool" where
  "span_ok s = (1 \<le> sp_start s \<and> 1 \<le> sp_end s \<and> sp_start s \<le> sp_end s)"

section \<open>Hypotheses\<close>

datatype capability = PERMISSIONLESS | FLASH_LOAN | DONATION | REENTRANCY_HOOK | MALICIOUS_TOKEN
  | ORACLE_MANIP | ORDERING | CROSS_PROTOCOL

record hypothesis =
  h_id :: string
  h_claim :: string
  h_target :: span
  h_invariant_id :: string
  h_capabilities :: "capability list"
  h_preconditions :: "string list"
  h_assumptions :: "string list"
  h_attack_sketch :: "string list"
  h_lens :: "string option"
  h_channel :: string
  h_protocol_type :: string
  h_mechanism_tag :: string
  h_canonical_key :: "string option"
  h_prior_p :: pv
  h_est_impact :: string
  h_est_cost :: string
  h_state :: hstate
  h_ladder :: ladder
  h_witness_feasibility :: string
  h_skeptic_disposition :: string
  h_skeptic_defects :: "pv list"
  h_second_opinion_disposition :: string
  h_second_opinion_defects :: "pv list"
  h_disputed :: bool
  h_dispute :: pv
  h_provenance :: pdict
  h_parked_unblock :: "string option"
  h_close_reason :: "string option"
  h_merged_into :: "string option"
  h_duplicate_of :: "string option"
  h_reopen_count :: nat
  h_parent_hypotheses :: "string list"
  h_composition_rationale :: "string option"
  h_created_at :: string
  h_updated_at :: string

section \<open>Witnesses\<close>

record witness_assertion =
  wa_id :: string
  wa_kind :: string
  wa_target :: string
  wa_operator :: string
  wa_expected :: pv
  wa_observed_record :: string
  wa_actor :: "string option"
  wa_token :: "string option"
  wa_required :: bool

record witness =
  w_witness_class :: witness_class
  w_chain_id :: int
  w_fork_block :: "int option"
  w_commit :: string
  w_compiler :: pdict
  w_test_file :: string
  w_test_name :: string
  w_control_test_name :: string
  w_initial_capital_wei :: int
  w_max_time_advance_s :: int
  w_max_block_advance :: int
  w_declared_actors :: "string list"
  w_declared_tokens :: "string list"
  w_token_decimals :: "(string \<times> int) list"
  w_setup_budget :: "pdict option"
  w_assertions :: "witness_assertion list"
  w_invariant_check_pins :: "(string \<times> string) list"
  w_template_sha256 :: string
  w_attack_body_sha256 :: string
  w_harness_address :: string
  w_harness_create2_salt :: string
  w_harness_create2_deployer :: "string option"
  w_harness_init_code_sha256 :: "string option"
  w_harness_runtime_sha256 :: "string option"
  w_harness_source_path :: "string option"
  w_harness_source_sha256 :: "string option"
  w_wrapper_address :: "string option"
  w_wrapper_runtime_sha256 :: "string option"
  w_wrapper_source_path :: "string option"
  w_wrapper_source_sha256 :: "string option"
  w_expected_wrapper_depth :: int
  w_wrapper_callsite_sha256 :: string
  w_rpc_provider_label :: "string option"
  w_cross_check_provider_label :: "string option"
  w_env_hash :: string

definition witness_ok :: "witness \<Rightarrow> bool" where
  "witness_ok w =
     ((w_witness_class w = Deployed_fork \<longrightarrow> w_fork_block w \<noteq> None) \<and>
      (w_witness_class w = Local_deployment \<longrightarrow> w_setup_budget w \<noteq> None))"

text \<open>Python truth of an optional text: present and not empty.\<close>

definition given :: "string option \<Rightarrow> bool" where
  "given s = (s \<noteq> None \<and> s \<noteq> Some [])"

lemma given_simps [simp]: "\<not> given None" "given (Some s) \<longleftrightarrow> s \<noteq> []"
  by (simp_all add: given_def)

definition required_assertions :: "witness \<Rightarrow> witness_assertion list" where
  "required_assertions w = filter wa_required (w_assertions w)"

section \<open>Scope and known issues\<close>

record scope_target =
  st_id :: string
  st_kind :: string
  st_path :: "string option"
  st_address :: "string option"
  st_contract :: "string option"
  st_rationale :: "string option"

record scope =
  sc_version :: int
  sc_platform :: string
  sc_program_ref :: string
  sc_commit :: string
  sc_prior_commit :: "string option"
  sc_confidentiality :: string
  sc_in_scope :: "scope_target list"
  sc_out_of_scope :: "string list"
  sc_excluded_classes :: "string list"
  sc_dependencies :: "pv list"
  sc_concurrent_programs :: "pv list"
  sc_deployed :: bool
  sc_attacker_capital_wei :: int
  sc_poc_required :: bool
  sc_severity_model_ref :: string

record known_issue =
  ki_id :: string
  ki_title :: string
  ki_claim :: string
  ki_status :: string
  ki_spans :: "span list"
  ki_source :: string
  ki_applies_to :: "string list"

section \<open>Certificates\<close>

record certificate =
  ce_id :: string
  ce_witness_sha256 :: string
  ce_env_hash :: string
  ce_runs :: int
  ce_observed_records_sha256 :: string
  ce_trace_policy_sha256 :: string
  ce_control_sha256 :: string
  ce_cross_check_sha256 :: "string option"
  ce_mac :: string
  ce_issued_at :: string

definition certificate_ok :: "certificate \<Rightarrow> bool" where
  "certificate_ok c = (3 \<le> ce_runs c)"

end
