(* ===== verification/Tokens.thy ===== *)
theory Tokens
  imports PyJson
begin

text \<open>
  \<open>core/interfaces.py\<close> and \<open>driver/run.py\<close>: the driver token, a capability whose fields are
  bound by a MAC under a secret of the process. SHA-256, HMAC and Keccak are arguments of the model
  (the record \<open>host\<close> below, with the process secret): every theorem holds for all functions in
  their place.
\<close>

record host =
  hs_sha256 :: "string \<Rightarrow> string"
  hs_hmac :: "string \<Rightarrow> string \<Rightarrow> string"
  hs_keccak :: "string \<Rightarrow> string"
  hs_driver_secret :: string

record driver_token =
  dt_driver_id :: string
  dt_human_override :: bool
  dt_mac :: string

text \<open>The authenticated text \<open>f"{driver_id}|{int(human_override)}"\<close>.\<close>

definition token_payload :: "string \<Rightarrow> bool \<Rightarrow> string" where
  "token_payload driver_id human_override =
     driver_id @ ''|'' @ (if human_override then ''1'' else ''0'')"

definition mint :: "host \<Rightarrow> string \<Rightarrow> bool \<Rightarrow> driver_token res" where
  "mint H driver_id human_override =
     (if strip driver_id = [] then Inl (ValueError ''driver_id must be non-empty'')
      else Inr \<lparr>dt_driver_id = strip driver_id, dt_human_override = human_override,
                dt_mac = hs_hmac H (hs_driver_secret H)
                  (token_payload (strip driver_id) human_override)\<rparr>)"

definition token_is_valid :: "host \<Rightarrow> driver_token \<Rightarrow> bool" where
  "token_is_valid H t =
     (dt_mac t = hs_hmac H (hs_driver_secret H) (token_payload (dt_driver_id t) (dt_human_override t)))"

text \<open>The issuer capability is an object identity: the flag says whether the caller holds it.\<close>

definition issue_driver_token :: "host \<Rightarrow> string \<Rightarrow> bool \<Rightarrow> bool \<Rightarrow> driver_token res" where
  "issue_driver_token H driver_id human_override holds_issuer_cap =
     (if \<not> holds_issuer_cap then Inl (PermissionError ''invalid driver token issuer'')
      else mint H driver_id human_override)"

definition construct_driver_token :: "host \<Rightarrow> string \<Rightarrow> driver_token res" where
  "construct_driver_token H driver_id = issue_driver_token H driver_id False True"

definition construct_human_override_token :: "host \<Rightarrow> string \<Rightarrow> driver_token res" where
  "construct_human_override_token H reviewer_id = issue_driver_token H reviewer_id True True"

text \<open>
  The check \<open>isinstance(token, DriverToken) and token.is_valid()\<close> of the core operations: any
  other object is \<^term>\<open>None\<close>.
\<close>

definition token_valid :: "host \<Rightarrow> driver_token option \<Rightarrow> bool" where
  "token_valid H tok = (case tok of None \<Rightarrow> False | Some t \<Rightarrow> token_is_valid H t)"

lemma mint_valid: "mint H d ov = Inr t \<Longrightarrow> token_is_valid H t \<and> dt_human_override t = ov"
  by (auto simp: mint_def token_is_valid_def split: if_splits)

lemma token_payload_inj: "token_payload d ov = token_payload d' ov' \<longleftrightarrow> d = d' \<and> ov = ov'"
  by (auto simp: token_payload_def)

text \<open>
  Two texts that a MAC function separates under a key: collision freedom on the texts in question,
  the documented property of HMAC-SHA-256 that the code relies on.
\<close>

definition mac_separates :: "(string \<Rightarrow> string \<Rightarrow> string) \<Rightarrow> string \<Rightarrow> string \<Rightarrow> string \<Rightarrow> bool" where
  "mac_separates hm key m m' = (hm key m = hm key m' \<longrightarrow> m = m')"

lemma token_same_mac:
  assumes "token_is_valid H t" "token_is_valid H t'" "dt_mac t = dt_mac t'"
    and "mac_separates (hs_hmac H) (hs_driver_secret H)
      (token_payload (dt_driver_id t) (dt_human_override t))
      (token_payload (dt_driver_id t') (dt_human_override t'))"
  shows "dt_driver_id t = dt_driver_id t' \<and> dt_human_override t = dt_human_override t'"
  using assms by (simp add: token_is_valid_def mac_separates_def token_payload_inj)

text \<open>Tokens of the two driver constructors: only the human one carries the override.\<close>

lemma driver_token_no_override:
  "construct_driver_token H d = Inr t \<Longrightarrow> token_is_valid H t \<and> \<not> dt_human_override t"
  by (auto simp: construct_driver_token_def issue_driver_token_def dest: mint_valid)

lemma human_token_override:
  "construct_human_override_token H d = Inr t \<Longrightarrow> token_is_valid H t \<and> dt_human_override t"
  by (auto simp: construct_human_override_token_def issue_driver_token_def dest: mint_valid)

end
