(* ===== verification/Samples.thy ===== *)
theory Samples
  imports CoreModels Tokens
begin

text \<open>
  Concrete inputs at which the witnesses of the properties evaluate the model: a host whose hash
  and MAC functions are injective (they return the text itself), driver tokens minted on it, a
  source span, and a hypothesis in a given state.
\<close>

definition sample_host :: host where
  "sample_host = \<lparr>hs_sha256 = (\<lambda>s. s), hs_hmac = (\<lambda>k m. m), hs_keccak = (\<lambda>s. s),
     hs_driver_secret = ''secret''\<rparr>"

definition sample_token :: driver_token where
  "sample_token = \<lparr>dt_driver_id = ''driver'', dt_human_override = False, dt_mac = ''driver|0''\<rparr>"

definition sample_human :: driver_token where
  "sample_human = \<lparr>dt_driver_id = ''alice'', dt_human_override = True, dt_mac = ''alice|1''\<rparr>"

definition sample_span :: span where
  "sample_span = \<lparr>sp_file = ''a.sol'', sp_start = 1, sp_end = 2, sp_sha256 = ''h''\<rparr>"

definition sample_hypothesis :: "hstate \<Rightarrow> hypothesis" where
  "sample_hypothesis s = \<lparr>h_id = ''H-1'', h_claim = ''c'', h_target = sample_span,
     h_invariant_id = ''I-1'', h_capabilities = [PERMISSIONLESS], h_preconditions = [],
     h_assumptions = [], h_attack_sketch = [], h_lens = None, h_channel = ''manual'',
     h_protocol_type = ''vault'', h_mechanism_tag = ''m'', h_canonical_key = None, h_prior_p = PFloat ''0.5'' (Some 0),
     h_est_impact = ''high'', h_est_cost = ''low'', h_state = s, h_ladder = [],
     h_witness_feasibility = ''feasible'', h_skeptic_disposition = ''none'', h_skeptic_defects = [],
     h_second_opinion_disposition = ''none'', h_second_opinion_defects = [], h_disputed = False,
     h_dispute = PNone, h_provenance = [], h_parked_unblock = None, h_close_reason = None,
     h_merged_into = None, h_duplicate_of = None, h_reopen_count = 0, h_parent_hypotheses = [],
     h_composition_rationale = None, h_created_at = ''t0'', h_updated_at = ''t0''\<rparr>"

lemma sample_tokens_valid:
  "token_is_valid sample_host sample_token" "token_is_valid sample_host sample_human"
  by (simp_all add: token_is_valid_def sample_host_def sample_token_def sample_human_def
      token_payload_def)

lemma sample_token_sel [simp]:
  "dt_human_override sample_token = False" "dt_human_override sample_human = True"
  by (simp_all add: sample_token_def sample_human_def)

lemma sample_hypothesis_sel [simp]:
  "h_state (sample_hypothesis s) = s" "h_reopen_count (sample_hypothesis s) = 0"
  "h_ladder (sample_hypothesis s) = []" "h_id (sample_hypothesis s) = ''H-1''"
  by (simp_all add: sample_hypothesis_def)

end
