(* ===== verification/Lifecycle.thy ===== *)
theory Lifecycle
  imports CoreModels Tokens Samples
begin

text \<open>
  \<open>core/lifecycle.py\<close>: the state machine of a hypothesis. \<open>validate_transition\<close> is translated
  check by check, with the source's messages; \<open>required_evidence\<close> is the declarative contract it is
  proved to implement, and \<open>lifecycle_run\<close> the histories it admits.
\<close>

section \<open>The transition table\<close>

fun legal_targets :: "hstate \<Rightarrow> hstate list" where
  "legal_targets OPEN = [INVESTIGATING, PARKED, CLOSED, CLOSED_DUPLICATE]"
| "legal_targets INVESTIGATING = [CONFIRMED, PARKED, CLOSED, CLOSED_DUPLICATE]"
| "legal_targets CONFIRMED = [INVESTIGATING, FINDING, CLOSED_DUPLICATE, PARKED, CLOSED]"
| "legal_targets PARKED = [INVESTIGATING, CLOSED, MERGED]"
| "legal_targets FINDING = [CLOSED, CLOSED_DUPLICATE, MERGED]"
| "legal_targets CLOSED = [INVESTIGATING]"
| "legal_targets CLOSED_DUPLICATE = [INVESTIGATING]"
| "legal_targets MERGED = [INVESTIGATING]"

definition human_only_reopen :: "hstate \<times> hstate \<Rightarrow> bool" where
  "human_only_reopen p =
     (p \<in> {(CLOSED, INVESTIGATING), (CLOSED_DUPLICATE, INVESTIGATING), (MERGED, INVESTIGATING)})"

section \<open>Evidence\<close>

definition clean_evidence :: "string list \<Rightarrow> string list" where
  "clean_evidence evidence = filter (\<lambda>s. s \<noteq> []) (map strip evidence)"

definition has :: "string list \<Rightarrow> string \<Rightarrow> bool" where
  "has evidence prefix =
     list_ex (\<lambda>item. startswith item prefix \<and> strip (drop (length prefix) item) \<noteq> []) evidence"

definition has_any :: "string list \<Rightarrow> string list \<Rightarrow> bool" where
  "has_any evidence prefixes = list_ex (has evidence) prefixes"

text \<open>A sequence of \<open>_require\<close> calls: the first condition that fails raises its message.\<close>

fun requires :: "(bool \<times> string) list \<Rightarrow> unit res" where
  "requires [] = Inr ()"
| "requires ((c, m) # cs) = (if \<not> c then Inl (IllegalTransition m) else requires cs)"

lemma requires_eq_Inr [simp]: "requires cs = Inr u \<longleftrightarrow> (\<forall>c \<in> set cs. fst c)"
  by (induction cs rule: requires.induct) auto

lemma requires_append: "requires (cs @ ds) = ebind (requires cs) (\<lambda>_. requires ds)"
  by (induction cs rule: requires.induct) auto

section \<open>\<open>validate_transition\<close>\<close>

definition reopen_checks :: "driver_token \<Rightarrow> hypothesis \<Rightarrow> string list \<Rightarrow> (bool \<times> string) list" where
  "reopen_checks tok h ev =
     [(dt_human_override tok, ''reopening is human-override only''),
      (has ev ''human_reason:'', ''reopening requires a human reason evidence reference''),
      (has ev ''new_evidence:'', ''reopening requires new evidence''),
      (has ev ''replacement:'', ''reopening requires a replacement evidence reference'')] @
     (if h_reopen_count h \<ge> 3
      then [(has ev ''reviewer2:'', ''a fourth or later reopen requires second-reviewer evidence'')]
      else [])"

definition prefix_checks :: "string \<Rightarrow> string list \<Rightarrow> string list \<Rightarrow> (bool \<times> string) list" where
  "prefix_checks label ev ps = map (\<lambda>p. (has ev p, label @ '' requires '' @ p @ '' evidence'')) ps"

text \<open>The \<open>if\<close>/\<open>elif\<close> chain on the pair of states.\<close>

definition pair_checks :: "string list \<Rightarrow> hstate \<Rightarrow> hstate \<Rightarrow> (bool \<times> string) list" where
  "pair_checks ev old new =
    (case old of
      OPEN \<Rightarrow>
      (case new of
         INVESTIGATING \<Rightarrow>
           [(has ev ''task:'', ''OPEN -> INVESTIGATING requires an assigned task ID''),
            (has_any ev [''scope:'', ''in_scope:''], ''OPEN -> INVESTIGATING requires in-scope evidence'')]
       | PARKED \<Rightarrow>
           [(has_any ev [''assumption:'', ''budget:'', ''human_reason:''],
             ''OPEN -> PARKED requires a blocker assumption, budget reason, or explicit human reason'')]
       | CLOSED \<Rightarrow>
           [(has_any ev [''disproof:'', ''scope:'', ''not_actionable:''],
             ''OPEN -> CLOSED requires falsity, scope, or non-actionable evidence'')]
       | CLOSED_DUPLICATE \<Rightarrow>
           [(has_any ev [''finding:'', ''hypothesis:''],
             ''OPEN -> CLOSED_DUPLICATE requires an existing finding or hypothesis ID''),
            (has ev ''duplicate_reason:'', ''duplicate closure requires duplicate rationale'')]
       | _ \<Rightarrow> [])
    | INVESTIGATING \<Rightarrow>
      (case new of
         CONFIRMED \<Rightarrow>
           prefix_checks ''INVESTIGATING -> CONFIRMED'' ev
             [''execution_l5:'', ''run_receipt:'', ''witness_assertion:'', ''build_pass:'',
              ''ast_pass:'', ''trace_policy_pass:'', ''mechanism_l1:'', ''reachability_l2:''] @
           [(has_any ev [''economics_l5:'', ''impact:''],
             ''CONFIRMED requires economics L5 or an applicable non-financial impact assertion'')]
       | PARKED \<Rightarrow>
           [(has_any ev [''failure:'', ''human_reason:'', ''blocker:''],
             ''INVESTIGATING -> PARKED requires a failure record or explicit blocker'')]
       | CLOSED \<Rightarrow>
           [(has_any ev [''disproof:'', ''scope:'', ''not_actionable:''],
             ''INVESTIGATING -> CLOSED requires invalidating evidence'')]
       | CLOSED_DUPLICATE \<Rightarrow>
           [(has ev ''finding:'', ''INVESTIGATING -> CLOSED_DUPLICATE requires an existing finding ID''),
            (has ev ''duplicate_reason:'', ''duplicate closure requires duplicate rationale'')]
       | _ \<Rightarrow> [])
    | CONFIRMED \<Rightarrow>
      (case new of
         FINDING \<Rightarrow>
           prefix_checks ''CONFIRMED -> FINDING'' ev [''execution_l6:'', ''hard_verifier_pass:''] @
           [(has_any ev [''economics_l6:'', ''impact:''],
             ''FINDING requires economics L6 or an applicable non-financial impact assertion''),
            (has_any ev [''production_l7:'', ''production:not_applicable''],
             ''FINDING requires production L7 or production:not_applicable''),
            (has_any ev [''adjudication:'', ''human_override:''],
             ''FINDING requires adjudication support or a documented human override'')]
       | INVESTIGATING \<Rightarrow>
           [(has ev ''repair:'', ''CONFIRMED -> INVESTIGATING requires a repair code'')]
       | PARKED \<Rightarrow>
           [(has_any ev [''economics:'', ''blocker:'', ''certification_failure:''],
             ''CONFIRMED -> PARKED requires a blocker or certification/economics failure'')]
       | CLOSED \<Rightarrow>
           [(has_any ev [''disproof:'', ''scope:'', ''not_actionable:''],
             ''CONFIRMED -> CLOSED requires invalidating evidence'')]
       | CLOSED_DUPLICATE \<Rightarrow>
           [(has ev ''finding:'', ''CONFIRMED -> CLOSED_DUPLICATE requires an existing finding ID''),
            (has ev ''duplicate_reason:'', ''duplicate closure requires duplicate rationale'')]
       | _ \<Rightarrow> [])
    | PARKED \<Rightarrow>
      (case new of
         INVESTIGATING \<Rightarrow>
           [(has ev ''unblocked:'', ''PARKED -> INVESTIGATING requires unblock evidence'')]
       | CLOSED \<Rightarrow>
           [(has_any ev [''permanent_blocker:'', ''scope:''],
             ''PARKED -> CLOSED requires permanent blocker or scope evidence'')]
       | MERGED \<Rightarrow>
           [(has ev ''parent:'', ''PARKED -> MERGED requires parent hypothesis evidence''),
            (has ev ''replacement:'', ''PARKED -> MERGED requires replacement hypothesis evidence''),
            (has ev ''merge_rationale:'', ''PARKED -> MERGED requires merge rationale'')]
       | _ \<Rightarrow> [])
    | FINDING \<Rightarrow>
      (case new of
         CLOSED \<Rightarrow>
           [(has_any ev [''disproof:'', ''invalidating:'', ''scope:''],
             ''FINDING -> CLOSED requires invalidating evidence'')]
       | CLOSED_DUPLICATE \<Rightarrow>
           [(has ev ''finding:'', ''FINDING -> CLOSED_DUPLICATE requires existing finding ID''),
            (has ev ''duplicate_reason:'', ''duplicate closure requires duplicate rationale'')]
       | MERGED \<Rightarrow>
           [(has ev ''replacement:'', ''FINDING -> MERGED requires replacement finding ID''),
            (has ev ''preserved_evidence:'', ''finding merge requires preserved evidence link'')]
       | _ \<Rightarrow> [])
    | _ \<Rightarrow> [])"

definition validate_transition ::
  "host \<Rightarrow> driver_token option \<Rightarrow> hypothesis \<Rightarrow> hstate \<Rightarrow> string \<Rightarrow> string list \<Rightarrow> unit res" where
  "validate_transition H tok h new_state cause evidence =
     (case tok of
        None \<Rightarrow> Inl (IllegalTransition ''valid driver token required'')
      | Some t \<Rightarrow>
          if \<not> token_is_valid H t then Inl (IllegalTransition ''valid driver token required'')
          else if strip cause = [] then Inl (IllegalTransition ''cause must be non-empty'')
          else let ev = clean_evidence evidence; old = h_state h in
            if ev = [] then
              Inl (IllegalTransition ''every transition requires at least one evidence reference'')
            else if new_state \<notin> set (legal_targets old) then
              Inl (IllegalTransition
                (''illegal transition '' @ hstate_value old @ '' -> '' @ hstate_value new_state))
            else requires
              ((if human_only_reopen (old, new_state) then reopen_checks t h ev else []) @
               pair_checks ev old new_state))"

text \<open>\<open>transition\<close>: \<open>now\<close> is the clock the code reads.\<close>

definition transition ::
  "host \<Rightarrow> string \<Rightarrow> driver_token option \<Rightarrow> hypothesis \<Rightarrow> hstate \<Rightarrow> string \<Rightarrow> string list \<Rightarrow>
    hypothesis res" where
  "transition H now tok h new_state cause evidence =
     ebind (validate_transition H tok h new_state cause evidence) (\<lambda>_.
       let h' = h\<lparr>h_state := new_state, h_updated_at := now\<rparr>
       in Inr (if human_only_reopen (h_state h, new_state)
               then h'\<lparr>h_reopen_count := h_reopen_count h + 1\<rparr> else h'))"

section \<open>The declarative contract\<close>

text \<open>
  What a transition must be supported by: a conjunction of alternatives, each alternative a prefix
  of which some evidence item must be a non-empty instance.
\<close>

definition required_evidence :: "hstate \<Rightarrow> hstate \<Rightarrow> string list list" where
  "required_evidence old new =
    (case new of
      INVESTIGATING \<Rightarrow>
        (case old of
           OPEN \<Rightarrow> [[''task:''], [''scope:'', ''in_scope:'']]
         | CONFIRMED \<Rightarrow> [[''repair:'']]
         | PARKED \<Rightarrow> [[''unblocked:'']]
         | _ \<Rightarrow> [[''human_reason:''], [''new_evidence:''], [''replacement:'']])
    | CONFIRMED \<Rightarrow>
        [[''execution_l5:''], [''run_receipt:''], [''witness_assertion:''], [''build_pass:''],
         [''ast_pass:''], [''trace_policy_pass:''], [''mechanism_l1:''], [''reachability_l2:''],
         [''economics_l5:'', ''impact:'']]
    | FINDING \<Rightarrow>
        [[''execution_l6:''], [''hard_verifier_pass:''], [''economics_l6:'', ''impact:''],
         [''production_l7:'', ''production:not_applicable''], [''adjudication:'', ''human_override:'']]
    | PARKED \<Rightarrow>
        [(case old of
            OPEN \<Rightarrow> [''assumption:'', ''budget:'', ''human_reason:'']
          | CONFIRMED \<Rightarrow> [''economics:'', ''blocker:'', ''certification_failure:'']
          | _ \<Rightarrow> [''failure:'', ''human_reason:'', ''blocker:''])]
    | CLOSED \<Rightarrow>
        [(case old of
            PARKED \<Rightarrow> [''permanent_blocker:'', ''scope:'']
          | FINDING \<Rightarrow> [''disproof:'', ''invalidating:'', ''scope:'']
          | _ \<Rightarrow> [''disproof:'', ''scope:'', ''not_actionable:''])]
    | CLOSED_DUPLICATE \<Rightarrow>
        [(case old of OPEN \<Rightarrow> [''finding:'', ''hypothesis:''] | _ \<Rightarrow> [''finding:'']),
         [''duplicate_reason:'']]
    | MERGED \<Rightarrow>
        (case old of
           PARKED \<Rightarrow> [[''parent:''], [''replacement:''], [''merge_rationale:'']]
         | _ \<Rightarrow> [[''replacement:''], [''preserved_evidence:'']])
    | OPEN \<Rightarrow> [])"

definition supported :: "string list \<Rightarrow> string list list \<Rightarrow> bool" where
  "supported ev reqs = (\<forall>alts \<in> set reqs. has_any ev alts)"

lemma has_any_simps [simp]: "has_any ev [p] = has ev p"
  by (simp add: has_any_def)

lemma reopen_checks_spec:
  "(\<forall>c \<in> set (reopen_checks t h ev). fst c) \<longleftrightarrow>
    dt_human_override t \<and> supported ev [[''human_reason:''], [''new_evidence:''], [''replacement:'']] \<and>
    (3 \<le> h_reopen_count h \<longrightarrow> has ev ''reviewer2:'')"
  by (auto simp only: reopen_checks_def supported_def has_any_simps fst_conv set_append list.set
      ball_Un ball_simps split: if_splits)

lemmas pair_spec_simps = pair_checks_def required_evidence_def supported_def prefix_checks_def
  has_any_simps hstate.case list.set list.map set_append ball_Un ball_simps fst_conv simp_thms
  conj_assoc

lemma pair_checks_spec:
  assumes "new \<in> set (legal_targets old)"
  shows "human_only_reopen (old, new) \<and> pair_checks ev old new = [] \<and>
      required_evidence old new = [[''human_reason:''], [''new_evidence:''], [''replacement:'']] \<or>
    \<not> human_only_reopen (old, new) \<and>
      (\<forall>c \<in> set (pair_checks ev old new). fst c) = supported ev (required_evidence old new)"
  by (insert assms, cases old; simp only: legal_targets.simps list.set insert_iff empty_iff simp_thms; (elim disjE)?;
      simp only: human_only_reopen_def prod.inject hstate.distinct insert_iff empty_iff simp_thms pair_spec_simps)

lemma transition_checks_spec:
  assumes "new \<in> set (legal_targets old)"
  shows "(\<forall>c \<in> set ((if human_only_reopen (old, new) then reopen_checks t h ev else []) @
             pair_checks ev old new). fst c) \<longleftrightarrow>
    supported ev (required_evidence old new) \<and>
    (human_only_reopen (old, new) \<longrightarrow>
      dt_human_override t \<and> (3 \<le> h_reopen_count h \<longrightarrow> has ev ''reviewer2:''))"
proof (cases "human_only_reopen (old, new)")
  case True
  with pair_checks_spec [OF assms, of ev]
  have "pair_checks ev old new = []"
    "required_evidence old new = [[''human_reason:''], [''new_evidence:''], [''replacement:'']]"
    by simp_all
  with True show ?thesis
    by (simp only: if_True append_Nil2 reopen_checks_spec simp_thms conj_ac)
next
  case False
  with pair_checks_spec [OF assms, of ev] show ?thesis by simp
qed

lemma validate_transition_eq:
  "validate_transition H tok h new cause evidence = Inr () \<longleftrightarrow>
    (\<exists>t. tok = Some t \<and> token_is_valid H t \<and>
      strip cause \<noteq> [] \<and> clean_evidence evidence \<noteq> [] \<and>
      new \<in> set (legal_targets (h_state h)) \<and>
      supported (clean_evidence evidence) (required_evidence (h_state h) new) \<and>
      (human_only_reopen (h_state h, new) \<longrightarrow> dt_human_override t \<and>
        (3 \<le> h_reopen_count h \<longrightarrow> has (clean_evidence evidence) ''reviewer2:'')))"
  (is "?lhs \<longleftrightarrow> ?rhs")
proof -
  note spec = transition_checks_spec [of new "h_state h" _ h "clean_evidence evidence"]
  show ?thesis
  proof (cases "new \<in> set (legal_targets (h_state h))")
    case True
    show ?thesis
      unfolding validate_transition_def Let_def
      using True by (cases tok) (simp_all only: option.case if_Inl_eq_Inr requires_eq_Inr spec [OF True], auto)
  next
    case False
    then show ?thesis by (auto simp: validate_transition_def Let_def split: option.splits)
  qed
qed

lemma transition_eq:
  "transition H now tok h new cause ev = Inr h' \<longleftrightarrow>
    validate_transition H tok h new cause ev = Inr () \<and>
    h' = h\<lparr>h_state := new, h_updated_at := now,
           h_reopen_count := h_reopen_count h + (if human_only_reopen (h_state h, new) then 1 else 0)\<rparr>"
  by (auto simp: transition_def ebind_eq_Inr Let_def)

lemma transition_step:
  assumes "transition H now tok h new cause ev = Inr h'"
  shows "h_state h' = new" "new \<in> set (legal_targets (h_state h))"
    "supported (clean_evidence ev) (required_evidence (h_state h) new)"
  using assms by (auto simp: transition_eq validate_transition_eq)

section \<open>Histories\<close>

text \<open>A step of a history: the states before and after, the token, and the evidence supplied.\<close>

type_synonym life_step = "hstate \<times> hstate \<times> driver_token \<times> string list"

inductive lifecycle_run :: "host \<Rightarrow> hypothesis \<Rightarrow> life_step list \<Rightarrow> hypothesis \<Rightarrow> bool" for H h0 where
  start: "lifecycle_run H h0 [] h0"
| step: "lifecycle_run H h0 es h \<Longrightarrow> transition H now (Some t) h new cause ev = Inr h' \<Longrightarrow>
    lifecycle_run H h0 (es @ [(h_state h, new, t, ev)]) h'"

inductive_cases lifecycle_run_Nil: "lifecycle_run H h0 [] h"
inductive_cases lifecycle_run_snoc: "lifecycle_run H h0 (es @ [e]) h"

definition reopens :: "life_step list \<Rightarrow> nat" where
  "reopens es = length (filter (\<lambda>(old, new, _). human_only_reopen (old, new)) es)"

text \<open>The last step of a run led to the current state.\<close>

lemma run_last:
  assumes "lifecycle_run H h0 es h" and "h_state h \<noteq> h_state h0"
  obtains es' g now t cause ev where "es = es' @ [(h_state g, h_state h, t, ev)]"
    "lifecycle_run H h0 es' g" "transition H now (Some t) g (h_state h) cause ev = Inr h"
  using assms by (cases rule: lifecycle_run.cases) (auto dest: transition_step(1))

lemma into_FINDING: "FINDING \<in> set (legal_targets s) \<Longrightarrow> s = CONFIRMED"
  by (cases s) auto

lemma into_CONFIRMED: "CONFIRMED \<in> set (legal_targets s) \<Longrightarrow> s = INVESTIGATING"
  by (cases s) auto

text \<open>What a history says of the step it took last, and of every step.\<close>

lemma finding_step:
  assumes "lifecycle_run H h0 es h" and "h_state h = FINDING" and "h_state h0 \<noteq> FINDING"
  obtains es' g t ev where "es = es' @ [(CONFIRMED, FINDING, t, ev)]" "lifecycle_run H h0 es' g"
    "h_state g = CONFIRMED" "supported (clean_evidence ev) (required_evidence CONFIRMED FINDING)"
proof -
  from assms have ne: "h_state h \<noteq> h_state h0" by simp
  obtain es' g now t cause ev where r: "es = es' @ [(h_state g, h_state h, t, ev)]"
    "lifecycle_run H h0 es' g" "transition H now (Some t) g (h_state h) cause ev = Inr h"
    by (rule run_last [OF assms(1) ne])
  from transition_step(2,3) [OF r(3)] assms(2) have "h_state g = CONFIRMED"
    "supported (clean_evidence ev) (required_evidence (h_state g) FINDING)"
    by (auto dest: into_FINDING)
  with r(1,2) assms(2) that show thesis by simp
qed

lemma confirmed_step:
  assumes "lifecycle_run H h0 es h" and "h_state h = CONFIRMED" and "h_state h0 \<noteq> CONFIRMED"
  obtains es' t ev where "es = es' @ [(INVESTIGATING, CONFIRMED, t, ev)]"
    "supported (clean_evidence ev) (required_evidence INVESTIGATING CONFIRMED)"
proof -
  from assms have ne: "h_state h \<noteq> h_state h0" by simp
  obtain es' g now t cause ev where r: "es = es' @ [(h_state g, h_state h, t, ev)]"
    "transition H now (Some t) g (h_state h) cause ev = Inr h"
    by (rule run_last [OF assms(1) ne])
  from transition_step(2,3) [OF r(2)] assms(2) have "h_state g = INVESTIGATING"
    "supported (clean_evidence ev) (required_evidence (h_state g) CONFIRMED)"
    by (auto dest: into_CONFIRMED)
  with r(1) assms(2) that show thesis by simp
qed

lemma reopens_snoc [simp]:
  "reopens (es @ [(old, new, t, ev)]) = reopens es + (if human_only_reopen (old, new) then 1 else 0)"
  by (simp add: reopens_def)

text \<open>The condition on a reopening step, given how often the hypothesis had been reopened before.\<close>

definition reopen_step_ok :: "host \<Rightarrow> nat \<Rightarrow> life_step \<Rightarrow> bool" where
  "reopen_step_ok H n e = (case e of (old, new, t, ev) \<Rightarrow>
     human_only_reopen (old, new) \<longrightarrow>
       token_is_valid H t \<and> dt_human_override t \<and>
       (3 \<le> n \<longrightarrow> has (clean_evidence ev) ''reviewer2:''))"

lemma transition_reopen_step_ok:
  assumes "transition H now (Some t) h new cause ev = Inr h'"
  shows "reopen_step_ok H (h_reopen_count h) (h_state h, new, t, ev)"
    "h_reopen_count h' = h_reopen_count h + (if human_only_reopen (h_state h, new) then 1 else 0)"
  using assms by (auto simp: transition_eq validate_transition_eq reopen_step_ok_def)

section \<open>Properties\<close>

text \<open>
  C1: \<open>validate_transition\<close> accepts a request exactly when the token is a valid driver token, the
  cause and the evidence are not blank, the target is in the transition table for the current state,
  every alternative of the required evidence is supported, and a reopening carries the human
  override (and from the fourth reopening on the second reviewer's evidence).
\<close>
theorem validate_transition_contract:
  "validate_transition H tok h new cause evidence = Inr () \<longleftrightarrow>
    (\<exists>t. tok = Some t \<and> token_is_valid H t \<and>
      strip cause \<noteq> [] \<and> clean_evidence evidence \<noteq> [] \<and>
      new \<in> set (legal_targets (h_state h)) \<and>
      supported (clean_evidence evidence) (required_evidence (h_state h) new) \<and>
      (if human_only_reopen (h_state h, new)
       then dt_human_override t \<and>
         (if 3 \<le> h_reopen_count h then has (clean_evidence evidence) ''reviewer2:'' else True)
       else True))"
  unfolding validate_transition_eq by auto

text \<open>
  C2: a hypothesis that has become a FINDING was confirmed: the last step of its history leads from
  CONFIRMED to FINDING with the hard verifier's, the execution, the production and the adjudication
  evidence, and the step before that from INVESTIGATING to CONFIRMED with the evidence of the
  witness run. There is no other way in, whatever the history.
\<close>
theorem finding_was_confirmed:
  assumes "lifecycle_run H h0 es h" and "h_state h0 = OPEN" and "h_state h = FINDING"
  shows "\<exists>es' t1 ev1 t2 ev2.
    es = es' @ [(INVESTIGATING, CONFIRMED, t1, ev1), (CONFIRMED, FINDING, t2, ev2)] \<and>
    supported (clean_evidence ev1)
      [[''execution_l5:''], [''run_receipt:''], [''witness_assertion:''], [''build_pass:''],
       [''ast_pass:''], [''trace_policy_pass:''], [''mechanism_l1:''], [''reachability_l2:''],
       [''economics_l5:'', ''impact:'']] \<and>
    supported (clean_evidence ev2)
      [[''execution_l6:''], [''hard_verifier_pass:''], [''economics_l6:'', ''impact:''],
       [''production_l7:'', ''production:not_applicable''], [''adjudication:'', ''human_override:'']]"
proof -
  from assms(2) have ne: "h_state h0 \<noteq> FINDING" by simp
  obtain es1 g t2 ev2 where f: "es = es1 @ [(CONFIRMED, FINDING, t2, ev2)]"
    "lifecycle_run H h0 es1 g" "h_state g = CONFIRMED"
    "supported (clean_evidence ev2) (required_evidence CONFIRMED FINDING)"
    by (rule finding_step [OF assms(1,3) ne])
  from assms(2) have ne': "h_state h0 \<noteq> CONFIRMED" by simp
  obtain es2 t1 ev1 where "es1 = es2 @ [(INVESTIGATING, CONFIRMED, t1, ev1)]"
    "supported (clean_evidence ev1) (required_evidence INVESTIGATING CONFIRMED)"
    by (rule confirmed_step [OF f(2,3) ne'])
  with f show ?thesis by (auto simp: required_evidence_def)
qed

text \<open>
  C3: reopening is accounted for: along every history the counter equals its initial value plus the
  number of reopening steps, each of them was made with a valid token carrying the human override,
  and those made when the counter was already three or more carried a second reviewer's evidence.
\<close>
theorem reopen_accounting:
  assumes "lifecycle_run H h0 es h"
  shows "h_reopen_count h = h_reopen_count h0 + reopens es \<and>
    (\<forall>i < length es. reopen_step_ok H (h_reopen_count h0 + reopens (take i es)) (es ! i))"
  using assms
proof (induction rule: lifecycle_run.induct)
  case (step es h now t new cause ev h')
  note ok = transition_reopen_step_ok [OF step.hyps(2)]
  have "reopen_step_ok H (h_reopen_count h0 + reopens (take i (es @ [(h_state h, new, t, ev)])))
      ((es @ [(h_state h, new, t, ev)]) ! i)" if "i < Suc (length es)" for i
    using that step.IH ok(1) by (cases "i = length es") (auto simp: nth_append)
  with step.IH ok(2) show ?case by simp
qed (simp add: reopens_def)

text \<open>
  The automatic driver cannot reopen anything: a closed, duplicate or merged hypothesis is final
  for every token that \<open>construct_driver_token\<close> issues; each transition request is refused.
\<close>
lemma driver_cannot_reopen:
  assumes "construct_driver_token H d = Inr t" and "h_state h \<in> {CLOSED, CLOSED_DUPLICATE, MERGED}"
  shows "\<exists>e. transition H now (Some t) h new cause evidence = Inl e"
proof -
  from driver_token_no_override [OF assms(1)] have "\<not> dt_human_override t" by simp
  with assms(2) have "\<nexists>h'. transition H now (Some t) h new cause evidence = Inr h'"
    by (auto simp: transition_eq validate_transition_eq human_only_reopen_def)
  then show ?thesis by (cases "transition H now (Some t) h new cause evidence") auto
qed

section \<open>Witnesses\<close>

definition ev_investigate :: "string list" where
  "ev_investigate = [''task:T1'', '' scope:S1 '']"

definition ev_confirm :: "string list" where
  "ev_confirm = [''execution_l5:a'', ''run_receipt:b'', ''witness_assertion:c'', ''build_pass:d'',
     ''ast_pass:e'', ''trace_policy_pass:f'', ''mechanism_l1:g'', ''reachability_l2:h'', ''impact:i'']"

definition ev_finding :: "string list" where
  "ev_finding = [''execution_l6:a'', ''hard_verifier_pass:b'', ''impact:c'',
     ''production:not_applicable because'', ''adjudication:e'']"

definition ev_close :: "string list" where
  "ev_close = [''disproof:d'']"

definition ev_reopen :: "string list" where
  "ev_reopen = [''human_reason:a'', ''new_evidence:b'', ''replacement:c'']"

definition moved :: "hypothesis \<Rightarrow> hstate \<Rightarrow> hypothesis" where
  "moved h s = h\<lparr>h_state := s, h_updated_at := ''t''\<rparr>"

lemma moved_sel [simp]: "h_state (moved h s) = s" "h_reopen_count (moved h s) = h_reopen_count h"
  by (simp_all add: moved_def)

lemma sample_step:
  assumes "lifecycle_run H h0 es h" and "\<not> human_only_reopen (h_state h, new)"
    and "validate_transition H (Some t) h new ''c'' ev = Inr ()"
  shows "lifecycle_run H h0 (es @ [(h_state h, new, t, ev)]) (moved h new)"
  by (rule lifecycle_run.step [OF assms(1), where now = "''t''" and cause = "''c''"])
    (use assms in \<open>simp add: transition_def moved_def\<close>)

lemma sample_valid:
  "h_state h = OPEN \<Longrightarrow>
    validate_transition sample_host (Some sample_token) h INVESTIGATING ''c'' ev_investigate = Inr ()"
  "h_state h = INVESTIGATING \<Longrightarrow>
    validate_transition sample_host (Some sample_token) h CONFIRMED ''c'' ev_confirm = Inr ()"
  "h_state h = CONFIRMED \<Longrightarrow>
    validate_transition sample_host (Some sample_token) h FINDING ''c'' ev_finding = Inr ()"
  "h_state h = OPEN \<Longrightarrow>
    validate_transition sample_host (Some sample_token) h CLOSED ''c'' ev_close = Inr ()"
  "h_state h = CLOSED \<Longrightarrow> h_reopen_count h < 3 \<Longrightarrow>
    validate_transition sample_host (Some sample_human) h INVESTIGATING ''c'' ev_reopen = Inr ()"
  unfolding validate_transition_eq
  by (simp_all add: sample_tokens_valid clean_evidence_def supported_def required_evidence_def
      has_any_def has_def strip_def human_only_reopen_def ev_investigate_def ev_confirm_def
      ev_finding_def ev_close_def ev_reopen_def)

lemma sample_finding_run:
  "lifecycle_run sample_host (sample_hypothesis OPEN)
    [(OPEN, INVESTIGATING, sample_token, ev_investigate),
     (INVESTIGATING, CONFIRMED, sample_token, ev_confirm), (CONFIRMED, FINDING, sample_token, ev_finding)]
    (moved (moved (moved (sample_hypothesis OPEN) INVESTIGATING) CONFIRMED) FINDING)"
  using sample_step [OF sample_step [OF sample_step [OF lifecycle_run.start [of _ "sample_hypothesis OPEN"]]],
      OF _ sample_valid(1) _ sample_valid(2) _ sample_valid(3)]
  by (simp add: human_only_reopen_def)

lemma finding_was_confirmed_witness:
  "\<exists>es' t1 ev1 t2 ev2.
    [(OPEN, INVESTIGATING, sample_token, ev_investigate),
     (INVESTIGATING, CONFIRMED, sample_token, ev_confirm), (CONFIRMED, FINDING, sample_token, ev_finding)] =
    es' @ [(INVESTIGATING, CONFIRMED, t1, ev1), (CONFIRMED, FINDING, t2, ev2)]"
  using finding_was_confirmed [OF sample_finding_run] by auto

lemma sample_reopen_run:
  "lifecycle_run sample_host (sample_hypothesis OPEN)
    [(OPEN, CLOSED, sample_token, ev_close), (CLOSED, INVESTIGATING, sample_human, ev_reopen)]
    ((moved (moved (sample_hypothesis OPEN) CLOSED) INVESTIGATING)\<lparr>h_reopen_count := 1\<rparr>)"
proof -
  have "lifecycle_run sample_host (sample_hypothesis OPEN) [(OPEN, CLOSED, sample_token, ev_close)]
      (moved (sample_hypothesis OPEN) CLOSED)"
    using sample_step [OF lifecycle_run.start [of _ "sample_hypothesis OPEN"] _ sample_valid(4)]
    by (simp add: human_only_reopen_def)
  from lifecycle_run.step [OF this, of "''t''" sample_human INVESTIGATING "''c''" ev_reopen]
  show ?thesis
    using sample_valid(5) [of "moved (sample_hypothesis OPEN) CLOSED"]
    by (simp add: transition_def human_only_reopen_def moved_def)
qed

lemma reopen_accounting_witness:
  "h_reopen_count ((moved (moved (sample_hypothesis OPEN) CLOSED) INVESTIGATING)\<lparr>h_reopen_count := 1\<rparr>) = 1
    \<and> reopen_step_ok sample_host 0 (CLOSED, INVESTIGATING, sample_human, ev_reopen)"
  using reopen_accounting [OF sample_reopen_run] by (auto simp: reopens_def human_only_reopen_def)

lemma driver_cannot_reopen_witness:
  "\<exists>e. transition sample_host ''t'' (Some sample_token) (sample_hypothesis CLOSED) INVESTIGATING
     ''c'' ev_reopen = Inl e"
  by (rule driver_cannot_reopen [of _ "''driver''"])
    (simp_all add: construct_driver_token_def issue_driver_token_def mint_def sample_token_def
      sample_host_def token_payload_def strip_def)

end
