(* ===== verification/Certificates.thy ===== *)
theory Certificates
  imports CoreModels Tokens Samples
begin

text \<open>
  \<open>core/certificates.py\<close> and \<open>core/certifier.py\<close>: replay certificates, their MAC, and the host
  certifier that issues them for a verified replay.
\<close>

section \<open>The authenticated fields\<close>

fun opt_str :: "string option \<Rightarrow> pv" where
  "opt_str None = PNone"
| "opt_str (Some s) = PStr s"

definition cert_fields :: "string \<Rightarrow> string \<Rightarrow> string \<Rightarrow> int \<Rightarrow> string \<Rightarrow> string \<Rightarrow> string \<Rightarrow>
    string option \<Rightarrow> pdict" where
  "cert_fields cid wit env runs observed policy control cross =
     [(''id'', PStr cid), (''witness_sha256'', PStr wit), (''env_hash'', PStr env), (''runs'', PInt runs),
      (''observed_records_sha256'', PStr observed), (''trace_policy_sha256'', PStr policy),
      (''control_sha256'', PStr control), (''cross_check_sha256'', opt_str cross)]"

text \<open>\<open>issue\<close>; the clock is an argument.\<close>

definition issue :: "host \<Rightarrow> string \<Rightarrow> string \<Rightarrow> string \<Rightarrow> string \<Rightarrow> string \<Rightarrow> int \<Rightarrow> string \<Rightarrow> string \<Rightarrow>
    string \<Rightarrow> string option \<Rightarrow> certificate res" where
  "issue H now key cid wit env runs observed policy control cross =
     (if runs < 3 then Inl (ValueError ''replay certificates require at least three runs'')
      else Inr \<lparr>ce_id = cid, ce_witness_sha256 = wit, ce_env_hash = env, ce_runs = runs,
        ce_observed_records_sha256 = observed, ce_trace_policy_sha256 = policy,
        ce_control_sha256 = control, ce_cross_check_sha256 = cross,
        ce_mac = hs_hmac H key (canonical (PDict (cert_fields cid wit env runs observed policy control cross))),
        ce_issued_at = now\<rparr>)"

text \<open>\<open>cert.model_dump(mode="json")\<close> without \<open>mac\<close> and \<open>issued_at\<close>.\<close>

definition cert_dump :: "certificate \<Rightarrow> pdict" where
  "cert_dump c = cert_fields (ce_id c) (ce_witness_sha256 c) (ce_env_hash c) (ce_runs c)
     (ce_observed_records_sha256 c) (ce_trace_policy_sha256 c) (ce_control_sha256 c)
     (ce_cross_check_sha256 c)"

text \<open>An optional expectation of \<open>verify\<close>: given, it must be the certificate's value.\<close>

definition expects :: "string option \<Rightarrow> string option \<Rightarrow> bool" where
  "expects wanted actual = (wanted = None \<or> actual = wanted)"

definition verify_cert :: "host \<Rightarrow> certificate \<Rightarrow> string \<Rightarrow> string \<Rightarrow> string \<Rightarrow> string option \<Rightarrow>
    string option \<Rightarrow> string option \<Rightarrow> string option \<Rightarrow> bool" where
  "verify_cert H c key wit env observed policy control cross =
     (if ce_witness_sha256 c \<noteq> wit \<or> ce_env_hash c \<noteq> env \<or> ce_runs c < 3 then False
      else if \<not> expects observed (Some (ce_observed_records_sha256 c)) then False
      else if \<not> expects policy (Some (ce_trace_policy_sha256 c)) then False
      else if \<not> expects control (Some (ce_control_sha256 c)) then False
      else if \<not> expects cross (ce_cross_check_sha256 c) then False
      else ce_mac c = hs_hmac H key (canonical (PDict (cert_dump c))))"

section \<open>The host certifier\<close>

text \<open>
  The certifier's view of a replay collection, and the files it touches: resolved paths are lists of
  their parts, \<open>key_file\<close> is the key's content if the file exists.
\<close>

record collection =
  rc_witness_hash :: string
  rc_root :: "string list"
  rc_runs :: nat
  rc_observed_records_sha256 :: string
  rc_trace_policy_sha256 :: string
  rc_control_sha256 :: string
  rc_environment_hash :: string

definition is_relative_to :: "string list \<Rightarrow> string list \<Rightarrow> bool" where
  "is_relative_to p root = (take (length root) p = root)"

definition certifier_issue :: "host \<Rightarrow> string \<Rightarrow> string list \<Rightarrow> string option \<Rightarrow> string \<Rightarrow> collection \<Rightarrow>
    bool \<Rightarrow> string \<Rightarrow> certificate res" where
  "certifier_issue H now key_path key_file witness_sha256 coll passed cid =
     (if \<not> passed then
        Inl (RuntimeError ''refusing certificate issuance before all hard verification gates pass'')
      else case key_file of
        None \<Rightarrow> Inl (FileNotFoundError (join ''/'' key_path))
      | Some key \<Rightarrow>
          if is_relative_to key_path (rc_root coll) then
            Inl (ValueError ''certificate key must remain outside replay trust root'')
          else issue H now key cid witness_sha256 (rc_environment_hash coll) (int (rc_runs coll))
            (rc_observed_records_sha256 coll) (rc_trace_policy_sha256 coll)
            (rc_control_sha256 coll) None)"

section \<open>Lemmas\<close>

lemma issue_eq_Inr:
  "issue H now key cid wit env runs ob po co cr = Inr c \<longleftrightarrow> 3 \<le> runs \<and>
    c = \<lparr>ce_id = cid, ce_witness_sha256 = wit, ce_env_hash = env, ce_runs = runs,
      ce_observed_records_sha256 = ob, ce_trace_policy_sha256 = po, ce_control_sha256 = co,
      ce_cross_check_sha256 = cr,
      ce_mac = hs_hmac H key (canonical (PDict (cert_fields cid wit env runs ob po co cr))),
      ce_issued_at = now\<rparr>"
  by (auto simp: issue_def)

lemma verify_cert_iff:
  "verify_cert H c key wit env ob po co cr \<longleftrightarrow>
    ce_witness_sha256 c = wit \<and> ce_env_hash c = env \<and> certificate_ok c \<and>
    expects ob (Some (ce_observed_records_sha256 c)) \<and> expects po (Some (ce_trace_policy_sha256 c)) \<and>
    expects co (Some (ce_control_sha256 c)) \<and> expects cr (ce_cross_check_sha256 c) \<and>
    ce_mac c = hs_hmac H key (canonical (PDict (cert_dump c)))"
  by (auto simp: verify_cert_def certificate_ok_def)

lemma expects_simps [simp]: "expects None a" "expects (Some s) a \<longleftrightarrow> a = Some s"
  by (auto simp: expects_def)

lemma nofloat_opt_str [simp]: "nofloat (opt_str s)" and jnorm_opt_str [simp]: "jnorm (opt_str s) = opt_str s"
  and opt_str_inj [simp]: "opt_str s = opt_str t \<longleftrightarrow> s = t"
  by (cases s; cases t; simp)+

text \<open>The canonical text of the fields determines every one of them.\<close>

lemma cert_fields_inj:
  assumes "canonical (PDict (cert_fields a b c d e f g h)) = canonical (PDict (cert_fields a' b' c' d' e' f' g' h'))"
  shows "a = a' \<and> b = b' \<and> c = c' \<and> d = d' \<and> e = e' \<and> f = f' \<and> g = g' \<and> h = h'"
proof -
  have n: "nofloat (PDict (cert_fields i j k l m n p q))" "distinct (map fst (cert_fields i j k l m n p q))"
    for i j k l m n p q by (auto simp: cert_fields_def)
  note eq = canonical_dict_inj [OF n(1) n(1) assms n(2) n(2)]
  show ?thesis
    using eq [of "''id''"] eq [of "''witness_sha256''"] eq [of "''env_hash''"] eq [of "''runs''"]
      eq [of "''observed_records_sha256''"] eq [of "''trace_policy_sha256''"] eq [of "''control_sha256''"]
      eq [of "''cross_check_sha256''"]
    by (simp add: cert_fields_def)
qed

lemma cert_dump_of_fields:
  "cert_dump \<lparr>ce_id = i, ce_witness_sha256 = w, ce_env_hash = e, ce_runs = r,
     ce_observed_records_sha256 = ob, ce_trace_policy_sha256 = po, ce_control_sha256 = co,
     ce_cross_check_sha256 = cr, ce_mac = m, ce_issued_at = t\<rparr> = cert_fields i w e r ob po co cr"
  by (simp add: cert_dump_def)

section \<open>Properties\<close>

text \<open>
  A certificate that \<open>issue\<close> returns verifies under the same key exactly for the values it was
  issued for: \<open>verify\<close> accepts it if and only if the witness hash and the environment hash are those
  of the certificate and every optional expectation that is given is met.
\<close>
lemma issue_verify_roundtrip:
  assumes "issue H now key cid wit env runs ob po co cr = Inr c"
  shows "verify_cert H c key wit' env' ob' po' co' cr' \<longleftrightarrow>
    wit' = wit \<and> env' = env \<and> ob' \<in> {None, Some ob} \<and> po' \<in> {None, Some po} \<and>
    co' \<in> {None, Some co} \<and> cr' \<in> {None, cr}"
  using assms by (auto simp: issue_eq_Inr verify_cert_iff certificate_ok_def cert_dump_of_fields expects_def)

text \<open>
  C8: a certificate cannot be altered: under a MAC that separates the two authenticated texts, a
  certificate that verifies and carries the MAC of an issued one has all of its fields (only
  \<open>issued_at\<close>, which is not authenticated, may differ).
\<close>
theorem certificate_unforgeable:
  assumes "issue H now key cid wit env runs ob po co cr = Inr c"
    and "verify_cert H c' key wit' env' ob' po' co' cr'" and "ce_mac c' = ce_mac c"
    and "mac_separates (hs_hmac H) key (canonical (PDict (cert_dump c'))) (canonical (PDict (cert_dump c)))"
  shows "c' = c\<lparr>ce_issued_at := ce_issued_at c'\<rparr> \<and> wit' = wit \<and> env' = env"
proof -
  have c: "ce_mac c = hs_hmac H key (canonical (PDict (cert_dump c)))"
    "ce_witness_sha256 c = wit" "ce_env_hash c = env"
    using assms(1) by (auto simp: issue_eq_Inr cert_dump_of_fields)
  from assms(2) have c': "ce_mac c' = hs_hmac H key (canonical (PDict (cert_dump c')))"
    "ce_witness_sha256 c' = wit'" "ce_env_hash c' = env'"
    by (simp_all add: verify_cert_iff)
  from assms(4) [unfolded mac_separates_def] assms(3) [unfolded c(1) c'(1)]
  have "canonical (PDict (cert_dump c')) = canonical (PDict (cert_dump c))" by blast
  note eqs = cert_fields_inj [OF this [unfolded cert_dump_def]]
  have "c' = c\<lparr>ce_issued_at := ce_issued_at c'\<rparr>"
    using eqs assms(3) by (cases c; cases c') simp
  moreover have "wit' = wit \<and> env' = env"
    using eqs c(2,3) c'(2,3) by simp
  ultimately show ?thesis by simp
qed

text \<open>
  C9: the host certifier issues nothing for a replay that has not passed: a returned certificate
  means that the verification passed, that the key file exists outside the replay trust root, that
  there were at least three runs, and that the certificate verifies for exactly this witness and this
  collection's hashes.
\<close>
theorem certifier_issues_only_verified:
  assumes "certifier_issue H now key_path key_file wit coll passed cid = Inr c"
  shows "passed \<and> \<not> is_relative_to key_path (rc_root coll) \<and> 3 \<le> rc_runs coll \<and>
    (\<exists>key. key_file = Some key \<and>
      verify_cert H c key wit (rc_environment_hash coll) (Some (rc_observed_records_sha256 coll))
        (Some (rc_trace_policy_sha256 coll)) (Some (rc_control_sha256 coll)) None) \<and>
    ce_runs c = int (rc_runs coll) \<and> ce_cross_check_sha256 c = None"
  using assms
  by (auto simp: certifier_issue_def issue_eq_Inr verify_cert_iff certificate_ok_def
      cert_dump_of_fields split: option.splits)

section \<open>Witnesses\<close>

definition sample_cert :: certificate where
  "sample_cert = \<lparr>ce_id = ''CERT-001'', ce_witness_sha256 = ''w'', ce_env_hash = ''e'', ce_runs = 3,
     ce_observed_records_sha256 = ''o'', ce_trace_policy_sha256 = ''p'', ce_control_sha256 = ''c'',
     ce_cross_check_sha256 = Some ''x'',
     ce_mac = canonical (PDict (cert_fields ''CERT-001'' ''w'' ''e'' 3 ''o'' ''p'' ''c'' (Some ''x''))),
     ce_issued_at = ''t''\<rparr>"

lemma sample_cert_issued:
  "issue sample_host ''t'' ''k'' ''CERT-001'' ''w'' ''e'' 3 ''o'' ''p'' ''c'' (Some ''x'') = Inr sample_cert"
  by (simp add: issue_def sample_cert_def sample_host_def)

lemma sample_cert_verifies:
  "verify_cert sample_host sample_cert ''k'' ''w'' ''e'' (Some ''o'') (Some ''p'') (Some ''c'') cr \<longleftrightarrow>
    cr \<in> {None, Some ''x''}"
  by (auto simp: verify_cert_iff sample_cert_def cert_dump_def certificate_ok_def sample_host_def expects_def)

lemma issue_verify_roundtrip_witness:
  "verify_cert sample_host sample_cert ''k'' ''w'' ''e'' (Some ''o'') None None (Some ''x'') \<and>
    \<not> verify_cert sample_host sample_cert ''k'' ''w'' ''e'' (Some ''tampered'') None None None"
  by (simp add: issue_verify_roundtrip [OF sample_cert_issued])

lemma certificate_unforgeable_witness:
  "(let c' = sample_cert\<lparr>ce_issued_at := ''later''\<rparr> in
      verify_cert sample_host c' ''k'' ''w'' ''e'' None None None None \<and>
      c' = sample_cert\<lparr>ce_issued_at := ce_issued_at c'\<rparr>)"
proof -
  have v: "verify_cert sample_host (sample_cert\<lparr>ce_issued_at := ''later''\<rparr>) ''k'' ''w'' ''e'' None None None None"
    by (simp add: verify_cert_iff sample_cert_def cert_dump_def certificate_ok_def sample_host_def)
  have "sample_cert\<lparr>ce_issued_at := ''later''\<rparr> =
      sample_cert\<lparr>ce_issued_at := ce_issued_at (sample_cert\<lparr>ce_issued_at := ''later''\<rparr>)\<rparr>"
    using certificate_unforgeable [OF sample_cert_issued v] by (simp add: mac_separates_def sample_host_def)
  with v show ?thesis by (simp only: Let_def simp_thms)
qed

lemma certifier_issues_only_verified_witness:
  "\<exists>c. certifier_issue sample_host ''t'' [''root'', ''key''] (Some ''k'') ''w''
      \<lparr>rc_witness_hash = ''w'', rc_root = [''work''], rc_runs = 3, rc_observed_records_sha256 = ''o'',
       rc_trace_policy_sha256 = ''p'', rc_control_sha256 = ''c'', rc_environment_hash = ''e''\<rparr> True ''C'' = Inr c
    \<and> ce_runs c = 3"
proof -
  let ?r = "certifier_issue sample_host ''t'' [''root'', ''key''] (Some ''k'') ''w''
      \<lparr>rc_witness_hash = ''w'', rc_root = [''work''], rc_runs = 3, rc_observed_records_sha256 = ''o'',
       rc_trace_policy_sha256 = ''p'', rc_control_sha256 = ''c'', rc_environment_hash = ''e''\<rparr> True ''C''"
  obtain c where "?r = Inr c"
    by (simp add: certifier_issue_def issue_def is_relative_to_def)
  from certifier_issues_only_verified [OF this] this show ?thesis by auto
qed

end
