(* ===== verification/Ladder.thy ===== *)
theory Ladder
  imports CoreModels Tokens Certificates Samples "HOL-Library.AList"
begin

text \<open>
  \<open>core/ladder.py\<close>: the evidence ladder. The class tables are functions; \<open>validate_ladder\<close>,
  \<open>validate_award\<close> and \<open>award\<close> are the class methods, with the hypothesis's ladder threaded through.
  \<open>award_run\<close> are the ladders that sequences of awards can produce.
\<close>

section \<open>The tables\<close>

definition axes :: "string list" where
  "axes = [''mechanism'', ''reachability'', ''execution'', ''economics'', ''production'', ''adjudication'']"

definition axis_levels :: "string \<Rightarrow> int list" where
  "axis_levels axis =
     (if axis = ''mechanism'' then [0, 1]
      else if axis = ''reachability'' then [0, 2, 4]
      else if axis = ''execution'' then [3, 4, 5, 6]
      else if axis = ''economics'' then [0, 5, 6, 7]
      else if axis = ''production'' then [7]
      else if axis = ''adjudication'' then [8] else [])"

definition axis_required :: "string \<Rightarrow> int \<Rightarrow> string list" where
  "axis_required axis level =
     (if axis = ''mechanism'' then (if level = 1 then [''span'', ''invariant''] else [])
      else if axis = ''reachability'' then
        (if level = 2 then [''entrypoint_path''] else if level = 4 then [''run_receipt''] else [])
      else if axis = ''execution'' then
        (if level = 3 then [''experiment''] else if level = 4 then [''run_receipt'']
         else if level = 5 then [''run_receipt'', ''witness_assertion'']
         else if level = 6 then [''certificate''] else [])
      else if axis = ''economics'' then
        (if level = 5 then [''econ_harness''] else if level = 6 then [''econ_harness'', ''certificate'']
         else if level = 7 then [''economics_realism'', ''certificate''] else [])
      else if axis = ''production'' then
        (if level = 7 then [''production_replay'', ''certificate''] else [])
      else if axis = ''adjudication'' then
        (if level = 8 then [''adjudication'', ''human_approval''] else [])
      else [])"

definition predecessors :: "string \<Rightarrow> int \<Rightarrow> (string \<times> int) list" where
  "predecessors axis level =
     (if axis = ''mechanism'' then (if level = 1 then [(''mechanism'', 0)] else [])
      else if axis = ''reachability'' then
        (if level = 2 then [(''reachability'', 0)] else if level = 4 then [(''reachability'', 2)] else [])
      else if axis = ''execution'' then
        (if level = 4 then [(''execution'', 3)] else if level = 5 then [(''execution'', 4)]
         else if level = 6 then [(''execution'', 5)] else [])
      else if axis = ''economics'' then
        (if level = 6 then [(''economics'', 5), (''execution'', 5)]
         else if level = 7 then [(''economics'', 6), (''production'', 7)] else [])
      else if axis = ''production'' then
        (if level = 7 then [(''execution'', 6), (''economics'', 6)] else [])
      else if axis = ''adjudication'' then
        (if level = 8 then [(''production'', 7), (''economics'', 7)] else [])
      else [])"

section \<open>Proofs of a level\<close>

record ladder_proof =
  lp_axis :: string
  lp_level :: level
  lp_evidence :: "string list"
  lp_certificate :: "certificate option"
  lp_key :: "string option"
  lp_witness_sha256 :: "string option"
  lp_env_hash :: "string option"
  lp_observed_records_sha256 :: "string option"
  lp_trace_policy_sha256 :: "string option"
  lp_control_sha256 :: "string option"
  lp_cross_check_sha256 :: "string option"
  lp_production_cross_check :: bool

definition required_artifacts :: "string \<Rightarrow> level \<Rightarrow> string list res" where
  "required_artifacts axis level =
     (if axis \<notin> set axes then Inl (LadderError (''unknown axis: '' @ axis))
      else if level = not_applicable then Inr []
      else ebind (level_int level) (\<lambda>l.
        if l \<notin> set (axis_levels axis) then
          Inl (LadderError (''unsupported level '' @ int_str l @ '' for axis '' @ axis))
        else Inr (axis_required axis l)))"

text \<open>The certificate part of \<open>_validate\<close>, which applies from level 6 on.\<close>

definition certificate_supports :: "host \<Rightarrow> ladder_proof \<Rightarrow> int \<Rightarrow> bool" where
  "certificate_supports H p l =
     (case (lp_certificate p, lp_key p, lp_witness_sha256 p, lp_env_hash p) of
        (Some cert, Some key, Some wit, Some env) \<Rightarrow>
          given (lp_witness_sha256 p) \<and> given (lp_env_hash p) \<and>
          given (lp_observed_records_sha256 p) \<and> given (lp_trace_policy_sha256 p) \<and>
          given (lp_control_sha256 p) \<and>
          verify_cert H cert key wit env (lp_observed_records_sha256 p) (lp_trace_policy_sha256 p)
            (lp_control_sha256 p) (if l = 7 then lp_cross_check_sha256 p else None) \<and>
          (l = 7 \<longrightarrow> given (lp_cross_check_sha256 p))
      | _ \<Rightarrow> False)"

text \<open>The level after \<open>level = int(level)\<close>, checked against the axis.\<close>

definition checked_level :: "string \<Rightarrow> level \<Rightarrow> level res" where
  "checked_level axis level =
     (if level = not_applicable then Inr level
      else case level_int level of
        Inl _ \<Rightarrow> Inl (LadderError (''level must be an integer or '' @ str_repr ''not_applicable''))
      | Inr l \<Rightarrow>
          if l \<notin> set (axis_levels axis) then
            Inl (LadderError (''unsupported level '' @ int_str l @ '' for axis '' @ axis))
          else Inr (LInt l))"

definition validate_ladder :: "host \<Rightarrow> driver_token option \<Rightarrow> hypothesis option \<Rightarrow> string \<Rightarrow> level \<Rightarrow>
    ladder_proof option \<Rightarrow> (bool \<times> string list) res" where
  "validate_ladder H tok hyp axis level0 proof =
     (if \<not> token_valid H tok then Inl (LadderError ''only a valid driver token may award ladder levels'')
      else if axis \<notin> set axes then Inl (LadderError (''unknown axis: '' @ axis))
      else ebind (checked_level axis level0) (\<lambda>level.
        case proof of
          None \<Rightarrow> Inr (False, [])
        | Some p \<Rightarrow>
            if lp_axis p \<noteq> axis \<or> lp_level p \<noteq> level then Inr (False, [])
            else ebind (required_artifacts axis level) (\<lambda>required.
              if \<not> set required \<subseteq> set (lp_evidence p) then Inr (False, required)
              else case level of
                LStr _ \<Rightarrow> Inr (True, required)
              | LInt l \<Rightarrow>
                  if 6 \<le> l \<and> \<not> certificate_supports H p l then Inr (False, required)
                  else if axis = ''production'' \<and> l = 7 \<and> lp_certificate p = None then Inr (False, required)
                  else if axis = ''adjudication'' \<and> l = 8 \<and>
                      (case hyp of None \<Rightarrow> False | Some h \<Rightarrow> h_state h \<notin> {FINDING, CLOSED}) then
                    Inr (False, required)
                  else Inr (True, required))))"

section \<open>Awards\<close>

text \<open>\<open>current == "not_applicable" or current is None or int(current) < pre_level\<close>.\<close>

fun pred_met :: "ladder \<Rightarrow> (string \<times> int) list \<Rightarrow> bool res" where
  "pred_met l [] = Inr True"
| "pred_met l ((axis, v) # ps) =
     (case map_of l axis of
        None \<Rightarrow> Inr False
      | Some cur \<Rightarrow>
          if cur = not_applicable then Inr False
          else ebind (level_int cur) (\<lambda>c. if c < v then Inr False else pred_met l ps))"

definition prerequisites_satisfied :: "ladder \<Rightarrow> string \<Rightarrow> int \<Rightarrow> bool res" where
  "prerequisites_satisfied l axis level = pred_met l (predecessors axis level)"

definition validate_award :: "host \<Rightarrow> driver_token option \<Rightarrow> hypothesis option \<Rightarrow> string \<Rightarrow> level \<Rightarrow>
    ladder_proof option \<Rightarrow> bool res" where
  "validate_award H tok hyp axis level proof =
     ebind (validate_ladder H tok hyp axis level proof) (\<lambda>(ok, _).
       if \<not> ok then Inr False
       else case hyp of
         None \<Rightarrow> Inr True
       | Some h \<Rightarrow>
           if level = not_applicable then
             (case map_of (h_ladder h) axis of
                None \<Rightarrow> Inr True
              | Some cur \<Rightarrow>
                  if cur \<noteq> not_applicable then
                    Inl (LadderError (''cannot mark '' @ axis @ '' not_applicable after a level was awarded''))
                  else Inr True)
           else if map_of (h_ladder h) axis = Some not_applicable then
             Inl (LadderError (axis @ '' is already marked not_applicable''))
           else ebind (case map_of (h_ladder h) axis of None \<Rightarrow> Inr 0 | Some cur \<Rightarrow> level_int cur) (\<lambda>cur.
             ebind (level_int level) (\<lambda>l.
               if l < cur then
                 Inl (LadderError (''ladder is monotonic: '' @ axis @ '' cannot move from L'' @ int_str cur @
                   '' to L'' @ int_str l))
               else if cur < l then
                 ebind (prerequisites_satisfied (h_ladder h) axis l) (\<lambda>met.
                   if \<not> met then
                     Inl (LadderError (''axis prerequisites are not satisfied for '' @ axis @ '' L'' @ int_str l))
                   else Inr True)
               else Inr True)))"

text \<open>\<open>award\<close> returns the answer and the hypothesis with the new ladder.\<close>

definition award :: "host \<Rightarrow> driver_token option \<Rightarrow> hypothesis option \<Rightarrow> string \<Rightarrow> level \<Rightarrow>
    ladder_proof option \<Rightarrow> (bool \<times> hypothesis option) res" where
  "award H tok hyp axis level proof =
     ebind (validate_award H tok hyp axis level proof) (\<lambda>ok.
       if \<not> ok then Inr (False, hyp)
       else case hyp of
         None \<Rightarrow> Inr (True, None)
       | Some h \<Rightarrow>
           if level = not_applicable then
             Inr (True, Some (h\<lparr>h_ladder := AList.update axis level (h_ladder h)\<rparr>))
           else ebind (level_int level) (\<lambda>l.
             Inr (True, Some (h\<lparr>h_ladder := AList.update axis (LInt l) (h_ladder h)\<rparr>))))"

section \<open>Lemmas\<close>

lemma checked_level_eq_Inr:
  "checked_level axis level0 = Inr level \<longleftrightarrow>
    level0 = not_applicable \<and> level = not_applicable \<or>
    (\<exists>l. level0 \<noteq> not_applicable \<and> level_int level0 = Inr l \<and> l \<in> set (axis_levels axis) \<and> level = LInt l)"
  by (auto simp: checked_level_def split: sum.splits)

text \<open>What an accepted proof shows.\<close>

lemma validate_ladder_True:
  assumes "validate_ladder H tok hyp axis level0 proof = Inr (True, req)"
  obtains p level where "token_valid H tok" "axis \<in> set axes" "checked_level axis level0 = Inr level"
    "proof = Some p" "lp_axis p = axis" "lp_level p = level" "set req \<subseteq> set (lp_evidence p)"
    "required_artifacts axis level = Inr req"
    "\<And>l. level = LInt l \<Longrightarrow> 6 \<le> l \<Longrightarrow> certificate_supports H p l"
    "\<And>h. level = LInt 8 \<Longrightarrow> axis = ''adjudication'' \<Longrightarrow> hyp = Some h \<Longrightarrow> h_state h \<in> {FINDING, CLOSED}"
proof -
  from assms obtain level where l: "token_valid H tok" "axis \<in> set axes" "checked_level axis level0 = Inr level"
    and r: "(case proof of
          None \<Rightarrow> Inr (False, [])
        | Some p \<Rightarrow>
            if lp_axis p \<noteq> axis \<or> lp_level p \<noteq> level then Inr (False, [])
            else ebind (required_artifacts axis level) (\<lambda>required.
              if \<not> set required \<subseteq> set (lp_evidence p) then Inr (False, required)
              else case level of
                LStr _ \<Rightarrow> Inr (True, required)
              | LInt l \<Rightarrow>
                  if 6 \<le> l \<and> \<not> certificate_supports H p l then Inr (False, required)
                  else if axis = ''production'' \<and> l = 7 \<and> lp_certificate p = None then Inr (False, required)
                  else if axis = ''adjudication'' \<and> l = 8 \<and>
                      (case hyp of None \<Rightarrow> False | Some h \<Rightarrow> h_state h \<notin> {FINDING, CLOSED}) then
                    Inr (False, required)
                  else Inr (True, required))) = Inr (True, req)"
    by (auto simp: validate_ladder_def ebind_eq_Inr split: if_splits)
  from r obtain p where p: "proof = Some p" "lp_axis p = axis" "lp_level p = level"
    by (auto split: option.splits if_splits)
  with r have q: "required_artifacts axis level = Inr req" "set req \<subseteq> set (lp_evidence p)"
    by (auto simp: ebind_eq_Inr split: if_splits level.splits option.splits)
  with r p have "\<And>l. level = LInt l \<Longrightarrow> 6 \<le> l \<Longrightarrow> certificate_supports H p l"
    "\<And>h. level = LInt 8 \<Longrightarrow> axis = ''adjudication'' \<Longrightarrow> hyp = Some h \<Longrightarrow> h_state h \<in> {FINDING, CLOSED}"
    by (auto split: if_splits)
  with l p q that show thesis by blast
qed

text \<open>The outcome of \<open>award\<close> on a hypothesis, when it returns.\<close>

lemma award_eq:
  assumes "award H tok (Some h) axis level proof = Inr (b, hyp')"
  shows "\<not> b \<and> hyp' = Some h \<or>
    b \<and> level = not_applicable \<and> map_of (h_ladder h) axis \<in> {None, Some not_applicable} \<and>
      hyp' = Some (h\<lparr>h_ladder := AList.update axis not_applicable (h_ladder h)\<rparr>) \<or>
    (\<exists>l cur. b \<and> level \<noteq> not_applicable \<and> level_int level = Inr l \<and>
      map_of (h_ladder h) axis \<noteq> Some not_applicable \<and>
      (case map_of (h_ladder h) axis of None \<Rightarrow> Inr 0 | Some c \<Rightarrow> level_int c) = Inr cur \<and>
      cur \<le> l \<and> (cur < l \<longrightarrow> prerequisites_satisfied (h_ladder h) axis l = Inr True) \<and>
      hyp' = Some (h\<lparr>h_ladder := AList.update axis (LInt l) (h_ladder h)\<rparr>))"
proof (cases b)
  case False
  with assms show ?thesis by (auto simp: award_def ebind_eq_Inr split: if_splits)
next
  case True
  with assms have v: "validate_award H tok (Some h) axis level proof = Inr True"
    by (auto simp: award_def ebind_eq_Inr split: if_splits)
  show ?thesis
  proof (cases "level = not_applicable")
    case na: True
    with v have "map_of (h_ladder h) axis \<in> {None, Some not_applicable}"
      by (auto simp: validate_award_def ebind_eq_Inr split: if_splits option.splits)
    with na True v assms show ?thesis by (auto simp: award_def)
  next
    case False
    with v obtain cur l where "map_of (h_ladder h) axis \<noteq> Some not_applicable"
      "(case map_of (h_ladder h) axis of None \<Rightarrow> Inr 0 | Some c \<Rightarrow> level_int c) = Inr cur"
      "level_int level = Inr l" "cur \<le> l"
      "cur < l \<longrightarrow> prerequisites_satisfied (h_ladder h) axis l = Inr True"
      by (auto simp: validate_award_def ebind_eq_Inr split: if_splits)
    with False True v assms show ?thesis by (auto simp: award_def)
  qed
qed

lemma award_True_validates:
  assumes "award H tok (Some h) axis level proof = Inr (True, hyp')"
  shows "\<exists>req. validate_ladder H tok (Some h) axis level proof = Inr (True, req)"
  using assms
  by (auto simp: award_def validate_award_def ebind_eq_Inr split: if_splits)

section \<open>The ladders that awards can produce\<close>

text \<open>A value is well placed on its axis, and what it rests on has been awarded.\<close>

definition entry_ok :: "ladder \<Rightarrow> string \<Rightarrow> level \<Rightarrow> bool" where
  "entry_ok l axis v =
     (axis \<in> set axes \<and>
      (v = not_applicable \<or>
       (\<exists>i \<in> set (axis_levels axis). v = LInt i \<and> prerequisites_satisfied l axis i = Inr True)))"

definition ladder_ok :: "ladder \<Rightarrow> bool" where
  "ladder_ok l = (\<forall>axis v. map_of l axis = Some v \<longrightarrow> entry_ok l axis v)"

text \<open>Ladders are compared axis by axis: levels only rise, and a verdict is kept.\<close>

fun level_le :: "level option \<Rightarrow> level option \<Rightarrow> bool" where
  "level_le None w = True"
| "level_le (Some (LInt i)) (Some (LInt j)) = (i \<le> j)"
| "level_le (Some (LStr s)) w = (w = Some (LStr s))"
| "level_le v w = False"

definition ladder_le :: "ladder \<Rightarrow> ladder \<Rightarrow> bool" where
  "ladder_le l m = (\<forall>axis. level_le (map_of l axis) (map_of m axis))"

lemma level_le_iff:
  "level_le v w \<longleftrightarrow> v = None \<or> v = w \<or> (\<exists>i j. v = Some (LInt i) \<and> w = Some (LInt j) \<and> i \<le> j)"
  by (induction v w rule: level_le.induct) auto

lemma level_le_refl [simp]: "level_le v v"
  by (simp add: level_le_iff)

lemma level_le_trans [trans]: "level_le u v \<Longrightarrow> level_le v w \<Longrightarrow> level_le u w"
  by (auto simp: level_le_iff)

lemma ladder_le_refl [simp]: "ladder_le l l"
  by (simp add: ladder_le_def)

lemma ladder_le_trans: "ladder_le l m \<Longrightarrow> ladder_le m n \<Longrightarrow> ladder_le l n"
  unfolding ladder_le_def by (blast intro: level_le_trans)

text \<open>Satisfied prerequisites stay satisfied.\<close>

lemma pred_met_mono:
  assumes "pred_met l ps = Inr True" "ladder_le l m" "\<forall>axis. axis \<in> fst ` set ps \<longrightarrow>
    (\<exists>i. map_of l axis = Some (LInt i)) \<or> map_of l axis = None \<or> map_of l axis = Some not_applicable"
  shows "pred_met m ps = Inr True"
  using assms
proof (induction l ps rule: pred_met.induct)
  case (2 l axis v ps)
  then have le: "level_le (map_of l axis) (map_of m axis)" by (simp add: ladder_le_def)
  from 2(2,4) obtain i where i: "map_of l axis = Some (LInt i)"
    by (auto split: option.splits if_splits)
  with le obtain j where "map_of m axis = Some (LInt j)" "i \<le> j"
    by (cases "map_of m axis") (auto simp: level_le_iff)
  with 2 i show ?case by (auto split: if_splits)
qed simp

lemma ladder_ok_values:
  "ladder_ok l \<Longrightarrow> map_of l axis = Some v \<Longrightarrow> v = not_applicable \<or> (\<exists>i \<in> set (axis_levels axis). v = LInt i)"
  by (auto simp: ladder_ok_def entry_ok_def)

lemma pred_met_le:
  assumes "ladder_ok l" "ladder_le l m" "pred_met l ps = Inr True"
  shows "pred_met m ps = Inr True"
proof (rule pred_met_mono [OF assms(3,2)], intro allI impI)
  fix axis
  show "(\<exists>i. map_of l axis = Some (LInt i)) \<or> map_of l axis = None \<or> map_of l axis = Some not_applicable"
    using ladder_ok_values [OF assms(1), of axis] by (cases "map_of l axis") auto
qed

lemma entry_ok_le:
  "ladder_ok l \<Longrightarrow> ladder_le l m \<Longrightarrow> entry_ok l axis v \<Longrightarrow> entry_ok m axis v"
  by (auto simp: entry_ok_def prerequisites_satisfied_def intro: pred_met_le)

lemma nonpositive_no_predecessors: "i \<in> set (axis_levels axis) \<Longrightarrow> i \<le> 0 \<Longrightarrow> predecessors axis i = []"
  by (auto simp: axis_levels_def predecessors_def split: if_splits)

text \<open>One award on a well-formed ladder: it stays well formed and only rises.\<close>

lemma ladder_ok_update:
  assumes "ladder_ok l" "ladder_le l (AList.update axis v l)" "entry_ok l axis v"
  shows "ladder_ok (AList.update axis v l)"
  unfolding ladder_ok_def
proof (intro allI impI)
  fix a w
  assume "map_of (AList.update axis v l) a = Some w"
  then have "entry_ok l a w"
    using assms(1,3) by (auto simp: update_conv' ladder_ok_def split: if_splits)
  then show "entry_ok (AList.update axis v l) a w"
    by (rule entry_ok_le [OF assms(1,2)])
qed

lemma ladder_le_update: "level_le (map_of l axis) (Some v) \<Longrightarrow> ladder_le l (AList.update axis v l)"
  by (simp add: ladder_le_def update_conv')

lemma award_ladder:
  assumes "award H tok (Some h) axis level proof = Inr (b, Some h')" and "ladder_ok (h_ladder h)"
  shows "ladder_ok (h_ladder h') \<and> ladder_le (h_ladder h) (h_ladder h')"
proof -
  have val: "axis \<in> set axes \<and> (level \<noteq> not_applicable \<longrightarrow>
      (\<exists>l. level_int level = Inr l \<and> l \<in> set (axis_levels axis)))" if b
    using assms(1) that award_True_validates [of H tok h axis level "proof" "Some h'"]
    by (auto elim!: validate_ladder_True simp: checked_level_eq_Inr)
  from award_eq [OF assms(1)] consider "h' = h"
    | (na) "b" "map_of (h_ladder h) axis \<in> {None, Some not_applicable}"
      "h' = h\<lparr>h_ladder := AList.update axis not_applicable (h_ladder h)\<rparr>"
    | (lv) l cur where "b" "level \<noteq> not_applicable" "level_int level = Inr l"
      "map_of (h_ladder h) axis \<noteq> Some not_applicable"
      "(case map_of (h_ladder h) axis of None \<Rightarrow> Inr 0 | Some c \<Rightarrow> level_int c) = Inr cur" "cur \<le> l"
      "cur < l \<longrightarrow> prerequisites_satisfied (h_ladder h) axis l = Inr True"
      "h' = h\<lparr>h_ladder := AList.update axis (LInt l) (h_ladder h)\<rparr>"
    by auto
  then show ?thesis
  proof cases
    case na
    then have le: "ladder_le (h_ladder h) (h_ladder h')" by (auto intro: ladder_le_update)
    have "entry_ok (h_ladder h) axis not_applicable" using val na(1) by (simp add: entry_ok_def)
    with le na(3) show ?thesis using ladder_ok_update [OF assms(2)] by simp
  next
    case lv
    from lv val have l: "l \<in> set (axis_levels axis)" by auto
    have old: "map_of (h_ladder h) axis = Some (LInt cur) \<or> map_of (h_ladder h) axis = None \<and> cur = 0"
      using lv(4,5) ladder_ok_values [OF assms(2), of axis] by (auto split: option.splits)
    then have le: "ladder_le (h_ladder h) (h_ladder h')"
      using lv(6,8) by (auto intro: ladder_le_update)
    have "prerequisites_satisfied (h_ladder h) axis l = Inr True"
    proof (cases "cur < l")
      case False
      with lv(6) have "cur = l" by simp
      with old l assms(2) nonpositive_no_predecessors [OF l] show ?thesis
        by (auto simp: ladder_ok_def entry_ok_def prerequisites_satisfied_def)
    qed (use lv in simp)
    with val lv(1) l have "entry_ok (h_ladder h) axis (LInt l)" by (auto simp: entry_ok_def)
    with le lv(8) show ?thesis using ladder_ok_update [OF assms(2)] by simp
  qed (use assms in simp)
qed

text \<open>
  A sequence of awards to one hypothesis; between two of them its other fields may change (a
  lifecycle transition, for instance), its ladder not.
\<close>

inductive award_run :: "host \<Rightarrow> ladder \<Rightarrow> ladder \<Rightarrow> bool" for H where
  none: "award_run H l l"
| next_award: "award_run H l (h_ladder h) \<Longrightarrow> award H tok (Some h) axis level proof = Inr (b, Some h') \<Longrightarrow>
    award_run H l (h_ladder h')"

lemma award_run_ok:
  "award_run H l m \<Longrightarrow> ladder_ok l \<Longrightarrow> ladder_ok m \<and> ladder_le l m"
proof (induction rule: award_run.induct)
  case (next_award l h tok axis level "proof" b h')
  then show ?case using award_ladder ladder_le_trans by blast
qed simp

lemma ladder_ok_empty [simp]: "ladder_ok []"
  by (simp add: ladder_ok_def)

section \<open>Properties\<close>

text \<open>The value of an axis that has reached a level.\<close>

definition reached :: "ladder \<Rightarrow> string \<Rightarrow> int \<Rightarrow> bool" where
  "reached l axis i = (case map_of l axis of Some (LInt j) \<Rightarrow> i \<le> j | _ \<Rightarrow> False)"

lemma pred_met_iff:
  assumes "ladder_ok l"
  shows "pred_met l ps = Inr True \<longleftrightarrow> (\<forall>(axis, v) \<in> set ps. reached l axis v)"
proof (induction ps)
  case (Cons p ps)
  obtain axis v where p: "p = (axis, v)" by (cases p)
  consider "map_of l axis = None" | "map_of l axis = Some not_applicable" | i where "map_of l axis = Some (LInt i)"
    using ladder_ok_values [OF assms, of axis] by (cases "map_of l axis") auto
  then show ?case by cases (use Cons p in \<open>auto simp: reached_def\<close>)
qed simp

lemma reached_exact:
  assumes "ladder_ok l" "reached l axis i"
  obtains j where "map_of l axis = Some (LInt j)" "i \<le> j" "j \<in> set (axis_levels axis)"
    "\<forall>(a, v) \<in> set (predecessors axis j). reached l a v"
proof -
  from assms(2) obtain j where j: "map_of l axis = Some (LInt j)" "i \<le> j"
    by (auto simp: reached_def split: option.splits level.splits)
  with assms(1) have "j \<in> set (axis_levels axis)" "prerequisites_satisfied l axis j = Inr True"
    by (auto simp: ladder_ok_def entry_ok_def)
  with j that show thesis by (simp add: prerequisites_satisfied_def pred_met_iff [OF assms(1)])
qed

lemma production_7: "ladder_ok l \<Longrightarrow> reached l ''production'' 7 \<Longrightarrow>
    reached l ''execution'' 6 \<and> reached l ''economics'' 6"
  by (erule (1) reached_exact) (simp add: axis_levels_def predecessors_def)

lemma adjudication_8: "ladder_ok l \<Longrightarrow> reached l ''adjudication'' 8 \<Longrightarrow>
    reached l ''production'' 7 \<and> reached l ''economics'' 7"
  by (erule (1) reached_exact) (simp add: axis_levels_def predecessors_def)

lemma reached_mono: "reached l axis i \<Longrightarrow> j \<le> i \<Longrightarrow> reached l axis j"
  by (auto simp: reached_def split: option.splits level.splits)

lemma economics_6:
  assumes "ladder_ok l" "reached l ''economics'' 6"
  shows "reached l ''execution'' 5"
proof (rule reached_exact [OF assms])
  fix j
  assume "6 \<le> j" "j \<in> set (axis_levels ''economics'')"
    and pre: "\<forall>(a, v) \<in> set (predecessors ''economics'' j). reached l a v"
  then have "j = 6 \<or> j = 7" by (auto simp: axis_levels_def)
  with pre show ?thesis
    using production_7 [OF assms(1)] by (auto simp: predecessors_def intro: reached_mono)
qed

text \<open>
  C10: whatever sequence of awards a hypothesis goes through, its ladder obeys the table of
  predecessors: the top level is reached only on top of production and realistic economics, these
  only on top of a certified execution, and certified economics only with a witnessed execution.
\<close>
theorem ladder_reachable:
  assumes "award_run H [] l"
  shows "ladder_ok l \<and>
    (reached l ''adjudication'' 8 \<longrightarrow> reached l ''production'' 7 \<and> reached l ''economics'' 7) \<and>
    (reached l ''production'' 7 \<longrightarrow> reached l ''execution'' 6 \<and> reached l ''economics'' 6) \<and>
    (reached l ''economics'' 6 \<longrightarrow> reached l ''execution'' 5)"
  using award_run_ok [OF assms] adjudication_8 production_7 economics_6 by simp

text \<open>
  Awards only raise a ladder: along every sequence of awards no axis falls to a lower level, no
  axis loses its entry, and a level or a \<open>not_applicable\<close> verdict is never turned into the other.
\<close>
lemma ladder_monotone:
  assumes "ladder_ok l" and "award_run H l m"
  shows "ladder_ok m \<and> ladder_le l m"
  using award_run_ok [OF assms(2,1)] .


text \<open>
  The certificates of \<open>HostCertifier\<close> carry no cross check, so they support the levels six and
  eight, and never level seven: no award of production L7 or economics L7 can rest on one.
\<close>
lemma certifier_never_supports_L7:
  assumes "certifier_issue H now key_path key_file wit coll passed cid = Inr cert"
    and "lp_certificate p = Some cert"
  shows "\<not> certificate_supports H p 7"
proof -
  from assms(1) have "ce_cross_check_sha256 cert = None"
    by (auto simp: certifier_issue_def issue_eq_Inr split: option.splits)
  with assms(2) show ?thesis
    by (auto simp: certificate_supports_def given_def verify_cert_iff expects_def split: option.splits)
qed

section \<open>Witnesses\<close>

definition sample_proof :: "string \<Rightarrow> int \<Rightarrow> ladder_proof" where
  "sample_proof axis l = \<lparr>lp_axis = axis, lp_level = LInt l, lp_evidence = axis_required axis l,
     lp_certificate = Some sample_cert, lp_key = Some ''k'', lp_witness_sha256 = Some ''w'',
     lp_env_hash = Some ''e'', lp_observed_records_sha256 = Some ''o'', lp_trace_policy_sha256 = Some ''p'',
     lp_control_sha256 = Some ''c'', lp_cross_check_sha256 = Some ''x'', lp_production_cross_check = True\<rparr>"

lemma sample_certificate_supports [simp]: "certificate_supports sample_host (sample_proof axis l) l"
  by (simp add: certificate_supports_def sample_proof_def sample_cert_verifies)

lemma sample_validate:
  assumes "axis \<in> set axes" "l \<in> set (axis_levels axis)" "axis = ''adjudication'' \<longrightarrow> h_state h = FINDING"
  shows "validate_ladder sample_host (Some sample_token) (Some h) axis (LInt l) (Some (sample_proof axis l)) =
    Inr (True, axis_required axis l)"
  using assms
  by (simp add: validate_ladder_def token_valid_def sample_tokens_valid checked_level_def
      required_artifacts_def) (auto simp: sample_proof_def)

lemma sample_award:
  assumes "axis \<in> set axes" "l \<in> set (axis_levels axis)" "axis = ''adjudication'' \<longrightarrow> h_state h = FINDING"
    and "map_of (h_ladder h) axis = (if c = 0 then None else Some (LInt c))" "c \<le> l"
    and "pred_met (h_ladder h) (predecessors axis l) = Inr True"
  shows "award sample_host (Some sample_token) (Some h) axis (LInt l) (Some (sample_proof axis l)) =
    Inr (True, Some (h\<lparr>h_ladder := AList.update axis (LInt l) (h_ladder h)\<rparr>))"
  using assms
  by (auto simp: award_def validate_award_def sample_validate [OF assms(1-3)] prerequisites_satisfied_def)

text \<open>The full climb to level eight, as a list of awards.\<close>

definition climb :: "(string \<times> int) list" where
  "climb = [(''execution'', 3), (''execution'', 4), (''execution'', 5), (''economics'', 5),
     (''execution'', 6), (''economics'', 6), (''production'', 7), (''economics'', 7), (''adjudication'', 8)]"

definition climbed :: "(string \<times> int) list \<Rightarrow> hypothesis" where
  "climbed as = (sample_hypothesis FINDING)\<lparr>h_ladder :=
     foldl (\<lambda>l (axis, i). AList.update axis (LInt i) l) [] as\<rparr>"

lemma climb_step:
  assumes "award_run sample_host [] (h_ladder (climbed as))"
    and "axis \<in> set axes" "l \<in> set (axis_levels axis)"
    and "map_of (h_ladder (climbed as)) axis = (if c = 0 then None else Some (LInt c))" "c \<le> l"
    and "pred_met (h_ladder (climbed as)) (predecessors axis l) = Inr True"
  shows "award_run sample_host [] (h_ladder (climbed (as @ [(axis, l)])))"
proof -
  have "h_state (climbed as) = FINDING" by (simp add: climbed_def)
  from award_run.next_award [OF assms(1) sample_award [OF assms(2,3) _ assms(4-6)]] this
  show ?thesis by (simp add: climbed_def)
qed

lemmas climb_eval = climbed_def axes_def axis_levels_def predecessors_def

lemma climb_run: "award_run sample_host [] (h_ladder (climbed climb))"
proof -
  have "award_run sample_host [] (h_ladder (climbed []))" by (simp add: climbed_def award_run.none)
  then have "award_run sample_host [] (h_ladder (climbed ([] @ [(''execution'', 3)])))"
    by (rule climb_step [where c = 0]) (simp_all add: climb_eval)
  then have "award_run sample_host [] (h_ladder (climbed (([] @ [(''execution'', 3)]) @ [(''execution'', 4)])))"
    by (rule climb_step [where c = 3]) (simp_all add: climb_eval)
  then have "award_run sample_host [] (h_ladder (climbed ((([] @ [(''execution'', 3)]) @ [(''execution'', 4)]) @ [(''execution'', 5)])))"
    by (rule climb_step [where c = 4]) (simp_all add: climb_eval)
  then have "award_run sample_host [] (h_ladder (climbed (take 3 climb @ [(''economics'', 5)])))"
    unfolding climb_def by (intro climb_step [where c = 0]) (simp_all add: climb_eval)
  then have "award_run sample_host [] (h_ladder (climbed (take 4 climb @ [(''execution'', 6)])))"
    unfolding climb_def by (intro climb_step [where c = 5]) (simp_all add: climb_eval)
  then have "award_run sample_host [] (h_ladder (climbed (take 5 climb @ [(''economics'', 6)])))"
    unfolding climb_def by (intro climb_step [where c = 5]) (simp_all add: climb_eval)
  then have "award_run sample_host [] (h_ladder (climbed (take 6 climb @ [(''production'', 7)])))"
    unfolding climb_def by (intro climb_step [where c = 0]) (simp_all add: climb_eval)
  then have "award_run sample_host [] (h_ladder (climbed (take 7 climb @ [(''economics'', 7)])))"
    unfolding climb_def by (intro climb_step [where c = 6]) (simp_all add: climb_eval)
  then have "award_run sample_host [] (h_ladder (climbed (take 8 climb @ [(''adjudication'', 8)])))"
    unfolding climb_def by (intro climb_step [where c = 0]) (simp_all add: climb_eval)
  then show ?thesis by (simp add: climb_def)
qed

lemma ladder_reachable_witness:
  "reached (h_ladder (climbed climb)) ''adjudication'' 8 \<and> reached (h_ladder (climbed climb)) ''execution'' 6"
proof -
  have "reached (h_ladder (climbed climb)) ''adjudication'' 8"
    by (simp add: reached_def climbed_def climb_def)
  then show ?thesis using ladder_reachable [OF climb_run] by blast
qed

lemma ladder_monotone_witness: "ladder_ok (h_ladder (climbed climb)) \<and> ladder_le [] (h_ladder (climbed climb))"
  by (rule ladder_monotone [OF ladder_ok_empty climb_run])


lemma certifier_never_supports_L7_witness:
  "\<exists>cert. \<not> certificate_supports sample_host ((sample_proof ''production'' 7)\<lparr>lp_certificate := Some cert\<rparr>) 7 \<and>
    ce_runs cert = 3"
proof -
  obtain cert where c: "certifier_issue sample_host ''t'' [''root'', ''key''] (Some ''k'') ''w''
      \<lparr>rc_witness_hash = ''w'', rc_root = [''work''], rc_runs = 3, rc_observed_records_sha256 = ''o'',
       rc_trace_policy_sha256 = ''p'', rc_control_sha256 = ''c'', rc_environment_hash = ''e''\<rparr> True ''C'' = Inr cert"
    "ce_runs cert = 3"
    by (simp add: certifier_issue_def issue_def is_relative_to_def)
  from certifier_never_supports_L7 [OF c(1)] c(2) show ?thesis by (intro exI [of _ cert]) simp
qed

end
