(* ===== verification/CheatAbi.thy ===== *)
theory CheatAbi
  imports CoreModels Tokens Samples
begin

text \<open>
  \<open>chain/cheatcode_abi.py\<close>: the table of cheatcode selectors and the ABI decoder. Byte strings are
  lists of characters, words are read as integers, and offsets are integers checked against the
  length exactly where the code checks them. Keccak-256 is the field \<open>hs_keccak\<close> of the host. Bytes
  that are decoded as text stand for themselves (the replacement of malformed UTF-8 is not modelled).
\<close>

section \<open>Selectors\<close>

definition CHEATCODE_ADDRESS :: string where
  "CHEATCODE_ADDRESS = ''0x7109709ecfa91a80626ff3989d68f67f5b1dd12d''"

definition PRANK_FORMS :: "string list" where
  "PRANK_FORMS = [''(address)'', ''(address,address)'', ''(address,bool)'', ''(address,address,bool)'']"

definition SIGNATURES :: "(string \<times> string list) list" where
  "SIGNATURES =
    [(''warp'', [''warp(uint256)'']),
     (''roll'', [''roll(uint256)'']),
     (''deal'', [''deal(address,uint256)'']),
     (''prank'', map ((@) ''prank'') PRANK_FORMS),
     (''startPrank'', map ((@) ''startPrank'') PRANK_FORMS),
     (''stopPrank'', [''stopPrank()'']),
     (''etch'', [''etch(address,bytes)'']),
     (''store'', [''store(address,bytes32,bytes32)'']),
     (''load'', [''load(address,bytes32)'']),
     (''label'', [''label(address,string)'']),
     (''expectRevert'', [''expectRevert()'', ''expectRevert(bytes4)'', ''expectRevert(bytes)'']),
     (''expectEmit'', [''expectEmit()'', ''expectEmit(address)'', ''expectEmit(bool,bool,bool,bool)'',
        ''expectEmit(bool,bool,bool,bool,address)'']),
     (''assume'', [''assume(bool)'']),
     (''ffi'', [''ffi(string[])'']),
     (''readFile'', [''readFile(string)'']),
     (''writeFile'', [''writeFile(string,string)'']),
     (''setEnv'', [''setEnv(string,string)'']),
     (''createSelectFork'', [''createSelectFork(string)'', ''createSelectFork(string,uint256)'',
        ''createSelectFork(string,bytes32)'']),
     (''deployCode'', [''deployCode(bytes)'', ''deployCode(bytes,uint256)'', ''deployCode(string)'',
        ''deployCode(string,uint256)'']),
     (''createFork'', [''createFork(string)'', ''createFork(string,uint256)'', ''createFork(string,bytes32)'']),
     (''selectFork'', [''selectFork(uint256)'']),
     (''envString'', [''envString(string)'', ''envString(string,string)'']),
     (''skip'', [''skip(uint256)'', ''skip(bool)'', ''skip(bool,string)'']),
     (''rewind'', [''rewind(uint256)'']),
     (''chainId'', [''chainId(uint256)'']),
     (''coinbase'', [''coinbase(address)'']),
     (''prevrandao'', [''prevrandao(bytes32)'', ''prevrandao(uint256)'']),
     (''fee'', [''fee(uint256)'']),
     (''txGasPrice'', [''txGasPrice(uint256)'']),
     (''mockCall'', [''mockCall(address,bytes,bytes)'']),
     (''setNonce'', [''setNonce(address,uint64)'']),
     (''sign'', [''sign(uint256,bytes32)'']),
     (''makePersistent'', [''makePersistent(address)''])]"

definition selector_of :: "host \<Rightarrow> string \<Rightarrow> string" where
  "selector_of H signature = ''0x'' @ to_hex (take 4 (hs_keccak H signature))"

type_synonym sel_table = "(string \<times> string \<times> string) list"

definition add_selector :: "host \<Rightarrow> string \<times> string \<Rightarrow> sel_table \<Rightarrow> sel_table res" where
  "add_selector H ns tbl = (case ns of (name, signature) \<Rightarrow>
     let selector = selector_of H signature in
     if map_of tbl selector \<noteq> None then
       Inl (RuntimeError (''cheatcode selector collision: '' @ signature))
     else Inr (tbl @ [(selector, name, signature)]))"

definition all_signatures :: "(string \<times> string) list" where
  "all_signatures = concat (map (\<lambda>(name, sigs). map (Pair name) sigs) SIGNATURES)"

definition build_table :: "host \<Rightarrow> sel_table res" where
  "build_table H = efold (add_selector H) all_signatures []"

text \<open>\<open>SELECTOR_TABLE\<close>: the module does not load if the table cannot be built.\<close>

definition selector_table :: "host \<Rightarrow> sel_table" where
  "selector_table H = (case build_table H of Inl _ \<Rightarrow> [] | Inr tbl \<Rightarrow> tbl)"

definition name_for_selector :: "host \<Rightarrow> string option \<Rightarrow> string" where
  "name_for_selector H selector =
     (if \<not> given selector then ''unknown''
      else let s = lower (the selector) in
        case map_of (selector_table H) s of Some (name, _) \<Rightarrow> name | None \<Rightarrow> ''unknown_'' @ s)"

section \<open>The ABI decoder\<close>

text \<open>\<open>s.split(c)\<close>.\<close>

fun split_on :: "char \<Rightarrow> string \<Rightarrow> string list" where
  "split_on c [] = [[]]"
| "split_on c (d # s) =
     (if d = c then [] # split_on c s
      else case split_on c s of [] \<Rightarrow> [[d]] | w # ws \<Rightarrow> (d # w) # ws)"

definition split_types :: "string \<Rightarrow> string list" where
  "split_types argument_list = filter (\<lambda>t. t \<noteq> []) (split_on (CHR '','') argument_list)"

text \<open>\<open>signature[signature.index("(") + 1 : -1]\<close>.\<close>

definition signature_types :: "string \<Rightarrow> string list" where
  "signature_types signature = split_types (butlast (tl (dropWhile (\<lambda>c. c \<noteq> CHR ''('') signature)))"

definition abi_error :: "string \<Rightarrow> exc" where
  "abi_error m = CheatcodeDecodeError m"

definition abi_word :: "string \<Rightarrow> int \<Rightarrow> string res" where
  "abi_word data off =
     (if off < 0 \<or> int (length data) < off + 32 then Inl (abi_error ''calldata is truncated'')
      else Inr (take 32 (drop (nat off) data)))"

text \<open>\<open>int.from_bytes(word, "big", signed=...)\<close>.\<close>

fun be_int :: "string \<Rightarrow> int \<Rightarrow> int" where
  "be_int [] acc = acc"
| "be_int (b # bs) acc = be_int bs (256 * acc + of_char b)"

definition word_uint :: "string \<Rightarrow> int" where
  "word_uint w = be_int w 0"

definition word_sint :: "string \<Rightarrow> int" where
  "word_sint w = (let v = be_int w 0; m = 2 ^ (8 * length w) in if m \<le> 2 * v then v - m else v)"

definition zero_byte :: char where
  "zero_byte = CHR 0x00"

definition type_bits :: "string \<Rightarrow> nat res" where
  "type_bits s = (if s = [] then Inr 256
     else case parse_nat s of Some n \<Rightarrow> Inr n
       | None \<Rightarrow> Inl (ValueError (''invalid literal for int() with base 10: '' @ str_repr s)))"

definition decode_static :: "string \<Rightarrow> string \<Rightarrow> pv res" where
  "decode_static kind w =
     (if kind = ''address'' then
        (if list_ex (\<lambda>b. b \<noteq> zero_byte) (take 12 w) then
           Inl (abi_error ''address argument has non-zero high bytes'')
         else Inr (PStr (''0x'' @ to_hex (drop 12 w))))
      else if kind = ''bool'' then
        (let v = word_uint w in
         if v \<noteq> 0 \<and> v \<noteq> 1 then Inl (abi_error ''bool argument is not 0 or 1'') else Inr (PBool (v = 1)))
      else if startswith kind ''uint'' then
        ebind (type_bits (drop 4 kind)) (\<lambda>bits.
          let v = word_uint w in
          if v div 2 ^ bits \<noteq> 0 then Inl (abi_error (kind @ '' argument overflows its width''))
          else Inr (PInt v))
      else if startswith kind ''int'' then
        ebind (type_bits (drop 3 kind)) (\<lambda>bits.
          let v = word_sint w in
          if bits = 0 then Inl (ValueError ''negative shift count'')
          else if \<not> (- (2 ^ (bits - 1)) \<le> v \<and> v < 2 ^ (bits - 1)) then
            Inl (abi_error (kind @ '' argument overflows its width''))
          else Inr (PInt v))
      else if startswith kind ''bytes'' \<and> kind \<noteq> ''bytes'' then
        (case parse_nat (drop 5 kind) of
           None \<Rightarrow> Inl (ValueError (''invalid literal for int() with base 10: '' @ str_repr (drop 5 kind)))
         | Some size' \<Rightarrow>
             if \<not> (1 \<le> size' \<and> size' \<le> 32) \<or> list_ex (\<lambda>b. b \<noteq> zero_byte) (drop size' w) then
               Inl (abi_error (kind @ '' argument has non-zero padding''))
             else Inr (PStr (''0x'' @ to_hex (take size' w))))
      else Inl (abi_error (''unsupported static type '' @ kind)))"

definition decode_dynamic :: "string \<Rightarrow> string \<Rightarrow> string \<Rightarrow> pv res" where
  "decode_dynamic kind data head_word =
     (let off = word_uint head_word in
      ebind (abi_word data off) (\<lambda>lw.
        let len = word_uint lw; start = off + 32 in
        if int (length data) < start + len then Inl (abi_error ''dynamic argument is truncated'')
        else let raw = take (nat len) (drop (nat start) data) in
          Inr (PStr (if kind = ''string'' then raw else ''0x'' @ to_hex raw))))"

definition decode_argument :: "string \<Rightarrow> nat \<Rightarrow> string \<Rightarrow> pv res" where
  "decode_argument body index kind =
     ebind (abi_word body (32 * int index)) (\<lambda>head.
       if kind \<in> {''string'', ''bytes''} then decode_dynamic kind body head
       else if endswith kind ''[]'' then Inr PNone
       else decode_static kind head)"

text \<open>\<open>decode_abi_arguments\<close>: the loop over \<open>enumerate(types)\<close>.\<close>

fun decode_from :: "string \<Rightarrow> nat \<Rightarrow> string list \<Rightarrow> pv list res" where
  "decode_from body index [] = Inr []"
| "decode_from body index (kind # types) =
     ebind (decode_argument body index kind) (\<lambda>v.
       ebind (decode_from body (Suc index) types) (\<lambda>vs. Inr (v # vs)))"

definition decode_abi_arguments :: "string list \<Rightarrow> string \<Rightarrow> pv list res" where
  "decode_abi_arguments types body = decode_from body 0 types"

record decoded_cheatcode =
  dc_name :: string
  dc_selector :: string
  dc_signature :: "string option"
  dc_args :: "pv list option"

definition decode_cheatcode :: "host \<Rightarrow> string option \<Rightarrow> decoded_cheatcode res" where
  "decode_cheatcode H calldata_hex =
     (let text = lower (if given calldata_hex then the calldata_hex else ''0x'') in
      if \<not> startswith text ''0x'' then Inl (abi_error ''calldata must be 0x-prefixed hex'')
      else case from_hex (drop 2 text) of
        None \<Rightarrow> Inl (abi_error ''calldata is not valid hex'')
      | Some raw \<Rightarrow>
          if length raw < 4 then
            Inr \<lparr>dc_name = ''unknown'', dc_selector = ''0x'', dc_signature = None, dc_args = None\<rparr>
          else let selector = ''0x'' @ to_hex (take 4 raw) in
            case map_of (selector_table H) selector of
              None \<Rightarrow> Inr \<lparr>dc_name = ''unknown_'' @ selector, dc_selector = selector,
                           dc_signature = None, dc_args = None\<rparr>
            | Some (name, signature) \<Rightarrow>
                ebind (decode_abi_arguments (signature_types signature) (drop 4 raw)) (\<lambda>args.
                  Inr \<lparr>dc_name = name, dc_selector = selector, dc_signature = Some signature,
                       dc_args = Some args\<rparr>))"

section \<open>The reference encoding\<close>

text \<open>Solidity's argument encoding (head and tail), which the decoder is to invert.\<close>

datatype abi_val =
    VAddress string
  | VBool bool
  | VUint nat int
  | VInt nat int
  | VFixed string
  | VBytes string
  | VString string

fun int_be :: "nat \<Rightarrow> int \<Rightarrow> string" where
  "int_be 0 v = []"
| "int_be (Suc n) v = int_be n (v div 256) @ [char_of (v mod 256)]"

definition pad_right :: "nat \<Rightarrow> string \<Rightarrow> string" where
  "pad_right n s = s @ replicate (n - length s) zero_byte"

fun abi_kind :: "abi_val \<Rightarrow> string" where
  "abi_kind (VAddress a) = ''address''"
| "abi_kind (VBool b) = ''bool''"
| "abi_kind (VUint bits v) = ''uint'' @ nat_str bits"
| "abi_kind (VInt bits v) = ''int'' @ nat_str bits"
| "abi_kind (VFixed b) = ''bytes'' @ nat_str (length b)"
| "abi_kind (VBytes b) = ''bytes''"
| "abi_kind (VString b) = ''string''"

fun abi_ok :: "abi_val \<Rightarrow> bool" where
  "abi_ok (VAddress a) = (length a = 20)"
| "abi_ok (VBool b) = True"
| "abi_ok (VUint bits v) = (bits \<le> 256 \<and> 0 \<le> v \<and> v < 2 ^ bits)"
| "abi_ok (VInt bits v) = (0 < bits \<and> bits \<le> 256 \<and> - (2 ^ (bits - 1)) \<le> v \<and> v < 2 ^ (bits - 1))"
| "abi_ok (VFixed b) = (1 \<le> length b \<and> length b \<le> 32)"
| "abi_ok _ = True"

fun abi_out :: "abi_val \<Rightarrow> pv" where
  "abi_out (VAddress a) = PStr (''0x'' @ to_hex a)"
| "abi_out (VBool b) = PBool b"
| "abi_out (VUint bits v) = PInt v"
| "abi_out (VInt bits v) = PInt v"
| "abi_out (VFixed b) = PStr (''0x'' @ to_hex b)"
| "abi_out (VBytes b) = PStr (''0x'' @ to_hex b)"
| "abi_out (VString b) = PStr b"

fun abi_tail :: "abi_val \<Rightarrow> string" where
  "abi_tail (VBytes b) = int_be 32 (int (length b)) @ b"
| "abi_tail (VString b) = int_be 32 (int (length b)) @ b"
| "abi_tail _ = []"

fun abi_head :: "abi_val \<Rightarrow> int \<Rightarrow> string" where
  "abi_head (VAddress a) off = replicate 12 zero_byte @ a"
| "abi_head (VBool b) off = int_be 32 (if b then 1 else 0)"
| "abi_head (VUint bits v) off = int_be 32 v"
| "abi_head (VInt bits v) off = int_be 32 v"
| "abi_head (VFixed b) off = pad_right 32 b"
| "abi_head _ off = int_be 32 off"

fun abi_heads :: "abi_val list \<Rightarrow> int \<Rightarrow> string" where
  "abi_heads [] off = []"
| "abi_heads (v # vs) off = abi_head v off @ abi_heads vs (off + int (length (abi_tail v)))"

definition abi_encode :: "abi_val list \<Rightarrow> string" where
  "abi_encode vs = abi_heads vs (32 * int (length vs)) @ concat (map abi_tail vs)"

section \<open>Lemmas\<close>

lemma length_int_be [simp]: "length (int_be n v) = n"
  by (induction n arbitrary: v) auto

lemma be_int_append: "be_int (a @ b) acc = be_int b (be_int a acc)"
  by (induction a arbitrary: acc) auto

lemma of_char_char_of_int: "(of_char (char_of (v mod 256 :: int)) :: int) = v mod 256"
  by (simp add: of_char_of)

lemma be_int_int_be: "be_int (int_be n v) acc = 256 ^ n * acc + v mod 256 ^ n"
proof (induction n arbitrary: v)
  case (Suc n)
  have "v mod 256 ^ Suc n = 256 * (v div 256 mod 256 ^ n) + v mod 256"
    using zmod_zmult2_eq [of "256 ^ n" v 256] by simp
  with Suc show ?case by (simp add: be_int_append of_char_char_of_int algebra_simps)
qed simp

lemma pow_256: "(256 :: int) ^ n = 2 ^ (8 * n)"
  by (simp add: power_mult)

lemma word_uint_int_be: "0 \<le> v \<Longrightarrow> v < 2 ^ 256 \<Longrightarrow> word_uint (int_be 32 v) = v"
  by (simp add: word_uint_def be_int_int_be)

lemma word_sint_int_be:
  assumes "- (2 ^ 255) \<le> v" "v < 2 ^ 255"
  shows "word_sint (int_be 32 v) = v"
proof (cases "0 \<le> v")
  case True
  with assms show ?thesis by (simp add: word_sint_def be_int_int_be)
next
  case False
  have "v mod 2 ^ 256 = (v + 2 ^ 256) mod 2 ^ 256" by simp
  also have "\<dots> = v + 2 ^ 256" using assms False by (intro mod_pos_pos_trivial) auto
  finally show ?thesis using assms False by (simp add: word_sint_def be_int_int_be)
qed

lemma power_le_256: "bits \<le> 256 \<Longrightarrow> (2 :: int) ^ bits \<le> 2 ^ 256"
  by (rule power_increasing) simp_all

lemma power_le_255: "bits \<le> 256 \<Longrightarrow> (2 :: int) ^ (bits - 1) \<le> 2 ^ 255"
  by (rule power_increasing) simp_all

lemma parse_digits_all: "list_all is_digit s \<Longrightarrow> parse_digits s acc = Some (digits_val s acc)"
  by (induction s arbitrary: acc) auto

lemma parse_nat_nat_str [simp]: "parse_nat (nat_str n) = Some n"
proof -
  have all: "list_all is_digit (nat_str n)" by (auto simp: list_all_iff nat_str_digits)
  obtain c s where c: "nat_str n = c # s" by (cases "nat_str n") auto
  with all have "parse_nat (nat_str n) = parse_digits (nat_str n) 0" by (simp add: parse_nat_def)
  also have "\<dots> = Some n" by (simp add: parse_digits_all [OF all])
  finally show ?thesis .
qed

lemma type_bits_nat_str [simp]: "type_bits (nat_str n) = Inr n"
  by (simp add: type_bits_def)

lemma abi_word_at: "length pre = n \<Longrightarrow> length w = 32 \<Longrightarrow> abi_word (pre @ w @ post) (int n) = Inr w"
  by (simp add: abi_word_def)

lemma length_abi_head [simp]: "abi_ok v \<Longrightarrow> length (abi_head v off) = 32"
  by (cases v) (auto simp: pad_right_def)

lemma list_ex_zero [simp]: "\<not> list_ex (\<lambda>b. b \<noteq> zero_byte) (replicate n zero_byte)"
  by (auto simp: list_ex_iff)

text \<open>A static head word decodes to its value.\<close>

fun is_dynamic :: "abi_val \<Rightarrow> bool" where
  "is_dynamic (VBytes b) = True"
| "is_dynamic (VString b) = True"
| "is_dynamic v = False"

lemma decode_static_head:
  assumes "abi_ok v" "\<not> is_dynamic v"
  shows "decode_static (abi_kind v) (abi_head v off) = Inr (abi_out v)"
proof (cases v)
  case (VUint bits i)
  from VUint assms(1) have i: "0 \<le> i" "i < 2 ^ bits" "bits \<le> 256" by simp_all
  from i(1) less_le_trans [OF i(2) power_le_256 [OF i(3)]]
  have "word_uint (int_be 32 i) = i" by (rule word_uint_int_be)
  with VUint assms show ?thesis by (simp add: decode_static_def)
next
  case (VInt bits i)
  from VInt assms(1) have i: "- (2 ^ (bits - 1)) \<le> i" "i < 2 ^ (bits - 1)" "bits \<le> 256" by simp_all
  from i(1) power_le_255 [OF i(3)] have "- (2 ^ 255) \<le> i" by linarith
  moreover from i(2) power_le_255 [OF i(3)] have "i < 2 ^ 255" by linarith
  ultimately have "word_sint (int_be 32 i) = i" by (rule word_sint_int_be)
  with VInt assms show ?thesis by (simp add: decode_static_def Let_def)
qed (use assms in \<open>simp_all add: decode_static_def pad_right_def word_uint_int_be\<close>)

lemma endswith_digit: "is_digit c \<Longrightarrow> \<not> endswith (s @ [c]) ''[]''"
  by (auto simp: endswith_def)

lemma abi_kind_static:
  assumes "\<not> is_dynamic v"
  shows "abi_kind v \<notin> {''string'', ''bytes''}" "\<not> endswith (abi_kind v) ''[]''"
proof -
  have digits: "\<not> endswith (p @ nat_str n) ''[]''" for p n
  proof -
    have "nat_str n = butlast (nat_str n) @ [last (nat_str n)]" by simp
    moreover have "is_digit (last (nat_str n))" by (rule nat_str_digits [of _ n]) simp
    ultimately show ?thesis using endswith_digit by (metis append_assoc)
  qed
  show "abi_kind v \<notin> {''string'', ''bytes''}"
    using assms by (cases v) auto
  show "\<not> endswith (abi_kind v) ''[]''"
    using assms by (cases v) (auto simp: digits simp del: append.simps, auto simp: endswith_def)
qed

lemma decode_dynamic_tail:
  assumes "int (length pre) < 2 ^ 256" "int (length b) < 2 ^ 256"
  shows "decode_dynamic kind (pre @ int_be 32 (int (length b)) @ b @ post) (int_be 32 (int (length pre))) =
    Inr (PStr (if kind = ''string'' then b else ''0x'' @ to_hex b))"
proof -
  have "word_uint (int_be 32 (int (length pre))) = int (length pre)"
    "word_uint (int_be 32 (int (length b))) = int (length b)"
    using assms by (simp_all add: word_uint_int_be)
  moreover have "nat (int (length pre) + 32) = length pre + 32" by simp
  ultimately show ?thesis by (simp add: decode_dynamic_def abi_word_at Let_def)
qed

text \<open>
  The decoder run on a block of heads inside a body: \<open>hs\<close> are the heads before it and \<open>ts\<close> the tails
  before its own tails.
\<close>

lemma decode_from_encoded:
  assumes "list_all abi_ok vs" "length hs = 32 * i"
    and "off = int (length hs + 32 * length vs + length ts)"
    and "body = hs @ abi_heads vs off @ ts @ concat (map abi_tail vs)" "int (length body) < 2 ^ 256"
  shows "decode_from body i (map abi_kind vs) = Inr (map abi_out vs)"
  using assms
proof (induction vs arbitrary: i hs ts off)
  case (Cons v vs)
  let ?off = "off + int (length (abi_tail v))"
  from Cons.prems have ok: "abi_ok v" "list_all abi_ok vs" by simp_all
  have body: "body = hs @ abi_head v off @ abi_heads vs ?off @ ts @ abi_tail v @ concat (map abi_tail vs)"
    using Cons.prems by simp
  have lens: "length (abi_heads ws o') = 32 * length ws" if "list_all abi_ok ws" for ws o'
    using that by (induction ws arbitrary: o') auto
  have "decode_from body (Suc i) (map abi_kind vs) = Inr (map abi_out vs)"
    by (rule Cons.IH [where hs = "hs @ abi_head v off" and ts = "ts @ abi_tail v" and off = ?off])
      (use Cons.prems ok body in simp_all)
  moreover have head: "abi_word body (32 * int i) = Inr (abi_head v off)"
    using abi_word_at [of hs "32 * i" "abi_head v off"] Cons.prems ok body by simp
  have "decode_argument body i (abi_kind v) = Inr (abi_out v)"
  proof (cases "is_dynamic v")
    case False
    with head abi_kind_static [OF this] decode_static_head [OF ok(1) False] show ?thesis
      by (simp add: decode_argument_def)
  next
    case True
    let ?pre = "hs @ abi_head v off @ abi_heads vs ?off @ ts"
    have off: "off = int (length ?pre)"
      using Cons.prems ok lens [OF ok(2)] by simp
    from True obtain b where b: "abi_tail v = int_be 32 (int (length b)) @ b"
      "abi_head v off = int_be 32 off" "abi_out v = PStr (if abi_kind v = ''string'' then b else ''0x'' @ to_hex b)"
      "abi_kind v = ''string'' \<or> abi_kind v = ''bytes''"
      by (cases v) auto
    have "body = ?pre @ int_be 32 (int (length b)) @ b @ concat (map abi_tail vs)"
      using body b(1) by simp
    moreover from this have "int (length ?pre) < 2 ^ 256" "int (length b) < 2 ^ 256"
      using Cons.prems(5) by simp_all
    ultimately have "decode_dynamic (abi_kind v) body (int_be 32 (int (length ?pre))) = Inr (abi_out v)"
      using decode_dynamic_tail [of ?pre b "abi_kind v" "concat (map abi_tail vs)"] b(3) by simp
    with head b(2,4) off show ?thesis by (auto simp: decode_argument_def)
  qed
  ultimately show ?case by simp
qed simp

section \<open>The table\<close>

definition table_row :: "host \<Rightarrow> string \<times> string \<Rightarrow> string \<times> string \<times> string" where
  "table_row H ns = (selector_of H (snd ns), ns)"

text \<open>The table is built if and only if no two signatures share a selector.\<close>

lemma fold_add_selector:
  "efold (add_selector H) ns tbl = Inr tbl' \<longleftrightarrow>
    tbl' = tbl @ map (table_row H) ns \<and> distinct (map (selector_of H \<circ> snd) ns) \<and>
    (\<forall>n \<in> set ns. selector_of H (snd n) \<notin> fst ` set tbl)"
proof (induction ns arbitrary: tbl)
  case (Cons n ns)
  obtain name sg where n: "n = (name, sg)" by (cases n)
  show ?case
  proof (cases "map_of tbl (selector_of H sg)")
    case None
    then have "selector_of H sg \<notin> fst ` set tbl" by (simp add: map_of_eq_None_iff)
    moreover have "add_selector H n tbl = Inr (tbl @ [table_row H n])"
      using None by (simp add: n add_selector_def table_row_def)
    ultimately show ?thesis
      by (auto simp: Cons.IH) (auto simp: n table_row_def image_iff)
  next
    case (Some v)
    then have "selector_of H sg \<in> fst ` set tbl" by (metis domI dom_map_of_conv_image_fst)
    with Some show ?thesis by (auto simp: n add_selector_def)
  qed
qed auto

lemma build_table_eq:
  "build_table H = Inr tbl \<longleftrightarrow>
    tbl = map (table_row H) all_signatures \<and> distinct (map (selector_of H \<circ> snd) all_signatures)"
  by (simp add: build_table_def fold_add_selector)

text \<open>
  Keccak-256 on the texts that the sources hash when they are loaded: the first four bytes of the
  digests of the signatures, in the order of the table, and the digests of the event signatures. The
  host of the witnesses about traces has these; on any other text its Keccak is the text itself.
\<close>

definition signature_digests :: "string list" where
  "signature_digests =
    [''e5d6bf02'', ''1f7b4f30'', ''c88a5e6d'', ''ca669fa7'', ''47e50cce'', ''a7f8bf5c'', ''7d73d042'',
     ''06447d56'', ''45b56078'', ''1cc0b435'', ''4eb859b5'', ''90c5013b'', ''b4d6c782'', ''70ca10bb'',
     ''667f9d70'', ''c657c718'', ''f4844814'', ''c31eb0e0'', ''f28dceb3'', ''440ed10d'', ''86b9620d'',
     ''491cc7c2'', ''81bad6f3'', ''4c63e562'', ''89160467'', ''60f9bb11'', ''897e0a97'', ''3d5923ee'',
     ''98680034'', ''71ee464d'', ''84d52b7a'', ''d4616967'', ''22fce380'', ''9a8325a0'', ''0af6a701'',
     ''31ba3498'', ''6ba3ba2b'', ''7ca29682'', ''9ebf6827'', ''f877cb19'', ''14b02bc9'', ''b9c071b4'',
     ''dd82d13e'', ''c42a80a7'', ''2d6c17a3'', ''4049ddd2'', ''ff483c54'', ''3b925549'', ''9cb1c0d4'',
     ''39b37ab0'', ''48f50c0f'', ''b96213e4'', ''f8e18b57'', ''e341eaa4'', ''57e22dde'']"

definition event_digests :: "(string \<times> string) list" where
  "event_digests =
    [(''AssertionChecked(bytes32,string,string,int256,int256,bool)'',
      ''aba7813be77ca5d600ae46b50d20098d35471cf5d41daf62b68ced3e5facba26''),
     (''ControlObserved(bytes32,bool)'',
      ''b6607e780c10b6af46cca63ec0c9ef315619dc876cbf34ea5ef896e11ce86ba4''),
     (''AssertionContext(bytes32,address,address)'',
      ''08a0f4498b8ca10fa15bb71bf6e33aff303b70ffcfd9e61d78286f0691edfbac''),
     (''EconomicSnapshot(bytes32,address,address,uint256,uint256,uint256,uint256,uint256,int256)'',
      ''e2b98d6ab5f030d0021f56314bfd798a25d0546116e3fce279711a40d7f99485''),
     (''Transfer(address,address,uint256)'',
      ''ddf252ad1be2c89b69c2b068fc378daa952ba7f163c4a11628f55a4df523b3ef'')]"

definition sample_keccak :: "string \<Rightarrow> string" where
  "sample_keccak s =
     (case map_of (zip (map snd all_signatures) signature_digests @ event_digests) s of
        Some hx \<Rightarrow> (case from_hex hx of Some b \<Rightarrow> b | None \<Rightarrow> s) | None \<Rightarrow> s)"

definition evm_host :: host where
  "evm_host = sample_host\<lparr>hs_keccak := sample_keccak\<rparr>"

lemma distinct_signatures: "distinct (map snd all_signatures)"
  by code_simp

lemma signature_digests_facts:
  "length signature_digests = length all_signatures" "distinct signature_digests"
  "map (\<lambda>hx. map_option (\<lambda>b. to_hex (take 4 b)) (from_hex hx)) signature_digests = map Some signature_digests"
  by code_simp+

lemma map_of_zip_self:
  "distinct ks \<Longrightarrow> length ks = length vs \<Longrightarrow> map (map_of (zip ks vs)) ks = map Some vs"
  by (intro nth_equalityI) (simp_all add: map_of_zip_nth)

lemma evm_selectors:
  "map (selector_of evm_host \<circ> snd) all_signatures = map ((@) ''0x'') signature_digests"
proof (rule nth_equalityI)
  show "length (map (selector_of evm_host \<circ> snd) all_signatures) = length (map ((@) ''0x'') signature_digests)"
    by (simp add: signature_digests_facts(1))
next
  fix i assume "i < length (map (selector_of evm_host \<circ> snd) all_signatures)"
  then have i: "i < length all_signatures" "i < length signature_digests"
    by (simp_all add: signature_digests_facts(1))
  let ?s = "snd (all_signatures ! i)" and ?d = "signature_digests ! i"
  have "map_of (zip (map snd all_signatures) signature_digests) ?s = Some ?d"
    using map_of_zip_nth [of "map snd all_signatures" signature_digests i] distinct_signatures
      signature_digests_facts(1) i by simp
  moreover obtain b where "from_hex ?d = Some b" "to_hex (take 4 b) = ?d"
    using arg_cong [OF signature_digests_facts(3), of "\<lambda>l. l ! i"] i by auto
  ultimately have "selector_of evm_host ?s = ''0x'' @ ?d"
    by (simp add: selector_of_def evm_host_def sample_keccak_def map_add_Some_iff)
  with i show "map (selector_of evm_host \<circ> snd) all_signatures ! i = map ((@) ''0x'') signature_digests ! i"
    by simp
qed

lemma build_evm_table: "build_table evm_host = Inr (map (table_row evm_host) all_signatures)"
proof -
  have "distinct (map ((@) ''0x'') signature_digests)"
    using signature_digests_facts(2) by (simp add: distinct_map inj_on_def)
  then show ?thesis by (simp only: build_table_eq evm_selectors)
qed

lemma evm_table_lookup:
  assumes "(name, sg) \<in> set all_signatures"
  shows "map_of (selector_table evm_host) (selector_of evm_host sg) = Some (name, sg)"
proof -
  have "selector_table evm_host = map (table_row evm_host) all_signatures"
    by (simp add: selector_table_def build_evm_table)
  moreover from build_evm_table have "distinct (map (selector_of evm_host \<circ> snd) all_signatures)"
    by (simp only: build_table_eq)
  then have "distinct (map fst (map (table_row evm_host) all_signatures))"
    by (simp add: table_row_def comp_def)
  ultimately show ?thesis
    using assms by (auto intro!: map_of_is_SomeI image_eqI [where x = "(name, sg)"] simp: table_row_def)
qed

section \<open>Errors\<close>

text \<open>A result that is a value or the module's own exception.\<close>

definition abi_fail_closed :: "'a res \<Rightarrow> bool" where
  "abi_fail_closed r = (case r of Inr _ \<Rightarrow> True | Inl e \<Rightarrow> (\<exists>m. e = CheatcodeDecodeError m))"

lemma abi_fail_closed_simps [simp]:
  "abi_fail_closed (Inr x)" "abi_fail_closed (Inl (abi_error m))"
  by (simp_all add: abi_fail_closed_def abi_error_def)

lemma abi_fail_closed_ebind:
  "abi_fail_closed r \<Longrightarrow> (\<And>x. r = Inr x \<Longrightarrow> abi_fail_closed (f x)) \<Longrightarrow> abi_fail_closed (ebind r f)"
  by (cases r) (auto simp: abi_fail_closed_def)

definition static_types :: "string list" where
  "static_types = [''address'', ''bool'', ''uint256'', ''uint64'', ''int256'', ''bytes4'', ''bytes32'']"

definition known_types :: "string list" where
  "known_types = static_types @ [''bytes'', ''string'', ''string[]'']"

definition row_known :: "string \<times> string list \<Rightarrow> bool" where
  "row_known r = list_all (\<lambda>sg. list_all (\<lambda>t. t \<in> set known_types) (signature_types sg)) (snd r)"

lemma rows_known: "list_all row_known SIGNATURES"
  unfolding SIGNATURES_def list.pred_inject by (intro conjI TrueI) (code_simp+)

lemma signatures_known:
  "(name, sg) \<in> set all_signatures \<Longrightarrow> set (signature_types sg) \<subseteq> set known_types"
  using rows_known unfolding all_signatures_def row_known_def
  by (auto simp: list_all_iff)

lemma type_bits_known [simp]:
  "type_bits ''256'' = Inr 256" "type_bits ''64'' = Inr 64" "parse_nat ''4'' = Some 4" "parse_nat ''32'' = Some 32"
  by (simp_all add: type_bits_def parse_nat_def digit_val_def)

lemma abi_word_fail_closed [simp]: "abi_fail_closed (abi_word d off)"
  by (simp add: abi_word_def)

lemma abi_fail_closed_if:
  "(c \<Longrightarrow> abi_fail_closed a) \<Longrightarrow> (\<not> c \<Longrightarrow> abi_fail_closed b) \<Longrightarrow> abi_fail_closed (if c then a else b)"
  by simp

lemma known_static_types:
  assumes "t \<in> set static_types"
  shows "t \<notin> {''string'', ''bytes''}" "\<not> endswith t ''[]''"
    "startswith t ''uint'' \<Longrightarrow> \<exists>b. type_bits (drop 4 t) = Inr b"
    "startswith t ''int'' \<Longrightarrow> \<exists>b. type_bits (drop 3 t) = Inr (Suc b)"
    "startswith t ''bytes'' \<Longrightarrow> \<exists>b. parse_nat (drop 5 t) = Some b"
  using assms by (auto simp: static_types_def endswith_def numeral_eq_Suc)

lemma decode_static_fail_closed:
  assumes "t \<in> set static_types"
  shows "abi_fail_closed (decode_static t w)"
proof -
  have bind: "abi_fail_closed (ebind r f)" if "\<exists>b. r = Inr b \<and> abi_fail_closed (f b)" for r :: "nat res" and f :: "nat \<Rightarrow> pv res"
    using that by auto
  have uint: "abi_fail_closed (ebind (type_bits (drop 4 t)) (\<lambda>bits.
      if c bits then Inl (abi_error m) else Inr (PInt v)))" if "startswith t ''uint''" for c m v
    using known_static_types(3) [OF assms that] by (intro bind) auto
  have int: "abi_fail_closed (ebind (type_bits (drop 3 t)) (\<lambda>bits.
      if bits = 0 then e else if c bits then Inl (abi_error m) else Inr (PInt v)))"
    if "startswith t ''int''" for c m v e
    using known_static_types(4) [OF assms that] by (intro bind) auto
  have bytes: "abi_fail_closed (case parse_nat (drop 5 t) of None \<Rightarrow> e
      | Some n \<Rightarrow> if c n then Inl (abi_error m) else Inr (PStr (s n)))" if "startswith t ''bytes''" for c m e s
  proof -
    from known_static_types(5) [OF assms that] obtain b where "parse_nat (drop 5 t) = Some b" by blast
    then show ?thesis by (simp only: option.case abi_fail_closed_simps split: if_split) simp
  qed
  show ?thesis
    unfolding decode_static_def Let_def
    by (intro abi_fail_closed_if) (assumption | rule abi_fail_closed_simps uint int bytes | erule conjE)+
qed

lemma decode_argument_fail_closed:
  assumes "t \<in> set known_types"
  shows "abi_fail_closed (decode_argument body i t)"
proof -
  consider "t \<in> {''string'', ''bytes''}" | "t = ''string[]''" | "t \<in> set static_types"
    using assms unfolding known_types_def set_append list.set by blast
  then show ?thesis
  proof cases
    case 1
    then have "decode_argument body i t = ebind (abi_word body (32 * int i)) (decode_dynamic t body)"
      by (simp add: decode_argument_def)
    then show ?thesis
      unfolding decode_dynamic_def Let_def by (auto intro!: abi_fail_closed_ebind)
  next
    case 2
    then show ?thesis
      unfolding decode_argument_def by (intro abi_fail_closed_ebind) (auto simp: endswith_def)
  next
    case 3
    from known_static_types(1,2) [OF 3] decode_static_fail_closed [OF 3] show ?thesis
      unfolding decode_argument_def by (intro abi_fail_closed_ebind) simp_all
  qed
qed

lemma decode_from_fail_closed:
  "set ts \<subseteq> set known_types \<Longrightarrow> abi_fail_closed (decode_from body i ts)"
  by (induction body i ts rule: decode_from.induct)
    (auto intro!: abi_fail_closed_ebind decode_argument_fail_closed)

lemma selector_table_types:
  assumes "map_of (selector_table H) sel = Some (name, sg)"
  shows "set (signature_types sg) \<subseteq> set known_types" "(name, sg) \<in> set all_signatures"
    "sel = selector_of H sg"
proof -
  from assms have "(sel, name, sg) \<in> set (selector_table H)" by (rule map_of_SomeD)
  moreover have "set (selector_table H) \<subseteq> table_row H ` set all_signatures"
  proof (cases "build_table H")
    case (Inr tbl)
    then have "selector_table H = tbl" by (simp add: selector_table_def)
    with Inr [unfolded build_table_eq] show ?thesis by simp
  qed (simp add: selector_table_def)
  ultimately have "(sel, name, sg) \<in> table_row H ` set all_signatures" by blast
  then show "sel = selector_of H sg" "(name, sg) \<in> set all_signatures"
    by (auto simp: table_row_def)
  from signatures_known [OF this(2)] show "set (signature_types sg) \<subseteq> set known_types" .
qed

section \<open>Properties\<close>


text \<open>
  C13: decoding the calldata of a cheatcode call is total and fails closed: whatever the text, the
  result is a decoded call or a \<open>CheatcodeDecodeError\<close> (which the adapter turns into a rejected
  trace), and a decoded call either has its name from the selector table, with the selector and the
  signature of one row and as many arguments as the signature has types, or is called \<open>unknown\<close>.
\<close>
theorem decode_cheatcode_total:
  "case decode_cheatcode H calldata of
     Inl e \<Rightarrow> (\<exists>m. e = CheatcodeDecodeError m)
   | Inr c \<Rightarrow>
       (case (dc_signature c, dc_args c) of
          (Some sg, Some args) \<Rightarrow> (dc_name c, sg) \<in> set all_signatures \<and>
            dc_selector c = selector_of H sg \<and> length args = length (signature_types sg)
        | (None, None) \<Rightarrow> startswith (dc_name c) ''unknown''
        | _ \<Rightarrow> False)"
proof -
  have len: "decode_from b i ts = Inr vs \<Longrightarrow> length vs = length ts" for b i ts vs
    by (induction b i ts arbitrary: vs rule: decode_from.induct) (auto simp: ebind_eq_Inr)
  have err: "\<exists>m. e = CheatcodeDecodeError m"
    if "map_of (selector_table H) sel = Some (name, sg)" "decode_from b 0 (signature_types sg) = Inl e"
    for sel name sg b e
    using decode_from_fail_closed [OF selector_table_types(1) [OF that(1)], of b 0] that(2)
    by (simp add: abi_fail_closed_def)
  show ?thesis
    unfolding decode_cheatcode_def Let_def
    by (auto simp: abi_error_def ebind_def decode_abi_arguments_def startswith_iff
        dest: selector_table_types(2,3) len err split: option.split sum.split)
qed

section \<open>Witnesses\<close>

definition sample_abi :: "abi_val list" where
  "sample_abi = [VAddress (replicate 20 (CHR ''a'')), VString ''l0vi0x_gate'', VUint 256 1000, VInt 256 (-5),
     VBool True, VFixed ''abcd'', VBytes ''xyz'']"


end
