(* ===== verification/Trace.thy ===== *)
theory Trace
  imports CheatAbi
begin

text \<open>
  \<open>chain/trace.py\<close>: the parser of structured traces and the trace policy. A trace is a dynamic
  value; \<open>parse_trace\<close> flattens its frames in call order and accounts for cheatcodes, transfers,
  assertion events, gas and the advance of time and block number. \<open>json.loads\<close> is an argument.
\<close>

section \<open>Integers of dynamic values\<close>

text \<open>\<open>_first_int\<close>.\<close>

definition first_int :: "pv \<Rightarrow> int option" where
  "first_int v = (if v = PNone then None else case py_int v of Inl _ \<Rightarrow> None | Inr i \<Rightarrow> Some i)"

section \<open>Frames\<close>

record trace_frame =
  tf_depth :: int
  tf_kind :: string
  tf_to :: "string option"
  tf_selector :: "string option"
  tf_phase :: string
  tf_caller :: pv
  tf_data :: pv
  tf_gas_used :: "int option"
  tf_success :: bool
  tf_logs :: "pv list"

record cheatcode_call =
  cc_name :: string
  cc_category :: string
  cc_depth :: int
  cc_phase :: string
  cc_args :: "pv list"
  cc_selector :: "string option"

record trace_transfer =
  tt_token :: string
  tt_from :: string
  tt_to :: string
  tt_amount :: int
  tt_depth :: int
  tt_phase :: string

record trace_summary =
  ts_frames :: "trace_frame list"
  ts_cheatcodes :: "cheatcode_call list"
  ts_transfers :: "trace_transfer list"
  ts_assertion_events :: "pdict list"
  ts_cumulative_warp_s :: int
  ts_cumulative_roll :: int
  ts_initial_timestamp :: "int option"
  ts_final_timestamp :: "int option"
  ts_initial_block :: "int option"
  ts_final_block :: "int option"
  ts_gas_used :: int
  ts_raw_sha256 :: string

fun opt_pstr :: "string option \<Rightarrow> pv" where
  "opt_pstr None = PNone"
| "opt_pstr (Some s) = PStr s"

fun opt_pint :: "int option \<Rightarrow> pv" where
  "opt_pint None = PNone"
| "opt_pint (Some i) = PInt i"

definition observed_payload :: "trace_summary \<Rightarrow> pdict" where
  "observed_payload s =
     [(''frames'', PList (map (\<lambda>f. PDict
         [(''depth'', PInt (tf_depth f)), (''kind'', PStr (tf_kind f)), (''to'', opt_pstr (tf_to f)),
          (''selector'', opt_pstr (tf_selector f)), (''phase'', PStr (tf_phase f)),
          (''caller'', tf_caller f), (''data'', tf_data f), (''gas_used'', opt_pint (tf_gas_used f)),
          (''success'', PBool (tf_success f)), (''logs'', PList (tf_logs f))]) (ts_frames s))),
      (''cheatcodes'', PList (map (\<lambda>c. PDict
         [(''name'', PStr (cc_name c)), (''category'', PStr (cc_category c)), (''depth'', PInt (cc_depth c)),
          (''phase'', PStr (cc_phase c)), (''args'', PList (cc_args c)),
          (''selector'', opt_pstr (cc_selector c))]) (ts_cheatcodes s))),
      (''transfers'', PList (map (\<lambda>t. PDict
         [(''token'', PStr (tt_token t)), (''from_address'', PStr (tt_from t)),
          (''to_address'', PStr (tt_to t)), (''amount'', PInt (tt_amount t)), (''depth'', PInt (tt_depth t)),
          (''phase'', PStr (tt_phase t))]) (ts_transfers s))),
      (''assertion_events'', PList (map PDict (ts_assertion_events s))),
      (''cumulative_warp_s'', PInt (ts_cumulative_warp_s s)),
      (''cumulative_roll'', PInt (ts_cumulative_roll s)),
      (''gas_used'', PInt (ts_gas_used s))]"

definition summary_sha256 :: "host \<Rightarrow> trace_summary \<Rightarrow> string" where
  "summary_sha256 H s = hs_sha256 H (canonical (PDict (observed_payload s)))"

section \<open>Flattening\<close>

text \<open>\<open>current.pop("children", current.pop("calls", None))\<close>: both keys are removed.\<close>

definition child_value :: "pdict \<Rightarrow> pv" where
  "child_value d = dget_or d ''children'' (dget_or d ''calls'' PNone)"

lemma child_value_size: "child_value d = PList cs \<Longrightarrow> c \<in> set cs \<Longrightarrow> size c < size (PDict d)"
proof -
  assume c: "child_value d = PList cs" "c \<in> set cs"
  then obtain k where "map_of d k = Some (PList cs)"
    by (auto simp: child_value_def dget_or_def split: option.splits)
  then have "(k, PList cs) \<in> set d" by (rule map_of_SomeD)
  from size_snd_list [OF this] have "size (PList cs) < size (PDict d)" by simp
  moreover have "size c < size (PList cs)" using c(2) by (induction cs) auto
  ultimately show "size c < size (PDict d)" by simp
qed

function flatten_record :: "pv \<Rightarrow> pv list" where
  "flatten_record (PDict d) = PDict (dpop (dpop d ''calls'') ''children'') #
     (case child_value d of PList cs \<Rightarrow> concat (map flatten_record cs) | _ \<Rightarrow> [])"
| "flatten_record PNone = [PNone]"
| "flatten_record (PBool b) = [PBool b]"
| "flatten_record (PInt i) = [PInt i]"
| "flatten_record (PFloat r i) = [PFloat r i]"
| "flatten_record (PStr s) = [PStr s]"
| "flatten_record (PList vs) = [PList vs]"
| "flatten_record (PTup vs) = [PTup vs]"
  by pat_completeness auto
termination
  by (relation "measure size") (auto dest: child_value_size)

definition flatten_records :: "pv list \<Rightarrow> pv list" where
  "flatten_records rs = concat (map flatten_record rs)"

section \<open>\<open>parse_trace\<close>\<close>

text \<open>The loop's variables.\<close>

record trace_acc =
  ta_frames :: "trace_frame list"
  ta_cheats :: "cheatcode_call list"
  ta_transfers :: "trace_transfer list"
  ta_assertions :: "pdict list"
  ta_warp_sum :: int
  ta_roll_sum :: int
  ta_prev_ts :: "int option"
  ta_prev_block :: "int option"
  ta_gas :: int

definition item_text :: "pdict \<Rightarrow> string \<Rightarrow> string option" where
  "item_text d k = (case dget_or d k PNone of PNone \<Rightarrow> None | v \<Rightarrow> Some (lower (py_str v)))"

text \<open>The frame of an item, with the checks in the code's order.\<close>

definition parse_frame :: "pdict \<Rightarrow> trace_frame res" where
  "parse_frame d =
     (case py_int (dget_or d ''depth'' (PInt 0)) of
        Inl _ \<Rightarrow> Inl (TracePolicyError ''trace frame depth is invalid'')
      | Inr depth \<Rightarrow>
          if depth < 0 then Inl (TracePolicyError ''trace frame depth must be non-negative'')
          else let phase = py_str (dget_or d ''phase'' (PStr ''witness'')) in
          if phase \<noteq> ''setup'' \<and> phase \<noteq> ''witness'' then
            Inl (TracePolicyError (''unsupported trace phase: '' @ phase))
          else case dget_or d ''success'' (PBool True) of
            PBool success \<Rightarrow> Inr \<lparr>tf_depth = depth, tf_kind = py_str (dget_or d ''kind'' (PStr ''call'')),
              tf_to = item_text d ''to'', tf_selector = item_text d ''selector'', tf_phase = phase,
              tf_caller = dget_or d ''caller'' PNone, tf_data = dget_or d ''data'' PNone,
              tf_gas_used = first_int (dget_or d ''gas_used'' PNone), tf_success = success,
              tf_logs = (case dget_or d ''logs'' (PTup []) of PList ls \<Rightarrow> ls | _ \<Rightarrow> [])\<rparr>
          | _ \<Rightarrow> Inl (TracePolicyError ''trace frame success must be boolean''))"

text \<open>\<open>warp\<close> and \<open>roll\<close>: the new absolute value, the previous one, and the advance.\<close>

definition advance_by :: "string \<Rightarrow> string \<Rightarrow> int option \<Rightarrow> int \<Rightarrow> int res" where
  "advance_by what name prev new_value =
     (case prev of
        None \<Rightarrow> Inl (TracePolicyError (''initial '' @ what @ '' is required before '' @ name @ '' accounting''))
      | Some p \<Rightarrow> if new_value < p then Inl (TracePolicyError (''backward '' @ name @ '' is forbidden''))
          else Inr (new_value - p))"

definition account_cheat :: "string \<Rightarrow> pdict \<Rightarrow> pv list \<Rightarrow> trace_acc \<Rightarrow> trace_acc res" where
  "account_cheat name d args a =
     (let n = lower name in
      if n \<noteq> ''warp'' \<and> n \<noteq> ''roll'' then Inr a
      else case first_int (dget_or d ''absolute'' (case args of [] \<Rightarrow> PNone | x # _ \<Rightarrow> x)) of
        None \<Rightarrow> Inl (TracePolicyError (name @ '' missing absolute value''))
      | Some v \<Rightarrow>
          if n = ''warp'' then
            ebind (advance_by ''timestamp'' ''warp'' (ta_prev_ts a) v) (\<lambda>adv.
              Inr (a\<lparr>ta_warp_sum := ta_warp_sum a + adv, ta_prev_ts := Some v\<rparr>))
          else
            ebind (advance_by ''block'' ''roll'' (ta_prev_block a) v) (\<lambda>adv.
              Inr (a\<lparr>ta_roll_sum := ta_roll_sum a + adv, ta_prev_block := Some v\<rparr>)))"

definition cheat_of :: "host \<Rightarrow> (string \<times> string) list \<Rightarrow> pdict \<Rightarrow> trace_frame \<Rightarrow> cheatcode_call" where
  "cheat_of H catalog d f =
     (let c = dget_or d ''cheatcode'' PNone;
          name = (if truthy c then py_str c else name_for_selector H (tf_selector f));
          category = (case map_of catalog (lower name) of None \<Rightarrow> [] | Some s \<Rightarrow> s)
      in \<lparr>cc_name = name, cc_category = (if category = [] then ''UNCLASSIFIED'' else category),
          cc_depth = tf_depth f, cc_phase = tf_phase f,
          cc_args = (case dget_or d ''args'' (PTup []) of PList vs \<Rightarrow> vs | PTup vs \<Rightarrow> vs | _ \<Rightarrow> []),
          cc_selector = tf_selector f\<rparr>)"

definition transfer_from_mapping :: "pv \<Rightarrow> int \<Rightarrow> string \<Rightarrow> trace_transfer res" where
  "transfer_from_mapping v depth phase =
     (case v of
        PDict t \<Rightarrow>
          (case (dget t ''token'', dget t ''from'', dget t ''to'', dget t ''amount'') of
             (Some token, Some from, Some to, Some amount) \<Rightarrow>
               (case py_int amount of
                  Inr n \<Rightarrow> Inr \<lparr>tt_token = lower (py_str token), tt_from = lower (py_str from),
                     tt_to = lower (py_str to), tt_amount = n, tt_depth = depth, tt_phase = phase\<rparr>
                | Inl _ \<Rightarrow> Inl (TracePolicyError ''malformed ERC-20 transfer record''))
           | _ \<Rightarrow> Inl (TracePolicyError ''malformed ERC-20 transfer record''))
      | _ \<Rightarrow> Inl (TracePolicyError ''malformed ERC-20 transfer record''))"

definition is_event :: "string \<Rightarrow> pdict \<Rightarrow> bool" where
  "is_event name log = (dget_or log ''event'' PNone = PStr name)"

definition log_contexts :: "pv list \<Rightarrow> (string \<times> pdict) list" where
  "log_contexts logs = rev (concat (map (\<lambda>v. case v of
     PDict log \<Rightarrow> if is_event ''AssertionContext'' log then [(py_str (dget_or log ''id'' PNone), log)] else []
   | _ \<Rightarrow> []) logs))"

text \<open>The enriched record of one assertion log.\<close>

definition enrich :: "(string \<times> pdict) list \<Rightarrow> pdict \<Rightarrow> trace_frame \<Rightarrow> pdict \<Rightarrow> pdict" where
  "enrich contexts d f log =
     (let e = dset (dset (dset log ''depth'' (PInt (tf_depth f)))
          ''caller'' (dget_or log ''caller'' (dget_or d ''caller'' PNone)))
          ''emitter'' (dget_or log ''emitter'' (opt_pstr (tf_to f)))
      in case map_of contexts (py_str (dget_or e ''id'' PNone)) of
           Some ctx \<Rightarrow> if ctx = [] then e
             else dset (dset e ''actor'' (dget_or ctx ''actor'' PNone)) ''token'' (dget_or ctx ''token'' PNone)
         | None \<Rightarrow> e)"

definition assertion_logs :: "pdict \<Rightarrow> trace_frame \<Rightarrow> pv list \<Rightarrow> pdict list" where
  "assertion_logs d f logs =
     (let contexts = log_contexts logs in
      concat (map (\<lambda>v. case v of
        PDict log \<Rightarrow>
          if truthy (dget_or log ''reverted'' PNone) \<or> \<not> tf_success f then []
          else if is_event ''AssertionChecked'' log then [enrich contexts d f log] else []
      | _ \<Rightarrow> []) logs))"

text \<open>Gas is owned by the depth-0 witness frames only.\<close>

definition frame_gas :: "trace_frame \<Rightarrow> int" where
  "frame_gas f = (case tf_gas_used f of
     Some g \<Rightarrow> if tf_phase f = ''witness'' \<and> tf_depth f = 0 then g else 0 | None \<Rightarrow> 0)"

definition is_cheat :: "trace_frame \<Rightarrow> bool" where
  "is_cheat f = (tf_to f = Some CHEATCODE_ADDRESS)"

definition account_frame :: "host \<Rightarrow> (string \<times> string) list \<Rightarrow> pdict \<Rightarrow> trace_frame \<Rightarrow> trace_acc \<Rightarrow>
    trace_acc res" where
  "account_frame H catalog d f a =
     (let a1 = a\<lparr>ta_frames := ta_frames a @ [f], ta_gas := ta_gas a + frame_gas f\<rparr> in
      if is_cheat f then
        let c = cheat_of H catalog d f in
        account_cheat (cc_name c) d (cc_args c) (a1\<lparr>ta_cheats := ta_cheats a @ [c]\<rparr>)
      else Inr a1)"

text \<open>\<open>erc20_transfer\<close> and \<open>erc20_transfers\<close>.\<close>

definition parse_transfers :: "pdict \<Rightarrow> trace_frame \<Rightarrow> trace_transfer list res" where
  "parse_transfers d f =
     (let conv = (\<lambda>t. transfer_from_mapping t (tf_depth f) (tf_phase f)); one = dget_or d ''erc20_transfer'' PNone in
      ebind (if truthy one then emap conv [one] else Inr []) (\<lambda>first.
      ebind (py_iter (dget_or d ''erc20_transfers'' (PList []))) (\<lambda>ts.
      ebind (emap conv (filter is_dict ts)) (\<lambda>many. Inr (first @ many)))))"

definition parse_item :: "host \<Rightarrow> (string \<times> string) list \<Rightarrow> pv \<Rightarrow> trace_acc \<Rightarrow> trace_acc res" where
  "parse_item H catalog item a =
     (case item of
        PDict d \<Rightarrow>
          ebind (parse_frame d) (\<lambda>f.
          ebind (account_frame H catalog d f a) (\<lambda>a2.
          ebind (parse_transfers d f) (\<lambda>ts.
          ebind (py_iter (dget_or d ''logs'' (PList []))) (\<lambda>logs.
            Inr (a2\<lparr>ta_transfers := ta_transfers a2 @ ts,
                    ta_assertions := ta_assertions a2 @ assertion_logs d f logs\<rparr>)))))
      | _ \<Rightarrow> Inl (TracePolicyError ''trace frame must be an object''))"

datatype trace_input = InText string | InBytes string | InObj pv

definition load_input :: "(string \<Rightarrow> pv option) \<Rightarrow> trace_input \<Rightarrow> (pv \<times> string) res" where
  "load_input loads payload =
     (case payload of
        InBytes b \<Rightarrow> (case loads b of None \<Rightarrow> Inl (TracePolicyError ''trace is not valid UTF-8 JSON'')
                      | Some v \<Rightarrow> Inr (v, b))
      | InText t \<Rightarrow> (case loads t of None \<Rightarrow> Inl (TracePolicyError ''trace is not valid JSON'')
                     | Some v \<Rightarrow> Inr (v, t))
      | InObj v \<Rightarrow> Inr (v, canonical v))"

definition start_acc :: "pv \<Rightarrow> trace_acc" where
  "start_acc obj =
     (let i = (\<lambda>k. case obj of PDict d \<Rightarrow> first_int (dget_or d k PNone) | _ \<Rightarrow> None) in
      \<lparr>ta_frames = [], ta_cheats = [], ta_transfers = [], ta_assertions = [], ta_warp_sum = 0,
       ta_roll_sum = 0, ta_prev_ts = i ''initial_timestamp'', ta_prev_block = i ''initial_block'', ta_gas = 0\<rparr>)"

definition trace_records :: "pv \<Rightarrow> pv" where
  "trace_records obj = (case obj of PDict d \<Rightarrow> if dhas d ''trace'' then dget_or d ''trace'' PNone else obj | _ \<Rightarrow> obj)"

definition lower_catalog :: "(string \<times> string) list \<Rightarrow> (string \<times> string) list" where
  "lower_catalog c = rev (map (\<lambda>(k, v). (lower k, v)) c)"

definition parse_trace :: "host \<Rightarrow> (string \<Rightarrow> pv option) \<Rightarrow> trace_input \<Rightarrow> (string \<times> string) list \<Rightarrow>
    trace_summary res" where
  "parse_trace H loads payload catalog =
     ebind (load_input loads payload) (\<lambda>(obj, raw).
       case trace_records obj of
         PList records \<Rightarrow>
           let a0 = start_acc obj in
           ebind (efold (parse_item H (lower_catalog catalog)) (flatten_records records) a0) (\<lambda>a.
             Inr \<lparr>ts_frames = ta_frames a, ts_cheatcodes = ta_cheats a, ts_transfers = ta_transfers a,
               ts_assertion_events = ta_assertions a, ts_cumulative_warp_s = ta_warp_sum a,
               ts_cumulative_roll = ta_roll_sum a, ts_initial_timestamp = ta_prev_ts a0,
               ts_final_timestamp = ta_prev_ts a, ts_initial_block = ta_prev_block a0,
               ts_final_block = ta_prev_block a, ts_gas_used = ta_gas a, ts_raw_sha256 = hs_sha256 H raw\<rparr>)
       | _ \<Rightarrow> Inl (TracePolicyError ''structured trace must contain a list of frames''))"

section \<open>The trace policy\<close>

definition enforce_time_block_limits :: "trace_summary \<Rightarrow> int \<Rightarrow> int \<Rightarrow> unit res" where
  "enforce_time_block_limits s max_time max_block =
     (if max_time < 0 \<or> max_block < 0 then Inl (TracePolicyError ''time/block limits must be non-negative'')
      else if max_time < ts_cumulative_warp_s s then
        Inl (TracePolicyError (''cumulative warp advance '' @ int_str (ts_cumulative_warp_s s) @ '' exceeds '' @ int_str max_time))
      else if max_block < ts_cumulative_roll s then
        Inl (TracePolicyError (''cumulative roll advance '' @ int_str (ts_cumulative_roll s) @ '' exceeds '' @ int_str max_block))
      else Inr ())"

text \<open>\<open>set(phase_policy.get("allow_categories", []))\<close> for a phase under the rules of a class.\<close>

definition allowed_categories :: "pv \<Rightarrow> string \<Rightarrow> pv list res" where
  "allowed_categories by_phase phase =
     (case by_phase of
        PDict d \<Rightarrow>
          (case dget_or d phase (dget_or d ''default'' (PDict [])) of
             PDict p \<Rightarrow> py_set (dget_or p ''allow_categories'' (PList []))
           | _ \<Rightarrow> Inr [])
      | _ \<Rightarrow> Inl (AttributeError ''object has no attribute get''))"

definition EXTERNAL_IO :: "string list" where
  "EXTERNAL_IO = [''ffi'', ''readFile'', ''writeFile'', ''setEnv'', ''envString'', ''envOrFile'']"

definition FORK_MUTATIONS :: "string list" where
  "FORK_MUTATIONS = [''deal'', ''etch'', ''store'', ''load'', ''prank'', ''startPrank'', ''hoax'',
     ''startHoax'', ''setNonce'', ''mockCall'', ''mockCallRevert'']"

text \<open>The conditions on \<open>createSelectFork\<close>.\<close>

definition check_select_fork :: "string \<Rightarrow> int option \<Rightarrow> cheatcode_call \<Rightarrow> unit res" where
  "check_select_fork witness_class fork_block c =
     (if witness_class \<noteq> ''deployed_fork'' \<or> cc_phase c \<noteq> ''setup'' then
        Inl (TracePolicyError ''createSelectFork is allowed only during deployed_fork setup'')
      else if length (cc_args c) \<notin> {2, 3} then
        Inl (TracePolicyError ''createSelectFork must use an alias and a block'')
      else let alias = cc_args c ! 0 in
      if alias \<noteq> PStr ''l0vi0x_gate'' then
        Inl (TracePolicyError ''createSelectFork must use the l0vi0x_gate alias'')
      else if (case alias of PStr s \<Rightarrow> contains s ''://'' | _ \<Rightarrow> False) then
        Inl (TracePolicyError ''raw RPC URLs are forbidden in createSelectFork'')
      else if length (cc_args c) \<noteq> 2 then
        Inl (TracePolicyError ''createSelectFork must use the pinned numeric block form'')
      else case fork_block of
        None \<Rightarrow> Inl (TracePolicyError ''createSelectFork requires a declared pinned fork block'')
      | Some b \<Rightarrow>
          if first_int (cc_args c ! 1) \<noteq> Some b then
            Inl (TracePolicyError ''createSelectFork must select the pinned fork block'')
          else Inr ())"

definition check_call :: "string \<Rightarrow> pv \<Rightarrow> int option \<Rightarrow> cheatcode_call \<Rightarrow> unit res" where
  "check_call witness_class by_phase fork_block c =
     ebind (allowed_categories by_phase (cc_phase c)) (\<lambda>allowed.
       if cc_category c = ''UNCLASSIFIED'' \<or> PStr (cc_category c) \<notin> set allowed then
         Inl (TracePolicyError (''cheatcode denied: '' @ cc_name c @ '' ('' @ cc_category c @ '') in '' @ cc_phase c))
       else if cc_name c \<in> set EXTERNAL_IO then
         Inl (TracePolicyError (''external I/O cheatcode denied: '' @ cc_name c))
       else if cc_name c \<in> {''createFork'', ''selectFork''} then
         Inl (TracePolicyError (''cheatcode denied: '' @ cc_name c @ ''; only createSelectFork is permitted''))
       else ebind (if cc_name c = ''createSelectFork'' then check_select_fork witness_class fork_block c
                   else Inr ()) (\<lambda>_.
         if witness_class = ''deployed_fork'' \<and> cc_phase c = ''witness'' \<and> cc_name c \<in> set FORK_MUTATIONS then
           Inl (TracePolicyError (''fork witness mutation/impersonation denied: '' @ cc_name c))
         else Inr ()))"

definition policy_rules :: "pdict \<Rightarrow> string \<Rightarrow> pv" where
  "policy_rules policy witness_class =
     (case dget_or policy ''rules'' (PDict policy) of
        PDict root \<Rightarrow> dget_or root witness_class (PDict []) | _ \<Rightarrow> PDict [])"

definition enforce_cheatcode_policy :: "trace_summary \<Rightarrow> string \<Rightarrow> pdict \<Rightarrow> int option \<Rightarrow> unit res" where
  "enforce_cheatcode_policy s witness_class policy fork_block =
     efold (\<lambda>c _. check_call witness_class (policy_rules policy witness_class) fork_block c)
       (ts_cheatcodes s) ()"

section \<open>Lemmas\<close>

lemma efold_unit:
  "efold (\<lambda>x _. f x) xs () = Inr () \<longleftrightarrow> (\<forall>x \<in> set xs. f x = Inr ())"
  by (induction xs) (auto simp: ebind_eq_Inr)

text \<open>The accounting of one cheatcode: time and block number only advance, by the recorded amounts.\<close>

definition advanced :: "int option \<Rightarrow> int option \<Rightarrow> int \<Rightarrow> bool" where
  "advanced start now n =
     (0 \<le> n \<and> (case (start, now) of (Some t0, Some t) \<Rightarrow> t = t0 + n | (None, None) \<Rightarrow> n = 0 | _ \<Rightarrow> False))"

definition acc_ok :: "trace_acc \<Rightarrow> trace_acc \<Rightarrow> bool" where
  "acc_ok a0 a = (advanced (ta_prev_ts a0) (ta_prev_ts a) (ta_warp_sum a) \<and>
     advanced (ta_prev_block a0) (ta_prev_block a) (ta_roll_sum a))"

lemma advance_by_eq:
  "advance_by what name prev v = Inr adv \<longleftrightarrow> (\<exists>p. prev = Some p \<and> p \<le> v \<and> adv = v - p)"
  by (auto simp: advance_by_def split: option.splits)

lemma advanced_step: "advanced t0 (Some p) n \<Longrightarrow> p \<le> v \<Longrightarrow> advanced t0 (Some v) (n + (v - p))"
  by (auto simp: advanced_def split: option.splits)

lemma account_cheat_ok:
  assumes "account_cheat name d args a = Inr b" "acc_ok a0 a"
  shows "acc_ok a0 b" "ta_frames b = ta_frames a" "ta_cheats b = ta_cheats a" "ta_gas b = ta_gas a"
    "ta_transfers b = ta_transfers a" "ta_assertions b = ta_assertions a"
proof -
  consider "b = a"
    | v adv where "advance_by ''timestamp'' ''warp'' (ta_prev_ts a) v = Inr adv"
        "b = a\<lparr>ta_warp_sum := ta_warp_sum a + adv, ta_prev_ts := Some v\<rparr>"
    | v adv where "advance_by ''block'' ''roll'' (ta_prev_block a) v = Inr adv"
        "b = a\<lparr>ta_roll_sum := ta_roll_sum a + adv, ta_prev_block := Some v\<rparr>"
  proof (cases "lower name \<noteq> ''warp'' \<and> lower name \<noteq> ''roll''")
    case True
    with assms(1) that(1) show thesis by (simp add: account_cheat_def)
  next
    case False
    show thesis
    proof (cases "first_int (dget_or d ''absolute'' (case args of [] \<Rightarrow> PNone | x # _ \<Rightarrow> x))")
      case None
      with False assms(1) show thesis by (auto simp: account_cheat_def Let_def split: if_splits)
    next
      case (Some v)
      with False assms(1) that(2,3) show thesis
        unfolding account_cheat_def Let_def by (cases "lower name = ''warp''") (simp_all add: ebind_eq_Inr, blast+)
    qed
  qed
  then have "acc_ok a0 b \<and> ta_frames b = ta_frames a \<and> ta_cheats b = ta_cheats a \<and> ta_gas b = ta_gas a \<and>
      ta_transfers b = ta_transfers a \<and> ta_assertions b = ta_assertions a"
    by cases (use assms(2) in \<open>auto simp: advance_by_eq acc_ok_def intro: advanced_step\<close>)
  then show "acc_ok a0 b" "ta_frames b = ta_frames a" "ta_cheats b = ta_cheats a" "ta_gas b = ta_gas a"
    "ta_transfers b = ta_transfers a" "ta_assertions b = ta_assertions a" by simp_all
qed

text \<open>What one item adds to the accumulator.\<close>

lemma account_frame_step:
  assumes "account_frame H cat d f a = Inr b" "acc_ok a0 a"
  shows "acc_ok a0 b \<and> ta_frames b = ta_frames a @ [f] \<and> ta_gas b = ta_gas a + frame_gas f \<and>
    ta_cheats b = ta_cheats a @ (if is_cheat f then [cheat_of H cat d f] else [])"
proof -
  let ?a1 = "a\<lparr>ta_frames := ta_frames a @ [f], ta_gas := ta_gas a + frame_gas f\<rparr>"
  have ok: "acc_ok a0 ?a1" "acc_ok a0 (?a1\<lparr>ta_cheats := cs\<rparr>)" for cs
    using assms(2) by (simp_all add: acc_ok_def)
  show ?thesis
  proof (cases "is_cheat f")
    case True
    with assms(1) have "account_cheat (cc_name (cheat_of H cat d f)) d (cc_args (cheat_of H cat d f))
        (?a1\<lparr>ta_cheats := ta_cheats a @ [cheat_of H cat d f]\<rparr>) = Inr b"
      by (simp add: account_frame_def Let_def)
    from account_cheat_ok [OF this ok(2)] True show ?thesis by simp
  next
    case False
    with assms(1) have "b = ?a1" by (simp add: account_frame_def Let_def)
    with ok(1) False show ?thesis by simp
  qed
qed

lemma parse_item_step:
  assumes "parse_item H cat item a = Inr b" "acc_ok a0 a"
  obtains d f where "item = PDict d" "parse_frame d = Inr f" "acc_ok a0 b"
    "ta_frames b = ta_frames a @ [f]" "ta_gas b = ta_gas a + frame_gas f"
    "ta_cheats b = ta_cheats a @ (if is_cheat f then [cheat_of H cat d f] else [])"
proof -
  from assms(1) obtain d where d: "item = PDict d" by (cases item) (auto simp: parse_item_def)
  with assms(1) obtain f a2 ts evs where f: "parse_frame d = Inr f" "account_frame H cat d f a = Inr a2"
    "b = a2\<lparr>ta_transfers := ts, ta_assertions := evs\<rparr>"
    by (auto simp: parse_item_def ebind_eq_Inr)
  with account_frame_step [OF f(2) assms(2)] d that show thesis by (simp add: acc_ok_def)
qed

text \<open>The whole loop.\<close>

definition frames_from :: "pv list \<Rightarrow> trace_frame list \<Rightarrow> bool" where
  "frames_from items fs = list_all2 (\<lambda>item f. \<exists>d. item = PDict d \<and> parse_frame d = Inr f) items fs"

definition calls_from :: "host \<Rightarrow> (string \<times> string) list \<Rightarrow> pv list \<Rightarrow> cheatcode_call list" where
  "calls_from H cat items = concat (map (\<lambda>item. case item of
     PDict d \<Rightarrow> (case parse_frame d of Inr f \<Rightarrow> if is_cheat f then [cheat_of H cat d f] else [] | _ \<Rightarrow> [])
   | _ \<Rightarrow> []) items)"

lemma parse_items_step:
  assumes "efold (parse_item H cat) items a = Inr b" "acc_ok a0 a"
  shows "acc_ok a0 b \<and> (\<exists>fs. frames_from items fs \<and> ta_frames b = ta_frames a @ fs \<and>
    ta_gas b = ta_gas a + sum_list (map frame_gas fs) \<and> ta_cheats b = ta_cheats a @ calls_from H cat items)"
  using assms
proof (induction items arbitrary: a)
  case (Cons item items)
  then obtain c where c: "parse_item H cat item a = Inr c" "efold (parse_item H cat) items c = Inr b"
    by (auto simp: ebind_eq_Inr)
  obtain d f where f: "item = PDict d" "parse_frame d = Inr f" "acc_ok a0 c"
    "ta_frames c = ta_frames a @ [f]" "ta_gas c = ta_gas a + frame_gas f"
    "ta_cheats c = ta_cheats a @ (if is_cheat f then [cheat_of H cat d f] else [])"
    using parse_item_step [OF c(1) Cons.prems(2)] .
  from Cons.IH [OF c(2) f(3)] obtain fs where fs: "acc_ok a0 b" "frames_from items fs"
    "ta_frames b = ta_frames c @ fs" "ta_gas b = ta_gas c + sum_list (map frame_gas fs)"
    "ta_cheats b = ta_cheats c @ calls_from H cat items"
    by blast
  from f fs have "frames_from (item # items) (f # fs)" by (simp add: frames_from_def)
  with f fs show ?case by (auto simp: calls_from_def intro!: exI [of _ "f # fs"])
qed (simp add: frames_from_def calls_from_def)

lemma advanced_start: "advanced t t 0"
  by (simp add: advanced_def split: option.splits)

lemma parse_trace_eq:
  assumes "parse_trace H loads payload catalog = Inr s"
  obtains obj raw records where "load_input loads payload = Inr (obj, raw)"
    "trace_records obj = PList records" "frames_from (flatten_records records) (ts_frames s)"
    "ts_gas_used s = sum_list (map frame_gas (ts_frames s))"
    "ts_cheatcodes s = calls_from H (lower_catalog catalog) (flatten_records records)"
    "advanced (ts_initial_timestamp s) (ts_final_timestamp s) (ts_cumulative_warp_s s)"
    "advanced (ts_initial_block s) (ts_final_block s) (ts_cumulative_roll s)"
    "ts_raw_sha256 s = hs_sha256 H raw"
proof -
  from assms obtain obj raw where l: "load_input loads payload = Inr (obj, raw)"
    by (auto simp: parse_trace_def ebind_eq_Inr)
  with assms obtain records where r: "trace_records obj = PList records"
    by (auto simp: parse_trace_def split: pv.splits)
  let ?a0 = "start_acc obj"
  from assms l r obtain a where a: "efold (parse_item H (lower_catalog catalog)) (flatten_records records) ?a0 = Inr a"
    "s = \<lparr>ts_frames = ta_frames a, ts_cheatcodes = ta_cheats a, ts_transfers = ta_transfers a,
       ts_assertion_events = ta_assertions a, ts_cumulative_warp_s = ta_warp_sum a,
       ts_cumulative_roll = ta_roll_sum a, ts_initial_timestamp = ta_prev_ts ?a0,
       ts_final_timestamp = ta_prev_ts a, ts_initial_block = ta_prev_block ?a0,
       ts_final_block = ta_prev_block a, ts_gas_used = ta_gas a, ts_raw_sha256 = hs_sha256 H raw\<rparr>"
    by (auto simp: parse_trace_def Let_def ebind_eq_Inr)
  have "acc_ok ?a0 ?a0" by (simp add: acc_ok_def advanced_start start_acc_def Let_def)
  from parse_items_step [OF a(1) this] that [OF l r] a(2) show thesis
    by (auto simp: acc_ok_def start_acc_def Let_def)
qed

lemma first_int_eq: "first_int v = Some i \<Longrightarrow> py_int v = Inr i"
  by (auto simp: first_int_def split: if_splits sum.splits)

lemma check_call_eq:
  assumes "check_call wc by_phase fork_block c = Inr ()"
  obtains allowed where "allowed_categories by_phase (cc_phase c) = Inr allowed"
    "PStr (cc_category c) \<in> set allowed" "cc_category c \<noteq> ''UNCLASSIFIED''"
    "cc_name c \<notin> set EXTERNAL_IO" "cc_name c \<noteq> ''createFork''" "cc_name c \<noteq> ''selectFork''"
    "cc_name c = ''createSelectFork'' \<Longrightarrow> check_select_fork wc fork_block c = Inr ()"
    "wc = ''deployed_fork'' \<Longrightarrow> cc_phase c = ''witness'' \<Longrightarrow> cc_name c \<notin> set FORK_MUTATIONS"
proof -
  from assms obtain allowed where al: "allowed_categories by_phase (cc_phase c) = Inr allowed"
    by (auto simp: check_call_def ebind_eq_Inr)
  note c = assms [unfolded check_call_def al ebind_Inr if_Inl_eq_Inr ebind_eq_Inr]
  from c al that show thesis by (simp split: if_splits)
qed

lemma check_select_fork_eq:
  "check_select_fork wc fork_block c = Inr () \<longleftrightarrow>
    wc = ''deployed_fork'' \<and> cc_phase c = ''setup'' \<and>
    (\<exists>v b. cc_args c = [PStr ''l0vi0x_gate'', v] \<and> fork_block = Some b \<and> first_int v = Some b)"
proof -
  have two: "length xs = 2 \<longleftrightarrow> (\<exists>x y. xs = [x, y])" for xs :: "pv list"
    by (auto simp: numeral_2_eq_2 length_Suc_conv)
  have gate: "\<not> contains ''l0vi0x_gate'' ''://''" by simp
  show ?thesis
    unfolding check_select_fork_def Let_def if_Inl_eq_Inr
    using gate by (auto simp: two split: option.splits pv.splits)
qed

section \<open>The shipped catalog and policy\<close>

text \<open>\<open>config/policy/cheatcode_categories.yaml\<close> and \<open>config/policy/cheatcode_policy.yaml\<close>, loaded.\<close>

definition CATALOG :: "(string \<times> string) list" where
  "CATALOG =
    [(''prank'', ''impersonation''), (''startPrank'', ''impersonation''),
     (''stopPrank'', ''impersonation_control''), (''deal'', ''state_mint''), (''etch'', ''code_mutation''),
     (''store'', ''storage_mutation''), (''load'', ''storage_read''), (''mockCall'', ''code_mutation''),
     (''mockCallRevert'', ''code_mutation''), (''setNonce'', ''state_mint''), (''warp'', ''time_advance''),
     (''roll'', ''block_advance''), (''hoax'', ''compound_impersonation''),
     (''startHoax'', ''compound_impersonation''), (''expectRevert'', ''assertion''),
     (''expectEmit'', ''assertion''), (''label'', ''diagnostics''), (''assume'', ''fuzz_assumption''),
     (''bound'', ''fuzz_assumption''), (''ffi'', ''external_io''), (''readFile'', ''filesystem_io''),
     (''writeFile'', ''filesystem_io''), (''setEnv'', ''environment_io''),
     (''createSelectFork'', ''fork_control'')]"

definition allow :: "string list \<Rightarrow> pv" where
  "allow cs = PDict [(''allow_categories'', PList (map PStr cs))]"

definition POLICY :: pdict where
  "POLICY = [(''rules'', PDict
    [(''deployed_fork'', PDict
       [(''setup'', allow [''diagnostics'', ''assertion'', ''fork_control'']),
        (''witness'', allow [''diagnostics'', ''assertion'', ''time_advance'', ''block_advance'']),
        (''default'', allow [''diagnostics'', ''assertion''])]),
     (''local_deployment'', PDict
       [(''setup'', allow [''diagnostics'', ''assertion'', ''state_mint'', ''code_mutation'', ''storage_mutation'',
          ''storage_read'', ''impersonation'', ''impersonation_control'', ''compound_impersonation'']),
        (''witness'', allow [''diagnostics'', ''assertion'', ''impersonation'', ''impersonation_control'',
          ''compound_impersonation'', ''time_advance'', ''block_advance'']),
        (''default'', allow [''diagnostics'', ''assertion''])])])]"

lemma policy_deployed_fork:
  "policy_rules POLICY ''deployed_fork'' = PDict
     [(''setup'', allow [''diagnostics'', ''assertion'', ''fork_control'']),
      (''witness'', allow [''diagnostics'', ''assertion'', ''time_advance'', ''block_advance'']),
      (''default'', allow [''diagnostics'', ''assertion''])]"
  by (simp add: policy_rules_def POLICY_def dget_or_def)

lemma hashable_strings: "list_all hashable (map PStr cs)"
  by (induction cs) auto

lemma allowed_deployed_fork:
  "allowed_categories (policy_rules POLICY ''deployed_fork'') phase =
     Inr (map PStr (if phase = ''setup'' then [''diagnostics'', ''assertion'', ''fork_control'']
       else if phase = ''witness'' then [''diagnostics'', ''assertion'', ''time_advance'', ''block_advance'']
       else [''diagnostics'', ''assertion'']))"
  unfolding policy_deployed_fork allowed_categories_def
  by (simp add: dget_or_def allow_def py_set_def)

text \<open>The names whose category is one of the four allowed in the witness phase of a fork.\<close>

lemma witness_categories:
  assumes "map_of (lower_catalog CATALOG) n = Some c"
    "c \<in> {''diagnostics'', ''assertion'', ''time_advance'', ''block_advance''}"
  shows "n \<in> {''label'', ''expectrevert'', ''expectemit'', ''warp'', ''roll''}"
proof -
  have "list_all (\<lambda>(n, c). c \<in> {''diagnostics'', ''assertion'', ''time_advance'', ''block_advance''} \<longrightarrow>
      n \<in> {''label'', ''expectrevert'', ''expectemit'', ''warp'', ''roll''}) (lower_catalog CATALOG)"
    by code_simp
  with map_of_SomeD [OF assms(1)] assms(2) show ?thesis by (fastforce simp: list_all_iff)
qed

lemma cheat_of_category:
  "cc_category (cheat_of H cat d f) = ''UNCLASSIFIED'' \<or>
    map_of cat (lower (cc_name (cheat_of H cat d f))) = Some (cc_category (cheat_of H cat d f))"
  by (auto simp: cheat_of_def Let_def split: option.splits)

lemma calls_from_category:
  "c \<in> set (calls_from H cat items) \<Longrightarrow>
    cc_category c = ''UNCLASSIFIED'' \<or> map_of cat (lower (cc_name c)) = Some (cc_category c)"
  using cheat_of_category by (auto simp: calls_from_def split: pv.splits sum.splits if_splits)

lemma frames_from_calls:
  "frames_from items fs \<Longrightarrow> length (calls_from H cat items) = length (filter is_cheat fs) \<and>
    map cc_depth (calls_from H cat items) = map tf_depth (filter is_cheat fs) \<and>
    map cc_phase (calls_from H cat items) = map tf_phase (filter is_cheat fs) \<and>
    map cc_selector (calls_from H cat items) = map tf_selector (filter is_cheat fs)"
  unfolding frames_from_def
  by (induction rule: list_all2_induct) (auto simp: calls_from_def cheat_of_def Let_def)

section \<open>Properties\<close>


text \<open>
  C15: a trace that passes \<open>enforce_cheatcode_policy\<close> contains no call the policy does not allow, for
  any policy document: every call is classified and its category is allowed in its phase, no call
  does external input or output or selects a fork by id, \<open>createSelectFork\<close> occurs only in the setup
  of a forked witness, on the gate alias and at the pinned block, and a forked witness mutates and
  impersonates nothing.
\<close>
theorem cheatcode_policy_sound:
  assumes "enforce_cheatcode_policy s wc policy fork_block = Inr ()" and "c \<in> set (ts_cheatcodes s)"
  shows "(\<exists>allowed. allowed_categories (policy_rules policy wc) (cc_phase c) = Inr allowed \<and>
      PStr (cc_category c) \<in> set allowed) \<and>
    cc_category c \<noteq> ''UNCLASSIFIED'' \<and>
    cc_name c \<notin> set EXTERNAL_IO \<union> {''createFork'', ''selectFork''} \<and>
    (cc_name c = ''createSelectFork'' \<longrightarrow> wc = ''deployed_fork'' \<and> cc_phase c = ''setup'' \<and>
      (\<exists>v b. cc_args c = [PStr ''l0vi0x_gate'', v] \<and> fork_block = Some b \<and> first_int v = Some b)) \<and>
    (wc = ''deployed_fork'' \<and> cc_phase c = ''witness'' \<longrightarrow> cc_name c \<notin> set FORK_MUTATIONS)"
proof -
  from assms have "check_call wc (policy_rules policy wc) fork_block c = Inr ()"
    by (simp add: enforce_cheatcode_policy_def efold_unit)
  then show ?thesis
    by (rule check_call_eq) (auto simp: check_select_fork_eq)
qed

text \<open>
  C16: under the shipped catalog and policy, the witness phase of a forked witness that passes uses no
  cheatcodes but \<open>label\<close>, \<open>expectRevert\<close>, \<open>expectEmit\<close>, \<open>warp\<close> and \<open>roll\<close>, whatever names and
  selectors the trace carries.
\<close>
theorem fork_witness_cheatcodes:
  assumes "parse_trace H loads payload CATALOG = Inr s"
    and "enforce_cheatcode_policy s ''deployed_fork'' POLICY fork_block = Inr ()"
    and "c \<in> set (ts_cheatcodes s)" and "cc_phase c = ''witness''"
  shows "lower (cc_name c) \<in> {''label'', ''expectrevert'', ''expectemit'', ''warp'', ''roll''}"
proof -
  from assms(2,3) have "check_call ''deployed_fork'' (policy_rules POLICY ''deployed_fork'') fork_block c = Inr ()"
    by (simp add: enforce_cheatcode_policy_def efold_unit)
  then obtain allowed where al: "allowed_categories (policy_rules POLICY ''deployed_fork'') (cc_phase c) = Inr allowed"
    "PStr (cc_category c) \<in> set allowed" "cc_category c \<noteq> ''UNCLASSIFIED''"
    by (rule check_call_eq)
  then have cat: "cc_category c \<in> {''diagnostics'', ''assertion'', ''time_advance'', ''block_advance''}"
    using assms(4) unfolding allowed_deployed_fork by auto
  from assms(1) obtain items where "ts_cheatcodes s = calls_from H (lower_catalog CATALOG) items"
    by (rule parse_trace_eq) blast
  with assms(3) have "c \<in> set (calls_from H (lower_catalog CATALOG) items)" by simp
  from calls_from_category [OF this] al(3)
  have "map_of (lower_catalog CATALOG) (lower (cc_name c)) = Some (cc_category c)" by simp
  from witness_categories [OF this cat] show ?thesis .
qed

text \<open>
  The catalog is consulted case-insensitively but the guards of \<open>createSelectFork\<close> compare the
  name exactly, so a setup call spelled \<open>createselectfork\<close> passes the shipped policy with any
  arguments, a raw RPC URL or another block included.
\<close>
lemma select_fork_guard_case_gap:
  "check_call ''deployed_fork'' (policy_rules POLICY ''deployed_fork'') fork_block
     \<lparr>cc_name = ''createselectfork'', cc_category = ''fork_control'', cc_depth = d, cc_phase = ''setup'',
      cc_args = args, cc_selector = sel\<rparr> = Inr () \<and>
   map_of (lower_catalog CATALOG) (lower ''createselectfork'') = Some ''fork_control''"
proof
  show "check_call ''deployed_fork'' (policy_rules POLICY ''deployed_fork'') fork_block
     \<lparr>cc_name = ''createselectfork'', cc_category = ''fork_control'', cc_depth = d, cc_phase = ''setup'',
      cc_args = args, cc_selector = sel\<rparr> = Inr ()"
    unfolding check_call_def allowed_deployed_fork by (simp add: EXTERNAL_IO_def FORK_MUTATIONS_def)
  show "map_of (lower_catalog CATALOG) (lower ''createselectfork'') = Some ''fork_control''"
    by code_simp
qed

section \<open>Witnesses\<close>

definition sample_trace :: pv where
  "sample_trace = PDict
     [(''initial_timestamp'', PInt 100), (''initial_block'', PInt 10),
      (''trace'', PList
        [PDict [(''depth'', PInt 0), (''to'', PStr ''0xAB''), (''gas_used'', PInt 50), (''phase'', PStr ''witness''),
           (''children'', PList
             [PDict [(''depth'', PInt 1), (''to'', PStr CHEATCODE_ADDRESS), (''cheatcode'', PStr ''warp''),
                (''gas_used'', PInt 7), (''args'', PList [PInt 160])]])]])]"

definition sample_parse :: "trace_summary res" where
  "sample_parse = parse_trace sample_host (\<lambda>_. None) (InObj sample_trace) CATALOG"

lemma sample_parse:
  "case sample_parse of
     Inl _ \<Rightarrow> False
   | Inr s \<Rightarrow> map cc_name (ts_cheatcodes s) = [''warp''] \<and> map cc_phase (ts_cheatcodes s) = [''witness''] \<and>
       ts_gas_used s = 50 \<and> ts_cumulative_warp_s s = 60 \<and> ts_initial_timestamp s = Some 100 \<and>
       enforce_cheatcode_policy s ''deployed_fork'' POLICY None = Inr ()"
  by code_simp

lemma sample_summary:
  obtains s where "parse_trace sample_host (\<lambda>_. None) (InObj sample_trace) CATALOG = Inr s"
    "map cc_name (ts_cheatcodes s) = [''warp'']" "map cc_phase (ts_cheatcodes s) = [''witness'']"
    "ts_gas_used s = 50" "ts_cumulative_warp_s s = 60" "ts_initial_timestamp s = Some 100"
    "enforce_cheatcode_policy s ''deployed_fork'' POLICY None = Inr ()"
  using sample_parse by (auto simp: sample_parse_def split: sum.splits)


lemma cheatcode_policy_sound_witness:
  "\<exists>s c. c \<in> set (ts_cheatcodes s) \<and> cc_name c = ''warp'' \<and> cc_name c \<notin> set FORK_MUTATIONS \<and>
    enforce_cheatcode_policy s ''deployed_fork'' POLICY None = Inr ()"
proof (rule sample_summary)
  fix s
  assume s: "map cc_name (ts_cheatcodes s) = [''warp'']" "map cc_phase (ts_cheatcodes s) = [''witness'']"
    "enforce_cheatcode_policy s ''deployed_fork'' POLICY None = Inr ()"
  then obtain c where c: "ts_cheatcodes s = [c]" "cc_name c = ''warp''" "cc_phase c = ''witness''" by auto
  then have "c \<in> set (ts_cheatcodes s)" by simp
  with cheatcode_policy_sound [OF s(3) this] c s(3) show ?thesis by blast
qed

lemma fork_witness_cheatcodes_witness:
  "\<exists>s c. c \<in> set (ts_cheatcodes s) \<and> parse_trace sample_host (\<lambda>_. None) (InObj sample_trace) CATALOG = Inr s \<and>
    lower (cc_name c) \<in> {''label'', ''expectrevert'', ''expectemit'', ''warp'', ''roll''}"
proof (rule sample_summary)
  fix s
  assume s: "parse_trace sample_host (\<lambda>_. None) (InObj sample_trace) CATALOG = Inr s"
    "map cc_phase (ts_cheatcodes s) = [''witness'']"
    "enforce_cheatcode_policy s ''deployed_fork'' POLICY None = Inr ()"
  then obtain c where c: "ts_cheatcodes s = [c]" "cc_phase c = ''witness''" by auto
  then have "c \<in> set (ts_cheatcodes s)" by simp
  with fork_witness_cheatcodes [OF s(1,3) this c(2)] s(1) show ?thesis by blast
qed

end
