(* ===== verification/FoundryTrace.thy ===== *)
theory FoundryTrace
  imports Trace "HOL-Library.Multiset"
begin

text \<open>
  \<open>chain/foundry_trace.py\<close>: the adapter from \<open>forge test --json\<close> to the canonical envelope, and the
  extraction of the envelope. The walk over a call-trace arena is the explicit stack machine of
  \<open>_convert_arena\<close>; a finished child frame is added to its parent when it is popped, which gives the
  tree that the code builds by sharing the child's dictionary with its parent.
\<close>

section \<open>Constants\<close>

definition CANONICAL_TRACE_SCHEMA :: string where
  "CANONICAL_TRACE_SCHEMA = ''l0vi0x.foundry.trace.v1''"

definition topic0 :: "host \<Rightarrow> string \<Rightarrow> string" where
  "topic0 H signature = ''0x'' @ to_hex (hs_keccak H signature)"

definition ASSERTION_TOPIC0 :: "host \<Rightarrow> string" where
  "ASSERTION_TOPIC0 H = topic0 H ''AssertionChecked(bytes32,string,string,int256,int256,bool)''"

definition CONTROL_TOPIC0 :: "host \<Rightarrow> string" where
  "CONTROL_TOPIC0 H = topic0 H ''ControlObserved(bytes32,bool)''"

definition CONTEXT_TOPIC0 :: "host \<Rightarrow> string" where
  "CONTEXT_TOPIC0 H = topic0 H ''AssertionContext(bytes32,address,address)''"

definition ECON_TOPIC0 :: "host \<Rightarrow> string" where
  "ECON_TOPIC0 H = topic0 H
     ''EconomicSnapshot(bytes32,address,address,uint256,uint256,uint256,uint256,uint256,int256)''"

definition TRANSFER_TOPIC0 :: "host \<Rightarrow> string" where
  "TRANSFER_TOPIC0 H = topic0 H ''Transfer(address,address,uint256)''"

definition arena_phase :: "string \<Rightarrow> string option" where
  "arena_phase k = map_of [(''Deployment'', ''setup''), (''Setup'', ''setup''), (''Execution'', ''witness'')] k"

definition ARENA_ORDER :: "string list" where
  "ARENA_ORDER = [''Deployment'', ''Setup'', ''Execution'']"

definition CALL_KINDS :: "string list" where
  "CALL_KINDS = [''call'', ''staticcall'', ''delegatecall'', ''callcode'']"

definition fmt_err :: "string \<Rightarrow> 'a res" where
  "fmt_err m = Inl (FoundryTraceFormatError m)"

section \<open>Paths\<close>

text \<open>\<open>posixpath.normpath\<close> and \<open>str.rpartition(":")[0]\<close>.\<close>

fun norm_comps :: "bool \<Rightarrow> string list \<Rightarrow> string list \<Rightarrow> string list" where
  "norm_comps rooted [] new = rev new"
| "norm_comps rooted (c # cs) new =
     (if c = [] \<or> c = ''.'' then norm_comps rooted cs new
      else if c \<noteq> ''..'' \<or> (\<not> rooted \<and> new = []) \<or> (new \<noteq> [] \<and> hd new = ''..'') then norm_comps rooted cs (c # new)
      else norm_comps rooted cs (tl new))"

definition normpath :: "string \<Rightarrow> string" where
  "normpath p =
     (if p = [] then ''.''
      else let slashes = (if \<not> startswith p ''/'' then 0
             else if startswith p ''//'' \<and> \<not> startswith p ''///'' then 2 else 1);
           r = replicate slashes (CHR ''/'') @
             join ''/'' (norm_comps (0 < slashes) (split_on (CHR ''/'') p) [])
        in if r = [] then ''.'' else r)"

definition backslash :: char where
  "backslash = CHR 0x5C"

definition to_slashes :: "string \<Rightarrow> string" where
  "to_slashes s = map (\<lambda>c. if c = backslash then CHR ''/'' else c) s"

definition before_last :: "char \<Rightarrow> string \<Rightarrow> string" where
  "before_last c s = (if c \<in> set s then rev (tl (dropWhile (\<lambda>d. d \<noteq> c) (rev s))) else [])"

section \<open>Selecting the suite, the test and the arenas\<close>

definition select_suite :: "pdict \<Rightarrow> string \<Rightarrow> string res" where
  "select_suite payload test_file =
     (let wanted = normpath (to_slashes test_file);
          matches = map fst (filter (\<lambda>(k, v). normpath (to_slashes (before_last (CHR '':'') k)) = wanted \<and> is_dict v) payload)
      in case matches of
           [k] \<Rightarrow> Inr k
         | _ \<Rightarrow> fmt_err (''expected exactly one suite for '' @ test_file @ '', found '' @ nat_str (length matches)))"

definition select_test :: "pdict \<Rightarrow> string \<Rightarrow> pdict res" where
  "select_test suite test_name =
     (case dget_or suite ''test_results'' PNone of
        PDict [(name, result)] \<Rightarrow>
          (case result of
             PDict r \<Rightarrow> if name = test_name @ ''()'' then Inr r
               else fmt_err (''unexpected test in Forge output: '' @ str_repr name @ ''; expected '' @ test_name @ ''()'')
           | _ \<Rightarrow> fmt_err (''unexpected test in Forge output: '' @ str_repr name @ ''; expected '' @ test_name @ ''()''))
      | _ \<Rightarrow> fmt_err ''Forge output must contain exactly one test result'')"

type_synonym arena = "pdict list"

fun dicts_of :: "pv list \<Rightarrow> pdict list option" where
  "dicts_of [] = Some []"
| "dicts_of (PDict d # vs) = map_option ((#) d) (dicts_of vs)"
| "dicts_of _ = None"

definition add_arena :: "pv \<Rightarrow> (string \<times> arena) list \<Rightarrow> (string \<times> arena) list res" where
  "add_arena entry arenas =
     (case entry of
        PList [PStr k, PDict body] \<Rightarrow>
          if arena_phase k = None then fmt_err (''unknown trace arena kind: '' @ str_repr k)
          else if map_of arenas k \<noteq> None then fmt_err (''duplicate '' @ k @ '' trace arena'')
          else (case dget_or body ''arena'' PNone of
             PList (n # ns) \<Rightarrow>
               (case dicts_of (n # ns) of Some nodes \<Rightarrow> Inr (arenas @ [(k, nodes)])
                | None \<Rightarrow> fmt_err (k @ '' arena has no nodes''))
           | _ \<Rightarrow> fmt_err (k @ '' arena has no nodes''))
      | _ \<Rightarrow> fmt_err ''unexpected trace entry shape'')"

definition select_arenas :: "pv \<Rightarrow> (string \<times> arena) list res" where
  "select_arenas traces =
     (case traces of
        PList (t # ts) \<Rightarrow>
          ebind (efold add_arena (t # ts) []) (\<lambda>arenas.
            if map_of arenas ''Execution'' = None then fmt_err ''Forge output has no Execution trace''
            else Inr arenas)
      | _ \<Rightarrow> fmt_err ''Forge output contains no call traces (run with --json -vvv)'')"

section \<open>Scalar fields\<close>

definition hex_field :: "pv \<Rightarrow> string \<Rightarrow> string res" where
  "hex_field v label =
     (case v of
        PStr s \<Rightarrow>
          if \<not> startswith s ''0x'' then fmt_err (label @ '' is not 0x-prefixed hex'')
          else if from_hex (drop 2 s) = None then fmt_err (label @ '' is not valid hex'')
          else Inr (lower s)
      | _ \<Rightarrow> fmt_err (label @ '' is not 0x-prefixed hex''))"

definition address_field :: "pv \<Rightarrow> string \<Rightarrow> string res" where
  "address_field v label =
     ebind (hex_field v label) (\<lambda>t.
       if length t \<noteq> 42 then fmt_err (label @ '' is not a 20-byte address'') else Inr t)"

definition int_field :: "pv \<Rightarrow> string \<Rightarrow> int res" where
  "int_field v label =
     (case v of PInt i \<Rightarrow> if i < 0 then fmt_err (label @ '' is not a non-negative integer'') else Inr i
      | _ \<Rightarrow> fmt_err (label @ '' is not a non-negative integer''))"

section \<open>Logs\<close>

definition bytes32_label :: "string \<Rightarrow> string" where
  "bytes32_label word_hex =
     (case from_hex (drop 2 word_hex) of
        None \<Rightarrow> word_hex
      | Some raw \<Rightarrow>
          let stripped = rstrip_char zero_byte raw in
          if stripped \<noteq> [] \<and> list_all (\<lambda>b. CHR '' '' \<le> b \<and> b \<le> CHR ''~'') stripped then stripped else word_hex)"

text \<open>The decoders share the check of the topics and the reading of the data.\<close>

definition decode_event :: "string \<Rightarrow> string \<Rightarrow> string list \<Rightarrow> string list \<Rightarrow> string \<Rightarrow> pv list res" where
  "decode_event name topic_msg types topics data_hex =
     (if length topics \<noteq> 2 \<or> length (topics ! 1) \<noteq> 66 then fmt_err (name @ topic_msg)
      else case from_hex (drop 2 data_hex) of
        None \<Rightarrow> Inl (ValueError ''non-hexadecimal number found in fromhex() arg'')
      | Some b \<Rightarrow>
          (case decode_abi_arguments types b of
             Inr vs \<Rightarrow> Inr vs
           | Inl (CheatcodeDecodeError m) \<Rightarrow> fmt_err (''malformed '' @ name @ '' event: '' @ m)
           | Inl e \<Rightarrow> Inl e))"

definition decode_assertion :: "string list \<Rightarrow> string \<Rightarrow> pdict res" where
  "decode_assertion topics data_hex =
     ebind (decode_event ''AssertionChecked'' '' must have exactly one indexed argument''
         [''string'', ''string'', ''int256'', ''int256'', ''bool''] topics data_hex) (\<lambda>vs.
       Inr ((''id'', PStr (bytes32_label (topics ! 1))) #
         zip [''kind'', ''target'', ''observed'', ''expected'', ''ok''] vs))"

definition decode_context :: "string list \<Rightarrow> string \<Rightarrow> pdict res" where
  "decode_context topics data_hex =
     ebind (decode_event ''AssertionContext'' '' must have one indexed bytes32 id''
         [''address'', ''address''] topics data_hex) (\<lambda>vs.
       Inr ((''id'', PStr (bytes32_label (topics ! 1))) # zip [''actor'', ''token''] vs))"

definition decode_control :: "string list \<Rightarrow> string \<Rightarrow> pdict res" where
  "decode_control topics data_hex =
     ebind (decode_event ''ControlObserved'' '' must have one indexed bytes32 id'' [''bool''] topics data_hex) (\<lambda>vs.
       Inr [(''id'', PStr (bytes32_label (topics ! 1))), (''state_changed'', PBool (truthy (vs ! 0)))])"

definition decode_economic :: "string list \<Rightarrow> string \<Rightarrow> pdict res" where
  "decode_economic topics data_hex =
     ebind (decode_event ''EconomicSnapshot'' '' must have one indexed bytes32 id''
         [''address'', ''address'', ''uint256'', ''uint256'', ''uint256'', ''uint256'', ''uint256'', ''int256'']
         topics data_hex) (\<lambda>vs.
       Inr ((''id'', PStr (bytes32_label (topics ! 1))) #
         zip [''actor'', ''token'', ''native_before'', ''native_after'', ''token_before'', ''token_after'',
           ''declared_capital'', ''protocol_assets_delta''] vs))"

text \<open>
  \<open>int(data, 16)\<close> of a text with the prefix \<open>0x\<close>: white space is accepted at its end only, which matters
  because \<open>bytes.fromhex\<close> has let white space pass.
\<close>

definition hex_int :: "string \<Rightarrow> int res" where
  "hex_int data =
     (let digits = rev (dropWhile is_space (rev (drop 2 data))) in
      if digits = [] \<or> list_ex (\<lambda>c. hex_val c = None) digits then
        Inl (ValueError ''invalid literal for int() with base 16'')
      else Inr (foldl (\<lambda>acc c. 16 * acc + (case hex_val c of Some n \<Rightarrow> int n | None \<Rightarrow> 0)) 0 digits))"

definition decode_transfer :: "string \<Rightarrow> string list \<Rightarrow> string \<Rightarrow> pdict option res" where
  "decode_transfer address topics data =
     (if length topics \<noteq> 3 \<or> length data \<noteq> 66 then Inr None
      else if list_ex (\<lambda>t. take 24 (drop 2 t) \<noteq> replicate 24 (CHR ''0'')) (tl topics) then Inr None
      else ebind (hex_int data) (\<lambda>amount.
        Inr (Some [(''token'', PStr address), (''from'', PStr (''0x'' @ drop 26 (topics ! 1))),
          (''to'', PStr (''0x'' @ drop 26 (topics ! 2))), (''amount'', PInt amount)])))"

type_synonym derived_log = "string \<times> string list \<times> string"

fun all_strs :: "pv list \<Rightarrow> bool" where
  "all_strs [] = True"
| "all_strs (PStr s # vs) = all_strs vs"
| "all_strs _ = False"

definition convert_log :: "host \<Rightarrow> pv \<Rightarrow> bool \<Rightarrow> (pdict \<times> pdict option \<times> derived_log) res" where
  "convert_log H entry reverted =
     (case entry of
        PDict e \<Rightarrow>
          (case dget_or e ''raw_log'' PNone of
             PDict raw \<Rightarrow>
               (case dget_or raw ''topics'' PNone of
                  PList ts \<Rightarrow>
                    if \<not> all_strs ts \<or> 4 < length ts then fmt_err ''log topics are malformed''
                    else ebind (address_field (dget_or e ''address'' PNone) ''log emitter'') (\<lambda>address.
                      ebind (emap (\<lambda>t. hex_field t ''log topic'') ts) (\<lambda>topics.
                      ebind (hex_field (dget_or raw ''data'' (PStr ''0x'')) ''log data'') (\<lambda>data.
                        let base = [(''address'', PStr address), (''topics'', PList (map PStr topics)),
                              (''data'', PStr data), (''reverted'', PBool reverted)];
                            event = (\<lambda>name fields. map_sum id
                              (\<lambda>d. (dmerge (dset base ''event'' (PStr name)) d, None, (address, topics, data))) fields);
                            first = (case topics of [] \<Rightarrow> None | t # _ \<Rightarrow> Some t)
                        in if first = Some (ASSERTION_TOPIC0 H) then event ''AssertionChecked'' (decode_assertion topics data)
                           else if first = Some (CONTROL_TOPIC0 H) then event ''ControlObserved'' (decode_control topics data)
                           else if first = Some (CONTEXT_TOPIC0 H) then event ''AssertionContext'' (decode_context topics data)
                           else if first = Some (ECON_TOPIC0 H) then event ''EconomicSnapshot'' (decode_economic topics data)
                           else ebind (if \<not> reverted \<and> first = Some (TRANSFER_TOPIC0 H)
                               then decode_transfer address topics data else Inr None) (\<lambda>transfer.
                             Inr (base, transfer, (address, topics, data))))))
                | _ \<Rightarrow> fmt_err ''log topics are malformed'')
           | _ \<Rightarrow> fmt_err ''arena log has no raw_log'')
      | _ \<Rightarrow> fmt_err ''arena log has no raw_log'')"

section \<open>The walk over an arena\<close>

text \<open>\<open>by_idx\<close>; a missing, boolean or repeated index is refused.\<close>

definition add_node :: "pdict \<Rightarrow> (int \<times> pdict) list \<Rightarrow> (int \<times> pdict) list res" where
  "add_node node by_idx =
     (case dget_or node ''idx'' PNone of
        PInt i \<Rightarrow> if map_of by_idx i \<noteq> None then fmt_err ''arena node index is missing or duplicated''
          else Inr (by_idx @ [(i, node)])
      | _ \<Rightarrow> fmt_err ''arena node index is missing or duplicated'')"

definition node_idx :: "pdict \<Rightarrow> int" where
  "node_idx node = (case dget_or node ''idx'' PNone of PInt i \<Rightarrow> i | _ \<Rightarrow> 0)"

text \<open>\<open>by_idx.get(key)\<close>: an unhashable key raises, a boolean is an integer.\<close>

definition lookup_node :: "(int \<times> pdict) list \<Rightarrow> pv \<Rightarrow> pdict option res" where
  "lookup_node by_idx key =
     (if \<not> hashable key then Inl (TypeError ''unhashable type'')
      else case pnorm key of PInt i \<Rightarrow> Inr (map_of by_idx i) | _ \<Rightarrow> Inr None)"

definition is_root :: "pdict \<Rightarrow> bool" where
  "is_root node = (dget_or node ''parent'' PNone = PNone)"

text \<open>The cheatcode fields of a frame.\<close>

definition cheat_fields :: "host \<Rightarrow> string \<Rightarrow> string \<Rightarrow> string \<Rightarrow> pdict res" where
  "cheat_fields H to kind data =
     (if to = CHEATCODE_ADDRESS \<and> kind \<in> set CALL_KINDS then
        (case decode_cheatcode H (Some data) of
           Inl (CheatcodeDecodeError m) \<Rightarrow> fmt_err (''cannot decode cheatcode call: '' @ m)
         | Inl e \<Rightarrow> Inl e
         | Inr c \<Rightarrow>
             let args = (case dc_args c of Some vs \<Rightarrow> vs | None \<Rightarrow> []);
                 fields = [(''cheatcode'', PStr (dc_name c)), (''args'', PList args)] in
             if dc_name c \<in> {''warp'', ''roll''} then
               (case args of [] \<Rightarrow> fmt_err (dc_name c @ '' has no decoded value'')
                | v # _ \<Rightarrow> Inr (fields @ [(''absolute'', v)]))
             else Inr fields)
      else Inr [])"

text \<open>The frame of a node, before its logs and children, and its success flag.\<close>

definition base_frame :: "host \<Rightarrow> string \<Rightarrow> pdict \<Rightarrow> (pdict \<times> bool) res" where
  "base_frame H phase node =
     (case dget_or node ''trace'' PNone of
        PDict trace \<Rightarrow>
          let kind = lower (py_str (dget_or trace ''kind'' (PStr []))) in
          if kind = [] then fmt_err ''arena node has no call kind''
          else ebind (address_field (dget_or trace ''address'' PNone) ''frame address'') (\<lambda>to.
            ebind (hex_field (dget_or trace ''data'' (PStr ''0x'')) ''frame data'') (\<lambda>data.
            case dget_or trace ''success'' PNone of
              PBool success \<Rightarrow>
                ebind (int_field (dget_or trace ''depth'' PNone) ''frame depth'') (\<lambda>depth.
                ebind (address_field (dget_or trace ''caller'' PNone) ''frame caller'') (\<lambda>caller.
                ebind (int_field (dget_or trace ''gas_used'' (PInt 0)) ''frame gas'') (\<lambda>gas.
                ebind (cheat_fields H to kind data) (\<lambda>cheat.
                  Inr ([(''depth'', PInt depth), (''kind'', PStr kind), (''to'', PStr to),
                     (''caller'', PStr caller), (''phase'', PStr phase), (''data'', PStr data),
                     (''selector'', if kind \<in> set CALL_KINDS \<and> 10 \<le> length data then PStr (take 10 data) else PNone),
                     (''gas_used'', PInt gas), (''success'', PBool success), (''logs'', PList []),
                     (''children'', PList [])] @ cheat, success)))))
            | _ \<Rightarrow> fmt_err ''frame success flag is missing''))
      | _ \<Rightarrow> fmt_err ''arena node has no trace'')"

definition ordering_of :: "pdict \<Rightarrow> pdict list res" where
  "ordering_of node =
     (case dget_or node ''ordering'' PNone of
        PList vs \<Rightarrow> (case dicts_of vs of Some ds \<Rightarrow> Inr ds | None \<Rightarrow> fmt_err ''arena node lacks call/log ordering'')
      | _ \<Rightarrow> fmt_err ''arena node lacks call/log ordering'')"

text \<open>A stack entry \<open>[node, frame, reverted, steps, calls, logs]\<close>.\<close>

record arena_entry =
  ae_node :: pdict
  ae_frame :: pdict
  ae_reverted :: bool
  ae_steps :: "pdict list"
  ae_calls :: "int list"
  ae_logs :: "int list"

definition open_node :: "host \<Rightarrow> string \<Rightarrow> pdict \<Rightarrow> bool \<Rightarrow> int list \<Rightarrow> (arena_entry \<times> int list) res" where
  "open_node H phase node parent_reverted visited =
     (if node_idx node \<in> set visited then fmt_err ''arena node is reachable twice''
      else ebind (base_frame H phase node) (\<lambda>(frame, success).
        ebind (ordering_of node) (\<lambda>steps.
          Inr (\<lparr>ae_node = node, ae_frame = frame, ae_reverted = parent_reverted \<or> \<not> success,
                ae_steps = steps, ae_calls = [], ae_logs = []\<rparr>, node_idx node # visited))))"

text \<open>\<open>len(node.get(key) or [])\<close>.\<close>

definition len_or_empty :: "pdict \<Rightarrow> string \<Rightarrow> nat res" where
  "len_or_empty node key =
     (let v = dget_or node key PNone in
      if \<not> truthy v then Inr 0
      else case v of PList vs \<Rightarrow> Inr (length vs) | PTup vs \<Rightarrow> Inr (length vs) | PDict d \<Rightarrow> Inr (length d)
        | PStr s \<Rightarrow> Inr (length s) | _ \<Rightarrow> Inl (TypeError ''object has no len()''))"

definition require_consumed :: "arena_entry \<Rightarrow> unit res" where
  "require_consumed e =
     ebind (len_or_empty (ae_node e) ''children'') (\<lambda>nc.
       if length (ae_calls e) \<noteq> nc then fmt_err ''arena node has calls or logs missing from its ordering''
       else ebind (len_or_empty (ae_node e) ''logs'') (\<lambda>nl.
         if length (ae_logs e) \<noteq> nl then fmt_err ''arena node has calls or logs missing from its ordering''
         else Inr ()))"

text \<open>An index into a list of a node, not used before: \<open>isinstance(position, int) and 0 <= ...\<close>.\<close>

definition position_in :: "pv \<Rightarrow> pv \<Rightarrow> int list \<Rightarrow> (int \<times> pv) option" where
  "position_in position items used =
     (case (pnorm position, items) of
        (PInt i, PList vs) \<Rightarrow> if 0 \<le> i \<and> nat i < length vs \<and> i \<notin> set used then Some (i, vs ! nat i) else None
      | _ \<Rightarrow> None)"

definition append_item :: "pdict \<Rightarrow> string \<Rightarrow> pv \<Rightarrow> pdict" where
  "append_item d k v = dset d k (case dget_or d k (PList []) of PList vs \<Rightarrow> PList (vs @ [v]) | w \<Rightarrow> w)"

definition add_child :: "pdict \<Rightarrow> arena_entry \<Rightarrow> arena_entry" where
  "add_child child e = e\<lparr>ae_frame := append_item (ae_frame e) ''children'' (PDict child)\<rparr>"

text \<open>The state of the loop: visited indices, derived logs, and the stack, top first.\<close>

record arena_state =
  as_visited :: "int list"
  as_logs :: "derived_log list"
  as_stack :: "arena_entry list"

definition step_call :: "host \<Rightarrow> string \<Rightarrow> (int \<times> pdict) list \<Rightarrow> pv \<Rightarrow> arena_entry \<Rightarrow> arena_entry list \<Rightarrow>
    arena_state \<Rightarrow> arena_state res" where
  "step_call H phase by_idx position e rest st =
     (case position_in position (dget_or (ae_node e) ''children'' PNone) (ae_calls e) of
        None \<Rightarrow> fmt_err ''arena ordering references an invalid child''
      | Some (i, key) \<Rightarrow>
          ebind (lookup_node by_idx key) (\<lambda>found.
            case found of
              None \<Rightarrow> fmt_err ''arena child does not point back to its parent''
            | Some child \<Rightarrow>
                if \<not> py_eq (dget_or child ''parent'' PNone) (PInt (node_idx (ae_node e))) then
                  fmt_err ''arena child does not point back to its parent''
                else ebind (open_node H phase child (ae_reverted e) (as_visited st)) (\<lambda>(entry, visited).
                  Inr (st\<lparr>as_visited := visited, as_stack := entry # e\<lparr>ae_calls := i # ae_calls e\<rparr> # rest\<rparr>))))"

definition step_log :: "host \<Rightarrow> pv \<Rightarrow> arena_entry \<Rightarrow> arena_entry list \<Rightarrow> arena_state \<Rightarrow> arena_state res" where
  "step_log H position e rest st =
     (case position_in position (dget_or (ae_node e) ''logs'' PNone) (ae_logs e) of
        None \<Rightarrow> fmt_err ''arena ordering references an invalid log''
      | Some (i, entry) \<Rightarrow>
          ebind (convert_log H entry (ae_reverted e)) (\<lambda>(rec, transfer, derived).
            let frame = append_item (ae_frame e) ''logs'' (PDict rec);
                frame' = (case transfer of None \<Rightarrow> frame | Some t \<Rightarrow> append_item frame ''erc20_transfers'' (PDict t))
            in Inr (st\<lparr>as_logs := as_logs st @ [derived],
                       as_stack := e\<lparr>ae_frame := frame', ae_logs := i # ae_logs e\<rparr> # rest\<rparr>)))"

text \<open>One turn of \<open>while stack\<close>: the finished root frame, or the next state.\<close>

definition arena_step :: "host \<Rightarrow> string \<Rightarrow> (int \<times> pdict) list \<Rightarrow> arena_state \<Rightarrow> (pdict + arena_state) res" where
  "arena_step H phase by_idx st =
     (case as_stack st of
        [] \<Rightarrow> Inr (Inl [])
      | e # rest \<Rightarrow>
          (case ae_steps e of
             [] \<Rightarrow> ebind (require_consumed e) (\<lambda>_.
               case rest of
                 [] \<Rightarrow> Inr (Inl (ae_frame e))
               | p # rest' \<Rightarrow> Inr (Inr (st\<lparr>as_stack := add_child (ae_frame e) p # rest'\<rparr>)))
           | step # steps \<Rightarrow>
               let e' = e\<lparr>ae_steps := steps\<rparr> in
               if dhas step ''Step'' then Inr (Inr (st\<lparr>as_stack := e' # rest\<rparr>))
               else if dhas step ''Call'' then
                 map_sum id Inr (step_call H phase by_idx (dget_or step ''Call'' PNone) e' rest st)
               else if dhas step ''Log'' then
                 map_sum id Inr (step_log H (dget_or step ''Log'' PNone) e' rest st)
               else fmt_err (''unknown arena ordering entry: '' @ py_repr (PList (map PStr (sort (map fst step)))))))"

subsection \<open>The loop ends\<close>

text \<open>
  Every turn consumes an ordering entry, pops an entry, or opens a node not visited before: the
  measure counts what is left of the stack and of the nodes not visited.
\<close>

definition ordering_length :: "pdict \<Rightarrow> nat" where
  "ordering_length n = (case ordering_of n of Inr ds \<Rightarrow> length ds | Inl _ \<Rightarrow> 0)"

definition arena_measure :: "(int \<times> pdict) list \<Rightarrow> arena_state \<Rightarrow> nat" where
  "arena_measure by_idx st =
     (\<Sum>p\<leftarrow>filter (\<lambda>p. node_idx (snd p) \<notin> set (as_visited st)) by_idx. 2 + ordering_length (snd p)) +
     (\<Sum>e\<leftarrow>as_stack st. Suc (length (ae_steps e)))"

lemma open_node_eq:
  assumes "open_node H phase node pr visited = Inr (e, visited')"
  shows "node_idx node \<notin> set visited" "visited' = node_idx node # visited" "ae_node e = node"
    "length (ae_steps e) = ordering_length node" "ae_calls e = []" "ae_logs e = []"
    "\<exists>success. base_frame H phase node = Inr (ae_frame e, success) \<and> ae_reverted e = (pr \<or> \<not> success)"
  using assms by (auto simp: open_node_def ebind_eq_Inr ordering_length_def fmt_err_def split: if_splits)

lemma sum_list_filter_less:
  assumes "x \<in> set xs" "P x" "\<not> Q x" "\<And>y. Q y \<Longrightarrow> P y"
  shows "(\<Sum>y\<leftarrow>filter Q xs. f y) + f x \<le> (\<Sum>y\<leftarrow>filter P xs. f y :: nat)"
  using assms(1)
proof (induction xs)
  case (Cons y xs)
  have le: "(\<Sum>y\<leftarrow>filter Q xs. f y) \<le> (\<Sum>y\<leftarrow>filter P xs. f y)"
    using assms(4) by (induction xs) auto
  show ?case
  proof (cases "y = x")
    case True
    with assms(2,3) le show ?thesis by simp
  next
    case False
    with Cons have "(\<Sum>y\<leftarrow>filter Q xs. f y) + f x \<le> (\<Sum>y\<leftarrow>filter P xs. f y)" by auto
    with assms(4) [of y] show ?thesis by auto
  qed
qed simp

lemma map_of_in: "map_of ps i = Some x \<Longrightarrow> x \<in> snd ` set ps"
  by (force dest: map_of_SomeD)

lemma step_call_eq:
  assumes "step_call H phase by_idx position e rest st = Inr st'"
  obtains i child entry where "i \<notin> set (ae_calls e)" "child \<in> snd ` set by_idx"
    "open_node H phase child (ae_reverted e) (as_visited st) = Inr (entry, as_visited st')"
    "as_stack st' = entry # e\<lparr>ae_calls := i # ae_calls e\<rparr> # rest" "as_logs st' = as_logs st"
proof -
  from assms obtain i key where p: "position_in position (dget_or (ae_node e) ''children'' PNone) (ae_calls e) = Some (i, key)"
    by (auto simp: step_call_def fmt_err_def split: option.splits)
  then have i: "i \<notin> set (ae_calls e)" by (auto simp: position_in_def split: pv.splits if_splits)
  from assms p obtain child entry visited where c: "lookup_node by_idx key = Inr (Some child)"
    "open_node H phase child (ae_reverted e) (as_visited st) = Inr (entry, visited)"
    "st' = st\<lparr>as_visited := visited, as_stack := entry # e\<lparr>ae_calls := i # ae_calls e\<rparr> # rest\<rparr>"
    by (auto simp: step_call_def ebind_eq_Inr fmt_err_def split: option.splits if_splits)
  from c(1) have "child \<in> snd ` set by_idx"
    by (auto simp: lookup_node_def dest: map_of_in split: if_splits pv.splits)
  with i c that show thesis by auto
qed

lemma step_log_eq:
  assumes "step_log H position e rest st = Inr st'"
  obtains i entry rec transfer derived where "i \<notin> set (ae_logs e)"
    "convert_log H entry (ae_reverted e) = Inr (rec, transfer, derived)"
    "st' = st\<lparr>as_logs := as_logs st @ [derived], as_stack := e\<lparr>ae_frame :=
       (case transfer of None \<Rightarrow> append_item (ae_frame e) ''logs'' (PDict rec)
        | Some t \<Rightarrow> append_item (append_item (ae_frame e) ''logs'' (PDict rec)) ''erc20_transfers'' (PDict t)),
       ae_logs := i # ae_logs e\<rparr> # rest\<rparr>"
proof -
  from assms obtain i entry where p: "position_in position (dget_or (ae_node e) ''logs'' PNone) (ae_logs e) = Some (i, entry)"
    by (auto simp: step_log_def fmt_err_def split: option.splits)
  then have "i \<notin> set (ae_logs e)" by (auto simp: position_in_def split: pv.splits if_splits)
  with assms p that show thesis by (auto simp: step_log_def ebind_eq_Inr Let_def)
qed

lemma map_sum_id_eq: "map_sum id Inr r = Inr (Inr s) \<longleftrightarrow> r = Inr s" "map_sum id Inr r \<noteq> Inr (Inl f)"
  by (cases r; auto)+

text \<open>The cases of a turn that goes on.\<close>

lemma arena_step_cases:
  assumes "arena_step H phase by_idx st = Inr (Inr st')"
  obtains (skip) e rest step steps where "as_stack st = e # rest" "ae_steps e = step # steps"
      "st' = st\<lparr>as_stack := e\<lparr>ae_steps := steps\<rparr> # rest\<rparr>"
    | (pop) e p rest where "as_stack st = e # p # rest" "ae_steps e = []" "require_consumed e = Inr ()"
      "st' = st\<lparr>as_stack := add_child (ae_frame e) p # rest\<rparr>"
    | (call) e rest step steps position where "as_stack st = e # rest" "ae_steps e = step # steps"
      "step_call H phase by_idx position (e\<lparr>ae_steps := steps\<rparr>) rest st = Inr st'"
    | (log) e rest step steps position where "as_stack st = e # rest" "ae_steps e = step # steps"
      "step_log H position (e\<lparr>ae_steps := steps\<rparr>) rest st = Inr st'"
proof (cases "as_stack st")
  case Nil
  with assms show thesis by (simp add: arena_step_def)
next
  case (Cons e rest)
  show thesis
  proof (cases "ae_steps e")
    case Nil
    with Cons assms pop show thesis
      by (auto simp: arena_step_def ebind_eq_Inr split: list.splits)
  next
    case (Cons step steps)
    note turn = assms [unfolded arena_step_def \<open>as_stack st = e # rest\<close> list.case Cons Let_def]
    show thesis
    proof (cases "dhas step ''Step''")
      case True
      with turn skip \<open>as_stack st = e # rest\<close> Cons show thesis by auto
    next
      case False
      with turn call log \<open>as_stack st = e # rest\<close> Cons show thesis
        by (simp add: map_sum_id_eq fmt_err_def split: if_splits)
    qed
  qed
qed

lemma arena_step_decreases:
  assumes "arena_step H phase by_idx st = Inr (Inr st')"
  shows "arena_measure by_idx st' < arena_measure by_idx st"
  using assms
proof (cases rule: arena_step_cases)
  case (call e rest step steps position)
  from call(3) obtain i child entry where c: "child \<in> snd ` set by_idx"
    "open_node H phase child (ae_reverted e) (as_visited st) = Inr (entry, as_visited st')"
    "as_stack st' = entry # e\<lparr>ae_steps := steps, ae_calls := i # ae_calls e\<rparr> # rest"
    by (rule step_call_eq) auto
  note o = open_node_eq [OF c(2)]
  from c(1) obtain p where p: "p \<in> set by_idx" "snd p = child" by blast
  have "(\<Sum>q\<leftarrow>filter (\<lambda>q. node_idx (snd q) \<notin> set (as_visited st')) by_idx. 2 + ordering_length (snd q)) +
      (2 + ordering_length (snd p)) \<le>
      (\<Sum>q\<leftarrow>filter (\<lambda>q. node_idx (snd q) \<notin> set (as_visited st)) by_idx. 2 + ordering_length (snd q))"
    by (rule sum_list_filter_less) (use p o(1,2) in auto)
  with p o(4) show ?thesis by (simp add: arena_measure_def c(3) call(1,2))

next
  case (log e rest step steps position)
  from log(3) show ?thesis
    by (rule step_log_eq) (simp add: arena_measure_def log(1,2))
qed (simp_all add: arena_measure_def add_child_def)

function arena_loop :: "host \<Rightarrow> string \<Rightarrow> (int \<times> pdict) list \<Rightarrow> arena_state \<Rightarrow> (pdict \<times> arena_state) res" where
  "arena_loop H phase by_idx st =
     ebind (arena_step H phase by_idx st) (\<lambda>r.
       case r of Inl frame \<Rightarrow> Inr (frame, st) | Inr st' \<Rightarrow> arena_loop H phase by_idx st')"
  by pat_completeness auto
termination
  by (relation "measure (\<lambda>(H, phase, by_idx, st). arena_measure by_idx st)")
    (auto dest: arena_step_decreases)

declare arena_loop.simps [simp del]

text \<open>\<open>_convert_arena\<close>: the root frame and the derived logs, which the code appends in place.\<close>

definition convert_arena :: "host \<Rightarrow> arena \<Rightarrow> string \<Rightarrow> derived_log list \<Rightarrow> (pdict \<times> derived_log list) res" where
  "convert_arena H nodes phase derived =
     ebind (efold add_node nodes []) (\<lambda>by_idx.
       case filter is_root nodes of
         [root] \<Rightarrow>
           ebind (open_node H phase root False []) (\<lambda>(entry, visited).
           ebind (arena_loop H phase by_idx \<lparr>as_visited = visited, as_logs = derived, as_stack = [entry]\<rparr>)
             (\<lambda>(frame, st).
               if length (as_visited st) \<noteq> length nodes then
                 fmt_err ''arena contains nodes that are unreachable from its root''
               else Inr (frame, as_logs st)))
       | _ \<Rightarrow> fmt_err ''arena must have exactly one root node'')"

section \<open>The adapter\<close>

text \<open>
  Comparison with the logs Forge reports: each entry's fields; \<open>KeyError\<close> and \<open>TypeError\<close> of the three
  accesses become the adapter's error, an \<open>entry\<close> that is not a mapping included.
\<close>

definition forge_log :: "pv \<Rightarrow> derived_log res" where
  "forge_log entry =
     (case entry of
        PDict e \<Rightarrow>
          (case dget e ''address'' of
             None \<Rightarrow> fmt_err ''Forge log entry is malformed''
           | Some a \<Rightarrow>
               ebind (address_field a ''forge log emitter'') (\<lambda>address.
               case dget e ''topics'' of
                 None \<Rightarrow> fmt_err ''Forge log entry is malformed''
               | Some t \<Rightarrow>
                   (case py_iter t of
                      Inl _ \<Rightarrow> fmt_err ''Forge log entry is malformed''
                    | Inr ts \<Rightarrow>
                        ebind (emap (\<lambda>v. hex_field v ''forge log topic'') ts) (\<lambda>topics.
                        case dget e ''data'' of
                          None \<Rightarrow> fmt_err ''Forge log entry is malformed''
                        | Some d \<Rightarrow> ebind (hex_field d ''forge log data'') (\<lambda>data. Inr (address, topics, data))))))
      | _ \<Rightarrow> fmt_err ''Forge log entry is malformed'')"

definition check_logs :: "pv \<Rightarrow> derived_log list \<Rightarrow> unit res" where
  "check_logs forge_logs derived =
     (case forge_logs of
        PNone \<Rightarrow> Inr ()
      | PList entries \<Rightarrow>
          ebind (emap forge_log entries) (\<lambda>normalized.
            if normalized \<noteq> derived then
              fmt_err ''Forge-reported logs do not exactly match call-trace arena logs''
            else Inr ())
      | _ \<Rightarrow> fmt_err ''Forge log list is malformed'')"

text \<open>The loop over \<open>_ARENA_ORDER\<close>.\<close>

fun convert_arenas :: "host \<Rightarrow> (string \<times> arena) list \<Rightarrow> string list \<Rightarrow> derived_log list \<Rightarrow>
    (pv list \<times> derived_log list) res" where
  "convert_arenas H arenas [] derived = Inr ([], derived)"
| "convert_arenas H arenas (k # ks) derived =
     (case map_of arenas k of
        None \<Rightarrow> convert_arenas H arenas ks derived
      | Some nodes \<Rightarrow>
          ebind (convert_arena H nodes (case arena_phase k of Some p \<Rightarrow> p | None \<Rightarrow> []) derived) (\<lambda>(frame, derived').
          ebind (convert_arenas H arenas ks derived') (\<lambda>(frames, derived'').
            Inr (PDict frame # frames, derived''))))"

definition host_int :: "string \<Rightarrow> int \<Rightarrow> unit res" where
  "host_int label v =
     (if v < 0 then fmt_err (label @ '' must be a non-negative integer supplied by the host'') else Inr ())"

definition adapt_forge_test_json :: "host \<Rightarrow> pv \<Rightarrow> string \<Rightarrow> string \<Rightarrow> int \<Rightarrow> int \<Rightarrow> pdict res" where
  "adapt_forge_test_json H payload test_file test_name initial_timestamp initial_block =
     (case payload of
        PDict suites \<Rightarrow>
          ebind (host_int ''initial_timestamp'' initial_timestamp) (\<lambda>_.
          ebind (host_int ''initial_block'' initial_block) (\<lambda>_.
          ebind (select_suite suites test_file) (\<lambda>suite_key.
          ebind (select_test (case dget_or suites suite_key PNone of PDict s \<Rightarrow> s | _ \<Rightarrow> []) test_name) (\<lambda>result.
            if dget_or result ''status'' PNone \<noteq> PStr ''Success'' then
              fmt_err (''test '' @ test_name @ '' did not succeed: '' @ py_repr (dget_or result ''status'' PNone))
            else if (case dget_or result ''kind'' PNone of PDict k \<Rightarrow> \<not> dhas k ''Unit'' | _ \<Rightarrow> True) then
              fmt_err ''only unit tests can be witnesses or controls''
            else
              ebind (select_arenas (dget_or result ''traces'' PNone)) (\<lambda>arenas.
              ebind (convert_arenas H arenas ARENA_ORDER []) (\<lambda>(frames, derived).
              ebind (check_logs (dget_or result ''logs'' PNone) derived) (\<lambda>_.
                Inr [(''l0vi0x_structured_trace'', PDict
                  [(''schema'', PStr CANONICAL_TRACE_SCHEMA),
                   (''source'', PDict [(''tool'', PStr ''forge''), (''suite'', PStr suite_key),
                      (''test'', PStr (test_name @ ''()''))]),
                   (''initial_timestamp'', PInt initial_timestamp), (''initial_block'', PInt initial_block),
                   (''frames'', PList frames)])])))))))
      | _ \<Rightarrow> fmt_err ''Forge JSON is not an object'')"

section \<open>Extraction of the envelope\<close>

text \<open>Python's \<open>a or b\<close>.\<close>

definition por :: "pv \<Rightarrow> pv \<Rightarrow> pv" where
  "por a b = (if truthy a then a else b)"

text \<open>The entries of \<open>_normalize_frame\<close>'s result but the children.\<close>

definition normal_fields :: "string \<Rightarrow> pdict \<Rightarrow> pdict res" where
  "normal_fields phase d =
     ebind (py_int (dget_or d ''depth'' (PInt 0))) (\<lambda>depth.
       Inr ([(''depth'', PInt depth),
          (''kind'', PStr (py_str (dget_or d ''kind'' (dget_or d ''type'' (PStr ''call''))))),
          (''to'', por (dget_or d ''to'' PNone) (dget_or d ''address'' PNone)),
          (''selector'', por (dget_or d ''selector'' PNone) (dget_or d ''function'' PNone)),
          (''phase'', PStr (py_str (dget_or d ''phase'' (PStr phase)))),
          (''caller'', por (dget_or d ''caller'' PNone) (dget_or d ''from'' PNone)),
          (''data'', dget_or d ''data'' PNone),
          (''gas_used'', dget_or d ''gas_used'' (dget_or d ''gas'' PNone)),
          (''logs'', dget_or d ''logs'' (PList []))] @
         (if dhas d ''cheatcode'' then
            (''cheatcode'', dget_or d ''cheatcode'' PNone) #
            (if dhas d ''args'' then [(''args'', dget_or d ''args'' PNone)] else []) @
            (if dhas d ''absolute'' then [(''absolute'', dget_or d ''absolute'' PNone)] else [])
          else []) @
         (if dhas d ''erc20_transfer'' then [(''erc20_transfer'', dget_or d ''erc20_transfer'' PNone)] else []) @
         (if dhas d ''erc20_transfers'' then [(''erc20_transfers'', dget_or d ''erc20_transfers'' PNone)] else [])))"

function normalize_frame :: "string \<Rightarrow> pv \<Rightarrow> pv res" where
  "normalize_frame phase (PDict d) =
     ebind (normal_fields phase d) (\<lambda>fields.
       case child_value d of
         PList cs \<Rightarrow>
           ebind (emap (normalize_frame phase) (filter is_dict cs)) (\<lambda>children.
             Inr (PDict (fields @ [(''children'', PList children)])))
       | _ \<Rightarrow> Inr (PDict fields))"
| "normalize_frame phase PNone = Inl (AttributeError ''get'')"
| "normalize_frame phase (PBool b) = Inl (AttributeError ''get'')"
| "normalize_frame phase (PInt i) = Inl (AttributeError ''get'')"
| "normalize_frame phase (PFloat r i) = Inl (AttributeError ''get'')"
| "normalize_frame phase (PStr s) = Inl (AttributeError ''get'')"
| "normalize_frame phase (PList vs) = Inl (AttributeError ''get'')"
| "normalize_frame phase (PTup vs) = Inl (AttributeError ''get'')"
  by pat_completeness auto
termination
  by (relation "measure (size \<circ> snd)") (auto dest: child_value_size)

definition envelope_int :: "pdict \<Rightarrow> string \<Rightarrow> pdict res" where
  "envelope_int envelope key =
     (if \<not> dhas envelope key then Inr []
      else case dget_or envelope key PNone of
        PInt i \<Rightarrow> if i < 0 then fmt_err (key @ '' must be a non-negative integer'') else Inr [(key, PInt i)]
      | _ \<Rightarrow> fmt_err (key @ '' must be a non-negative integer''))"

definition extract_structured_trace :: "pv \<Rightarrow> string option \<Rightarrow> pdict res" where
  "extract_structured_trace payload expected_schema =
     (let expected = (if given expected_schema then the expected_schema else CANONICAL_TRACE_SCHEMA) in
      case payload of
        PDict p \<Rightarrow>
          (case dget_or p ''l0vi0x_structured_trace'' PNone of
             PDict envelope \<Rightarrow>
               if dget_or envelope ''schema'' PNone \<noteq> PStr expected then
                 fmt_err (''unexpected structured trace schema: '' @ py_repr (dget_or envelope ''schema'' PNone) @
                   ''; expected '' @ str_repr expected)
               else (case dget_or envelope ''frames'' PNone of
                  PList (f # fs) \<Rightarrow>
                    if \<not> list_all is_dict (f # fs) then
                      fmt_err ''canonical structured-trace envelope has no valid frame list''
                    else
                      ebind (emap (normalize_frame ''witness'') (f # fs)) (\<lambda>frames.
                      ebind (envelope_int envelope ''initial_timestamp'') (\<lambda>ts.
                      ebind (envelope_int envelope ''initial_block'') (\<lambda>bl.
                        Inr ([(''trace'', PList frames), (''schema'', PStr expected)] @ ts @ bl))))
                | _ \<Rightarrow> fmt_err ''canonical structured-trace envelope has no valid frame list'')
           | _ \<Rightarrow> fmt_err ''verified Foundry adapter did not provide the canonical structured-trace envelope'')
      | _ \<Rightarrow> fmt_err ''Forge JSON is not an object'')"

section \<open>Every node of an arena becomes one frame\<close>

text \<open>The frames of a frame tree, and the part of a frame that its node determines.\<close>

definition pv_dict :: "pv \<Rightarrow> pdict" where
  "pv_dict v = (case v of PDict d \<Rightarrow> d | _ \<Rightarrow> [])"

definition tree_frames :: "pdict \<Rightarrow> pdict list" where
  "tree_frames f = map pv_dict (flatten_record (PDict f))"

definition core_keys :: "string list" where
  "core_keys = [''depth'', ''kind'', ''to'', ''caller'', ''phase'', ''data'', ''selector'', ''gas_used'',
     ''success'', ''cheatcode'', ''args'', ''absolute'']"

definition core :: "pdict \<Rightarrow> pv option list" where
  "core d = map (map_of d) core_keys"

definition node_core :: "host \<Rightarrow> string \<Rightarrow> pdict \<Rightarrow> pv option list" where
  "node_core H phase node = (case base_frame H phase node of Inr (f, _) \<Rightarrow> core f | Inl _ \<Rightarrow> [])"

definition has_children :: "pdict \<Rightarrow> bool" where
  "has_children f = (\<exists>cs. map_of f ''children'' = Some (PList cs))"

lemma core_dset: "k \<notin> set core_keys \<Longrightarrow> core (dset d k v) = core d"
  by (auto simp: core_def)

lemma core_dpop: "core (dpop (dpop d ''calls'') ''children'') = core d"
  by (simp add: core_def core_keys_def)

lemma core_append_item: "k \<notin> set core_keys \<Longrightarrow> core (append_item d k v) = core d"
  by (simp add: append_item_def core_dset)

lemma tree_frames_children:
  assumes "map_of f ''children'' = Some (PList cs)"
  shows "tree_frames f = dpop (dpop f ''calls'') ''children'' # concat (map (map pv_dict \<circ> flatten_record) cs)"
  using assms by (simp add: tree_frames_def child_value_def dget_or_def pv_dict_def map_concat comp_def)

definition cores :: "pdict \<Rightarrow> pv option list multiset" where
  "cores f = mset (map core (tree_frames f))"

lemma cores_children:
  assumes "map_of f ''children'' = Some (PList cs)"
  shows "cores f = add_mset (core f) (mset (map core (concat (map (map pv_dict \<circ> flatten_record) cs))))"
  using tree_frames_children [OF assms] by (simp add: cores_def core_dpop)

lemma cores_add_child:
  assumes "has_children f"
  shows "cores (append_item f ''children'' (PDict c)) = cores f + cores c"
    "has_children (append_item f ''children'' (PDict c))"
proof -
  from assms obtain cs where cs: "map_of f ''children'' = Some (PList cs)" by (auto simp: has_children_def)
  then have new: "map_of (append_item f ''children'' (PDict c)) ''children'' = Some (PList (cs @ [PDict c]))"
    by (simp add: append_item_def dget_or_def)
  then show "has_children (append_item f ''children'' (PDict c))" by (simp add: has_children_def)
  have "core (append_item f ''children'' (PDict c)) = core f"
    by (rule core_append_item) (simp add: core_keys_def)
  with cores_children [OF new] cores_children [OF cs]
  show "cores (append_item f ''children'' (PDict c)) = cores f + cores c"
    by (simp add: cores_def tree_frames_def)
qed

lemma cores_append_other:
  assumes "has_children f" "k \<in> {''logs'', ''erc20_transfers''}"
  shows "cores (append_item f k v) = cores f" "has_children (append_item f k v)"
proof -
  from assms(1) obtain cs where cs: "map_of f ''children'' = Some (PList cs)" by (auto simp: has_children_def)
  with assms(2) have new: "map_of (append_item f k v) ''children'' = Some (PList cs)"
    by (auto simp: append_item_def)
  then show "has_children (append_item f k v)" by (simp add: has_children_def)
  have "core (append_item f k v) = core f"
    by (rule core_append_item) (use assms(2) in \<open>auto simp: core_keys_def\<close>)
  with cores_children [OF new] cores_children [OF cs] show "cores (append_item f k v) = cores f" by simp
qed

text \<open>The multiset of the cores of the frames held by a stack, and the invariant of the loop.\<close>

definition stack_cores :: "arena_entry list \<Rightarrow> pv option list multiset" where
  "stack_cores es = sum_list (map (\<lambda>e. cores (ae_frame e)) es)"

definition arena_inv :: "host \<Rightarrow> string \<Rightarrow> pdict set \<Rightarrow> arena_state \<Rightarrow> bool" where
  "arena_inv H phase nodes st =
     (\<exists>ns. as_visited st = map node_idx ns \<and> distinct (as_visited st) \<and> set ns \<subseteq> nodes \<and>
       stack_cores (as_stack st) = mset (map (node_core H phase) ns) \<and>
       (\<forall>e \<in> set (as_stack st). has_children (ae_frame e)))"

lemma cheat_fields_keys:
  "cheat_fields H to kind data = Inr fs \<Longrightarrow> fst ` set fs \<subseteq> {''cheatcode'', ''args'', ''absolute''}"
  by (auto simp: cheat_fields_def fmt_err_def Let_def split: if_splits sum.splits exc.splits list.splits)

text \<open>The frame of a node, spelled out.\<close>

lemma base_frame_eq:
  assumes "base_frame H phase node = Inr (f, success)"
  obtains trace to data depth caller gas cheat where "dget_or node ''trace'' PNone = PDict trace"
    "address_field (dget_or trace ''address'' PNone) ''frame address'' = Inr to"
    "hex_field (dget_or trace ''data'' (PStr ''0x'')) ''frame data'' = Inr data"
    "cheat_fields H to (lower (py_str (dget_or trace ''kind'' (PStr [])))) data = Inr cheat"
    "f = [(''depth'', PInt depth), (''kind'', PStr (lower (py_str (dget_or trace ''kind'' (PStr []))))),
       (''to'', PStr to), (''caller'', PStr caller), (''phase'', PStr phase), (''data'', PStr data),
       (''selector'', if lower (py_str (dget_or trace ''kind'' (PStr []))) \<in> set CALL_KINDS \<and> 10 \<le> length data
          then PStr (take 10 data) else PNone),
       (''gas_used'', PInt gas), (''success'', PBool success), (''logs'', PList []), (''children'', PList [])] @ cheat"
proof -
  from assms obtain trace where t: "dget_or node ''trace'' PNone = PDict trace"
    by (auto simp: base_frame_def fmt_err_def split: pv.splits)
  let ?kind = "lower (py_str (dget_or trace ''kind'' (PStr [])))"
  from assms t obtain to data where td: "?kind \<noteq> []"
    "address_field (dget_or trace ''address'' PNone) ''frame address'' = Inr to"
    "hex_field (dget_or trace ''data'' (PStr ''0x'')) ''frame data'' = Inr data"
    by (auto simp: base_frame_def fmt_err_def Let_def ebind_eq_Inr simp del: lower_eq_Nil split: if_splits)
  note r = assms [unfolded base_frame_def t pv.case Let_def td(2,3) ebind_Inr if_not_P [OF td(1)]]
  from r obtain s where s: "dget_or trace ''success'' PNone = PBool s"
    by (cases "dget_or trace ''success'' PNone") (simp_all add: fmt_err_def)
  from r [unfolded s pv.case ebind_eq_Inr] t td(2,3) that show thesis by auto
qed

lemma base_frame_children:
  assumes "base_frame H phase node = Inr (f, success)"
  shows "map_of f ''children'' = Some (PList [])"
  using assms by (rule base_frame_eq) simp

lemma open_node_cores:
  assumes "open_node H phase node pr visited = Inr (e, visited')"
  shows "cores (ae_frame e) = {#node_core H phase node#}" "has_children (ae_frame e)"
proof -
  from open_node_eq(7) [OF assms] obtain s where b: "base_frame H phase node = Inr (ae_frame e, s)" by blast
  note c = base_frame_children [OF b]
  then show "has_children (ae_frame e)" by (simp add: has_children_def)
  from cores_children [OF c] b show "cores (ae_frame e) = {#node_core H phase node#}"
    by (simp add: node_core_def)
qed

lemma stack_cores_simps [simp]:
  "stack_cores [] = {#}" "stack_cores (e # es) = cores (ae_frame e) + stack_cores es"
  by (simp_all add: stack_cores_def)

lemma add_child_sel [simp]:
  "ae_frame (add_child c e) = append_item (ae_frame e) ''children'' (PDict c)"
  by (simp add: add_child_def)

text \<open>A turn of the loop keeps the invariant; the derived logs only grow.\<close>

lemma arena_step_inv:
  assumes "arena_step H phase by_idx st = Inr (Inr st')" and "arena_inv H phase (snd ` set by_idx) st"
  shows "arena_inv H phase (snd ` set by_idx) st'" "\<exists>ls. as_logs st' = as_logs st @ ls"
proof -
  let ?N = "snd ` set by_idx"
  from assms(2) obtain ns where ns: "as_visited st = map node_idx ns" "distinct (as_visited st)" "set ns \<subseteq> ?N"
    "stack_cores (as_stack st) = mset (map (node_core H phase) ns)"
    "\<forall>e \<in> set (as_stack st). has_children (ae_frame e)"
    by (auto simp: arena_inv_def)
  have keep: "arena_inv H phase ?N st''"
    if "as_visited st'' = as_visited st" "stack_cores (as_stack st'') = stack_cores (as_stack st)"
      "\<forall>e \<in> set (as_stack st''). has_children (ae_frame e)" for st''
    using that ns unfolding arena_inv_def by auto
  from assms(1) have "arena_inv H phase ?N st' \<and> (\<exists>ls. as_logs st' = as_logs st @ ls)"
  proof (cases rule: arena_step_cases)
    case (skip e rest step steps)
    then show ?thesis using ns(5) by (auto intro!: keep)
  next
    case (pop e p rest)
    then show ?thesis using ns(5) by (auto intro!: keep simp: cores_add_child)
  next
    case (log e rest step steps position)
    let ?e = "e\<lparr>ae_steps := steps\<rparr>"
    from log(3) obtain i entry rec transfer derived where st': "st' = st\<lparr>as_logs := as_logs st @ [derived],
       as_stack := ?e\<lparr>ae_frame :=
       (case transfer of None \<Rightarrow> append_item (ae_frame ?e) ''logs'' (PDict rec)
        | Some t \<Rightarrow> append_item (append_item (ae_frame ?e) ''logs'' (PDict rec)) ''erc20_transfers'' (PDict t)),
       ae_logs := i # ae_logs ?e\<rparr> # rest\<rparr>"
      by (rule step_log_eq)
    have e: "has_children (ae_frame e)" using ns(5) log(1) by simp
    show ?thesis
      unfolding st' using ns(5) log(1) cores_append_other [OF e]
        cores_append_other [OF cores_append_other(2) [OF e]]
      by (auto intro!: keep split: option.splits)
  next
    case (call e rest step steps position)
    from call(3) obtain i child entry where c: "child \<in> ?N"
      "open_node H phase child (ae_reverted e) (as_visited st) = Inr (entry, as_visited st')"
      "as_stack st' = entry # e\<lparr>ae_steps := steps, ae_calls := i # ae_calls e\<rparr> # rest" "as_logs st' = as_logs st"
      by (rule step_call_eq) auto
    note o = open_node_eq [OF c(2)] and oc = open_node_cores [OF c(2)]
    have "as_visited st' = map node_idx (child # ns)" "distinct (as_visited st')" "set (child # ns) \<subseteq> ?N"
      using ns o(1,2) c(1) by simp_all
    moreover have "stack_cores (as_stack st') = mset (map (node_core H phase) (child # ns))"
      using ns(4) call(1) by (simp add: c(3) oc(1))
    moreover have "\<forall>e \<in> set (as_stack st'). has_children (ae_frame e)"
      using ns(5) call(1) oc(2) by (simp add: c(3))
    ultimately have "arena_inv H phase ?N st'"
      unfolding arena_inv_def by (intro exI [of _ "child # ns"] conjI)
    with c(4) show ?thesis by simp
  qed
  then show "arena_inv H phase ?N st'" "\<exists>ls. as_logs st' = as_logs st @ ls" by blast+
qed

lemma arena_loop_inv:
  assumes "arena_loop H phase by_idx st = Inr (frame, st')" and "arena_inv H phase (snd ` set by_idx) st"
    and "as_stack st \<noteq> []"
  shows "arena_inv H phase (snd ` set by_idx) st' \<and> (\<exists>e. as_stack st' = [e] \<and> ae_frame e = frame) \<and>
    (\<exists>ls. as_logs st' = as_logs st @ ls)"
  using assms
proof (induction H phase by_idx st rule: arena_loop.induct)
  case (1 H phase by_idx st)
  from "1.prems"(1) obtain r where r: "arena_step H phase by_idx st = Inr r"
    "(case r of Inl f \<Rightarrow> Inr (f, st) | Inr s \<Rightarrow> arena_loop H phase by_idx s) = Inr (frame, st')"
    by (subst (asm) arena_loop.simps) (auto simp: ebind_eq_Inr)
  show ?case
  proof (cases r)
    case (Inl f)
    with r "1.prems" show ?thesis
      by (auto simp: arena_step_def ebind_eq_Inr map_sum_id_eq fmt_err_def Let_def
          split: list.splits if_splits)
  next
    case (Inr s)
    with r have s: "arena_step H phase by_idx st = Inr (Inr s)" "arena_loop H phase by_idx s = Inr (frame, st')"
      by simp_all
    note inv = arena_step_inv [OF s(1) "1.prems"(2)]
    have "as_stack s \<noteq> []"
      using s(1) by (cases rule: arena_step_cases) (auto elim: step_call_eq step_log_eq)
    from "1.IH" [OF r(1) Inr s(2) inv(1) this] inv(2) show ?thesis by auto
  qed
qed

lemma add_nodes:
  assumes "efold add_node nodes acc = Inr by_idx"
  shows "by_idx = acc @ map (\<lambda>n. (node_idx n, n)) nodes" "distinct (map fst acc) \<Longrightarrow> distinct (map fst by_idx)"
proof -
  have "by_idx = acc @ map (\<lambda>n. (node_idx n, n)) nodes \<and> (distinct (map fst acc) \<longrightarrow> distinct (map fst by_idx))"
    using assms
  proof (induction nodes arbitrary: acc)
    case (Cons n nodes)
    from Cons.prems obtain acc' where a: "add_node n acc = Inr acc'" "efold add_node nodes acc' = Inr by_idx"
      by (auto simp: ebind_eq_Inr)
    from a(1) have "acc' = acc @ [(node_idx n, n)]" "map_of acc (node_idx n) = None"
      by (auto simp: add_node_def node_idx_def fmt_err_def split: pv.splits if_splits)
    then have "distinct (map fst acc) \<longrightarrow> distinct (map fst acc')"
      by (simp add: map_of_eq_None_iff)
    with Cons.IH [OF a(2)] have "distinct (map fst acc) \<longrightarrow> distinct (map fst by_idx)" by blast
    moreover from Cons.IH [OF a(2)] \<open>acc' = _\<close> have "by_idx = acc @ map (\<lambda>n. (node_idx n, n)) (n # nodes)"
      by simp
    ultimately show ?case by blast
  qed simp
  then show "by_idx = acc @ map (\<lambda>n. (node_idx n, n)) nodes"
    "distinct (map fst acc) \<Longrightarrow> distinct (map fst by_idx)" by blast+
qed

lemma distinct_subset_mset:
  assumes "distinct (map f ns)" "distinct (map f xs)" "set ns \<subseteq> set xs" "length ns = length xs"
  shows "mset ns = mset xs"
proof -
  have d: "distinct ns" "distinct xs" using assms(1,2) by (simp_all add: distinct_map)
  then have "card (set ns) = card (set xs)" using assms(4) by (simp add: distinct_card)
  with assms(3) have "set ns = set xs" by (simp add: card_subset_eq)
  with d show ?thesis by (simp add: set_eq_iff_mset_eq_distinct)
qed

section \<open>The envelope\<close>

text \<open>The arenas that are converted, in the order of the code.\<close>

definition ordered_arenas :: "(string \<times> arena) list \<Rightarrow> string list \<Rightarrow> (string \<times> arena) list" where
  "ordered_arenas arenas ks = concat (map (\<lambda>k. case map_of arenas k of
     None \<Rightarrow> [] | Some nodes \<Rightarrow> [(case arena_phase k of Some p \<Rightarrow> p | None \<Rightarrow> [], nodes)]) ks)"

definition arena_cores :: "host \<Rightarrow> (string \<times> arena) list \<Rightarrow> pv option list multiset" where
  "arena_cores H as = sum_list (map (\<lambda>(phase, nodes). mset (map (node_core H phase) nodes)) as)"

definition frames_cores :: "pv list \<Rightarrow> pv option list multiset" where
  "frames_cores fs = sum_list (map (\<lambda>f. mset (map core (tree_frames (pv_dict f)))) fs)"

text \<open>Without \<open>children\<close> and \<open>calls\<close>, a normalised frame has no \<open>success\<close> either.\<close>

lemma normal_fields_keys:
  assumes "normal_fields phase d = Inr fs"
  shows "map_of fs ''success'' = None" "map_of fs ''children'' = None" "map_of fs ''calls'' = None"
  using assms by (auto simp: normal_fields_def ebind_eq_Inr split: if_splits)

lemma dpop_absent: "map_of d k = None \<Longrightarrow> dpop d k = d"
  by (auto simp: dpop_def map_of_eq_None_iff intro!: filter_True)

lemma map_of_dpop_None [simp]: "map_of (dpop (dpop d a) b) k = (if k = b \<or> k = a then None else map_of d k)"
  by simp

definition lacks_success :: "pv \<Rightarrow> bool" where
  "lacks_success v = (\<forall>d. v = PDict d \<longrightarrow> map_of d ''success'' = None)"

lemma flatten_lacks_success:
  assumes "map_of d ''success'' = None"
    and "\<And>cs c. child_value d = PList cs \<Longrightarrow> c \<in> set cs \<Longrightarrow> list_all lacks_success (flatten_record c)"
  shows "list_all lacks_success (flatten_record (PDict d))"
proof (cases "child_value d")
  case (PList cs)
  with assms(1) assms(2) [OF PList] show ?thesis
    by (auto simp: lacks_success_def list_all_iff)
qed (use assms(1) in \<open>simp_all add: lacks_success_def\<close>)

lemma normalize_lacks_success:
  "normalize_frame phase v = Inr w \<Longrightarrow> list_all lacks_success (flatten_record w)"
proof (induction phase v arbitrary: w rule: normalize_frame.induct)
  case (1 phase d)
  from "1.prems" obtain fs where fs: "normal_fields phase d = Inr fs"
    by (auto simp: ebind_eq_Inr)
  note keys = normal_fields_keys [OF fs]
  show ?case
  proof (cases "child_value d")
    case (PList cs)
    with "1.prems" fs obtain ch where ch: "emap (normalize_frame phase) (filter is_dict cs) = Inr ch"
      "w = PDict (fs @ [(''children'', PList ch)])"
      by (auto simp: ebind_eq_Inr)
    have "child_value (fs @ [(''children'', PList ch)]) = PList ch"
      using keys by (simp add: child_value_def dget_or_def map_add_def)
    moreover have "list_all lacks_success (flatten_record c)" if c: "c \<in> set ch" for c
    proof -
      from emap_source [OF ch(1) c] obtain x where "x \<in> set (filter is_dict cs)" "normalize_frame phase x = Inr c"
        by blast
      with "1.IH" [OF fs PList] show ?thesis by simp
    qed
    ultimately show ?thesis
      unfolding ch(2) using keys by (intro flatten_lacks_success) (auto simp: map_add_def)
  qed (use "1.prems" fs keys in \<open>auto intro!: flatten_lacks_success simp: child_value_def dget_or_def\<close>)
qed simp_all

lemma convert_arena_cores:
  assumes "convert_arena H nodes phase derived = Inr (frame, derived')"
  shows "mset (map core (tree_frames frame)) = mset (map (node_core H phase) nodes) \<and>
    (\<exists>ls. derived' = derived @ ls)"
proof -
  from assms obtain by_idx where b1: "efold add_node nodes [] = Inr by_idx"
    by (auto simp: convert_arena_def ebind_eq_Inr)
  obtain root where b2: "filter is_root nodes = [root]"
  proof (cases "filter is_root nodes" rule: remdups_adj.cases)
    case (3 x y xs)
    with assms b1 show thesis by (simp add: convert_arena_def fmt_err_def)
  qed (use assms b1 that in \<open>simp_all add: convert_arena_def fmt_err_def\<close>)
  note b = b1 b2
  with assms obtain entry visited st where w: "open_node H phase root False [] = Inr (entry, visited)"
    "arena_loop H phase by_idx \<lparr>as_visited = visited, as_logs = derived, as_stack = [entry]\<rparr> = Inr (frame, st)"
    "length (as_visited st) = length nodes" "derived' = as_logs st"
    by (auto simp: convert_arena_def ebind_eq_Inr fmt_err_def split: if_splits)
  have N: "snd ` set by_idx = set nodes" "map fst by_idx = map node_idx nodes" "distinct (map node_idx nodes)"
    using add_nodes [OF b(1)] by (auto simp: comp_def image_image)
  have root: "root \<in> set nodes" using arg_cong [OF b(2), of set] by auto
  have "arena_inv H phase (snd ` set by_idx) \<lparr>as_visited = visited, as_logs = derived, as_stack = [entry]\<rparr>"
    unfolding arena_inv_def using open_node_eq(2) [OF w(1)] open_node_cores [OF w(1)] root N(1)
    by (intro exI [of _ "[root]"]) simp
  from arena_loop_inv [OF w(2) this] obtain ns e ls where f: "as_visited st = map node_idx ns"
    "distinct (as_visited st)" "set ns \<subseteq> set nodes" "stack_cores (as_stack st) = mset (map (node_core H phase) ns)"
    "as_stack st = [e]" "ae_frame e = frame" "as_logs st = derived @ ls"
    by (auto simp: arena_inv_def N(1))
  have "mset ns = mset nodes"
    by (rule distinct_subset_mset [of node_idx]) (use f w(3) N in simp_all)
  with f w(4) show ?thesis
    by (auto simp: cores_def)
qed

lemma convert_arenas_cores:
  assumes "convert_arenas H arenas ks derived = Inr (frames, derived')"
  shows "frames_cores frames = arena_cores H (ordered_arenas arenas ks)"
  using assms
proof (induction H arenas ks derived arbitrary: frames derived' rule: convert_arenas.induct)
  case (2 H arenas k ks derived)
  show ?case
  proof (cases "map_of arenas k")
    case None
    with 2 show ?thesis by (simp add: ordered_arenas_def)
  next
    case (Some nodes)
    let ?p = "case arena_phase k of Some p \<Rightarrow> p | None \<Rightarrow> []"
    from "2.prems" Some obtain frame d1 fs where f: "convert_arena H nodes ?p derived = Inr (frame, d1)"
      "convert_arenas H arenas ks d1 = Inr (fs, derived')" "frames = PDict frame # fs"
      by (auto simp: ebind_eq_Inr)
    have "frames_cores fs = arena_cores H (ordered_arenas arenas ks)"
      using "2.IH"(2) [OF Some f(1) _ f(2)] by simp
    moreover have "mset (map core (tree_frames frame)) = mset (map (node_core H ?p) nodes)"
      using convert_arena_cores [OF f(1)] by simp
    ultimately show ?thesis
      using Some f(3) by (simp add: frames_cores_def arena_cores_def ordered_arenas_def pv_dict_def)
  qed
qed (simp add: frames_cores_def arena_cores_def ordered_arenas_def)

section \<open>Properties\<close>

text \<open>
  C17: no arena node is hidden or doubled: when \<open>_convert_arena\<close> returns, the frames of the tree it
  returns correspond one to one to the nodes of the arena, each with the depth, kind, addresses, data,
  gas, success flag and decoded cheatcode of its node, and the derived logs extend the given ones. The
  walk always ends (its termination is proved with its definition).
\<close>
theorem convert_arena_complete:
  assumes "convert_arena H nodes phase derived = Inr (frame, derived')"
  shows "mset (map core (tree_frames frame)) = mset (map (node_core H phase) nodes) \<and>
    (\<exists>ls. derived' = derived @ ls)"
  by (rule convert_arena_cores [OF assms])

text \<open>
  An envelope is produced only for exactly one matching suite with exactly one test, which is the
  declared one and succeeded; its frames are exactly the nodes of the arenas in phase order (nothing
  hidden, nothing added), and where Forge reports logs they are the logs derived from the arenas, in
  order.
\<close>
lemma adapt_sound:
  assumes "adapt_forge_test_json H payload test_file test_name ts bl = Inr env"
  shows "\<exists>suites k result arenas frames derived. payload = PDict suites \<and>
    select_suite suites test_file = Inr k \<and>
    dget_or result ''status'' PNone = PStr ''Success'' \<and>
    select_arenas (dget_or result ''traces'' PNone) = Inr arenas \<and>
    frames_cores frames = arena_cores H (ordered_arenas arenas ARENA_ORDER) \<and>
    (case dget_or result ''logs'' PNone of PList entries \<Rightarrow> emap forge_log entries = Inr derived
     | v \<Rightarrow> v = PNone) \<and>
    dget_or (pv_dict (dget_or env ''l0vi0x_structured_trace'' PNone)) ''frames'' PNone = PList frames"
proof -
  from assms obtain suites where p: "payload = PDict suites"
    by (auto simp: adapt_forge_test_json_def fmt_err_def split: pv.splits)
  note a = assms [unfolded adapt_forge_test_json_def p pv.case ebind_eq_Inr]
  then obtain k result where k: "select_suite suites test_file = Inr k"
    and r: "dget_or result ''status'' PNone = PStr ''Success''"
    and rest: "\<exists>arenas frames derived. select_arenas (dget_or result ''traces'' PNone) = Inr arenas \<and>
      convert_arenas H arenas ARENA_ORDER [] = Inr (frames, derived) \<and>
      check_logs (dget_or result ''logs'' PNone) derived = Inr () \<and>
      env = [(''l0vi0x_structured_trace'', PDict
                  [(''schema'', PStr CANONICAL_TRACE_SCHEMA),
                   (''source'', PDict [(''tool'', PStr ''forge''), (''suite'', PStr k),
                      (''test'', PStr (test_name @ ''()''))]),
                   (''initial_timestamp'', PInt ts), (''initial_block'', PInt bl),
                   (''frames'', PList frames)])]"
    by (auto simp: ebind_eq_Inr fmt_err_def split: if_splits)
  from rest obtain arenas frames derived where c: "select_arenas (dget_or result ''traces'' PNone) = Inr arenas"
    "convert_arenas H arenas ARENA_ORDER [] = Inr (frames, derived)"
    "check_logs (dget_or result ''logs'' PNone) derived = Inr ()"
    "dget_or (pv_dict (dget_or env ''l0vi0x_structured_trace'' PNone)) ''frames'' PNone = PList frames"
    by (auto simp: pv_dict_def dget_or_def)
  have "case dget_or result ''logs'' PNone of PList entries \<Rightarrow> emap forge_log entries = Inr derived | v \<Rightarrow> v = PNone"
    using c(3) by (auto simp: check_logs_def ebind_eq_Inr fmt_err_def split: pv.splits if_splits)
  with p k r c convert_arenas_cores [OF c(2)] show ?thesis by blast
qed

text \<open>
  The success flag of a frame does not survive the envelope: \<open>_normalize_frame\<close> does not copy it,
  so every frame of a trace parsed from an extracted envelope counts as successful, whatever the
  adapter recorded.
\<close>
lemma extracted_frames_all_successful:
  assumes "extract_structured_trace payload schema = Inr tr"
    and "parse_trace H loads (InObj (PDict tr)) catalog = Inr s" and "f \<in> set (ts_frames s)"
  shows "tf_success f"
proof -
  from assms(1) obtain f0 fs gs where fr: "emap (normalize_frame ''witness'') (f0 # fs) = Inr gs"
    "map_of tr ''trace'' = Some (PList gs)"
    by (auto simp: extract_structured_trace_def Let_def ebind_eq_Inr fmt_err_def simp del: emap.simps
        split: pv.splits list.splits if_splits)
  have lacks: "list_all lacks_success (flatten_records gs)"
    using emap_source [OF fr(1)] normalize_lacks_success
    by (fastforce simp: flatten_records_def list_all_iff)
  from assms(2) obtain obj raw records where p: "load_input loads (InObj (PDict tr)) = Inr (obj, raw)"
    "trace_records obj = PList records" "frames_from (flatten_records records) (ts_frames s)"
    by (rule parse_trace_eq)
  from p(1,2) fr(2) have "records = gs" by (auto simp: load_input_def trace_records_def dhas_def dget_or_def)
  with p(3) assms(3) obtain d where d: "PDict d \<in> set (flatten_records gs)" "parse_frame d = Inr f"
    by (auto simp: frames_from_def list_all2_conv_all_nth in_set_conv_nth) (metis nth_mem)
  with lacks have "map_of d ''success'' = None" by (auto simp: list_all_iff lacks_success_def)
  with d(2) show ?thesis
    by (auto simp: parse_frame_def dget_or_def Let_def split: sum.splits if_splits pv.splits)
qed

section \<open>Witnesses\<close>

definition sample_address :: "char \<Rightarrow> string" where
  "sample_address c = ''0x'' @ replicate 40 c"

definition sample_node_trace :: "char \<Rightarrow> int \<Rightarrow> bool \<Rightarrow> pv" where
  "sample_node_trace c depth success = PDict [(''kind'', PStr ''CALL''), (''address'', PStr (sample_address c)),
     (''data'', PStr ''0xAABBCCDD''), (''success'', PBool success), (''depth'', PInt depth),
     (''caller'', PStr (sample_address (CHR ''1''))), (''gas_used'', PInt 5)]"

definition sample_log :: pv where
  "sample_log = PDict [(''address'', PStr (sample_address (CHR ''2''))),
     (''raw_log'', PDict [(''topics'', PList [PStr ''0xab'']), (''data'', PStr ''0x'')])]"

definition sample_nodes :: arena where
  "sample_nodes =
     [[(''idx'', PInt 0), (''parent'', PNone), (''children'', PList [PInt 1]), (''logs'', PList []),
       (''ordering'', PList [PDict [(''Step'', PInt 0)], PDict [(''Call'', PInt 0)]]),
       (''trace'', sample_node_trace (CHR ''a'') 0 True)],
      [(''idx'', PInt 1), (''parent'', PInt 0), (''children'', PList []), (''logs'', PList [sample_log]),
       (''ordering'', PList [PDict [(''Log'', PInt 0)]]),
       (''trace'', sample_node_trace (CHR ''b'') 1 False)]]"

definition sample_forge :: pv where
  "sample_forge = PDict [(''test/W.t.sol:W'', PDict [(''test_results'', PDict [(''testW()'', PDict
     [(''status'', PStr ''Success''), (''kind'', PDict [(''Unit'', PDict [])]),
      (''traces'', PList [PList [PStr ''Execution'', PDict [(''arena'', PList (map PDict sample_nodes))]]]),
      (''logs'', PList [PDict [(''address'', PStr (sample_address (CHR ''2''))), (''topics'', PList [PStr ''0xab'']),
         (''data'', PStr ''0x'')]])])])])]"

definition sample_envelope :: "pdict res" where
  "sample_envelope = adapt_forge_test_json sample_host sample_forge ''./test/W.t.sol'' ''testW'' 100 10"

definition sample_flags :: "bool list res" where
  "sample_flags = ebind sample_envelope (\<lambda>env. ebind (extract_structured_trace (PDict env) None) (\<lambda>tr.
     ebind (parse_trace sample_host (\<lambda>_. None) (InObj (PDict tr)) CATALOG) (\<lambda>s.
       Inr (map tf_success (ts_frames s)))))"

lemma sample_arena_converts:
  "case convert_arena sample_host sample_nodes ''witness'' [] of
     Inr (f, ls) \<Rightarrow> length (tree_frames f) = 2 \<and> length ls = 1 | Inl _ \<Rightarrow> False"
  by code_simp

lemma sample_flags_eq: "sample_flags = Inr [True, True]"
  by code_simp

lemma sample_pipeline:
  obtains env tr s where "sample_envelope = Inr env" "extract_structured_trace (PDict env) None = Inr tr"
    "parse_trace sample_host (\<lambda>_. None) (InObj (PDict tr)) CATALOG = Inr s" "map tf_success (ts_frames s) = [True, True]"
proof -
  from sample_flags_eq obtain env tr s where "sample_envelope = Inr env"
    "extract_structured_trace (PDict env) None = Inr tr"
    "parse_trace sample_host (\<lambda>_. None) (InObj (PDict tr)) CATALOG = Inr s"
    "map tf_success (ts_frames s) = [True, True]"
    unfolding sample_flags_def ebind_eq_Inr sum.inject by (elim exE conjE)
  with that show thesis .
qed

lemma convert_arena_complete_witness:
  "\<exists>f ls. convert_arena sample_host sample_nodes ''witness'' [] = Inr (f, ls) \<and>
    mset (map core (tree_frames f)) = mset (map (node_core sample_host ''witness'') sample_nodes)"
proof -
  obtain f ls where c: "convert_arena sample_host sample_nodes ''witness'' [] = Inr (f, ls)"
    using sample_arena_converts by (auto split: sum.splits)
  from convert_arena_complete [OF this] this show ?thesis by blast
qed

lemma adapt_sound_witness:
  "\<exists>env frames. sample_envelope = Inr env \<and>
    dget_or (pv_dict (dget_or env ''l0vi0x_structured_trace'' PNone)) ''frames'' PNone = PList frames"
proof (rule sample_pipeline)
  fix env
  assume e: "sample_envelope = Inr env"
  from adapt_sound [OF this [unfolded sample_envelope_def]] e show ?thesis by blast
qed

lemma extracted_frames_all_successful_witness:
  "\<exists>tr s f. parse_trace sample_host (\<lambda>_. None) (InObj (PDict tr)) CATALOG = Inr s \<and> f \<in> set (ts_frames s) \<and>
    tf_success f"
proof (rule sample_pipeline)
  fix env tr s
  assume t: "extract_structured_trace (PDict env) None = Inr tr"
    "parse_trace sample_host (\<lambda>_. None) (InObj (PDict tr)) CATALOG = Inr s" "map tf_success (ts_frames s) = [True, True]"
  then obtain f where f: "f \<in> set (ts_frames s)" by (cases "ts_frames s") auto
  from extracted_frames_all_successful [OF t(1,2) f] t f show ?thesis by blast
qed

end
