(* ===== verification/WitnessBinding.thy ===== *)
theory WitnessBinding
  imports Certificates FoundryTrace
begin

text \<open>
  \<open>chain/witness.py\<close> and \<open>chain/harness_identity.py\<close>: the hash that binds a witness, the addresses of
  created contracts, the checks of a witness, the rendering of its template, and the identity of the
  harness that a replay deployed. Files are their contents; SHA-256 and Keccak belong to the host.
\<close>

section \<open>The dump of a witness\<close>

text \<open>\<open>witness.model_dump(mode="json")\<close>.\<close>

definition assertion_dump :: "witness_assertion \<Rightarrow> pv" where
  "assertion_dump a = PDict
     [(''id'', PStr (wa_id a)), (''kind'', PStr (wa_kind a)), (''target'', PStr (wa_target a)),
      (''operator'', PStr (wa_operator a)), (''expected'', wa_expected a),
      (''observed_record'', PStr (wa_observed_record a)), (''actor'', opt_pstr (wa_actor a)),
      (''token'', opt_pstr (wa_token a)), (''required'', PBool (wa_required a))]"

definition pstrs :: "string list \<Rightarrow> pv" where
  "pstrs ss = PList (map PStr ss)"

definition pints :: "(string \<times> int) list \<Rightarrow> pv" where
  "pints d = PDict (map (\<lambda>(k, i). (k, PInt i)) d)"

definition ptexts :: "(string \<times> string) list \<Rightarrow> pv" where
  "ptexts d = PDict (map (\<lambda>(k, s). (k, PStr s)) d)"

definition opt_pdict :: "pdict option \<Rightarrow> pv" where
  "opt_pdict d = (case d of None \<Rightarrow> PNone | Some x \<Rightarrow> PDict x)"

text \<open>The dump without its last field \<open>env_hash\<close>: \<open>canonical_witness_payload\<close> of a witness.\<close>

definition witness_fields :: "witness \<Rightarrow> pdict" where
  "witness_fields w =
     [(''witness_class'', PStr (witness_class_value (w_witness_class w))), (''chain_id'', PInt (w_chain_id w)),
      (''fork_block'', opt_pint (w_fork_block w)), (''commit'', PStr (w_commit w)),
      (''compiler'', PDict (w_compiler w)), (''test_file'', PStr (w_test_file w)),
      (''test_name'', PStr (w_test_name w)), (''control_test_name'', PStr (w_control_test_name w)),
      (''initial_capital_wei'', PInt (w_initial_capital_wei w)),
      (''max_time_advance_s'', PInt (w_max_time_advance_s w)),
      (''max_block_advance'', PInt (w_max_block_advance w)),
      (''declared_actors'', pstrs (w_declared_actors w)), (''declared_tokens'', pstrs (w_declared_tokens w)),
      (''token_decimals'', pints (w_token_decimals w)), (''setup_budget'', opt_pdict (w_setup_budget w)),
      (''assertions'', PList (map assertion_dump (w_assertions w))),
      (''invariant_check_pins'', ptexts (w_invariant_check_pins w)),
      (''template_sha256'', PStr (w_template_sha256 w)),
      (''attack_body_sha256'', PStr (w_attack_body_sha256 w)),
      (''harness_address'', PStr (w_harness_address w)),
      (''harness_create2_salt'', PStr (w_harness_create2_salt w)),
      (''harness_create2_deployer'', opt_pstr (w_harness_create2_deployer w)),
      (''harness_init_code_sha256'', opt_pstr (w_harness_init_code_sha256 w)),
      (''harness_runtime_sha256'', opt_pstr (w_harness_runtime_sha256 w)),
      (''harness_source_path'', opt_pstr (w_harness_source_path w)),
      (''harness_source_sha256'', opt_pstr (w_harness_source_sha256 w)),
      (''wrapper_address'', opt_pstr (w_wrapper_address w)),
      (''wrapper_runtime_sha256'', opt_pstr (w_wrapper_runtime_sha256 w)),
      (''wrapper_source_path'', opt_pstr (w_wrapper_source_path w)),
      (''wrapper_source_sha256'', opt_pstr (w_wrapper_source_sha256 w)),
      (''expected_wrapper_depth'', PInt (w_expected_wrapper_depth w)),
      (''wrapper_callsite_sha256'', PStr (w_wrapper_callsite_sha256 w)),
      (''rpc_provider_label'', opt_pstr (w_rpc_provider_label w)),
      (''cross_check_provider_label'', opt_pstr (w_cross_check_provider_label w))]"

definition witness_dump :: "witness \<Rightarrow> pdict" where
  "witness_dump w = witness_fields w @ [(''env_hash'', PStr (w_env_hash w))]"

definition canonical_witness_payload :: "witness \<Rightarrow> pdict" where
  "canonical_witness_payload w = dpop (witness_dump w) ''env_hash''"

definition witness_hash :: "host \<Rightarrow> witness \<Rightarrow> string" where
  "witness_hash H w = hs_sha256 H (canonical (PDict (canonical_witness_payload w)))"

section \<open>The environment hash\<close>

record env_inputs =
  ei_compiler :: pdict
  ei_sanitized_config :: pdict
  ei_remappings :: string
  ei_commit :: string
  ei_witness_class :: witness_class
  ei_fork_block :: "int option"
  ei_deployment_plan_hash :: "string option"
  ei_chain_id :: int
  ei_template_sha256 :: string
  ei_attack_body_sha256 :: string
  ei_invariant_check_pins :: "(string \<times> string) list"
  ei_harness_library_hashes :: "(string \<times> string) list"
  ei_harness_address :: string
  ei_harness_create2_salt :: string
  ei_expected_wrapper_depth :: int
  ei_wrapper_callsite_sha256 :: string
  ei_tool_versions :: pdict
  ei_initial_timestamp :: "int option"
  ei_initial_block :: "int option"

definition env_payload :: "env_inputs \<Rightarrow> pdict" where
  "env_payload e =
     [(''compiler'', PDict (ei_compiler e)), (''sanitized_config'', PDict (ei_sanitized_config e)),
      (''remappings'', PStr (ei_remappings e)), (''commit'', PStr (ei_commit e)),
      (''witness_class'', PStr (witness_class_value (ei_witness_class e))),
      (''fork_block'', opt_pint (ei_fork_block e)),
      (''deployment_plan_hash'', opt_pstr (ei_deployment_plan_hash e)), (''chain_id'', PInt (ei_chain_id e)),
      (''template_sha256'', PStr (ei_template_sha256 e)),
      (''attack_body_sha256'', PStr (ei_attack_body_sha256 e)),
      (''invariant_check_pins'', ptexts (ei_invariant_check_pins e)),
      (''harness_library_hashes'', ptexts (ei_harness_library_hashes e)),
      (''harness_address'', PStr (ei_harness_address e)),
      (''harness_create2_salt'', PStr (ei_harness_create2_salt e)),
      (''expected_wrapper_depth'', PInt (ei_expected_wrapper_depth e)),
      (''wrapper_callsite_sha256'', PStr (ei_wrapper_callsite_sha256 e)),
      (''tool_versions'', PDict (ei_tool_versions e)),
      (''initial_timestamp'', opt_pint (ei_initial_timestamp e)),
      (''initial_block'', opt_pint (ei_initial_block e))]"

definition compute_env_hash :: "host \<Rightarrow> env_inputs \<Rightarrow> string" where
  "compute_env_hash H e = hs_sha256 H (canonical (PDict (env_payload e)))"

section \<open>Marked regions\<close>

text \<open>\<open>str.find\<close>.\<close>

fun find_sub :: "string \<Rightarrow> string \<Rightarrow> nat option" where
  "find_sub [] p = (if p = [] then Some 0 else None)"
| "find_sub (c # s) p = (if startswith (c # s) p then Some 0 else map_option Suc (find_sub s p))"

definition marked_region :: "string \<Rightarrow> string \<Rightarrow> string res" where
  "marked_region text marker =
     (let begin = ''// BEGIN '' @ marker; fin = ''// END '' @ marker;
          bad = Inl (ValueError (''missing or invalid marked region: '' @ marker))
      in case (find_sub text begin, find_sub text fin) of
           (Some start, Some finish) \<Rightarrow>
             if finish \<le> start then bad
             else Inr (drop (start + length begin) (take finish text))
         | _ \<Rightarrow> bad)"

definition marked_region_sha256 :: "host \<Rightarrow> string \<Rightarrow> string \<Rightarrow> string res" where
  "marked_region_sha256 H text marker = map_sum id (hs_sha256 H) (marked_region text marker)"

section \<open>Addresses of created contracts\<close>

definition strip_0x :: "string \<Rightarrow> string" where
  "strip_0x s = (if startswith s ''0x'' then drop 2 s else s)"

definition bad_hex :: "'a res" where
  "bad_hex = Inl (ValueError ''non-hexadecimal number found in fromhex() arg'')"

definition hex_address :: "string \<Rightarrow> string res" where
  "hex_address value =
     (let text = strip_0x value in
      if length text \<noteq> 40 then Inl (ValueError ''address must be 20 bytes'')
      else case from_hex text of None \<Rightarrow> bad_hex | Some b \<Rightarrow> Inr b)"

definition hex_bytes :: "string \<Rightarrow> nat \<Rightarrow> string res" where
  "hex_bytes value n =
     (case from_hex (strip_0x value) of
        None \<Rightarrow> bad_hex
      | Some raw \<Rightarrow>
          if length raw \<noteq> n then Inl (ValueError (''value must be '' @ nat_str n @ '' bytes''))
          else Inr raw)"

text \<open>\<open>n.to_bytes((n.bit_length() + 7) // 8, "big")\<close>.\<close>

fun be_bytes :: "nat \<Rightarrow> string" where
  "be_bytes n = (if n = 0 then [] else be_bytes (n div 256) @ [char_of (n mod 256)])"

declare be_bytes.simps [simp del]

definition rlp_long_string :: "string \<Rightarrow> string" where
  "rlp_long_string raw = (let lb = be_bytes (length raw) in char_of (0xB7 + length lb) # lb @ raw)"

definition rlp_long_list :: "string \<Rightarrow> string" where
  "rlp_long_list payload = (let lb = be_bytes (length payload) in char_of (0xF7 + length lb) # lb @ payload)"

definition enc_nonce :: "nat \<Rightarrow> string" where
  "enc_nonce nonce =
     (if nonce = 0 then [char_of (0x80 :: nat)]
      else let raw = be_bytes nonce in
        if length raw < 56 then char_of (length raw) # raw else rlp_long_string raw)"

definition create_encoding :: "string \<Rightarrow> nat \<Rightarrow> string" where
  "create_encoding addr nonce =
     (let payload = char_of (0x80 + length addr) # addr @ enc_nonce nonce in
      if length payload < 56 then char_of (0xC0 + length payload) # payload else rlp_long_list payload)"

text \<open>\<open>digest[-20:]\<close>.\<close>

definition last_bytes :: "nat \<Rightarrow> string \<Rightarrow> string" where
  "last_bytes n s = drop (length s - n) s"

definition create_address :: "host \<Rightarrow> string \<Rightarrow> int \<Rightarrow> string res" where
  "create_address H deployer nonce =
     (if nonce < 0 then Inl (ValueError ''nonce must be non-negative'')
      else if 2 ^ 256 \<le> nonce then Inl (ValueError ''nonce out of range'')
      else ebind (hex_address deployer) (\<lambda>addr.
        Inr (''0x'' @ to_hex (last_bytes 20 (hs_keccak H (create_encoding addr (nat nonce)))))))"

definition create2_address :: "host \<Rightarrow> string \<Rightarrow> string \<Rightarrow> string \<Rightarrow> string res" where
  "create2_address H deployer salt_hex init_code =
     ebind (hex_address deployer) (\<lambda>d.
     ebind (hex_bytes salt_hex 32) (\<lambda>salt.
       Inr (''0x'' @ to_hex (last_bytes 20
         (hs_keccak H (char_of (0xFF :: nat) # d @ salt @ hs_keccak H init_code))))))"

definition assert_harness_address :: "host \<Rightarrow> string \<Rightarrow> string \<Rightarrow> string \<Rightarrow> string \<Rightarrow> string res" where
  "assert_harness_address H deployer salt init_code expected =
     ebind (create2_address H deployer salt init_code) (\<lambda>actual.
       if lower actual \<noteq> lower expected then
         Inl (ValueError (''harness address mismatch: '' @ actual @ '' != '' @ expected))
       else Inr actual)"

section \<open>Checking a witness\<close>

definition validate_assertion_kinds :: "witness_assertion list \<Rightarrow> string list \<Rightarrow> unit res" where
  "validate_assertion_kinds assertions allowed =
     ebind (emap (\<lambda>a. require (wa_kind a \<in> set allowed)
         (ValueError (''assertion kind '' @ str_repr (wa_kind a) @ '' is not allowed by this lens''))) assertions)
       (\<lambda>_. Inr ())"

definition validate_witness :: "witness \<Rightarrow> int option \<Rightarrow> string list option \<Rightarrow> unit res" where
  "validate_witness w scope_capital allowed_kinds =
     (if (case scope_capital of None \<Rightarrow> False | Some c \<Rightarrow> c < w_initial_capital_wei w) then
        Inl (ValueError ''witness initial capital exceeds scope limit'')
      else if w_max_time_advance_s w < 0 \<or> w_max_block_advance w < 0 then
        Inl (ValueError ''time/block limits must be non-negative'')
      else if w_declared_actors w = [] then
        Inl (ValueError ''witness must declare at least one actor'')
      else if \<not> distinct (w_declared_actors w) then Inl (ValueError ''declared actors must be unique'')
      else if \<not> distinct (w_declared_tokens w) then Inl (ValueError ''declared tokens must be unique'')
      else case allowed_kinds of None \<Rightarrow> Inr ()
        | Some allowed \<Rightarrow> validate_assertion_kinds (w_assertions w) allowed)"

section \<open>Templates\<close>

definition render :: "string \<Rightarrow> (string \<times> string) list \<Rightarrow> string res" where
  "render tmpl replacements =
     (let rendered = fold (\<lambda>(key, value) r.
            replace_all (replace_all r (''{{ '' @ key @ '' }}'') value) (''{{'' @ key @ ''}}'') value)
          replacements tmpl
      in if contains rendered ''{{'' \<or> contains rendered ''}}'' then
           Inl (ValueError ''unresolved witness template placeholders'')
         else Inr rendered)"

definition render_template :: "host \<Rightarrow> string \<Rightarrow> (string \<times> string) list \<Rightarrow> (string \<times> string) res" where
  "render_template H tmpl replacements = map_sum id (\<lambda>r. (r, hs_sha256 H r)) (render tmpl replacements)"

section \<open>The identity of the harness\<close>

record harness_observation =
  ho_harness_address :: string
  ho_deployer :: string
  ho_wrapper :: string
  ho_assertion_event_count :: nat

definition id_err :: "string \<Rightarrow> 'a res" where
  "id_err m = Inl (HarnessIdentityError m)"

definition deploys :: "string \<Rightarrow> trace_frame \<Rightarrow> bool" where
  "deploys harness f =
     (tf_kind f = ''create2'' \<and> tf_phase f = ''setup'' \<and>
      lower (case tf_to f of None \<Rightarrow> [] | Some t \<Rightarrow> t) = harness)"

definition check_event :: "string \<Rightarrow> string \<Rightarrow> int \<Rightarrow> pdict \<Rightarrow> unit res" where
  "check_event harness wrapper depth event =
     (if lower (py_str (dget_or event ''emitter'' (PStr []))) \<noteq> harness then
        id_err ''AssertionChecked was not emitted by the fixed harness''
      else if \<not> py_eq (dget_or event ''depth'' PNone) (PInt depth) then
        id_err (''AssertionChecked depth '' @ py_str (dget_or event ''depth'' PNone) @
          '' != declared wrapper depth '' @ int_str depth)
      else if lower (py_str (dget_or event ''caller'' (PStr []))) \<noteq> wrapper then
        id_err ''AssertionChecked caller is not the harness' recorded wrapper''
      else Inr ())"

definition verify_harness_identity :: "host \<Rightarrow> trace_summary \<Rightarrow> witness \<Rightarrow> harness_observation res" where
  "verify_harness_identity H tr w =
     (let harness = lower (w_harness_address w); deployments = filter (deploys harness) (ts_frames tr) in
      case deployments of
        [frame] \<Rightarrow>
          if \<not> truthy (tf_caller frame) \<or> \<not> truthy (tf_data frame) then
            id_err ''harness CREATE2 frame lacks deployer or init code''
          else (case tf_data frame of
             PStr data \<Rightarrow>
               if \<not> startswith data ''0x'' then id_err ''harness CREATE2 frame lacks deployer or init code''
               else (case from_hex (drop 2 data) of
                 None \<Rightarrow> id_err ''cannot recompute harness CREATE2 address: non-hexadecimal number found in fromhex() arg''
               | Some init_code \<Rightarrow> (case tf_caller frame of
                   PStr caller \<Rightarrow> (case create2_address H caller (w_harness_create2_salt w) init_code of
                     Inl e \<Rightarrow> id_err (''cannot recompute harness CREATE2 address: '' @ exc_msg e)
                   | Inr recomputed \<Rightarrow>
                       if lower recomputed \<noteq> harness then
                         id_err (''declared harness address '' @ harness @ '' does not match CREATE2 derivation '' @ recomputed)
                       else if length init_code < 32 \<or> take 12 (last_bytes 32 init_code) \<noteq> replicate 12 zero_byte then
                         id_err ''harness init code does not end in a wrapper address argument''
                       else
                         let wrapper = ''0x'' @ to_hex (last_bytes 20 init_code) in
                         ebind (emap (check_event harness wrapper (w_expected_wrapper_depth w)) (ts_assertion_events tr)) (\<lambda>_.
                           Inr \<lparr>ho_harness_address = harness, ho_deployer = lower caller, ho_wrapper = wrapper,
                             ho_assertion_event_count = length (ts_assertion_events tr)\<rparr>))
                 | _ \<Rightarrow> Inl (AttributeError ''startswith'')))
           | _ \<Rightarrow> Inl (AttributeError ''startswith''))
      | _ \<Rightarrow> id_err (''expected exactly one setup CREATE2 of the declared harness '' @ harness @ '', saw '' @
          nat_str (length deployments)))"

section \<open>The hash binds the witness\<close>

text \<open>
  The values the classes admit: an expected value is a text, an integer or a truth value, free-form
  dictionaries hold no floats, and dictionaries have distinct keys.
\<close>

fun scalar :: "pv \<Rightarrow> bool" where
  "scalar (PStr s) = True"
| "scalar (PInt i) = True"
| "scalar (PBool b) = True"
| "scalar v = False"

definition witness_plain :: "witness \<Rightarrow> bool" where
  "witness_plain w =
     (nofloat (PDict (w_compiler w)) \<and> nofloat (opt_pdict (w_setup_budget w)) \<and>
      list_all (\<lambda>a. scalar (wa_expected a)) (w_assertions w) \<and>
      distinct (map fst (w_token_decimals w)) \<and> distinct (map fst (w_invariant_check_pins w)))"

lemma opt_pstr_facts [simp]: "nofloat (opt_pstr s)" "jnorm (opt_pstr s) = opt_pstr s"
  by (cases s, simp, simp)+

lemma opt_pstr_inj [simp]: "opt_pstr s = opt_pstr t \<longleftrightarrow> s = t"
  by (cases s; cases t) simp_all

lemma opt_pint_facts [simp]: "nofloat (opt_pint i)" "jnorm (opt_pint i) = opt_pint i"
  by (cases i, simp, simp)+

lemma opt_pint_inj [simp]: "opt_pint i = opt_pint j \<longleftrightarrow> i = j"
  by (cases i; cases j) simp_all

lemma map_PStr_inj [simp]: "map PStr ss = map PStr ts \<longleftrightarrow> ss = ts"
  by (auto simp: inj_on_def dest: map_injective)

lemma pstrs_facts [simp]: "nofloat (pstrs ss)" "jnorm (pstrs ss) = pstrs ss" "pstrs ss = pstrs ts \<longleftrightarrow> ss = ts"
  by (simp_all add: pstrs_def comp_def)

lemma scalar_facts: "scalar v \<Longrightarrow> nofloat v" "scalar v \<Longrightarrow> jnorm v = v"
  by (cases v; simp)+

lemma nofloat_dicts [simp]: "nofloat (pints d)" "nofloat (ptexts e)"
  by (auto simp: pints_def ptexts_def)

lemma witness_class_value_inj [simp]: "witness_class_value a = witness_class_value b \<longleftrightarrow> a = b"
  by (cases a; cases b) simp_all

lemma jnorm_dict_inj:
  assumes "jnorm (PDict d) = jnorm (PDict e)" "distinct (map fst d)" "distinct (map fst e)"
  shows "map_option jnorm (map_of d k) = map_option jnorm (map_of e k)"
proof -
  let ?n = "map (\<lambda>kv. (fst kv, jnorm (snd kv)))"
  have keys: "distinct (map fst (?n f)) = distinct (map fst f)" for f :: pdict by (simp add: comp_def)
  have "map_of (sort_key fst (?n d)) = map_of (sort_key fst (?n e))" using assms(1) by simp
  then have "map_of (?n d) = map_of (?n e)"
    using assms(2,3) map_of_sort_key [of "?n d"] map_of_sort_key [of "?n e"] by (simp only: keys)
  moreover have "map_of (?n f) k = map_option jnorm (map_of f k)" for f :: pdict by (induction f) auto
  ultimately show ?thesis by metis
qed

lemma jnorm_pints: 
  assumes "jnorm (pints d) = jnorm (pints e)" "distinct (map fst d)" "distinct (map fst e)"
  shows "map_of d = map_of e"
proof
  fix k :: string
  have m: "map_of (map (\<lambda>(k, i). (k, PInt i)) f) k = map_option PInt (map_of f k)" for f by (induction f) auto
  have "map_option jnorm (map_of (map (\<lambda>(k, i). (k, PInt i)) d) k) = map_option jnorm (map_of (map (\<lambda>(k, i). (k, PInt i)) e) k)"
    using assms by (intro jnorm_dict_inj) (simp_all only: pints_def, simp_all add: comp_def case_prod_unfold)
  then show "map_of d k = map_of e k" unfolding m by (cases "map_of d k"; cases "map_of e k") simp_all
qed

lemma jnorm_ptexts:
  assumes "jnorm (ptexts d) = jnorm (ptexts e)" "distinct (map fst d)" "distinct (map fst e)"
  shows "map_of d = map_of e"
proof
  fix k :: string
  have m: "map_of (map (\<lambda>(k, i). (k, PStr i)) f) k = map_option PStr (map_of f k)" for f by (induction f) auto
  have "map_option jnorm (map_of (map (\<lambda>(k, i). (k, PStr i)) d) k) = map_option jnorm (map_of (map (\<lambda>(k, i). (k, PStr i)) e) k)"
    using assms by (intro jnorm_dict_inj) (simp_all only: ptexts_def, simp_all add: comp_def case_prod_unfold)
  then show "map_of d k = map_of e k" unfolding m by (cases "map_of d k"; cases "map_of e k") simp_all
qed

lemma canonical_payload_eq: "canonical_witness_payload w = witness_fields w"
  by (simp add: canonical_witness_payload_def witness_dump_def witness_fields_def dpop_def)

lemma witness_fields_keys: "distinct (map fst (witness_fields w))"
  by (simp add: witness_fields_def)

lemma witness_fields_nofloat: "witness_plain w \<Longrightarrow> nofloat (PDict (witness_fields w))"
  by (auto simp: witness_fields_def witness_plain_def assertion_dump_def scalar_facts list_all_iff)

lemma jnorm_assertion_inj:
  assumes "jnorm (assertion_dump a) = jnorm (assertion_dump b)" "scalar (wa_expected a)" "scalar (wa_expected b)"
  shows "a = b"
proof -
  have d: "distinct (map fst (case assertion_dump c of PDict d \<Rightarrow> d | _ \<Rightarrow> []))" for c
    by (simp add: assertion_dump_def)
  note eq = jnorm_dict_inj [OF assms(1) [unfolded assertion_dump_def], of k for k]
  show ?thesis
    using eq [of "''id''"] eq [of "''kind''"] eq [of "''target''"] eq [of "''operator''"] eq [of "''expected''"]
      eq [of "''observed_record''"] eq [of "''actor''"] eq [of "''token''"] eq [of "''required''"] assms(2,3)
    by (simp add: scalar_facts)
qed

lemma jnorm_assertions_inj:
  assumes "map (jnorm \<circ> assertion_dump) as1 = map (jnorm \<circ> assertion_dump) as2"
    "list_all (\<lambda>a. scalar (wa_expected a)) as1" "list_all (\<lambda>a. scalar (wa_expected a)) as2"
  shows "as1 = as2"
  using assms
proof (induction as1 arbitrary: as2)
  case (Cons a as1)
  then show ?case by (cases as2) (auto dest: jnorm_assertion_inj)
qed simp

text \<open>For dictionaries with the same keys in the same order, the canonical text determines the values in their order.\<close>

lemma canonical_values:
  assumes "canonical (PDict d) = canonical (PDict e)" "nofloat (PDict d)" "nofloat (PDict e)"
    and "map fst d = map fst e" "distinct (map fst d)"
  shows "map (jnorm \<circ> snd) d = map (jnorm \<circ> snd) e"
proof (rule nth_equalityI)
  show len: "length (map (jnorm \<circ> snd) d) = length (map (jnorm \<circ> snd) e)"
    using assms(4) by (metis length_map)
  fix i
  assume i: "i < length (map (jnorm \<circ> snd) d)"
  have look: "map_of f (fst (f ! i)) = Some (snd (f ! i))" if "distinct (map fst f)" "i < length f" for f :: pdict
    using that by (metis map_of_eq_Some_iff nth_mem prod.collapse)
  have k: "fst (d ! i) = fst (e ! i)"
    using assms(4) i len by (metis length_map nth_map)
  have "map_option jnorm (map_of d (fst (d ! i))) = map_option jnorm (map_of e (fst (e ! i)))"
    unfolding k using assms by (intro canonical_dict_inj) simp_all
  then show "map (jnorm \<circ> snd) d ! i = map (jnorm \<circ> snd) e ! i"
    using look [of d, OF assms(5)] look [of e, OF assms(5) [unfolded assms(4)]] i len by simp
qed

definition no_collision :: "host \<Rightarrow> string \<Rightarrow> string \<Rightarrow> bool" where
  "no_collision H x y = (hs_sha256 H x = hs_sha256 H y \<longrightarrow> x = y)"

text \<open>The identity of two witnesses: their fields, with dictionaries up to the order of items.\<close>

definition same_witness :: "witness \<Rightarrow> witness \<Rightarrow> bool" where
  "same_witness v w =
     (v\<lparr>w_compiler := [], w_token_decimals := [], w_setup_budget := None, w_invariant_check_pins := [], w_env_hash := []\<rparr> =
        w\<lparr>w_compiler := [], w_token_decimals := [], w_setup_budget := None, w_invariant_check_pins := [], w_env_hash := []\<rparr> \<and>
      jnorm (PDict (w_compiler v)) = jnorm (PDict (w_compiler w)) \<and>
      jnorm (opt_pdict (w_setup_budget v)) = jnorm (opt_pdict (w_setup_budget w)) \<and>
      map_of (w_token_decimals v) = map_of (w_token_decimals w) \<and>
      map_of (w_invariant_check_pins v) = map_of (w_invariant_check_pins w))"

text \<open>
  C21: The hash of a witness binds all of it but the environment hash: if the host's SHA-256 does not
  collide on the two canonical texts, witnesses with the same hash agree on every field, dictionaries
  up to the order of their items.
\<close>

theorem witness_hash_binds:
  assumes "witness_hash H v = witness_hash H w" and "witness_plain v" and "witness_plain w"
    and "no_collision H (canonical (PDict (witness_fields v))) (canonical (PDict (witness_fields w)))"
  shows "same_witness v w"
proof -
  have "canonical (PDict (witness_fields v)) = canonical (PDict (witness_fields w))"
    using assms(1,4) unfolding witness_hash_def canonical_payload_eq no_collision_def by blast
  then have "map (jnorm \<circ> snd) (witness_fields v) = map (jnorm \<circ> snd) (witness_fields w)"
  proof (rule canonical_values)
    show "map fst (witness_fields v) = map fst (witness_fields w)" by (simp add: witness_fields_def)
  qed (rule witness_fields_nofloat witness_fields_keys assms(2,3))+
  note vals = this [unfolded witness_fields_def list.map comp_apply snd_conv list.inject]
  have a: "w_assertions v = w_assertions w"
    by (rule jnorm_assertions_inj) (use vals assms(2,3) in \<open>simp_all add: witness_plain_def comp_def\<close>)
  have d: "map_of (w_token_decimals v) = map_of (w_token_decimals w)"
    by (rule jnorm_pints) (use vals assms(2,3) in \<open>simp_all add: witness_plain_def\<close>)
  have p: "map_of (w_invariant_check_pins v) = map_of (w_invariant_check_pins w)"
    by (rule jnorm_ptexts) (use vals assms(2,3) in \<open>simp_all add: witness_plain_def\<close>)
  from a d p vals show ?thesis
    by (simp add: same_witness_def del: jnorm.simps(2))
qed

definition sample_witness :: "string \<Rightarrow> witness" where
  "sample_witness env = \<lparr>w_witness_class = Deployed_fork, w_chain_id = 1, w_fork_block = Some 7, w_commit = ''c'',
     w_compiler = [], w_test_file = ''t'', w_test_name = ''n'', w_control_test_name = ''m'',
     w_initial_capital_wei = 0, w_max_time_advance_s = 0, w_max_block_advance = 0, w_declared_actors = [''a''],
     w_declared_tokens = [], w_token_decimals = [], w_setup_budget = None,
     w_assertions = [\<lparr>wa_id = ''A'', wa_kind = ''custom'', wa_target = ''x'', wa_operator = ''eq'',
       wa_expected = PInt 1, wa_observed_record = ''AssertionChecked'', wa_actor = None, wa_token = None,
       wa_required = True\<rparr>],
     w_invariant_check_pins = [], w_template_sha256 = ''T'', w_attack_body_sha256 = ''B'',
     w_harness_address = ''0x'' @ to_hex (replicate 20 (CHR ''k'')),
     w_harness_create2_salt = to_hex (replicate 32 (CHR ''s'')), w_harness_create2_deployer = None,
     w_harness_init_code_sha256 = None, w_harness_runtime_sha256 = None, w_harness_source_path = None,
     w_harness_source_sha256 = None, w_wrapper_address = None, w_wrapper_runtime_sha256 = None,
     w_wrapper_source_path = None, w_wrapper_source_sha256 = None, w_expected_wrapper_depth = 1,
     w_wrapper_callsite_sha256 = ''C'', w_rpc_provider_label = None, w_cross_check_provider_label = None,
     w_env_hash = env\<rparr>"

lemma witness_hash_binds_witness: "same_witness (sample_witness ''e'') (sample_witness ''f'')"
proof (rule witness_hash_binds)
  show "witness_hash sample_host (sample_witness ''e'') = witness_hash sample_host (sample_witness ''f'')"
    unfolding witness_hash_def canonical_payload_eq by (simp only: witness_fields_def sample_witness_def witness.select_convs)
  show "no_collision sample_host x y" for x y by (simp add: no_collision_def sample_host_def)
qed (simp_all add: witness_plain_def sample_witness_def opt_pdict_def)

section \<open>The encoding of created addresses\<close>

text \<open>The RLP encoding of a text and of a list, for the address and the nonce of a creation.\<close>

definition rlp_string :: "string \<Rightarrow> string" where
  "rlp_string s =
     (if length s = 1 \<and> of_char (hd s) < (128 :: nat) then s
      else if length s < 56 then char_of (0x80 + length s) # s else rlp_long_string s)"

definition rlp_list :: "string list \<Rightarrow> string" where
  "rlp_list items = (let payload = concat (map rlp_string items) in
     if length payload < 56 then char_of (0xC0 + length payload) # payload else rlp_long_list payload)"

lemma be_bytes_length: "n < 256 ^ k \<Longrightarrow> length (be_bytes n) \<le> k"
proof (induction k arbitrary: n)
  case (Suc k)
  then have "n div 256 < 256 ^ k" by (simp add: less_mult_imp_div_less mult.commute)
  with Suc.IH show ?case by (cases "n = 0") (auto simp: be_bytes.simps [of n] be_bytes.simps [of 0])
qed (simp add: be_bytes.simps)

lemma be_bytes_not_Nil: "0 < n \<Longrightarrow> be_bytes n \<noteq> []"
  by (simp add: be_bytes.simps [of n])

lemma of_char_small: "n < 256 \<Longrightarrow> (of_char (char_of n :: char) :: nat) = n"
  by (simp add: of_char_of)

lemma enc_nonce_short:
  assumes "0 < n" "n < 2 ^ 256"
  shows "enc_nonce n = char_of (length (be_bytes n)) # be_bytes n" "length (be_bytes n) \<le> 32"
proof -
  have "(2 :: nat) ^ 256 = 256 ^ 32" by simp
  then show l: "length (be_bytes n) \<le> 32" using assms(2) by (intro be_bytes_length) simp
  then show "enc_nonce n = char_of (length (be_bytes n)) # be_bytes n"
    using assms(1) by (simp add: enc_nonce_def Let_def)
qed

lemma rlp_nonce_differs:
  assumes "0 < n" "n < 2 ^ 256"
  shows "enc_nonce n \<noteq> rlp_string (be_bytes n)"
proof -
  note e = enc_nonce_short [OF assms]
  have "char_of (length (be_bytes n)) \<noteq> (char_of (128 + length (be_bytes n)) :: char)"
    using e(2) of_char_small [of "length (be_bytes n)"] of_char_small [of "128 + length (be_bytes n)"] by auto
  with e be_bytes_not_Nil [OF assms(1)] show ?thesis
    by (auto simp: rlp_string_def)
qed

text \<open>
  The text that \<open>create_address\<close> hashes is the RLP list of the deployer and the nonce for the
  nonce zero only: for every other admissible nonce its prefix or form is not RLP's.
\<close>

lemma create_encoding_rlp:
  assumes "length addr = 20" and "nonce < 2 ^ 256"
  shows "create_encoding addr nonce = rlp_list [addr, be_bytes nonce] \<longleftrightarrow> nonce = 0"
proof (cases "nonce = 0")
  case True
  then show ?thesis
    using assms(1) by (simp add: create_encoding_def rlp_list_def rlp_string_def enc_nonce_def be_bytes.simps Let_def)
next
  case False
  note e = enc_nonce_short [of nonce] rlp_nonce_differs [of nonce]
  have a: "rlp_string addr = char_of (0x80 + length addr) # addr" using assms(1) by (simp add: rlp_string_def)
  have l: "length (rlp_string (be_bytes nonce)) < 35"
    using e(2) False assms(2) by (auto simp: rlp_string_def)
  show ?thesis
    using e False assms a l by (auto simp: create_encoding_def rlp_list_def Let_def)
qed

lemma create_encoding_rlp_witness:
  "create_encoding (replicate 20 (CHR ''a'')) 1 \<noteq> rlp_list [replicate 20 (CHR ''a''), be_bytes 1]"
  using create_encoding_rlp [of "replicate 20 (CHR ''a'')" 1] by simp

section \<open>What the harness identity shows\<close>

lemma check_event_eq:
  "check_event harness wrapper depth event = Inr u \<longleftrightarrow>
     lower (py_str (dget_or event ''emitter'' (PStr []))) = harness \<and>
     py_eq (dget_or event ''depth'' PNone) (PInt depth) \<and>
     lower (py_str (dget_or event ''caller'' (PStr []))) = wrapper"
  by (auto simp: check_event_def id_err_def)

lemma verify_harness_identity_eq:
  assumes "verify_harness_identity H tr w = Inr obs"
  obtains frame data caller init_code recomputed where
    "filter (deploys (lower (w_harness_address w))) (ts_frames tr) = [frame]"
    "tf_data frame = PStr data" "startswith data ''0x''" "from_hex (drop 2 data) = Some init_code"
    "tf_caller frame = PStr caller"
    "create2_address H caller (w_harness_create2_salt w) init_code = Inr recomputed"
    "lower recomputed = lower (w_harness_address w)" "32 \<le> length init_code"
    "list_all (\<lambda>e. check_event (lower (w_harness_address w)) (''0x'' @ to_hex (last_bytes 20 init_code))
       (w_expected_wrapper_depth w) e = Inr ()) (ts_assertion_events tr)"
    "obs = \<lparr>ho_harness_address = lower (w_harness_address w), ho_deployer = lower caller,
       ho_wrapper = ''0x'' @ to_hex (last_bytes 20 init_code),
       ho_assertion_event_count = length (ts_assertion_events tr)\<rparr>"
proof -
  let ?h = "lower (w_harness_address w)"
  from assms obtain frame where frame: "filter (deploys ?h) (ts_frames tr) = [frame]"
    by (auto simp: verify_harness_identity_def Let_def id_err_def split: list.splits)
  note r = assms [unfolded verify_harness_identity_def Let_def frame list.case]
  then have t: "(\<not> truthy (tf_caller frame) \<or> \<not> truthy (tf_data frame)) = False"
    by (auto simp: id_err_def split: if_splits)
  note r = r [unfolded t if_False]
  from r obtain data where data: "tf_data frame = PStr data" "startswith data ''0x''"
    by (cases "tf_data frame") (auto simp: id_err_def split: if_splits)
  note r = r [unfolded data(1) pv.case eqTrueI [OF data(2)] not_True_eq_False if_False]
  from r obtain code where code: "from_hex (drop 2 data) = Some code"
    by (cases "from_hex (drop 2 data)") (auto simp: id_err_def)
  note r = r [unfolded code option.case]
  from r obtain caller where caller: "tf_caller frame = PStr caller"
    by (cases "tf_caller frame") (auto simp: id_err_def)
  note r = r [unfolded caller pv.case]
  from r obtain addr where addr: "create2_address H caller (w_harness_create2_salt w) code = Inr addr"
    by (cases "create2_address H caller (w_harness_create2_salt w) code") (auto simp: id_err_def)
  note r = r [unfolded addr sum.case]
  from r have c: "lower addr = ?h" "32 \<le> length code" by (auto simp: id_err_def split: if_splits)
  from r obtain us where us: "emap (check_event ?h (''0x'' @ to_hex (last_bytes 20 code)) (w_expected_wrapper_depth w))
      (ts_assertion_events tr) = Inr us"
    and obs: "obs = \<lparr>ho_harness_address = ?h, ho_deployer = lower caller,
       ho_wrapper = ''0x'' @ to_hex (last_bytes 20 code),
       ho_assertion_event_count = length (ts_assertion_events tr)\<rparr>"
    by (auto simp: id_err_def ebind_eq_Inr split: if_splits)
  from us have "list_all (\<lambda>e. check_event ?h (''0x'' @ to_hex (last_bytes 20 code)) (w_expected_wrapper_depth w) e = Inr ())
      (ts_assertion_events tr)"
    by (auto simp: emap_eq_Inr list_all2_conv_all_nth list_all_length)
  from that [OF frame data code caller addr c this obs] show thesis .
qed

text \<open>
  C22: A harness identity is reported only if exactly one CREATE2 of the setup phase made the declared
  address, the address is the digest of the observed deployer, the declared salt and the observed init
  code, the wrapper is the last argument in that code, and every assertion event came from that harness,
  at the declared depth, called by that wrapper.
\<close>

theorem harness_identity_sound:
  assumes "verify_harness_identity H tr w = Inr obs"
  shows "\<exists>frame data caller init_code salt deployer.
    filter (deploys (lower (w_harness_address w))) (ts_frames tr) = [frame] \<and>
    tf_data frame = PStr data \<and> from_hex (drop 2 data) = Some init_code \<and> tf_caller frame = PStr caller \<and>
    hex_address caller = Inr deployer \<and> hex_bytes (w_harness_create2_salt w) 32 = Inr salt \<and>
    lower (w_harness_address w) = lower (''0x'' @ to_hex (last_bytes 20
      (hs_keccak H (char_of (0xFF :: nat) # deployer @ salt @ hs_keccak H init_code)))) \<and>
    ho_wrapper obs = ''0x'' @ to_hex (last_bytes 20 init_code) \<and>
    (\<forall>e \<in> set (ts_assertion_events tr).
      lower (py_str (dget_or e ''emitter'' (PStr []))) = lower (w_harness_address w) \<and>
      py_eq (dget_or e ''depth'' PNone) (PInt (w_expected_wrapper_depth w)) \<and>
      lower (py_str (dget_or e ''caller'' (PStr []))) = ho_wrapper obs) \<and>
    ho_assertion_event_count obs = length (ts_assertion_events tr)"
proof (rule verify_harness_identity_eq [OF assms], goal_cases)
  case (1 frame data caller init_code recomputed)
  from 1(6) obtain d salt where ds: "hex_address caller = Inr d" "hex_bytes (w_harness_create2_salt w) 32 = Inr salt"
    "recomputed = ''0x'' @ to_hex (last_bytes 20 (hs_keccak H (char_of (0xFF :: nat) # d @ salt @ hs_keccak H init_code)))"
    unfolding create2_address_def ebind_eq_Inr sum.inject by (elim exE conjE) simp
  show ?case
    by (rule exI [of _ frame], rule exI [of _ data], rule exI [of _ caller], rule exI [of _ init_code],
        rule exI [of _ salt], rule exI [of _ d])
      (use 1(1,2,4,5) 1(7) [symmetric] 1(9,10) ds in \<open>simp add: check_event_eq list_all_iff\<close>)
qed

text \<open>A deployment by an identity digest: the address is the last 20 bytes of the init code.\<close>

definition sample_init_code :: string where
  "sample_init_code = replicate 12 zero_byte @ replicate 20 (CHR ''k'')"

definition sample_create2 :: trace_frame where
  "sample_create2 = \<lparr>tf_depth = 0, tf_kind = ''create2'', tf_to = Some (''0x'' @ to_hex (replicate 20 (CHR ''k''))),
     tf_selector = None, tf_phase = ''setup'', tf_caller = PStr (''0x'' @ to_hex (replicate 20 (CHR ''d''))),
     tf_data = PStr (''0x'' @ to_hex sample_init_code), tf_gas_used = None, tf_success = True, tf_logs = []\<rparr>"

definition sample_deployment :: trace_summary where
  "sample_deployment = \<lparr>ts_frames = [sample_create2], ts_cheatcodes = [], ts_transfers = [],
     ts_assertion_events = [[(''emitter'', PStr (''0x'' @ to_hex (replicate 20 (CHR ''k'')))), (''depth'', PInt 1),
       (''caller'', PStr (''0x'' @ to_hex (replicate 20 (CHR ''k''))))]],
     ts_cumulative_warp_s = 0, ts_cumulative_roll = 0, ts_initial_timestamp = None, ts_final_timestamp = None,
     ts_initial_block = None, ts_final_block = None, ts_gas_used = 0, ts_raw_sha256 = []\<rparr>"

definition sample_observation :: harness_observation where
  "sample_observation = \<lparr>ho_harness_address = ''0x'' @ to_hex (replicate 20 (CHR ''k'')),
     ho_deployer = ''0x'' @ to_hex (replicate 20 (CHR ''d'')),
     ho_wrapper = ''0x'' @ to_hex (replicate 20 (CHR ''k'')), ho_assertion_event_count = 1\<rparr>"

lemma sample_identity:
  "verify_harness_identity sample_host sample_deployment (sample_witness []) = Inr sample_observation"
  by code_simp

lemma harness_identity_sound_witness:
  "\<exists>frame data caller init_code salt deployer.
    filter (deploys (lower (w_harness_address (sample_witness [])))) (ts_frames sample_deployment) = [frame] \<and>
    tf_data frame = PStr data \<and> from_hex (drop 2 data) = Some init_code \<and> tf_caller frame = PStr caller \<and>
    hex_address caller = Inr deployer \<and> hex_bytes (w_harness_create2_salt (sample_witness [])) 32 = Inr salt \<and>
    lower (w_harness_address (sample_witness [])) = lower (''0x'' @ to_hex (last_bytes 20
      (hs_keccak sample_host (char_of (0xFF :: nat) # deployer @ salt @ hs_keccak sample_host init_code)))) \<and>
    ho_wrapper sample_observation = ''0x'' @ to_hex (last_bytes 20 init_code) \<and>
    (\<forall>e \<in> set (ts_assertion_events sample_deployment).
      lower (py_str (dget_or e ''emitter'' (PStr []))) = lower (w_harness_address (sample_witness [])) \<and>
      py_eq (dget_or e ''depth'' PNone) (PInt (w_expected_wrapper_depth (sample_witness []))) \<and>
      lower (py_str (dget_or e ''caller'' (PStr []))) = ho_wrapper sample_observation) \<and>
    ho_assertion_event_count sample_observation = length (ts_assertion_events sample_deployment)"
  by (rule harness_identity_sound [OF sample_identity])

end
