(* ===== verification/Environment.thy ===== *)
theory Environment
  imports WitnessBinding
begin

text \<open>
  \<open>chain/environment.py\<close>: the observation of a replay tree and the hash that binds it. A tree is the
  list of its files, each with the parts of its path below the root and its bytes; \<open>tomllib.loads\<close> is
  an argument.
\<close>

section \<open>Trees of files\<close>

type_synonym tree = "(string list \<times> string) list"

definition path_parts :: "string \<Rightarrow> string list" where
  "path_parts p = filter (\<lambda>c. c \<noteq> [] \<and> c \<noteq> ''.'') (split_on (CHR ''/'') p)"

definition read_bytes :: "tree \<Rightarrow> string \<Rightarrow> string res" where
  "read_bytes t p = (case map_of t (path_parts p) of
     None \<Rightarrow> Inl (FileNotFoundError p)
   | Some b \<Rightarrow> Inr b)"

text \<open>Text mode: the line ends \<open>\r\n\<close> and \<open>\r\<close> are read as \<open>\n\<close>.\<close>

fun universal_newlines :: "string \<Rightarrow> string" where
  "universal_newlines [] = []"
| "universal_newlines (c # s) =
     (if c = CHR 0x0D then
        CHR 0x0A # (case s of [] \<Rightarrow> [] | d # r \<Rightarrow> if d = CHR 0x0A then universal_newlines r else universal_newlines s)
      else c # universal_newlines s)"

definition read_text :: "tree \<Rightarrow> string \<Rightarrow> string res" where
  "read_text t p = map_sum id universal_newlines (read_bytes t p)"

definition sha256_file :: "host \<Rightarrow> tree \<Rightarrow> string \<Rightarrow> string res" where
  "sha256_file H t p = map_sum id (hs_sha256 H) (read_bytes t p)"

definition env_err :: "string \<Rightarrow> 'a res" where
  "env_err m = Inl (EnvironmentMismatch m)"

section \<open>The observation of a tree\<close>

record tree_observation =
  to_compiler :: pdict
  to_sanitized_config :: pdict
  to_remappings :: string
  to_template_sha256 :: string
  to_attack_body_sha256 :: string
  to_wrapper_callsite_sha256 :: string
  to_harness_library_hashes :: "(string \<times> string) list"
  to_deployment_plan_hash :: "string option"
  to_source_manifest_sha256 :: string

definition observation_to_dict :: "tree_observation \<Rightarrow> pdict" where
  "observation_to_dict t =
     [(''compiler'', PDict (to_compiler t)), (''sanitized_config'', PDict (to_sanitized_config t)),
      (''remappings'', PStr (to_remappings t)), (''template_sha256'', PStr (to_template_sha256 t)),
      (''attack_body_sha256'', PStr (to_attack_body_sha256 t)),
      (''wrapper_callsite_sha256'', PStr (to_wrapper_callsite_sha256 t)),
      (''harness_library_hashes'', ptexts (to_harness_library_hashes t)),
      (''deployment_plan_hash'', opt_pstr (to_deployment_plan_hash t)),
      (''source_manifest_sha256'', PStr (to_source_manifest_sha256 t))]"

definition observation_fields :: "string list" where
  "observation_fields = [''attack_body_sha256'', ''compiler'', ''deployment_plan_hash'', ''harness_library_hashes'',
     ''remappings'', ''sanitized_config'', ''source_manifest_sha256'', ''template_sha256'', ''wrapper_callsite_sha256'']"

text \<open>\<open>dict(v)\<close>: a mapping, or a list of pairs of a text and a value; anything else raises.\<close>

definition pair_item :: "pv \<Rightarrow> (string \<times> pv) res" where
  "pair_item v = (case v of
     PList [PStr k, x] \<Rightarrow> Inr (k, x)
   | PTup [PStr k, x] \<Rightarrow> Inr (k, x)
   | PStr [c, d] \<Rightarrow> Inr ([c], PStr [d])
   | _ \<Rightarrow> Inl (TypeError ''cannot convert dictionary update sequence element''))"

definition to_dict :: "pv \<Rightarrow> pdict res" where
  "to_dict v = (case v of
     PDict d \<Rightarrow> Inr d
   | _ \<Rightarrow> ebind (py_iter v) (\<lambda>vs. ebind (emap pair_item vs) (\<lambda>items. Inr (dmerge [] items))))"

definition observation_from_dict :: "pdict \<Rightarrow> tree_observation res" where
  "observation_from_dict p =
     (let missing = filter (\<lambda>k. \<not> dhas p k) observation_fields; text = (\<lambda>k. py_str (dget_or p k PNone)) in
      if missing \<noteq> [] then
        env_err (''environment observation missing fields: '' @ py_repr (PList (map PStr missing)))
      else
        ebind (to_dict (dget_or p ''compiler'' PNone)) (\<lambda>compiler.
        ebind (to_dict (dget_or p ''sanitized_config'' PNone)) (\<lambda>config.
        ebind (to_dict (dget_or p ''harness_library_hashes'' PNone)) (\<lambda>libs.
          Inr \<lparr>to_compiler = compiler, to_sanitized_config = config, to_remappings = text ''remappings'',
            to_template_sha256 = text ''template_sha256'', to_attack_body_sha256 = text ''attack_body_sha256'',
            to_wrapper_callsite_sha256 = text ''wrapper_callsite_sha256'',
            to_harness_library_hashes = map (\<lambda>kv. (fst kv, py_str (snd kv))) libs,
            to_deployment_plan_hash = (if dget_or p ''deployment_plan_hash'' PNone = PNone then None
              else Some (text ''deployment_plan_hash'')),
            to_source_manifest_sha256 = text ''source_manifest_sha256''\<rparr>))))"

definition read_foundry_toml :: "(string \<Rightarrow> pdict option) \<Rightarrow> tree \<Rightarrow> pdict res" where
  "read_foundry_toml toml t =
     (case read_text t ''foundry.toml'' of
        Inl e \<Rightarrow> env_err (''cannot read foundry.toml: '' @ exc_msg e)
      | Inr s \<Rightarrow> (case toml s of
          None \<Rightarrow> env_err ''cannot read foundry.toml: invalid TOML''
        | Some d \<Rightarrow> Inr d))"

text \<open>\<open>d.get(k, {}).get(k2, dflt)\<close>: an intermediate value that is no table raises.\<close>

definition get_get :: "pdict \<Rightarrow> string \<Rightarrow> string \<Rightarrow> pv \<Rightarrow> pv res" where
  "get_get d k k2 dflt = (case dget_or d k (PDict []) of
     PDict e \<Rightarrow> Inr (dget_or e k2 dflt)
   | _ \<Rightarrow> Inl (AttributeError ''get''))"

definition default_profile :: "(string \<Rightarrow> pdict option) \<Rightarrow> tree \<Rightarrow> pdict res" where
  "default_profile toml t =
     ebind (read_foundry_toml toml t) (\<lambda>raw.
     ebind (get_get raw ''profile'' ''default'' PNone) (\<lambda>profile. case profile of
       PDict p \<Rightarrow> Inr p
     | _ \<Rightarrow> env_err ''foundry.toml has no [profile.default] table''))"

definition observe_compiler :: "(string \<Rightarrow> pdict option) \<Rightarrow> tree \<Rightarrow> pdict res" where
  "observe_compiler toml t =
     ebind (default_profile toml t) (\<lambda>p.
       let missing = filter (\<lambda>k. \<not> dhas p k) [''solc_version'', ''optimizer'', ''optimizer_runs'', ''evm_version''] in
       if missing \<noteq> [] then env_err (''foundry.toml must pin: '' @ join '', '' missing)
       else ebind (py_int (dget_or p ''optimizer_runs'' PNone)) (\<lambda>runs.
         Inr [(''solc'', PStr (py_str (dget_or p ''solc_version'' PNone))),
           (''optimizer'', PBool (truthy (dget_or p ''optimizer'' PNone))), (''optimizer_runs'', PInt runs),
           (''evm_version'', PStr (py_str (dget_or p ''evm_version'' PNone)))]))"

definition block_field :: "string \<Rightarrow> pv \<Rightarrow> int res" where
  "block_field label v = (case v of
     PInt i \<Rightarrow> if i < 0 then env_err (''foundry.toml '' @ label @ '' must be a non-negative integer'') else Inr i
   | _ \<Rightarrow> env_err (''foundry.toml '' @ label @ '' must be a non-negative integer''))"

definition initial_block_env_from_config :: "(string \<Rightarrow> pdict option) \<Rightarrow> tree \<Rightarrow> (int \<times> int) res" where
  "initial_block_env_from_config toml t =
     ebind (default_profile toml t) (\<lambda>p.
     ebind (block_field ''block_timestamp'' (dget_or p ''block_timestamp'' (PInt 1))) (\<lambda>timestamp.
     ebind (block_field ''block_number'' (dget_or p ''block_number'' (PInt 1))) (\<lambda>number.
       Inr (timestamp, number))))"

section \<open>The source manifest\<close>

definition GENERATED_DIRS :: "string list" where
  "GENERATED_DIRS = [''.git'', ''.venv'', ''__pycache__'', ''.pytest_cache'', ''out'', ''cache'', ''tool_runs'',
     ''artifacts'', ''audits'']"

text \<open>\<open>PurePath.suffix\<close>: from the last dot of the name, unless it is the first or the last character.\<close>

definition path_suffix :: "string \<Rightarrow> string" where
  "path_suffix name =
     (let tail = takeWhile (\<lambda>c. c \<noteq> CHR ''.'') (rev name); i = length name - length tail - 1 in
      if CHR ''.'' \<in> set name \<and> 0 < i \<and> tail \<noteq> [] then CHR ''.'' # rev tail else [])"

definition untracked :: "string list \<Rightarrow> bool" where
  "untracked parts =
     (let name = last parts in
      list_ex (\<lambda>p. p \<in> set GENERATED_DIRS) parts \<or>
      name \<in> {''.env'', ''.env.local''} \<or> (startswith name ''.env.'' \<and> name \<noteq> ''.env.example'') \<or>
      ''keys'' \<in> set parts \<or> path_suffix name \<in> {''.pyc'', ''.sqlite'', ''.db''})"

definition manifest_row :: "host \<Rightarrow> string list \<times> string \<Rightarrow> string" where
  "manifest_row H f = join ''/'' (fst f) @ '':'' @ hs_sha256 H (snd f)"

definition manifest_text :: "host \<Rightarrow> tree \<Rightarrow> string" where
  "manifest_text H t =
     concat (map (\<lambda>f. manifest_row H f @ [CHR 0x0A]) (filter (\<lambda>f. \<not> untracked (fst f)) (sort_key fst t)))"

definition source_manifest :: "host \<Rightarrow> tree \<Rightarrow> string" where
  "source_manifest H t = hs_sha256 H (manifest_text H t)"

definition plan_hash :: "host \<Rightarrow> tree \<Rightarrow> string list \<Rightarrow> witness_class \<Rightarrow> string option res" where
  "plan_hash H t paths wclass =
     (if wclass \<noteq> Local_deployment \<or> paths = [] then Inr None
      else ebind (emap (\<lambda>rel. map_sum id (\<lambda>h. rel @ '':'' @ h @ [CHR 0x0A]) (sha256_file H t rel)) paths)
        (\<lambda>rows. Inr (Some (hs_sha256 H (concat rows)))))"

text \<open>\<open>observe_tree\<close>: an \<open>OSError\<close> or a \<open>ValueError\<close> of its parts is an \<open>EnvironmentMismatch\<close>.\<close>

definition observation_error :: "exc \<Rightarrow> exc" where
  "observation_error e = (case e of
     FileNotFoundError m \<Rightarrow> EnvironmentMismatch (''cannot observe replay tree: '' @ m)
   | PermissionError m \<Rightarrow> EnvironmentMismatch (''cannot observe replay tree: '' @ m)
   | ValueError m \<Rightarrow> EnvironmentMismatch (''cannot observe replay tree: '' @ m)
   | EnvironmentMismatch m \<Rightarrow> EnvironmentMismatch (''cannot observe replay tree: '' @ m)
   | _ \<Rightarrow> e)"

definition observe_tree :: "host \<Rightarrow> (string \<Rightarrow> pdict option) \<Rightarrow> tree \<Rightarrow> string \<Rightarrow> witness_class \<Rightarrow> string list \<Rightarrow>
    string list \<Rightarrow> tree_observation res" where
  "observe_tree H toml t test_file wclass libs plans =
     ebind (read_foundry_toml toml t) (\<lambda>raw. map_sum observation_error id (
       ebind (read_text t test_file) (\<lambda>test_text.
       ebind (observe_compiler toml t) (\<lambda>compiler.
       ebind (get_get raw ''profile'' ''default'' (PDict [])) (\<lambda>profile.
       ebind (if map_of t [''remappings.txt''] = None then Inr [] else read_text t ''remappings.txt'') (\<lambda>remappings.
       ebind (sha256_file H t test_file) (\<lambda>template.
       ebind (marked_region_sha256 H test_text ''ATTACK BODY'') (\<lambda>attack.
       ebind (marked_region_sha256 H test_text ''WRAPPER CALLSITE'') (\<lambda>callsite.
       ebind (emap (\<lambda>p. map_sum id (Pair p) (sha256_file H t p)) libs) (\<lambda>lib_hashes.
       ebind (plan_hash H t plans wclass) (\<lambda>plan.
         Inr \<lparr>to_compiler = compiler,
           to_sanitized_config = [(''profile'', profile), (''rpc_endpoints'', dget_or raw ''rpc_endpoints'' (PDict []))],
           to_remappings = remappings, to_template_sha256 = template, to_attack_body_sha256 = attack,
           to_wrapper_callsite_sha256 = callsite, to_harness_library_hashes = lib_hashes,
           to_deployment_plan_hash = plan, to_source_manifest_sha256 = source_manifest H t\<rparr>)))))))))))"

section \<open>Checking and hashing an observation\<close>

definition check_compiler :: "pdict \<Rightarrow> pdict \<Rightarrow> unit res" where
  "check_compiler observed declared =
     ebind (emap (\<lambda>kv. require (py_eq (dget_or observed (fst kv) PNone) (snd kv))
       (EnvironmentMismatch (''compiler setting '' @ str_repr (fst kv) @ '' differs from declaration''))) declared)
       (\<lambda>_. Inr ())"

definition check_declaration :: "host \<Rightarrow> tree_observation \<Rightarrow> witness \<Rightarrow> tree option \<Rightarrow> unit res" where
  "check_declaration H ob w root =
     (if to_template_sha256 ob \<noteq> w_template_sha256 w then env_err ''test file differs from declared template hash''
      else if to_attack_body_sha256 ob \<noteq> w_attack_body_sha256 w then
        env_err ''ATTACK BODY differs from declared attack-body hash''
      else if to_wrapper_callsite_sha256 ob \<noteq> w_wrapper_callsite_sha256 w then
        env_err ''WRAPPER CALLSITE differs from declared call-site hash''
      else ebind (check_compiler (to_compiler ob) (w_compiler w)) (\<lambda>_.
        if given (w_harness_source_sha256 w) \<and> given (w_harness_source_path w) then
          (case root of
             None \<Rightarrow> env_err ''replay root is required to validate the declared harness source''
           | Some t \<Rightarrow> ebind (sha256_file H t (the (w_harness_source_path w))) (\<lambda>actual.
               if Some actual \<noteq> w_harness_source_sha256 w then
                 env_err ''declared harness source hash does not match the replay tree''
               else Inr ()))
        else Inr ()))"

definition json_hash :: "host \<Rightarrow> pv \<Rightarrow> string" where
  "json_hash H v = hs_sha256 H (canonical v)"

definition binding_payload :: "tree_observation \<Rightarrow> witness \<Rightarrow> pdict" where
  "binding_payload ob w =
     [(''source_manifest_sha256'', PStr (to_source_manifest_sha256 ob)),
      (''harness_source_sha256'', opt_pstr (w_harness_source_sha256 w)),
      (''wrapper_source_sha256'', opt_pstr (w_wrapper_source_sha256 w)),
      (''harness_init_code_sha256'', opt_pstr (w_harness_init_code_sha256 w)),
      (''harness_runtime_sha256'', opt_pstr (w_harness_runtime_sha256 w)),
      (''wrapper_runtime_sha256'', opt_pstr (w_wrapper_runtime_sha256 w))]"

definition env_inputs_of :: "host \<Rightarrow> tree_observation \<Rightarrow> witness \<Rightarrow> pdict \<Rightarrow> int option \<Rightarrow> int option \<Rightarrow> env_inputs" where
  "env_inputs_of H ob w tools ts bl =
     \<lparr>ei_compiler = to_compiler ob, ei_sanitized_config = to_sanitized_config ob,
      ei_remappings = to_remappings ob, ei_commit = w_commit w, ei_witness_class = w_witness_class w,
      ei_fork_block = w_fork_block w, ei_deployment_plan_hash = to_deployment_plan_hash ob,
      ei_chain_id = w_chain_id w, ei_template_sha256 = to_template_sha256 ob,
      ei_attack_body_sha256 = to_attack_body_sha256 ob, ei_invariant_check_pins = w_invariant_check_pins w,
      ei_harness_library_hashes = to_harness_library_hashes ob,
      ei_harness_address = lower (w_harness_address w),
      ei_harness_create2_salt = lower (w_harness_create2_salt w),
      ei_expected_wrapper_depth = w_expected_wrapper_depth w,
      ei_wrapper_callsite_sha256 = to_wrapper_callsite_sha256 ob,
      ei_tool_versions = dset tools ''binding'' (PStr (json_hash H (PDict (binding_payload ob w)))),
      ei_initial_timestamp = ts, ei_initial_block = bl\<rparr>"

definition environment_hash :: "host \<Rightarrow> tree_observation \<Rightarrow> witness \<Rightarrow> pdict \<Rightarrow> int option \<Rightarrow> int option \<Rightarrow> string" where
  "environment_hash H ob w tools ts bl = compute_env_hash H (env_inputs_of H ob w tools ts bl)"

section \<open>Round trip of an observation\<close>

text \<open>
  Reading back the dictionary of an observation, as the verifier does from the retained file, gives
  the observation.
\<close>

lemma observation_roundtrip: "observation_from_dict (observation_to_dict t) = Inr t"
proof -
  have libs: "map (\<lambda>kv. (fst kv, py_str (snd kv))) (map (\<lambda>(k, s). (k, PStr s)) d) = d" for d :: "(string \<times> string) list"
    by (induction d) auto
  have keys: "filter (\<lambda>k. \<not> dhas (observation_to_dict t) k) observation_fields = []"
    by (simp add: observation_fields_def observation_to_dict_def dhas_def)
  show ?thesis
    unfolding observation_from_dict_def Let_def keys
    by (cases "to_deployment_plan_hash t")
      (simp_all add: observation_to_dict_def dget_or_def to_dict_def ptexts_def libs del: list.map map_map)
qed

section \<open>The environment hash binds\<close>

definition observation_plain :: "tree_observation \<Rightarrow> bool" where
  "observation_plain t =
     (nofloat (PDict (to_compiler t)) \<and> nofloat (PDict (to_sanitized_config t)) \<and>
      distinct (map fst (to_harness_library_hashes t)))"

text \<open>What two observations, witnesses and start blocks with the same environment hash have in common.\<close>

definition same_environment :: "tree_observation \<Rightarrow> witness \<Rightarrow> tree_observation \<Rightarrow> witness \<Rightarrow> bool" where
  "same_environment s v t w =
     (jnorm (PDict (to_compiler s)) = jnorm (PDict (to_compiler t)) \<and>
      jnorm (PDict (to_sanitized_config s)) = jnorm (PDict (to_sanitized_config t)) \<and>
      map_of (to_harness_library_hashes s) = map_of (to_harness_library_hashes t) \<and>
      s\<lparr>to_compiler := [], to_sanitized_config := [], to_harness_library_hashes := []\<rparr> =
        t\<lparr>to_compiler := [], to_sanitized_config := [], to_harness_library_hashes := []\<rparr> \<and>
      w_commit v = w_commit w \<and> w_witness_class v = w_witness_class w \<and> w_fork_block v = w_fork_block w \<and>
      w_chain_id v = w_chain_id w \<and> lower (w_harness_address v) = lower (w_harness_address w) \<and>
      lower (w_harness_create2_salt v) = lower (w_harness_create2_salt w) \<and>
      w_expected_wrapper_depth v = w_expected_wrapper_depth w \<and>
      w_harness_source_sha256 v = w_harness_source_sha256 w \<and> w_wrapper_source_sha256 v = w_wrapper_source_sha256 w \<and>
      w_harness_init_code_sha256 v = w_harness_init_code_sha256 w \<and>
      w_harness_runtime_sha256 v = w_harness_runtime_sha256 w \<and> w_wrapper_runtime_sha256 v = w_wrapper_runtime_sha256 w)"

lemma env_payload_values:
  assumes "compute_env_hash H a = compute_env_hash H b"
    and "no_collision H (canonical (PDict (env_payload a))) (canonical (PDict (env_payload b)))"
    and "nofloat (PDict (env_payload a))" "nofloat (PDict (env_payload b))"
  shows "map (jnorm \<circ> snd) (env_payload a) = map (jnorm \<circ> snd) (env_payload b)"
proof (rule canonical_values)
  show "canonical (PDict (env_payload a)) = canonical (PDict (env_payload b))"
    using assms(1,2) by (simp add: compute_env_hash_def no_collision_def)
  show "map fst (env_payload a) = map fst (env_payload b)" "distinct (map fst (env_payload a))"
    by (simp_all add: env_payload_def)
qed (rule assms)+

lemma nofloat_dset: "nofloat (PDict d) \<Longrightarrow> nofloat v \<Longrightarrow> nofloat (PDict (dset d k v))"
  by (induction d k v rule: dset.induct) auto

lemma env_payload_nofloat:
  assumes "observation_plain ob" "nofloat (PDict tools)"
  shows "nofloat (PDict (env_payload (env_inputs_of H ob w tools ts bl)))"
proof -
  have "nofloat (PDict (dset tools ''binding'' (PStr (json_hash H (PDict (binding_payload ob w))))))"
    using assms(2) by (rule nofloat_dset) simp
  with assms(1) show ?thesis by (auto simp: env_payload_def env_inputs_of_def observation_plain_def)
qed

text \<open>
  C23: The environment hash binds the replay tree and the declared harness: without a collision of
  SHA-256 on the texts that are hashed, equal hashes mean equal observations (source manifest, compiler,
  configuration, test file and marked regions), equal harness and wrapper pins, and equal first blocks.
\<close>

theorem environment_hash_binds:
  assumes "environment_hash H s v tools ts bl = environment_hash H t w tools' ts' bl'"
    and "observation_plain s" "observation_plain t"
    and "nofloat (PDict tools)" "nofloat (PDict tools')" "distinct (map fst tools)" "distinct (map fst tools')"
    and "no_collision H (canonical (PDict (env_payload (env_inputs_of H s v tools ts bl))))
      (canonical (PDict (env_payload (env_inputs_of H t w tools' ts' bl'))))"
    and "no_collision H (canonical (PDict (binding_payload s v))) (canonical (PDict (binding_payload t w)))"
  shows "same_environment s v t w \<and> ts = ts' \<and> bl = bl'"
proof -
  note vals = env_payload_values [OF assms(1) [unfolded environment_hash_def] assms(8)
      env_payload_nofloat [OF assms(2,4)] env_payload_nofloat [OF assms(3,5)],
      unfolded env_payload_def list.map comp_apply snd_conv list.inject]
  let ?bind = "\<lambda>ob x. PStr (json_hash H (PDict (binding_payload ob x)))"
  have tools: "jnorm (PDict (dset tools ''binding'' (?bind s v))) = jnorm (PDict (dset tools' ''binding'' (?bind t w)))"
    using vals by (simp add: env_inputs_of_def del: jnorm.simps)
  have "map_option jnorm (map_of (dset tools ''binding'' (?bind s v)) ''binding'') =
      map_option jnorm (map_of (dset tools' ''binding'' (?bind t w)) ''binding'')"
    by (rule jnorm_dict_inj [OF tools]) (simp_all add: assms(6,7) distinct_dset)
  then have "canonical (PDict (binding_payload s v)) = canonical (PDict (binding_payload t w))"
    using assms(9) by (simp add: json_hash_def no_collision_def)
  then have "map (jnorm \<circ> snd) (binding_payload s v) = map (jnorm \<circ> snd) (binding_payload t w)"
    by (rule canonical_values) (simp_all add: binding_payload_def)
  note pins = this [unfolded binding_payload_def list.map comp_apply snd_conv list.inject]
  have libs: "map_of (to_harness_library_hashes s) = map_of (to_harness_library_hashes t)"
    by (rule jnorm_ptexts) (use vals assms(2,3) in \<open>simp_all add: env_inputs_of_def observation_plain_def\<close>)
  from vals pins libs show ?thesis
    by (simp add: same_environment_def env_inputs_of_def)
qed

definition sample_observation_of :: "string \<Rightarrow> tree_observation" where
  "sample_observation_of m = \<lparr>to_compiler = [(''solc'', PStr ''0.8.24'')], to_sanitized_config = [], to_remappings = [],
     to_template_sha256 = ''T'', to_attack_body_sha256 = ''B'', to_wrapper_callsite_sha256 = ''C'',
     to_harness_library_hashes = [], to_deployment_plan_hash = None, to_source_manifest_sha256 = m\<rparr>"

lemma environment_hash_binds_witness:
  "same_environment (sample_observation_of ''m'') (sample_witness ''e'') (sample_observation_of ''m'') (sample_witness ''f'') \<and>
   Some 1 = (Some 1 :: int option) \<and> None = (None :: int option)"
proof (rule environment_hash_binds)
  show "environment_hash sample_host (sample_observation_of ''m'') (sample_witness ''e'') [] (Some 1) None =
    environment_hash sample_host (sample_observation_of ''m'') (sample_witness ''f'') [] (Some 1) None"
    by (simp add: environment_hash_def env_inputs_of_def binding_payload_def sample_witness_def)
  show "no_collision sample_host x y" for x y by (simp add: no_collision_def sample_host_def)
  then show "no_collision sample_host x y" for x y .
qed (simp_all add: observation_plain_def sample_observation_of_def)

section \<open>The source manifest binds\<close>

text \<open>\<open>hexdigest()\<close> of SHA-256: 64 hexadecimal digits.\<close>

definition hex_digests :: "host \<Rightarrow> bool" where
  "hex_digests H = (\<forall>s. length (hs_sha256 H s) = 64 \<and> (\<forall>c \<in> set (hs_sha256 H s). hex_val c \<noteq> None))"

text \<open>The parts of a path: not empty, without slash; and here without a line end.\<close>

definition proper_path :: "string list \<Rightarrow> bool" where
  "proper_path p = (p \<noteq> [] \<and> (\<forall>c \<in> set p. c \<noteq> [] \<and> CHR ''/'' \<notin> set c \<and> CHR 0x0A \<notin> set c))"

lemma append_sep_inj:
  assumes "x @ c # r = y @ c # s" "c \<notin> set x" "c \<notin> set y"
  shows "x = y \<and> r = s"
  using assms
proof (induction x arbitrary: y)
  case Nil
  then show ?case by (cases y) auto
next
  case (Cons a x)
  then show ?case by (cases y) auto
qed

lemma concat_rows_inj:
  assumes "concat (map (\<lambda>r. r @ [c]) rs) = concat (map (\<lambda>r. r @ [c]) qs)"
    and "\<forall>r \<in> set rs. c \<notin> set r" "\<forall>r \<in> set qs. c \<notin> set r"
  shows "rs = qs"
  using assms
proof (induction rs arbitrary: qs)
  case Nil
  then show ?case by (cases qs) auto
next
  case (Cons r rs)
  then obtain q qs' where q: "qs = q # qs'" by (cases qs) auto
  with Cons.prems(1) have "r @ c # concat (map (\<lambda>r. r @ [c]) rs) = q @ c # concat (map (\<lambda>r. r @ [c]) qs')" by simp
  then have "r = q \<and> concat (map (\<lambda>r. r @ [c]) rs) = concat (map (\<lambda>r. r @ [c]) qs')"
    by (rule append_sep_inj) (use Cons.prems(2,3) q in simp_all)
  then show ?case using Cons.IH [of qs'] Cons.prems(2,3) q by simp
qed

lemma join_slash_inj:
  assumes "join ''/'' p = join ''/'' q" "p \<noteq> []" "q \<noteq> []" "\<forall>c \<in> set p. CHR ''/'' \<notin> set c" "\<forall>c \<in> set q. CHR ''/'' \<notin> set c"
  shows "p = q"
  using assms
proof (induction p arbitrary: q)
  case (Cons a p)
  obtain b q' where q: "q = b # q'" using Cons.prems(3) by (cases q) auto
  have one: "CHR ''/'' \<in> set (join ''/'' (x # y # z))" for x y z by (simp add: join_Cons)
  show ?case
  proof (cases p; cases q')
    assume "p = []" "q' = []"
    with Cons.prems q show ?thesis by (simp add: join_Cons)
  next
    fix y z assume "p = []" "q' = y # z"
    with Cons.prems q one [of b y z] show ?thesis by (metis join_Cons append.right_neutral list.set_intros(1))
  next
    fix y z assume "p = y # z" "q' = []"
    with Cons.prems q one [of a y z] show ?thesis by (metis join_Cons append.right_neutral list.set_intros(1))
  next
    fix y z y' z' assume p: "p = y # z" and q': "q' = y' # z'"
    from Cons.prems(1) have "a @ CHR ''/'' # join ''/'' p = b @ CHR ''/'' # join ''/'' q'"
      by (simp add: q p q' join_Cons [of _ a] join_Cons [of _ b])
    then have "a = b" "join ''/'' p = join ''/'' q'"
      using append_sep_inj [of a "CHR ''/''" _ b] Cons.prems(4,5) q by auto
    then show ?thesis using Cons.IH [of q'] Cons.prems(4,5) p q q' by auto
  qed
qed simp

lemma manifest_row_inj:
  assumes "manifest_row H f = manifest_row H g" "hex_digests H" "proper_path (fst f)" "proper_path (fst g)"
  shows "fst f = fst g \<and> hs_sha256 H (snd f) = hs_sha256 H (snd g)"
proof -
  have "length (hs_sha256 H (snd f)) = length (hs_sha256 H (snd g))"
    using assms(2) by (simp add: hex_digests_def)
  then have "join ''/'' (fst f) = join ''/'' (fst g)" "hs_sha256 H (snd f) = hs_sha256 H (snd g)"
    using assms(1) by (auto simp: manifest_row_def)
  then show ?thesis using assms(3,4) join_slash_inj by (auto simp: proper_path_def)
qed

lemma join_set: "c \<in> set (join s p) \<Longrightarrow> c \<in> set s \<or> (\<exists>x \<in> set p. c \<in> set x)"
  by (induction p) (auto simp: join_Cons split: if_splits)

lemma manifest_row_line:
  assumes "hex_digests H" "proper_path (fst f)"
  shows "CHR 0x0A \<notin> set (manifest_row H f)"
proof
  assume "CHR 0x0A \<in> set (manifest_row H f)"
  then have "CHR 0x0A \<in> set (join ''/'' (fst f)) \<or> CHR 0x0A \<in> set (hs_sha256 H (snd f))"
    by (auto simp: manifest_row_def)
  moreover have "hex_val (CHR 0x0A) = None" by code_simp
  ultimately show False
    using assms join_set [of "CHR 0x0A" "''/''" "fst f"] unfolding hex_digests_def proper_path_def by fastforce
qed

text \<open>The tracked files in their order, each with its digest.\<close>

definition tracked_digests :: "host \<Rightarrow> tree \<Rightarrow> (string list \<times> string) list" where
  "tracked_digests H t =
     map (\<lambda>f. (fst f, hs_sha256 H (snd f))) (filter (\<lambda>f. \<not> untracked (fst f)) (sort_key fst t))"

text \<open>
  The source manifest binds the tracked files of a tree: if no file name holds a line end and the
  two manifest texts do not collide, equal manifests mean the same tracked paths with the same digests.
\<close>

lemma source_manifest_binds:
  assumes "source_manifest H s = source_manifest H t" and "no_collision H (manifest_text H s) (manifest_text H t)"
    and "hex_digests H" and "\<forall>f \<in> set s \<union> set t. proper_path (fst f)"
  shows "tracked_digests H s = tracked_digests H t"
proof -
  let ?fs = "\<lambda>u. filter (\<lambda>f. \<not> untracked (fst f)) (sort_key fst u)"
  have rows_of: "manifest_text H u = concat (map (\<lambda>r. r @ [CHR 0x0A]) (map (manifest_row H) (?fs u)))" for u
    by (simp add: manifest_text_def comp_def)
  have "manifest_text H s = manifest_text H t"
    using assms(1,2) by (simp add: source_manifest_def no_collision_def)
  then have rows: "map (manifest_row H) (?fs s) = map (manifest_row H) (?fs t)"
    unfolding rows_of by (rule concat_rows_inj) (use assms(3,4) manifest_row_line in auto)
  have "map (\<lambda>f. (fst f, hs_sha256 H (snd f))) fs = map (\<lambda>f. (fst f, hs_sha256 H (snd f))) gs"
    if "map (manifest_row H) fs = map (manifest_row H) gs" "\<forall>f \<in> set fs. proper_path (fst f)"
      "\<forall>f \<in> set gs. proper_path (fst f)" for fs gs
    using that
  proof (induction fs arbitrary: gs)
    case (Cons f fs)
    then obtain g gs' where g: "gs = g # gs'" by (cases gs) auto
    with Cons.prems have "fst f = fst g \<and> hs_sha256 H (snd f) = hs_sha256 H (snd g)"
      by (intro manifest_row_inj [OF _ assms(3)]) simp_all
    moreover have "map (\<lambda>f. (fst f, hs_sha256 H (snd f))) fs = map (\<lambda>f. (fst f, hs_sha256 H (snd f))) gs'"
      using Cons.prems g by (intro Cons.IH) simp_all
    ultimately show ?case by (simp add: g)
  qed simp
  from this [OF rows] assms(4) show ?thesis by (simp add: tracked_digests_def)
qed

text \<open>A host whose digests are 64 digits: it pads a text of digits.\<close>

definition padded_host :: host where
  "padded_host = sample_host\<lparr>hs_sha256 := (\<lambda>s. replicate 64 (CHR ''0''))\<rparr>"

lemma source_manifest_binds_witness:
  "tracked_digests padded_host [([''a.sol''], ''x''), ([''.env''], ''y'')] =
   tracked_digests padded_host [([''a.sol''], ''x''), ([''out'', ''b''], ''z'')]"
proof (rule source_manifest_binds)
  have r: "manifest_text padded_host [([''a.sol''], ''x''), ([''.env''], ''y'')] =
      manifest_text padded_host [([''a.sol''], ''x''), ([''out'', ''b''], ''z'')]" by code_simp
  then show "source_manifest padded_host [([''a.sol''], ''x''), ([''.env''], ''y'')] =
      source_manifest padded_host [([''a.sol''], ''x''), ([''out'', ''b''], ''z'')]" by (simp add: source_manifest_def)
  from r show "no_collision padded_host (manifest_text padded_host [([''a.sol''], ''x''), ([''.env''], ''y'')])
      (manifest_text padded_host [([''a.sol''], ''x''), ([''out'', ''b''], ''z'')])" by (simp add: no_collision_def)
  have "hex_val (CHR ''0'') \<noteq> None" by code_simp
  then show "hex_digests padded_host" by (simp add: hex_digests_def padded_host_def)
qed (simp add: proper_path_def)

end
