(* ===== verification/Econ.thy ===== *)
theory Econ
  imports FoundryTrace
begin

text \<open>
  \<open>chain/prices.py\<close> and \<open>chain/econ.py\<close>: the valuation of balance changes and its recomputation under
  perturbed prices. Balances, gas and capital are integers and exact; amounts of money are floats, whose
  arithmetic is an argument (the record \<open>floats\<close>): every theorem holds for any operations in its place,
  so in particular for IEEE doubles with their rounding. A Python set is iterated in an order that
  differs between runs; that order is an argument too.
\<close>

section \<open>Floats\<close>

record 'f floats =
  fl_ratio :: "int \<Rightarrow> int \<Rightarrow> 'f" \<comment> \<open>the quotient of two integers\<close>
  fl_add :: "'f \<Rightarrow> 'f \<Rightarrow> 'f"
  fl_sub :: "'f \<Rightarrow> 'f \<Rightarrow> 'f"
  fl_mul :: "'f \<Rightarrow> 'f \<Rightarrow> 'f"
  fl_negative :: "'f \<Rightarrow> bool"
  fl_finite :: "'f \<Rightarrow> bool"
  fl_is_zero :: "'f \<Rightarrow> bool"
  fl_apart :: "'f \<Rightarrow> 'f \<Rightarrow> bool" \<comment> \<open>\<open>abs(a - b) > 1e-12\<close>\<close>

text \<open>\<open>x or 0.0\<close> of an optional float.\<close>

definition or_zero :: "'f floats \<Rightarrow> 'f option \<Rightarrow> 'f" where
  "or_zero F x = (case x of None \<Rightarrow> fl_ratio F 0 1 | Some v \<Rightarrow> if fl_is_zero F v then fl_ratio F 0 1 else v)"

section \<open>Prices\<close>

record 'f price_point =
  pp_asset :: string
  pp_usd_per_unit :: 'f
  pp_decimals :: int
  pp_source :: string
  pp_block :: "int option"
  pp_observed_at :: "string option"

text \<open>The checks of \<open>__post_init__\<close>, which \<open>dataclasses.replace\<close> repeats.\<close>

definition price_point_new :: "'f floats \<Rightarrow> 'f price_point \<Rightarrow> 'f price_point res" where
  "price_point_new F p =
     (if pp_decimals p < 0 \<or> 255 < pp_decimals p then Inl (ValueError ''asset decimals must be in [0,255]'')
      else if fl_negative F (pp_usd_per_unit p) \<or> \<not> fl_finite F (pp_usd_per_unit p) then
        Inl (ValueError ''price must be finite and non-negative'')
      else if strip (pp_source p) = [] then Inl (ValueError ''price source is required'')
      else Inr p)"

definition usd_value :: "'f floats \<Rightarrow> int \<Rightarrow> 'f price_point \<Rightarrow> 'f res" where
  "usd_value F amount p =
     (if amount < 0 then Inl (ValueError ''amount must be non-negative'')
      else Inr (fl_mul F (fl_ratio F amount (10 ^ nat (pp_decimals p))) (pp_usd_per_unit p)))"

definition signed_usd_delta :: "'f floats \<Rightarrow> int \<Rightarrow> 'f price_point \<Rightarrow> 'f res" where
  "signed_usd_delta F delta p =
     map_sum id (fl_mul F (fl_ratio F (if delta < 0 then - 1 else 1) 1)) (usd_value F \<bar>delta\<bar> p)"

definition bps_label :: "int \<Rightarrow> string" where
  "bps_label bps = (if bps = 0 then ''base''
     else if bps < 0 then ''minus_'' @ int_str \<bar>bps\<bar> @ ''bps'' else ''plus_'' @ int_str bps @ ''bps'')"

text \<open>\<open>1.0 + bps / 10_000.0\<close>.\<close>

definition bps_factor :: "'f floats \<Rightarrow> int \<Rightarrow> 'f" where
  "bps_factor F bps = fl_add F (fl_ratio F 1 1) (fl_ratio F bps 10000)"

definition sensitivity_values :: "'f floats \<Rightarrow> 'f \<Rightarrow> int list \<Rightarrow> (string \<times> 'f) list res" where
  "sensitivity_values F base bps =
     (if \<not> fl_finite F base then Inl (ValueError ''base value must be finite'')
      else Inr (map (\<lambda>b. (bps_label b, fl_mul F base (bps_factor F b))) bps))"

definition validate_price_set :: "string list \<Rightarrow> string list \<Rightarrow> unit res" where
  "validate_price_set prices required_assets =
     (let missing = sort (map lower (filter (\<lambda>a. lower a \<notin> set (map lower prices)) required_assets)) in
      if missing \<noteq> [] then Inl (ValueError (''missing prices: '' @ join '', '' missing)) else Inr ())"

section \<open>The base measurement\<close>

record 'f econ_inputs =
  ec_native_before_wei :: int
  ec_native_after_wei :: int
  ec_token_before :: "(string \<times> int) list"
  ec_token_after :: "(string \<times> int) list"
  ec_token_decimals :: "(string \<times> int) list"
  ec_prices :: "(string \<times> 'f price_point) list"
  ec_gas_used :: int
  ec_gas_price_wei :: int
  ec_declared_capital_wei :: int
  ec_observed_capital_wei :: "int option"
  ec_native_price :: "'f price_point option"
  ec_pinned_block :: "int option"
  ec_protocol_assets_delta_wei :: "int option"

record 'f scenario =
  sn_bps :: int
  sn_price_multiplier :: 'f
  sn_net_usd :: 'f
  sn_native_price :: "'f option"
  sn_token_prices :: "(string \<times> 'f) list"

record 'f econ_report =
  er_native_delta_wei :: int
  er_token_deltas :: "(string \<times> int) list"
  er_attacker_gross_usd :: "'f option"
  er_gas_cost_native_wei :: int
  er_gas_cost_usd :: "'f option"
  er_attacker_net_usd :: "'f option"
  er_capital_required_wei :: int
  er_protocol_assets_delta_wei :: "int option"
  er_sensitivity :: "(string \<times> 'f) list"
  er_sensitivity_scenarios :: "(string \<times> 'f scenario) list"
  er_realism_flags :: "string list"
  er_price_sources :: "string list"

definition get_int :: "(string \<times> int) list \<Rightarrow> string \<Rightarrow> int" where
  "get_int d k = (case map_of d k of None \<Rightarrow> 0 | Some i \<Rightarrow> i)"

text \<open>\<open>d[k] = v\<close> on an insertion-ordered dictionary.\<close>

fun put :: "(string \<times> 'b) list \<Rightarrow> string \<Rightarrow> 'b \<Rightarrow> (string \<times> 'b) list" where
  "put [] k v = [(k, v)]"
| "put ((k', v') # d) k v = (if k' = k then (k, v) # d else (k', v') # put d k v)"

text \<open>\<open>set(token_before) | set(token_after)\<close>, iterated in the run's order.\<close>

definition token_keys :: "(string list \<Rightarrow> string list) \<Rightarrow> 'f econ_inputs \<Rightarrow> string list" where
  "token_keys order inp = order (remdups (map fst (ec_token_before inp) @ map fst (ec_token_after inp)))"

definition token_deltas :: "(string list \<Rightarrow> string list) \<Rightarrow> 'f econ_inputs \<Rightarrow> (string \<times> int) list" where
  "token_deltas order inp =
     fold (\<lambda>k d. put d (lower k) (get_int (ec_token_after inp) k - get_int (ec_token_before inp) k)) (token_keys order inp) []"

definition price_of :: "(string \<times> 'f price_point) list \<Rightarrow> string \<Rightarrow> 'f price_point option" where
  "price_of prices asset = map_option snd (find (\<lambda>(k, p). lower k = asset) prices)"

text \<open>The loop over the deltas: the gross value, the flags and the sources.\<close>

record 'f gross_acc =
  ga_gross :: "'f option"
  ga_flags :: "string list"
  ga_sources :: "string list"

definition price_delta :: "'f floats \<Rightarrow> 'f econ_inputs \<Rightarrow> string \<times> int \<Rightarrow> 'f gross_acc \<Rightarrow> 'f gross_acc res" where
  "price_delta F inp ad acc =
     (let (asset, delta) = ad; price = price_of (ec_prices inp) asset; declared = map_of (ec_token_decimals inp) asset in
      case price of
        None \<Rightarrow> Inr (if delta \<noteq> 0 then acc\<lparr>ga_flags := ga_flags acc @ [''price_unavailable:'' @ asset]\<rparr> else acc)
      | Some p \<Rightarrow>
          if declared \<noteq> None \<and> declared \<noteq> Some (pp_decimals p) then
            Inl (ValueError (''price decimals for '' @ asset @ '' do not match declared token decimals''))
          else ebind (signed_usd_delta F delta p) (\<lambda>usd.
            Inr (acc\<lparr>ga_gross := Some (fl_add F (or_zero F (ga_gross acc)) usd),
              ga_sources := ga_sources acc @ [pp_source p]\<rparr>)))"

definition measure_base :: "'f floats \<Rightarrow> (string list \<Rightarrow> string list) \<Rightarrow> 'f econ_inputs \<Rightarrow> 'f econ_report res" where
  "measure_base F order inp =
     (if ec_gas_used inp < 0 \<or> ec_gas_price_wei inp < 0 then
        Inl (ValueError ''gas measurements must be non-negative'')
      else if ec_declared_capital_wei inp < 0 then Inl (ValueError ''declared capital must be non-negative'')
      else
        let native_delta = ec_native_after_wei inp - ec_native_before_wei inp;
            deltas = token_deltas order inp;
            capital = (case ec_observed_capital_wei inp of None \<Rightarrow> ec_declared_capital_wei inp | Some c \<Rightarrow> c);
            flags = (if ec_declared_capital_wei inp < capital then [''declared_capital_understates_observed_capital''] else []);
            gas_wei = ec_gas_used inp * ec_gas_price_wei inp;
            native_usd = (\<lambda>amount. case ec_native_price inp of
              None \<Rightarrow> Inr None | Some p \<Rightarrow> map_sum id Some (signed_usd_delta F amount p))
        in ebind (native_usd gas_wei) (\<lambda>gas_usd. ebind (native_usd native_delta) (\<lambda>gross.
           let flags = flags @ (if ec_native_price inp = None \<and> native_delta \<noteq> 0 then [''native_price_unavailable''] else [])
           in ebind (efold (price_delta F inp) deltas \<lparr>ga_gross = gross, ga_flags = flags, ga_sources = []\<rparr>) (\<lambda>acc.
             let sources = ga_sources acc @ (case ec_native_price inp of None \<Rightarrow> [] | Some p \<Rightarrow> [pp_source p]);
                 net = map_option (\<lambda>g. fl_sub F g (or_zero F gas_usd)) (ga_gross acc)
             in Inr \<lparr>er_native_delta_wei = native_delta, er_token_deltas = deltas,
               er_attacker_gross_usd = ga_gross acc, er_gas_cost_native_wei = gas_wei, er_gas_cost_usd = gas_usd,
               er_attacker_net_usd = net, er_capital_required_wei = capital,
               er_protocol_assets_delta_wei = ec_protocol_assets_delta_wei inp, er_sensitivity = [],
               er_sensitivity_scenarios = [], er_realism_flags = ga_flags acc,
               er_price_sources = sort (remdups sources)\<rparr>))))"

section \<open>The sensitivity scenarios\<close>

definition scaled :: "'f floats \<Rightarrow> 'f \<Rightarrow> 'f price_point \<Rightarrow> 'f price_point res" where
  "scaled F factor p = price_point_new F (p\<lparr>pp_usd_per_unit := fl_mul F (pp_usd_per_unit p) factor\<rparr>)"

definition scenario_label :: "int \<Rightarrow> string" where
  "scenario_label bps = (if bps = - 500 then ''minus_500bps'' else if bps = 0 then ''base'' else ''plus_500bps'')"

definition run_scenario :: "'f floats \<Rightarrow> (string list \<Rightarrow> string list) \<Rightarrow> 'f econ_inputs \<Rightarrow> int \<Rightarrow> 'f scenario res" where
  "run_scenario F order inp bps =
     (let factor = bps_factor F bps in
      ebind (case ec_native_price inp of None \<Rightarrow> Inr None | Some p \<Rightarrow> map_sum id Some (scaled F factor p)) (\<lambda>native.
      ebind (emap (\<lambda>kp. map_sum id (Pair (fst kp)) (scaled F factor (snd kp))) (ec_prices inp)) (\<lambda>prices.
      ebind (measure_base F order (inp\<lparr>ec_native_price := native, ec_prices := prices\<rparr>)) (\<lambda>r.
        case er_attacker_net_usd r of
          None \<Rightarrow> Inl (ValueError (''sensitivity scenario '' @ int_str bps @ '' bps lacks a reproducible USD result''))
        | Some net \<Rightarrow> Inr \<lparr>sn_bps = bps, sn_price_multiplier = factor, sn_net_usd = net,
            sn_native_price = map_option pp_usd_per_unit native,
            sn_token_prices = fold (\<lambda>kp d. put d (lower (fst kp)) (pp_usd_per_unit (snd kp))) prices []\<rparr>))))"

definition measure :: "'f floats \<Rightarrow> (string list \<Rightarrow> string list) \<Rightarrow> 'f econ_inputs \<Rightarrow> int list \<Rightarrow> 'f econ_report res" where
  "measure F order inp bps =
     (if sort (remdups bps) \<noteq> [- 500, 0, 500] then
        Inl (ValueError ''M1b economics requires exactly -500, 0, +500 bps sensitivity scenarios'')
      else ebind (measure_base F order inp) (\<lambda>base.
        if er_attacker_net_usd base = None then Inr base
        else ebind (emap (run_scenario F order inp) bps) (\<lambda>scs.
          Inr (base\<lparr>er_sensitivity := fold (\<lambda>s d. put d (scenario_label (sn_bps s)) (sn_net_usd s)) scs [],
            er_sensitivity_scenarios := fold (\<lambda>s d. put d (scenario_label (sn_bps s)) s) scs []\<rparr>))))"

section \<open>What a report holds\<close>

lemma price_delta_flags:
  "price_delta F inp ad acc = Inr acc' \<Longrightarrow> \<exists>fs. ga_flags acc' = ga_flags acc @ fs \<and> (\<forall>f \<in> set fs. startswith f ''price_unavailable:'')"
  by (auto simp: price_delta_def Let_def ebind_eq_Inr split: prod.splits option.splits if_splits)

lemma price_deltas_flags:
  assumes "efold (price_delta F inp) ds acc = Inr acc'"
  shows "\<exists>fs. ga_flags acc' = ga_flags acc @ fs \<and> (\<forall>f \<in> set fs. startswith f ''price_unavailable:'')"
  by (rule efold_invariant [OF assms, where I = "\<lambda>a. \<exists>fs. ga_flags a = ga_flags acc @ fs \<and>
        (\<forall>f \<in> set fs. startswith f ''price_unavailable:'')"])
    (use price_delta_flags in fastforce)+

definition observed_capital :: "'f econ_inputs \<Rightarrow> int" where
  "observed_capital inp = (case ec_observed_capital_wei inp of None \<Rightarrow> ec_declared_capital_wei inp | Some c \<Rightarrow> c)"

text \<open>The integers of a base report are exact, and no scenario is in it.\<close>

definition base_facts :: "(string list \<Rightarrow> string list) \<Rightarrow> 'f econ_inputs \<Rightarrow> 'f econ_report \<Rightarrow> bool" where
  "base_facts order inp r =
     (0 \<le> ec_gas_used inp \<and> 0 \<le> ec_gas_price_wei inp \<and> 0 \<le> ec_declared_capital_wei inp \<and>
      er_native_delta_wei r = ec_native_after_wei inp - ec_native_before_wei inp \<and>
      er_gas_cost_native_wei r = ec_gas_used inp * ec_gas_price_wei inp \<and>
      er_token_deltas r = token_deltas order inp \<and> er_capital_required_wei r = observed_capital inp \<and>
      er_protocol_assets_delta_wei r = ec_protocol_assets_delta_wei inp \<and>
      (''declared_capital_understates_observed_capital'' \<in> set (er_realism_flags r) \<longleftrightarrow>
         ec_declared_capital_wei inp < observed_capital inp))"

lemma measure_base_facts:
  assumes "measure_base F order inp = Inr r"
  shows "base_facts order inp r" "er_sensitivity r = []" "er_sensitivity_scenarios r = []"
proof -
  let ?flags = "(if ec_declared_capital_wei inp < observed_capital inp
      then [''declared_capital_understates_observed_capital''] else []) @
    (if ec_native_price inp = None \<and> ec_native_after_wei inp - ec_native_before_wei inp \<noteq> 0
      then [''native_price_unavailable''] else [])"
  have guards: "0 \<le> ec_gas_used inp" "0 \<le> ec_gas_price_wei inp" "0 \<le> ec_declared_capital_wei inp"
    using assms by (auto simp: measure_base_def split: if_splits)
  from assms obtain gross acc where acc: "efold (price_delta F inp) (token_deltas order inp)
      \<lparr>ga_gross = gross, ga_flags = ?flags, ga_sources = []\<rparr> = Inr acc"
    and r: "er_realism_flags r = ga_flags acc" "er_native_delta_wei r = ec_native_after_wei inp - ec_native_before_wei inp"
      "er_gas_cost_native_wei r = ec_gas_used inp * ec_gas_price_wei inp" "er_token_deltas r = token_deltas order inp"
      "er_capital_required_wei r = observed_capital inp"
      "er_protocol_assets_delta_wei r = ec_protocol_assets_delta_wei inp"
      "er_sensitivity r = []" "er_sensitivity_scenarios r = []"
    using guards by (auto simp: measure_base_def Let_def ebind_eq_Inr observed_capital_def)
  from price_deltas_flags [OF acc] obtain fs where fs: "er_realism_flags r = ?flags @ fs"
    "\<forall>f \<in> set fs. startswith f ''price_unavailable:''" using r(1) by auto
  have "\<not> startswith ''declared_capital_understates_observed_capital'' ''price_unavailable:''" by simp
  with fs have "''declared_capital_understates_observed_capital'' \<in> set (er_realism_flags r) \<longleftrightarrow>
      ec_declared_capital_wei inp < observed_capital inp" by auto
  with guards r show "base_facts order inp r" by (simp add: base_facts_def)
  from r show "er_sensitivity r = []" "er_sensitivity_scenarios r = []" by simp_all
qed

lemma run_scenario_eq:
  assumes "run_scenario F order inp bps = Inr s"
  shows "sn_bps s = bps" "sn_price_multiplier s = bps_factor F bps"
  using assms by (auto simp: run_scenario_def Let_def ebind_eq_Inr split: option.splits)

text \<open>The three scenarios of a report.\<close>

definition three_scenarios :: "'f floats \<Rightarrow> 'f econ_report \<Rightarrow> bool" where
  "three_scenarios F r =
     (\<exists>a b c. er_sensitivity_scenarios r = [(''minus_500bps'', a), (''base'', b), (''plus_500bps'', c)] \<and>
        er_sensitivity r = [(''minus_500bps'', sn_net_usd a), (''base'', sn_net_usd b), (''plus_500bps'', sn_net_usd c)] \<and>
        sn_bps a = - 500 \<and> sn_bps b = 0 \<and> sn_bps c = 500 \<and>
        sn_price_multiplier a = bps_factor F (- 500) \<and> sn_price_multiplier b = bps_factor F 0 \<and>
        sn_price_multiplier c = bps_factor F 500)"

lemma base_facts_update [simp]:
  "base_facts order inp (r\<lparr>er_sensitivity := x\<rparr>) = base_facts order inp r"
  "base_facts order inp (r\<lparr>er_sensitivity_scenarios := y\<rparr>) = base_facts order inp r"
  by (simp_all add: base_facts_def)

lemma measure_report:
  assumes "measure F order inp [- 500, 0, 500] = Inr r"
  shows "base_facts order inp r"
    "if er_attacker_net_usd r = None then er_sensitivity r = [] \<and> er_sensitivity_scenarios r = []
     else three_scenarios F r"
proof -
  from assms obtain base where base: "measure_base F order inp = Inr base"
    and r: "(if er_attacker_net_usd base = None then Inr base
      else ebind (emap (run_scenario F order inp) [- 500, 0, 500]) (\<lambda>scs.
        Inr (base\<lparr>er_sensitivity := fold (\<lambda>s d. put d (scenario_label (sn_bps s)) (sn_net_usd s)) scs [],
          er_sensitivity_scenarios := fold (\<lambda>s d. put d (scenario_label (sn_bps s)) s) scs []\<rparr>))) = Inr r"
    unfolding measure_def by (auto simp: ebind_eq_Inr split: if_splits)
  note facts = measure_base_facts [OF base]
  show "base_facts order inp r"
    using r facts(1) by (auto simp: ebind_eq_Inr split: if_splits)
  show "if er_attacker_net_usd r = None then er_sensitivity r = [] \<and> er_sensitivity_scenarios r = []
     else three_scenarios F r"
  proof (cases "er_attacker_net_usd base = None")
    case True
    with r facts show ?thesis by auto
  next
    case False
    with r obtain a b c where "run_scenario F order inp (- 500) = Inr a" "run_scenario F order inp 0 = Inr b"
      "run_scenario F order inp 500 = Inr c"
      and r': "r = base\<lparr>er_sensitivity := fold (\<lambda>s d. put d (scenario_label (sn_bps s)) (sn_net_usd s)) [a, b, c] [],
          er_sensitivity_scenarios := fold (\<lambda>s d. put d (scenario_label (sn_bps s)) s) [a, b, c] []\<rparr>"
      by (auto simp: ebind_eq_Inr)
    from this(1-3) [THEN run_scenario_eq(1)] this(1-3) [THEN run_scenario_eq(2)] False r' show ?thesis
      by (simp add: three_scenarios_def scenario_label_def)
  qed
qed

text \<open>
  A measurement that returns has exact integers (balance changes, gas cost, required capital; the
  flag of an understated capital exactly when it is), whatever the float arithmetic and the order of the
  set, and it has the three recomputed scenarios, each with its basis points and multiplier and the
  summary equal to the scenario's net value, exactly when the net value is known.
\<close>

lemma measure_accounting:
  assumes "measure F order inp [- 500, 0, 500] = Inr r"
  shows "base_facts order inp r \<and>
    (if er_attacker_net_usd r = None then er_sensitivity r = [] \<and> er_sensitivity_scenarios r = []
     else three_scenarios F r)"
  using measure_report [OF assms] by blast

text \<open>An instance on integers: amounts in hundredths, quotients rounded down.\<close>

definition int_floats :: "int floats" where
  "int_floats = \<lparr>fl_ratio = (\<lambda>a b. a * 100 div b), fl_add = (+), fl_sub = (-), fl_mul = (\<lambda>a b. a * b div 100),
     fl_negative = (\<lambda>a. a < 0), fl_finite = (\<lambda>a. True), fl_is_zero = (\<lambda>a. a = 0), fl_apart = (\<lambda>a b. a \<noteq> b)\<rparr>"

definition sample_price :: "int price_point" where
  "sample_price = \<lparr>pp_asset = ''native'', pp_usd_per_unit = 200, pp_decimals = 0, pp_source = ''s'',
     pp_block = None, pp_observed_at = None\<rparr>"

definition sample_inputs :: "int econ_inputs" where
  "sample_inputs = \<lparr>ec_native_before_wei = 3, ec_native_after_wei = 7, ec_token_before = [], ec_token_after = [],
     ec_token_decimals = [], ec_prices = [], ec_gas_used = 1, ec_gas_price_wei = 2, ec_declared_capital_wei = 4,
     ec_observed_capital_wei = Some 3, ec_native_price = Some sample_price, ec_pinned_block = None,
     ec_protocol_assets_delta_wei = Some 0\<rparr>"

definition sample_report :: "int econ_report" where
  "sample_report = (case measure int_floats id sample_inputs [- 500, 0, 500] of Inr r \<Rightarrow> r)"

lemma sample_report_eq: "measure int_floats id sample_inputs [- 500, 0, 500] = Inr sample_report"
proof -
  have "(case measure int_floats id sample_inputs [- 500, 0, 500] of Inl _ \<Rightarrow> False | Inr r \<Rightarrow> True)" by code_simp
  then show ?thesis by (auto simp: sample_report_def split: sum.splits)
qed

lemma sample_report_net: "er_attacker_net_usd sample_report = Some 400"
  by code_simp

lemma measure_accounting_witness: "base_facts id sample_inputs sample_report \<and> three_scenarios int_floats sample_report"
  using measure_accounting [OF sample_report_eq] sample_report_net by simp

end
