(* ===== verification/Verifier.thy ===== *)
theory Verifier
  imports Econ Environment
begin

text \<open>
  The checks of \<open>verifier/\<close>: \<open>types.py\<close>, \<open>eligibility.py\<close> (V01), \<open>span_check.py\<close> (V02),
  \<open>cheatcode_policy.py\<close> (V05), \<open>assertion_extract.py\<close> (V06), \<open>harness_integrity.py\<close> (V07),
  \<open>duplicate.py\<close> (V08), \<open>econ_check.py\<close> (V09), \<open>control_run.py\<close> and \<open>flow.py\<close>. YAML documents are
  values; the resolution of a path, with its symbolic links, and the comparison of floats are arguments.
\<close>

section \<open>Results and evidence\<close>

record check_result =
  cr_check_id :: string
  cr_ok :: bool
  cr_code :: "string option"
  cr_hard :: bool
  cr_message :: string
  cr_details :: pdict

definition failing :: "string \<Rightarrow> string \<Rightarrow> string \<Rightarrow> check_result" where
  "failing cid code msg = \<lparr>cr_check_id = cid, cr_ok = False, cr_code = Some code, cr_hard = True,
     cr_message = msg, cr_details = []\<rparr>"

definition passing :: "string \<Rightarrow> string \<Rightarrow> check_result" where
  "passing cid msg = \<lparr>cr_check_id = cid, cr_ok = True, cr_code = None, cr_hard = True,
     cr_message = msg, cr_details = []\<rparr>"

definition details :: "check_result \<Rightarrow> pdict \<Rightarrow> check_result" where
  "details r d = r\<lparr>cr_details := d\<rparr>"

record build_evidence =
  be_clean :: bool
  be_build_stdout :: string
  be_build_stderr :: string
  be_tool_lock_verified :: bool
  be_tool_lock_problems :: "string list"
  be_pinned_compiler :: "string option"
  be_required_tools :: "string list"

record control_evidence =
  co_passed :: bool
  co_matching_assertion :: bool
  co_observed_state_changed :: bool
  co_assertion_event_count :: nat
  co_source :: string

record 'f snapshot_evidence =
  se_native_before_wei :: "int option"
  se_native_after_wei :: "int option"
  se_token_before :: "(string \<times> int) list"
  se_token_after :: "(string \<times> int) list"
  se_gas_used :: "int option"
  se_gas_price_wei :: "int option"
  se_protocol_assets_delta_wei :: "int option"
  se_declared_capital_wei :: int
  se_observed_capital_wei :: "int option"
  se_slippage_bps :: "int option"
  se_sensitivity :: "(string \<times> 'f) list"
  se_sensitivity_scenarios :: "(string \<times> 'f scenario) list"

record harness_evidence =
  he_harness_address :: string
  he_wrapper_address :: string
  he_expected_wrapper_depth :: int
  he_observed_wrapper_depth :: int
  he_observed_runtime_sha256 :: string
  he_expected_runtime_sha256 :: string
  he_observed_source_sha256 :: string
  he_expected_source_sha256 :: string
  he_wrapper_runtime_sha256 :: string
  he_expected_wrapper_runtime_sha256 :: string
  he_wrapper_source_sha256 :: string
  he_expected_wrapper_source_sha256 :: string
  he_create2_deployer :: string
  he_create2_salt :: string
  he_create2_init_code_sha256 :: string
  he_assertion_emitter :: string
  he_assertion_event_depth :: int
  he_assertion_event_caller :: string
  he_observed_actor_addresses :: "string list"
  he_observed_token_addresses :: "string list"
  he_expected_actor_addresses :: "string list"
  he_expected_token_addresses :: "string list"
  he_assertion_event_count :: nat
  he_economic_event_count :: nat
  he_control_event_count :: nat

record 'f economic_evidence =
  ee_snapshot :: "'f snapshot_evidence"
  ee_realism_flags :: "string list"
  ee_pinned_block :: "int option"
  ee_head_replay_passed :: "bool option"
  ee_upstream_state_match :: "bool option"
  ee_production_required :: bool
  ee_price_sources :: "string list"
  ee_sensitivity :: "(string \<times> 'f) list"
  ee_sensitivity_scenarios :: "(string \<times> 'f scenario) list"
  ee_evidence_complete :: bool

record duplicate_evidence =
  du_exact_match_id :: "string option"
  du_near_match_ids :: "string list"

record verification_result =
  vr_passed :: bool
  vr_checks :: "check_result list"
  vr_next_state :: "string option"
  vr_route_reason :: "string option"

definition hard_failures :: "verification_result \<Rightarrow> check_result list" where
  "hard_failures v = filter (\<lambda>c. cr_hard c \<and> \<not> cr_ok c) (vr_checks v)"

definition soft_failures :: "verification_result \<Rightarrow> check_result list" where
  "soft_failures v = filter (\<lambda>c. \<not> cr_hard c \<and> \<not> cr_ok c) (vr_checks v)"

section \<open>V01: eligibility\<close>

text \<open>\<open>str(Path(p))\<close>.\<close>

definition pure_path :: "string \<Rightarrow> string" where
  "pure_path p =
     (let root = (if \<not> startswith p ''/'' then [] else if startswith p ''//'' \<and> \<not> startswith p ''///'' then ''//'' else ''/'');
          s = root @ join ''/'' (path_parts p)
      in if s = [] then ''.'' else s)"

definition under_dir :: "string \<Rightarrow> string \<Rightarrow> bool" where
  "under_dir path dir = (path = dir \<or> startswith path (rstrip_char (CHR ''/'') dir @ ''/''))"

definition path_in_scope :: "string \<Rightarrow> scope \<Rightarrow> bool" where
  "path_in_scope path sc =
     list_ex (\<lambda>t. given (st_path t) \<and> under_dir (pure_path path) (pure_path (the (st_path t)))) (sc_in_scope sc)"

definition known_issue_match :: "hypothesis \<Rightarrow> known_issue \<Rightarrow> string option" where
  "known_issue_match h k =
     (if ki_status k \<in> {''open'', ''accepted''} \<and> (ki_applies_to k = [] \<or> sp_file (h_target h) \<in> set (ki_applies_to k)) then
        (if strip (ki_claim k) = strip (h_claim h) then Some (''matches known issue '' @ ki_id k)
         else if list_ex (\<lambda>s. sp_file s = sp_file (h_target h) \<and> sp_start s \<le> sp_start (h_target h) \<and>
             sp_start (h_target h) \<le> sp_end s) (ki_spans k)
           then Some (''target overlaps known issue '' @ ki_id k)
         else None)
      else None)"

fun first_known :: "hypothesis \<Rightarrow> known_issue list \<Rightarrow> check_result option" where
  "first_known h [] = None"
| "first_known h (k # ks) = (case known_issue_match h k of
     Some m \<Rightarrow> Some (details (failing ''V01'' ''KNOWN_ISSUE'' m) [(''known_issue_id'', PStr (ki_id k))])
   | None \<Rightarrow> first_known h ks)"

definition check_eligibility :: "hypothesis \<Rightarrow> scope \<Rightarrow> known_issue list \<Rightarrow> string option \<Rightarrow> check_result" where
  "check_eligibility h sc issues witness_commit =
     (let file = sp_file (h_target h) in
      if file \<noteq> [] \<and> \<not> path_in_scope file sc then failing ''V01'' ''OUT_OF_SCOPE'' ''target span is outside scope''
      else if file \<noteq> [] \<and> list_ex (under_dir file) (sc_out_of_scope sc) then
        failing ''V01'' ''OUT_OF_SCOPE'' ''target path is explicitly excluded''
      else if h_mechanism_tag h \<in> set (sc_excluded_classes sc) then
        failing ''V01'' ''OUT_OF_SCOPE'' ''mechanism class is excluded''
      else if witness_commit \<noteq> None \<and> witness_commit \<noteq> Some (sc_commit sc) then
        failing ''V01'' ''OUT_OF_SCOPE'' ''witness commit does not match the pinned scope commit''
      else case first_known h issues of
        Some r \<Rightarrow> r
      | None \<Rightarrow>
          let commit = dget_or (h_provenance h) ''commit'' PNone in
          if truthy commit \<and> commit \<noteq> PStr (sc_commit sc) then
            failing ''V01'' ''OUT_OF_SCOPE'' ''hypothesis provenance commit does not match scope commit''
          else passing ''V01'' ''finding is within declared scope'')"

section \<open>V02: the cited span\<close>

text \<open>\<open>str.splitlines(keepends=True)\<close> on the line ends left by text mode.\<close>

definition line_end :: "char \<Rightarrow> bool" where
  "line_end c = (c \<in> {CHR 0x0A, CHR 0x0B, CHR 0x0C, CHR 0x0D, CHR 0x1C, CHR 0x1D, CHR 0x1E})"

fun lines_from :: "string \<Rightarrow> string \<Rightarrow> string list" where
  "lines_from cur [] = (if cur = [] then [] else [rev cur])"
| "lines_from cur (c # s) = (if line_end c then rev (c # cur) # lines_from [] s else lines_from (c # cur) s)"

definition range_hash :: "host \<Rightarrow> string \<Rightarrow> int \<Rightarrow> int \<Rightarrow> string res" where
  "range_hash H file first last_line =
     (let ls = lines_from [] file in
      if first < 1 \<or> int (length ls) < last_line then Inl (IndexError ''span line range outside file'')
      else Inr (hs_sha256 H (concat (drop (nat (first - 1)) (take (nat last_line) ls)))))"

definition check_span :: "host \<Rightarrow> (string \<Rightarrow> string list option) \<Rightarrow> tree \<Rightarrow> span \<Rightarrow> check_result" where
  "check_span H resolve t s =
     (case resolve (sp_file s) of
        None \<Rightarrow> failing ''V02'' ''SPAN_DRIFT'' ''span escapes pinned checkout''
      | Some parts \<Rightarrow> (case map_of t parts of
          None \<Rightarrow> failing ''V02'' ''SPAN_DRIFT'' ''cited file does not exist''
        | Some file \<Rightarrow> (case range_hash H (universal_newlines file) (sp_start s) (sp_end s) of
            Inl e \<Rightarrow> failing ''V02'' ''SPAN_DRIFT'' (''cannot read cited span: '' @ exc_msg e)
          | Inr actual \<Rightarrow>
              if actual \<noteq> sp_sha256 s then
                details (failing ''V02'' ''SPAN_DRIFT'' ''cited span hash does not match pinned checkout'')
                  [(''expected'', PStr (sp_sha256 s)), (''actual'', PStr actual)]
              else passing ''V02'' ''cited span exists and hash-matches'')))"

section \<open>V05: the cheatcode policy\<close>

definition policy_hash :: "host \<Rightarrow> pv \<Rightarrow> pv \<Rightarrow> string" where
  "policy_hash H policy catalog = hs_sha256 H (canonical (PDict
     [(''policy'', por policy (PDict [])), (''catalog'', por catalog (PDict []))]))"

definition config_fragments :: "string list" where
  "config_fragments = [''ffi = false'', ''fs_permissions = []'', ''l0vi0x_gate ='']"

definition policy_calls :: "cheatcode_call list \<Rightarrow> check_result" where
  "policy_calls cs =
     (case find (\<lambda>c. cc_category c = ''UNCLASSIFIED'' \<or> cc_category c = [] \<or> cc_name c \<in> {''hoax'', ''startHoax''}) cs of
        None \<Rightarrow> passing ''V05'' ''structured trace passes authoritative cheatcode policy''
      | Some c \<Rightarrow>
          if cc_category c = ''UNCLASSIFIED'' \<or> cc_category c = [] then
            failing ''V05'' ''POLICY_VIOLATION'' ''unclassified cheatcode''
          else failing ''V05'' ''POLICY_VIOLATION''
            ''opaque hoax helper is forbidden; structured trace must expose its deal+prank effects'')"

text \<open>
  The config's text is \<^term>\<open>None\<close> when no path is given, and an \<open>OSError\<close> when it cannot be read; the
  policy is its document, or the exception of reading it. An exception that is
  neither a \<open>TracePolicyError\<close> nor one of reading escapes.
\<close>

definition caught_policy_error :: "exc \<Rightarrow> bool" where
  "caught_policy_error e = (case e of TracePolicyError _ \<Rightarrow> True | FileNotFoundError _ \<Rightarrow> True
     | PermissionError _ \<Rightarrow> True | OSError _ \<Rightarrow> True | YAMLError _ \<Rightarrow> True | _ \<Rightarrow> False)"

definition policy_document :: "pv \<Rightarrow> pdict res" where
  "policy_document doc = (case por doc (PDict []) of
     PDict d \<Rightarrow> (case dget_or d ''rules'' (PDict []) of PDict rules \<Rightarrow> Inr rules | _ \<Rightarrow> Inl (AttributeError ''get''))
   | _ \<Rightarrow> Inl (AttributeError ''get''))"

definition check_policy :: "trace_summary option \<Rightarrow> string \<Rightarrow> pv res \<Rightarrow> string res option \<Rightarrow> int option \<Rightarrow> check_result res" where
  "check_policy tr wclass policy config fork_block =
     (case tr of
        None \<Rightarrow> Inr (failing ''V05'' ''TRACE_MISSING'' ''authoritative structured trace is missing'')
      | Some s \<Rightarrow> (case config of
          Some (Inl e) \<Rightarrow> Inr (failing ''V05'' ''POLICY_VIOLATION'' (''sanitized Foundry config unavailable: '' @ exc_msg e))
        | _ \<Rightarrow>
          if (case config of Some (Inr body) \<Rightarrow> list_ex (\<lambda>f. \<not> contains body f) config_fragments | _ \<Rightarrow> False) then
            Inr (failing ''V05'' ''POLICY_VIOLATION'' ''sanitized Foundry config is missing fail-closed security settings'')
          else (case ebind policy (\<lambda>doc. ebind (policy_document doc) (\<lambda>rules.
                  enforce_cheatcode_policy s wclass rules fork_block)) of
              Inr _ \<Rightarrow> Inr (policy_calls (ts_cheatcodes s))
            | Inl e \<Rightarrow>
                if caught_policy_error e then
                  Inr (failing ''V05'' (if contains (lower (exc_msg e)) ''harness'' then ''HARNESS_TAMPERED'' else ''POLICY_VIOLATION'')
                    (exc_msg e))
                else Inl e)))"

section \<open>V06: the assertions\<close>

text \<open>
  The table of relations is built before the operator is looked up, so every comparison must be defined:
  numbers with numbers and texts with texts, else \<open>TypeError\<close>. A comparison with a float is an argument.
\<close>

fun pv_number :: "pv \<Rightarrow> int option" where
  "pv_number (PInt i) = Some i"
| "pv_number (PBool b) = Some (if b then 1 else 0)"
| "pv_number v = None"

definition relation_of :: "string \<Rightarrow> bool \<Rightarrow> bool \<Rightarrow> bool \<Rightarrow> bool option" where
  "relation_of op same below holds =
     map_of [(''eq'', same), (''neq'', \<not> same), (''gt'', \<not> same \<and> \<not> below), (''gte'', same \<or> \<not> below), (''lt'', below),
       (''lte'', below \<or> same), (''holds'', holds), (''violated'', \<not> holds)] op"

definition relation :: "(string \<Rightarrow> pv \<Rightarrow> pv \<Rightarrow> bool option) \<Rightarrow> string \<Rightarrow> pv \<Rightarrow> pv \<Rightarrow> bool option" where
  "relation float_rel op observed expected =
     (case (observed, expected) of
        (PStr a, PStr b) \<Rightarrow> relation_of op (a = b) (a < b) (a \<noteq> [])
      | (PFloat r n, _) \<Rightarrow> if pv_number expected = None then None else float_rel op observed expected
      | _ \<Rightarrow> (case (pv_number observed, pv_number expected) of
          (Some a, Some b) \<Rightarrow> relation_of op (a = b) (a < b) (a \<noteq> 0)
        | _ \<Rightarrow> None))"

definition same_text :: "pdict \<Rightarrow> string \<Rightarrow> string \<Rightarrow> bool" where
  "same_text event key s = (py_str (dget_or event key PNone) = s)"

definition same_party :: "pdict \<Rightarrow> string \<Rightarrow> string option \<Rightarrow> bool" where
  "same_party event key who = (case who of None \<Rightarrow> True
     | Some s \<Rightarrow> lower (py_str (dget_or event key (PStr []))) = lower s)"

definition assertion_matches :: "(string \<Rightarrow> pv \<Rightarrow> pv \<Rightarrow> bool option) \<Rightarrow> witness_assertion \<Rightarrow> pdict \<Rightarrow> bool" where
  "assertion_matches float_rel a event =
     (same_text event ''id'' (wa_id a) \<and> same_text event ''kind'' (wa_kind a) \<and> same_text event ''target'' (wa_target a) \<and>
      same_text event ''expected'' (py_str (wa_expected a)) \<and>
      same_party event ''actor'' (wa_actor a) \<and> same_party event ''token'' (wa_token a) \<and>
      wa_observed_record a = ''AssertionChecked'' \<and> dhas event ''observed'' \<and>
      truthy (dget_or event ''ok'' PNone) \<and>
      relation float_rel (wa_operator a) (dget_or event ''observed'' PNone) (wa_expected a) = Some True)"

definition check_assertion :: "(string \<Rightarrow> pv \<Rightarrow> pv \<Rightarrow> bool option) \<Rightarrow> witness \<Rightarrow> pdict list \<Rightarrow> control_evidence option \<Rightarrow> check_result" where
  "check_assertion float_rel w events control =
     (let required = required_assertions w in
      if length events \<noteq> length required then
        failing ''V06'' ''ASSERT_MISMATCH'' ''attack replay assertion-event count does not exactly match required assertions''
      else case find (\<lambda>a. length (filter (assertion_matches float_rel a) events) \<noteq> 1) required of
        Some a \<Rightarrow> failing ''V06'' ''ASSERT_MISMATCH'' (''declared assertion '' @ wa_id a @ '' was not uniquely observed'')
      | None \<Rightarrow> (case control of
          None \<Rightarrow> failing ''V06'' ''ASSERT_VACUOUS'' ''control run is missing or failed''
        | Some c \<Rightarrow>
            if \<not> co_passed c then failing ''V06'' ''ASSERT_VACUOUS'' ''control run is missing or failed''
            else if co_matching_assertion c \<or> co_observed_state_changed c then
              failing ''V06'' ''ASSERT_VACUOUS'' ''control run reproduces the claimed state-changing effect''
            else passing ''V06'' ''declared assertions match exactly and disappear under the mechanically observed control''))"

section \<open>V07: the identity of the harness\<close>

definition lowered :: "string list \<Rightarrow> string set" where
  "lowered vs = set (map lower vs)"

definition identity_texts :: "harness_evidence \<Rightarrow> string list" where
  "identity_texts h =
     [he_harness_address h, he_wrapper_address h, he_create2_deployer h, he_create2_salt h,
      he_create2_init_code_sha256 h, he_assertion_emitter h, he_assertion_event_caller h,
      he_observed_runtime_sha256 h, he_expected_runtime_sha256 h, he_observed_source_sha256 h,
      he_expected_source_sha256 h, he_wrapper_runtime_sha256 h, he_expected_wrapper_runtime_sha256 h,
      he_wrapper_source_sha256 h, he_expected_wrapper_source_sha256 h]"

definition harness_problem :: "harness_evidence \<Rightarrow> string \<Rightarrow> 'f economic_evidence \<Rightarrow> (string \<times> string) option" where
  "harness_problem h witness_address e =
     (let tampered = (\<lambda>m. Some (''HARNESS_TAMPERED'', m)) in
      if [] \<in> set (identity_texts h) then tampered ''mandatory harness identity evidence is absent''
      else if lower (he_harness_address h) \<noteq> lower witness_address then
        tampered ''observed harness address differs from witness declaration''
      else if he_observed_runtime_sha256 h \<noteq> he_expected_runtime_sha256 h \<or>
          he_observed_source_sha256 h \<noteq> he_expected_source_sha256 h then
        tampered ''harness source/runtime hash mismatch''
      else if he_wrapper_runtime_sha256 h \<noteq> he_expected_wrapper_runtime_sha256 h \<or>
          he_wrapper_source_sha256 h \<noteq> he_expected_wrapper_source_sha256 h then
        tampered ''wrapper source/runtime hash mismatch''
      else if he_observed_wrapper_depth h \<noteq> he_expected_wrapper_depth h then
        tampered ''wrapper/harness call depth mismatch''
      else if lower (he_assertion_emitter h) \<noteq> lower (he_harness_address h) \<or>
          lower (he_assertion_event_caller h) \<noteq> lower (he_wrapper_address h) then
        tampered ''AssertionChecked origin is not the declared harness/wrapper''
      else if he_assertion_event_count h \<noteq> 1 then
        tampered ''exactly one assertion event is required for this witness''
      else if he_economic_event_count h \<noteq> 1 then
        Some (''ECON_INCOMPLETE'', ''exactly one economic snapshot is required'')
      else if he_control_event_count h \<noteq> 1 then
        tampered ''exactly one mechanically observed control event is required''
      else if \<not> lowered (he_expected_actor_addresses h) \<subseteq> lowered (he_observed_actor_addresses h) then
        Some (''COVERAGE_INCOMPLETE'', ''declared actor coverage is incomplete'')
      else if \<not> lowered (he_expected_token_addresses h) \<subseteq> lowered (he_observed_token_addresses h) then
        Some (''COVERAGE_INCOMPLETE'', ''declared token coverage is incomplete'')
      else if \<not> ee_evidence_complete e then Some (''ECON_INCOMPLETE'', ''economic evidence is incomplete'')
      else if se_gas_used (ee_snapshot e) = None \<or> se_gas_price_wei (ee_snapshot e) = None then
        Some (''ECON_INCOMPLETE'', ''gas evidence is missing'')
      else None)"

definition check_harness :: "harness_evidence option \<Rightarrow> trace_summary option \<Rightarrow> string \<Rightarrow> 'f economic_evidence option \<Rightarrow>
    check_result" where
  "check_harness harness tr witness_address economics =
     (case (harness, tr, economics) of
        (Some h, Some _, Some e) \<Rightarrow> (case harness_problem h witness_address e of
          Some (code, msg) \<Rightarrow> failing ''V07'' code msg
        | None \<Rightarrow> passing ''V07''
            ''CREATE2, bytecode, source, wrapper, event origin, coverage and economic-boundary evidence are verified'')
      | _ \<Rightarrow> failing ''V07'' ''HARNESS_TAMPERED'' ''derived harness/economic evidence is missing'')"

section \<open>V08: duplicates\<close>

definition soft :: "check_result \<Rightarrow> check_result" where
  "soft r = r\<lparr>cr_hard := False\<rparr>"

definition check_duplicate :: "duplicate_evidence option \<Rightarrow> check_result" where
  "check_duplicate evidence = soft (case evidence of
     None \<Rightarrow> passing ''V08'' ''duplicate evidence not supplied; pre-check is unavailable''
   | Some e \<Rightarrow>
       if given (du_exact_match_id e) then
         details (failing ''V08'' ''LIKELY_DUPLICATE'' (''exact duplicate of '' @ the (du_exact_match_id e)))
           [(''duplicate_id'', opt_pstr (du_exact_match_id e))]
       else if du_near_match_ids e \<noteq> [] then
         details (failing ''V08'' ''LIKELY_DUPLICATE'' ''near-duplicate candidate requires human review'')
           [(''near_matches'', pstrs (du_near_match_ids e))]
       else passing ''V08'' ''no canonical duplicate match'')"

section \<open>V09: the economics\<close>

definition EXPECTED_BPS :: "(string \<times> int) list" where
  "EXPECTED_BPS = [(''minus_500bps'', - 500), (''base'', 0), (''plus_500bps'', 500)]"

definition scenario_problem :: "'f floats \<Rightarrow> 'f economic_evidence \<Rightarrow> string \<times> int \<Rightarrow> (string \<times> string) option" where
  "scenario_problem F e lb =
     (case (map_of (ee_sensitivity_scenarios e) (fst lb), map_of (ee_sensitivity e) (fst lb)) of
        (Some s, Some v) \<Rightarrow>
          if sn_bps s \<noteq> snd lb then Some (''SENSITIVITY_INVALID'', fst lb @ '' has the wrong sensitivity basis'')
          else if \<not> fl_finite F (sn_net_usd s) then
            Some (''ECON_INCOMPLETE'', fst lb @ '' lacks a finite independently-derived net USD result'')
          else if fl_apart F (sn_net_usd s) v then
            Some (''SENSITIVITY_INVALID'', fst lb @ '' summary does not match the retained scenario result'')
          else None
      | _ \<Rightarrow> Some (''SENSITIVITY_INVALID'', fst lb @ '' has the wrong sensitivity basis''))"

fun first_problem :: "('a \<Rightarrow> 'b option) \<Rightarrow> 'a list \<Rightarrow> 'b option" where
  "first_problem f [] = None"
| "first_problem f (x # xs) = (case f x of None \<Rightarrow> first_problem f xs | Some p \<Rightarrow> Some p)"

definition production_problem :: "'f economic_evidence \<Rightarrow> (string \<times> string) option" where
  "production_problem e =
     (if se_protocol_assets_delta_wei (ee_snapshot e) = None then
        Some (''ECON_INCOMPLETE'', ''protocol asset delta is required for production verification'')
      else if ee_head_replay_passed e \<noteq> Some True then
        Some (''HEAD_REPLAY_FAIL'', ''production replay must explicitly reproduce at head'')
      else if ee_upstream_state_match e \<noteq> Some True then
        Some (''UPSTREAM_STATE_MISMATCH'', ''independent provider state match must be explicitly confirmed'')
      else None)"

definition snapshot_problem :: "'f snapshot_evidence \<Rightarrow> (string \<times> string) option" where
  "snapshot_problem s =
     (case (se_native_before_wei s, se_native_after_wei s, se_gas_used s, se_gas_price_wei s, se_observed_capital_wei s) of
        (Some _, Some _, Some gas, Some price, Some observed) \<Rightarrow>
          if gas < 0 \<or> price < 0 \<or> se_declared_capital_wei s < 0 \<or> observed < 0 then
            Some (''ECON_INCOMPLETE'', ''economic integer evidence is invalid'')
          else if se_declared_capital_wei s < observed then
            Some (''CAPITAL_MISMATCH'', ''observed capital exceeds declared attacker capital'')
          else None
      | _ \<Rightarrow> Some (''ECON_INCOMPLETE'', ''native snapshots, gas, gas price and observed capital are required''))"

definition econ_problem :: "'f floats \<Rightarrow> 'f economic_evidence \<Rightarrow> bool \<Rightarrow> (string \<times> string) option" where
  "econ_problem F e production =
     (let labels = set (map fst EXPECTED_BPS) in
      if \<not> ee_evidence_complete e then
        Some (''ECON_INCOMPLETE'', ''economic evidence did not satisfy the mandatory evidence contract'')
      else case snapshot_problem (ee_snapshot e) of Some p \<Rightarrow> Some p
      | None \<Rightarrow>
        if set (map fst (ee_sensitivity e)) \<noteq> labels \<or> set (map fst (ee_sensitivity_scenarios e)) \<noteq> labels then
          Some (''SENSITIVITY_INCOMPLETE'', ''mandatory +/-5% sensitivity scenarios are missing'')
        else case first_problem (scenario_problem F e) EXPECTED_BPS of Some p \<Rightarrow> Some p
        | None \<Rightarrow>
          if list_ex (\<lambda>kv. \<not> fl_finite F (snd kv)) (ee_sensitivity e) then
            Some (''ECON_INCOMPLETE'', ''sensitivity contains non-finite values'')
          else if production then production_problem e else None)"

definition check_econ :: "'f floats \<Rightarrow> ('f \<Rightarrow> pv) \<Rightarrow> 'f economic_evidence option \<Rightarrow> bool \<Rightarrow> 'f option \<Rightarrow> check_result" where
  "check_econ F float_pv evidence production impact =
     (case evidence of
        None \<Rightarrow> failing ''V09'' ''ECON_INCOMPLETE'' ''economic evidence is unavailable''
      | Some e \<Rightarrow> (case econ_problem F e production of
          Some (code, msg) \<Rightarrow> failing ''V09'' code msg
        | None \<Rightarrow>
            details (passing ''V09''
              ''mandatory economic snapshots, actual gas price, capital, pricing basis and sensitivity evidence pass'')
            [(''severity_basis'', PStr (if impact \<noteq> None then ''pinned_block'' else ''native_or_unmapped'')),
             (''pinned_block_impact_usd'', case impact of None \<Rightarrow> PNone | Some f \<Rightarrow> float_pv f),
             (''pinned_block'', opt_pint (ee_pinned_block e)),
             (''gas_used'', opt_pint (se_gas_used (ee_snapshot e))),
             (''gas_price_wei'', opt_pint (se_gas_price_wei (ee_snapshot e))),
             (''sensitivity'', PDict (map (\<lambda>kv. (fst kv, float_pv (snd kv))) (ee_sensitivity e)))]))"

section \<open>The control run\<close>

definition dict_logs :: "string \<Rightarrow> trace_summary \<Rightarrow> pdict list res" where
  "dict_logs event s =
     ebind (emap (\<lambda>v. case v of PDict d \<Rightarrow> Inr d | _ \<Rightarrow> Inl (AttributeError ''get'')) (concat (map tf_logs (ts_frames s))))
       (\<lambda>logs. Inr (filter (is_event event) logs))"

definition event_id :: "pdict \<Rightarrow> string" where
  "event_id e = py_str (dget_or e ''id'' PNone)"

definition required_ids :: "witness \<Rightarrow> string set" where
  "required_ids w = set (map wa_id (required_assertions w))"

text \<open>\<open>control_run.derive\<close> and \<open>derived.derive_control\<close> differ in the assertions they refuse.\<close>

definition control_evidence_of :: "(trace_summary \<Rightarrow> bool) \<Rightarrow> string \<Rightarrow> trace_summary \<Rightarrow> witness \<Rightarrow> control_evidence res" where
  "control_evidence_of refused msg control w =
     ebind (dict_logs ''ControlObserved'' control) (\<lambda>events.
       if length events \<noteq> card (required_ids w) then
         Inl (ValueError ''control evidence must contain exactly one ControlObserved event per required assertion'')
       else if set (map event_id events) \<noteq> required_ids w then
         Inl (ValueError ''control event IDs do not match the required assertion IDs'')
       else if refused control then Inl (ValueError msg)
       else Inr \<lparr>co_passed = True, co_matching_assertion = False,
         co_observed_state_changed = list_ex (\<lambda>e. truthy (dget_or e ''state_changed'' PNone)) events,
         co_assertion_event_count = length (ts_assertion_events control), co_source = ''derived''\<rparr>)"

definition control_run_derive :: "trace_summary \<Rightarrow> trace_summary \<Rightarrow> witness \<Rightarrow> control_evidence res" where
  "control_run_derive attack control w =
     control_evidence_of (\<lambda>c. ts_assertion_events c \<noteq> [])
       ''control run unexpectedly emitted an AssertionChecked event'' control w"

definition derive_control :: "trace_summary \<Rightarrow> trace_summary \<Rightarrow> witness \<Rightarrow> control_evidence res" where
  "derive_control attack control w =
     control_evidence_of (\<lambda>c. list_ex (\<lambda>e. event_id e \<in> required_ids w) (ts_assertion_events c))
       ''control run unexpectedly emitted the attack assertion'' control w"

definition build_control_evidence :: "bool \<Rightarrow> pdict list \<Rightarrow> bool \<Rightarrow> string \<Rightarrow> control_evidence" where
  "build_control_evidence passed events changed source =
     \<lparr>co_passed = passed, co_matching_assertion = list_ex (\<lambda>e. truthy (dget_or e ''ok'' PNone)) events,
      co_observed_state_changed = changed, co_assertion_event_count = length events, co_source = source\<rparr>"

section \<open>Routing a failure\<close>

definition FIXABLE_FAILURE_CODES :: "string list" where
  "FIXABLE_FAILURE_CODES = [''POLICY_VIOLATION'', ''ASSERT_MISMATCH'', ''ASSERT_VACUOUS'', ''COVERAGE_INCOMPLETE'',
     ''HARNESS_TAMPERED'', ''TRACE_MISSING'', ''ECON_INCOMPLETE'', ''HEAD_REPLAY_FAIL'']"

definition FATAL_FAILURE_CODES :: "string list" where
  "FATAL_FAILURE_CODES = [''OUT_OF_SCOPE'', ''KNOWN_ISSUE'', ''SPAN_DRIFT'', ''UPSTREAM_STATE_MISMATCH'']"

definition route_verification_failure :: "string \<Rightarrow> string \<Rightarrow> string" where
  "route_verification_failure current code =
     (if code = ''NONDETERMINISTIC_ENV'' \<or> code \<in> set FIXABLE_FAILURE_CODES then
        (if current \<in> {''CONFIRMED'', ''INVESTIGATING''} then ''INVESTIGATING'' else current)
      else if code = ''NONDETERMINISTIC_TRACE'' then ''PARKED''
      else if code = ''KNOWN_ISSUE'' then ''CLOSED_DUPLICATE''
      else if code \<in> {''OUT_OF_SCOPE'', ''SPAN_DRIFT'', ''UPSTREAM_STATE_MISMATCH'', ''MECHANICALLY_REFUTED''} then ''CLOSED''
      else if code \<in> {''LIKELY_DUPLICATE'', ''FRAGILE'', ''PROVENANCE_UNCLEAR'', ''REFUTED_JUDGMENT'', ''INCONCLUSIVE''} then
        ''FINDING''
      else current)"

end
