(* ===== verification/Derived.thy ===== *)
theory Derived
  imports Verifier Certificates
begin

text \<open>
  \<open>verifier/derived.py\<close>: the evidence that the verifier derives by itself from a retained replay: the
  loading of a run with the hashes of its artifacts, the control, the identity of the harness and the
  economics. A run is a resolved directory, as the parts of its path, and its tree of files; resolving a
  path below a directory, \<open>json.loads\<close> and the float operations are arguments.
\<close>

section \<open>The surroundings\<close>

record 'f world =
  wo_host :: host
  wo_loads :: "string \<Rightarrow> pv option"
  wo_tree :: "string list \<Rightarrow> tree"
  wo_resolve :: "string list \<Rightarrow> string \<Rightarrow> string list option" \<comment> \<open>the parts below the directory, if inside\<close>
  wo_floats :: "'f floats"
  wo_to_float :: "pv \<Rightarrow> 'f res"
  wo_float_pv :: "'f \<Rightarrow> pv"
  wo_float_rel :: "string \<Rightarrow> pv \<Rightarrow> pv \<Rightarrow> bool option"
  wo_order :: "string list \<Rightarrow> string list" \<comment> \<open>the iteration order of a set\<close>

text \<open>\<open>json.loads\<close>; the text of its exception contains none of the words the pipeline looks for.\<close>

definition json_loads :: "'f world \<Rightarrow> string \<Rightarrow> pv res" where
  "json_loads W s = (case wo_loads W s of None \<Rightarrow> Inl (JSONDecodeError ''Expecting value'') | Some v \<Rightarrow> Inr v)"

text \<open>\<open>int(d[k])\<close>.\<close>

definition int_item :: "pdict \<Rightarrow> string \<Rightarrow> int res" where
  "int_item d k = ebind (need d k) py_int"

definition path_text :: "string list \<Rightarrow> string" where
  "path_text parts = ''/'' @ join ''/'' parts"

section \<open>Loading a run\<close>

record derived_run =
  dr_root :: "string list"
  dr_tree :: tree
  dr_trace :: trace_summary
  dr_control_trace :: trace_summary
  dr_control_hash :: string
  dr_environment_hash :: string
  dr_environment :: pdict

fun strip_duration :: "pv \<Rightarrow> pv" where
  "strip_duration (PDict d) =
     PDict (concat (map (\<lambda>kv. if fst kv = ''duration'' then [] else [(fst kv, strip_duration (snd kv))]) d))"
| "strip_duration (PList vs) = PList (map strip_duration vs)"
| "strip_duration v = v"

definition control_hash_from_raw :: "'f world \<Rightarrow> string \<Rightarrow> string res" where
  "control_hash_from_raw W raw = ebind (json_loads W raw) (\<lambda>v.
     if is_dict v then Inr (json_hash (wo_host W) (strip_duration v))
     else Inl (ValueError ''control artifact is not an object''))"

text \<open>\<open>sorted((root / "artifacts").glob("run-*"))\<close>.\<close>

definition artifact_dirs :: "tree \<Rightarrow> string list" where
  "artifact_dirs t = sort (remdups (concat (map (\<lambda>f. case fst f of
     a # d # _ \<Rightarrow> if a = ''artifacts'' \<and> startswith d ''run-'' then [d] else [] | _ \<Rightarrow> []) t)))"

definition ARTIFACTS :: "string list" where
  "ARTIFACTS = [''trace.json'', ''control.json'', ''control-trace.json'', ''environment.json'', ''trace.sha256'',
     ''control.sha256'', ''control-trace.sha256'', ''environment.sha256'']"

definition artifact_text :: "tree \<Rightarrow> string \<Rightarrow> string \<Rightarrow> string" where
  "artifact_text t dir name = (case map_of t [''artifacts'', dir, name] of None \<Rightarrow> [] | Some b \<Rightarrow> universal_newlines b)"

text \<open>The environment: the observation is checked against the declaration and hashed again.\<close>

definition load_environment :: "'f world \<Rightarrow> tree \<Rightarrow> witness \<Rightarrow> string \<Rightarrow> string \<Rightarrow> (pdict \<times> string) res" where
  "load_environment W t w env_raw env_sha =
     ebind (json_loads W env_raw) (\<lambda>v. case v of
       PDict env \<Rightarrow>
         let declared = py_str (dget_or env ''environment_hash'' (PStr [])) in
         ebind (ebind (need env ''observation'') to_dict) (\<lambda>ob_dict.
         ebind (observation_from_dict ob_dict) (\<lambda>ob.
         ebind (check_declaration (wo_host W) ob w (Some t)) (\<lambda>_.
         ebind (to_dict (por (dget_or env ''tool_versions'' PNone) (PDict []))) (\<lambda>tools.
         ebind (int_item env ''initial_timestamp'') (\<lambda>ts.
         ebind (int_item env ''initial_block'') (\<lambda>bl.
           if environment_hash (wo_host W) ob w tools (Some ts) (Some bl) \<noteq> declared then
             Inl (ValueError ''environment artifact hash mismatch'')
           else if strip env_sha \<noteq> declared then Inl (ValueError ''environment hash file mismatch'')
           else Inr (env, declared)))))))
     | _ \<Rightarrow> Inl (ValueError ''environment artifact is not an object''))"

definition load_run :: "'f world \<Rightarrow> string list \<Rightarrow> witness \<Rightarrow> (string \<times> string) list \<Rightarrow> derived_run res" where
  "load_run W root w catalog =
     (let t = wo_tree W root; H = wo_host W in
      case artifact_dirs t of
        [dir] \<Rightarrow>
          (let text = artifact_text t dir in
           case find (\<lambda>n. map_of t [''artifacts'', dir, n] = None) ARTIFACTS of
             Some n \<Rightarrow> Inl (ValueError (''required replay artifact missing: '' @ path_text (root @ [''artifacts'', dir, n])))
           | None \<Rightarrow>
             if strip (text ''trace.sha256'') \<noteq> hs_sha256 H (text ''trace.json'') then
               Inl (ValueError ''trace artifact hash mismatch'')
             else ebind (control_hash_from_raw W (text ''control.json'')) (\<lambda>control_hash.
               if strip (text ''control.sha256'') \<noteq> control_hash then
                 Inl (ValueError ''control artifact hash mismatch'')
               else if strip (text ''control-trace.sha256'') \<noteq> hs_sha256 H (text ''control-trace.json'') then
                 Inl (ValueError ''control trace artifact hash mismatch'')
               else
                 ebind (ebind (json_loads W (text ''trace.json'')) (\<lambda>v. parse_trace H (wo_loads W) (InObj v) catalog)) (\<lambda>tr.
                 ebind (ebind (json_loads W (text ''control-trace.json'')) (\<lambda>v. parse_trace H (wo_loads W) (InObj v) catalog)) (\<lambda>ctl.
                 ebind (load_environment W t w (text ''environment.json'') (text ''environment.sha256'')) (\<lambda>(env, env_hash).
                   Inr \<lparr>dr_root = root, dr_tree = t, dr_trace = tr, dr_control_trace = ctl,
                     dr_control_hash = control_hash, dr_environment_hash = env_hash, dr_environment = env\<rparr>)))))
      | _ \<Rightarrow> Inl (ValueError (''expected exactly one retained replay artifact directory under '' @ path_text root)))"

section \<open>Compiled artifacts\<close>

definition path_stem :: "string \<Rightarrow> string" where
  "path_stem name = take (length name - length (path_suffix name)) name"

text \<open>\<open>sorted((root / "out").rglob(stem + ".json"))\<close>, with the texts of the files.\<close>

definition artifact_candidates :: "tree \<Rightarrow> string \<Rightarrow> string list" where
  "artifact_candidates t stem =
     map snd (sort_key fst (filter (\<lambda>f. case fst f of
       a # rest \<Rightarrow> a = ''out'' \<and> rest \<noteq> [] \<and> last rest = stem @ ''.json'' | [] \<Rightarrow> False) t))"

text \<open>Whether one candidate is compiled from the source; unreadable ones are passed over.\<close>

definition artifact_match :: "'f world \<Rightarrow> string \<Rightarrow> string \<Rightarrow> string \<Rightarrow> pdict option res" where
  "artifact_match W source_path stem raw =
     (case wo_loads W (universal_newlines raw) of
        None \<Rightarrow> Inr None
      | Some (PDict data) \<Rightarrow>
          (let m = dget_or data ''metadata'' PNone;
               metadata = (case m of PStr s \<Rightarrow> wo_loads W s | _ \<Rightarrow> Some m) in
           case metadata of
             Some (PDict md) \<Rightarrow> ebind (get_get md ''settings'' ''compilationTarget'' (PDict [])) (\<lambda>target. case target of
               PDict d \<Rightarrow> Inr (if dget_or d source_path PNone = PStr stem then Some data else None)
             | _ \<Rightarrow> Inl (AttributeError ''get''))
           | _ \<Rightarrow> Inr None)
      | _ \<Rightarrow> Inl (AttributeError ''get''))"

definition artifact_contract :: "'f world \<Rightarrow> string list \<Rightarrow> tree \<Rightarrow> string \<Rightarrow> (string \<times> pdict) res" where
  "artifact_contract W root t source_path =
     (case wo_resolve W root source_path of
        None \<Rightarrow> Inl (ValueError (''artifact escapes trust root: '' @ source_path))
      | Some parts \<Rightarrow> (case map_of t parts of
          None \<Rightarrow> Inl (FileNotFoundError source_path)
        | Some source \<Rightarrow>
            let stem = path_stem (last parts); candidates = artifact_candidates t stem in
            if candidates = [] then Inl (ValueError (''missing Foundry artifact for '' @ source_path))
            else ebind (emap (artifact_match W source_path stem) candidates) (\<lambda>found.
              case concat (map (\<lambda>x. case x of None \<Rightarrow> [] | Some d \<Rightarrow> [d]) found) of
                [artifact] \<Rightarrow> Inr (hs_sha256 (wo_host W) source, artifact)
              | found \<Rightarrow> Inl (ValueError (''expected exactly one compiled artifact for '' @ source_path @ '', found '' @
                  nat_str (length found))))))"

definition runtime_hash :: "host \<Rightarrow> pdict \<Rightarrow> string \<Rightarrow> string res" where
  "runtime_hash H artifact field =
     (let bad = Inl (ValueError (''artifact has no '' @ field @ ''.object'')) in
      case dget_or artifact field PNone of
        PDict d \<Rightarrow> (case dget_or d ''object'' PNone of
          PStr s \<Rightarrow> if startswith s ''0x'' then
              (case from_hex (drop 2 s) of None \<Rightarrow> bad_hex | Some b \<Rightarrow> Inr (hs_sha256 H b)) else bad
        | _ \<Rightarrow> bad)
      | _ \<Rightarrow> bad)"

section \<open>The harness\<close>

definition val_err :: "string \<Rightarrow> 'a res" where
  "val_err m = Inl (ValueError m)"

definition harness_create :: "string \<Rightarrow> trace_frame \<Rightarrow> bool" where
  "harness_create harness f =
     (tf_phase f = ''setup'' \<and> lower (tf_kind f) = ''create2'' \<and>
      lower (case tf_to f of None \<Rightarrow> [] | Some s \<Rightarrow> s) = harness)"

text \<open>The assertion's origin: the first event against the declaration.\<close>

definition assertion_origin :: "pdict list \<Rightarrow> witness \<Rightarrow> (string \<times> string \<times> int) res" where
  "assertion_origin events w =
     (case events of
        [] \<Rightarrow> val_err ''no AssertionChecked event in replay''
      | first # _ \<Rightarrow>
          if length events \<noteq> length (required_assertions w) then val_err ''unexpected AssertionChecked event count''
          else
            let harness = lower (py_str (dget_or first ''emitter'' (PStr [])));
                wrapper = lower (py_str (dget_or first ''caller'' (PStr []))) in
            if harness = [] \<or> wrapper = [] then val_err ''AssertionChecked lacks emitter/caller''
            else if harness \<noteq> lower (w_harness_address w) then val_err ''observed harness address differs from witness''
            else if given (w_wrapper_address w) \<and> wrapper \<noteq> lower (the (w_wrapper_address w)) then
              val_err ''observed wrapper address differs from witness''
            else ebind (py_int (dget_or first ''depth'' (PInt (- 1)))) (\<lambda>depth.
              if depth \<noteq> w_expected_wrapper_depth w then val_err ''AssertionChecked depth differs from witness''
              else Inr (harness, wrapper, depth)))"

text \<open>The deployment: the pinned deployer and the hash of the init code.\<close>

definition harness_deployment :: "host \<Rightarrow> trace_summary \<Rightarrow> witness \<Rightarrow> string \<Rightarrow> (string \<times> string) res" where
  "harness_deployment H tr w harness =
     (case filter (harness_create harness) (ts_frames tr) of
        [create] \<Rightarrow>
          if \<not> truthy (tf_caller create) \<or> \<not> truthy (tf_data create) then
            val_err ''harness CREATE2 lacks deployer/init code''
          else (case tf_caller create of
            PStr caller \<Rightarrow>
              let deployer = lower caller in
              if \<not> given (w_harness_create2_deployer w) \<or> deployer \<noteq> lower (the (w_harness_create2_deployer w)) then
                val_err ''harness deployer is not the pinned deployer''
              else (case tf_data create of
                PStr data \<Rightarrow> (case from_hex (drop 2 data) of
                  None \<Rightarrow> bad_hex
                | Some init_code \<Rightarrow>
                    if given (w_harness_init_code_sha256 w) \<and> Some (hs_sha256 H init_code) \<noteq> w_harness_init_code_sha256 w then
                      val_err ''harness CREATE2 init-code hash mismatch''
                    else ebind (assert_harness_address H deployer (w_harness_create2_salt w) init_code harness) (\<lambda>expected.
                      if lower expected \<noteq> harness then val_err ''CREATE2 recomputation failed''
                      else Inr (deployer, hs_sha256 H init_code)))
              | _ \<Rightarrow> Inl (TypeError ''fromhex() argument must be str''))
          | _ \<Rightarrow> Inl (AttributeError ''lower''))
      | _ \<Rightarrow> val_err ''expected exactly one harness CREATE2'')"

text \<open>Source and runtime of a declared contract; \<open>what\<close> is the word of the messages.\<close>

definition contract_identity :: "'f world \<Rightarrow> derived_run \<Rightarrow> string \<Rightarrow> string \<Rightarrow> string \<Rightarrow> string option \<Rightarrow>
    (string \<times> string) res" where
  "contract_identity W run what source_path source_sha256 runtime_sha256 =
     ebind (artifact_contract W (dr_root run) (dr_tree run) source_path) (\<lambda>(source_hash, artifact).
       if source_hash \<noteq> source_sha256 then val_err (what @ '' source hash mismatch'')
       else ebind (runtime_hash (wo_host W) artifact ''deployedBytecode'') (\<lambda>runtime.
         if \<not> given runtime_sha256 \<or> Some runtime \<noteq> runtime_sha256 then val_err (what @ '' runtime hash mismatch'')
         else Inr (source_hash, runtime)))"

text \<open>The actors and tokens seen in assertions, transfers and economic snapshots.\<close>

definition observed_actors :: "trace_summary \<Rightarrow> pdict list \<Rightarrow> string list" where
  "observed_actors tr snapshots =
     concat (map (\<lambda>e. let a = dget_or e ''actor'' PNone in if truthy a then [lower (py_str a)] else []) (ts_assertion_events tr)) @
     concat (map (\<lambda>t. [lower (tt_from t), lower (tt_to t)]) (ts_transfers tr)) @
     map (\<lambda>l. lower (py_str (dget_or l ''actor'' (PStr [])))) snapshots"

definition observed_tokens :: "trace_summary \<Rightarrow> pdict list \<Rightarrow> string list" where
  "observed_tokens tr snapshots =
     map (\<lambda>t. lower (tt_token t)) (ts_transfers tr) @
     map (\<lambda>l. lower (py_str (dget_or l ''token'' (PStr [])))) snapshots"

definition sorted_set :: "string list \<Rightarrow> string list" where
  "sorted_set xs = sort (remdups xs)"

definition token_flow :: "(trace_transfer \<Rightarrow> string) \<Rightarrow> trace_transfer list \<Rightarrow> string \<Rightarrow> string \<Rightarrow> int" where
  "token_flow party ts token actor =
     sum_list (map tt_amount (filter (\<lambda>t. lower (tt_token t) = token \<and> lower (party t) = actor) ts))"

definition check_balance_delta :: "trace_transfer list \<Rightarrow> witness_assertion \<Rightarrow> unit res" where
  "check_balance_delta ts a =
     (case (wa_actor a, wa_token a) of
        (Some actor, Some token) \<Rightarrow>
          if wa_kind a \<noteq> ''balance_delta'' then Inr ()
          else ebind (py_int (wa_expected a)) (\<lambda>expected.
            if token_flow tt_to ts (lower token) (lower actor) - token_flow tt_from ts (lower token) (lower actor) \<noteq> expected then
              val_err ''token transfer flow does not support the declared balance delta''
            else Inr ())
      | _ \<Rightarrow> Inr ())"

definition derive_harness :: "'f world \<Rightarrow> derived_run \<Rightarrow> witness \<Rightarrow> harness_evidence res" where
  "derive_harness W run w =
     (let tr = dr_trace run; H = wo_host W in
      ebind (assertion_origin (ts_assertion_events tr) w) (\<lambda>(harness, wrapper, depth).
      ebind (harness_deployment H tr w harness) (\<lambda>(deployer, init_hash).
      if \<not> given (w_harness_source_path w) \<or> \<not> given (w_harness_source_sha256 w) then
        val_err ''harness source path/hash must be declared''
      else ebind (contract_identity W run ''harness'' (the (w_harness_source_path w))
          (the (w_harness_source_sha256 w)) (w_harness_runtime_sha256 w)) (\<lambda>(source, runtime).
      if \<not> given (w_wrapper_address w) \<or> \<not> given (w_wrapper_source_path w) \<or>
          \<not> given (w_wrapper_source_sha256 w) \<or> \<not> given (w_wrapper_runtime_sha256 w) then
        val_err ''wrapper identity/source/runtime declaration is incomplete''
      else ebind (contract_identity W run ''wrapper'' (the (w_wrapper_source_path w))
          (the (w_wrapper_source_sha256 w)) (w_wrapper_runtime_sha256 w)) (\<lambda>(wsource, wruntime).
      ebind (dict_logs ''EconomicSnapshot'' tr) (\<lambda>snapshots.
        let actors = observed_actors tr snapshots; tokens = observed_tokens tr snapshots in
        if \<not> lowered (w_declared_actors w) \<subseteq> set actors then
          val_err ''COVERAGE_INCOMPLETE: declared actor was not observed''
        else if \<not> lowered (w_declared_tokens w) \<subseteq> set tokens then
          val_err ''COVERAGE_INCOMPLETE: declared token was not observed''
        else ebind (dict_logs ''ControlObserved'' (dr_control_trace run)) (\<lambda>controls.
          if length controls \<noteq> length (required_assertions w) then
            val_err ''control event count does not match required assertions''
          else ebind (emap (check_balance_delta (ts_transfers tr)) (required_assertions w)) (\<lambda>_.
            Inr \<lparr>he_harness_address = harness, he_wrapper_address = wrapper,
              he_expected_wrapper_depth = w_expected_wrapper_depth w, he_observed_wrapper_depth = depth,
              he_observed_runtime_sha256 = runtime, he_expected_runtime_sha256 = the (w_harness_runtime_sha256 w),
              he_observed_source_sha256 = source, he_expected_source_sha256 = the (w_harness_source_sha256 w),
              he_wrapper_runtime_sha256 = wruntime, he_expected_wrapper_runtime_sha256 = the (w_wrapper_runtime_sha256 w),
              he_wrapper_source_sha256 = wsource, he_expected_wrapper_source_sha256 = the (w_wrapper_source_sha256 w),
              he_create2_deployer = deployer, he_create2_salt = lower (w_harness_create2_salt w),
              he_create2_init_code_sha256 = init_hash, he_assertion_emitter = harness,
              he_assertion_event_depth = depth, he_assertion_event_caller = wrapper,
              he_observed_actor_addresses = sorted_set actors, he_observed_token_addresses = sorted_set tokens,
              he_expected_actor_addresses = sorted_set (map lower (w_declared_actors w)),
              he_expected_token_addresses = sorted_set (map lower (w_declared_tokens w)),
              he_assertion_event_count = length (ts_assertion_events tr),
              he_economic_event_count = length snapshots, he_control_event_count = length controls\<rparr>))))))))"

section \<open>The economics\<close>

definition price_point_of :: "'f world \<Rightarrow> int option \<Rightarrow> string \<times> pv \<Rightarrow> 'f price_point res" where
  "price_point_of W fork_block ar =
     (case snd ar of
        PDict raw \<Rightarrow>
          ebind (ebind (need raw ''usd_per_unit'') (wo_to_float W)) (\<lambda>usd.
          ebind (int_item raw ''decimals'') (\<lambda>decimals.
          ebind (need raw ''source'') (\<lambda>source.
          ebind (let b = dget_or raw ''block'' PNone in if b \<noteq> PNone then map_sum id Some (py_int b) else Inr fork_block) (\<lambda>block.
            let o_at = dget_or raw ''observed_at'' PNone in
            price_point_new (wo_floats W) \<lparr>pp_asset = lower (fst ar), pp_usd_per_unit = usd, pp_decimals = decimals,
              pp_source = py_str source, pp_block = block,
              pp_observed_at = (if o_at \<noteq> PNone then Some (py_str o_at) else None)\<rparr>))))
      | _ \<Rightarrow> Inl (ValueError (''invalid price point for '' @ fst ar)))"

text \<open>The native price and the prices of the tokens.\<close>

definition collect_prices :: "'f world \<Rightarrow> int option \<Rightarrow> pv \<Rightarrow>
    ('f price_point option \<times> (string \<times> 'f price_point) list) res" where
  "collect_prices W fork_block sources =
     (case por sources (PDict []) of
        PDict d \<Rightarrow> efold (\<lambda>ar (native, prices). ebind (price_point_of W fork_block ar) (\<lambda>p.
          Inr (if pp_asset p = ''native'' then (Some p, prices) else (native, put prices (pp_asset p) p)))) d (None, [])
      | _ \<Rightarrow> Inl (AttributeError ''items''))"

definition snapshot_of :: "derived_run \<Rightarrow> pdict \<Rightarrow> string \<Rightarrow> int \<Rightarrow> 'f snapshot_evidence res" where
  "snapshot_of run snap token gas_price =
     ebind (int_item snap ''native_before'') (\<lambda>nb. ebind (int_item snap ''native_after'') (\<lambda>na.
     ebind (int_item snap ''token_before'') (\<lambda>tb. ebind (int_item snap ''token_after'') (\<lambda>ta.
     ebind (int_item snap ''protocol_assets_delta'') (\<lambda>pa. ebind (int_item snap ''declared_capital'') (\<lambda>dc.
       Inr \<lparr>se_native_before_wei = Some nb, se_native_after_wei = Some na, se_token_before = [(token, tb)],
         se_token_after = [(token, ta)], se_gas_used = Some (ts_gas_used (dr_trace run)),
         se_gas_price_wei = Some gas_price, se_protocol_assets_delta_wei = Some pa, se_declared_capital_wei = dc,
         se_observed_capital_wei = Some nb, se_slippage_bps = None, se_sensitivity = [],
         se_sensitivity_scenarios = []\<rparr>))))))"

definition econ_inputs_of :: "'f snapshot_evidence \<Rightarrow> witness \<Rightarrow> 'f price_point option \<Rightarrow> (string \<times> 'f price_point) list \<Rightarrow>
    int \<Rightarrow> 'f econ_inputs" where
  "econ_inputs_of s w native prices gas_price =
     \<lparr>ec_native_before_wei = the (se_native_before_wei s), ec_native_after_wei = the (se_native_after_wei s),
      ec_token_before = se_token_before s, ec_token_after = se_token_after s,
      ec_token_decimals = w_token_decimals w, ec_prices = prices, ec_gas_used = the (se_gas_used s),
      ec_gas_price_wei = gas_price, ec_declared_capital_wei = se_declared_capital_wei s,
      ec_observed_capital_wei = se_observed_capital_wei s, ec_native_price = native,
      ec_pinned_block = w_fork_block w, ec_protocol_assets_delta_wei = se_protocol_assets_delta_wei s\<rparr>"

definition economic_evidence_of :: "'f snapshot_evidence \<Rightarrow> witness \<Rightarrow> 'f econ_report \<Rightarrow> 'f economic_evidence" where
  "economic_evidence_of s w r =
     (let labels = set (map fst EXPECTED_BPS) in
      \<lparr>ee_snapshot = s\<lparr>se_protocol_assets_delta_wei := er_protocol_assets_delta_wei r,
         se_sensitivity := er_sensitivity r, se_sensitivity_scenarios := er_sensitivity_scenarios r\<rparr>,
       ee_realism_flags = er_realism_flags r, ee_pinned_block = w_fork_block w,
       ee_head_replay_passed = None, ee_upstream_state_match = None, ee_production_required = False,
       ee_price_sources = er_price_sources r, ee_sensitivity = er_sensitivity r,
       ee_sensitivity_scenarios = er_sensitivity_scenarios r,
       ee_evidence_complete = (set (map fst (er_sensitivity r)) = labels \<and>
         set (map fst (er_sensitivity_scenarios r)) = labels)\<rparr>)"

definition derive_economics :: "'f world \<Rightarrow> derived_run \<Rightarrow> witness \<Rightarrow> pv \<Rightarrow> 'f economic_evidence res" where
  "derive_economics W run w sources =
     ebind (dict_logs ''EconomicSnapshot'' (dr_trace run)) (\<lambda>snapshots. case snapshots of
       [snap] \<Rightarrow>
         ebind (need snap ''token'') (\<lambda>tok. let token = lower (py_str tok) in
         ebind (collect_prices W (w_fork_block w) sources) (\<lambda>(native, prices).
         ebind (py_int (dget_or (dr_environment run) ''gas_price_wei'' (PInt (- 1)))) (\<lambda>gas_price.
         ebind (snapshot_of run snap token gas_price) (\<lambda>s.
           if gas_price < 0 then val_err ''actual gas price was not observed''
           else ebind (measure (wo_floats W) (wo_order W) (econ_inputs_of s w native prices gas_price) [- 500, 0, 500]) (\<lambda>r.
             Inr (economic_evidence_of s w r))))))
     | _ \<Rightarrow> val_err ''exactly one EconomicSnapshot is required'')"

end
