(* ===== verification/Pipeline.thy ===== *)
theory Pipeline
  imports Derived Lifecycle
begin

text \<open>
  \<open>verifier/pipeline.py\<close>: the verification of a hypothesis and its witness against retained replays. The
  checks run in order and the first hard failure decides the route; an exception that the code does not
  catch is the result \<^const>\<open>Inl\<close>. The external build is an argument of the context.
\<close>

section \<open>The context\<close>

record replay_evidence =
  re_root :: "string list"
  re_run_dirs :: "string list list"
  re_certificate :: "certificate option"
  re_certificate_key :: "string option"

text \<open>
  Paths of documents are the documents themselves, or the exception of reading them: \<open>vc_policy\<close> is read
  from the given path or the shipped default, and \<open>vc_policy_given\<close> says whether a path was given.
\<close>

record 'f verification_context =
  vc_root :: "string list"
  vc_hypothesis :: hypothesis
  vc_scope :: scope
  vc_witness :: witness
  vc_known_issues :: "known_issue list"
  vc_replay :: "replay_evidence option"
  vc_build :: "build_evidence option"
  vc_forge_build :: "(bool \<times> string \<times> string) res"
  vc_duplicate :: "duplicate_evidence option"
  vc_production_l7_required :: bool
  vc_policy :: "pv res"
  vc_policy_given :: bool
  vc_catalog :: "pv res option"
  vc_tool_lock_given :: bool
  vc_prices :: "pv res option"
  vc_pinned_impact_usd :: "'f option"
  vc_require_certificate :: bool

definition is_failure :: "check_result \<Rightarrow> bool" where
  "is_failure c = (cr_hard c \<and> \<not> cr_ok c)"

definition failure_result :: "check_result list \<Rightarrow> string option \<Rightarrow> verification_result" where
  "failure_result checks code =
     (let route = (\<lambda>state reason. \<lparr>vr_passed = False, vr_checks = checks, vr_next_state = Some state, vr_route_reason = Some reason\<rparr>) in
      if code = Some ''NONDETERMINISTIC_ENV'' then route ''INVESTIGATING'' ''repair:NONDETERMINISTIC_ENV''
      else if code = Some ''NONDETERMINISTIC_TRACE'' then route ''PARKED'' ''characterize_conditional_trigger''
      else if code = Some ''KNOWN_ISSUE'' then route ''CLOSED_DUPLICATE'' ''KNOWN_ISSUE''
      else if code = Some ''OUT_OF_SCOPE'' \<or> code = Some ''SPAN_DRIFT'' then route ''CLOSED'' (the code)
      else route ''INVESTIGATING'' (''repair:'' @ (if given code then the code else ''verification_failure'')))"

section \<open>V03: the build\<close>

definition v03 :: "'f verification_context \<Rightarrow> check_result res" where
  "v03 ctx =
     (case vc_build ctx of
        Some b \<Rightarrow> Inr (
          if \<not> be_clean b then
            failing ''V03'' ''BUILD_FAIL'' (if be_build_stderr b = [] then ''pinned build failed'' else be_build_stderr b)
          else if \<not> be_tool_lock_verified b then
            details (failing ''V03'' ''BUILD_FAIL'' ''tool lock is not verified'') [(''problems'', pstrs (be_tool_lock_problems b))]
          else passing ''V03'' ''project builds cleanly under the verified toolchain'')
      | None \<Rightarrow> (case vc_forge_build ctx of
          Inl e \<Rightarrow> Inr (failing ''V03'' ''BUILD_FAIL'' (exc_msg e))
        | Inr (passed, out, err) \<Rightarrow>
            if \<not> passed then Inr (failing ''V03'' ''BUILD_FAIL'' (if err = [] then out else err))
            else if vc_tool_lock_given ctx then Inl (AttributeError ''NoneType has no attribute required_tools'')
            else Inr (passing ''V03'' ''forge build succeeded'')))"

section \<open>Derived runs\<close>

definition catalog_of :: "'f verification_context \<Rightarrow> (string \<times> string) list res" where
  "catalog_of ctx =
     (case vc_catalog ctx of
        None \<Rightarrow> val_err ''current cheatcode catalog is required''
      | Some doc \<Rightarrow> ebind doc (\<lambda>v. case por v (PDict []) of
          PDict raw \<Rightarrow> (case dget_or raw ''categories'' (PDict raw) of
            PDict categories \<Rightarrow> Inr (map (\<lambda>kv. (fst kv, py_str (snd kv))) categories)
          | _ \<Rightarrow> val_err ''cheatcode catalog is malformed'')
        | _ \<Rightarrow> Inl (AttributeError ''get'')))"

definition derived_runs :: "'f world \<Rightarrow> 'f verification_context \<Rightarrow> derived_run list res" where
  "derived_runs W ctx =
     (case vc_replay ctx of
        None \<Rightarrow> val_err ''replay evidence is missing''
      | Some r \<Rightarrow>
          if length (re_run_dirs r) < 3 then val_err ''at least three independent replay directories are required''
          else emap (\<lambda>dir.
            if \<not> is_relative_to dir (re_root r) then val_err ''replay run escapes declared replay trust root''
            else ebind (catalog_of ctx) (load_run W dir (vc_witness ctx))) (re_run_dirs r))"

text \<open>The code of a derivation that failed, from the words of its message.\<close>

definition derivation_code :: "string \<Rightarrow> string" where
  "derivation_code msg =
     (let lowered = lower msg in
      if list_ex (contains lowered) [''trace'', ''structured'', ''json'', ''artifact''] then ''TRACE_MISSING''
      else if contains lowered ''environment'' then ''ENV_DECLARATION_MISMATCH''
      else ''CERTIFICATE_INVALID'')"

section \<open>V04: agreement and the certificate\<close>

definition records_aggregate :: "host \<Rightarrow> string list \<Rightarrow> string" where
  "records_aggregate H records = hs_sha256 H (canonical (pstrs records))"

definition expected_policy :: "'f world \<Rightarrow> 'f verification_context \<Rightarrow> string option res" where
  "expected_policy W ctx =
     (case vc_catalog ctx of
        Some catalog \<Rightarrow>
          if vc_policy_given ctx then
            ebind (vc_policy ctx) (\<lambda>p. ebind catalog (\<lambda>c. Inr (Some (policy_hash (wo_host W) p c))))
          else Inr None
      | None \<Rightarrow> Inr None)"

definition certificate_problem :: "'f world \<Rightarrow> witness \<Rightarrow> replay_evidence \<Rightarrow> string \<Rightarrow> string \<Rightarrow> string \<Rightarrow>
    string option \<Rightarrow> string option" where
  "certificate_problem W w r env_hash aggregate control_sha policy =
     (case (re_certificate r, re_certificate_key r) of
        (Some cert, Some key) \<Rightarrow>
          if ce_runs cert < 3 \<or> ce_env_hash cert \<noteq> env_hash \<or> ce_control_sha256 cert \<noteq> control_sha \<or>
              ce_observed_records_sha256 cert \<noteq> aggregate then
            Some ''certificate binding does not match independently derived evidence''
          else if policy \<noteq> None \<and> policy \<noteq> Some (ce_trace_policy_sha256 cert) then
            Some ''certificate policy hash does not match current policy/catalog''
          else if \<not> verify_cert (wo_host W) cert key (witness_hash (wo_host W) w) env_hash (Some aggregate)
              (Some (ce_trace_policy_sha256 cert)) (Some control_sha) None then
            Some ''certificate MAC does not verify against derived evidence''
          else None
      | _ \<Rightarrow> Some ''final verification requires a certificate and host verification key'')"

definition v04 :: "'f world \<Rightarrow> 'f verification_context \<Rightarrow> replay_evidence \<Rightarrow> derived_run list \<Rightarrow> check_result res" where
  "v04 W ctx r runs =
     (let environments = map dr_environment_hash runs; controls = map dr_control_hash runs;
          records = map (\<lambda>run. summary_sha256 (wo_host W) (dr_trace run)) runs in
      if length (remdups environments) \<noteq> 1 then
        Inr (failing ''V04'' ''NONDETERMINISTIC_ENV'' ''environment hashes differ across fresh copies'')
      else if length (remdups records) \<noteq> 1 then
        Inr (failing ''V04'' ''NONDETERMINISTIC_TRACE'' ''structured observed records differ with a stable environment'')
      else if length (remdups controls) \<noteq> 1 then
        Inr (failing ''V04'' ''CONTROL_NONDETERMINISTIC'' ''control hashes differ across fresh copies'')
      else if hd environments \<noteq> w_env_hash (vc_witness ctx) then
        Inr (failing ''V04'' ''ENV_DECLARATION_MISMATCH'' ''derived environment does not match witness declaration'')
      else
        let aggregate = records_aggregate (wo_host W) records in
        ebind (expected_policy W ctx) (\<lambda>policy. Inr (
          case (if vc_require_certificate ctx
                then certificate_problem W (vc_witness ctx) r (hd environments) aggregate (hd controls) policy else None) of
            Some msg \<Rightarrow> failing ''V04'' ''CERTIFICATE_INVALID'' msg
          | None \<Rightarrow> details (passing ''V04'' ''three fresh replay roots agree and all replay evidence is independently derived'')
              [(''environment_hash'', PStr (hd environments)), (''observed_records_sha256'', PStr aggregate),
               (''control_sha256'', PStr (hd controls))])))"

section \<open>The pipeline\<close>

definition load_prices :: "'f verification_context \<Rightarrow> pv res" where
  "load_prices ctx =
     (case vc_prices ctx of
        None \<Rightarrow> Inr (PDict [])
      | Some doc \<Rightarrow> ebind doc (\<lambda>v. case v of
          PDict d \<Rightarrow> Inr (dget_or d ''prices'' (PDict d))
        | _ \<Rightarrow> val_err ''price evidence must be an object''))"

text \<open>A failure stops the run; otherwise the next step sees the checks so far.\<close>

definition continue :: "check_result list \<Rightarrow> check_result \<Rightarrow> (check_result list \<Rightarrow> verification_result res) \<Rightarrow>
    verification_result res" where
  "continue checks c k = (if is_failure c then Inr (failure_result (checks @ [c]) (cr_code c)) else k (checks @ [c]))"

definition finish :: "check_result list \<Rightarrow> verification_result" where
  "finish checks = \<lparr>vr_passed = True, vr_checks = checks, vr_next_state = Some ''FINDING'',
     vr_route_reason = Some (case find (\<lambda>c. \<not> cr_hard c \<and> \<not> cr_ok c) checks of
       Some c \<Rightarrow> ''human_review:'' @ (case cr_code c of None \<Rightarrow> ''None'' | Some s \<Rightarrow> s)
     | None \<Rightarrow> ''all_m1b_checks_pass'')\<rparr>"

definition verify_derived :: "'f world \<Rightarrow> 'f verification_context \<Rightarrow> derived_run \<Rightarrow> check_result list \<Rightarrow>
    verification_result res" where
  "verify_derived W ctx run checks =
     (let w = vc_witness ctx; tr = dr_trace run in
      case map_of (dr_tree run) [''foundry.toml''] of
        None \<Rightarrow> (let c = failing ''V05'' ''POLICY_VIOLATION'' ''authoritative sanitized Foundry config is missing from the replay root''
                 in Inr (failure_result (checks @ [c]) (cr_code c)))
      | Some config \<Rightarrow>
        ebind (check_policy (Some tr) (witness_class_value (w_witness_class w)) (vc_policy ctx)
          (Some (Inr (universal_newlines config))) (w_fork_block w)) (\<lambda>c5. continue checks c5 (\<lambda>checks.
        ebind (derive_control tr (dr_control_trace run) w) (\<lambda>control.
        continue checks (check_assertion (wo_float_rel W) w (ts_assertion_events tr) (Some control)) (\<lambda>checks.
        case derive_harness W run w of
          Inl e \<Rightarrow> continue checks (failing ''V07'' ''HARNESS_TAMPERED''
            (''cannot independently derive harness evidence: '' @ exc_msg e)) (\<lambda>checks. Inr (finish checks))
        | Inr harness \<Rightarrow> (case ebind (load_prices ctx) (derive_economics W run w) of
            Inl e \<Rightarrow> continue checks (failing ''V09'' ''ECON_INCOMPLETE''
              (''cannot independently derive economic evidence: '' @ exc_msg e)) (\<lambda>checks. Inr (finish checks))
          | Inr economics \<Rightarrow>
              continue checks (check_harness (Some harness) (Some tr) (w_harness_address w) (Some economics)) (\<lambda>checks.
              let checks = checks @ [check_duplicate (vc_duplicate ctx)] in
              continue checks (check_econ (wo_floats W) (wo_float_pv W) (Some economics)
                (vc_production_l7_required ctx) (vc_pinned_impact_usd ctx)) (\<lambda>checks. Inr (finish checks)))))))))"

text \<open>The first three checks are all computed before any of them is looked at.\<close>

definition verify :: "'f world \<Rightarrow> 'f verification_context \<Rightarrow> verification_result res" where
  "verify W ctx =
     ebind (v03 ctx) (\<lambda>c3.
     continue [] (check_eligibility (vc_hypothesis ctx) (vc_scope ctx) (vc_known_issues ctx)
       (Some (w_commit (vc_witness ctx)))) (\<lambda>checks.
     continue checks (check_span (wo_host W) (wo_resolve W (vc_root ctx)) (wo_tree W (vc_root ctx))
       (h_target (vc_hypothesis ctx))) (\<lambda>checks.
     continue checks c3 (\<lambda>checks.
     case derived_runs W ctx of
       Inl e \<Rightarrow>
         (let c = failing ''V04'' (derivation_code (exc_msg e))
            (''cannot independently derive replay evidence: '' @ exc_msg e)
          in Inr (failure_result (checks @ [c]) (cr_code c)))
     | Inr runs \<Rightarrow>
         (case vc_replay ctx of
            None \<Rightarrow> Inl (AssertionError [])
          | Some r \<Rightarrow> ebind (v04 W ctx r runs) (\<lambda>c4. continue checks c4 (verify_derived W ctx (hd runs)))))))) "

section \<open>What a passed verification means\<close>

lemma failure_result_passed [simp]: "\<not> vr_passed (failure_result checks code)"
  by (simp add: failure_result_def Let_def)

lemma finish_sel [simp]: "vr_passed (finish checks)" "vr_checks (finish checks) = checks"
  "vr_next_state (finish checks) = Some ''FINDING''"
  by (simp_all add: finish_def)

lemma failing_sel [simp]: "is_failure (failing i c m)" "cr_check_id (failing i c m) = i"
  by (simp_all add: is_failure_def failing_def)

lemma passing_sel [simp]: "\<not> is_failure (passing i m)" "cr_check_id (passing i m) = i"
  by (simp_all add: is_failure_def passing_def)

lemma details_sel [simp]: "is_failure (details c d) = is_failure c" "cr_check_id (details c d) = cr_check_id c"
  by (simp_all add: is_failure_def details_def)

lemma soft_sel [simp]: "\<not> is_failure (soft c)" "cr_check_id (soft c) = cr_check_id c"
  by (simp_all add: is_failure_def soft_def)

lemma continue_eq [exn_simps]:
  "continue checks c k = Inr v \<longleftrightarrow>
     (if is_failure c then v = failure_result (checks @ [c]) (cr_code c) else k (checks @ [c]) = Inr v)"
  by (auto simp: continue_def)

text \<open>What the derived runs have in common once V04 has passed.\<close>

definition runs_agree :: "'f world \<Rightarrow> witness \<Rightarrow> derived_run list \<Rightarrow> bool" where
  "runs_agree W w runs =
     (\<forall>x \<in> set runs. dr_environment_hash x = w_env_hash w \<and> dr_control_hash x = dr_control_hash (hd runs) \<and>
        summary_sha256 (wo_host W) (dr_trace x) = summary_sha256 (wo_host W) (dr_trace (hd runs)))"

text \<open>The certificate holds for the evidence of the runs and, where it is known, for the current policy.\<close>

definition certified :: "'f world \<Rightarrow> 'f verification_context \<Rightarrow> replay_evidence \<Rightarrow> derived_run list \<Rightarrow> bool" where
  "certified W ctx r runs =
     (\<exists>cert key policy. re_certificate r = Some cert \<and> re_certificate_key r = Some key \<and>
        expected_policy W ctx = Inr policy \<and> (policy = None \<or> policy = Some (ce_trace_policy_sha256 cert)) \<and>
        verify_cert (wo_host W) cert key (witness_hash (wo_host W) (vc_witness ctx)) (w_env_hash (vc_witness ctx))
          (Some (records_aggregate (wo_host W) (map (\<lambda>x. summary_sha256 (wo_host W) (dr_trace x)) runs)))
          (Some (ce_trace_policy_sha256 cert)) (Some (dr_control_hash (hd runs))) None)"

lemma remdups_single: "length (remdups xs) = 1 \<Longrightarrow> x \<in> set xs \<Longrightarrow> x = hd xs"
proof -
  assume "length (remdups xs) = 1" "x \<in> set xs"
  then obtain y where "remdups xs = [y]" by (auto simp: length_Suc_conv)
  then have "set xs = {y}" by (metis list.simps(15) set_remdups empty_set)
  with \<open>x \<in> set xs\<close> show "x = hd xs" by (cases xs) auto
qed

lemma v04_passes:
  assumes "v04 W ctx r runs = Inr c" "\<not> is_failure c" "runs \<noteq> []"
  shows "runs_agree W (vc_witness ctx) runs" "vc_require_certificate ctx \<Longrightarrow> certified W ctx r runs"
    "cr_check_id c = ''V04''"
proof -
  let ?H = "wo_host W"
  let ?rec = "map (\<lambda>x. summary_sha256 ?H (dr_trace x)) runs"
  from assms have env: "length (remdups (map dr_environment_hash runs)) = 1"
    and rec: "length (remdups ?rec) = 1" and ctl: "length (remdups (map dr_control_hash runs)) = 1"
    and decl: "hd (map dr_environment_hash runs) = w_env_hash (vc_witness ctx)"
    by (auto simp: v04_def Let_def split: if_splits)
  from remdups_single [OF env] remdups_single [OF rec] remdups_single [OF ctl] decl assms(3)
  show "runs_agree W (vc_witness ctx) runs" by (auto simp: runs_agree_def hd_map)
  from assms(1) env rec ctl decl obtain policy where policy: "expected_policy W ctx = Inr policy"
    and c: "c = (case (if vc_require_certificate ctx
                then certificate_problem W (vc_witness ctx) r (hd (map dr_environment_hash runs)) (records_aggregate ?H ?rec)
                  (hd (map dr_control_hash runs)) policy else None) of
            Some msg \<Rightarrow> failing ''V04'' ''CERTIFICATE_INVALID'' msg
          | None \<Rightarrow> details (passing ''V04'' ''three fresh replay roots agree and all replay evidence is independently derived'')
              [(''environment_hash'', PStr (hd (map dr_environment_hash runs))),
               (''observed_records_sha256'', PStr (records_aggregate ?H ?rec)),
               (''control_sha256'', PStr (hd (map dr_control_hash runs)))])"
    unfolding v04_def Let_def by (auto simp: ebind_eq_Inr)
  from c show "cr_check_id c = ''V04''" by (simp split: option.splits)
  assume "vc_require_certificate ctx"
  with c assms(2) have "certificate_problem W (vc_witness ctx) r (w_env_hash (vc_witness ctx)) (records_aggregate ?H ?rec)
      (dr_control_hash (hd runs)) policy = None"
    using assms(3) decl by (simp add: hd_map split: option.splits)
  with policy show "certified W ctx r runs"
    by (auto simp: certified_def certificate_problem_def split: option.splits if_splits)
qed

lemma derived_runs_eq:
  assumes "derived_runs W ctx = Inr runs" "vc_replay ctx = Some r"
  shows "3 \<le> length (re_run_dirs r)" "length runs = length (re_run_dirs r)"
    "\<forall>dir \<in> set (re_run_dirs r). is_relative_to dir (re_root r)"
    "\<exists>catalog. list_all2 (\<lambda>dir run. load_run W dir (vc_witness ctx) catalog = Inr run) (re_run_dirs r) runs"
proof -
  from assms have n: "3 \<le> length (re_run_dirs r)"
    and runs: "list_all2 (\<lambda>dir run. is_relative_to dir (re_root r) \<and>
        ebind (catalog_of ctx) (load_run W dir (vc_witness ctx)) = Inr run) (re_run_dirs r) runs"
    by (auto simp: derived_runs_def val_err_def emap_eq_Inr split: if_splits elim!: list.rel_mono_strong)
  from n show "3 \<le> length (re_run_dirs r)" .
  from runs show "length runs = length (re_run_dirs r)" by (simp add: list_all2_lengthD)
  from runs show "\<forall>dir \<in> set (re_run_dirs r). is_relative_to dir (re_root r)"
    by (auto simp: list_all2_conv_all_nth in_set_conv_nth)
  from n runs obtain run where "ebind (catalog_of ctx) (load_run W (hd (re_run_dirs r)) (vc_witness ctx)) = Inr run"
    by (cases "re_run_dirs r") (auto simp: list_all2_Cons1)
  then obtain catalog where "catalog_of ctx = Inr catalog" by (auto simp: ebind_eq_Inr)
  with runs show "\<exists>catalog. list_all2 (\<lambda>dir run. load_run W dir (vc_witness ctx) catalog = Inr run) (re_run_dirs r) runs"
    by (auto elim!: list.rel_mono_strong)
qed

text \<open>What the remaining checks have seen of the first run.\<close>

definition assertions_observed :: "'f world \<Rightarrow> witness \<Rightarrow> pdict list \<Rightarrow> bool" where
  "assertions_observed W w events =
     (length events = length (required_assertions w) \<and>
      (\<forall>a \<in> set (required_assertions w). length (filter (assertion_matches (wo_float_rel W) a) events) = 1))"

definition run_supported :: "'f world \<Rightarrow> 'f verification_context \<Rightarrow> derived_run \<Rightarrow> bool" where
  "run_supported W ctx run =
     (let w = vc_witness ctx; tr = dr_trace run in
      (\<exists>doc rules. vc_policy ctx = Inr doc \<and> policy_document doc = Inr rules \<and>
         enforce_cheatcode_policy tr (witness_class_value (w_witness_class w)) rules (w_fork_block w) = Inr ()) \<and>
      (\<exists>control. derive_control tr (dr_control_trace run) w = Inr control \<and> \<not> co_observed_state_changed control) \<and>
      assertions_observed W w (ts_assertion_events tr) \<and>
      (\<exists>harness prices e. derive_harness W run w = Inr harness \<and> load_prices ctx = Inr prices \<and>
         derive_economics W run w prices = Inr e \<and> harness_problem harness (w_harness_address w) e = None \<and>
         econ_problem (wo_floats W) e (vc_production_l7_required ctx) = None))"

lemma check_policy_passes:
  assumes "check_policy (Some tr) wclass policy config fork = Inr c" "\<not> is_failure c"
  shows "cr_check_id c = ''V05''"
    "\<exists>doc rules. policy = Inr doc \<and> policy_document doc = Inr rules \<and>
       enforce_cheatcode_policy tr wclass rules fork = Inr ()"
proof -
  from assms have c: "c = policy_calls (ts_cheatcodes tr)"
    and ok: "ebind policy (\<lambda>doc. ebind (policy_document doc) (\<lambda>rules. enforce_cheatcode_policy tr wclass rules fork)) = Inr ()"
    by (auto simp: check_policy_def split: option.splits sum.splits if_splits)
  from ok show "\<exists>doc rules. policy = Inr doc \<and> policy_document doc = Inr rules \<and>
       enforce_cheatcode_policy tr wclass rules fork = Inr ()" by (auto simp: ebind_eq_Inr)
  from c show "cr_check_id c = ''V05''"
    by (auto simp: policy_calls_def passing_def failing_def split: option.splits)
qed

lemma check_assertion_passes:
  assumes "\<not> is_failure (check_assertion rel w events (Some control))"
  shows "cr_check_id (check_assertion rel w events (Some control)) = ''V06''"
    "length events = length (required_assertions w)"
    "\<forall>a \<in> set (required_assertions w). length (filter (assertion_matches rel a) events) = 1"
    "\<not> co_observed_state_changed control"
  using assms by (auto simp: check_assertion_def Let_def find_None_iff split: if_splits option.splits)

lemma check_harness_passes:
  assumes "\<not> is_failure (check_harness (Some h) (Some tr) a (Some e))"
  shows "cr_check_id (check_harness (Some h) (Some tr) a (Some e)) = ''V07''" "harness_problem h a e = None"
  using assms by (auto simp: check_harness_def split: option.splits)

lemma check_duplicate_sel [simp]: "cr_check_id (check_duplicate d) = ''V08''" "\<not> is_failure (check_duplicate d)"
  by (auto simp: check_duplicate_def split: option.splits)

lemma check_econ_passes:
  assumes "\<not> is_failure (check_econ F f (Some e) production impact)"
  shows "cr_check_id (check_econ F f (Some e) production impact) = ''V09''" "econ_problem F e production = None"
  using assms by (auto simp: check_econ_def split: option.splits)

lemma verify_derived_passes:
  assumes "verify_derived W ctx run checks = Inr v" "vr_passed v"
  shows "run_supported W ctx run"
    "\<exists>cs. v = finish (checks @ cs) \<and> map cr_check_id cs = [''V05'', ''V06'', ''V07'', ''V08'', ''V09''] \<and>
       (\<forall>c \<in> set cs. \<not> is_failure c)"
proof -
  let ?w = "vc_witness ctx" and ?tr = "dr_trace run"
  from assms obtain config where config: "map_of (dr_tree run) [''foundry.toml''] = Some config"
    by (auto simp: verify_derived_def Let_def split: option.splits)
  from assms config obtain c5 where c5: "check_policy (Some ?tr) (witness_class_value (w_witness_class ?w)) (vc_policy ctx)
      (Some (Inr (universal_newlines config))) (w_fork_block ?w) = Inr c5" "\<not> is_failure c5"
    by (auto simp: verify_derived_def Let_def exn_simps split: if_splits)
  from assms config c5 obtain control where control: "derive_control ?tr (dr_control_trace run) ?w = Inr control"
    by (auto simp: verify_derived_def Let_def exn_simps)
  let ?c6 = "check_assertion (wo_float_rel W) ?w (ts_assertion_events ?tr) (Some control)"
  from assms config c5 control have c6: "\<not> is_failure ?c6"
    by (auto simp: verify_derived_def Let_def exn_simps split: if_splits)
  from assms config c5 control c6 obtain harness where harness: "derive_harness W run ?w = Inr harness"
    by (auto simp: verify_derived_def Let_def exn_simps split: sum.splits)
  from assms config c5 control c6 harness obtain prices e where econ: "load_prices ctx = Inr prices"
    "derive_economics W run ?w prices = Inr e"
    by (auto simp: verify_derived_def Let_def exn_simps split: sum.splits)
  let ?c7 = "check_harness (Some harness) (Some ?tr) (w_harness_address ?w) (Some e)"
  let ?c8 = "check_duplicate (vc_duplicate ctx)"
  let ?c9 = "check_econ (wo_floats W) (wo_float_pv W) (Some e) (vc_production_l7_required ctx) (vc_pinned_impact_usd ctx)"
  from assms config c5 control c6 harness econ have c7: "\<not> is_failure ?c7" and c9: "\<not> is_failure ?c9"
    and v: "v = finish (checks @ [c5, ?c6, ?c7, ?c8, ?c9])"
    by (auto simp: verify_derived_def Let_def exn_simps split: if_splits)
  note facts = check_policy_passes [OF c5] check_assertion_passes [OF c6] check_harness_passes [OF c7]
    check_econ_passes [OF c9]
  from facts control harness econ show "run_supported W ctx run"
    by (auto simp: run_supported_def assertions_observed_def Let_def)
  from facts c5 c6 c7 c9 v show "\<exists>cs. v = finish (checks @ cs) \<and> map cr_check_id cs = [''V05'', ''V06'', ''V07'', ''V08'', ''V09''] \<and>
       (\<forall>c \<in> set cs. \<not> is_failure c)"
    by (intro exI [of _ "[c5, ?c6, ?c7, ?c8, ?c9]"]) simp
qed

text \<open>A verification ends with every check in order, or at the first hard failure.\<close>

definition outcome :: "verification_result \<Rightarrow> bool" where
  "outcome v =
     ((\<exists>cs. v = finish cs \<and> (\<forall>c \<in> set cs. \<not> is_failure c)) \<or>
      (\<exists>cs c. v = failure_result (cs @ [c]) (cr_code c) \<and> is_failure c \<and> (\<forall>d \<in> set cs. \<not> is_failure d)))"

lemma outcome_failure: "is_failure c \<Longrightarrow> \<forall>d \<in> set cs. \<not> is_failure d \<Longrightarrow> outcome (failure_result (cs @ [c]) (cr_code c))"
  by (auto simp: outcome_def)

lemma continue_outcome:
  assumes "continue checks c k = Inr v" "\<forall>d \<in> set checks. \<not> is_failure d"
    and "\<And>cs. \<forall>d \<in> set cs. \<not> is_failure d \<Longrightarrow> k cs = Inr v \<Longrightarrow> outcome v"
  shows "outcome v"
  using assms(1,2) assms(3) [of "checks @ [c]"] by (auto simp: continue_eq outcome_failure split: if_splits)

lemma outcome_finish: "\<forall>d \<in> set cs. \<not> is_failure d \<Longrightarrow> outcome (finish cs)"
  by (auto simp: outcome_def)

lemma verify_derived_outcome:
  assumes "verify_derived W ctx run checks = Inr v" "\<forall>d \<in> set checks. \<not> is_failure d"
  shows "outcome v"
  using assms(1) unfolding verify_derived_def Let_def ebind_eq_Inr
  by (auto simp: ebind_eq_Inr assms(2) outcome_failure outcome_finish split: option.splits sum.splits
      elim!: continue_outcome)

lemma verify_outcome:
  assumes "verify W ctx = Inr v"
  shows "outcome v"
  using assms unfolding verify_def Let_def
  by (auto simp: ebind_eq_Inr outcome_failure split: option.splits sum.splits
      elim!: continue_outcome intro: verify_derived_outcome)

lemma verify_passes:
  assumes "verify W ctx = Inr v" "vr_passed v"
  obtains r runs cs where "vc_replay ctx = Some r" "derived_runs W ctx = Inr runs" "runs \<noteq> []"
    "runs_agree W (vc_witness ctx) runs" "vc_require_certificate ctx \<longrightarrow> certified W ctx r runs"
    "run_supported W ctx (hd runs)" "v = finish cs" "\<forall>c \<in> set cs. \<not> is_failure c"
    "length cs = 9"
proof -
  let ?c1 = "check_eligibility (vc_hypothesis ctx) (vc_scope ctx) (vc_known_issues ctx) (Some (w_commit (vc_witness ctx)))"
  let ?c2 = "check_span (wo_host W) (wo_resolve W (vc_root ctx)) (wo_tree W (vc_root ctx)) (h_target (vc_hypothesis ctx))"
  from assms obtain c3 where c3: "v03 ctx = Inr c3" by (auto simp: verify_def exn_simps)
  from assms c3 have ok: "\<not> is_failure ?c1" "\<not> is_failure ?c2" "\<not> is_failure c3"
    by (auto simp: verify_def Let_def exn_simps split: if_splits)
  from assms c3 ok obtain runs where runs: "derived_runs W ctx = Inr runs"
    by (auto simp: verify_def Let_def exn_simps split: sum.splits)
  then obtain r where r: "vc_replay ctx = Some r" by (auto simp: derived_runs_def val_err_def split: option.splits)
  from derived_runs_eq [OF runs r] have "runs \<noteq> []" by auto
  from assms c3 ok runs r obtain c4 where c4: "v04 W ctx r runs = Inr c4"
    by (auto simp: verify_def Let_def exn_simps)
  from assms c3 ok runs r c4 have ok4: "\<not> is_failure c4" and d: "verify_derived W ctx (hd runs) [?c1, ?c2, c3, c4] = Inr v"
    by (auto simp: verify_def Let_def exn_simps split: if_splits)
  obtain cs where cs: "v = finish ([?c1, ?c2, c3, c4] @ cs)"
    "map cr_check_id cs = [''V05'', ''V06'', ''V07'', ''V08'', ''V09'']" "\<forall>c \<in> set cs. \<not> is_failure c"
    using verify_derived_passes(2) [OF d assms(2)] by (elim exE conjE) (rule that)
  show thesis
  proof (rule that [OF r runs \<open>runs \<noteq> []\<close> v04_passes(1) [OF c4 ok4 \<open>runs \<noteq> []\<close>] impI [OF v04_passes(2) [OF c4 ok4 \<open>runs \<noteq> []\<close>]]
        verify_derived_passes(1) [OF d assms(2)] cs(1)])
    show "\<forall>c \<in> set ([?c1, ?c2, c3, c4] @ cs). \<not> is_failure c" using ok ok4 cs(3) by simp
    from arg_cong [OF cs(2), where f = length] show "length ([?c1, ?c2, c3, c4] @ cs) = 9" by simp
  qed
qed

text \<open>
  C24: A verification that passes proposes FINDING, has no hard failure and all nine checks, and is
  supported: at least three retained runs inside the trust root agree on environment, records and control,
  with the declared environment hash; a required certificate verifies for exactly this evidence and the
  current policy; the trace obeys the cheatcode policy; the control shows no effect; every required
  assertion is observed once; and harness and economics are derived from the run itself.
\<close>

theorem verified_is_supported:
  assumes "verify W ctx = Inr v" "vr_passed v"
  shows "vr_next_state v = Some ''FINDING'' \<and> length (vr_checks v) = 9 \<and> hard_failures v = [] \<and>
    (\<exists>r runs. vc_replay ctx = Some r \<and> derived_runs W ctx = Inr runs \<and> 3 \<le> length runs \<and>
       (\<forall>dir \<in> set (re_run_dirs r). is_relative_to dir (re_root r)) \<and> runs_agree W (vc_witness ctx) runs \<and>
       (vc_require_certificate ctx \<longrightarrow> certified W ctx r runs) \<and> run_supported W ctx (hd runs))"
proof -
  obtain r runs cs where p: "vc_replay ctx = Some r" "derived_runs W ctx = Inr runs" "runs \<noteq> []"
    "runs_agree W (vc_witness ctx) runs" "vc_require_certificate ctx \<longrightarrow> certified W ctx r runs"
    "run_supported W ctx (hd runs)" "v = finish cs" "\<forall>c \<in> set cs. \<not> is_failure c" "length cs = 9"
    using assms by (rule verify_passes)
  from derived_runs_eq [OF p(2,1)] have "3 \<le> length runs" "\<forall>dir \<in> set (re_run_dirs r). is_relative_to dir (re_root r)"
    by simp_all
  moreover from p(7,8) have "hard_failures v = []" by (simp add: hard_failures_def is_failure_def)
  ultimately show ?thesis using p by auto
qed

text \<open>
  C25: A verification that is answered passed every check but the last, which is the only hard failure if
  it did not pass; the route is chosen by its code, and is FINDING exactly for a passed verification.
\<close>

theorem verify_stops_at_first_failure:
  assumes "verify W ctx = Inr v"
  shows "if vr_passed v then hard_failures v = [] \<and> vr_next_state v = Some ''FINDING''
    else (\<exists>c. vr_checks v \<noteq> [] \<and> last (vr_checks v) = c \<and> hard_failures v = [c] \<and>
      v = failure_result (vr_checks v) (cr_code c) \<and> vr_next_state v \<noteq> Some ''FINDING'')"
proof -
  have state: "vr_next_state (failure_result cs code) \<noteq> Some ''FINDING''" for cs code
    by (simp add: failure_result_def Let_def)
  have checks [simp]: "vr_checks (failure_result cs code) = cs" for cs code
    by (simp add: failure_result_def Let_def)
  from verify_outcome [OF assms] show ?thesis
    unfolding outcome_def
  proof (elim disjE exE conjE)
    fix cs assume "v = finish cs" "\<forall>c \<in> set cs. \<not> is_failure c"
    then show ?thesis by (simp add: hard_failures_def is_failure_def)
  next
    fix cs c assume v: "v = failure_result (cs @ [c]) (cr_code c)" "is_failure c" "\<forall>d \<in> set cs. \<not> is_failure d"
    then have "hard_failures v = [c]" by (simp add: hard_failures_def is_failure_def)
    with v show ?thesis by (simp add: state)
  qed
qed

section \<open>Production verification\<close>

lemma derive_economics_head:
  assumes "derive_economics W run w sources = Inr e"
  shows "ee_head_replay_passed e = None"
proof -
  have "ee_head_replay_passed (economic_evidence_of s w r) = None" for s :: "'a snapshot_evidence" and r
    by (simp add: economic_evidence_of_def Let_def)
  moreover from assms obtain snaps where snaps: "dict_logs ''EconomicSnapshot'' (dr_trace run) = Inr snaps"
    by (auto simp: derive_economics_def ebind_eq_Inr)
  moreover from snaps assms obtain snap where "snaps = [snap]"
    by (cases snaps rule: list.exhaust; cases "tl snaps") (auto simp: derive_economics_def val_err_def)
  ultimately show ?thesis
    using assms by (auto simp: derive_economics_def Let_def val_err_def exn_simps split: if_splits)
qed

lemma econ_problem_production:
  assumes "ee_head_replay_passed e = None"
  shows "econ_problem F e True \<noteq> None"
  using assms by (auto simp: econ_problem_def production_problem_def Let_def split: option.splits)

text \<open>
  No hypothesis can be verified when the production level is required: the evidence that the pipeline
  derives never has a head replay, which the ninth check then demands.
\<close>

lemma production_never_verifies:
  assumes "verify W ctx = Inr v" "vc_production_l7_required ctx"
  shows "\<not> vr_passed v"
proof
  assume "vr_passed v"
  with assms(1) obtain runs where "run_supported W ctx (hd runs)" by (rule verify_passes)
  then obtain prices e where "derive_economics W (hd runs) (vc_witness ctx) prices = Inr e"
    "econ_problem (wo_floats W) e (vc_production_l7_required ctx) = None"
    by (auto simp: run_supported_def Let_def)
  with assms(2) econ_problem_production [OF derive_economics_head] show False by metis
qed

section \<open>A passing verification\<close>

text \<open>
  A replay of one assertion, three times: hashes are constant texts, and the JSON documents are named by
  one character each.
\<close>

definition constant_host :: host where
  "constant_host = \<lparr>hs_sha256 = (\<lambda>s. ''d''), hs_hmac = (\<lambda>k m. ''m''), hs_keccak = (\<lambda>s. replicate 20 (CHR ''k'')),
     hs_driver_secret = ''secret''\<rparr>"

definition harness_addr :: string where
  "harness_addr = ''0x'' @ to_hex (replicate 20 (CHR ''k''))"

definition deployer_addr :: string where
  "deployer_addr = ''0x'' @ to_hex (replicate 20 (CHR ''d''))"

definition trace_doc :: pv where
  "trace_doc = PDict [(''trace'', PList
     [PDict [(''kind'', PStr ''create2''), (''phase'', PStr ''setup''), (''to'', PStr harness_addr),
        (''caller'', PStr deployer_addr), (''data'', PStr ''0x00'')],
      PDict [(''depth'', PInt 1), (''to'', PStr harness_addr), (''caller'', PStr ''w''), (''logs'', PList
        [PDict [(''event'', PStr ''AssertionChecked''), (''id'', PStr ''A''), (''kind'', PStr ''custom''),
           (''target'', PStr ''x''), (''expected'', PInt 1), (''observed'', PInt 1), (''ok'', PBool True)],
         PDict [(''event'', PStr ''EconomicSnapshot''), (''token'', PStr ''t''), (''actor'', PStr ''a''),
           (''native_before'', PInt 3), (''native_after'', PInt 7), (''token_before'', PInt 0), (''token_after'', PInt 0),
           (''protocol_assets_delta'', PInt 0), (''declared_capital'', PInt 4)]])]])]"

definition control_doc :: pv where
  "control_doc = PDict [(''trace'', PList [PDict [(''logs'', PList [PDict [(''event'', PStr ''ControlObserved''),
     (''id'', PStr ''A''), (''state_changed'', PBool False)]])]])]"

definition environment_doc :: pv where
  "environment_doc = PDict [(''environment_hash'', PStr ''d''), (''gas_price_wei'', PInt 2),
     (''initial_timestamp'', PInt 1), (''initial_block'', PInt 1),
     (''observation'', PDict (observation_to_dict \<lparr>to_compiler = [], to_sanitized_config = [], to_remappings = [],
        to_template_sha256 = ''T'', to_attack_body_sha256 = ''B'', to_wrapper_callsite_sha256 = ''C'',
        to_harness_library_hashes = [], to_deployment_plan_hash = None, to_source_manifest_sha256 = ''M''\<rparr>))]"

definition artifact_doc :: "string \<Rightarrow> string \<Rightarrow> pv" where
  "artifact_doc source contract = PDict [(''deployedBytecode'', PDict [(''object'', PStr ''0x00'')]),
     (''metadata'', PDict [(''settings'', PDict [(''compilationTarget'', PDict [(source, PStr contract)])])])]"

definition replay_tree :: tree where
  "replay_tree =
     map (\<lambda>n. ([''artifacts'', ''run-1'', n @ ''.sha256''], ''d'')) [''trace'', ''control'', ''control-trace'', ''environment''] @
     [([''artifacts'', ''run-1'', ''trace.json''], ''T''), ([''artifacts'', ''run-1'', ''control.json''], ''O''),
      ([''artifacts'', ''run-1'', ''control-trace.json''], ''X''), ([''artifacts'', ''run-1'', ''environment.json''], ''E''),
      ([''H.sol''], ''h''), ([''W.sol''], ''w''), ([''out'', ''H.json''], ''A''), ([''out'', ''W.json''], ''B''),
      ([''foundry.toml''], concat config_fragments)]"

definition small_world :: "int world" where
  "small_world = \<lparr>wo_host = constant_host,
     wo_loads = map_of [(''T'', trace_doc), (''O'', PDict []), (''X'', control_doc), (''E'', environment_doc),
       (''A'', artifact_doc ''H.sol'' ''H''), (''B'', artifact_doc ''W.sol'' ''W'')],
     wo_tree = (\<lambda>p. if p = [''repo''] then [([''a.sol''], [CHR ''x'', CHR 0x0A, CHR ''y''])] else replay_tree),
     wo_resolve = (\<lambda>_ p. Some (path_parts p)), wo_floats = int_floats,
     wo_to_float = (\<lambda>v. case v of PInt i \<Rightarrow> Inr i | _ \<Rightarrow> Inl (TypeError ''float'')),
     wo_float_pv = PInt, wo_float_rel = (\<lambda>_ _ _. None), wo_order = id\<rparr>"

definition replayed_witness :: witness where
  "replayed_witness = (sample_witness ''d'')\<lparr>w_harness_create2_deployer := Some deployer_addr,
     w_harness_source_path := Some ''H.sol'', w_harness_source_sha256 := Some ''d'', w_harness_runtime_sha256 := Some ''d'',
     w_wrapper_address := Some ''w'', w_wrapper_source_path := Some ''W.sol'', w_wrapper_source_sha256 := Some ''d'',
     w_wrapper_runtime_sha256 := Some ''d''\<rparr>"

definition replay_certificate :: certificate where
  "replay_certificate = \<lparr>ce_id = ''R-1'', ce_witness_sha256 = ''d'', ce_env_hash = ''d'', ce_runs = 3,
     ce_observed_records_sha256 = ''d'', ce_trace_policy_sha256 = ''d'', ce_control_sha256 = ''d'',
     ce_cross_check_sha256 = None, ce_mac = ''m'', ce_issued_at = ''t''\<rparr>"

definition small_scope :: scope where
  "small_scope = \<lparr>sc_version = 1, sc_platform = ''p'', sc_program_ref = ''r'', sc_commit = ''c'', sc_prior_commit = None,
     sc_confidentiality = ''public'', sc_in_scope = [\<lparr>st_id = ''S'', st_kind = ''file'', st_path = Some ''a.sol'',
       st_address = None, st_contract = None, st_rationale = None\<rparr>], sc_out_of_scope = [], sc_excluded_classes = [],
     sc_dependencies = [], sc_concurrent_programs = [], sc_deployed = True, sc_attacker_capital_wei = 4,
     sc_poc_required = True, sc_severity_model_ref = ''s''\<rparr>"

definition small_context :: "bool \<Rightarrow> int verification_context" where
  "small_context production = \<lparr>vc_root = [''repo''],
     vc_hypothesis = (sample_hypothesis CONFIRMED)\<lparr>h_target := sample_span\<lparr>sp_sha256 := ''d''\<rparr>\<rparr>,
     vc_scope = small_scope, vc_witness = replayed_witness, vc_known_issues = [],
     vc_replay = Some \<lparr>re_root = [''r''], re_run_dirs = [[''r'', ''1''], [''r'', ''2''], [''r'', ''3'']],
       re_certificate = Some replay_certificate, re_certificate_key = Some ''k''\<rparr>,
     vc_build = Some \<lparr>be_clean = True, be_build_stdout = [], be_build_stderr = [], be_tool_lock_verified = True,
       be_tool_lock_problems = [], be_pinned_compiler = None, be_required_tools = []\<rparr>,
     vc_forge_build = Inl (FileNotFoundError ''forge''), vc_duplicate = None, vc_production_l7_required = production,
     vc_policy = Inr (PDict []), vc_policy_given = True, vc_catalog = Some (Inr (PDict [])), vc_tool_lock_given = False,
     vc_prices = Some (Inr (PDict [(''native'', PDict [(''usd_per_unit'', PInt 200), (''decimals'', PInt 0), (''source'', PStr ''s'')])])),
     vc_pinned_impact_usd = None, vc_require_certificate = True\<rparr>"

text \<open>A run depends on its tree, not on where it lies.\<close>

lemma load_run_elsewhere:
  assumes "load_run W dir w catalog = Inr run" "wo_tree W dir' = wo_tree W dir"
  shows "load_run W dir' w catalog = Inr (run\<lparr>dr_root := dir'\<rparr>)"
  using assms unfolding load_run_def Let_def
  by (auto simp: exn_simps split: list.splits option.splits if_splits)

definition plain_frame :: trace_frame where
  "plain_frame = \<lparr>tf_depth = 0, tf_kind = ''call'', tf_to = None, tf_selector = None, tf_phase = ''witness'',
     tf_caller = PNone, tf_data = PNone, tf_gas_used = None, tf_success = True, tf_logs = []\<rparr>"

definition plain_summary :: trace_summary where
  "plain_summary = \<lparr>ts_frames = [], ts_cheatcodes = [], ts_transfers = [], ts_assertion_events = [],
     ts_cumulative_warp_s = 0, ts_cumulative_roll = 0, ts_initial_timestamp = None, ts_final_timestamp = None,
     ts_initial_block = None, ts_final_block = None, ts_gas_used = 0, ts_raw_sha256 = ''d''\<rparr>"

definition assertion_log :: pdict where
  "assertion_log = [(''event'', PStr ''AssertionChecked''), (''id'', PStr ''A''), (''kind'', PStr ''custom''),
     (''target'', PStr ''x''), (''expected'', PInt 1), (''observed'', PInt 1), (''ok'', PBool True)]"

definition economic_log :: pdict where
  "economic_log = [(''event'', PStr ''EconomicSnapshot''), (''token'', PStr ''t''), (''actor'', PStr ''a''),
     (''native_before'', PInt 3), (''native_after'', PInt 7), (''token_before'', PInt 0), (''token_after'', PInt 0),
     (''protocol_assets_delta'', PInt 0), (''declared_capital'', PInt 4)]"

definition small_run :: "string list \<Rightarrow> derived_run" where
  "small_run dir = \<lparr>dr_root = dir, dr_tree = replay_tree,
     dr_trace = plain_summary\<lparr>
       ts_frames := [plain_frame\<lparr>tf_kind := ''create2'', tf_to := Some harness_addr, tf_phase := ''setup'',
           tf_caller := PStr deployer_addr, tf_data := PStr ''0x00''\<rparr>,
         plain_frame\<lparr>tf_depth := 1, tf_to := Some harness_addr, tf_caller := PStr ''w'',
           tf_logs := [PDict assertion_log, PDict economic_log]\<rparr>],
       ts_assertion_events := [assertion_log @ [(''depth'', PInt 1), (''caller'', PStr ''w''), (''emitter'', PStr harness_addr)]]\<rparr>,
     dr_control_trace = plain_summary\<lparr>ts_frames := [plain_frame\<lparr>tf_logs := [PDict
       [(''event'', PStr ''ControlObserved''), (''id'', PStr ''A''), (''state_changed'', PBool False)]]\<rparr>]\<rparr>,
     dr_control_hash = ''d'', dr_environment_hash = ''d'', dr_environment = pv_dict environment_doc\<rparr>"

lemma small_load: "load_run small_world [''r''] replayed_witness [] = Inr (small_run [''r''])"
  by code_simp

lemma small_loads: "dir \<noteq> [''repo''] \<Longrightarrow> load_run small_world dir replayed_witness [] = Inr (small_run dir)"
  using load_run_elsewhere [OF small_load, of dir] by (simp add: small_world_def small_run_def)

lemma small_runs:
  "derived_runs small_world (small_context production) = Inr [small_run [''r'', ''1''], small_run [''r'', ''2''], small_run [''r'', ''3'']]"
  by (simp add: derived_runs_def small_context_def catalog_of_def por_def is_relative_to_def small_loads)

lemma small_first_checks:
  "verify small_world (small_context production) =
    ebind (v04 small_world (small_context production) (the (vc_replay (small_context production)))
      [small_run [''r'', ''1''], small_run [''r'', ''2''], small_run [''r'', ''3'']])
      (\<lambda>c4. continue [passing ''V01'' ''finding is within declared scope'', passing ''V02'' ''cited span exists and hash-matches'',
        passing ''V03'' ''project builds cleanly under the verified toolchain''] c4
        (verify_derived small_world (small_context production) (small_run [''r'', ''1''])))"
proof -
  have "v03 (small_context production) = Inr (passing ''V03'' ''project builds cleanly under the verified toolchain'')"
    by (simp add: v03_def small_context_def)
  moreover have "check_eligibility (vc_hypothesis (small_context production)) (vc_scope (small_context production))
      (vc_known_issues (small_context production)) (Some (w_commit (vc_witness (small_context production)))) =
      passing ''V01'' ''finding is within declared scope''"
    by (cases production) code_simp+
  moreover have "check_span (wo_host small_world) (wo_resolve small_world (vc_root (small_context production)))
      (wo_tree small_world (vc_root (small_context production))) (h_target (vc_hypothesis (small_context production))) =
      passing ''V02'' ''cited span exists and hash-matches''"
    by (cases production) code_simp+
  moreover obtain r where "vc_replay (small_context production) = Some r" by (simp add: small_context_def)
  ultimately show ?thesis by (simp add: verify_def small_runs continue_def cong: if_cong)
qed

lemma small_certificate:
  "v04 small_world (small_context production) (the (vc_replay (small_context production)))
      [small_run [''r'', ''1''], small_run [''r'', ''2''], small_run [''r'', ''3'']] =
    Inr (details (passing ''V04'' ''three fresh replay roots agree and all replay evidence is independently derived'')
      [(''environment_hash'', PStr ''d''), (''observed_records_sha256'', PStr ''d''), (''control_sha256'', PStr ''d'')])"
  by (simp add: v04_def small_world_def small_context_def small_run_def constant_host_def summary_sha256_def
      replayed_witness_def sample_witness_def records_aggregate_def expected_policy_def policy_hash_def
      certificate_problem_def replay_certificate_def verify_cert_def expects_def witness_hash_def Let_def)

definition first_four :: "check_result list" where
  "first_four = [passing ''V01'' ''finding is within declared scope'', passing ''V02'' ''cited span exists and hash-matches'',
     passing ''V03'' ''project builds cleanly under the verified toolchain'',
     details (passing ''V04'' ''three fresh replay roots agree and all replay evidence is independently derived'')
      [(''environment_hash'', PStr ''d''), (''observed_records_sha256'', PStr ''d''), (''control_sha256'', PStr ''d'')]]"

lemma small_verify:
  "verify small_world (small_context production) =
    verify_derived small_world (small_context production) (small_run [''r'', ''1'']) first_four"
  by (simp only: small_first_checks small_certificate ebind_Inr) (simp add: continue_def first_four_def)

lemma small_verification_passes:
  "(case verify small_world (small_context False) of Inr v \<Rightarrow> vr_passed v | Inl _ \<Rightarrow> False)"
  unfolding small_verify by code_simp

lemma small_verification_production:
  "(case verify small_world (small_context True) of Inr v \<Rightarrow> map cr_code (hard_failures v) = [Some ''HEAD_REPLAY_FAIL'']
    | Inl _ \<Rightarrow> False)"
  unfolding small_verify by code_simp

lemma verified_is_supported_witness:
  "\<exists>v. verify small_world (small_context False) = Inr v \<and> vr_next_state v = Some ''FINDING'' \<and> length (vr_checks v) = 9"
proof -
  from small_verification_passes obtain v where "verify small_world (small_context False) = Inr v" "vr_passed v"
    by (auto split: sum.splits)
  with verified_is_supported [OF this] show ?thesis by blast
qed

lemma verify_stops_at_first_failure_witness:
  "\<exists>v. verify small_world (small_context True) = Inr v \<and> hard_failures v = [last (vr_checks v)]"
proof -
  from small_verification_production obtain v where v: "verify small_world (small_context True) = Inr v"
    "hard_failures v \<noteq> []" by (auto split: sum.splits)
  with verify_stops_at_first_failure [OF v(1)] show ?thesis by (auto split: if_splits)
qed

lemma production_never_verifies_witness:
  "\<exists>v. verify small_world (small_context True) = Inr v \<and> map cr_code (hard_failures v) = [Some ''HEAD_REPLAY_FAIL''] \<and>
     \<not> vr_passed v"
proof -
  obtain v where v: "verify small_world (small_context True) = Inr v"
    "map cr_code (hard_failures v) = [Some ''HEAD_REPLAY_FAIL'']"
    using small_verification_production by (cases "verify small_world (small_context True)") simp_all
  have "vc_production_l7_required (small_context True)" by (simp add: small_context_def)
  from v production_never_verifies [OF v(1) this] show ?thesis by (intro exI conjI)
qed

end
