(* ===== verification/StoreDb.thy ===== *)
theory StoreDb
  imports Redaction Lifecycle "HOL-Library.AList"
begin

text \<open>
  The database of \<open>core/store.py\<close> with \<open>core/events.py\<close>: the append-only event log, the rows of the
  entity tables, their constraints and the triggers that make every change event-first. A payload is
  stored as the value that its JSON text denotes. Values of the declared column types are kept as they
  are; SQLite's column affinities, which convert others, are not modelled.
\<close>

section \<open>Events\<close>

definition EVENT_KINDS :: "string list" where
  "EVENT_KINDS =
     [''phase_started'', ''phase_finished'', ''task_dispatched'', ''task_finished'', ''task_blocked_on_human'',
      ''hyp_created'', ''hyp_transition'', ''hyp_reopened'', ''assumption_falsified'', ''experiment_run'',
      ''failure_recorded'', ''human_review_queued'', ''human_review_resolved'', ''finding_disputed'',
      ''budget_reserved'', ''budget_settled'', ''obligation_resolved'', ''replan_triggered'', ''scope_changed'',
      ''scope_rebaselined'', ''finding_promoted'', ''finding_retraction_needed'', ''finding_scope_conflict'',
      ''reopen_threshold_exceeded'', ''human_override'', ''budget_warning'', ''quota_switch'', ''model_unavailable'',
      ''refusal_logged'', ''skeptic_family_exhausted'', ''skeptic_unavailable'', ''skeptic_second_opinion'',
      ''driver_paused_for_human_review'', ''driver_resumed'', ''hyp_updated'', ''hyp_ladder_award'', ''entity_saved'']"

definition validate_kind :: "string \<Rightarrow> string res" where
  "validate_kind kind =
     (if kind \<notin> set EVENT_KINDS then Inl (ValueError (''unknown event kind: '' @ kind)) else Inr kind)"

text \<open>The identifier of an event is its position in the log, from one.\<close>

record event =
  ev_ts :: string
  ev_kind :: string
  ev_entity :: string
  ev_entity_id :: string
  ev_payload :: pdict

record hyp_row =
  hr_state :: string
  hr_lens :: pv
  hr_protocol_type :: pv
  hr_prior_p :: pv
  hr_body :: string
  hr_event :: nat

record entity_row =
  tr_cols :: pdict
  tr_event :: nat

record store =
  st_events :: "event list"
  st_hyps :: "(string \<times> hyp_row) list"
  st_rows :: "((string \<times> string) \<times> entity_row) list"
  st_counters :: "(string \<times> nat) list"

definition empty_store :: store where
  "empty_store = \<lparr>st_events = [], st_hyps = [], st_rows = [], st_counters = []\<rparr>"

definition event_at :: "event list \<Rightarrow> nat \<Rightarrow> event option" where
  "event_at es i = (if 0 < i \<and> i \<le> length es then Some (es ! (i - 1)) else None)"

text \<open>\<open>record_event\<close> inside a transaction: the payload is redacted before it is written.\<close>

definition stored_payload :: "pdict \<Rightarrow> pdict" where
  "stored_payload d = sort_key fst (map (\<lambda>kv. (fst kv, jnorm (snd kv))) (redact_items d))"

definition insert_event :: "string \<Rightarrow> string \<Rightarrow> string \<Rightarrow> pdict \<Rightarrow> store \<Rightarrow> (nat \<times> store) res" where
  "insert_event now entity eid payload s =
     (let d = redact_items payload in
      ebind (validate_kind (py_str (dget_or d ''kind'' (PStr ''event'')))) (\<lambda>kind.
        if kind = ''entity_saved'' \<and> dget_or d ''entity_op'' PNone \<notin> {PStr ''insert'', PStr ''update''} then
          Inl (ValueError ''entity_saved events require entity_op=insert|update'')
        else Inr (Suc (length (st_events s)), s\<lparr>st_events := st_events s @
          [\<lparr>ev_ts = now, ev_kind = kind, ev_entity = entity, ev_entity_id = eid, ev_payload = stored_payload payload\<rparr>]\<rparr>)))"

section \<open>SQL values\<close>

text \<open>A Python value bound to a parameter, and the result of \<open>json_extract\<close>.\<close>

fun sql_bind :: "pv \<Rightarrow> pv res" where
  "sql_bind (PBool b) = Inr (PInt (if b then 1 else 0))"
| "sql_bind (PList vs) = Inl (RuntimeError ''Error binding parameter: type list is not supported'')"
| "sql_bind (PTup vs) = Inl (RuntimeError ''Error binding parameter: type tuple is not supported'')"
| "sql_bind (PDict d) = Inl (RuntimeError ''Error binding parameter: type dict is not supported'')"
| "sql_bind v = Inr v"

fun json_sql :: "pv \<Rightarrow> pv" where
  "json_sql (PBool b) = PInt (if b then 1 else 0)"
| "json_sql (PList vs) = PStr (canonical (PList vs))"
| "json_sql (PTup vs) = PStr (canonical (PTup vs))"
| "json_sql (PDict d) = PStr (canonical (PDict d))"
| "json_sql v = v"

text \<open>\<open>json_extract(e.payload, '$.k')\<close> and \<open>json_extract(e.payload, '$.row_snapshot.k')\<close>.\<close>

definition payload_field :: "event \<Rightarrow> string \<Rightarrow> pv" where
  "payload_field e k = json_sql (dget_or (ev_payload e) k PNone)"

definition snapshot_field :: "event \<Rightarrow> string \<Rightarrow> pv" where
  "snapshot_field e k = (case dget_or (ev_payload e) ''row_snapshot'' PNone of
     PDict d \<Rightarrow> json_sql (dget_or d k PNone) | _ \<Rightarrow> PNone)"

definition row_matches :: "pdict \<Rightarrow> event \<Rightarrow> bool" where
  "row_matches cols e = list_all (\<lambda>kv. snd kv = snapshot_field e (fst kv)) cols"

definition abort :: "string \<Rightarrow> 'a res" where
  "abort m = Inl (IntegrityError m)"

section \<open>Hypotheses\<close>

definition hyp_cols :: "string \<Rightarrow> hyp_row \<Rightarrow> pdict" where
  "hyp_cols i r = [(''id'', PStr i), (''state'', PStr (hr_state r)), (''lens'', hr_lens r),
     (''protocol_type'', hr_protocol_type r), (''prior_p'', hr_prior_p r), (''body'', PStr (hr_body r))]"

definition hyp_event_ok :: "string list \<Rightarrow> event list \<Rightarrow> string \<Rightarrow> hyp_row \<Rightarrow> bool" where
  "hyp_event_ok kinds es i r = (case event_at es (hr_event r) of
     None \<Rightarrow> False
   | Some e \<Rightarrow> ev_entity e = ''hypothesis'' \<and> ev_entity_id e = i \<and> ev_kind e \<in> set kinds \<and> row_matches (hyp_cols i r) e)"

text \<open>The table \<open>legal_transitions\<close>, seeded from the lifecycle.\<close>

definition transition_seed :: "(string \<times> string) list" where
  "transition_seed = concat (map (\<lambda>a. map (\<lambda>b. (hstate_value a, hstate_value b)) (legal_targets a)) all_hstates)"

text \<open>The triggers \<open>hyp_state_insert_guard\<close> and \<open>hyp_insert_event_guard\<close>, and the primary key.\<close>

definition insert_hyp :: "string \<Rightarrow> hyp_row \<Rightarrow> store \<Rightarrow> store res" where
  "insert_hyp i r s =
     (if hr_state r \<noteq> ''OPEN'' then abort ''new hypotheses must start in OPEN''
      else if \<not> hyp_event_ok [''hyp_created''] (st_events s) i r then
        abort ''hypothesis inserts must be event-first and match the exact event snapshot''
      else if map_of (st_hyps s) i \<noteq> None then abort ''UNIQUE constraint failed: hypotheses.id''
      else Inr (s\<lparr>st_hyps := st_hyps s @ [(i, r)]\<rparr>))"

definition UPDATE_KINDS :: "string list" where
  "UPDATE_KINDS = [''hyp_updated'', ''hyp_transition'', ''hyp_ladder_award'']"

definition transition_event_ok :: "event list \<Rightarrow> string \<Rightarrow> hyp_row \<Rightarrow> hyp_row \<Rightarrow> bool" where
  "transition_event_ok es i old new = (case event_at es (hr_event new) of
     None \<Rightarrow> False
   | Some e \<Rightarrow> ev_entity e = ''hypothesis'' \<and> ev_entity_id e = i \<and> ev_kind e = ''hyp_transition'' \<and>
       payload_field e ''from'' = PStr (hr_state old) \<and> payload_field e ''to'' = PStr (hr_state new))"

text \<open>
  The triggers \<open>hyp_update_event_guard\<close> and, for an update that sets the state, \<open>hyp_state_guard\<close>. An
  update of an absent row changes nothing.
\<close>

definition update_hyp :: "bool \<Rightarrow> string \<Rightarrow> (hyp_row \<Rightarrow> hyp_row) \<Rightarrow> store \<Rightarrow> store res" where
  "update_hyp sets_state i f s =
     (case map_of (st_hyps s) i of
        None \<Rightarrow> Inr s
      | Some old \<Rightarrow> let new = f old in
          if hr_event new \<le> hr_event old \<or> \<not> hyp_event_ok UPDATE_KINDS (st_events s) i new then
            abort ''hypothesis updates must be event-first and match the exact event snapshot''
          else if sets_state \<and> hr_state old \<noteq> hr_state new \<and>
              ((hr_state old, hr_state new) \<notin> set transition_seed \<or> \<not> transition_event_ok (st_events s) i old new) then
            abort ''hypothesis state changes must be legal and event-first''
          else Inr (s\<lparr>st_hyps := AList.update i new (st_hyps s)\<rparr>))"

section \<open>Entity tables\<close>

definition MUTABLE_TABLE_KEYS :: "(string \<times> string) list" where
  "MUTABLE_TABLE_KEYS =
     [(''assumptions'', ''id''), (''invariants'', ''id''), (''experiments'', ''id''), (''failures'', ''id''),
      (''obligations'', ''key''), (''certificates'', ''id''), (''findings'', ''id''), (''tasks'', ''id''),
      (''known_issues'', ''id''), (''campaigns'', ''id''), (''human_reviews'', ''id''), (''budget_reservations'', ''id'')]"

definition ROW_COLUMNS :: "(string \<times> string list) list" where
  "ROW_COLUMNS =
     [(''assumptions'', [''id'', ''status'', ''body'']), (''invariants'', [''id'', ''status'', ''body'']),
      (''experiments'', [''id'', ''hyp_id'', ''task_id'', ''kind'', ''result'', ''body'']),
      (''failures'', [''id'', ''hyp_id'', ''kind'', ''body'']),
      (''obligations'', [''key'', ''status'', ''ref'', ''reason'', ''attempts'', ''depth'']),
      (''certificates'', [''id'', ''witness_sha256'', ''env_hash'', ''runs'', ''observed_records_sha256'',
         ''trace_policy_sha256'', ''control_sha256'', ''cross_check_sha256'', ''mac'', ''issued_at'', ''body'']),
      (''findings'', [''id'', ''hyp_id'', ''human_review'', ''certificate_id'', ''body'']),
      (''tasks'', [''id'', ''idempotency_key'', ''phase'', ''role'', ''status'', ''started_at'', ''finished_at'', ''result'']),
      (''known_issues'', [''id'', ''body'']), (''campaigns'', [''id'', ''body'']),
      (''human_reviews'', [''id'', ''subject_type'', ''subject_id'', ''reason_code'', ''status'', ''queued_at'',
         ''resolved_at'', ''reviewer'', ''resolution'']),
      (''budget_reservations'', [''id'', ''task_id'', ''max_usd'', ''reserved_usd'', ''settled_usd'', ''released_usd'', ''status''])]"

definition columns_of :: "string \<Rightarrow> string list" where
  "columns_of table = (case map_of ROW_COLUMNS table of None \<Rightarrow> [] | Some cs \<Rightarrow> cs)"

definition key_column :: "string \<Rightarrow> string" where
  "key_column table = (case map_of MUTABLE_TABLE_KEYS table of None \<Rightarrow> ''id'' | Some k \<Rightarrow> k)"

text \<open>\<open>table[:-1] if table.endswith("s") else table\<close>.\<close>

definition entity_of :: "string \<Rightarrow> string" where
  "entity_of table = (if endswith table ''s'' then butlast table else table)"

text \<open>The columns declared \<open>NOT NULL\<close> and the values that a \<open>CHECK\<close> admits.\<close>

definition NOT_NULL :: "(string \<times> string list) list" where
  "NOT_NULL =
     [(''assumptions'', [''status'', ''body'']), (''invariants'', [''status'', ''body'']), (''experiments'', [''body'']),
      (''failures'', [''body'']), (''obligations'', [''status'', ''attempts'', ''depth'']),
      (''certificates'', [''witness_sha256'', ''env_hash'', ''runs'', ''observed_records_sha256'',
         ''trace_policy_sha256'', ''control_sha256'', ''mac'', ''issued_at'', ''body'']),
      (''findings'', [''body'']), (''tasks'', [''idempotency_key'', ''status'']), (''known_issues'', [''body'']),
      (''campaigns'', [''body'']), (''human_reviews'', [''subject_type'', ''subject_id'', ''reason_code'', ''status'', ''queued_at'']),
      (''budget_reservations'', [''task_id'', ''max_usd'', ''reserved_usd'', ''settled_usd'', ''released_usd'', ''status''])]"

definition STATUS_CHECK :: "(string \<times> string list) list" where
  "STATUS_CHECK =
     [(''obligations'', [''open'', ''verified_bounded'', ''verified_proved'', ''refuted_with_witness'',
         ''blocked_with_reason'', ''out_of_budget_attempted'', ''never_attempted'']),
      (''tasks'', [''dispatched'', ''finished'', ''failed'', ''blocked_on_human'']),
      (''human_reviews'', [''queued'', ''resolved'']), (''budget_reservations'', [''reserved'', ''settled'', ''released''])]"

definition col :: "entity_row \<Rightarrow> string \<Rightarrow> pv" where
  "col r c = dget_or (tr_cols r) c PNone"

definition same_key_elsewhere :: "string \<Rightarrow> entity_row \<Rightarrow> store \<Rightarrow> bool" where
  "same_key_elsewhere key r s =
     list_ex (\<lambda>((table, k), r'). table = ''tasks'' \<and> k \<noteq> key \<and> col r' ''idempotency_key'' = col r ''idempotency_key'') (st_rows s)"

definition constraint_problem :: "string \<Rightarrow> string \<Rightarrow> entity_row \<Rightarrow> store \<Rightarrow> string option" where
  "constraint_problem table key r s =
     (if list_ex (\<lambda>c. col r c = PNone) (case map_of NOT_NULL table of None \<Rightarrow> [] | Some cs \<Rightarrow> cs) then
        Some (''NOT NULL constraint failed: '' @ table)
      else if (case map_of STATUS_CHECK table of None \<Rightarrow> False | Some vs \<Rightarrow> col r ''status'' \<notin> PStr ` set vs) then
        Some (''CHECK constraint failed: status'')
      else if table = ''tasks'' \<and> same_key_elsewhere key r s then
        Some ''UNIQUE constraint failed: tasks.idempotency_key''
      else if table = ''findings'' \<and> (case col r ''certificate_id'' of
          PStr c \<Rightarrow> map_of (st_rows s) (''certificates'', c) = None | v \<Rightarrow> v \<noteq> PNone) then
        Some ''FOREIGN KEY constraint failed''
      else None)"

definition row_event_ok :: "string \<Rightarrow> event list \<Rightarrow> string \<times> string \<Rightarrow> entity_row \<Rightarrow> bool" where
  "row_event_ok op es tk r = (case event_at es (tr_event r) of
     None \<Rightarrow> False
   | Some e \<Rightarrow> ev_entity e = entity_of (fst tk) \<and> ev_entity_id e = snd tk \<and> payload_field e ''entity_op'' = PStr op \<and>
       row_matches (map (\<lambda>c. (c, col r c)) (columns_of (fst tk))) e)"

text \<open>The triggers \<open><table>_insert_event_guard\<close> and \<open><table>_update_event_guard\<close>.\<close>

definition insert_row :: "string \<Rightarrow> string \<Rightarrow> entity_row \<Rightarrow> store \<Rightarrow> store res" where
  "insert_row table key r s =
     (if \<not> row_event_ok ''insert'' (st_events s) (table, key) r then
        abort (table @ '' inserts must be event-first and match the exact event snapshot'')
      else if map_of (st_rows s) (table, key) \<noteq> None then abort (''UNIQUE constraint failed: '' @ table)
      else case constraint_problem table key r s of
        Some m \<Rightarrow> abort m
      | None \<Rightarrow> Inr (s\<lparr>st_rows := st_rows s @ [((table, key), r)]\<rparr>))"

definition update_row :: "string \<Rightarrow> string \<Rightarrow> (entity_row \<Rightarrow> entity_row) \<Rightarrow> store \<Rightarrow> store res" where
  "update_row table key f s =
     (case map_of (st_rows s) (table, key) of
        None \<Rightarrow> Inr s
      | Some old \<Rightarrow> let new = f old in
          if tr_event new \<le> tr_event old \<or> \<not> row_event_ok ''update'' (st_events s) (table, key) new then
            abort (table @ '' updates must be event-first and match the exact event snapshot'')
          else case constraint_problem table key new s of
            Some m \<Rightarrow> abort m
          | None \<Rightarrow> Inr (s\<lparr>st_rows := AList.update (table, key) new (st_rows s)\<rparr>))"

section \<open>Transactions\<close>

text \<open>\<open>submit\<close>: the transaction is rolled back when its body raises.\<close>

definition submit :: "(store \<Rightarrow> ('a \<times> store) res) \<Rightarrow> store \<Rightarrow> 'a res \<times> store" where
  "submit txn s = (case txn s of Inl e \<Rightarrow> (Inl e, s) | Inr (x, t) \<Rightarrow> (Inr x, t))"

definition record_event :: "string \<Rightarrow> string \<Rightarrow> string \<Rightarrow> pdict \<Rightarrow> store \<Rightarrow> nat res \<times> store" where
  "record_event now entity eid payload = submit (insert_event now entity eid payload)"

text \<open>\<open>events.emit\<close>: a kind in the payload replaces the one that was validated first.\<close>

definition emit :: "string \<Rightarrow> string \<Rightarrow> string \<Rightarrow> string \<Rightarrow> pdict option \<Rightarrow> store \<Rightarrow> nat res \<times> store" where
  "emit now kind entity eid payload s =
     (case validate_kind kind of
        Inl e \<Rightarrow> (Inl e, s)
      | Inr _ \<Rightarrow> record_event now entity eid (dmerge [(''kind'', PStr kind)] (case payload of None \<Rightarrow> [] | Some p \<Rightarrow> p)) s)"

text \<open>\<open>next_id\<close>.\<close>

definition next_id :: "string \<Rightarrow> store \<Rightarrow> string res \<times> store" where
  "next_id prefix0 s =
     (let prefix = upper (strip prefix0) in
      if prefix = [] \<or> 8 < length prefix \<or> \<not> isalnum prefix then (Inl (ValueError ''invalid ID prefix''), s)
      else submit (\<lambda>s. let v = (case map_of (st_counters s) prefix of None \<Rightarrow> 1 | Some n \<Rightarrow> n) in
        Inr (prefix @ ''-'' @ pad3 v, s\<lparr>st_counters := AList.update prefix (Suc v) (st_counters s)\<rparr>)) s)"

section \<open>What a change may do\<close>

definition hyp_justified :: "event list \<Rightarrow> string \<Rightarrow> hyp_row \<Rightarrow> bool" where
  "hyp_justified es i r = hyp_event_ok (''hyp_created'' # UPDATE_KINDS) es i r"

definition row_justified :: "event list \<Rightarrow> string \<times> string \<Rightarrow> entity_row \<Rightarrow> bool" where
  "row_justified es tk r = (row_event_ok ''insert'' es tk r \<or> row_event_ok ''update'' es tk r)"

definition legal_step :: "string \<Rightarrow> string \<Rightarrow> bool" where
  "legal_step a b = ((a, b) \<in> set transition_seed)"

section \<open>An interface: rows justified by a log\<close>

text \<open>
  The contract of an event-first database, for rows of any kind: the log only grows, and a step leaves a
  row as it was or writes one that an event of the new log justifies.
\<close>

locale event_sourced =
  fixes log :: "'s \<Rightarrow> 'e list"
    and row :: "'s \<Rightarrow> 'k \<Rightarrow> 'r option"
    and justified :: "'e list \<Rightarrow> 'k \<Rightarrow> 'r \<Rightarrow> bool"
    and step :: "'s \<Rightarrow> 's \<Rightarrow> bool"
  assumes log_grows: "step s t \<Longrightarrow> \<exists>es. log t = log s @ es"
    and justified_append: "justified es k r \<Longrightarrow> justified (es @ fs) k r"
    and written: "step s t \<Longrightarrow> row t k = Some r \<Longrightarrow> row s k = Some r \<or> justified (log t) k r"
begin

lemma reached_log: "step\<^sup>*\<^sup>* s t \<Longrightarrow> \<exists>es. log t = log s @ es"
proof (induction rule: rtranclp_induct)
  case (step t u)
  then show ?case using log_grows by (metis append.assoc)
qed simp

lemma reached_justified:
  assumes "step\<^sup>*\<^sup>* s t" "\<And>k r. row s k = Some r \<Longrightarrow> justified (log s) k r" "row t k = Some r"
  shows "justified (log t) k r"
  using assms(1,3)
proof (induction arbitrary: r rule: rtranclp_induct)
  case (step t u)
  from written [OF step.hyps(2) step.prems] log_grows [OF step.hyps(2)] show ?case
    using step.IH justified_append by metis
qed (use assms(2) in blast)

end

text \<open>Rows with a state, which are born in one state, are never deleted, and move by legal steps only.\<close>

locale event_sourced_states = event_sourced +
  fixes state :: "'r \<Rightarrow> 'q" and first_state :: 'q and legal :: "'q \<Rightarrow> 'q \<Rightarrow> bool"
  assumes kept: "step s t \<Longrightarrow> row s k = Some r \<Longrightarrow> \<exists>r'. row t k = Some r' \<and> legal\<^sup>*\<^sup>* (state r) (state r')"
    and born: "step s t \<Longrightarrow> row s k = None \<Longrightarrow> row t k = Some r \<Longrightarrow> legal\<^sup>*\<^sup>* first_state (state r)"
begin

lemma reached_moves:
  assumes "step\<^sup>*\<^sup>* s t" "row s k = Some r"
  shows "\<exists>r'. row t k = Some r' \<and> legal\<^sup>*\<^sup>* (state r) (state r')"
  using assms(1)
proof (induction rule: rtranclp_induct)
  case (step t u)
  then obtain r' where "row t k = Some r'" "legal\<^sup>*\<^sup>* (state r) (state r')" by blast
  with kept [OF step.hyps(2)] show ?case by (metis rtranclp_trans)
qed (use assms(2) in auto)

lemma reached_legal:
  assumes "step\<^sup>*\<^sup>* s t" "\<And>k. row s k = None" "row t k = Some r"
  shows "legal\<^sup>*\<^sup>* first_state (state r)"
  using assms(1,3)
proof (induction arbitrary: r rule: rtranclp_induct)
  case base
  with assms(2) show ?case by simp
next
  case (step t u)
  show ?case
  proof (cases "row t k")
    case None
    from born [OF step.hyps(2) None step.prems] show ?thesis .
  next
    case (Some r0)
    from kept [OF step.hyps(2) Some] step.prems step.IH [OF Some] show ?thesis
      by (metis option.inject rtranclp_trans)
  qed
qed

end

section \<open>Changes of the store\<close>

text \<open>Everything that a transaction may do to the database.\<close>

definition changes :: "store \<Rightarrow> store \<Rightarrow> bool" where
  "changes s t =
     ((\<exists>es. st_events t = st_events s @ es) \<and>
      (\<forall>i r. map_of (st_hyps t) i = Some r \<longrightarrow> map_of (st_hyps s) i = Some r \<or> hyp_justified (st_events t) i r) \<and>
      (\<forall>tk r. map_of (st_rows t) tk = Some r \<longrightarrow> map_of (st_rows s) tk = Some r \<or> row_justified (st_events t) tk r) \<and>
      (\<forall>i r. map_of (st_hyps s) i = Some r \<longrightarrow> (\<exists>r'. map_of (st_hyps t) i = Some r' \<and>
         legal_step\<^sup>*\<^sup>* (hr_state r) (hr_state r'))) \<and>
      (\<forall>i r. map_of (st_hyps s) i = None \<longrightarrow> map_of (st_hyps t) i = Some r \<longrightarrow> legal_step\<^sup>*\<^sup>* ''OPEN'' (hr_state r)) \<and>
      (\<forall>p n. map_of (st_counters s) p = Some n \<longrightarrow> (\<exists>m \<ge> n. map_of (st_counters t) p = Some m)) \<and>
      (\<forall>p m. map_of (st_counters s) p = None \<longrightarrow> map_of (st_counters t) p = Some m \<longrightarrow> 1 < m))"

lemma event_at_append: "event_at es i = Some e \<Longrightarrow> event_at (es @ fs) i = Some e"
  by (auto simp: event_at_def nth_append split: if_splits)

lemma hyp_justified_append: "hyp_justified es i r \<Longrightarrow> hyp_justified (es @ fs) i r"
  by (auto simp: hyp_justified_def hyp_event_ok_def event_at_append split: option.splits)

lemma row_event_ok_append: "row_event_ok op es tk r \<Longrightarrow> row_event_ok op (es @ fs) tk r"
  by (auto simp: row_event_ok_def event_at_append split: option.splits)

lemma row_justified_append: "row_justified es tk r \<Longrightarrow> row_justified (es @ fs) tk r"
  by (auto simp: row_justified_def row_event_ok_append)

lemma changes_refl [simp]: "changes s s"
  by (auto simp: changes_def)

lemma changes_trans:
  assumes "changes s t" "changes t u"
  shows "changes s u"
proof -
  from assms obtain es fs where log: "st_events t = st_events s @ es" "st_events u = st_events t @ fs"
    by (auto simp: changes_def)
  from assms(1) have s: "\<And>i r. map_of (st_hyps t) i = Some r \<Longrightarrow> map_of (st_hyps s) i = Some r \<or> hyp_justified (st_events t) i r"
    "\<And>tk r. map_of (st_rows t) tk = Some r \<Longrightarrow> map_of (st_rows s) tk = Some r \<or> row_justified (st_events t) tk r"
    unfolding changes_def by blast+
  from assms(2) have t: "\<And>i r. map_of (st_hyps u) i = Some r \<Longrightarrow> map_of (st_hyps t) i = Some r \<or> hyp_justified (st_events u) i r"
    "\<And>tk r. map_of (st_rows u) tk = Some r \<Longrightarrow> map_of (st_rows t) tk = Some r \<or> row_justified (st_events u) tk r"
    unfolding changes_def by blast+
  have "map_of (st_hyps s) i = Some r \<or> hyp_justified (st_events u) i r" if "map_of (st_hyps u) i = Some r" for i r
    using s(1) t(1) that hyp_justified_append log(2) by metis
  moreover have "map_of (st_rows s) tk = Some r \<or> row_justified (st_events u) tk r" if "map_of (st_rows u) tk = Some r" for tk r
    using s(2) t(2) that row_justified_append log(2) by metis
  moreover have "\<exists>r'. map_of (st_hyps u) i = Some r' \<and> legal_step\<^sup>*\<^sup>* (hr_state r) (hr_state r')"
    if "map_of (st_hyps s) i = Some r" for i r
    using assms that unfolding changes_def by (meson rtranclp_trans)
  moreover have "legal_step\<^sup>*\<^sup>* ''OPEN'' (hr_state r)" if "map_of (st_hyps s) i = None" "map_of (st_hyps u) i = Some r" for i r
  proof (cases "map_of (st_hyps t) i")
    case None
    with assms(2) that(2) show ?thesis unfolding changes_def by blast
  next
    case (Some r0)
    with assms(1) that(1) have "legal_step\<^sup>*\<^sup>* ''OPEN'' (hr_state r0)" unfolding changes_def by blast
    moreover from Some assms(2) that(2) have "legal_step\<^sup>*\<^sup>* (hr_state r0) (hr_state r)"
      unfolding changes_def by (metis option.inject)
    ultimately show ?thesis by (rule rtranclp_trans)
  qed
  moreover have "\<exists>m \<ge> n. map_of (st_counters u) p = Some m" if "map_of (st_counters s) p = Some n" for p n
    using assms that unfolding changes_def by (meson le_trans)
  moreover have "1 < m" if "map_of (st_counters s) p = None" "map_of (st_counters u) p = Some m" for p m
  proof (cases "map_of (st_counters t) p")
    case None
    with assms(2) that(2) show ?thesis unfolding changes_def by blast
  next
    case (Some n)
    with assms(1) that(1) have "1 < n" unfolding changes_def by blast
    with Some assms(2) that(2) show ?thesis unfolding changes_def by (metis less_le_trans option.inject)
  qed
  ultimately show ?thesis using log unfolding changes_def by auto
qed

named_theorems store_changes \<open>operations that only make admissible changes\<close>

lemma insert_event_changes [store_changes]: "insert_event now entity eid d s = Inr (n, t) \<Longrightarrow> changes s t"
  by (auto simp: insert_event_def changes_def Let_def ebind_eq_Inr)

lemma insert_event_eq:
  assumes "insert_event now entity eid d s = Inr (n, t)"
  shows "n = Suc (length (st_events s))" "st_hyps t = st_hyps s" "st_rows t = st_rows s" "st_counters t = st_counters s"
    "st_events t = st_events s @ [\<lparr>ev_ts = now, ev_kind = py_str (dget_or (redact_items d) ''kind'' (PStr ''event'')),
       ev_entity = entity, ev_entity_id = eid, ev_payload = stored_payload d\<rparr>]"
  using assms by (auto simp: insert_event_def Let_def ebind_eq_Inr validate_kind_def split: if_splits)

lemma insert_hyp_changes [store_changes]: "insert_hyp i r s = Inr t \<Longrightarrow> changes s t"
  by (auto simp: insert_hyp_def abort_def changes_def hyp_justified_def hyp_event_ok_def map_add_Some_iff
      split: if_splits option.splits)

lemma update_hyp_changes [store_changes]:
  assumes "update_hyp sets_state i f s = Inr t" "sets_state \<or> (\<forall>r. hr_state (f r) = hr_state r)"
  shows "changes s t"
proof (cases "map_of (st_hyps s) i")
  case None
  with assms(1) show ?thesis by (simp add: update_hyp_def)
next
  case (Some old)
  with assms(1) have t: "t = s\<lparr>st_hyps := AList.update i (f old) (st_hyps s)\<rparr>"
    and ok: "hyp_event_ok UPDATE_KINDS (st_events s) i (f old)"
    and state: "sets_state \<Longrightarrow> hr_state old \<noteq> hr_state (f old) \<Longrightarrow> legal_step (hr_state old) (hr_state (f old))"
    by (auto simp: update_hyp_def abort_def Let_def legal_step_def split: if_splits)
  from state assms(2) have "legal_step\<^sup>*\<^sup>* (hr_state old) (hr_state (f old))"
    by (cases "hr_state old = hr_state (f old)") auto
  moreover from ok have "hyp_justified (st_events s) i (f old)"
    by (auto simp: hyp_justified_def hyp_event_ok_def split: option.splits)
  ultimately show ?thesis using Some by (auto simp: t changes_def update_conv')
qed

lemma insert_row_changes [store_changes]: "insert_row table key r s = Inr t \<Longrightarrow> changes s t"
  by (auto simp: insert_row_def abort_def changes_def row_justified_def map_add_Some_iff split: if_splits option.splits)

lemma update_row_changes [store_changes]: "update_row table key f s = Inr t \<Longrightarrow> changes s t"
  by (auto simp: update_row_def abort_def changes_def row_justified_def update_conv' Let_def split: if_splits option.splits)

lemma submit_changes:
  assumes "\<And>x t. txn s = Inr (x, t) \<Longrightarrow> changes s t"
  shows "changes s (snd (submit txn s))"
  using assms by (auto simp: submit_def split: sum.splits)

lemma next_id_changes: "changes s (snd (next_id prefix s))"
  by (auto simp: next_id_def submit_def Let_def changes_def update_conv' split: option.splits)

lemma record_event_changes: "changes s (snd (record_event now entity eid d s))"
  unfolding record_event_def by (rule submit_changes) (rule insert_event_changes)

end
