(* ===== verification/Store.thy ===== *)
theory Store
  imports StoreDb Ladder Trace
begin

text \<open>
  The operations of \<open>core/store.py\<close>'s class \<open>Store\<close> and of \<open>core/tasks.py\<close>, with \<open>core/ids.py\<close>. An
  operation takes the store and returns its result, or the exception, and the store after it: a
  transaction that raises leaves the store as it was. The clock is an argument, read once per call;
  \<open>json.loads\<close> is an argument where a stored text is parsed. The writer's lock makes operations atomic, so
  an execution is a sequence of them (\<open>store_step\<close>).
\<close>

section \<open>Identifiers\<close>

record audit_counter =
  ac_prefix :: string
  ac_value :: int

definition audit_counter_new :: "string \<Rightarrow> int \<Rightarrow> audit_counter res" where
  "audit_counter_new prefix start =
     (if prefix = [] \<or> \<not> isalnum prefix then Inl (ValueError ''prefix must be non-empty and alphanumeric'')
      else if start < 1 then Inl (ValueError ''start must be >= 1'')
      else Inr \<lparr>ac_prefix = prefix, ac_value = start\<rparr>)"

definition audit_counter_next :: "audit_counter \<Rightarrow> string \<times> audit_counter" where
  "audit_counter_next c = (ac_prefix c @ ''-'' @ pad3 (nat (ac_value c)), c\<lparr>ac_value := ac_value c + 1\<rparr>)"

text \<open>\<open>ids.next_id\<close>: the store's counters, or an audit's own.\<close>

definition ids_next_id :: "string \<Rightarrow> audit_counter option \<Rightarrow> store option \<Rightarrow> string res \<times> audit_counter option \<times> store option" where
  "ids_next_id prefix counter st =
     (case st of
        Some s \<Rightarrow> (case next_id prefix s of (r, t) \<Rightarrow> (r, counter, Some t))
      | None \<Rightarrow> (case counter of
          None \<Rightarrow> (Inl (ValueError ''next_id requires an AuditCounter or DB-backed Store''), None, None)
        | Some c \<Rightarrow> (case audit_counter_next c of (i, c') \<Rightarrow> (Inr i, Some c', None))))"

section \<open>Payloads of hypotheses\<close>

fun capability_value :: "capability \<Rightarrow> string" where
  "capability_value PERMISSIONLESS = ''permissionless''"
| "capability_value FLASH_LOAN = ''flash_loan''"
| "capability_value DONATION = ''donation''"
| "capability_value REENTRANCY_HOOK = ''reentrancy_hook''"
| "capability_value MALICIOUS_TOKEN = ''malicious_token_or_receiver''"
| "capability_value ORACLE_MANIP = ''oracle_manipulation''"
| "capability_value ORDERING = ''ordering_mev''"
| "capability_value CROSS_PROTOCOL = ''cross_protocol_call''"

fun level_pv :: "level \<Rightarrow> pv" where
  "level_pv (LInt i) = PInt i"
| "level_pv (LStr s) = PStr s"

definition texts :: "string list \<Rightarrow> pv" where
  "texts ss = PList (map PStr ss)"

definition span_dump :: "span \<Rightarrow> pv" where
  "span_dump s = PDict [(''file'', PStr (sp_file s)), (''start'', PInt (sp_start s)), (''end'', PInt (sp_end s)),
     (''sha256'', PStr (sp_sha256 s))]"

text \<open>\<open>hypothesis.model_dump(mode="json")\<close>.\<close>

definition hypothesis_dump :: "hypothesis \<Rightarrow> pdict" where
  "hypothesis_dump h =
     [(''id'', PStr (h_id h)), (''claim'', PStr (h_claim h)), (''target'', span_dump (h_target h)),
      (''invariant_id'', PStr (h_invariant_id h)), (''capabilities'', texts (map capability_value (h_capabilities h))),
      (''preconditions'', texts (h_preconditions h)), (''assumptions'', texts (h_assumptions h)),
      (''attack_sketch'', texts (h_attack_sketch h)), (''lens'', opt_str (h_lens h)), (''channel'', PStr (h_channel h)),
      (''protocol_type'', PStr (h_protocol_type h)), (''mechanism_tag'', PStr (h_mechanism_tag h)),
      (''canonical_key'', opt_str (h_canonical_key h)), (''prior_p'', h_prior_p h), (''est_impact'', PStr (h_est_impact h)),
      (''est_cost'', PStr (h_est_cost h)), (''state'', PStr (hstate_value (h_state h))),
      (''ladder'', PDict (map (\<lambda>(a, l). (a, level_pv l)) (h_ladder h))),
      (''witness_feasibility'', PStr (h_witness_feasibility h)),
      (''skeptic_disposition'', PStr (h_skeptic_disposition h)), (''skeptic_defects'', PList (h_skeptic_defects h)),
      (''second_opinion_disposition'', PStr (h_second_opinion_disposition h)),
      (''second_opinion_defects'', PList (h_second_opinion_defects h)), (''disputed'', PBool (h_disputed h)),
      (''dispute'', h_dispute h), (''provenance'', PDict (h_provenance h)),
      (''parked_unblock'', opt_str (h_parked_unblock h)), (''close_reason'', opt_str (h_close_reason h)),
      (''merged_into'', opt_str (h_merged_into h)), (''duplicate_of'', opt_str (h_duplicate_of h)),
      (''reopen_count'', PInt (int (h_reopen_count h))), (''parent_hypotheses'', texts (h_parent_hypotheses h)),
      (''composition_rationale'', opt_str (h_composition_rationale h)), (''created_at'', PStr (h_created_at h)),
      (''updated_at'', PStr (h_updated_at h))]"

definition hyp_row_snapshot :: "pdict \<Rightarrow> string \<Rightarrow> pdict" where
  "hyp_row_snapshot payload body =
     [(''id'', dget_or payload ''id'' PNone), (''state'', dget_or payload ''state'' PNone),
      (''lens'', dget_or payload ''lens'' PNone), (''protocol_type'', dget_or payload ''protocol_type'' PNone),
      (''prior_p'', dget_or payload ''prior_p'' PNone), (''body'', PStr body)]"

definition body_of :: "pdict \<Rightarrow> string" where
  "body_of payload = canonical (PDict payload)"

text \<open>The bound columns of a payload and the row written with them.\<close>

definition hyp_row_of :: "pdict \<Rightarrow> string \<Rightarrow> string \<Rightarrow> nat \<Rightarrow> hyp_row res" where
  "hyp_row_of payload state body ev =
     ebind (sql_bind (dget_or payload ''lens'' PNone)) (\<lambda>lens.
     ebind (sql_bind (dget_or payload ''protocol_type'' PNone)) (\<lambda>ptype.
     ebind (sql_bind (dget_or payload ''prior_p'' PNone)) (\<lambda>prior.
       Inr \<lparr>hr_state = state, hr_lens = lens, hr_protocol_type = ptype, hr_prior_p = prior, hr_body = body, hr_event = ev\<rparr>)))"

section \<open>Creating and saving\<close>

definition create_hypothesis :: "string \<Rightarrow> pdict \<Rightarrow> string option \<Rightarrow> store \<Rightarrow> pdict res \<times> store" where
  "create_hypothesis now payload entity_id s =
     (let d0 = redact_items payload; given_id = dget_or d0 ''id'' PNone;
          (hid, s0) = (if given entity_id then (Inr (the entity_id), s)
            else if truthy given_id then (Inr (py_str given_id), s) else next_id ''H'' s)
      in case hid of
           Inl e \<Rightarrow> (Inl e, s0)
         | Inr i \<Rightarrow>
             let d1 = dset d0 ''id'' (PStr i); d = (if dhas d1 ''state'' then d1 else dset d1 ''state'' (PStr ''OPEN'')) in
             if dget_or d ''state'' PNone \<noteq> PStr ''OPEN'' then
               (Inl (ValueError ''new hypotheses must start in OPEN''), s0)
             else
               let body = body_of d in
               submit (\<lambda>s. ebind (insert_event now ''hypothesis'' i
                   [(''kind'', PStr ''hyp_created''), (''entity_op'', PStr ''insert''), (''state'', PStr ''OPEN''),
                    (''snapshot'', PDict d), (''row_snapshot'', PDict (hyp_row_snapshot d body))] s) (\<lambda>(ev, s1).
                 ebind (hyp_row_of d ''OPEN'' body ev) (\<lambda>row.
                 ebind (insert_hyp i row s1) (\<lambda>s2. Inr (d, s2))))) s0)"

text \<open>\<open>save\<close> of a hypothesis that exists.\<close>

definition update_hypothesis :: "(string \<Rightarrow> pv option) \<Rightarrow> string \<Rightarrow> string \<Rightarrow> pdict \<Rightarrow> hyp_row \<Rightarrow> store \<Rightarrow> pv res \<times> store" where
  "update_hypothesis loads now i payload existing s =
     (let parsed = (case loads (hr_body existing) of Some v \<Rightarrow> Inr v | None \<Rightarrow> Inl (JSONDecodeError ''Expecting value'')) in
      if \<not> py_eq (dget_or payload ''state'' (PStr (hr_state existing))) (PStr (hr_state existing)) then
        (Inl (ValueError ''hypothesis state changes must use Store.transition_hypothesis''), s)
      else if payload = [] then (parsed, s)
      else if \<not> dhas payload ''cause'' \<or> \<not> dhas payload ''evidence'' then
        (Inl (ValueError ''existing hypothesis updates require cause and evidence so the change is event-backed''), s)
      else case ebind (py_iter (dget_or payload ''evidence'' PNone)) (\<lambda>evidence. ebind parsed (\<lambda>v. case v of
          PDict old \<Rightarrow> Inr (evidence, redact_items (dset (dset (dmerge old (dpop (dpop payload ''cause'') ''evidence''))
            ''id'' (PStr i)) ''state'' (PStr (hr_state existing))))
        | _ \<Rightarrow> Inl (TypeError ''object is not a mapping''))) of
        Inl e \<Rightarrow> (Inl e, s)
      | Inr (evidence, d) \<Rightarrow>
          let body = body_of d in
          submit (\<lambda>s. ebind (insert_event now ''hypothesis'' i
              [(''kind'', PStr ''hyp_updated''), (''entity_op'', PStr ''update''),
               (''cause'', PStr (py_str (dget_or payload ''cause'' PNone))), (''evidence'', PList evidence),
               (''snapshot'', PDict d), (''row_snapshot'', PDict (hyp_row_snapshot d body))] s) (\<lambda>(ev, s1).
            ebind (hyp_row_of d [] body ev) (\<lambda>row.
            ebind (update_hyp False i (\<lambda>old. row\<lparr>hr_state := hr_state old\<rparr>) s1) (\<lambda>s2. Inr (PDict d, s2))))) s)"

definition ALIASES :: "(string \<times> string) list" where
  "ALIASES =
     concat (map (\<lambda>t. [(entity_of t, t), (t, t)]) (map fst MUTABLE_TABLE_KEYS)) @
     [(''failure_record'', ''failures''), (''replay_certificate'', ''certificates'')]"

text \<open>\<open>json.dumps(data.get("result"), sort_keys=True)\<close>, or null.\<close>

definition result_json :: "pdict \<Rightarrow> pv" where
  "result_json d = (case dget_or d ''result'' PNone of PNone \<Rightarrow> PNone | v \<Rightarrow> PStr (jdumps '', '' '': '' v))"

text \<open>A column from a key of the data, with a default, or from a key that must be there.\<close>

datatype column_source = Opt string pv | Req string | Val pv

fun column_value :: "pdict \<Rightarrow> column_source \<Rightarrow> pv res" where
  "column_value d (Opt k dflt) = Inr (dget_or d k dflt)"
| "column_value d (Req k) = need d k"
| "column_value d (Val v) = Inr v"

definition row_sources :: "string \<Rightarrow> string \<Rightarrow> pdict \<Rightarrow> string \<Rightarrow> (string \<times> column_source) list" where
  "row_sources table i d body =
     (let idc = (''id'', Val (PStr i)); bodyc = (''body'', Val (PStr body)); opt = (\<lambda>c. (c, Opt c PNone)); req = (\<lambda>c. (c, Req c)) in
      if table = ''assumptions'' then [idc, (''status'', Opt ''status'' (PStr ''unverified'')), bodyc]
      else if table = ''invariants'' then [idc, (''status'', Opt ''status'' (PStr ''candidate'')), bodyc]
      else if table = ''experiments'' then [idc, (''hyp_id'', Opt ''hypothesis_id'' PNone), opt ''task_id'', opt ''kind'',
        (''result'', Val (result_json d)), bodyc]
      else if table = ''failures'' then [idc, (''hyp_id'', Opt ''hypothesis_id'' PNone), opt ''kind'', bodyc]
      else if table = ''obligations'' then [(''key'', Val (PStr i)), (''status'', Opt ''status'' (PStr ''open'')), opt ''ref'',
        opt ''reason'', (''attempts'', Opt ''attempts'' (PInt 0)), (''depth'', Opt ''depth'' (PInt 0))]
      else if table = ''certificates'' then [idc] @ map req [''witness_sha256'', ''env_hash'', ''runs'',
        ''observed_records_sha256'', ''trace_policy_sha256'', ''control_sha256''] @ [opt ''cross_check_sha256'',
        req ''mac'', req ''issued_at'', bodyc]
      else if table = ''findings'' then [idc, (''hyp_id'', Opt ''hypothesis_id'' PNone),
        (''human_review'', Opt ''human_review'' (PStr ''pending'')), opt ''certificate_id'', bodyc]
      else if table = ''tasks'' then [idc, req ''idempotency_key'', opt ''phase'', opt ''role'',
        (''status'', Opt ''status'' (PStr ''dispatched'')), opt ''started_at'', opt ''finished_at'', (''result'', Val (result_json d))]
      else if table = ''human_reviews'' then [idc, req ''subject_type'', req ''subject_id'', req ''reason_code'',
        (''status'', Opt ''status'' (PStr ''queued'')), req ''queued_at'', opt ''resolved_at'', opt ''reviewer'', opt ''resolution'']
      else if table = ''budget_reservations'' then [idc, req ''task_id'', req ''max_usd'', req ''reserved_usd'',
        (''settled_usd'', Opt ''settled_usd'' (PInt 0)), (''released_usd'', Opt ''released_usd'' (PInt 0)),
        (''status'', Opt ''status'' (PStr ''reserved''))]
      else [idc, bodyc])"

definition row_snapshot_of :: "string \<Rightarrow> string \<Rightarrow> pdict \<Rightarrow> string \<Rightarrow> pdict res" where
  "row_snapshot_of table i d body =
     emap (\<lambda>cs. map_sum id (Pair (fst cs)) (column_value d (snd cs))) (row_sources table i d body)"

text \<open>Every column of a snapshot is bound and written.\<close>

definition bound_row :: "pdict \<Rightarrow> nat \<Rightarrow> entity_row res" where
  "bound_row snapshot ev =
     ebind (emap (\<lambda>kv. map_sum id (Pair (fst kv)) (sql_bind (snd kv))) snapshot) (\<lambda>cols.
       Inr \<lparr>tr_cols = cols, tr_event = ev\<rparr>)"

definition save_generic :: "string \<Rightarrow> string \<Rightarrow> string \<Rightarrow> pdict \<Rightarrow> string \<Rightarrow> store \<Rightarrow> unit res \<times> store" where
  "save_generic now entity i d body s =
     (case map_of ALIASES entity of
        None \<Rightarrow> (Inl (ValueError (''unsupported entity: '' @ entity)), s)
      | Some table \<Rightarrow> submit (\<lambda>s.
          let op = (if map_of (st_rows s) (table, i) \<noteq> None then ''update'' else ''insert'') in
          ebind (row_snapshot_of table i d body) (\<lambda>snapshot.
          ebind (insert_event now (entity_of table) i
              [(''kind'', PStr ''entity_saved''), (''entity_op'', PStr op), (''table'', PStr table),
               (''snapshot'', PDict (dset d (key_column table) (PStr i))), (''row_snapshot'', PDict snapshot)] s) (\<lambda>(ev, s1).
          ebind (bound_row snapshot ev) (\<lambda>row.
          ebind (if op = ''insert'' then insert_row table i row s1 else update_row table i (\<lambda>_. row) s1) (\<lambda>s2.
            Inr ((), s2)))))) s)"

text \<open>\<open>save\<close>; the text of a result is read back.\<close>

definition save :: "(string \<Rightarrow> pv option) \<Rightarrow> string \<Rightarrow> string \<Rightarrow> string \<Rightarrow> pdict \<Rightarrow> store \<Rightarrow> pv res \<times> store" where
  "save loads now entity0 i payload s =
     (let entity = lower (strip entity0) in
      if entity \<in> {''hypothesis'', ''hypotheses''} then
        (case map_of (st_hyps s) i of
           None \<Rightarrow> (case create_hypothesis now payload (Some i) s of (r, t) \<Rightarrow> (map_sum id PDict r, t))
         | Some existing \<Rightarrow> update_hypothesis loads now i payload existing s)
      else
        let d = redact_items payload; body = body_of (dset d ''id'' (PStr i)) in
        (case save_generic now entity i d body s of (r, t) \<Rightarrow> (ebind r (\<lambda>_.
           case loads body of Some v \<Rightarrow> Inr v | None \<Rightarrow> Inl (JSONDecodeError ''Expecting value'')), t)))"

section \<open>Transitions and awards\<close>

definition same_state :: "store \<Rightarrow> string \<Rightarrow> string \<Rightarrow> unit res" where
  "same_state s i old = (case map_of (st_hyps s) i of
     None \<Rightarrow> Inl (KeyError i)
   | Some r \<Rightarrow> if hr_state r \<noteq> old then Inl (RuntimeError ''stale hypothesis state; reload before transition'') else Inr ())"

definition transition_payload :: "string \<Rightarrow> hypothesis \<Rightarrow> hstate \<Rightarrow> pdict" where
  "transition_payload now h new =
     (let d = dset (hypothesis_dump h) ''state'' (PStr (hstate_value new));
          d' = (if human_only_reopen (h_state h, new) then dset d ''reopen_count'' (PInt (int (h_reopen_count h) + 1)) else d)
      in dset d' ''updated_at'' (PStr now))"

definition transition_event :: "hypothesis \<Rightarrow> hstate \<Rightarrow> string \<Rightarrow> string list \<Rightarrow> pdict \<Rightarrow> string \<Rightarrow> pdict" where
  "transition_event h new cause evidence payload body =
     [(''kind'', PStr ''hyp_transition''), (''entity_op'', PStr ''update''), (''from'', PStr (hstate_value (h_state h))),
      (''to'', PStr (hstate_value new)), (''cause'', PStr cause), (''evidence'', texts evidence),
      (''snapshot'', PDict payload), (''row_snapshot'', PDict (hyp_row_snapshot payload body))]"

definition transition_txn :: "string \<Rightarrow> hypothesis \<Rightarrow> hstate \<Rightarrow> string \<Rightarrow> string list \<Rightarrow> store \<Rightarrow> (hypothesis \<times> store) res" where
  "transition_txn now h new cause evidence s =
     (let payload = transition_payload now h new; body = canonical (redact_payload (PDict payload));
          reopened = human_only_reopen (h_state h, new);
          count = (if reopened then h_reopen_count h + 1 else h_reopen_count h) in
      ebind (same_state s (h_id h) (hstate_value (h_state h))) (\<lambda>_.
      ebind (insert_event now ''hypothesis'' (h_id h) (transition_event h new cause evidence payload body) s) (\<lambda>(ev, s1).
      ebind (hyp_row_of payload (hstate_value new) body ev) (\<lambda>row.
      ebind (update_hyp True (h_id h) (\<lambda>_. row) s1) (\<lambda>s2.
      ebind (if reopened \<and> count = 3 then
          map_sum id snd (insert_event now ''hypothesis'' (h_id h)
            [(''kind'', PStr ''reopen_threshold_exceeded''), (''reopen_count'', PInt 3)] s2)
        else Inr s2) (\<lambda>s3.
        Inr (h\<lparr>h_state := new, h_updated_at := now, h_reopen_count := count\<rparr>, s3)))))))"

definition transition_hypothesis :: "host \<Rightarrow> string \<Rightarrow> driver_token option \<Rightarrow> hypothesis \<Rightarrow> hstate \<Rightarrow> string \<Rightarrow>
    string list \<Rightarrow> store \<Rightarrow> hypothesis res \<times> store" where
  "transition_hypothesis H now tok h new cause evidence s =
     (case validate_transition H tok h new cause evidence of
        Inl e \<Rightarrow> (Inl e, s)
      | Inr _ \<Rightarrow> submit (transition_txn now h new cause evidence) s)"

definition award_event :: "ladder_proof \<Rightarrow> pdict \<Rightarrow> string \<Rightarrow> pdict" where
  "award_event p payload body =
     [(''kind'', PStr ''hyp_ladder_award''), (''entity_op'', PStr ''update''), (''axis'', PStr (lp_axis p)),
      (''level'', level_pv (lp_level p)), (''evidence'', texts (lp_evidence p)), (''snapshot'', PDict payload),
      (''row_snapshot'', PDict (hyp_row_snapshot payload body))]"

text \<open>The staleness check reads the state in the stored body.\<close>

definition same_body_state :: "(string \<Rightarrow> pv option) \<Rightarrow> store \<Rightarrow> string \<Rightarrow> pv \<Rightarrow> unit res" where
  "same_body_state loads s i state = (case map_of (st_hyps s) i of
     None \<Rightarrow> Inl (KeyError i)
   | Some r \<Rightarrow> (case loads (hr_body r) of
       None \<Rightarrow> Inl (JSONDecodeError ''Expecting value'')
     | Some (PDict d) \<Rightarrow> if \<not> py_eq (dget_or d ''state'' PNone) state then
         Inl (RuntimeError ''stale hypothesis state; reload before ladder award'') else Inr ()
     | _ \<Rightarrow> Inl (AttributeError ''get'')))"

definition award_ladder :: "host \<Rightarrow> (string \<Rightarrow> pv option) \<Rightarrow> string \<Rightarrow> driver_token option \<Rightarrow> hypothesis \<Rightarrow> ladder_proof \<Rightarrow>
    store \<Rightarrow> hypothesis res \<times> store" where
  "award_ladder H loads now tok h p s =
     (case award H tok (Some h) (lp_axis p) (lp_level p) (Some p) of
        Inr (True, Some candidate) \<Rightarrow>
          let payload = hypothesis_dump candidate; body = canonical (redact_payload (PDict payload)) in
          submit (\<lambda>s.
            ebind (same_body_state loads s (h_id h) (dget_or payload ''state'' PNone)) (\<lambda>_.
            ebind (insert_event now ''hypothesis'' (h_id h) (award_event p payload body) s) (\<lambda>(ev, s1).
            ebind (update_hyp False (h_id h) (\<lambda>old. old\<lparr>hr_body := body, hr_event := ev\<rparr>) s1) (\<lambda>s2.
              Inr (h\<lparr>h_ladder := h_ladder candidate\<rparr>, s2))))) s
      | Inr _ \<Rightarrow> (Inl (ValueError ''invalid ladder proof''), s)
      | Inl e \<Rightarrow> (Inl e, s))"

section \<open>Rebuilding from the log\<close>

definition snapshots_of :: "store \<Rightarrow> string \<Rightarrow> pv list" where
  "snapshots_of s i = filter (\<lambda>v. v \<noteq> PNone) (map (\<lambda>e. dget_or (ev_payload e) ''snapshot'' PNone)
     (filter (\<lambda>e. ev_entity e = ''hypothesis'' \<and> ev_entity_id e = i) (st_events s)))"

definition rebuild_hypothesis_from_events :: "string \<Rightarrow> store \<Rightarrow> pv res" where
  "rebuild_hypothesis_from_events i s =
     (let vs = snapshots_of s i in if vs = [] then Inl (KeyError i) else Inr (last vs))"

section \<open>Reading\<close>

definition GET_TABLES :: "(string \<times> string) list" where
  "GET_TABLES = map (\<lambda>(t, k). (entity_of t, t)) MUTABLE_TABLE_KEYS @
     [(''hypothesis'', ''hypotheses''), (''hypotheses'', ''hypotheses'')] @ map (\<lambda>(t, k). (t, t)) MUTABLE_TABLE_KEYS"

definition read_back :: "(string \<Rightarrow> pv option) \<Rightarrow> pv \<Rightarrow> pv" where
  "read_back loads v = (case v of PStr s \<Rightarrow> (case loads s of Some x \<Rightarrow> x | None \<Rightarrow> v) | _ \<Rightarrow> v)"

definition row_dict :: "entity_row \<Rightarrow> pdict" where
  "row_dict r = tr_cols r @ [(''last_event_id'', PInt (int (tr_event r)))]"

text \<open>\<open>get\<close>; entities are the known ones and their tables.\<close>

definition get :: "(string \<Rightarrow> pv option) \<Rightarrow> string \<Rightarrow> string \<Rightarrow> store \<Rightarrow> pv res" where
  "get loads entity0 i s =
     (case map_of GET_TABLES (lower (strip entity0)) of
        None \<Rightarrow> Inl (RuntimeError ''no such table'')
      | Some table \<Rightarrow>
          if table = ''hypotheses'' then
            (case map_of (st_hyps s) i of
               None \<Rightarrow> Inl (KeyError i)
             | Some r \<Rightarrow> (case loads (hr_body r) of
                 None \<Rightarrow> Inl (JSONDecodeError ''Expecting value'')
               | Some (PDict d) \<Rightarrow> Inr (PDict (dset (dset (dset (dset d ''state'' (PStr (hr_state r)))
                   ''lens'' (hr_lens r)) ''protocol_type'' (hr_protocol_type r)) ''prior_p'' (hr_prior_p r)))
               | Some _ \<Rightarrow> Inl (AttributeError ''update'')))
          else (case map_of (st_rows s) (table, i) of
              None \<Rightarrow> Inl (KeyError i)
            | Some r \<Rightarrow>
                if truthy (col r ''body'') then
                  (case col r ''body'' of PStr b \<Rightarrow> (case loads b of Some v \<Rightarrow> Inr v | None \<Rightarrow> Inl (JSONDecodeError ''Expecting value''))
                   | _ \<Rightarrow> Inl (TypeError ''the JSON object must be str''))
                else if table = ''tasks'' then Inr (PDict (dset (row_dict r) ''result'' (read_back loads (col r ''result''))))
                else if table = ''obligations'' then
                  Inr (PDict (map (\<lambda>c. (c, col r c)) (columns_of ''obligations'')))
                else Inr (PDict (row_dict r))))"

definition verify_hypothesis_rebuild :: "(string \<Rightarrow> pv option) \<Rightarrow> string \<Rightarrow> store \<Rightarrow> bool res" where
  "verify_hypothesis_rebuild loads i s =
     ebind (rebuild_hypothesis_from_events i s) (\<lambda>a. ebind (get loads ''hypothesis'' i s) (\<lambda>b. Inr (py_eq a b)))"

section \<open>Tasks\<close>

definition TASK_COLUMNS :: "string list" where
  "TASK_COLUMNS = [''id'', ''idempotency_key'', ''phase'', ''role'', ''status'', ''started_at'', ''finished_at'', ''result'']"

definition task_view :: "(string \<Rightarrow> pv option) \<Rightarrow> entity_row \<Rightarrow> pdict" where
  "task_view loads r =
     dset (dset (map (\<lambda>c. (c, col r c)) TASK_COLUMNS) ''result'' (read_back loads (col r ''result'')))
       ''key'' (col r ''idempotency_key'')"

definition task_rows :: "store \<Rightarrow> (string \<times> entity_row) list" where
  "task_rows s = map (\<lambda>((t, i), r). (i, r)) (filter (\<lambda>((t, i), r). t = ''tasks'') (st_rows s))"

definition find_task_by_key :: "(string \<Rightarrow> pv option) \<Rightarrow> string \<Rightarrow> store \<Rightarrow> pdict option" where
  "find_task_by_key loads key s =
     map_option (\<lambda>(i, r). task_view loads r) (find (\<lambda>(i, r). col r ''idempotency_key'' = PStr key) (task_rows s))"

definition query_tasks :: "(string \<Rightarrow> pv option) \<Rightarrow> string option \<Rightarrow> store \<Rightarrow> pdict list" where
  "query_tasks loads status s =
     map (\<lambda>(i, r). task_view loads r) (filter (\<lambda>(i, r). given status \<longrightarrow> col r ''status'' = PStr (the status))
       (sort_key fst (task_rows s)))"

definition task_snapshot :: "string \<Rightarrow> pv \<Rightarrow> pv \<Rightarrow> pv \<Rightarrow> string \<Rightarrow> pv \<Rightarrow> pv \<Rightarrow> pv \<Rightarrow> pdict" where
  "task_snapshot i key phase role status started finished result =
     [(''id'', PStr i), (''idempotency_key'', key), (''phase'', phase), (''role'', role), (''status'', PStr status),
      (''started_at'', started), (''finished_at'', finished), (''result'', result)]"

definition dispatch_task :: "(string \<Rightarrow> pv option) \<Rightarrow> string \<Rightarrow> string \<Rightarrow> string \<Rightarrow> string \<Rightarrow> string \<Rightarrow> string \<Rightarrow> string \<Rightarrow> store \<Rightarrow>
    pv res \<times> store" where
  "dispatch_task loads now i key kind phase role started s =
     (let snapshot = task_snapshot i (PStr key) (PStr phase) (PStr role) ''dispatched'' (PStr started) PNone PNone in
      case submit (\<lambda>s.
        ebind (insert_event now ''task'' i [(''kind'', PStr ''task_dispatched''), (''entity_op'', PStr ''insert''),
            (''idempotency_key'', PStr key), (''task_kind'', PStr kind), (''row_snapshot'', PDict snapshot)] s) (\<lambda>(ev, s1).
        ebind (insert_row ''tasks'' i \<lparr>tr_cols = snapshot, tr_event = ev\<rparr> s1) (\<lambda>s2. Inr ((), s2)))) s of
        (Inl e, t) \<Rightarrow> (Inl e, t)
      | (Inr _, t) \<Rightarrow> (get loads ''task'' i t, t))"

text \<open>The update of a task's status, end and result with the event that announces it.\<close>

definition close_task :: "string \<Rightarrow> string \<Rightarrow> string \<Rightarrow> string \<Rightarrow> string \<Rightarrow> pdict \<Rightarrow> pv \<Rightarrow> string \<Rightarrow> store \<Rightarrow> unit res \<times> store" where
  "close_task now i status kind finished extra result result_text =
     submit (\<lambda>s. case map_of (st_rows s) (''tasks'', i) of
        None \<Rightarrow> Inl (KeyError i)
      | Some r \<Rightarrow>
          let snap = task_snapshot i (col r ''idempotency_key'') (col r ''phase'') (col r ''role'') status
                (col r ''started_at'') (PStr finished) in
          ebind (insert_event now ''task'' i ([(''kind'', PStr kind), (''entity_op'', PStr ''update'')] @ extra @
              [(''snapshot'', PDict (snap result)), (''row_snapshot'', PDict (snap (PStr result_text)))]) s) (\<lambda>(ev, s1).
          ebind (update_row ''tasks'' i (\<lambda>old. \<lparr>tr_cols = dset (dset (dset (tr_cols old) ''status'' (PStr status))
              ''finished_at'' (PStr finished)) ''result'' (PStr result_text), tr_event = ev\<rparr>) s1) (\<lambda>s2. Inr ((), s2))))"

definition finish_task :: "(string \<Rightarrow> pv option) \<Rightarrow> string \<Rightarrow> string \<Rightarrow> pv \<Rightarrow> string \<Rightarrow> store \<Rightarrow> pv res \<times> store" where
  "finish_task loads now i result finished s =
     (let safe = redact_payload result in
      case close_task now i ''finished'' ''task_finished'' finished [] safe (jdumps '', '' '': '' safe) s of
        (Inl e, t) \<Rightarrow> (Inl e, t)
      | (Inr _, t) \<Rightarrow> (get loads ''task'' i t, t))"

definition block_task :: "(string \<Rightarrow> pv option) \<Rightarrow> string \<Rightarrow> string \<Rightarrow> string option \<Rightarrow> string \<Rightarrow> store \<Rightarrow> pv res \<times> store" where
  "block_task loads now i reason finished s =
     (let safe = PStr (redact (case reason of None \<Rightarrow> [] | Some r \<Rightarrow> r)); result = PDict [(''reason'', safe)] in
      case close_task now i ''blocked_on_human'' ''task_blocked_on_human'' finished [(''reason'', safe)] result
          (jdumps '', '' '': '' result) s of
        (Inl e, t) \<Rightarrow> (Inl e, t)
      | (Inr _, t) \<Rightarrow> (get loads ''task'' i t, t))"

section \<open>The task ledger\<close>

text \<open>\<open>begin\<close>: an existing task with the key is returned, also when another caller was faster.\<close>

definition ledger_begin :: "(string \<Rightarrow> pv option) \<Rightarrow> string \<Rightarrow> string \<Rightarrow> string \<Rightarrow> string \<Rightarrow> string \<Rightarrow> store \<Rightarrow> pv res \<times> store" where
  "ledger_begin loads now key0 kind phase role s =
     (let key = strip key0 in
      if key = [] then (Inl (ValueError ''idempotency key must be non-empty''), s)
      else case find_task_by_key loads key s of
        Some task \<Rightarrow> (Inr (PDict task), s)
      | None \<Rightarrow> (case next_id ''T'' s of
          (Inl e, t) \<Rightarrow> (Inl e, t)
        | (Inr i, t) \<Rightarrow> (case dispatch_task loads now i key kind phase role now t of
            (Inr task, u) \<Rightarrow> (Inr task, u)
          | (Inl e, u) \<Rightarrow> (case find_task_by_key loads key u of
              Some task \<Rightarrow> (Inr (PDict task), u) | None \<Rightarrow> (Inl e, u)))))"

definition ledger_fail :: "(string \<Rightarrow> pv option) \<Rightarrow> string \<Rightarrow> string \<Rightarrow> pv \<Rightarrow> store \<Rightarrow> pv res \<times> store" where
  "ledger_fail loads now i result s =
     (case get loads ''task'' i s of
        Inl e \<Rightarrow> (Inl e, s)
      | Inr (PDict task) \<Rightarrow>
          (case save loads now ''task'' i (dset (dset (dset task ''status'' (PStr ''failed'')) ''finished_at'' (PStr now)) ''result'' result) s of
             (Inl e, t) \<Rightarrow> (Inl e, t) | (Inr _, t) \<Rightarrow> (get loads ''task'' i t, t))
      | Inr _ \<Rightarrow> (Inl (TypeError ''object is not a mapping''), s))"

definition ledger_finish :: "(string \<Rightarrow> pv option) \<Rightarrow> string \<Rightarrow> string \<Rightarrow> pv \<Rightarrow> store \<Rightarrow> pv res \<times> store" where
  "ledger_finish loads now i result = finish_task loads now i result now"

definition ledger_block_human :: "(string \<Rightarrow> pv option) \<Rightarrow> string \<Rightarrow> string \<Rightarrow> string option \<Rightarrow> store \<Rightarrow> pv res \<times> store" where
  "ledger_block_human loads now i reason = block_task loads now i reason now"

definition ledger_inflight :: "(string \<Rightarrow> pv option) \<Rightarrow> store \<Rightarrow> pdict list" where
  "ledger_inflight loads = query_tasks loads (Some ''dispatched'')"

section \<open>Executions\<close>

text \<open>
  One call of an operation. An update of a hypothesis reads its row before its transaction, so that the row
  may be stale; the operations of the ledger are sequences of these steps.
\<close>

inductive store_step :: "host \<Rightarrow> (string \<Rightarrow> pv option) \<Rightarrow> store \<Rightarrow> store \<Rightarrow> bool" for H loads where
  recorded: "store_step H loads s (snd (record_event now entity eid d s))"
| numbered: "store_step H loads s (snd (next_id prefix s))"
| created: "store_step H loads s (snd (create_hypothesis now d eid s))"
| updated: "store_step H loads s (snd (update_hypothesis loads now i d existing s))"
| saved: "store_step H loads s (snd (save_generic now entity i d body s))"
| moved: "store_step H loads s (snd (transition_hypothesis H now tok h new cause evidence s))"
| awarded: "store_step H loads s (snd (award_ladder H loads now tok h p s))"
| dispatched: "store_step H loads s (snd (dispatch_task loads now i key kind phase role started s))"
| closed: "store_step H loads s (snd (close_task now i status kind finished extra result result_text s))"

lemma create_hypothesis_changes: "changes s (snd (create_hypothesis now d eid s))"
proof -
  have txn: "changes s' (snd (submit (\<lambda>s. ebind (insert_event now ''hypothesis'' i p s) (\<lambda>(ev, s1).
      ebind (hyp_row_of d ''OPEN'' body ev) (\<lambda>row. ebind (insert_hyp i row s1) (\<lambda>s2. Inr (d, s2))))) s'))" for s' i p d body
    by (rule submit_changes) (auto simp: exn_simps dest!: store_changes elim: changes_trans)
  obtain hid s0 where h: "(let given_id = dget_or (redact_items d) ''id'' PNone in
      if given eid then (Inr (the eid), s) else if truthy given_id then (Inr (py_str given_id), s) else next_id ''H'' s) = (hid, s0)"
    by fastforce
  then have "changes s s0" using next_id_changes [of s "''H''"] by (auto simp: Let_def split: if_splits)
  with h show ?thesis
    unfolding create_hypothesis_def Let_def by (auto split: sum.splits intro: changes_trans txn)
qed

lemma update_hypothesis_changes: "changes s (snd (update_hypothesis loads now i d existing s))"
  unfolding update_hypothesis_def Let_def
  by (auto split: sum.splits if_splits intro!: submit_changes simp: exn_simps
      dest!: insert_event_changes update_hyp_changes elim: changes_trans)

lemma save_generic_changes: "changes s (snd (save_generic now entity i d body s))"
  unfolding save_generic_def Let_def
  by (auto split: option.splits if_splits intro!: submit_changes simp: exn_simps dest!: store_changes elim: changes_trans)

lemma ebind_pair_eq_Inr: "ebind r (\<lambda>(a, b). f a b) = Inr y \<longleftrightarrow> (\<exists>a b. r = Inr (a, b) \<and> f a b = Inr y)"
  by (auto simp: ebind_eq_Inr)

lemma ebind_unit_eq_Inr: "ebind (r :: unit res) (\<lambda>_. q) = Inr y \<longleftrightarrow> r = Inr () \<and> q = Inr y"
  by (auto simp: ebind_eq_Inr)

text \<open>What a committed transition has done.\<close>

lemma transition_txn_eq:
  assumes "transition_txn now h new cause evidence s = Inr (h', t)"
  obtains ev s1 row s2 where "same_state s (h_id h) (hstate_value (h_state h)) = Inr ()"
    "insert_event now ''hypothesis'' (h_id h) (transition_event h new cause evidence (transition_payload now h new)
       (canonical (redact_payload (PDict (transition_payload now h new))))) s = Inr (ev, s1)"
    "hyp_row_of (transition_payload now h new) (hstate_value new)
       (canonical (redact_payload (PDict (transition_payload now h new)))) ev = Inr row"
    "update_hyp True (h_id h) (\<lambda>_. row) s1 = Inr s2" "changes s2 t" "st_hyps t = st_hyps s2"
    "h' = h\<lparr>h_state := new, h_updated_at := now,
      h_reopen_count := (if human_only_reopen (h_state h, new) then h_reopen_count h + 1 else h_reopen_count h)\<rparr>"
proof -
  have last: "changes s2 t \<and> st_hyps t = st_hyps s2"
    if "(if c then map_sum id snd (insert_event now entity eid d s2) else Inr s2) = Inr t" for c entity eid d s2
    using that by (cases "insert_event now entity eid d s2")
      (auto dest: insert_event_changes insert_event_eq(2) split: if_splits)
  from assms obtain ev s1 row s2 where
    same: "same_state s (h_id h) (hstate_value (h_state h)) = Inr ()"
    and ev: "insert_event now ''hypothesis'' (h_id h) (transition_event h new cause evidence (transition_payload now h new)
       (canonical (redact_payload (PDict (transition_payload now h new))))) s = Inr (ev, s1)"
    and row: "hyp_row_of (transition_payload now h new) (hstate_value new)
       (canonical (redact_payload (PDict (transition_payload now h new)))) ev = Inr row"
    and upd: "update_hyp True (h_id h) (\<lambda>_. row) s1 = Inr s2"
    and rest: "ebind (if human_only_reopen (h_state h, new) \<and>
          (if human_only_reopen (h_state h, new) then h_reopen_count h + 1 else h_reopen_count h) = 3 then
          map_sum id snd (insert_event now ''hypothesis'' (h_id h)
            [(''kind'', PStr ''reopen_threshold_exceeded''), (''reopen_count'', PInt 3)] s2)
        else Inr s2) (\<lambda>s3. Inr (h\<lparr>h_state := new, h_updated_at := now, h_reopen_count :=
          (if human_only_reopen (h_state h, new) then h_reopen_count h + 1 else h_reopen_count h)\<rparr>, s3)) = Inr (h', t)"
    unfolding transition_txn_def Let_def ebind_pair_eq_Inr ebind_unit_eq_Inr
    unfolding ebind_eq_Inr [of "hyp_row_of _ _ _ _"] ebind_eq_Inr [of "update_hyp _ _ _ _"]
    by (elim exE conjE) (rule that)
  from rest obtain s3 where s3: "(if human_only_reopen (h_state h, new) \<and>
          (if human_only_reopen (h_state h, new) then h_reopen_count h + 1 else h_reopen_count h) = 3 then
          map_sum id snd (insert_event now ''hypothesis'' (h_id h)
            [(''kind'', PStr ''reopen_threshold_exceeded''), (''reopen_count'', PInt 3)] s2) else Inr s2) = Inr s3"
    and fin: "(h\<lparr>h_state := new, h_updated_at := now, h_reopen_count :=
          (if human_only_reopen (h_state h, new) then h_reopen_count h + 1 else h_reopen_count h)\<rparr>, s3) = (h', t)"
    unfolding ebind_eq_Inr by blast
  from fin have t: "t = s3" by simp
  from last [OF s3 [folded t]] show thesis
    by (intro that [OF same ev row upd]) (use fin in auto)
qed

lemma transition_hypothesis_changes: "changes s (snd (transition_hypothesis H now tok h new cause evidence s))"
proof (cases "validate_transition H tok h new cause evidence")
  case (Inr u)
  have "changes s t" if "transition_txn now h new cause evidence s = Inr (x, t)" for x t
    using that by (rule transition_txn_eq) (blast intro: changes_trans insert_event_changes update_hyp_changes)
  then show ?thesis by (simp add: transition_hypothesis_def Inr submit_changes)
qed (simp add: transition_hypothesis_def)

lemma award_ladder_changes: "changes s (snd (award_ladder H loads now tok h p s))"
  unfolding award_ladder_def Let_def
  by (auto split: sum.splits if_splits option.splits bool.splits intro!: submit_changes simp: exn_simps
      dest!: insert_event_changes update_hyp_changes elim: changes_trans)

lemma close_task_changes: "changes s (snd (close_task now i status kind finished extra result result_text s))"
  unfolding close_task_def Let_def
  by (auto split: option.splits intro!: submit_changes simp: exn_simps dest!: store_changes elim: changes_trans)

lemma dispatch_task_changes: "changes s (snd (dispatch_task loads now i key kind phase role started s))"
proof -
  let ?txn = "\<lambda>s. ebind (insert_event now ''task'' i [(''kind'', PStr ''task_dispatched''), (''entity_op'', PStr ''insert''),
            (''idempotency_key'', PStr key), (''task_kind'', PStr kind), (''row_snapshot'',
              PDict (task_snapshot i (PStr key) (PStr phase) (PStr role) ''dispatched'' (PStr started) PNone PNone))] s) (\<lambda>(ev, s1).
        ebind (insert_row ''tasks'' i \<lparr>tr_cols = task_snapshot i (PStr key) (PStr phase) (PStr role) ''dispatched''
          (PStr started) PNone PNone, tr_event = ev\<rparr> s1) (\<lambda>s2. Inr ((), s2)))"
  have "changes s (snd (submit ?txn s))"
    by (rule submit_changes) (auto simp: exn_simps dest!: store_changes elim: changes_trans)
  then show ?thesis
    unfolding dispatch_task_def Let_def by (auto split: prod.splits sum.splits)
qed

lemmas operation_changes = record_event_changes next_id_changes create_hypothesis_changes update_hypothesis_changes
  save_generic_changes transition_hypothesis_changes award_ladder_changes dispatch_task_changes close_task_changes

lemma store_step_changes: "store_step H loads s t \<Longrightarrow> changes s t"
  by (induction rule: store_step.induct) (rule operation_changes)+

lemma store_steps_changes: "(store_step H loads)\<^sup>*\<^sup>* s t \<Longrightarrow> changes s t"
  by (induction rule: rtranclp_induct) (auto intro: changes_trans store_step_changes)

section \<open>The interfaces on the operations\<close>

interpretation hyps: event_sourced_states st_events "\<lambda>s. map_of (st_hyps s)" hyp_justified "store_step H loads"
    hr_state "''OPEN''" legal_step
  for H loads
proof unfold_locales
  fix s t :: store and i r es fs
  show "hyp_justified es i r \<Longrightarrow> hyp_justified (es @ fs) i r" by (rule hyp_justified_append)
  assume "store_step H loads s t"
  then have c: "changes s t" by (rule store_step_changes)
  from c show "\<exists>es. st_events t = st_events s @ es" by (simp add: changes_def)
  from c show "map_of (st_hyps t) i = Some r \<Longrightarrow> map_of (st_hyps s) i = Some r \<or> hyp_justified (st_events t) i r"
    by (simp add: changes_def)
  from c show "map_of (st_hyps s) i = Some r \<Longrightarrow> \<exists>r'. map_of (st_hyps t) i = Some r' \<and> legal_step\<^sup>*\<^sup>* (hr_state r) (hr_state r')"
    by (simp add: changes_def)
  from c show "map_of (st_hyps s) i = None \<Longrightarrow> map_of (st_hyps t) i = Some r \<Longrightarrow> legal_step\<^sup>*\<^sup>* ''OPEN'' (hr_state r)"
    by (simp add: changes_def)
qed

interpretation rows: event_sourced st_events "\<lambda>s. map_of (st_rows s)" row_justified "store_step H loads"
  for H loads
proof unfold_locales
  fix s t :: store and tk r es fs
  show "row_justified es tk r \<Longrightarrow> row_justified (es @ fs) tk r" by (rule row_justified_append)
  assume "store_step H loads s t"
  then have c: "changes s t" by (rule store_step_changes)
  from c show "\<exists>es. st_events t = st_events s @ es" by (simp add: changes_def)
  from c show "map_of (st_rows t) tk = Some r \<Longrightarrow> map_of (st_rows s) tk = Some r \<or> row_justified (st_events t) tk r"
    unfolding changes_def by blast
qed

section \<open>Properties\<close>

text \<open>
  C4: the store is event-first. In every store that operations can reach, each row of each table is exactly
  what the event that it names recorded, every hypothesis got to its state from OPEN by legal transitions
  alone, and what happened before stays in the log.
\<close>
theorem store_event_first:
  assumes "(store_step H loads)\<^sup>*\<^sup>* empty_store s" "(store_step H loads)\<^sup>*\<^sup>* s t"
  shows "(\<forall>i r. map_of (st_hyps t) i = Some r \<longrightarrow> hyp_justified (st_events t) i r \<and> legal_step\<^sup>*\<^sup>* ''OPEN'' (hr_state r)) \<and>
    (\<forall>tk r. map_of (st_rows t) tk = Some r \<longrightarrow> row_justified (st_events t) tk r) \<and>
    (\<exists>es. st_events t = st_events s @ es)"
proof -
  from assms have "(store_step H loads)\<^sup>*\<^sup>* empty_store t" by (rule rtranclp_trans)
  then show ?thesis
    using hyps.reached_justified [of H loads empty_store t] hyps.reached_legal [of H loads empty_store t]
      rows.reached_justified [of H loads empty_store t] rows.reached_log [OF assms(2)]
    by (auto simp: empty_store_def)
qed

text \<open>Identifiers are split at the first dash.\<close>

lemma isalnum_no_dash: "isalnum s \<Longrightarrow> CHR ''-'' \<notin> set s"
  by (auto simp: isalnum_def list_all_iff is_alnum_def)

lemma identifier_inj:
  assumes "CHR ''-'' \<notin> set p" "CHR ''-'' \<notin> set q" "p @ ''-'' @ a = q @ ''-'' @ b"
  shows "p = q \<and> a = b"
  using assms(3,1,2) by (induction p arbitrary: q) (case_tac q; auto)+

lemma next_id_eq:
  assumes "next_id p s = (Inr a, t)"
  obtains v where "a = upper (strip p) @ ''-'' @ pad3 v" "isalnum (upper (strip p))"
    "v = (case map_of (st_counters s) (upper (strip p)) of None \<Rightarrow> 1 | Some n \<Rightarrow> n)"
    "map_of (st_counters t) (upper (strip p)) = Some (Suc v)"
  using assms by (auto simp: next_id_def submit_def Let_def update_conv' split: if_splits)

text \<open>
  C7: an identifier that the store hands out is never handed out again, whatever happens between the two
  calls and whatever prefixes are asked for.
\<close>
theorem next_id_fresh:
  assumes "next_id p s = (Inr a, s')" "(store_step H loads)\<^sup>*\<^sup>* s' t" "next_id q t = (Inr b, u)"
  shows "a \<noteq> b"
proof
  assume "a = b"
  from assms(1) obtain v where v: "a = upper (strip p) @ ''-'' @ pad3 v" "isalnum (upper (strip p))"
    "map_of (st_counters s') (upper (strip p)) = Some (Suc v)"
    by (rule next_id_eq)
  from assms(3) obtain w where w: "b = upper (strip q) @ ''-'' @ pad3 w" "isalnum (upper (strip q))"
    "w = (case map_of (st_counters t) (upper (strip q)) of None \<Rightarrow> 1 | Some n \<Rightarrow> n)"
    by (rule next_id_eq)
  from \<open>a = b\<close> v(1) w(1) have same: "upper (strip q) = upper (strip p)" "w = v"
    using identifier_inj [OF isalnum_no_dash [OF v(2)] isalnum_no_dash [OF w(2)], of "pad3 v" "pad3 w"] by auto
  from store_steps_changes [OF assms(2)] v(3) obtain m where "Suc v \<le> m" "map_of (st_counters t) (upper (strip p)) = Some m"
    unfolding changes_def by blast
  with w(3) same show False by simp
qed

lemma legal_moves: "new \<in> set (legal_targets old) \<Longrightarrow> old \<noteq> new"
  by (cases old) auto

lemma insert_event_new:
  "insert_event now entity eid d s = Inr (n, t) \<Longrightarrow> event_at (st_events t) n = Some (last (st_events t)) \<and> n = length (st_events t)"
  using insert_event_eq(1,5) [of now entity eid d s n t] by (simp add: event_at_def nth_append)

lemma update_hyp_eq:
  assumes "update_hyp True i f s = Inr t" "map_of (st_hyps s) i = Some old" "hr_state old \<noteq> hr_state (f old)"
  shows "map_of (st_hyps t) = (map_of (st_hyps s))(i \<mapsto> f old)" "st_events t = st_events s"
    "transition_event_ok (st_events s) i old (f old)" "hyp_event_ok UPDATE_KINDS (st_events s) i (f old)"
  using assms by (auto simp: update_hyp_def abort_def Let_def update_conv' split: if_splits)

text \<open>
  C5: a transition in the store refines the transition of the lifecycle: the hypothesis that is returned is
  the lifecycle's, the row was in the old state and is in the new one, no other hypothesis changes, and the
  next event of the log is the transition with both states.
\<close>
theorem store_transition_refines:
  assumes "transition_hypothesis H now tok h new cause evidence s = (Inr h', t)"
  shows "transition H now tok h new cause evidence = Inr h' \<and>
    (\<exists>r r' e es. map_of (st_hyps s) (h_id h) = Some r \<and> hr_state r = hstate_value (h_state h) \<and>
       map_of (st_hyps t) = (map_of (st_hyps s))(h_id h \<mapsto> r') \<and> hr_state r' = hstate_value (h_state h') \<and>
       st_events t = st_events s @ e # es \<and> ev_kind e = ''hyp_transition'' \<and> ev_entity_id e = h_id h \<and>
       payload_field e ''from'' = PStr (hr_state r) \<and> payload_field e ''to'' = PStr (hr_state r') \<and>
       hr_event r' = Suc (length (st_events s)))"
proof -
  from assms have valid: "validate_transition H tok h new cause evidence = Inr ()"
    and txn: "transition_txn now h new cause evidence s = Inr (h', t)"
    by (auto simp: transition_hypothesis_def submit_def split: sum.splits)
  from valid have target: "new \<in> set (legal_targets (h_state h))"
    by (auto simp: validate_transition_eq split: option.splits)
  from txn obtain ev s1 row s2 where same: "same_state s (h_id h) (hstate_value (h_state h)) = Inr ()"
    and ins: "insert_event now ''hypothesis'' (h_id h) (transition_event h new cause evidence (transition_payload now h new)
       (canonical (redact_payload (PDict (transition_payload now h new))))) s = Inr (ev, s1)"
    and row: "hyp_row_of (transition_payload now h new) (hstate_value new)
       (canonical (redact_payload (PDict (transition_payload now h new)))) ev = Inr row"
    and upd: "update_hyp True (h_id h) (\<lambda>_. row) s1 = Inr s2"
    and rest: "changes s2 t" "st_hyps t = st_hyps s2"
    and h': "h' = h\<lparr>h_state := new, h_updated_at := now,
      h_reopen_count := (if human_only_reopen (h_state h, new) then h_reopen_count h + 1 else h_reopen_count h)\<rparr>"
    by (rule transition_txn_eq)
  note new = insert_event_new [OF ins] and eqs = insert_event_eq [OF ins]
  from same eqs(2) obtain r where r: "map_of (st_hyps s1) (h_id h) = Some r" "hr_state r = hstate_value (h_state h)"
    by (auto simp: same_state_def split: option.splits if_splits)
  from row have row': "hr_state row = hstate_value new" "hr_event row = ev"
    by (auto simp: hyp_row_of_def ebind_eq_Inr)
  have "hr_state r \<noteq> hr_state row" using legal_moves [OF target] r(2) row'(1) by simp
  note u = update_hyp_eq [OF upd r(1) this]
  from rest(1) obtain es where "st_events t = st_events s2 @ es" by (auto simp: changes_def)
  with u(2) eqs(5) have "st_events t = st_events s @ last (st_events s1) # es" by simp
  moreover from u(3) new row'(2) have "ev_kind (last (st_events s1)) = ''hyp_transition''"
    "ev_entity_id (last (st_events s1)) = h_id h" "payload_field (last (st_events s1)) ''from'' = PStr (hr_state r)"
    "payload_field (last (st_events s1)) ''to'' = PStr (hr_state row)"
    by (auto simp: transition_event_ok_def)
  moreover have "transition H now tok h new cause evidence = Inr h'"
    by (simp add: transition_def valid h')
  ultimately show ?thesis
    using r u(1) rest(2) row' eqs(1,2) by (intro conjI exI) (auto simp: h')
qed

section \<open>When a transition commits\<close>

text \<open>A value that is bound to a column is found again in the stored snapshot only when redaction keeps it.\<close>

definition survives :: "pv \<Rightarrow> bool" where
  "survives v = (sql_bind v = Inr (json_sql (jnorm (redact_payload v))))"

lemma survives_simps [simp]: "survives (PStr s) \<longleftrightarrow> redact s = s" "survives PNone"
  by (auto simp: survives_def)

lemma stored_payload_field:
  assumes "distinct (map fst d)"
  shows "map_of (stored_payload d) k = map_option (\<lambda>v. jnorm (redact_payload v)) (map_of d k)"
proof -
  have "map_of (stored_payload d) = map_of (map (\<lambda>kv. (fst kv, jnorm (snd kv))) (redact_items d))"
    unfolding stored_payload_def by (rule map_of_sort_key) (simp add: assms redact_items_def comp_def)
  then show ?thesis by (simp add: map_of_map_snd map_of_redact_items option.map_comp comp_def)
qed

lemma snapshot_field_stored:
  assumes "distinct (map fst d)" "map_of d ''row_snapshot'' = Some (PDict rs)" "distinct (map fst rs)"
    "ev_payload e = stored_payload d"
  shows "snapshot_field e k = (case map_of rs k of None \<Rightarrow> PNone | Some v \<Rightarrow> json_sql (jnorm (redact_payload v)))"
proof -
  have "map_of (sort_key fst (map (\<lambda>kv. (fst kv, jnorm (snd kv))) (redact_items rs))) k = map_option (\<lambda>v. jnorm (redact_payload v)) (map_of rs k)"
    using stored_payload_field [OF assms(3)] by (simp add: stored_payload_def)
  then show ?thesis
    by (simp add: snapshot_field_def dget_or_def assms stored_payload_field redact_items_def split: option.splits)
qed

lemma redact_hstate [simp]: "redact (hstate_value st) = hstate_value st"
  by (cases st) (simp_all add: redact_code hot_words_def hot_def)


definition transition_body :: "string \<Rightarrow> hypothesis \<Rightarrow> hstate \<Rightarrow> string" where
  "transition_body now h new = canonical (redact_payload (PDict (transition_payload now h new)))"

lemma transition_payload_fields:
  "dget_or (transition_payload now h new) ''id'' PNone = PStr (h_id h)"
  "dget_or (transition_payload now h new) ''state'' PNone = PStr (hstate_value new)"
  "dget_or (transition_payload now h new) ''lens'' PNone = opt_str (h_lens h)"
  "dget_or (transition_payload now h new) ''protocol_type'' PNone = PStr (h_protocol_type h)"
  "dget_or (transition_payload now h new) ''prior_p'' PNone = h_prior_p h"
  by (simp_all add: transition_payload_def dget_or_def Let_def hypothesis_dump_def)

lemma transition_row_matches:
  assumes "ev_payload e = stored_payload (transition_event h new cause evidence (transition_payload now h new) body)"
    "hyp_row_of (transition_payload now h new) (hstate_value new) body n = Inr row"
  shows "row_matches (hyp_cols (h_id h) row) e \<longleftrightarrow>
    list_all survives [PStr (h_id h), opt_str (h_lens h), PStr (h_protocol_type h), h_prior_p h, PStr body]"
proof -
  let ?p = "transition_payload now h new"
  have f: "snapshot_field e k = (case map_of (hyp_row_snapshot ?p body) k of None \<Rightarrow> PNone | Some v \<Rightarrow> json_sql (jnorm (redact_payload v)))" for k
    by (rule snapshot_field_stored [OF _ _ _ assms(1)]) (simp_all add: transition_event_def hyp_row_snapshot_def)
  from assms(2) have row: "sql_bind (opt_str (h_lens h)) = Inr (hr_lens row)" "hr_protocol_type row = PStr (h_protocol_type h)"
    "sql_bind (h_prior_p h) = Inr (hr_prior_p row)" "hr_state row = hstate_value new" "hr_body row = body"
    by (auto simp: hyp_row_of_def ebind_eq_Inr transition_payload_fields)
  then show ?thesis
    by (auto simp: row_matches_def hyp_cols_def f hyp_row_snapshot_def transition_payload_fields survives_def)
qed


text \<open>An update of the state is admitted when its event is.\<close>

lemma update_hyp_admits:
  assumes "map_of (st_hyps s) i = Some old" "hr_event old < hr_event new" "legal_step (hr_state old) (hr_state new)"
    "transition_event_ok (st_events s) i old new"
  shows "(\<exists>t. update_hyp True i (\<lambda>_. new) s = Inr t) \<longleftrightarrow>
    row_matches (hyp_cols i new) (the (event_at (st_events s) (hr_event new)))"
  using assms by (auto simp: update_hyp_def abort_def Let_def legal_step_def transition_event_ok_def hyp_event_ok_def
      UPDATE_KINDS_def split: option.splits)

lemma legal_step_targets: "new \<in> set (legal_targets old) \<Longrightarrow> legal_step (hstate_value old) (hstate_value new)"
  by (cases old) (auto simp: legal_step_def transition_seed_def all_hstates_def)

lemma transition_event_inserted:
  obtains e s1 where "insert_event now ''hypothesis'' i (transition_event h new cause evidence payload body) s =
      Inr (Suc (length (st_events s)), s1)"
    "st_hyps s1 = st_hyps s" "st_events s1 = st_events s @ [e]" "ev_entity e = ''hypothesis''" "ev_entity_id e = i"
    "ev_kind e = ''hyp_transition''" "payload_field e ''from'' = PStr (hstate_value (h_state h))"
    "payload_field e ''to'' = PStr (hstate_value new)"
    "ev_payload e = stored_payload (transition_event h new cause evidence payload body)"
proof -
  let ?d = "transition_event h new cause evidence payload body"
  define e where "e = \<lparr>ev_ts = now, ev_kind = ''hyp_transition'', ev_entity = ''hypothesis'', ev_entity_id = i,
    ev_payload = stored_payload ?d\<rparr>"
  have "redact ''hyp_transition'' = ''hyp_transition''" by code_simp
  then have "insert_event now ''hypothesis'' i ?d s = Inr (Suc (length (st_events s)), s\<lparr>st_events := st_events s @ [e]\<rparr>)"
    by (simp add: insert_event_def e_def transition_event_def redact_items_def validate_kind_def EVENT_KINDS_def)
  moreover have f: "payload_field e k = (case map_of ?d k of None \<Rightarrow> PNone | Some v \<Rightarrow> json_sql (jnorm (redact_payload v)))" for k
    using stored_payload_field [of ?d k]
    by (auto simp: payload_field_def dget_or_def e_def transition_event_def split: option.splits)
  moreover have "payload_field e ''from'' = PStr (hstate_value (h_state h))" "payload_field e ''to'' = PStr (hstate_value new)"
    by (simp_all add: f) (simp_all add: transition_event_def)
  ultimately show thesis
    by (intro that [of "s\<lparr>st_events := st_events s @ [e]\<rparr>" e]) (simp_all add: e_def)
qed


text \<open>The announcement of the third reopening is always admitted.\<close>

lemma threshold_event: "\<exists>t. insert_event now ''hypothesis'' i
    [(''kind'', PStr ''reopen_threshold_exceeded''), (''reopen_count'', PInt 3)] s = Inr (Suc (length (st_events s)), t)"
proof -
  have "redact ''reopen_threshold_exceeded'' = ''reopen_threshold_exceeded''" by code_simp
  then show ?thesis by (simp add: insert_event_def redact_items_def validate_kind_def EVENT_KINDS_def)
qed

lemma transition_row_binds:
  "(\<exists>row. hyp_row_of (transition_payload now h new) (hstate_value new) body n = Inr row) \<longleftrightarrow> (\<exists>v. sql_bind (h_prior_p h) = Inr v)"
  by (cases "h_lens h") (auto simp: hyp_row_of_def ebind_eq_Inr transition_payload_fields)

lemma transition_commits_iff:
  assumes "validate_transition H tok h new cause evidence = Inr ()"
    "map_of (st_hyps s) (h_id h) = Some r" "hr_state r = hstate_value (h_state h)" "hr_event r \<le> length (st_events s)"
  shows "(\<exists>h' t. transition_hypothesis H now tok h new cause evidence s = (Inr h', t)) \<longleftrightarrow>
    list_all survives [PStr (h_id h), opt_str (h_lens h), PStr (h_protocol_type h), h_prior_p h,
      PStr (transition_body now h new)]"
proof -
  let ?p = "transition_payload now h new" and ?b = "transition_body now h new"
  obtain e s1 where ins: "insert_event now ''hypothesis'' (h_id h) (transition_event h new cause evidence ?p ?b) s =
      Inr (Suc (length (st_events s)), s1)"
    and s1: "st_hyps s1 = st_hyps s" "st_events s1 = st_events s @ [e]" and e: "ev_entity e = ''hypothesis''"
    "ev_entity_id e = h_id h" "ev_kind e = ''hyp_transition''" "payload_field e ''from'' = PStr (hstate_value (h_state h))"
    "payload_field e ''to'' = PStr (hstate_value new)" "ev_payload e = stored_payload (transition_event h new cause evidence ?p ?b)"
    by (rule transition_event_inserted)
  have at: "event_at (st_events s1) (Suc (length (st_events s))) = Some e" by (simp add: s1(2) event_at_def)
  have target: "new \<in> set (legal_targets (h_state h))"
    using assms(1) by (auto simp: validate_transition_eq split: option.splits)
  have same: "same_state s (h_id h) (hstate_value (h_state h)) = Inr ()" by (simp add: same_state_def assms(2,3))
  have upd: "(\<exists>t. update_hyp True (h_id h) (\<lambda>_. row) s1 = Inr t) \<longleftrightarrow>
      list_all survives [PStr (h_id h), opt_str (h_lens h), PStr (h_protocol_type h), h_prior_p h, PStr ?b]"
    if row: "hyp_row_of ?p (hstate_value new) ?b (Suc (length (st_events s))) = Inr row" for row
  proof -
    from row have "hr_state row = hstate_value new" "hr_event row = Suc (length (st_events s))"
      by (auto simp: hyp_row_of_def ebind_eq_Inr)
    then show ?thesis
      using update_hyp_admits [of s1 "h_id h" r row] transition_row_matches [OF e(6) row] assms(2-4) s1(1) at e
        legal_step_targets [OF target] by (simp add: transition_event_ok_def)
  qed
  have "\<exists>row t. hyp_row_of ?p (hstate_value new) ?b (Suc (length (st_events s))) = Inr row \<and>
        update_hyp True (h_id h) (\<lambda>_. row) s1 = Inr t" if txn: "transition_txn now h new cause evidence s = Inr (h', t)" for h' t
    using txn by (rule transition_txn_eq) (use ins in \<open>auto simp: transition_body_def\<close>)
  moreover have threshold: "\<exists>u. (if c then map_sum id snd (insert_event now ''hypothesis'' (h_id h)
      [(''kind'', PStr ''reopen_threshold_exceeded''), (''reopen_count'', PInt 3)] s2) else Inr s2) = Inr u" for c s2
    using threshold_event [of now "h_id h" s2] by (cases c) auto
  moreover have "\<exists>h' t. transition_txn now h new cause evidence s = Inr (h', t)"
    if row: "hyp_row_of ?p (hstate_value new) ?b (Suc (length (st_events s))) = Inr row"
      and u: "update_hyp True (h_id h) (\<lambda>_. row) s1 = Inr s2" for row s2
  proof -
    obtain s3 where s3: "(if human_only_reopen (h_state h, new) \<and>
        (if human_only_reopen (h_state h, new) then h_reopen_count h + 1 else h_reopen_count h) = 3 then
        map_sum id snd (insert_event now ''hypothesis'' (h_id h)
          [(''kind'', PStr ''reopen_threshold_exceeded''), (''reopen_count'', PInt 3)] s2) else Inr s2) = Inr s3"
      using threshold [of _ s2] by blast
    show ?thesis
      unfolding transition_txn_def Let_def
      by (simp only: same ins [unfolded transition_body_def] row [unfolded transition_body_def] u s3 ebind_Inr prod.case) blast
  qed
  ultimately have "(\<exists>h' t. transition_txn now h new cause evidence s = Inr (h', t)) \<longleftrightarrow>
      (\<exists>row t. hyp_row_of ?p (hstate_value new) ?b (Suc (length (st_events s))) = Inr row \<and>
        update_hyp True (h_id h) (\<lambda>_. row) s1 = Inr t)" by blast
  then have "(\<exists>h' t. transition_hypothesis H now tok h new cause evidence s = (Inr h', t)) \<longleftrightarrow>
      (\<exists>row t. hyp_row_of ?p (hstate_value new) ?b (Suc (length (st_events s))) = Inr row \<and>
        update_hyp True (h_id h) (\<lambda>_. row) s1 = Inr t)"
    by (auto simp: transition_hypothesis_def assms(1) submit_def split: sum.splits)
  moreover have "\<exists>row. hyp_row_of ?p (hstate_value new) ?b (Suc (length (st_events s))) = Inr row"
    if "list_all survives [PStr (h_id h), opt_str (h_lens h), PStr (h_protocol_type h), h_prior_p h, PStr ?b]"
    using that by (subst transition_row_binds) (auto simp: survives_def)
  ultimately show ?thesis using upd by meson
qed

text \<open>
  C6: in a reachable store, a request that the lifecycle accepts, made for the row's current state, commits
  exactly when a second redaction keeps the identifier, the lens, the protocol type, the prior and the body
  that it writes: the event is redacted again and the trigger compares the row with it.
\<close>
theorem store_transition_commits:
  assumes "(store_step H loads)\<^sup>*\<^sup>* empty_store s" "validate_transition H tok h new cause evidence = Inr ()"
    "map_of (st_hyps s) (h_id h) = Some r" "hr_state r = hstate_value (h_state h)"
  shows "(\<exists>h' t. transition_hypothesis H now tok h new cause evidence s = (Inr h', t)) \<longleftrightarrow>
    list_all survives [PStr (h_id h), opt_str (h_lens h), PStr (h_protocol_type h), h_prior_p h,
      PStr (transition_body now h new)]"
proof -
  have "hyp_justified (st_events s) (h_id h) r"
    using hyps.reached_justified [OF assms(1)] assms(3) by (simp add: empty_store_def)
  then have "hr_event r \<le> length (st_events s)"
    by (auto simp: hyp_justified_def hyp_event_ok_def event_at_def split: option.splits if_splits)
  with assms show ?thesis by (intro transition_commits_iff)
qed

section \<open>Beginning a task twice\<close>

lemma find_task_Some:
  assumes "find_task_by_key loads key s = Some d"
  shows "map_of d ''idempotency_key'' = Some (PStr key)"
  using assms by (auto simp: find_task_by_key_def find_Some_iff task_view_def TASK_COLUMNS_def)

lemma find_None_map: "find P xs = None \<Longrightarrow> find P (xs @ ys) = find P ys"
  by (induction xs) (auto split: if_splits)

lemma task_rows_append: "st_rows t = st_rows s @ [((''tasks'', i), r)] \<Longrightarrow> task_rows t = task_rows s @ [(i, r)]"
  by (simp add: task_rows_def)

lemma get_task_eq:
  assumes "map_of (st_rows t) (''tasks'', i) = Some r" "tr_cols r = task_snapshot i key phase role status started finished result"
    "get loads ''task'' i t = Inr v"
  shows "v = PDict (dset (row_dict r) ''result'' (read_back loads (col r ''result'')))"
proof -
  have "map_of GET_TABLES (lower (strip ''task'')) = Some ''tasks''" by code_simp
  moreover have "col r ''body'' = PNone" by (simp add: assms(2) col_def task_snapshot_def dget_or_def)
  ultimately show ?thesis using assms(1,3) by (simp add: get_def)
qed

text \<open>A task that was dispatched is the one that is found under its key.\<close>

lemma dispatch_task_found:
  assumes "dispatch_task loads now i key kind phase role started s = (Inr v, t)" "find_task_by_key loads key s = None"
  obtains d d' where "v = PDict d" "find_task_by_key loads key t = Some d'" "map_of d' ''id'' = map_of d ''id''"
proof -
  define r where "r ev = \<lparr>tr_cols = task_snapshot i (PStr key) (PStr phase) (PStr role) ''dispatched'' (PStr started) PNone PNone,
    tr_event = ev\<rparr>" for ev :: nat
  from assms(1) obtain ev s1 p where ev: "insert_event now ''task'' i p s = Inr (ev, s1)"
    and row: "insert_row ''tasks'' i (r ev) s1 = Inr t" and v: "get loads ''task'' i t = Inr v"
    by (auto simp: dispatch_task_def submit_def Let_def ebind_pair_eq_Inr ebind_eq_Inr r_def split: sum.splits prod.splits)
  from row have t: "st_rows t = st_rows s @ [((''tasks'', i), r ev)]" "map_of (st_rows s) (''tasks'', i) = None"
    using insert_event_eq(3) [OF ev] by (auto simp: insert_row_def abort_def split: if_splits option.splits)
  have "v = PDict (dset (row_dict (r ev)) ''result'' (read_back loads (col (r ev) ''result'')))"
    by (rule get_task_eq [OF _ _ v]) (use t in \<open>auto simp: r_def map_add_Some_iff\<close>)
  moreover have "col (r ev) ''idempotency_key'' = PStr key"
    by (simp add: r_def col_def task_snapshot_def dget_or_def)
  then have "find_task_by_key loads key t = Some (task_view loads (r ev))"
    using assms(2) by (simp add: find_task_by_key_def task_rows_append [OF t(1)] find_None_map)
  ultimately show thesis
    by (rule that) (simp add: task_view_def TASK_COLUMNS_def row_dict_def r_def col_def task_snapshot_def dget_or_def)
qed

lemma ledger_begin_found:
  assumes "find_task_by_key loads (strip key) s = Some d" "strip key \<noteq> []"
  shows "ledger_begin loads now key kind phase role s = (Inr (PDict d), s)"
  using assms by (simp add: ledger_begin_def)

lemma next_id_rows: "next_id p s = (r, t) \<Longrightarrow> st_rows t = st_rows s"
  by (auto simp: next_id_def submit_def Let_def split: if_splits)

text \<open>
  Beginning a task is idempotent. Once \<open>begin\<close> has answered for a key, it answers the next call with
  the same key, up to white space, whenever it is made, with a task of the same identifier and the same key, and leaves the store
  as it is.
\<close>
lemma ledger_begin_idempotent:
  assumes "ledger_begin loads now key kind phase role s = (Inr task, t)" "strip key' = strip key"
  shows "\<exists>d d'. task = PDict d \<and> ledger_begin loads now' key' kind' phase' role' t = (Inr (PDict d'), t) \<and>
    map_of d' ''id'' = map_of d ''id'' \<and> map_of d' ''idempotency_key'' = Some (PStr (strip key))"
proof -
  define k where "k = strip key"
  from assms(1) have k: "k \<noteq> []" by (auto simp: ledger_begin_def k_def split: if_splits)
  have "\<exists>d d'. task = PDict d \<and> find_task_by_key loads k t = Some d' \<and> map_of d' ''id'' = map_of d ''id''"
  proof (cases "find_task_by_key loads k s")
    case (Some d)
    with assms(1) k show ?thesis by (auto simp: ledger_begin_def k_def)
  next
    case None
    with assms(1) k obtain i s1 where i: "next_id ''T'' s = (Inr i, s1)"
      by (cases "next_id ''T'' s"; cases "fst (next_id ''T'' s)") (auto simp: ledger_begin_def k_def Let_def)
    with None have none: "find_task_by_key loads k s1 = None"
      by (simp add: find_task_by_key_def task_rows_def next_id_rows)
    show ?thesis
    proof (cases "dispatch_task loads now i k kind phase role now s1")
      case (Pair r u)
      with assms(1) k None i none show ?thesis
        by (cases r) (auto simp: ledger_begin_def k_def elim: dispatch_task_found split: option.splits)
    qed
  qed
  with k show ?thesis
    using find_task_Some ledger_begin_found [of loads key'] assms(2) by (fastforce simp: k_def)
qed


section \<open>Witnesses\<close>

definition sample_store :: store where
  "sample_store = snd (create_hypothesis ''t1'' [(''id'', PStr ''H-1'')] None empty_store)"

lemma sample_store_reached: "(store_step sample_host loads)\<^sup>*\<^sup>* empty_store sample_store"
  unfolding sample_store_def by (rule r_into_rtranclp) (rule store_step.created)

lemma sample_store_row:
  obtains r where "map_of (st_hyps sample_store) ''H-1'' = Some r" "hr_state r = ''OPEN''" "hr_event r \<le> length (st_events sample_store)"
proof -
  have "(case map_of (st_hyps sample_store) ''H-1'' of None \<Rightarrow> False | Some r \<Rightarrow> hr_state r = ''OPEN'' \<and>
    hr_event r \<le> length (st_events sample_store))" by code_simp
  then show thesis using that by (auto split: option.splits)
qed

lemma store_event_first_witness:
  "\<exists>r. map_of (st_hyps sample_store) ''H-1'' = Some r \<and> hyp_justified (st_events sample_store) ''H-1'' r"
  using store_event_first [OF sample_store_reached [of "\<lambda>_. None"] rtranclp.rtrancl_refl] by (metis sample_store_row)

lemma next_id_fresh_witness:
  "\<exists>a b u. next_id ''H'' empty_store = (Inr a, snd (next_id ''H'' empty_store)) \<and>
     next_id '' h'' (snd (next_id ''H'' empty_store)) = (Inr b, u) \<and> a = ''H-001'' \<and> b = ''H-002'' \<and> a \<noteq> b"
proof -
  have a: "next_id ''H'' empty_store = (Inr ''H-001'', snd (next_id ''H'' empty_store))" by code_simp
  have b: "next_id '' h'' (snd (next_id ''H'' empty_store)) =
      (Inr ''H-002'', snd (next_id '' h'' (snd (next_id ''H'' empty_store))))" by code_simp
  from next_id_fresh [OF a rtranclp.rtrancl_refl [of "store_step sample_host (\<lambda>_. None)"] b] a b show ?thesis by blast
qed

lemma sample_body_cold: "cold (transition_body ''t2'' (sample_hypothesis OPEN) INVESTIGATING)"
  by code_simp

lemma sample_survives:
  "list_all survives [PStr (h_id (sample_hypothesis OPEN)), opt_str (h_lens (sample_hypothesis OPEN)),
     PStr (h_protocol_type (sample_hypothesis OPEN)), h_prior_p (sample_hypothesis OPEN),
     PStr (transition_body ''t2'' (sample_hypothesis OPEN) INVESTIGATING)]"
proof -
  have "redact ''H-1'' = ''H-1''" "redact ''vault'' = ''vault''" by code_simp+
  with redact_secret_free [OF cold_secret_free [OF sample_body_cold]] show ?thesis
    by (simp add: sample_hypothesis_def survives_def [of "PFloat _ _"])
qed

lemma store_transition_commits_witness:
  "\<exists>h' t. transition_hypothesis sample_host ''t2'' (Some sample_token) (sample_hypothesis OPEN) INVESTIGATING ''c''
     ev_investigate sample_store = (Inr h', t)"
proof -
  obtain r where "map_of (st_hyps sample_store) ''H-1'' = Some r" "hr_state r = ''OPEN''" by (rule sample_store_row)
  then show ?thesis
    using store_transition_commits [OF sample_store_reached [of "\<lambda>_. None"] sample_valid(1), of "sample_hypothesis OPEN" r "''t2''"]
      sample_survives by simp
qed

lemma store_transition_refines_witness:
  "\<exists>h' t r'. transition_hypothesis sample_host ''t2'' (Some sample_token) (sample_hypothesis OPEN) INVESTIGATING ''c''
     ev_investigate sample_store = (Inr h', t) \<and> transition sample_host ''t2'' (Some sample_token) (sample_hypothesis OPEN)
     INVESTIGATING ''c'' ev_investigate = Inr h' \<and> map_of (st_hyps t) ''H-1'' = Some r' \<and> hr_state r' = ''INVESTIGATING''"
proof -
  obtain r where "map_of (st_hyps sample_store) ''H-1'' = Some r" "hr_state r = ''OPEN''"
    "hr_event r \<le> length (st_events sample_store)" by (rule sample_store_row)
  with transition_commits_iff [OF sample_valid(1), of "sample_hypothesis OPEN" sample_store r "''t2''"] sample_survives
  obtain h' t where run: "transition_hypothesis sample_host ''t2'' (Some sample_token) (sample_hypothesis OPEN) INVESTIGATING ''c''
     ev_investigate sample_store = (Inr h', t)" by auto
  note refines = store_transition_refines [OF this]
  from refines have same: "transition sample_host ''t2'' (Some sample_token) (sample_hypothesis OPEN) INVESTIGATING ''c'' ev_investigate = Inr h'"
    by blast
  then have "h_state h' = INVESTIGATING" by (rule transition_step)
  with refines obtain r' where "map_of (st_hyps t) ''H-1'' = Some r'" "hr_state r' = ''INVESTIGATING''"
    by auto
  with run same show ?thesis by blast
qed

lemma ledger_begin_idempotent_witness:
  "\<exists>t d d'. ledger_begin (\<lambda>_. None) ''t1'' '' k '' ''scan'' ''recon'' ''worker'' empty_store = (Inr (PDict d), t) \<and>
     ledger_begin (\<lambda>_. None) ''t2'' ''k'' ''other'' ''recon'' ''worker'' t = (Inr (PDict d'), t) \<and> map_of d' ''id'' = map_of d ''id''"
proof -
  have "(case fst (ledger_begin (\<lambda>_. None) ''t1'' '' k '' ''scan'' ''recon'' ''worker'' empty_store) of Inl _ \<Rightarrow> False | Inr _ \<Rightarrow> True)"
    by code_simp
  then obtain task t where run: "ledger_begin (\<lambda>_. None) ''t1'' '' k '' ''scan'' ''recon'' ''worker'' empty_store = (Inr task, t)"
    by (cases "ledger_begin (\<lambda>_. None) ''t1'' '' k '' ''scan'' ''recon'' ''worker'' empty_store") (auto split: sum.splits)
  have "strip ''k'' = strip '' k ''" by code_simp
  from ledger_begin_idempotent [OF run this, of "''t2''" "''other''" "''recon''" "''worker''"] run show ?thesis by blast
qed

end
