(* ===== verification/Adapters.thy ===== *)
theory Adapters
  imports CoreModels
begin

text \<open>
  The model backends of \<open>models/\<close>: the records of \<open>adapters/base.py\<close>, the three backends
  (\<open>adapters/fake.py\<close>, \<open>adapters/openai_compat.py\<close>, \<open>finders.py\<close>), the profile that \<open>core/models.py\<close>
  declares for a model, and the probe of \<open>doctor.py\<close>. A backend acts on a world of any type: a call
  returns its result, or its exception, and the world after it. The HTTP exchange, \<open>json.loads\<close> and the
  measured latency are arguments.
\<close>

section \<open>Requests, responses and profiles\<close>

record message =
  ms_role :: string
  ms_content :: string

record request =
  rq_messages :: "message list"
  rq_role :: "string option"
  rq_max_tokens :: "int option"
  rq_temperature :: "pv option"
  rq_schema :: "pdict option"

record usage =
  us_prompt :: int
  us_completion :: int
  us_total :: int

definition no_usage :: usage where
  "no_usage = \<lparr>us_prompt = 0, us_completion = 0, us_total = 0\<rparr>"

record response =
  rs_provider :: string
  rs_model_id :: string
  rs_text :: pv
  rs_structured :: pv
  rs_usage :: usage
  rs_raw :: pv

record capabilities =
  ca_provider :: string
  ca_model_id :: string
  ca_family :: string
  ca_roles :: "string list"
  ca_context_window :: int
  ca_capabilities :: "(string \<times> bool) list"
  ca_pricing_tier :: string
  ca_deprecated :: bool

text \<open>A point in time: what \<open>isoformat\<close> prints and the microseconds that differences are made of.\<close>

record instant =
  in_iso :: string
  in_micros :: int

record model_profile =
  mp_provider :: string
  mp_model_id :: string
  mp_family :: string
  mp_roles :: "string list"
  mp_context_window :: int
  mp_capabilities :: "(string \<times> bool) list"
  mp_pricing_tier :: string
  mp_terms_version :: string
  mp_terms_observed_at :: instant
  mp_pricing_version :: string
  mp_pricing_observed_at :: instant
  mp_deprecated :: bool

definition PRICING_TIERS :: "string list" where
  "PRICING_TIERS = [''free'', ''shadow'', ''paid'']"

definition profile_ok :: "model_profile \<Rightarrow> bool" where
  "profile_ok p = (0 < mp_context_window p \<and> mp_pricing_tier p \<in> set PRICING_TIERS \<and>
     strip (mp_provider p) \<noteq> [] \<and> strip (mp_model_id p) \<noteq> [])"

text \<open>Constructing a profile runs its validators.\<close>

definition validate_profile :: "model_profile \<Rightarrow> model_profile res" where
  "validate_profile p =
     (if mp_context_window p \<le> 0 then Inl (ValueError ''Input should be greater than 0'')
      else if mp_pricing_tier p \<notin> set PRICING_TIERS then Inl (ValueError ''pricing_tier must be free, shadow or paid'')
      else if strip (mp_provider p) = [] \<or> strip (mp_model_id p) = [] then
        Inl (ValueError ''provider and model_id must be non-empty'')
      else Inr p)"

text \<open>
  The structural interface \<open>Adapter\<close>. The tier is what \<open>getattr(candidate, "pricing_tier", None)\<close> finds.
\<close>

record 'w adapter =
  ad_provider :: string
  ad_model_id :: string
  ad_pricing_tier :: "string option"
  ad_complete :: "request \<Rightarrow> 'w \<Rightarrow> response res \<times> 'w"
  ad_probe :: "'w \<Rightarrow> capabilities res \<times> 'w"

text \<open>\<open>isinstance(exc, (ModelUnavailable, Timeout))\<close>, with the subclasses.\<close>

fun failover :: "exc \<Rightarrow> bool" where
  "failover (ModelUnavailable m) = True"
| "failover (RateLimited m) = True"
| "failover (NotFound m) = True"
| "failover (NoCandidatesAvailable m) = True"
| "failover (Timeout m) = True"
| "failover _ = False"

section \<open>The fake backend\<close>

record fake =
  fk_provider :: string
  fk_model_id :: string
  fk_family :: string
  fk_roles :: "string list"
  fk_context_window :: int
  fk_capabilities :: "(string \<times> bool) list"
  fk_pricing_tier :: string
  fk_deprecated :: bool
  fk_responses :: "string list"
  fk_fail_mode :: "string option"

text \<open>What a fake backend counts: its calls, and the replies taken from the cycle.\<close>

record fake_state =
  fs_calls :: nat
  fs_served :: nat

definition FAKE_DEFAULT :: fake where
  "FAKE_DEFAULT = \<lparr>fk_provider = ''fake'', fk_model_id = ''fake-large-1'', fk_family = ''fake-large'',
     fk_roles = [''worker'', ''skeptic''], fk_context_window = 128000,
     fk_capabilities = [(''structured_output'', True), (''tool_use'', False)], fk_pricing_tier = ''free'',
     fk_deprecated = False, fk_responses = [''fake response''], fk_fail_mode = None\<rparr>"

definition label :: "string \<Rightarrow> string \<Rightarrow> string" where
  "label provider model_id = provider @ ''/'' @ model_id"

text \<open>
  The replies are consumed in a cycle, which failing calls do not advance; without replies the exhausted
  iterator surfaces from the coroutine as a \<open>RuntimeError\<close>.
\<close>

definition fake_complete :: "fake \<Rightarrow> request \<Rightarrow> fake_state \<Rightarrow> response res \<times> fake_state" where
  "fake_complete f r st =
     (let f1 = st\<lparr>fs_calls := fs_calls st + 1\<rparr>; l = label (fk_provider f) (fk_model_id f) in
      if fk_fail_mode f = Some ''timeout'' then (Inl (Timeout (l @ '': timed out'')), f1)
      else if fk_fail_mode f = Some ''rate_limit'' then (Inl (RateLimited (l @ '': rate limited'')), f1)
      else if fk_fail_mode f = Some ''unavailable'' then (Inl (ModelUnavailable (l @ '': unavailable'')), f1)
      else if fk_responses f = [] then (Inl (RuntimeError ''coroutine raised StopIteration''), f1)
      else
        let text = fk_responses f ! (fs_served st mod length (fk_responses f)); n = int (length (rq_messages r));
            structured = (if rq_schema r = None then PNone
              else if fk_fail_mode f = Some ''malformed_structured_output'' then
                PDict [(''__fake_malformed__'', PBool True)]
              else PDict [(''ok'', PBool True), (''echo'', PStr text)]) in
        (Inr \<lparr>rs_provider = fk_provider f, rs_model_id = fk_model_id f, rs_text = PStr text,
           rs_structured = structured, rs_usage = \<lparr>us_prompt = n, us_completion = 1, us_total = n + 1\<rparr>,
           rs_raw = PDict [(''fake'', PBool True), (''call_index'', PInt (int (fs_calls st + 1)))]\<rparr>,
         f1\<lparr>fs_served := fs_served st + 1\<rparr>))"

definition fake_probe :: "fake \<Rightarrow> capabilities res" where
  "fake_probe f =
     (if fk_fail_mode f = Some ''timeout'' then
        Inl (Timeout (label (fk_provider f) (fk_model_id f) @ '': probe timed out''))
      else Inr \<lparr>ca_provider = fk_provider f, ca_model_id = fk_model_id f, ca_family = fk_family f,
        ca_roles = fk_roles f, ca_context_window = fk_context_window f, ca_capabilities = fk_capabilities f,
        ca_pricing_tier = fk_pricing_tier f, ca_deprecated = fk_deprecated f\<rparr>)"

text \<open>A fake backend whose counters are a part of the world.\<close>

definition fake_adapter :: "('w \<Rightarrow> fake_state) \<Rightarrow> (fake_state \<Rightarrow> 'w \<Rightarrow> 'w) \<Rightarrow> fake \<Rightarrow> 'w adapter" where
  "fake_adapter get put f =
     \<lparr>ad_provider = fk_provider f, ad_model_id = fk_model_id f, ad_pricing_tier = Some (fk_pricing_tier f),
      ad_complete = (\<lambda>r w. case fake_complete f r (get w) of (x, g) \<Rightarrow> (x, put g w)),
      ad_probe = (\<lambda>w. (fake_probe f, w))\<rparr>"

definition malformed_structured_output_would_fail_schema :: "pv \<Rightarrow> bool" where
  "malformed_structured_output_would_fail_schema v = (case v of PDict d \<Rightarrow> dhas d ''__fake_malformed__'' | _ \<Rightarrow> True)"

section \<open>The static finder\<close>

record finder =
  fi_provider :: string
  fi_model_id :: string
  fi_family :: string
  fi_patterns :: "string list"
  fi_pricing_tier :: string

definition static_finder :: "string list \<Rightarrow> finder" where
  "static_finder ps = \<lparr>fi_provider = ''static'', fi_model_id = ''pattern-finder-1'', fi_family = ''static-finder'',
     fi_patterns = ps, fi_pricing_tier = ''free''\<rparr>"

definition finder_complete :: "finder \<Rightarrow> request \<Rightarrow> response" where
  "finder_complete f r =
     (let content = (if rq_messages r = [] then [] else ms_content (last (rq_messages r)));
          hits = filter (contains content) (fi_patterns f); listed = PList (map PStr hits) in
      \<lparr>rs_provider = fi_provider f, rs_model_id = fi_model_id f, rs_text = PStr (join ''; '' hits),
       rs_structured = (if rq_schema r = None then PNone else PDict [(''hits'', listed)]), rs_usage = no_usage,
       rs_raw = PDict [(''pattern_matches'', listed)]\<rparr>)"

definition finder_probe :: "finder \<Rightarrow> capabilities" where
  "finder_probe f =
     \<lparr>ca_provider = fi_provider f, ca_model_id = fi_model_id f, ca_family = fi_family f, ca_roles = [''finder''],
      ca_context_window = 0, ca_capabilities = [(''structured_output'', True)],
      ca_pricing_tier = fi_pricing_tier f, ca_deprecated = False\<rparr>"

definition finder_adapter :: "finder \<Rightarrow> 'w adapter" where
  "finder_adapter f =
     \<lparr>ad_provider = fi_provider f, ad_model_id = fi_model_id f, ad_pricing_tier = Some (fi_pricing_tier f),
      ad_complete = (\<lambda>r w. (Inr (finder_complete f r), w)), ad_probe = (\<lambda>w. (Inr (finder_probe f), w))\<rparr>"

section \<open>The OpenAI-compatible backend\<close>

record openai =
  oa_provider :: string
  oa_model_id :: string
  oa_family :: string
  oa_base_url :: string
  oa_api_key :: "string option"
  oa_roles :: "string list"
  oa_context_window :: int
  oa_capabilities :: "(string \<times> bool) list"
  oa_pricing_tier :: string
  oa_timeout_s :: string \<comment> \<open>as it is printed\<close>

text \<open>How an exchange ends: with the text of a reply, an HTTP error, or no reply at all.\<close>

datatype http_outcome = Replied string | HttpError int string | TimedOut | Unreachable string

record http_call =
  hc_url :: string
  hc_headers :: "(string \<times> string) list"
  hc_body :: string

definition openai_headers :: "openai \<Rightarrow> (string \<times> string) list" where
  "openai_headers a = (''Content-Type'', ''application/json'') #
     (if given (oa_api_key a) then [(''Authorization'', ''Bearer '' @ the (oa_api_key a))] else [])"

text \<open>The exception for each way in which an exchange ends without a reply, and the parsed reply.\<close>

definition post_result :: "(string \<Rightarrow> pv option) \<Rightarrow> openai \<Rightarrow> http_outcome \<Rightarrow> pv res" where
  "post_result loads a out =
     (let l = label (oa_provider a) (oa_model_id a) in
      case out of
        Replied text \<Rightarrow> (case loads text of Some v \<Rightarrow> Inr v | None \<Rightarrow> Inl (JSONDecodeError ''Expecting value''))
      | HttpError code detail \<Rightarrow>
          if code = 429 then Inl (RateLimited (l @ '': HTTP 429: '' @ detail))
          else if code \<in> {404, 410} then
            Inl (NotFound (l @ '': HTTP '' @ int_str code @ '' (deprecated or removed): '' @ detail))
          else if code \<in> {401, 403} then
            Inl (ModelUnavailable (l @ '': HTTP '' @ int_str code @ '' (auth/quota): '' @ detail))
          else Inl (ModelUnavailable (l @ '': HTTP '' @ int_str code @ '': '' @ detail))
      | TimedOut \<Rightarrow> Inl (Timeout (l @ '': timed out after '' @ oa_timeout_s a @ ''s''))
      | Unreachable reason \<Rightarrow> Inl (ModelUnavailable (l @ '': unreachable: '' @ reason)))"

type_synonym 'w http = "http_call \<Rightarrow> 'w \<Rightarrow> http_outcome \<times> 'w"

definition openai_post :: "'w http \<Rightarrow> (string \<Rightarrow> pv option) \<Rightarrow> openai \<Rightarrow> string \<Rightarrow> pdict \<Rightarrow> 'w \<Rightarrow> pv res \<times> 'w" where
  "openai_post net loads a path payload w =
     (case net \<lparr>hc_url = rstrip_char (CHR ''/'') (oa_base_url a) @ path, hc_headers = openai_headers a,
        hc_body = jtext (PDict payload)\<rparr> w of (out, w') \<Rightarrow> (post_result loads a out, w'))"

definition openai_payload :: "openai \<Rightarrow> request \<Rightarrow> pdict" where
  "openai_payload a r =
     [(''model'', PStr (oa_model_id a)),
      (''messages'', PList (map (\<lambda>m. PDict [(''role'', PStr (ms_role m)), (''content'', PStr (ms_content m))])
         (rq_messages r)))] @
     (case rq_max_tokens r of None \<Rightarrow> [] | Some n \<Rightarrow> [(''max_tokens'', PInt n)]) @
     (case rq_temperature r of None \<Rightarrow> [] | Some t \<Rightarrow> [(''temperature'', t)]) @
     (case rq_schema r of None \<Rightarrow> []
      | Some s \<Rightarrow> [(''response_format'', PDict [(''type'', PStr ''json_schema''), (''json_schema'', PDict s)])])"

text \<open>
  \<open>data["choices"][0]["message"]["content"]\<close>; every way in which it raises is caught alike. A text that is
  indexed gives a text of one character, which has no message.
\<close>

definition response_text :: "pv \<Rightarrow> pv option" where
  "response_text data = (case data of
     PDict d \<Rightarrow> (case map_of d ''choices'' of
       Some (PList (PDict c # _)) \<Rightarrow> (case map_of c ''message'' of
         Some (PDict m) \<Rightarrow> map_of m ''content'' | _ \<Rightarrow> None) | _ \<Rightarrow> None) | _ \<Rightarrow> None)"

definition parse_structured :: "(string \<Rightarrow> pv option) \<Rightarrow> openai \<Rightarrow> pv \<Rightarrow> pv res" where
  "parse_structured loads a text = (case text of
     PStr s \<Rightarrow> (case loads s of Some v \<Rightarrow> Inr v | None \<Rightarrow> Inl (MalformedStructuredOutput
       (label (oa_provider a) (oa_model_id a) @ '': response is not valid JSON: '' @ py_repr text)))
   | _ \<Rightarrow> Inl (TypeError ''the JSON object must be str, bytes or bytearray''))"

definition parse_usage :: "pv \<Rightarrow> usage res" where
  "parse_usage data = (case data of
     PDict d \<Rightarrow> (case dget_or d ''usage'' (PDict []) of
         PDict u \<Rightarrow> ebind (py_int (dget_or u ''prompt_tokens'' (PInt 0))) (\<lambda>p.
           ebind (py_int (dget_or u ''completion_tokens'' (PInt 0))) (\<lambda>c.
           ebind (py_int (dget_or u ''total_tokens'' (PInt 0))) (\<lambda>t.
             Inr \<lparr>us_prompt = p, us_completion = c, us_total = t\<rparr>)))
       | v \<Rightarrow> if truthy v then Inl (AttributeError ''get'') else Inr no_usage)
   | _ \<Rightarrow> Inl (AttributeError ''get''))"

definition parse_completion :: "(string \<Rightarrow> pv option) \<Rightarrow> openai \<Rightarrow> request \<Rightarrow> pv \<Rightarrow> response res" where
  "parse_completion loads a r data = (case response_text data of
     None \<Rightarrow> Inl (ModelUnavailable (label (oa_provider a) (oa_model_id a) @ '': unexpected response shape: '' @ py_repr data))
   | Some text \<Rightarrow>
       ebind (if rq_schema r = None then Inr PNone else parse_structured loads a text) (\<lambda>structured.
       ebind (parse_usage data) (\<lambda>u.
         Inr \<lparr>rs_provider = oa_provider a, rs_model_id = oa_model_id a, rs_text = text,
           rs_structured = structured, rs_usage = u, rs_raw = data\<rparr>)))"

definition openai_complete :: "'w http \<Rightarrow> (string \<Rightarrow> pv option) \<Rightarrow> openai \<Rightarrow> request \<Rightarrow> 'w \<Rightarrow> response res \<times> 'w" where
  "openai_complete net loads a r w =
     (case openai_post net loads a ''/chat/completions'' (openai_payload a r) w of
        (data, w') \<Rightarrow> (ebind data (parse_completion loads a r), w'))"

definition openai_probe :: "'w http \<Rightarrow> (string \<Rightarrow> pv option) \<Rightarrow> openai \<Rightarrow> 'w \<Rightarrow> capabilities res \<times> 'w" where
  "openai_probe net loads a w =
     (let caps = (\<lambda>dep. \<lparr>ca_provider = oa_provider a, ca_model_id = oa_model_id a, ca_family = oa_family a,
            ca_roles = oa_roles a, ca_context_window = oa_context_window a, ca_capabilities = oa_capabilities a,
            ca_pricing_tier = oa_pricing_tier a, ca_deprecated = dep\<rparr>) in
      case openai_post net loads a ''/chat/completions'' [(''model'', PStr (oa_model_id a)),
          (''messages'', PList [PDict [(''role'', PStr ''user''), (''content'', PStr ''ping'')]]), (''max_tokens'', PInt 1)] w of
        (Inr _, w') \<Rightarrow> (Inr (caps False), w')
      | (Inl (NotFound m), w') \<Rightarrow> (Inr (caps True), w')
      | (Inl e, w') \<Rightarrow> (Inl e, w'))"

definition openai_adapter :: "'w http \<Rightarrow> (string \<Rightarrow> pv option) \<Rightarrow> openai \<Rightarrow> 'w adapter" where
  "openai_adapter net loads a =
     \<lparr>ad_provider = oa_provider a, ad_model_id = oa_model_id a, ad_pricing_tier = Some (oa_pricing_tier a),
      ad_complete = openai_complete net loads a, ad_probe = openai_probe net loads a\<rparr>"

section \<open>The doctor's probe\<close>

record probe_result =
  pr_provider :: string
  pr_model_id :: string
  pr_profile :: "model_profile option"
  pr_round_trip :: "bool option"
  pr_latency :: pv
  pr_error :: "string option"

definition PROBE_SCHEMA :: pdict where
  "PROBE_SCHEMA = [(''type'', PStr ''object''),
     (''properties'', PDict [(''ack'', PDict [(''type'', PStr ''boolean'')])]), (''required'', PList [PStr ''ack''])]"

definition PROBE_REQUEST :: request where
  "PROBE_REQUEST = \<lparr>rq_messages = [\<lparr>ms_role = ''user'', ms_content = ''Reply with a small JSON object.''\<rparr>],
     rq_role = Some ''doctor_probe'', rq_max_tokens = Some 32, rq_temperature = None, rq_schema = Some PROBE_SCHEMA\<rparr>"

definition verify_structured_output :: "'w adapter \<Rightarrow> 'w \<Rightarrow> bool \<times> 'w" where
  "verify_structured_output a w = (case ad_complete a PROBE_REQUEST w of
     (Inl _, w') \<Rightarrow> (False, w') | (Inr r, w') \<Rightarrow> (is_dict (rs_structured r), w'))"

definition cap :: "(string \<times> bool) list \<Rightarrow> string \<Rightarrow> bool" where
  "cap cs k = (map_of cs k = Some True)"

definition set_cap :: "string \<Rightarrow> bool \<Rightarrow> (string \<times> bool) list \<Rightarrow> (string \<times> bool) list" where
  "set_cap k b cs = (if k \<in> fst ` set cs then map (\<lambda>(k', c). (k', if k' = k then b else c)) cs else cs @ [(k, b)])"

definition probed_profile :: "string \<Rightarrow> string \<Rightarrow> instant \<Rightarrow> capabilities \<Rightarrow> bool option \<Rightarrow> model_profile" where
  "probed_profile terms pricing now c trip =
     \<lparr>mp_provider = ca_provider c, mp_model_id = ca_model_id c, mp_family = ca_family c, mp_roles = ca_roles c,
      mp_context_window = max (ca_context_window c) 1,
      mp_capabilities = (case trip of None \<Rightarrow> ca_capabilities c
        | Some b \<Rightarrow> set_cap ''structured_output'' b (ca_capabilities c)),
      mp_pricing_tier = ca_pricing_tier c, mp_terms_version = terms, mp_terms_observed_at = now,
      mp_pricing_version = pricing, mp_pricing_observed_at = now, mp_deprecated = ca_deprecated c\<rparr>"

text \<open>The settings of a probe: the two versions, the time of the observation and the latency it reports.\<close>

record probe_settings =
  ps_terms :: string
  ps_pricing :: string
  ps_now :: instant
  ps_latency :: pv

definition probe_model :: "probe_settings \<Rightarrow> 'w adapter \<Rightarrow> 'w \<Rightarrow> probe_result res \<times> 'w" where
  "probe_model ps a w = (case ad_probe a w of
     (Inl e, w1) \<Rightarrow>
       if failover e then
         (Inr \<lparr>pr_provider = ad_provider a, pr_model_id = ad_model_id a, pr_profile = None, pr_round_trip = None,
            pr_latency = ps_latency ps, pr_error = Some (exc_msg e)\<rparr>, w1)
       else (Inl e, w1)
   | (Inr c, w1) \<Rightarrow>
       let (trip, w2) = (if cap (ca_capabilities c) ''structured_output'' \<and> \<not> ca_deprecated c
            then map_prod Some id (verify_structured_output a w1) else (None, w1)) in
       (ebind (validate_profile (probed_profile (ps_terms ps) (ps_pricing ps) (ps_now ps) c trip)) (\<lambda>p.
          Inr \<lparr>pr_provider = ad_provider a, pr_model_id = ad_model_id a, pr_profile = Some p, pr_round_trip = trip,
            pr_latency = ps_latency ps, pr_error = None\<rparr>), w2))"

section \<open>The contract of a backend\<close>

text \<open>
  What the router and the doctor rely on, and what the protocol does not say: a call fails only with an
  exception that means ``not now'', and a probe reports a profile that passes its validators.
\<close>

locale backend =
  fixes a :: "'w adapter"
  assumes complete_failover: "ad_complete a r w = (Inl e, w') \<Longrightarrow> failover e"
    and probe_failover: "ad_probe a w = (Inl e, w') \<Longrightarrow> failover e"
    and probe_valid: "ad_probe a w = (Inr c, w') \<Longrightarrow> ca_pricing_tier c \<in> set PRICING_TIERS \<and>
      strip (ca_provider c) \<noteq> [] \<and> strip (ca_model_id c) \<noteq> []"
begin

lemma probe_model_returns: "\<exists>p w'. probe_model ps a w = (Inr p, w')"
  using probe_failover probe_valid
  by (auto simp: probe_model_def validate_profile_def probed_profile_def Let_def split: prod.splits sum.splits)

end

text \<open>The default finder, with any patterns, keeps the contract.\<close>

interpretation finder: backend "finder_adapter (static_finder ps)" for ps
  by unfold_locales (auto simp: finder_adapter_def finder_probe_def static_finder_def PRICING_TIERS_def strip_def is_space_def)

text \<open>So does a fake backend with replies and valid names, whatever its failure mode.\<close>

definition fake_ok :: "fake \<Rightarrow> bool" where
  "fake_ok f = (fk_responses f \<noteq> [] \<and> fk_pricing_tier f \<in> set PRICING_TIERS \<and> strip (fk_provider f) \<noteq> [] \<and>
     strip (fk_model_id f) \<noteq> [])"

locale fake_backend =
  fixes f :: fake and get :: "'w \<Rightarrow> fake_state" and put :: "fake_state \<Rightarrow> 'w \<Rightarrow> 'w"
  assumes ok: "fake_ok f"

sublocale fake_backend \<subseteq> backend "fake_adapter get put f"
  using ok by unfold_locales
    (auto simp: fake_adapter_def fake_complete_def fake_probe_def fake_ok_def Let_def split: if_splits prod.splits)

lemma FAKE_DEFAULT_ok: "fake_ok FAKE_DEFAULT"
  by code_simp

interpretation fake_default: fake_backend "FAKE_DEFAULT\<lparr>fk_fail_mode := m\<rparr>" get put for m get put
  using FAKE_DEFAULT_ok by unfold_locales (simp add: fake_ok_def)

end
