(* ===== verification/Router.thy ===== *)
theory Router
  imports Adapters StoreDb
begin

text \<open>
  The router of \<open>models/router.py\<close>: it tries the candidates that the stack policy (\<open>core/models.py\<close>) allows
  in their order, probes a candidate that fails with a recoverable exception, announces the failure and goes
  on. The events are the list that the sink receives; the time of the probes is an argument.
\<close>

section \<open>The stack policy\<close>

record stack_policy =
  sk_stack :: string
  sk_kind :: string
  sk_decisions :: bool
  sk_tiers :: "string list"

definition validate_stack :: "stack_policy \<Rightarrow> stack_policy res" where
  "validate_stack sp =
     (if sk_kind sp \<notin> {''dev'', ''prod''} then Inl (ValueError ''kind must be dev or prod'')
      else if \<not> set (sk_tiers sp) \<subseteq> set PRICING_TIERS then Inl (ValueError ''pricing_tier must be free, shadow or paid'')
      else if sk_kind sp = ''prod'' \<and> (''free'' \<in> set (sk_tiers sp) \<or> ''shadow'' \<in> set (sk_tiers sp)) then
        Inl (ValueError ''a prod stack cannot allow free or shadow-priced models'')
      else Inr sp)"

definition allowed_by_stack :: "stack_policy option \<Rightarrow> 'w adapter \<Rightarrow> bool" where
  "allowed_by_stack policy c = (case policy of
     None \<Rightarrow> True
   | Some sp \<Rightarrow> (case ad_pricing_tier c of None \<Rightarrow> False | Some t \<Rightarrow> t \<in> set (sk_tiers sp)))"

section \<open>Routing\<close>

record attempt =
  at_provider :: string
  at_model_id :: string
  at_ok :: bool
  at_error :: "string option"
  at_reprobed :: "bool option"

record route_result =
  rr_response :: response
  rr_provider :: string
  rr_model_id :: string
  rr_attempts :: "attempt list"

type_synonym announcement = "string \<times> pdict"

definition failed_attempt :: "'w adapter \<Rightarrow> exc \<Rightarrow> bool option \<Rightarrow> attempt" where
  "failed_attempt c e dep = \<lparr>at_provider = ad_provider c, at_model_id = ad_model_id c, at_ok = False,
     at_error = Some (exc_msg e), at_reprobed = dep\<rparr>"

definition served_attempt :: "'w adapter \<Rightarrow> attempt" where
  "served_attempt c = \<lparr>at_provider = ad_provider c, at_model_id = ad_model_id c, at_ok = True, at_error = None,
     at_reprobed = None\<rparr>"

definition failure_kind :: "exc \<Rightarrow> string" where
  "failure_kind e = (case e of RateLimited m \<Rightarrow> ''quota_switch'' | _ \<Rightarrow> ''model_unavailable'')"

definition opt_bool :: "bool option \<Rightarrow> pv" where
  "opt_bool b = (case b of None \<Rightarrow> PNone | Some x \<Rightarrow> PBool x)"

definition announce :: "string \<Rightarrow> 'w adapter \<Rightarrow> exc \<Rightarrow> bool option \<Rightarrow> pdict" where
  "announce role c e dep =
     [(''role'', PStr role), (''provider'', PStr (ad_provider c)), (''model_id'', PStr (ad_model_id c)),
      (''error'', PStr (exc_msg e)), (''reprobed_deprecated'', opt_bool dep)]"

definition all_failed :: "string \<Rightarrow> attempt list \<Rightarrow> exc" where
  "all_failed role ats = NoCandidatesAvailable
     (''all '' @ nat_str (length ats) @ '' candidate(s) for role='' @ str_repr role @ '' failed: '' @
      join ''; '' (map (\<lambda>a. at_provider a @ ''/'' @ at_model_id a @ '': '' @
        (case at_error a of None \<Rightarrow> ''None'' | Some m \<Rightarrow> m)) ats))"

fun route_loop :: "string \<Rightarrow> probe_settings \<Rightarrow> request \<Rightarrow> 'w adapter list \<Rightarrow> attempt list \<Rightarrow> announcement list \<Rightarrow>
    'w \<Rightarrow> route_result res \<times> announcement list \<times> 'w" where
  "route_loop role ps rq [] ats evs w = (Inl (all_failed role ats), evs, w)"
| "route_loop role ps rq (c # cs) ats evs w = (case ad_complete c rq w of
     (Inr r, w1) \<Rightarrow> (Inr \<lparr>rr_response = r, rr_provider = ad_provider c, rr_model_id = ad_model_id c,
        rr_attempts = ats @ [served_attempt c]\<rparr>, evs, w1)
   | (Inl e, w1) \<Rightarrow>
       if \<not> failover e then (Inl e, evs, w1)
       else (case probe_model ps c w1 of
           (Inl e', w2) \<Rightarrow> (Inl e', evs, w2)
         | (Inr p, w2) \<Rightarrow>
             let dep = map_option mp_deprecated (pr_profile p) in
             (case validate_kind (failure_kind e) of
                Inl e' \<Rightarrow> (Inl e', evs, w2)
              | Inr kind \<Rightarrow> route_loop role ps rq cs (ats @ [failed_attempt c e dep])
                  (evs @ [(kind, announce role c e dep)]) w2)))"

definition route :: "string \<Rightarrow> probe_settings \<Rightarrow> stack_policy option \<Rightarrow> request \<Rightarrow> 'w adapter list \<Rightarrow> 'w \<Rightarrow>
    route_result res \<times> announcement list \<times> 'w" where
  "route role ps policy rq candidates w =
     (let eligible = filter (allowed_by_stack policy) candidates in
      if eligible = [] then
        (Inl (NoCandidatesAvailable (''no candidates for role='' @ str_repr role @ '' are allowed by the stack policy'')), [], w)
      else route_loop role ps rq eligible [] [] w)"

section \<open>A candidate that declines\<close>

text \<open>
  A candidate declines when its call fails recoverably and its probe returns: what the failure is, what the
  probe found, and the world after both.
\<close>

definition decline :: "probe_settings \<Rightarrow> request \<Rightarrow> 'w adapter \<Rightarrow> 'w \<Rightarrow> (exc \<times> bool option \<times> 'w) option" where
  "decline ps rq c w = (case ad_complete c rq w of
     (Inr _, _) \<Rightarrow> None
   | (Inl e, w1) \<Rightarrow> if \<not> failover e then None else (case probe_model ps c w1 of
       (Inl _, _) \<Rightarrow> None | (Inr p, w2) \<Rightarrow> Some (e, map_option mp_deprecated (pr_profile p), w2)))"

text \<open>The candidates of a list decline one after the other.\<close>

fun declines :: "probe_settings \<Rightarrow> request \<Rightarrow> 'w adapter list \<Rightarrow> 'w \<Rightarrow> (('w adapter \<times> exc \<times> bool option) list \<times> 'w) option" where
  "declines ps rq [] w = Some ([], w)"
| "declines ps rq (c # cs) w = (case decline ps rq c w of
     None \<Rightarrow> None
   | Some (e, dep, w1) \<Rightarrow> map_option (\<lambda>(ds, w2). ((c, e, dep) # ds, w2)) (declines ps rq cs w1))"

definition attempts_of :: "('w adapter \<times> exc \<times> bool option) list \<Rightarrow> attempt list" where
  "attempts_of ds = map (\<lambda>(c, e, dep). failed_attempt c e dep) ds"

definition events_of :: "string \<Rightarrow> ('w adapter \<times> exc \<times> bool option) list \<Rightarrow> announcement list" where
  "events_of role ds = map (\<lambda>(c, e, dep). (failure_kind e, announce role c e dep)) ds"

lemma failure_kind_valid [simp]: "validate_kind (failure_kind e) = Inr (failure_kind e)"
  by (simp add: validate_kind_def failure_kind_def EVENT_KINDS_def split: exc.splits)

lemma route_loop_decline:
  "decline ps rq c w = Some (e, dep, w1) \<Longrightarrow> route_loop role ps rq (c # cs) ats evs w =
     route_loop role ps rq cs (ats @ [failed_attempt c e dep]) (evs @ [(failure_kind e, announce role c e dep)]) w1"
  by (auto simp: decline_def Let_def split: prod.splits sum.splits if_splits)

lemma route_loop_declines:
  "declines ps rq xs w = Some (ds, w1) \<Longrightarrow> route_loop role ps rq (xs @ cs) ats evs w =
     route_loop role ps rq cs (ats @ attempts_of ds) (evs @ events_of role ds) w1"
proof (induction xs arbitrary: w ats evs ds)
  case (Cons c xs)
  from Cons.prems obtain e dep w2 ds' where d: "decline ps rq c w = Some (e, dep, w2)"
    "declines ps rq xs w2 = Some (ds', w1)" "ds = (c, e, dep) # ds'"
    by (auto split: option.splits)
  from Cons.IH [OF d(2)] d(3) show ?case
    by (simp only: append_Cons route_loop_decline [OF d(1)]) (simp add: attempts_of_def events_of_def)
qed (simp add: attempts_of_def events_of_def)

text \<open>How the loop ends: with an answer, with no candidate left, or with an exception that is not recoverable.\<close>

lemma route_loop_cases:
  obtains (served) xs c ys ds w1 r w2 where "cs = xs @ c # ys" "declines ps rq xs w = Some (ds, w1)"
      "ad_complete c rq w1 = (Inr r, w2)"
    | (exhausted) ds w1 where "declines ps rq cs w = Some (ds, w1)"
    | (raised) xs c ys ds w1 e w2 where "cs = xs @ c # ys" "declines ps rq xs w = Some (ds, w1)"
      "ad_complete c rq w1 = (Inl e, w2)" "\<not> failover e \<or> (\<exists>e' w3. probe_model ps c w2 = (Inl e', w3))"
proof (induction cs arbitrary: w thesis)
  case Nil
  show ?case by (rule Nil(2)) simp
next
  case (Cons c cs)
  show ?case
  proof (cases "decline ps rq c w")
    case None
    show ?thesis
    proof (cases "ad_complete c rq w")
      case (Pair res w2)
      show ?thesis
      proof (cases res)
        case (Inr r)
        show ?thesis by (rule Cons.prems(1) [of "[]" c cs "[]" w r w2]) (simp_all add: Pair Inr)
      next
        case (Inl e)
        with None Pair have "\<not> failover e \<or> (\<exists>e' w3. probe_model ps c w2 = (Inl e', w3))"
          by (auto simp: decline_def split: prod.splits sum.splits if_splits)
        then show ?thesis by (intro Cons.prems(3) [of "[]" c cs "[]" w e w2]) (simp_all add: Pair Inl)
      qed
    qed
  next
    case (Some d)
    obtain e dep w1 where d: "d = (e, dep, w1)" by (cases d)
    note dec = Some [unfolded d]
    show ?thesis
    proof (rule Cons.IH [of w1])
      fix xs c' ys ds w2 r w3
      assume "cs = xs @ c' # ys" "declines ps rq xs w1 = Some (ds, w2)" "ad_complete c' rq w2 = (Inr r, w3)"
      then show ?thesis by (intro Cons.prems(1) [of "c # xs" c' ys "(c, e, dep) # ds" w2 r w3]) (simp_all add: dec)
    next
      fix ds w2
      assume "declines ps rq cs w1 = Some (ds, w2)"
      then show ?thesis by (intro Cons.prems(2) [of "(c, e, dep) # ds" w2]) (simp add: dec)
    next
      fix xs c' ys ds w2 e' w3
      assume "cs = xs @ c' # ys" "declines ps rq xs w1 = Some (ds, w2)" "ad_complete c' rq w2 = (Inl e', w3)"
        "\<not> failover e' \<or> (\<exists>e'' w4. probe_model ps c' w3 = (Inl e'', w4))"
      then show ?thesis by (intro Cons.prems(3) [of "c # xs" c' ys "(c, e, dep) # ds" w2 e' w3]) (simp_all add: dec)
    qed
  qed
qed

lemma route_loop_raises:
  assumes "ad_complete c rq w = (Inl e, w1)" "\<not> failover e \<or> (\<exists>e' w2. probe_model ps c w1 = (Inl e', w2))"
  shows "\<exists>e' w2. route_loop role ps rq (c # cs) ats evs w = (Inl e', evs, w2)"
  using assms by (auto split: prod.splits sum.splits)

context backend
begin

text \<open>A backend that keeps its contract answers or declines.\<close>

lemma answers_or_declines: "(\<exists>r w'. ad_complete a rq w = (Inr r, w')) \<or> (\<exists>d. decline ps rq a w = Some d)"
proof (cases "ad_complete a rq w")
  case (Pair res w1)
  obtain p w2 where "probe_model ps a w1 = (Inr p, w2)" using probe_model_returns by blast
  with Pair complete_failover show ?thesis by (cases res) (auto simp: decline_def)
qed

end

lemma route_answers_iff:
  "(\<exists>evs. route role ps policy rq cands w = (Inr res, evs, w')) \<longleftrightarrow>
    (\<exists>xs c ys ds w1. filter (allowed_by_stack policy) cands = xs @ c # ys \<and> declines ps rq xs w = Some (ds, w1) \<and>
       ad_complete c rq w1 = (Inr (rr_response res), w') \<and>
       route role ps policy rq cands w = (Inr res, events_of role ds, w') \<and>
       rr_provider res = ad_provider c \<and> rr_model_id res = ad_model_id c \<and>
       rr_attempts res = attempts_of ds @ [served_attempt c])"
  (is "?lhs \<longleftrightarrow> ?rhs")
proof
  let ?cs = "filter (allowed_by_stack policy) cands"
  assume ?lhs
  then obtain evs where run: "route_loop role ps rq ?cs [] [] w = (Inr res, evs, w')" and route: "route role ps policy rq cands w = (Inr res, evs, w')"
    by (auto simp: route_def Let_def split: if_splits)
  show ?rhs
  proof (rule route_loop_cases [of ?cs ps rq w])
    fix xs c ys ds w1 r w2
    assume a: "?cs = xs @ c # ys" "declines ps rq xs w = Some (ds, w1)" "ad_complete c rq w1 = (Inr r, w2)"
    from run [unfolded a(1) route_loop_declines [OF a(2)]] a(3) have "res = \<lparr>rr_response = r, rr_provider = ad_provider c,
        rr_model_id = ad_model_id c, rr_attempts = attempts_of ds @ [served_attempt c]\<rparr>" "evs = events_of role ds" "w' = w2"
      by simp_all
    with a route show ?rhs by (intro exI conjI) auto
  next
    fix ds w1
    assume "declines ps rq ?cs w = Some (ds, w1)"
    from run route_loop_declines [OF this, of role "[]" "[]" "[]"] show ?rhs by simp
  next
    fix xs c ys ds w1 e w2
    assume a: "?cs = xs @ c # ys" "declines ps rq xs w = Some (ds, w1)" "ad_complete c rq w1 = (Inl e, w2)"
      "\<not> failover e \<or> (\<exists>e' w3. probe_model ps c w2 = (Inl e', w3))"
    from run [unfolded a(1) route_loop_declines [OF a(2)]] show ?rhs
      using route_loop_raises [OF a(3,4), of role ys "[] @ attempts_of ds" "[] @ events_of role ds"]
      by (auto simp del: route_loop.simps)
  qed
qed blast

section \<open>Properties\<close>

text \<open>
  C29: the router serves a request from the first allowed candidate that answers, after every allowed one
  before it has declined, and accounts for each of them: one failed attempt and one event per candidate
  that declined, and the successful attempt last.
\<close>
theorem route_answers:
  "(\<exists>evs. route role ps policy rq cands w = (Inr res, evs, w')) \<longleftrightarrow>
    (\<exists>xs c ys ds w1. filter (allowed_by_stack policy) cands = xs @ c # ys \<and> declines ps rq xs w = Some (ds, w1) \<and>
       ad_complete c rq w1 = (Inr (rr_response res), w') \<and>
       route role ps policy rq cands w = (Inr res, events_of role ds, w') \<and>
       rr_provider res = ad_provider c \<and> rr_model_id res = ad_model_id c \<and>
       rr_attempts res = attempts_of ds @ [served_attempt c])"
  by (rule route_answers_iff)

text \<open>
  C30: with candidates that keep the contract of a backend, the router answers as soon as one allowed
  candidate always answers, however often and in whatever way the others fail.
\<close>
theorem route_live:
  assumes "\<forall>c \<in> set cands. backend c" "c \<in> set cands" "allowed_by_stack policy c"
    "\<forall>w. \<exists>r w'. ad_complete c rq w = (Inr r, w')"
  shows "\<exists>res evs w'. route role ps policy rq cands w = (Inr res, evs, w')"
proof -
  let ?cs = "filter (allowed_by_stack policy) cands"
  have never: "decline ps rq c w = None" for w
    using assms(4) [rule_format, of w] by (auto simp: decline_def)
  have c: "c \<in> set ?cs" using assms(2,3) by simp
  have fine: "backend x" if "x \<in> set ?cs" for x using assms(1) that by simp
  have served: "\<exists>res evs w'. route_loop role ps rq ?cs [] [] w = (Inr res, evs, w')"
  proof (rule route_loop_cases [of ?cs ps rq w])
    fix xs c' ys ds w1 r w2
    assume a: "?cs = xs @ c' # ys" "declines ps rq xs w = Some (ds, w1)" "ad_complete c' rq w1 = (Inr r, w2)"
    then show ?thesis by (simp only: a(1) route_loop_declines [OF a(2)]) simp
  next
    fix ds w1
    assume "declines ps rq ?cs w = Some (ds, w1)"
    moreover have "declines ps rq xs w = None" if "c \<in> set xs" for xs w
      using that by (induction xs arbitrary: w) (auto simp: never split: option.splits)
    ultimately show ?thesis using c by simp
  next
    fix xs c' ys ds w1 e w2
    assume a: "?cs = xs @ c' # ys" "ad_complete c' rq w1 = (Inl e, w2)" "\<not> failover e \<or> (\<exists>e' w3. probe_model ps c' w2 = (Inl e', w3))"
    then have "backend c'" using fine [of c'] by simp
    from backend.answers_or_declines [OF this, of rq w1 ps] a(2,3) show ?thesis
      by (auto simp: decline_def split: if_splits)
  qed
  moreover have "?cs \<noteq> []" using c by (metis list.set(1) empty_iff)
  ultimately show ?thesis by (simp only: route_def Let_def if_False)
qed

text \<open>
  With such candidates the router raises only when every allowed candidate has declined, and it has
  announced each of them.
\<close>
lemma route_exhausted:
  assumes "\<forall>c \<in> set cands. backend c" "route role ps policy rq cands w = (Inl e, evs, w')"
  shows "\<exists>ds. declines ps rq (filter (allowed_by_stack policy) cands) w = Some (ds, w') \<and> evs = events_of role ds \<and>
    (\<exists>m. e = NoCandidatesAvailable m)"
proof -
  let ?cs = "filter (allowed_by_stack policy) cands"
  show ?thesis
  proof (cases "?cs = []")
    case True
    with assms(2) show ?thesis by (auto simp: route_def events_of_def)
  next
    case False
    with assms(2) have run: "route_loop role ps rq ?cs [] [] w = (Inl e, evs, w')" by (simp add: route_def)
    show ?thesis
    proof (rule route_loop_cases [of ?cs ps rq w])
      fix xs c ys ds w1 r w2
      assume a: "?cs = xs @ c # ys" "declines ps rq xs w = Some (ds, w1)" "ad_complete c rq w1 = (Inr r, w2)"
      with run show ?thesis by (simp add: a(1) route_loop_declines [OF a(2)])
    next
      fix ds w1
      assume d: "declines ps rq ?cs w = Some (ds, w1)"
      from run route_loop_declines [OF d, of role "[]" "[]" "[]"] d show ?thesis by (auto simp: all_failed_def)
    next
      fix xs c ys ds w1 e' w2
      assume a: "?cs = xs @ c # ys" "ad_complete c rq w1 = (Inl e', w2)" "\<not> failover e' \<or> (\<exists>e'' w3. probe_model ps c w2 = (Inl e'', w3))"
      have "c \<in> set ?cs" by (simp only: a(1)) simp
      with assms(1) have "backend c" by simp
      from backend.answers_or_declines [OF this, of rq w1 ps] a(2,3) show ?thesis
        by (auto simp: decline_def split: if_splits)
    qed
  qed
qed

section \<open>A backend that breaks the contract\<close>

text \<open>An exchange that fails with a status 503 once and replies with a text that is not JSON afterwards.\<close>

definition flaky :: "bool http" where
  "flaky call first = (if first then HttpError 503 [] else Replied ''<html>'', False)"

definition sample_openai :: openai where
  "sample_openai = \<lparr>oa_provider = ''p'', oa_model_id = ''m'', oa_family = ''f'', oa_base_url = ''http://h/v1/'',
     oa_api_key = None, oa_roles = [], oa_context_window = 1, oa_capabilities = [], oa_pricing_tier = ''paid'',
     oa_timeout_s = ''30.0''\<rparr>"

definition sample_settings :: probe_settings where
  "sample_settings = \<lparr>ps_terms = ''unknown'', ps_pricing = ''unknown'', ps_now = \<lparr>in_iso = ''2026-01-01T00:00:00+00:00'',
     in_micros = 0\<rparr>, ps_latency = PFloat ''0.1'' (Some 0)\<rparr>"

definition sample_request :: request where
  "sample_request = \<lparr>rq_messages = [\<lparr>ms_role = ''user'', ms_content = ''a b''\<rparr>], rq_role = None, rq_max_tokens = None,
     rq_temperature = None, rq_schema = None\<rparr>"

text \<open>
  A failure that the router means to skip can still end it: when the call of a candidate fails
  recoverably and its probe is answered with a text that is not JSON, the exception of the probe leaves the
  router, although the next candidate would have answered and nothing has been announced.
\<close>
lemma reprobe_raises:
  "route ''worker'' sample_settings None sample_request
     [openai_adapter flaky (\<lambda>_. None) sample_openai, finder_adapter (static_finder [''a''])] True =
     (Inl (JSONDecodeError ''Expecting value''), [], False) \<and>
   (\<exists>res evs w'. route ''worker'' sample_settings None sample_request [finder_adapter (static_finder [''a''])] False =
     (Inr res, evs, w'))"
  by (simp add: route_def allowed_by_stack_def openai_adapter_def openai_complete_def openai_post_def post_result_def
      flaky_def probe_model_def openai_probe_def finder_adapter_def Let_def) auto

section \<open>Witnesses\<close>

text \<open>A fake backend that always times out, and the finder; the world counts the calls of the former.\<close>

definition slow_fake :: "fake_state adapter" where
  "slow_fake = fake_adapter id (\<lambda>st _. st) (FAKE_DEFAULT\<lparr>fk_fail_mode := Some ''timeout''\<rparr>)"

definition sample_finder :: "fake_state adapter" where
  "sample_finder = finder_adapter (static_finder [''a''])"

lemma sample_backends: "\<forall>c \<in> set [slow_fake, sample_finder]. backend c"
  by (simp add: slow_fake_def sample_finder_def fake_default.backend_axioms finder.backend_axioms)

definition fresh :: fake_state where
  "fresh = \<lparr>fs_calls = 0, fs_served = 0\<rparr>"

lemma route_live_witness:
  "\<exists>res evs w'. route ''worker'' sample_settings None sample_request [slow_fake, sample_finder] fresh = (Inr res, evs, w')"
  by (rule route_live [OF sample_backends, of sample_finder])
    (simp_all add: allowed_by_stack_def sample_finder_def finder_adapter_def)

lemma route_exhausted_witness:
  "\<exists>e evs w' ds. route ''worker'' sample_settings None sample_request [slow_fake] fresh = (Inl e, evs, w') \<and>
     declines sample_settings sample_request [slow_fake] fresh = Some (ds, w') \<and> evs = events_of ''worker'' ds \<and> length ds = 1"
proof -
  have b: "\<forall>c \<in> set [slow_fake]. backend c" using sample_backends by simp
  have "\<exists>e evs w'. route ''worker'' sample_settings None sample_request [slow_fake] fresh = (Inl e, evs, w')"
    by (simp add: route_def allowed_by_stack_def slow_fake_def fake_adapter_def fake_complete_def fake_probe_def
        probe_model_def FAKE_DEFAULT_def all_failed_def Let_def)
  then obtain e evs w' where run: "route ''worker'' sample_settings None sample_request [slow_fake] fresh = (Inl e, evs, w')"
    by blast
  from route_exhausted [OF b run] obtain ds where ds: "declines sample_settings sample_request [slow_fake] fresh = Some (ds, w')"
    "evs = events_of ''worker'' ds"
    by (auto simp: allowed_by_stack_def)
  from ds(1) have "length ds = 1" by (auto split: option.splits)
  with run ds show ?thesis by blast
qed

end
