(* ===== verification/ModelGates.thy ===== *)
theory ModelGates
  imports Router Tokens "HOL-Library.Multiset"
begin

text \<open>
  The gates in front of the router and the lock file of the models: \<open>core/policy.py\<close>, the authorization
  context of \<open>models/types.py\<close>, \<open>models/gates/\<close> and \<open>models/lockfile.py\<close>. YAML documents are the values that
  the parser gives; pydantic's reading of a profile and its text of an instant are arguments.
\<close>

section \<open>The cheatcode policy of the core\<close>

definition policy_category :: "pdict \<Rightarrow> string \<Rightarrow> string res" where
  "policy_category categories cheatcode = (case dget_or categories cheatcode PNone of
     PNone \<Rightarrow> Inl (PolicyViolation (''unclassified cheatcode is forbidden: '' @ cheatcode))
   | v \<Rightarrow> Inr (py_str v))"

definition policy_allowed :: "pdict \<Rightarrow> pdict \<Rightarrow> string \<Rightarrow> string \<Rightarrow> string \<Rightarrow> bool res" where
  "policy_allowed categories rules cheatcode witness_class phase =
     ebind (policy_category categories cheatcode) (\<lambda>category.
     ebind (need_dict (dget_or rules witness_class (PDict []))) (\<lambda>witness_rules.
     ebind (need_dict (dget_or witness_rules phase (dget_or witness_rules ''default'' (PDict [])))) (\<lambda>phase_rules.
     ebind (py_set (dget_or phase_rules ''allow_categories'' (PList []))) (\<lambda>allowed.
       Inr (PStr category \<in> set allowed)))))"

definition policy_check :: "pdict \<Rightarrow> pdict \<Rightarrow> string \<Rightarrow> string \<Rightarrow> string \<Rightarrow> unit res" where
  "policy_check categories rules cheatcode witness_class phase =
     ebind (policy_allowed categories rules cheatcode witness_class phase) (\<lambda>ok.
       if ok then Inr ()
       else Inl (PolicyViolation (''cheatcode denied: '' @ cheatcode @ '' ('' @ witness_class @ ''/'' @ phase @ '')'')))"

section \<open>The authorization context\<close>

record auth_context =
  ax_audit_id :: string
  ax_scope_version :: int
  ax_scope_sha256 :: string
  ax_target_commit :: string
  ax_platform :: string
  ax_program_ref :: string
  ax_confidentiality :: string
  ax_witness_class :: witness_class
  ax_execution_boundary :: string
  ax_allowed_artifact_roots :: "string list"
  ax_task_purpose :: string
  ax_disclosure_destination :: string
  ax_prohibited_actions :: "string list"

definition is_sha256 :: "string \<Rightarrow> bool" where
  "is_sha256 s = (length s = 64 \<and> list_all (\<lambda>c. is_digit c \<or> c \<in> set ''abcdef'') s)"

text \<open>The constraints of the fields.\<close>

definition context_fields_ok :: "auth_context \<Rightarrow> bool" where
  "context_fields_ok a =
     (ax_audit_id a \<noteq> [] \<and> 1 \<le> ax_scope_version a \<and> is_sha256 (ax_scope_sha256 a) \<and> ax_target_commit a \<noteq> [] \<and>
      ax_platform a \<noteq> [] \<and> ax_program_ref a \<noteq> [] \<and> ax_confidentiality a \<in> {''public'', ''private''} \<and>
      ax_execution_boundary a \<in> {''local'', ''pinned_fork''} \<and> ax_allowed_artifact_roots a \<noteq> [] \<and>
      ax_task_purpose a \<noteq> [] \<and> ax_disclosure_destination a \<noteq> [] \<and> ax_prohibited_actions a \<noteq> [])"

definition validate_context :: "auth_context \<Rightarrow> auth_context res" where
  "validate_context a =
     (if \<not> context_fields_ok a then Inl (ValueError ''validation error'')
      else if list_ex (\<lambda>v. strip v = []) (ax_allowed_artifact_roots a) then
        Inl (ValueError ''allowed_artifact_roots must contain non-empty paths'')
      else if list_ex (\<lambda>v. strip v = []) (ax_prohibited_actions a) then
        Inl (ValueError ''prohibited_actions must contain non-empty actions'')
      else if ax_witness_class a = Local_deployment \<and> ax_execution_boundary a \<noteq> ''local'' then
        Inl (ValueError ''local_deployment requires execution_boundary=local'')
      else if ax_witness_class a = Deployed_fork \<and> ax_execution_boundary a \<noteq> ''pinned_fork'' then
        Inl (ValueError ''deployed_fork requires execution_boundary=pinned_fork'')
      else Inr a)"

definition context_dump :: "auth_context \<Rightarrow> pdict" where
  "context_dump a =
     [(''audit_id'', PStr (ax_audit_id a)), (''scope_version'', PInt (ax_scope_version a)),
      (''scope_sha256'', PStr (ax_scope_sha256 a)), (''target_commit'', PStr (ax_target_commit a)),
      (''platform'', PStr (ax_platform a)), (''program_ref'', PStr (ax_program_ref a)),
      (''confidentiality'', PStr (ax_confidentiality a)),
      (''witness_class'', PStr (witness_class_value (ax_witness_class a))),
      (''execution_boundary'', PStr (ax_execution_boundary a)),
      (''allowed_artifact_roots'', PList (map PStr (ax_allowed_artifact_roots a))),
      (''task_purpose'', PStr (ax_task_purpose a)), (''disclosure_destination'', PStr (ax_disclosure_destination a)),
      (''prohibited_actions'', PList (map PStr (ax_prohibited_actions a)))]"

definition context_hash :: "host \<Rightarrow> auth_context \<Rightarrow> string" where
  "context_hash H a = hs_sha256 H (canonical (PDict (context_dump a)))"

section \<open>The authorization gate\<close>

definition check_authorization :: "auth_context option \<Rightarrow> stack_policy \<Rightarrow> model_profile option \<Rightarrow> unit res" where
  "check_authorization ctx sp candidate = (case ctx of
     None \<Rightarrow> Inl (AuthorizationContextMissing ''routing refused: missing authorization context'')
   | Some a \<Rightarrow>
       if ax_confidentiality a = ''private'' \<and> sk_kind sp = ''dev'' then
         Inl (StackSelectionDenied (''routing refused: private audit cannot select dev stack '' @ str_repr (sk_stack sp)))
       else (case candidate of
         None \<Rightarrow> Inr ()
       | Some p \<Rightarrow>
           if sk_kind sp = ''prod'' \<and> mp_pricing_tier p \<in> {''free'', ''shadow''} then
             Inl (StackSelectionDenied (''routing refused: prod stack '' @ str_repr (sk_stack sp) @ '' cannot select '' @
               mp_pricing_tier p @ ''-priced model '' @ label (mp_provider p) (mp_model_id p)))
           else if mp_pricing_tier p \<notin> set (sk_tiers sp) then
             Inl (StackSelectionDenied (''routing refused: model '' @ label (mp_provider p) (mp_model_id p) @
               '' has pricing tier '' @ str_repr (mp_pricing_tier p) @ '', not allowed by stack '' @ str_repr (sk_stack sp)))
           else Inr ()))"

text \<open>\<open>except PolicyViolation\<close>, with the subclasses.\<close>

fun is_policy_violation :: "exc \<Rightarrow> bool" where
  "is_policy_violation (PolicyViolation m) = True"
| "is_policy_violation (AuthorizationContextMissing m) = True"
| "is_policy_violation (StackSelectionDenied m) = True"
| "is_policy_violation _ = False"

definition refused_or :: "unit res \<Rightarrow> bool res" where
  "refused_or r = (case r of Inr _ \<Rightarrow> Inr True | Inl e \<Rightarrow> if is_policy_violation e then Inr False else Inl e)"

definition authorization_allowed :: "auth_context option \<Rightarrow> stack_policy \<Rightarrow> model_profile option \<Rightarrow> bool res" where
  "authorization_allowed ctx sp candidate = refused_or (check_authorization ctx sp candidate)"

section \<open>Terms and pricing\<close>

text \<open>The two sections of the policy file; an empty section counts as an empty mapping.\<close>

definition section_of :: "pdict \<Rightarrow> string \<Rightarrow> pdict res" where
  "section_of d k = (let v = dget_or d k (PDict []) in if truthy v then need_dict v else Inr [])"

definition threshold :: "pdict \<Rightarrow> pdict \<Rightarrow> string \<Rightarrow> int res" where
  "threshold override dflt k = py_int (dget_or override k (dget_or dflt k (PInt 30)))"

definition thresholds :: "pdict \<Rightarrow> string \<Rightarrow> (int \<times> int) res" where
  "thresholds policy provider =
     ebind (section_of policy ''default'') (\<lambda>dflt.
     ebind (section_of policy ''providers'') (\<lambda>providers.
     ebind (section_of providers provider) (\<lambda>override.
     ebind (threshold override dflt ''max_terms_age_days'') (\<lambda>terms.
     ebind (threshold override dflt ''max_pricing_age_days'') (\<lambda>pricing.
       Inr (terms, pricing))))))"

definition DAY :: int where
  "DAY = 86400 * 1000000"

text \<open>\<open>(now - then).days\<close> rounds down.\<close>

definition age_days :: "instant \<Rightarrow> instant \<Rightarrow> int" where
  "age_days now observed = (in_micros now - in_micros observed) div DAY"

definition stale :: "model_profile \<Rightarrow> string \<Rightarrow> instant \<Rightarrow> int \<Rightarrow> int \<Rightarrow> exc" where
  "stale p what observed age mx = PolicyViolation (label (mp_provider p) (mp_model_id p) @
     '': routing refused, stale '' @ what @ '' (observed '' @ in_iso observed @ '', '' @ int_str age @ ''d old, max '' @
     int_str mx @ ''d)'')"

definition check_terms :: "pdict \<Rightarrow> model_profile \<Rightarrow> pdict option \<Rightarrow> instant \<Rightarrow> unit res" where
  "check_terms policy p ctx now =
     (if ctx = None \<or> ctx = Some [] then
        Inl (PolicyViolation (label (mp_provider p) (mp_model_id p) @ '': routing refused, missing authorization context''))
      else ebind (thresholds policy (mp_provider p)) (\<lambda>(max_terms, max_pricing).
        let terms = age_days now (mp_terms_observed_at p); pricing = age_days now (mp_pricing_observed_at p) in
        if max_terms < terms then Inl (stale p ''terms'' (mp_terms_observed_at p) terms max_terms)
        else if max_pricing < pricing then Inl (stale p ''pricing'' (mp_pricing_observed_at p) pricing max_pricing)
        else Inr ()))"

definition terms_allowed :: "pdict \<Rightarrow> model_profile \<Rightarrow> pdict option \<Rightarrow> instant \<Rightarrow> bool res" where
  "terms_allowed policy p ctx now = refused_or (check_terms policy p ctx now)"

section \<open>The lock file\<close>

definition model_key :: "model_profile \<Rightarrow> string" where
  "model_key p = label (mp_provider p) (mp_model_id p)"

definition profiles_from_probe_results :: "probe_result list \<Rightarrow> model_profile list" where
  "profiles_from_probe_results rs = concat (map (\<lambda>r. case pr_profile r of None \<Rightarrow> [] | Some p \<Rightarrow> [p]) rs)"

definition caps_dump :: "(string \<times> bool) list \<Rightarrow> pv" where
  "caps_dump cs = PDict (map (\<lambda>(k, b). (k, PBool b)) cs)"

text \<open>\<open>p.model_dump(mode="json")\<close>, given the text of an instant.\<close>

definition profile_dump :: "(instant \<Rightarrow> string) \<Rightarrow> model_profile \<Rightarrow> pdict" where
  "profile_dump dt p =
     [(''provider'', PStr (mp_provider p)), (''model_id'', PStr (mp_model_id p)), (''family'', PStr (mp_family p)),
      (''roles'', PList (map PStr (mp_roles p))), (''context_window'', PInt (mp_context_window p)),
      (''capabilities'', caps_dump (mp_capabilities p)), (''pricing_tier'', PStr (mp_pricing_tier p)),
      (''terms_version'', PStr (mp_terms_version p)), (''terms_observed_at'', PStr (dt (mp_terms_observed_at p))),
      (''pricing_version'', PStr (mp_pricing_version p)), (''pricing_observed_at'', PStr (dt (mp_pricing_observed_at p))),
      (''deprecated'', PBool (mp_deprecated p))]"

definition build_lock :: "(instant \<Rightarrow> string) \<Rightarrow> model_profile list \<Rightarrow> instant \<Rightarrow> pdict res" where
  "build_lock dt profiles generated_at =
     (let ordered = sort_key model_key profiles; keys = map model_key ordered;
          duplicates = sort (remdups (filter (\<lambda>k. 1 < count_list keys k) keys)) in
      if duplicates \<noteq> [] then Inl (ValueError (''duplicate provider/model_id in profiles: '' @ join '', '' duplicates))
      else Inr [(''version'', PInt 1), (''status'', PStr ''verified''),
        (''generated_at'', PStr (replace_all (in_iso generated_at) ''+00:00'' ''Z'')),
        (''models'', PDict (map (\<lambda>p. (model_key p, PDict (profile_dump dt p))) ordered))])"

text \<open>\<open>read_lock\<close> of a file's text, if the file exists.\<close>

definition read_lock :: "(string \<Rightarrow> pv option) \<Rightarrow> string option \<Rightarrow> pv res" where
  "read_lock yload file = (case file of
     None \<Rightarrow> Inr (PDict [])
   | Some text \<Rightarrow> (case yload text of
       None \<Rightarrow> Inl (YAMLError ''cannot parse'') | Some v \<Rightarrow> Inr (if truthy v then v else PDict [])))"

definition load_profiles :: "(pv \<Rightarrow> model_profile res) \<Rightarrow> (string \<Rightarrow> pv option) \<Rightarrow> string option \<Rightarrow>
    (string \<times> model_profile) list res" where
  "load_profiles validate yload file =
     ebind (read_lock yload file) (\<lambda>lock.
     ebind (need_dict lock) (\<lambda>d. let models = dget_or d ''models'' PNone in
     ebind (if truthy models then need_dict models else Inr []) (\<lambda>ms.
       emap (\<lambda>kv. ebind (validate (snd kv)) (\<lambda>p. Inr (fst kv, p))) ms)))"

definition drift_fields :: "model_profile \<Rightarrow> pdict" where
  "drift_fields p =
     [(''family'', PStr (mp_family p)), (''roles'', PList (map PStr (mp_roles p))),
      (''context_window'', PInt (mp_context_window p)), (''capabilities'', caps_dump (mp_capabilities p)),
      (''pricing_tier'', PStr (mp_pricing_tier p)), (''terms_version'', PStr (mp_terms_version p)),
      (''pricing_version'', PStr (mp_pricing_version p)), (''deprecated'', PBool (mp_deprecated p))]"

definition field_drift :: "string \<Rightarrow> model_profile \<Rightarrow> model_profile \<Rightarrow> string list" where
  "field_drift key old new =
     map (\<lambda>((f, a), (_, b)). key @ '': '' @ f @ '' changed ('' @ py_repr a @ '' -> '' @ py_repr b @ '')'')
       (filter (\<lambda>((f, a), (_, b)). \<not> py_eq a b) (zip (drift_fields old) (drift_fields new)))"

definition drift :: "(string \<times> model_profile) list \<Rightarrow> model_profile list \<Rightarrow> string list" where
  "drift locked current_profiles =
     (let current = map_of (rev (map (\<lambda>p. (model_key p, p)) current_profiles));
          lkeys = map fst locked; ckeys = map model_key current_profiles;
          sorted_keys = (\<lambda>P ks. sort (remdups (filter P ks))) in
      map (\<lambda>k. k @ '': present in lock but not in current probe results'') (sorted_keys (\<lambda>k. k \<notin> set ckeys) lkeys) @
      map (\<lambda>k. k @ '': present in current probe results but not locked'') (sorted_keys (\<lambda>k. k \<notin> set lkeys) ckeys) @
      concat (map (\<lambda>k. field_drift k (the (map_of locked k)) (the (current k)))
        (sorted_keys (\<lambda>k. k \<in> set ckeys) lkeys)))"

definition check_lockfile_drift :: "(pv \<Rightarrow> model_profile res) \<Rightarrow> (string \<Rightarrow> pv option) \<Rightarrow> string option \<Rightarrow>
    model_profile list \<Rightarrow> string list res" where
  "check_lockfile_drift validate yload file current =
     ebind (load_profiles validate yload file) (\<lambda>locked. Inr (drift locked current))"

section \<open>The gates together\<close>

text \<open>
  C31: a private audit that the authorization gate lets through on a valid stack is served by paid models
  only: the stack is a production stack, and whatever candidate the router then answers from is paid.
\<close>
theorem private_audit_paid_only:
  assumes "check_authorization (Some a) sp candidate = Inr ()" "ax_confidentiality a = ''private''"
    "validate_stack sp = Inr sp" "route role ps (Some sp) rq cands w = (Inr res, evs, w')"
  shows "sk_kind sp = ''prod'' \<and> (\<forall>p. candidate = Some p \<longrightarrow> mp_pricing_tier p = ''paid'') \<and>
    (\<exists>c \<in> set cands. ad_pricing_tier c = Some ''paid'' \<and> rr_provider res = ad_provider c \<and> rr_model_id res = ad_model_id c)"
proof -
  from assms(1-3) have prod: "sk_kind sp = ''prod''"
    by (auto simp: check_authorization_def validate_stack_def split: if_splits)
  with assms(3) have tiers: "set (sk_tiers sp) \<subseteq> {''paid''}"
    by (auto simp: validate_stack_def PRICING_TIERS_def split: if_splits)
  from assms(1) tiers have "\<forall>p. candidate = Some p \<longrightarrow> mp_pricing_tier p = ''paid''"
    by (auto simp: check_authorization_def split: if_splits)
  moreover from assms(4) route_answers_iff [of role ps "Some sp" rq cands w res w'] obtain xs c ys where
    "filter (allowed_by_stack (Some sp)) cands = xs @ c # ys" "rr_provider res = ad_provider c" "rr_model_id res = ad_model_id c"
    by blast
  moreover from this(1) have "c \<in> set (filter (allowed_by_stack (Some sp)) cands)" by simp
  then have "c \<in> set cands" "ad_pricing_tier c = Some ''paid''"
    using tiers by (auto simp: allowed_by_stack_def split: option.splits)
  ultimately show ?thesis using prod by blast
qed

text \<open>
  Terms and prices that clear the gate were observed less than a day more than the threshold ago.
\<close>
lemma terms_fresh:
  assumes "check_terms policy p ctx now = Inr ()" "thresholds policy (mp_provider p) = Inr (mt, mp)"
  shows "in_micros now - in_micros (mp_terms_observed_at p) < (mt + 1) * DAY \<and>
    in_micros now - in_micros (mp_pricing_observed_at p) < (mp + 1) * DAY"
proof -
  have bound: "d < (m + 1) * DAY" if "d div DAY \<le> m" for d m :: int
  proof -
    from that have "d div DAY < m + 1" by simp
    then show ?thesis by (simp add: div_less_iff_less_mult DAY_def)
  qed
  from assms show ?thesis
    by (auto simp: check_terms_def age_days_def Let_def intro!: bound split: if_splits)
qed

section \<open>Drift\<close>

definition same_config :: "model_profile \<Rightarrow> model_profile \<Rightarrow> bool" where
  "same_config p q = list_all2 (\<lambda>(_, a) (_, b). py_eq a b) (drift_fields p) (drift_fields q)"

lemma field_drift_Nil: "field_drift k p q = [] \<longleftrightarrow> same_config p q"
  by (auto simp: field_drift_def same_config_def drift_fields_def)

lemma same_config_refl [simp]: "same_config p p"
  by (simp add: same_config_def drift_fields_def)

lemma sort_remdups_filter_Nil: "sort (remdups (filter P xs)) = [] \<longleftrightarrow> (\<forall>x \<in> set xs. \<not> P x)"
  by (metis filter_False filter_empty_conv remdups_eq_nil_iff set_empty set_sort)

lemma map_of_keyed: "distinct (map f ps) \<Longrightarrow> map_of (rev (map (\<lambda>p. (f p, p)) ps)) k = Some p \<longleftrightarrow> p \<in> set ps \<and> f p = k"
  by (auto simp: comp_def rev_map [symmetric] map_of_eq_Some_iff)

lemma drift_Nil:
  assumes "distinct (map fst locked)" "distinct (map model_key current)"
  shows "drift locked current = [] \<longleftrightarrow> fst ` set locked = model_key ` set current \<and>
    (\<forall>(k, old) \<in> set locked. \<forall>new \<in> set current. model_key new = k \<longrightarrow> same_config old new)"
proof -
  let ?cur = "map_of (rev (map (\<lambda>p. (model_key p, p)) current))"
  have "(\<forall>k \<in> fst ` set locked. k \<in> model_key ` set current \<longrightarrow> same_config (the (map_of locked k)) (the (?cur k))) \<longleftrightarrow>
      (\<forall>(k, old) \<in> set locked. \<forall>new \<in> set current. model_key new = k \<longrightarrow> same_config old new)"
  proof -
    have old: "map_of locked k = Some old" if "(k, old) \<in> set locked" for k old
      using assms(1) that by simp
    have new: "?cur (model_key p) = Some p" if "p \<in> set current" for p
      using map_of_keyed [OF assms(2)] that by blast
    show ?thesis (is "?a \<longleftrightarrow> ?b")
    proof
      assume ?a
      then show ?b using old new by force
    next
      assume b: ?b
      show ?a
      proof (intro ballI impI)
        fix k
        assume "k \<in> fst ` set locked" "k \<in> model_key ` set current"
        then obtain o' p where "(k, o') \<in> set locked" "p \<in> set current" "k = model_key p" by auto
        with b old [of k o'] new [of p] show "same_config (the (map_of locked k)) (the (?cur k))" by auto
      qed
    qed
  qed
  then show ?thesis
    by (auto simp: drift_def Let_def sort_remdups_filter_Nil field_drift_Nil)
qed

text \<open>
  The drift check is silent exactly when the lock and the probes name the same models and each of them
  has, apart from the times of the observations, the locked configuration.
\<close>
lemma drift_silent_iff:
  assumes "load_profiles validate yload file = Inr locked" "distinct (map fst locked)" "distinct (map model_key current)"
  shows "check_lockfile_drift validate yload file current = Inr [] \<longleftrightarrow> fst ` set locked = model_key ` set current \<and>
    (\<forall>(k, old) \<in> set locked. \<forall>new \<in> set current. model_key new = k \<longrightarrow> same_config old new)"
  by (simp add: check_lockfile_drift_def assms(1) drift_Nil [OF assms(2,3)])

section \<open>The lock is reproducible\<close>

lemma sort_key_keys:
  assumes "mset xs = mset ys"
  shows "map f (sort_key f xs) = map f (sort_key f ys)"
proof -
  have "mset (map f (sort_key f xs)) = mset (map f (sort_key f ys))" using assms by simp
  then have "sort (map f (sort_key f xs)) = sort (map f (sort_key f ys))"
    by (intro properties_for_sort [symmetric]) simp_all
  then show ?thesis by (simp add: sorted_sort_id)
qed

lemma sort_key_unique:
  assumes "mset xs = mset ys" "distinct (map f xs)"
  shows "sort_key f xs = sort_key f ys"
proof (rule map_inj_on [OF sort_key_keys [OF assms(1)]])
  have "set ys = set xs" using assms(1) by (metis set_mset_mset)
  then show "inj_on f (set (sort_key f xs) \<union> set (sort_key f ys))"
    using assms(2) by (simp add: distinct_map)
qed

lemma no_duplicates: "sort (remdups (filter (\<lambda>k. 1 < count_list ks k) ks)) = [] \<longleftrightarrow> distinct ks"
proof -
  have "distinct ks \<longleftrightarrow> (\<forall>k \<in> set ks. count_list ks k \<le> 1)"
  proof (induction ks)
    case (Cons k ks)
    have "count_list ks k = 0 \<longleftrightarrow> k \<notin> set ks" by (rule count_list_0_iff)
    with Cons show ?case by auto
  qed simp
  then show ?thesis by (auto simp: sort_remdups_filter_Nil not_less)
qed

text \<open>
  The lock does not depend on the order in which the models were probed, duplicates included.
\<close>
lemma lock_reproducible:
  assumes "mset ps = mset qs"
  shows "build_lock dt ps t = build_lock dt qs t"
proof (cases "distinct (map model_key ps)")
  case True
  from sort_key_unique [OF assms True] show ?thesis by (simp add: build_lock_def)
next
  case False
  then have "\<not> distinct (map model_key (sort_key model_key ps))"
    by (metis distinct_map distinct_sort set_sort)
  then have "sort (remdups (filter (\<lambda>k. 1 < count_list (map model_key (sort_key model_key ps)) k)
      (map model_key (sort_key model_key ps)))) \<noteq> []"
    by (subst no_duplicates)
  then show ?thesis by (simp add: build_lock_def Let_def sort_key_keys [OF assms] del: sort_key_simps)
qed

text \<open>
  C32: a lock that has been written and is read back shows no drift against the profiles it was built from,
  for a YAML writer and reader that are inverse on it and a validation that accepts what it has dumped.
\<close>
theorem lock_roundtrip:
  assumes "build_lock dt ps t = Inr lock" "yload text = Some (PDict lock)"
    "\<forall>p \<in> set ps. validate (PDict (profile_dump dt p)) = Inr p"
  shows "check_lockfile_drift validate yload (Some text) ps = Inr []"
proof -
  let ?ks = "map model_key (sort_key model_key ps)"
  from assms(1) have "distinct ?ks" and lock: "lock = [(''version'', PInt 1), (''status'', PStr ''verified''),
        (''generated_at'', PStr (replace_all (in_iso t) ''+00:00'' ''Z'')),
        (''models'', PDict (map (\<lambda>p. (model_key p, PDict (profile_dump dt p))) (sort_key model_key ps)))]"
    unfolding build_lock_def Let_def by (auto simp only: no_duplicates split: if_splits)
  then have distinct: "distinct (map model_key ps)" by (metis distinct_map distinct_sort set_sort)
  have emap: "emap (\<lambda>kv. ebind (validate (snd kv)) (\<lambda>p. Inr (fst kv, p)))
      (map (\<lambda>p. (model_key p, PDict (profile_dump dt p))) qs) = Inr (map (\<lambda>p. (model_key p, p)) qs)"
    if "set qs \<subseteq> set ps" for qs
    using that assms(3) by (induction qs) auto
  have "load_profiles validate yload (Some text) = Inr (map (\<lambda>p. (model_key p, p)) (sort_key model_key ps))"
  proof (cases "ps = []")
    case True
    then show ?thesis by (simp add: load_profiles_def read_lock_def assms(2) lock)
  next
    case False
    then have "sort_key model_key ps \<noteq> []" by (metis set_empty set_sort)
    then show ?thesis by (simp add: load_profiles_def read_lock_def assms(2) lock emap)
  qed
  moreover have "drift (map (\<lambda>p. (model_key p, p)) (sort_key model_key ps)) ps = []"
  proof (subst drift_Nil)
    have "old = new" if "old \<in> set ps" "new \<in> set ps" "model_key new = model_key old" for old new
      using distinct that by (metis distinct_map inj_onD)
    then show "fst ` set (map (\<lambda>p. (model_key p, p)) (sort_key model_key ps)) = model_key ` set ps \<and>
        (\<forall>(k, old) \<in> set (map (\<lambda>p. (model_key p, p)) (sort_key model_key ps)). \<forall>new \<in> set ps. model_key new = k \<longrightarrow> same_config old new)"
      by (force simp: image_image)
  qed (use \<open>distinct ?ks\<close> distinct in \<open>simp_all add: comp_def\<close>)
  ultimately show ?thesis by (simp add: check_lockfile_drift_def)
qed

section \<open>Witnesses\<close>

definition sample_now :: instant where
  "sample_now = \<lparr>in_iso = ''2026-02-01T00:00:00+00:00'', in_micros = 31 * DAY\<rparr>"

definition sample_profile :: "string \<Rightarrow> model_profile" where
  "sample_profile i = \<lparr>mp_provider = ''p'', mp_model_id = i, mp_family = ''f'', mp_roles = [''worker''],
     mp_context_window = 8, mp_capabilities = [(''structured_output'', True)], mp_pricing_tier = ''paid'',
     mp_terms_version = ''1'', mp_terms_observed_at = \<lparr>in_iso = ''2026-01-02T00:00:00+00:00'', in_micros = DAY\<rparr>,
     mp_pricing_version = ''1'', mp_pricing_observed_at = \<lparr>in_iso = ''2026-01-02T00:00:00+00:00'', in_micros = DAY\<rparr>,
     mp_deprecated = False\<rparr>"

definition sample_stack :: stack_policy where
  "sample_stack = \<lparr>sk_stack = ''prod'', sk_kind = ''prod'', sk_decisions = True, sk_tiers = [''paid'']\<rparr>"

definition sample_context :: auth_context where
  "sample_context = \<lparr>ax_audit_id = ''a'', ax_scope_version = 1, ax_scope_sha256 = replicate 64 (CHR ''0''),
     ax_target_commit = ''c'', ax_platform = ''p'', ax_program_ref = ''r'', ax_confidentiality = ''private'',
     ax_witness_class = Local_deployment, ax_execution_boundary = ''local'', ax_allowed_artifact_roots = [''/a''],
     ax_task_purpose = ''t'', ax_disclosure_destination = ''d'', ax_prohibited_actions = [''x'']\<rparr>"

definition paid_finder :: "unit adapter" where
  "paid_finder = finder_adapter (static_finder []\<lparr>fi_pricing_tier := ''paid''\<rparr>)"

definition free_finder :: "unit adapter" where
  "free_finder = finder_adapter (static_finder [])"

lemma private_audit_paid_only_witness:
  "\<exists>res evs c. route ''worker'' sample_settings (Some sample_stack) sample_request [free_finder, paid_finder] () = (Inr res, evs, ()) \<and>
     c \<in> set [free_finder, paid_finder] \<and> ad_pricing_tier c = Some ''paid'' \<and> rr_provider res = ad_provider c"
proof -
  have gate: "check_authorization (Some sample_context) sample_stack (Some (sample_profile ''m'')) = Inr ()" by code_simp
  have conf: "ax_confidentiality sample_context = ''private''" by code_simp
  have valid: "validate_stack sample_stack = Inr sample_stack" by (simp add: validate_stack_def sample_stack_def PRICING_TIERS_def)
  have "\<exists>res evs. route ''worker'' sample_settings (Some sample_stack) sample_request [free_finder, paid_finder] () = (Inr res, evs, ())"
    by (simp add: route_def allowed_by_stack_def sample_stack_def free_finder_def paid_finder_def finder_adapter_def static_finder_def)
  then obtain res evs where run: "route ''worker'' sample_settings (Some sample_stack) sample_request [free_finder, paid_finder] () = (Inr res, evs, ())"
    by blast
  with private_audit_paid_only [OF gate conf valid run] show ?thesis by blast
qed

lemma terms_fresh_witness:
  "in_micros sample_now - in_micros (mp_terms_observed_at (sample_profile ''m'')) < 31 * DAY \<and>
   in_micros sample_now - in_micros (mp_pricing_observed_at (sample_profile ''m'')) < 31 * DAY"
proof -
  have "check_terms [] (sample_profile ''m'') (Some [(''audit'', PStr ''a'')]) sample_now = Inr ()" by code_simp
  moreover have "thresholds [] (mp_provider (sample_profile ''m'')) = Inr (30, 30)" by code_simp
  ultimately show ?thesis using terms_fresh by fastforce
qed

definition sample_lock :: pdict where
  "sample_lock = (case build_lock in_iso [sample_profile ''n'', sample_profile ''m''] sample_now of Inr d \<Rightarrow> d | Inl _ \<Rightarrow> [])"

text \<open>A reader that knows the two dumped profiles.\<close>

definition sample_validate :: "pv \<Rightarrow> model_profile res" where
  "sample_validate v = (if v = PDict (profile_dump in_iso (sample_profile ''n'')) then Inr (sample_profile ''n'')
     else Inr (sample_profile ''m''))"

lemma sample_lock_built: "build_lock in_iso [sample_profile ''n'', sample_profile ''m''] sample_now = Inr sample_lock"
proof -
  have "(case build_lock in_iso [sample_profile ''n'', sample_profile ''m''] sample_now of Inr _ \<Rightarrow> True | Inl _ \<Rightarrow> False)"
    by code_simp
  then show ?thesis by (simp add: sample_lock_def split: sum.splits)
qed

lemma lock_roundtrip_witness:
  "check_lockfile_drift sample_validate (\<lambda>_. Some (PDict sample_lock)) (Some ''lock'') [sample_profile ''n'', sample_profile ''m''] = Inr []"
  by (rule lock_roundtrip [OF sample_lock_built]) (simp_all add: sample_validate_def profile_dump_def sample_profile_def)

lemma lock_reproducible_witness:
  "build_lock in_iso [sample_profile ''m'', sample_profile ''n''] sample_now = Inr sample_lock"
  using lock_reproducible [of "[sample_profile ''n'', sample_profile ''m'']" "[sample_profile ''m'', sample_profile ''n'']" in_iso sample_now]
  by (simp add: sample_lock_built)

lemma drift_silent_iff_witness:
  "check_lockfile_drift sample_validate (\<lambda>_. Some (PDict [])) (Some ''lock'') [sample_profile ''m''] \<noteq> Inr []"
  using drift_silent_iff [of sample_validate "\<lambda>_. Some (PDict [])" "Some ''lock''" "[]" "[sample_profile ''m'']"]
  by (simp add: load_profiles_def read_lock_def)

end
