(* ===== verification/FoundryConfig.thy ===== *)
theory FoundryConfig
  imports CheatAbi
begin

text \<open>
  The sanitizer of Foundry configurations, \<open>chain/foundry_config.py\<close>: the project's
  \<open>foundry.toml\<close> is read, refused when it holds a key that could weaken the sandbox, and replaced by
  a text that is made of the security policy, the compiler settings and the gate's address only.

  The parsers \<open>tomllib\<close> and \<open>yaml\<close> are the arguments \<open>toml\<close> and \<open>yload\<close> (\<^term>\<open>None\<close> is their
  parse error); a file is its text, \<^term>\<open>None\<close> when there is none (the source) or it cannot be read
  (the policy). The order in which \<open>sorted\<close> lists values that are not all texts, and its
  \<open>TypeError\<close>, are the argument \<open>ranked\<close>.
\<close>

section \<open>Forbidden keys\<close>

definition FORBIDDEN_KEYS :: "string list" where
  "FORBIDDEN_KEYS = [''private_keys'', ''mnemonic'', ''sender'', ''eth_rpc_url'', ''etherscan_api_key'', ''solc'',
     ''auto_detect_solc'', ''libraries'', ''scripts'', ''build_commands'', ''preprocessor'', ''permissions'']"

definition IGNORED_SECURITY_OVERRIDES :: "string list" where
  "IGNORED_SECURITY_OVERRIDES = [''ffi'', ''fs_permissions'', ''rpc_endpoints'']"

definition ALLOWED_PROFILE_KEYS :: "string list" where
  "ALLOWED_PROFILE_KEYS = [''src'', ''test'', ''out'', ''libs'', ''solc_version'', ''evm_version'', ''optimizer'',
     ''optimizer_runs'', ''dynamic_test_linking'', ''always_use_create_2_factory'', ''fuzz'']"

fun no_forbidden :: "pv \<Rightarrow> string \<Rightarrow> unit res"
  and no_forbidden_items :: "pdict \<Rightarrow> string \<Rightarrow> unit res"
  and no_forbidden_elements :: "pv list \<Rightarrow> nat \<Rightarrow> string \<Rightarrow> unit res" where
  "no_forbidden (PDict d) path = no_forbidden_items d path"
| "no_forbidden (PList vs) path = no_forbidden_elements vs 0 path"
| "no_forbidden _ path = Inr ()"
| "no_forbidden_items [] path = Inr ()"
| "no_forbidden_items ((key, child) # d) path =
     (if lower key \<in> set FORBIDDEN_KEYS then
        Inl (ValueError (''forbidden Foundry config key at '' @ path @ ''.'' @ key))
      else if lower key \<in> set IGNORED_SECURITY_OVERRIDES then no_forbidden_items d path
      else ebind (no_forbidden child (path @ ''.'' @ key)) (\<lambda>_. no_forbidden_items d path))"
| "no_forbidden_elements [] i path = Inr ()"
| "no_forbidden_elements (child # vs) i path =
     ebind (no_forbidden child (path @ ''['' @ nat_str i @ '']'')) (\<lambda>_. no_forbidden_elements vs (i + 1) path)"

section \<open>The fuzz seed\<close>

text \<open>
  \<open>int(text, base)\<close> after the sign and the prefix: digits of the base with single underscores between
  them.
\<close>

fun base_digits :: "nat \<Rightarrow> string \<Rightarrow> nat \<Rightarrow> nat option" where
  "base_digits b [] acc = Some acc"
| "base_digits b (c # cs) acc =
     (if c = CHR ''_'' then (case cs of [] \<Rightarrow> None | d # _ \<Rightarrow> if d = CHR ''_'' then None else base_digits b cs acc)
      else case hex_val c of
        None \<Rightarrow> None
      | Some d \<Rightarrow> if d < b then base_digits b cs (b * acc + d) else None)"

definition base_nat :: "nat \<Rightarrow> string \<Rightarrow> nat option" where
  "base_nat b s = (case s of [] \<Rightarrow> None | c # _ \<Rightarrow> if c = CHR ''_'' then None else base_digits b s 0)"

text \<open>After a prefix one underscore is skipped; without one a leading zero is only good for zero.\<close>

definition prefixed_nat :: "nat \<Rightarrow> string \<Rightarrow> nat option" where
  "prefixed_nat b s = (case s of c # cs \<Rightarrow> if c = CHR ''_'' then base_nat b cs else base_nat b s | [] \<Rightarrow> None)"

definition literal_nat :: "string \<Rightarrow> nat option" where
  "literal_nat s =
     (if startswith s ''0x'' \<or> startswith s ''0X'' then prefixed_nat 16 (drop 2 s)
      else if startswith s ''0o'' \<or> startswith s ''0O'' then prefixed_nat 8 (drop 2 s)
      else if startswith s ''0b'' \<or> startswith s ''0B'' then prefixed_nat 2 (drop 2 s)
      else if startswith s ''0'' then (case base_nat 10 s of Some 0 \<Rightarrow> Some 0 | _ \<Rightarrow> None)
      else base_nat 10 s)"

definition int_literal :: "string \<Rightarrow> int option" where
  "int_literal s = (case strip s of
     [] \<Rightarrow> None
   | c # cs \<Rightarrow>
       if c = CHR ''-'' then map_option (\<lambda>n. - int n) (literal_nat cs)
       else if c = CHR ''+'' then map_option int (literal_nat cs)
       else map_option int (literal_nat (c # cs)))"

definition seed_number :: "int \<Rightarrow> string res" where
  "seed_number n =
     (if n < 0 \<or> 2 ^ 256 \<le> n then Inl (ValueError ''fuzz seed must fit in uint256'')
      else Inr (''0x'' @ to_hex (int_be 32 n)))"

definition seed_hex :: "pv \<Rightarrow> string res" where
  "seed_hex v = (case v of
     PStr s \<Rightarrow>
       (let raw = strip s; bad = ValueError ''invalid literal for int()'' in
        if startswith raw ''0x'' \<and> length raw = 66 then
          (case prefixed_nat 16 (drop 2 raw) of None \<Rightarrow> Inl bad | Some _ \<Rightarrow> Inr (lower raw))
        else (case int_literal raw of None \<Rightarrow> Inl bad | Some n \<Rightarrow> seed_number n))
   | _ \<Rightarrow> ebind (py_int v) seed_number)"

section \<open>The security policy\<close>

definition DEFAULT_SECURITY :: pdict where
  "DEFAULT_SECURITY = [(''security'', PDict [
     (''ffi'', PBool False), (''fs_permissions'', PList []), (''libs'', PList []),
     (''rpc_endpoints'', PDict [(''l0vi0x_gate'', PStr ''gate-only'')]),
     (''always_use_create_2_factory'', PBool True),
     (''fuzz'', PDict [(''runs'', PInt 256), (''seed'', PInt 1)])])]"

text \<open>The policy's path with the text of its file, if there is a path.\<close>

definition read_policy :: "(string \<Rightarrow> pv option) \<Rightarrow> (string \<times> string option) option \<Rightarrow> pdict res" where
  "read_policy yload policy = (case policy of
     None \<Rightarrow> Inr DEFAULT_SECURITY
   | Some (path, None) \<Rightarrow> Inl (ValueError (''cannot read Foundry security policy: '' @ path))
   | Some (path, Some text) \<Rightarrow> (case yload text of
       None \<Rightarrow> Inl (YAMLError ''cannot parse'')
     | Some v \<Rightarrow> (case if truthy v then v else PDict [] of
         PDict d \<Rightarrow> Inr d
       | _ \<Rightarrow> Inl (ValueError ''Foundry security policy must be a mapping''))))"

section \<open>The text of a configuration\<close>

definition quote :: "string \<Rightarrow> string" where
  "quote s = [CHR 0x22] @ replace_all (replace_all s [CHR 0x5C] [CHR 0x5C, CHR 0x5C]) [CHR 0x22] [CHR 0x5C, CHR 0x22] @ [CHR 0x22]"

definition bool_text :: "pv \<Rightarrow> string" where
  "bool_text v = (if truthy v then ''true'' else ''false'')"

text \<open>The lines of the optional text settings and of the optional number settings.\<close>

definition text_lines :: "pdict \<Rightarrow> string list" where
  "text_lines p = concat (map (\<lambda>key. case dget p key of
       None \<Rightarrow> []
     | Some v \<Rightarrow> if v = PNone \<or> v = PStr [] then [] else [key @ '' = '' @ quote (py_str v)])
     [''src'', ''test'', ''out'', ''solc_version'', ''evm_version'', ''bytecode_hash''])"

definition number_lines :: "pdict \<Rightarrow> string list res" where
  "number_lines p = map_sum id concat (emap (\<lambda>key. case dget p key of
       None \<Rightarrow> Inr []
     | Some v \<Rightarrow> if v = PNone then Inr [] else ebind (py_int v) (\<lambda>n. Inr [key @ '' = '' @ int_str n]))
     [''block_timestamp'', ''block_number'', ''chain_id''])"

text \<open>\<open>v[k]\<close> of a value, and a value as the mapping whose items are read.\<close>

fun index_dict :: "pv \<Rightarrow> pdict res" where
  "index_dict (PDict d) = Inr d"
| "index_dict _ = Inl (TypeError ''not subscriptable by a text'')"

definition render_toml :: "pdict \<Rightarrow> string res" where
  "render_toml config =
     ebind (ebind (need config ''profile'') index_dict) (\<lambda>profile.
     ebind (ebind (need profile ''default'') index_dict) (\<lambda>p.
     ebind (number_lines p) (\<lambda>numbers.
     ebind (need p ''always_use_create_2_factory'') (\<lambda>create2.
     ebind (py_int (dget_or p ''optimizer_runs'' (PInt 200))) (\<lambda>optimizer_runs.
     ebind (ebind (need p ''fuzz'') index_dict) (\<lambda>fuzz.
     ebind (ebind (need fuzz ''runs'') py_int) (\<lambda>runs.
     ebind (ebind (need fuzz ''seed'') seed_hex) (\<lambda>seed.
     ebind (need config ''gate_url'') (\<lambda>gate_url.
       Inr (join [CHR 0x0A] (
         [''[profile.default]''] @ text_lines p @ numbers @
         [''libs = []'', ''ffi = false'', ''fs_permissions = []'',
          ''always_use_create_2_factory = '' @ bool_text create2,
          ''dynamic_test_linking = false'',
          ''optimizer = '' @ bool_text (dget_or p ''optimizer'' (PBool True)),
          ''optimizer_runs = '' @ int_str optimizer_runs, [],
          ''[profile.default.fuzz]'', ''runs = '' @ int_str runs, ''seed = '' @ [CHR 0x22] @ seed @ [CHR 0x22], [],
          ''[rpc_endpoints]'', ''l0vi0x_gate = '' @ quote (py_str gate_url), []])))))))))))"

section \<open>Sanitizing\<close>

definition unsupported :: "(pv list \<Rightarrow> pv list res) \<Rightarrow> pv list \<Rightarrow> exc" where
  "unsupported ranked vs =
     (let all_text = list_all (\<lambda>v. as_str v \<noteq> None) vs;
          order = (if all_text then Inr (map PStr (sort (map (\<lambda>v. the (as_str v)) vs))) else ranked vs)
      in case order of Inl e \<Rightarrow> e | Inr ws \<Rightarrow> ValueError (''unsupported/untrusted Foundry settings: '' @ py_repr (PList ws)))"

text \<open>\<open>k in supplied\<close> and \<open>supplied[k]\<close> for a text \<open>k\<close>, of a value that is iterable.\<close>

fun supplied_item :: "pv \<Rightarrow> string \<Rightarrow> pv option res" where
  "supplied_item (PDict d) k = Inr (map_of d k)"
| "supplied_item (PStr s) k = (if contains s k then Inl (TypeError ''string indices must be integers'') else Inr None)"
| "supplied_item (PList vs) k = (if PStr k \<in> set vs then Inl (TypeError ''list indices must be integers'') else Inr None)"
| "supplied_item (PTup vs) k = (if PStr k \<in> set vs then Inl (TypeError ''tuple indices must be integers'') else Inr None)"
| "supplied_item _ k = Inl (TypeError ''argument is not iterable'')"

definition supplied_default :: "pv \<Rightarrow> pdict res" where
  "supplied_default supplied = map_sum id concat (emap (\<lambda>k. ebind (supplied_item supplied k) (\<lambda>v.
     Inr (case v of None \<Rightarrow> [] | Some x \<Rightarrow> [(k, x)]))) ALLOWED_PROFILE_KEYS)"

text \<open>The project's settings: its configuration, checked, when there is a text that is not blank.\<close>

definition read_source :: "(pv list \<Rightarrow> pv list res) \<Rightarrow> (string \<Rightarrow> pdict option) \<Rightarrow> string option \<Rightarrow> pv res" where
  "read_source ranked toml source = (case source of
     None \<Rightarrow> Inr (PDict [])
   | Some text \<Rightarrow>
       if strip text = [] then Inr (PDict []) else
       (case toml text of
          None \<Rightarrow> Inl (ValueError ''invalid foundry.toml'')
        | Some raw \<Rightarrow>
            ebind (no_forbidden (PDict raw) ''foundry'') (\<lambda>_.
            ebind (need_dict (dget_or raw ''profile'' (PDict []))) (\<lambda>profile.
            let supplied = dget_or profile ''default'' (PDict []) in
            ebind (py_set supplied) (\<lambda>names.
              let unknown = filter (\<lambda>v. v \<notin> PStr ` (set ALLOWED_PROFILE_KEYS \<union> set IGNORED_SECURITY_OVERRIDES)) (remdups names) in
              if unknown \<noteq> [] then Inl (unsupported ranked unknown) else Inr supplied)))))"

definition dict_or_empty :: "pv option \<Rightarrow> pdict" where
  "dict_or_empty v = (case v of Some (PDict d) \<Rightarrow> d | _ \<Rightarrow> [])"

record sanitizer =
  sz_compiler :: pdict
  sz_gate_url :: string
  sz_policy :: "(string \<times> string option) option"
  sz_fuzz_runs :: int
  sz_fuzz_seed :: int

text \<open>What every accepted configuration is overwritten with.\<close>

definition overrides :: "sanitizer \<Rightarrow> pdict \<Rightarrow> pdict res" where
  "overrides z security =
     (let compiler = sz_compiler z; fuzz_policy = dict_or_empty (dget security ''fuzz'') in
      ebind (py_int (dget_or compiler ''optimizer_runs'' (PInt 200))) (\<lambda>optimizer_runs.
      ebind (py_int (dget_or fuzz_policy ''runs'' (PInt (sz_fuzz_runs z)))) (\<lambda>runs.
      ebind (py_int (dget_or fuzz_policy ''seed'' (PInt (sz_fuzz_seed z)))) (\<lambda>seed.
        Inr [(''src'', PStr ''src''), (''ffi'', PBool False), (''fs_permissions'', PList []), (''test'', PStr ''test''),
          (''out'', PStr ''out''), (''libs'', PList []),
          (''optimizer'', PBool (truthy (dget_or compiler ''optimizer'' (PBool True)))),
          (''optimizer_runs'', PInt optimizer_runs),
          (''solc_version'', dget_or compiler ''solc'' (dget_or compiler ''solc_version'' (PStr []))),
          (''evm_version'', dget_or compiler ''evm_version'' (PStr [])),
          (''dynamic_test_linking'', PBool False),
          (''always_use_create_2_factory'', PBool (truthy (dget_or security ''always_use_create_2_factory'' (PBool True)))),
          (''block_timestamp'', PInt 1), (''block_number'', PInt 1), (''chain_id'', PInt 31337),
          (''bytecode_hash'', PStr ''none''),
          (''fuzz'', PDict [(''runs'', PInt runs), (''seed'', PInt seed)])]))))"

text \<open>The returned configuration and the text that is written.\<close>

definition sanitize_foundry_config ::
    "(pv list \<Rightarrow> pv list res) \<Rightarrow> (string \<Rightarrow> pdict option) \<Rightarrow> (string \<Rightarrow> pv option) \<Rightarrow> sanitizer \<Rightarrow> string option \<Rightarrow>
     (pdict \<times> string) res" where
  "sanitize_foundry_config ranked toml yload z source =
     ebind (read_policy yload (sz_policy z)) (\<lambda>policy.
     let security = dict_or_empty (dget policy ''security'') in
     ebind (read_source ranked toml source) (\<lambda>supplied.
     ebind (supplied_default supplied) (\<lambda>kept.
     ebind (overrides z security) (\<lambda>fixed.
     let default = dmerge kept fixed;
         sanitized = [(''profile'', PDict [(''default'', PDict default)]), (''gate_url'', PStr (sz_gate_url z)),
           (''security'', PDict [(''ffi'', PBool False), (''fs_permissions'', PList []), (''libs'', PList []),
              (''always_use_create_2_factory'', PBool (truthy (dget_or default ''always_use_create_2_factory'' PNone)))])] in
     ebind (render_toml sanitized) (\<lambda>text. Inr (sanitized, text))))))"

section \<open>What the check of the keys means\<close>

text \<open>The keys of a configuration, at any depth, outside the tables that are overridden anyway.\<close>

fun exposed_keys :: "pv \<Rightarrow> string list" where
  "exposed_keys (PDict d) = concat (map (\<lambda>kv. fst kv # (if lower (fst kv) \<in> set IGNORED_SECURITY_OVERRIDES
     then [] else exposed_keys (snd kv))) d)"
| "exposed_keys (PList vs) = concat (map exposed_keys vs)"
| "exposed_keys _ = []"

definition harmless :: "string \<Rightarrow> bool" where
  "harmless k = (lower k \<notin> set FORBIDDEN_KEYS)"

lemma ignored_harmless: "lower k \<in> set IGNORED_SECURITY_OVERRIDES \<Longrightarrow> lower k \<notin> set FORBIDDEN_KEYS"
  by (auto simp: IGNORED_SECURITY_OVERRIDES_def FORBIDDEN_KEYS_def)

lemma no_forbidden_iff:
  "no_forbidden v path = Inr () \<longleftrightarrow> list_all harmless (exposed_keys v)"
  "no_forbidden_items d path = Inr () \<longleftrightarrow> list_all harmless (exposed_keys (PDict d))"
  "no_forbidden_elements vs i path = Inr () \<longleftrightarrow> list_all harmless (exposed_keys (PList vs))"
  by (induction v path and d path and vs i path rule: no_forbidden_no_forbidden_items_no_forbidden_elements.induct)
    (auto simp: ebind_eq_Inr harmless_def dest: ignored_harmless)

section \<open>Independence of the project\<close>

lemma keys_of_concat:
  assumes "map_sum id concat (emap f ks) = Inr ls" "\<And>k l kv. f k = Inr l \<Longrightarrow> kv \<in> set l \<Longrightarrow> fst kv = k"
  shows "fst ` set ls \<subseteq> set ks"
proof -
  from assms(1) obtain ms where ms: "emap f ks = Inr ms" "ls = concat ms" by (cases "emap f ks") auto
  have "fst kv \<in> set ks" if l: "l \<in> set ms" and kv: "kv \<in> set l" for l kv
  proof -
    from emap_source [OF ms(1) l] obtain k where "k \<in> set ks" "f k = Inr l" by blast
    with assms(2) [of k l kv] kv show ?thesis by simp
  qed
  with ms(2) show ?thesis by auto
qed

lemma supplied_default_keys: "supplied_default v = Inr kept \<Longrightarrow> fst ` set kept \<subseteq> set ALLOWED_PROFILE_KEYS"
  unfolding supplied_default_def by (erule keys_of_concat) (auto simp: ebind_eq_Inr split: option.splits)

lemma overrides_keys:
  assumes "overrides z sec = Inr fixed"
  shows "set ALLOWED_PROFILE_KEYS \<subseteq> fst ` set fixed" "distinct (map fst fixed)"
  using assms by (auto simp: overrides_def ebind_eq_Inr Let_def ALLOWED_PROFILE_KEYS_def)

lemma map_of_overridden:
  assumes "supplied_default v = Inr kept" "overrides z sec = Inr fixed"
  shows "map_of (dmerge kept fixed) = map_of fixed"
proof
  fix k
  have rev: "map_of (rev fixed) = map_of fixed"
    using overrides_keys(2) [OF assms(2)] by (metis distinct_rev map_of_inject_set rev_map set_rev)
  show "map_of (dmerge kept fixed) k = map_of fixed k"
  proof (cases "map_of fixed k")
    case None
    then have "k \<notin> set ALLOWED_PROFILE_KEYS" using overrides_keys(1) [OF assms(2)] by (auto simp: map_of_eq_None_iff)
    then have "map_of kept k = None" using supplied_default_keys [OF assms(1)] by (auto simp: map_of_eq_None_iff)
    with None show ?thesis by (simp add: map_of_dmerge rev map_add_def)
  qed (simp add: map_of_dmerge rev map_add_def)
qed

definition configuration :: "string \<Rightarrow> pdict \<Rightarrow> pdict" where
  "configuration gate_url dflt = [(''profile'', PDict [(''default'', PDict dflt)]), (''gate_url'', PStr gate_url),
     (''security'', PDict [(''ffi'', PBool False), (''fs_permissions'', PList []), (''libs'', PList []),
        (''always_use_create_2_factory'', PBool (truthy (dget_or dflt ''always_use_create_2_factory'' PNone)))])]"

lemma render_configuration:
  "map_of p = map_of q \<Longrightarrow> render_toml (configuration g p) = render_toml (configuration g q)"
  by (simp add: render_toml_def configuration_def need_def text_lines_def number_lines_def dget_def dget_or_def)

lemma sanitize_eq_Inr:
  "sanitize_foundry_config ranked toml yload z source = Inr (cfg, text) \<longleftrightarrow>
    (\<exists>policy supplied kept fixed. read_policy yload (sz_policy z) = Inr policy \<and>
       read_source ranked toml source = Inr supplied \<and> supplied_default supplied = Inr kept \<and>
       overrides z (dict_or_empty (dget policy ''security'')) = Inr fixed \<and>
       cfg = configuration (sz_gate_url z) (dmerge kept fixed) \<and> render_toml (configuration (sz_gate_url z) fixed) = Inr text)"
proof -
  have "render_toml (configuration g (dmerge kept fixed)) = render_toml (configuration g fixed)"
    if "supplied_default v = Inr kept" "overrides z' sec = Inr fixed" for g v kept z' sec fixed
    by (rule render_configuration) (rule map_of_overridden [OF that])
  then show ?thesis
    by (auto simp: sanitize_foundry_config_def Let_def ebind_eq_Inr configuration_def [symmetric] split: prod.splits)
qed

section \<open>The lines of the text\<close>

definition newline :: char where
  "newline = CHR 0x0A"

lemma split_on_append: "c \<notin> set s \<Longrightarrow> split_on c (s @ c # t) = s # split_on c t"
  by (induction s) auto

lemma split_on_none: "c \<notin> set s \<Longrightarrow> split_on c s = [s]"
  by (induction s) auto

lemma split_on_join:
  "ls \<noteq> [] \<Longrightarrow> \<forall>l \<in> set ls. c \<notin> set l \<Longrightarrow> split_on c (join [c] ls) = ls"
  by (induction "[c]" ls rule: join.induct) (auto simp: split_on_none split_on_append)

lemma replace_from_chars: "set (replace_from n s pat new) \<subseteq> set s \<union> set new"
proof (induction n s pat new rule: replace_from.induct)
  case (3 n c s pat new)
  then show ?case using set_drop_subset [of "length pat" "c # s"] by auto
qed auto

lemma newline_Char [simp]: "newline = Char b0 b1 b2 b3 b4 b5 b6 b7 \<longleftrightarrow> \<not> b0 \<and> b1 \<and> \<not> b2 \<and> b3 \<and> \<not> b4 \<and> \<not> b5 \<and> \<not> b6 \<and> \<not> b7"
  by (auto simp: newline_def)

lemma newline_quote [simp]: "newline \<notin> set s \<Longrightarrow> newline \<notin> set (quote s)"
  using replace_from_chars [of "length s" s "[CHR 0x5C]" "[CHR 0x5C, CHR 0x5C]"]
    replace_from_chars [of _ "replace_all s [CHR 0x5C] [CHR 0x5C, CHR 0x5C]" "[CHR 0x22]" "[CHR 0x5C, CHR 0x22]"]
  by (auto simp: quote_def replace_all_def newline_def)

lemma newline_nat_str [simp]: "newline \<notin> set (nat_str n)"
  using nat_str_digits [of newline n] by (auto simp: newline_def)

lemma newline_int_str [simp]: "newline \<notin> set (int_str i)"
  by (auto simp: int_str_def)

lemma newline_hex_char [simp]: "d < 16 \<Longrightarrow> newline \<noteq> hex_char d"
proof
  assume "d < 16" "newline = hex_char d"
  then have "hex_val newline = Some d" by (metis hex_val_char)
  then show False by (simp add: hex_val_def newline_def)
qed

lemma newline_to_hex [simp]: "newline \<notin> set (to_hex bs)"
  by (induction bs) (simp_all add: of_char_less_256 less_mult_imp_div_less)

lemma newline_seed_number: "seed_number n = Inr s \<Longrightarrow> newline \<notin> set s"
  by (auto simp: seed_number_def split: if_splits)

text \<open>The two settings of the compiler that are copied into the text.\<close>

definition solc_setting :: "sanitizer \<Rightarrow> pv" where
  "solc_setting z = dget_or (sz_compiler z) ''solc'' (dget_or (sz_compiler z) ''solc_version'' (PStr []))"

definition evm_setting :: "sanitizer \<Rightarrow> pv" where
  "evm_setting z = dget_or (sz_compiler z) ''evm_version'' (PStr [])"

definition text_line :: "string \<Rightarrow> pv \<Rightarrow> string list" where
  "text_line key v = (if v = PNone \<or> v = PStr [] then [] else [key @ '' = '' @ quote (py_str v)])"

lemma int_str_facts: "int_str 1 = ''1''" "int_str 31337 = ''31337''"
  by (simp_all add: int_str_def nat_str.simps digit_char_def) (intro conjI char_of_eqI; simp)+

lemma rendered_lines:
  assumes "overrides z sec = Inr fixed" "render_toml (configuration g fixed) = Inr text"
  obtains create2 optimizer runs n seed where
    "text = join [newline] (
       [''[profile.default]'', ''src = '' @ quote ''src'', ''test = '' @ quote ''test'', ''out = '' @ quote ''out''] @
       text_line ''solc_version'' (solc_setting z) @ text_line ''evm_version'' (evm_setting z) @
       [''bytecode_hash = '' @ quote ''none'', ''block_timestamp = 1'', ''block_number = 1'',
        ''chain_id = 31337'', ''libs = []'', ''ffi = false'', ''fs_permissions = []'',
        ''always_use_create_2_factory = '' @ bool_text create2, ''dynamic_test_linking = false'',
        ''optimizer = '' @ bool_text optimizer, ''optimizer_runs = '' @ int_str runs, [],
        ''[profile.default.fuzz]'', ''runs = '' @ int_str n, ''seed = '' @ [CHR 0x22] @ seed @ [CHR 0x22], [],
        ''[rpc_endpoints]'', ''l0vi0x_gate = '' @ quote g, []])"
    "newline \<notin> set seed"
proof -
  from assms(1) obtain runs n k where fixed: "fixed =
      [(''src'', PStr ''src''), (''ffi'', PBool False), (''fs_permissions'', PList []), (''test'', PStr ''test''),
       (''out'', PStr ''out''), (''libs'', PList []),
       (''optimizer'', PBool (truthy (dget_or (sz_compiler z) ''optimizer'' (PBool True)))),
       (''optimizer_runs'', PInt runs), (''solc_version'', solc_setting z), (''evm_version'', evm_setting z),
       (''dynamic_test_linking'', PBool False),
       (''always_use_create_2_factory'', PBool (truthy (dget_or sec ''always_use_create_2_factory'' (PBool True)))),
       (''block_timestamp'', PInt 1), (''block_number'', PInt 1), (''chain_id'', PInt 31337),
       (''bytecode_hash'', PStr ''none''), (''fuzz'', PDict [(''runs'', PInt n), (''seed'', PInt k)])]"
    by (auto simp: overrides_def ebind_eq_Inr Let_def solc_setting_def evm_setting_def)
  have numbers: "number_lines fixed = Inr [''block_timestamp = 1'', ''block_number = 1'', ''chain_id = 31337'']"
    by (simp add: number_lines_def dget_def fixed int_str_facts)
  have texts: "text_lines fixed = [''src = '' @ quote ''src'', ''test = '' @ quote ''test'', ''out = '' @ quote ''out''] @
      text_line ''solc_version'' (solc_setting z) @ text_line ''evm_version'' (evm_setting z) @ [''bytecode_hash = '' @ quote ''none'']"
    by (simp add: text_lines_def text_line_def dget_def fixed)
  from assms(2) obtain seed where seed: "seed_number k = Inr seed" and shape: "text = join [CHR 0x0A] (
       [''[profile.default]''] @ text_lines fixed @ [''block_timestamp = 1'', ''block_number = 1'', ''chain_id = 31337''] @
       [''libs = []'', ''ffi = false'', ''fs_permissions = []'',
        ''always_use_create_2_factory = '' @ bool_text (PBool (truthy (dget_or sec ''always_use_create_2_factory'' (PBool True)))),
        ''dynamic_test_linking = false'',
        ''optimizer = '' @ bool_text (PBool (truthy (dget_or (sz_compiler z) ''optimizer'' (PBool True)))),
        ''optimizer_runs = '' @ int_str runs, [],
        ''[profile.default.fuzz]'', ''runs = '' @ int_str n, ''seed = '' @ [CHR 0x22] @ seed @ [CHR 0x22], [],
        ''[rpc_endpoints]'', ''l0vi0x_gate = '' @ quote g, []])"
    unfolding render_toml_def configuration_def
    by (simp add: need_def numbers ebind_eq_Inr) (auto simp: fixed seed_hex_def dget_or_def)
  show thesis
    by (rule that [OF _ newline_seed_number [OF seed]]) (simp add: shape texts newline_def)
qed

section \<open>Seeds read back\<close>

lemma hex_char_not_underscore: "d < 16 \<Longrightarrow> hex_char d \<noteq> CHR ''_''"
proof
  assume "d < 16" "hex_char d = CHR ''_''"
  then have "hex_val (CHR ''_'') = Some d" by (metis hex_val_char)
  then show False by (simp add: hex_val_def)
qed

lemma of_char_div_16: "(of_char c :: nat) div 16 < 16"
  using of_char_less_256 [of c] by (simp add: less_mult_imp_div_less)

lemma hex_step: "16 * (16 * acc + of_char b div 16) + of_char b mod 16 = 256 * acc + (of_char b :: nat)"
  by simp

lemma base_digits_to_hex: "base_digits 16 (to_hex bs) acc = Some (nat (be_int bs (int acc)))"
proof (induction bs arbitrary: acc)
  case (Cons b bs)
  have "int (256 * acc + of_char b) = 256 * int acc + of_char b" by (metis of_nat_add of_nat_mult of_nat_numeral of_nat_of_char)
  then have "base_digits 16 (to_hex bs) (256 * acc + of_char b) = Some (nat (be_int (b # bs) (int acc)))"
    by (simp only: Cons.IH be_int.simps)
  then show ?case by (simp only: to_hex.simps base_digits.simps hex_char_not_underscore [OF of_char_div_16]
      hex_char_not_underscore [of "of_char b mod 16", simplified] if_False hex_val_char [OF of_char_div_16]
      hex_val_char [of "of_char b mod 16", simplified] option.case of_char_div_16 if_True hex_step) (simp add: algebra_simps)
qed simp

lemma lower_hex_char [simp]: "d < 16 \<Longrightarrow> lower_char (hex_char d) = hex_char d"
  by (simp add: lower_char_def is_upper_def hex_char_def Let_def)

lemma lower_to_hex [simp]: "lower (to_hex bs) = to_hex bs"
  by (induction bs) (simp_all add: lower_def of_char_div_16)

lemma not_space_hex [simp]: "d < 16 \<Longrightarrow> \<not> is_space (hex_char d)"
  by (simp add: is_space_def hex_char_def Let_def)

lemma no_space_to_hex: "list_all (\<lambda>c. \<not> is_space c) (to_hex bs)"
  by (induction bs) (simp_all add: of_char_div_16)

lemma strip_no_space: "list_all (\<lambda>c. \<not> is_space c) s \<Longrightarrow> strip s = s"
proof -
  have "list_all (\<lambda>c. \<not> is_space c) t \<Longrightarrow> dropWhile is_space t = t" for t by (cases t) auto
  moreover assume "list_all (\<lambda>c. \<not> is_space c) s"
  ultimately show ?thesis by (simp add: strip_def list_all_rev)
qed

lemma seed_number_hex:
  assumes "seed_number n = Inr s"
  shows "0 \<le> n" "n < 2 ^ 256" "s = ''0x'' @ to_hex (int_be 32 n)" "strip s = s" "length s = 66"
    "prefixed_nat 16 (drop 2 s) = Some (nat n)"
proof -
  from assms show n: "0 \<le> n" "n < 2 ^ 256" and s: "s = ''0x'' @ to_hex (int_be 32 n)"
    by (auto simp: seed_number_def split: if_splits)
  show "length s = 66" by (simp add: s)
  show "strip s = s" by (rule strip_no_space) (simp add: s no_space_to_hex)
  obtain b bs where b: "int_be 32 n = b # bs" by (cases "int_be 32 n") (auto dest: arg_cong [of _ _ length])
  have "hex_char (of_char b div 16) \<noteq> CHR ''_''" by (rule hex_char_not_underscore [OF of_char_div_16])
  then have "prefixed_nat 16 (to_hex (int_be 32 n)) = base_digits 16 (to_hex (int_be 32 n)) 0"
    by (simp add: b prefixed_nat_def base_nat_def del: base_digits.simps)
  also have "\<dots> = Some (nat n)"
    using n by (simp add: base_digits_to_hex be_int_int_be)
  finally show "prefixed_nat 16 (drop 2 s) = Some (nat n)" by (simp add: s)
qed

section \<open>Properties\<close>

text \<open>
  C26: a project's \<open>foundry.toml\<close> that is accepted leaves no trace in the configuration that is used: the
  text that is written is the one for a project without any, and none of its keys, at any depth outside
  the tables that are overridden, is a forbidden one in any spelling.
\<close>
theorem sanitized_source_irrelevant:
  assumes "sanitize_foundry_config ranked toml yload z (Some source) = Inr (cfg, text)" "strip source \<noteq> []"
  shows "(\<exists>cfg'. sanitize_foundry_config ranked toml yload z None = Inr (cfg', text)) \<and>
    (\<exists>raw. toml source = Some raw \<and> list_all harmless (exposed_keys (PDict raw)))"
proof -
  from assms(1) obtain policy supplied fixed where s: "read_policy yload (sz_policy z) = Inr policy"
    "read_source ranked toml (Some source) = Inr supplied" "overrides z (dict_or_empty (dget policy ''security'')) = Inr fixed"
    "render_toml (configuration (sz_gate_url z) fixed) = Inr text"
    by (auto simp: sanitize_eq_Inr)
  have "supplied_default (PDict []) = Inr []" by (simp add: supplied_default_def ALLOWED_PROFILE_KEYS_def)
  then have "sanitize_foundry_config ranked toml yload z None = Inr (configuration (sz_gate_url z) (dmerge [] fixed), text)"
    using s by (auto simp: sanitize_eq_Inr read_source_def)
  moreover from s(2) assms(2) obtain raw where "toml source = Some raw" "no_forbidden (PDict raw) ''foundry'' = Inr ()"
    by (auto simp: read_source_def ebind_eq_Inr split: option.splits)
  ultimately show ?thesis by (auto simp: no_forbidden_iff(2))
qed

text \<open>The lines of a text that open a table or set one of the security settings.\<close>

definition security_lines :: "string \<Rightarrow> string list" where
  "security_lines text = filter (\<lambda>l. list_ex (startswith l) [''['', ''libs'', ''ffi'', ''fs_permissions'', ''dynamic_test_linking''])
     (split_on newline text)"

text \<open>
  C27: when the compiler's settings and the gate's address are single lines, the text that is written
  has exactly the three tables of the sandbox, and sets each security setting once, to its safe value.
\<close>
theorem sanitized_settings:
  assumes "sanitize_foundry_config ranked toml yload z source = Inr (cfg, text)"
    "newline \<notin> set (py_str (solc_setting z))" "newline \<notin> set (py_str (evm_setting z))" "newline \<notin> set (sz_gate_url z)"
  shows "security_lines text = [''[profile.default]'', ''libs = []'', ''ffi = false'', ''fs_permissions = []'',
    ''dynamic_test_linking = false'', ''[profile.default.fuzz]'', ''[rpc_endpoints]'']"
proof -
  from assms(1) obtain sec fixed where s: "overrides z sec = Inr fixed" "render_toml (configuration (sz_gate_url z) fixed) = Inr text"
    by (auto simp: sanitize_eq_Inr)
  obtain create2 optimizer runs n seed where shape: "text = join [newline] (
       [''[profile.default]'', ''src = '' @ quote ''src'', ''test = '' @ quote ''test'', ''out = '' @ quote ''out''] @
       text_line ''solc_version'' (solc_setting z) @ text_line ''evm_version'' (evm_setting z) @
       [''bytecode_hash = '' @ quote ''none'', ''block_timestamp = 1'', ''block_number = 1'',
        ''chain_id = 31337'', ''libs = []'', ''ffi = false'', ''fs_permissions = []'',
        ''always_use_create_2_factory = '' @ bool_text create2, ''dynamic_test_linking = false'',
        ''optimizer = '' @ bool_text optimizer, ''optimizer_runs = '' @ int_str runs, [],
        ''[profile.default.fuzz]'', ''runs = '' @ int_str n, ''seed = '' @ [CHR 0x22] @ seed @ [CHR 0x22], [],
        ''[rpc_endpoints]'', ''l0vi0x_gate = '' @ quote (sz_gate_url z), []])" (is "_ = join _ ?ls") and "newline \<notin> set seed"
    by (rule rendered_lines [OF s])
  moreover have "newline \<notin> set (quote ''src'')" "newline \<notin> set (quote ''test'')" "newline \<notin> set (quote ''out'')" "newline \<notin> set (quote ''none'')"
    by (rule newline_quote; simp add: newline_def)+
  ultimately have "split_on newline text = ?ls"
    using assms(2-4) by (simp only: shape) (rule split_on_join, simp, simp add: text_line_def bool_text_def)
  then show ?thesis by (simp add: security_lines_def text_line_def)
qed


section \<open>What the line hypothesis and the seed's text branch are for\<close>

text \<open>Only quotes and backslashes are escaped: a line end in the compiler's version adds lines to the text.\<close>

lemma quote_keeps_newlines:
  "split_on newline (''solc_version = '' @ quote (''0.8'' @ [CHR 0x22, newline] @ ''ffi = true'')) =
     [''solc_version = '' @ [CHR 0x22] @ ''0.8'' @ [CHR 0x5C, CHR 0x22], ''ffi = true'' @ [CHR 0x22]]"
  by (simp add: quote_def replace_all_def newline_def eval_nat_numeral)

text \<open>A seed given as a text of 66 characters is passed on with its underscores.\<close>

lemma seed_hex_underscore:
  "seed_hex (PStr (''0x'' @ replicate 62 (CHR ''0'') @ ''_A'')) = Inr (''0x'' @ replicate 62 (CHR ''0'') @ ''_a'')"
  by (simp add: seed_hex_def strip_def Let_def prefixed_nat_def base_nat_def hex_val_def lower_def eval_nat_numeral)

section \<open>Witnesses\<close>

definition sample_toml :: "string \<Rightarrow> pdict option" where
  "sample_toml s = (if s = ''ffi'' then Some [
     (''profile'', PDict [(''default'', PDict [(''ffi'', PBool True), (''optimizer'', PBool False), (''libs'', PList [PStr ''lib''])])]),
     (''rpc_endpoints'', PDict [(''mainnet'', PStr ''http://h'')])] else None)"

definition sample_sanitizer :: sanitizer where
  "sample_sanitizer = \<lparr>sz_compiler = [(''solc'', PStr ''0.8.20''), (''optimizer_runs'', PInt 1)], sz_gate_url = ''http://gate'',
     sz_policy = None, sz_fuzz_runs = 256, sz_fuzz_seed = 1\<rparr>"

lemma sample_sanitized:
  "\<exists>cfg text. sanitize_foundry_config Inr sample_toml (\<lambda>_. None) sample_sanitizer (Some ''ffi'') = Inr (cfg, text)"
proof -
  have source: "read_source Inr sample_toml (Some ''ffi'') = Inr (PDict [(''ffi'', PBool True), (''optimizer'', PBool False), (''libs'', PList [PStr ''lib''])])"
    by (simp add: read_source_def sample_toml_def strip_def lower_def FORBIDDEN_KEYS_def IGNORED_SECURITY_OVERRIDES_def
        ALLOWED_PROFILE_KEYS_def dget_or_def py_set_def)
  have kept: "\<exists>kept. supplied_default (PDict [(''ffi'', PBool True), (''optimizer'', PBool False), (''libs'', PList [PStr ''lib''])]) = Inr kept"
    by (simp add: supplied_default_def ALLOWED_PROFILE_KEYS_def)
  obtain fixed where fixed: "overrides sample_sanitizer (dict_or_empty (dget DEFAULT_SECURITY ''security'')) = Inr fixed"
    and rendered: "\<exists>text. render_toml (configuration (sz_gate_url sample_sanitizer) fixed) = Inr text"
    by (simp add: overrides_def sample_sanitizer_def DEFAULT_SECURITY_def dict_or_empty_def dget_def dget_or_def Let_def
        render_toml_def configuration_def need_def text_lines_def number_lines_def seed_hex_def seed_number_def)
  have "sz_policy sample_sanitizer = None" by (simp add: sample_sanitizer_def)
  then show ?thesis
    using kept rendered fixed by (auto simp: sanitize_eq_Inr source read_policy_def)
qed

lemma sanitized_source_irrelevant_witness:
  "\<exists>cfg text. sanitize_foundry_config Inr sample_toml (\<lambda>_. None) sample_sanitizer (Some ''ffi'') = Inr (cfg, text) \<and>
    (\<exists>cfg'. sanitize_foundry_config Inr sample_toml (\<lambda>_. None) sample_sanitizer None = Inr (cfg', text))"
proof -
  from sample_sanitized obtain cfg out where s:
    "sanitize_foundry_config Inr sample_toml (\<lambda>_. None) sample_sanitizer (Some ''ffi'') = Inr (cfg, out)" by blast
  from sanitized_source_irrelevant [OF s] s show ?thesis by (auto simp: strip_def)
qed

lemma sanitized_settings_witness:
  "\<exists>cfg text. sanitize_foundry_config Inr sample_toml (\<lambda>_. None) sample_sanitizer (Some ''ffi'') = Inr (cfg, text) \<and>
    ''ffi = false'' \<in> set (security_lines text)"
proof -
  from sample_sanitized obtain cfg out where s:
    "sanitize_foundry_config Inr sample_toml (\<lambda>_. None) sample_sanitizer (Some ''ffi'') = Inr (cfg, out)" by blast
  have "security_lines out = [''[profile.default]'', ''libs = []'', ''ffi = false'', ''fs_permissions = []'',
    ''dynamic_test_linking = false'', ''[profile.default.fuzz]'', ''[rpc_endpoints]'']"
    by (rule sanitized_settings [OF s]) (simp_all add: solc_setting_def evm_setting_def sample_sanitizer_def dget_or_def)
  with s show ?thesis by auto
qed


end
