(* ===== verification/JsonRead.thy ===== *)
theory JsonRead
  imports PyJson
begin

text \<open>
  \<open>json.dumps\<close> with an indentation, and a reader for JSON as \<open>json.loads\<close> is one: white space,
  literals, strings with their escapes, integers, arrays and objects with repeated keys. The value of a
  float literal is the argument \<open>fl\<close>. The interface \<open>json_reader\<close> states what the components rely on:
  what has been written is read back, up to the order of the keys.
\<close>

section \<open>Indented text\<close>

text \<open>\<open>json.dumps(v, sort_keys=True, indent=2)\<close>, at a level of indentation.\<close>

definition pad :: "nat \<Rightarrow> string" where
  "pad level = CHR 0x0A # replicate (2 * level) (CHR '' '')"

fun jindent :: "nat \<Rightarrow> pv \<Rightarrow> string" where
  "jindent level (PList vs) = (if vs = [] then ''[]'' else
     ''['' @ pad (level + 1) @ join ('','' @ pad (level + 1)) (map (jindent (level + 1)) vs) @ pad level @ '']'')"
| "jindent level (PTup vs) = (if vs = [] then ''[]'' else
     ''['' @ pad (level + 1) @ join ('','' @ pad (level + 1)) (map (jindent (level + 1)) vs) @ pad level @ '']'')"
| "jindent level (PDict d) = (if d = [] then ''{}'' else
     ''{'' @ pad (level + 1) @ join ('','' @ pad (level + 1)) (map (\<lambda>kt. jstr (fst kt) @ '': '' @ snd kt)
       (sort_key fst (map (\<lambda>kv. (fst kv, jindent (level + 1) (snd kv))) d))) @ pad level @ ''}'')"
| "jindent level v = jdumps [] [] v"

section \<open>The reader\<close>

definition jspace :: "char \<Rightarrow> bool" where
  "jspace c = (c = CHR '' '' \<or> c = CHR 0x09 \<or> c = CHR 0x0A \<or> c = CHR 0x0D)"

definition skip :: "string \<Rightarrow> string" where
  "skip s = dropWhile jspace s"

definition unescape :: "char \<Rightarrow> char option" where
  "unescape e = (if e = dquote \<or> e = CHR 0x5C \<or> e = CHR ''/'' then Some e
     else if e = CHR ''b'' then Some (CHR 0x08) else if e = CHR ''f'' then Some (CHR 0x0C)
     else if e = CHR ''n'' then Some (CHR 0x0A) else if e = CHR ''r'' then Some (CHR 0x0D)
     else if e = CHR ''t'' then Some (CHR 0x09) else None)"

text \<open>The four digits after \<open>\u\<close>, for the code points that a character of the model has.\<close>

fun hex4 :: "string \<Rightarrow> (char \<times> string) option" where
  "hex4 (a # b # c # d # r) = (case (hex_val a, hex_val b, hex_val c, hex_val d) of
     (Some a', Some b', Some c', Some d') \<Rightarrow>
       if a' = 0 \<and> b' = 0 then Some (char_of (16 * c' + d'), r) else None
   | _ \<Rightarrow> None)"
| "hex4 _ = None"

lemma hex4_shorter: "hex4 s = Some (c, r) \<Longrightarrow> length r < length s"
  by (induction s rule: hex4.induct) (auto split: option.splits if_splits)

text \<open>The rest of a string after its opening quote.\<close>

function jread_string :: "string \<Rightarrow> (string \<times> string) option" where
  "jread_string [] = None"
| "jread_string (c # r) =
     (if c = dquote then Some ([], r)
      else if c = CHR 0x5C then
        (case r of [] \<Rightarrow> None
         | e # t \<Rightarrow>
            if e = CHR ''u'' then
              (case hex4 t of None \<Rightarrow> None
               | Some (ch, u) \<Rightarrow> map_option (\<lambda>(s, q). (ch # s, q)) (jread_string u))
            else
              (case unescape e of None \<Rightarrow> None
               | Some ch \<Rightarrow> map_option (\<lambda>(s, q). (ch # s, q)) (jread_string t)))
      else if (of_char c :: nat) < 32 then None
      else map_option (\<lambda>(s, q). (c # s, q)) (jread_string r))"
  by pat_completeness auto
termination
  by (relation "measure length") (auto dest: hex4_shorter)

text \<open>Number literals; a float is its \<open>repr\<close> and its integer part.\<close>

type_synonym floats_read = "string \<Rightarrow> (string \<times> int option) option"

definition number_char :: "char \<Rightarrow> bool" where
  "number_char c = (is_digit c \<or> c \<in> set ''+-.eE'')"

definition natural_literal :: "string \<Rightarrow> int option" where
  "natural_literal s =
     (if s \<noteq> [] \<and> list_all is_digit s \<and> (hd s \<noteq> CHR ''0'' \<or> length s = 1) then Some (int (digits_val s 0)) else None)"

definition integer_literal :: "string \<Rightarrow> int option" where
  "integer_literal s = (case s of [] \<Rightarrow> None
   | c # cs \<Rightarrow> if c = CHR ''-'' then map_option uminus (natural_literal cs) else natural_literal s)"

definition jread_number :: "floats_read \<Rightarrow> string \<Rightarrow> (pv \<times> string) option" where
  "jread_number fl s =
     (let token = takeWhile number_char s; rest = dropWhile number_char s in
      case integer_literal token of
        Some i \<Rightarrow> Some (PInt i, rest)
      | None \<Rightarrow> map_option (\<lambda>(r, n). (PFloat r n, rest)) (fl token))"

text \<open>Values; the fuel bounds the length of the text.\<close>

fun jread :: "floats_read \<Rightarrow> nat \<Rightarrow> string \<Rightarrow> (pv \<times> string) option"
  and jread_items :: "floats_read \<Rightarrow> nat \<Rightarrow> string \<Rightarrow> (pv list \<times> string) option"
  and jread_members :: "floats_read \<Rightarrow> nat \<Rightarrow> string \<Rightarrow> (pdict \<times> string) option" where
  "jread fl 0 s = None"
| "jread fl (Suc n) s = (case skip s of [] \<Rightarrow> None
   | c # r \<Rightarrow>
      if c = dquote then map_option (\<lambda>(t, u). (PStr t, u)) (jread_string r)
      else if c = CHR ''['' then
        (if startswith (skip r) '']'' then Some (PList [], tl (skip r))
         else map_option (\<lambda>(vs, u). (PList vs, u)) (jread_items fl n r))
      else if c = CHR ''{'' then
        (if startswith (skip r) ''}'' then Some (PDict [], tl (skip r))
         else map_option (\<lambda>(d, u). (PDict (dmerge [] d), u)) (jread_members fl n r))
      else if startswith (c # r) ''null'' then Some (PNone, drop 4 (c # r))
      else if startswith (c # r) ''true'' then Some (PBool True, drop 4 (c # r))
      else if startswith (c # r) ''false'' then Some (PBool False, drop 5 (c # r))
      else jread_number fl (c # r))"
| "jread_items fl 0 s = None"
| "jread_items fl (Suc n) s = (case jread fl n s of None \<Rightarrow> None
   | Some (v, r) \<Rightarrow> (case skip r of [] \<Rightarrow> None
     | c # u \<Rightarrow>
         if c = CHR '','' then map_option (\<lambda>(vs, t). (v # vs, t)) (jread_items fl n u)
         else if c = CHR '']'' then Some ([v], u) else None))"
| "jread_members fl 0 s = None"
| "jread_members fl (Suc n) s = (case skip s of [] \<Rightarrow> None
   | c # r \<Rightarrow>
      if c \<noteq> dquote then None else
      (case jread_string r of None \<Rightarrow> None
       | Some (k, r1) \<Rightarrow>
          if \<not> startswith (skip r1) '':'' then None else
          (case jread fl n (tl (skip r1)) of None \<Rightarrow> None
           | Some (v, r2) \<Rightarrow> (case skip r2 of [] \<Rightarrow> None
             | c # u \<Rightarrow>
                 if c = CHR '','' then map_option (\<lambda>(d, t). ((k, v) # d, t)) (jread_members fl n u)
                 else if c = CHR ''}'' then Some ([(k, v)], u) else None))))"

definition json_text_value :: "floats_read \<Rightarrow> string \<Rightarrow> pv option" where
  "json_text_value fl s = (case jread fl (length s + 1) s of
     Some (v, r) \<Rightarrow> if skip r = [] then Some v else None
   | None \<Rightarrow> None)"

section \<open>Writing with white space\<close>

text \<open>The text of a value in its own order, with white space inside brackets and after a colon.\<close>

fun jprint :: "(nat \<Rightarrow> string) \<Rightarrow> (nat \<Rightarrow> string) \<Rightarrow> string \<Rightarrow> nat \<Rightarrow> pv \<Rightarrow> string" where
  "jprint p q k l (PList vs) = (if vs = [] then ''[]'' else
     ''['' @ p (l + 1) @ join ('','' @ q (l + 1)) (map (jprint p q k (l + 1)) vs) @ p l @ '']'')"
| "jprint p q k l (PDict d) = (if d = [] then ''{}'' else
     ''{'' @ p (l + 1) @ join ('','' @ q (l + 1)) (map (\<lambda>kv. jstr (fst kv) @ '':'' @ k @ jprint p q k (l + 1) (snd kv)) d) @ p l @ ''}'')"
| "jprint p q k l v = enc v"

lemma enc_jprint: "jnormal v \<Longrightarrow> jprint (\<lambda>_. []) (\<lambda>_. []) [] l v = enc v"
  by (induction "\<lambda>_ :: nat. [] :: string" "\<lambda>_ :: nat. [] :: string" "[] :: string" l v rule: jprint.induct) (auto cong: map_cong)

lemma sort_key_Nil [simp]: "sort_key f xs = [] \<longleftrightarrow> xs = []"
  by (metis length_0_conv length_sort)

lemma jindent_jprint: "nofloat v \<Longrightarrow> jindent l v = jprint pad pad '' '' l (jnorm v)"
proof (induction l v rule: jindent.induct)
  case (3 l d)
  have "map (\<lambda>kv. (fst kv, jindent (l + 1) (snd kv))) d = map (\<lambda>kv. (fst kv, jprint pad pad '' '' (l + 1) (jnorm (snd kv)))) d"
    using 3 by (cases "d = []") auto
  then show ?case
    by (simp only: jindent.simps jnorm.simps jprint.simps sort_key_map_snd [where g = "\<lambda>v. jprint pad pad '' '' (l + 1) (jnorm v)"]
        sort_key_map_snd [where g = jnorm]) (auto simp: comp_def)
qed (auto cong: map_cong)

section \<open>What is written is read\<close>

definition spaces :: "string \<Rightarrow> bool" where
  "spaces s = list_all jspace s"

lemma skip_spaces: "spaces a \<Longrightarrow> skip (a @ s) = skip s"
  by (simp add: skip_def spaces_def dropWhile_append2 list_all_iff)

lemma skip_Cons [simp]: "\<not> jspace c \<Longrightarrow> skip (c # s) = c # s"
  by (simp add: skip_def)

lemma skip_pad: "spaces a \<Longrightarrow> \<not> jspace c \<Longrightarrow> skip (a @ c # s) = c # s"
  by (simp add: skip_spaces)

lemma hex4_jesc: "hex4 (CHR ''0'' # CHR ''0'' # hex_char (of_char c div 16) # hex_char (of_char c mod 16) # x) = Some (c, x)"
  using of_char_less_256 [of c] by (simp add: hex_val_def [of "CHR ''0''"] less_mult_imp_div_less)

lemma char_of_code: "(of_char c :: nat) = n \<Longrightarrow> c = char_of n"
  by (simp add: char_of_eqI)

lemma char_codes: "char_of (34 :: nat) = CHR 0x22" "char_of (92 :: nat) = CHR 0x5C" "char_of (10 :: nat) = CHR 0x0A"
    "char_of (13 :: nat) = CHR 0x0D" "char_of (9 :: nat) = CHR 0x09" "char_of (8 :: nat) = CHR 0x08" "char_of (12 :: nat) = CHR 0x0C"
  by (rule char_of_eqI, simp)+

lemma jread_string_jesc:
  "jread_string (jesc c @ x) = map_option (\<lambda>(s, q). (c # s, q)) (jread_string x)"
proof -
  let ?n = "of_char c :: nat"
  consider "?n = 34 \<or> ?n = 92" | "?n = 10" | "?n = 13" | "?n = 9" | "?n = 8" | "?n = 12"
    | "?n \<notin> {34, 92, 10, 13, 9, 8, 12}" "?n < 32 \<or> ?n > 126" | "?n \<notin> {34, 92, 10, 13, 9, 8, 12}" "\<not> (?n < 32 \<or> ?n > 126)"
    by blast
  then show ?thesis
  proof cases
    case 1
    then have "c = dquote \<or> c = CHR 0x5C" by (auto simp: dquote_def char_codes dest!: char_of_code)
    then show ?thesis by (auto simp: jesc_def dquote_def unescape_def Let_def)
  next
    case 7
    then show ?thesis by (auto simp: jesc_def hex4_jesc dquote_def Let_def simp del: hex4.simps)
  next
    case 8
    then have "c \<noteq> dquote" "c \<noteq> CHR 0x5C" by (auto simp: dquote_def)
    with 8 show ?thesis by (simp add: jesc_def)
  qed (auto simp: jesc_def unescape_def dquote_def char_codes dest!: char_of_code)
qed

lemma jread_string_body: "jread_string (concat (map jesc s) @ dquote # r) = Some (s, r)"
  by (induction s) (simp_all add: jread_string_jesc)

definition number_end :: "string \<Rightarrow> bool" where
  "number_end r = (r = [] \<or> \<not> number_char (hd r))"

lemma number_char_digit: "is_digit c \<Longrightarrow> number_char c"
  by (simp add: number_char_def)

lemma nat_str_hd: "hd (nat_str n) = CHR ''0'' \<Longrightarrow> length (nat_str n) = 1"
proof (induction n rule: nat_str.induct)
  case (1 n)
  show ?case
  proof (cases "n < 10")
    case False
    then have "hd (nat_str n) = hd (nat_str (n div 10))" by (simp add: nat_str.simps [of n])
    with 1 False have "length (nat_str (n div 10)) = 1" "hd (nat_str (n div 10)) = CHR ''0''" by simp_all
    then have "nat_str (n div 10) = ''0''" by (cases "nat_str (n div 10)") auto
    then have "n div 10 = 0" using digits_val_nat_str [of "n div 10"] by (simp add: digit_val_def)
    with False show ?thesis by simp
  qed (simp add: nat_str.simps [of n])
qed

lemma natural_literal_nat_str: "natural_literal (nat_str n) = Some (int n)"
  using nat_str_hd [of n] by (auto simp: natural_literal_def list_all_iff nat_str_digits)

lemma integer_literal_int_str: "integer_literal (int_str i) = Some i"
proof -
  have "integer_literal (nat_str n) = Some (int n)" for n
  proof -
    obtain c cs where c: "nat_str n = c # cs" by (cases "nat_str n") auto
    then have "c \<noteq> CHR ''-''" using nat_str_digits [of c n] by (auto simp: is_digit_def)
    with c show ?thesis using natural_literal_nat_str [of n] by (simp add: integer_literal_def)
  qed
  then show ?thesis by (auto simp: int_str_def integer_literal_def natural_literal_nat_str)
qed

lemma number_chars_int_str: "list_all number_char (int_str i)"
proof -
  have "list_all number_char (nat_str n)" for n by (auto simp: list_all_iff number_char_def nat_str_digits)
  then show ?thesis by (simp add: int_str_def) (simp add: number_char_def)
qed

lemma jread_number_int_str: "number_end r \<Longrightarrow> jread_number fl (int_str i @ r) = Some (PInt i, r)"
proof -
  assume r: "number_end r"
  have "takeWhile number_char (int_str i @ r) = int_str i" "dropWhile number_char (int_str i @ r) = r"
    using number_chars_int_str [of i] r
    by (cases r; simp add: list_all_iff number_end_def)+
  then show ?thesis by (simp add: jread_number_def integer_literal_int_str)
qed

text \<open>Keys are pairwise distinct at every level.\<close>

fun distinct_keys :: "pv \<Rightarrow> bool" where
  "distinct_keys (PList vs) = (\<forall>v \<in> set vs. distinct_keys v)"
| "distinct_keys (PTup vs) = (\<forall>v \<in> set vs. distinct_keys v)"
| "distinct_keys (PDict d) = (distinct (map fst d) \<and> (\<forall>kv \<in> set d. distinct_keys (snd kv)))"
| "distinct_keys v = True"

lemma dmerge_distinct: "distinct (map fst (d @ e)) \<Longrightarrow> dmerge d e = d @ e"
proof (induction e arbitrary: d)
  case (Cons a e)
  have "k \<notin> fst ` set d \<Longrightarrow> dset d k v = d @ [(k, v)]" for k v by (induction d k v rule: dset.induct) auto
  with Cons show ?case by (cases a) (auto simp: dmerge_def)
qed (simp add: dmerge_def)

text \<open>The first character of a printed value.\<close>

lemma jprint_hd:
  "jnormal v \<Longrightarrow> \<exists>c s. jprint p q k l v = c # s \<and> \<not> jspace c \<and> c \<noteq> CHR '']'' \<and> c \<noteq> CHR ''}''"
proof (cases v)
  case (PInt i)
  obtain c s where "int_str i = c # s" "c = CHR ''-'' \<or> is_digit c" using int_str_hd by blast
  with PInt show ?thesis by (auto simp: jspace_def is_digit_def)
qed (auto simp: jspace_def jstr_def dquote_def)

lemma skip_jprint: "jnormal v \<Longrightarrow> spaces a \<Longrightarrow> skip (a @ jprint p q k l v @ r) = jprint p q k l v @ r"
  using jprint_hd [of v p q k l] by (auto simp: skip_spaces)

lemma number_end_pad: "spaces b \<Longrightarrow> \<not> number_char c \<Longrightarrow> number_end (b @ c # r)"
  by (cases b) (auto simp: number_end_def spaces_def jspace_def number_char_def is_digit_def)

definition reads_value :: "(nat \<Rightarrow> string) \<Rightarrow> (nat \<Rightarrow> string) \<Rightarrow> string \<Rightarrow> floats_read \<Rightarrow> nat \<Rightarrow> bool" where
  "reads_value p q k fl n = (\<forall>v a l r. jnormal v \<longrightarrow> distinct_keys v \<longrightarrow> spaces a \<longrightarrow> number_end r \<longrightarrow>
     length (jprint p q k l v) \<le> n \<longrightarrow> jread fl n (a @ jprint p q k l v @ r) = Some (v, r))"

definition reads_items :: "(nat \<Rightarrow> string) \<Rightarrow> (nat \<Rightarrow> string) \<Rightarrow> string \<Rightarrow> floats_read \<Rightarrow> nat \<Rightarrow> bool" where
  "reads_items p q k fl n = (\<forall>vs a b l r. vs \<noteq> [] \<longrightarrow> (\<forall>v \<in> set vs. jnormal v \<and> distinct_keys v) \<longrightarrow> spaces a \<longrightarrow> spaces b \<longrightarrow>
     length (join ('','' @ q l) (map (jprint p q k l) vs)) < n \<longrightarrow>
     jread_items fl n (a @ join ('','' @ q l) (map (jprint p q k l) vs) @ b @ CHR '']'' # r) = Some (vs, r))"

definition member_text :: "(nat \<Rightarrow> string) \<Rightarrow> (nat \<Rightarrow> string) \<Rightarrow> string \<Rightarrow> nat \<Rightarrow> string \<times> pv \<Rightarrow> string" where
  "member_text p q k l kv = jstr (fst kv) @ '':'' @ k @ jprint p q k l (snd kv)"

definition reads_members :: "(nat \<Rightarrow> string) \<Rightarrow> (nat \<Rightarrow> string) \<Rightarrow> string \<Rightarrow> floats_read \<Rightarrow> nat \<Rightarrow> bool" where
  "reads_members p q k fl n = (\<forall>d a b l r. d \<noteq> [] \<longrightarrow> (\<forall>kv \<in> set d. jnormal (snd kv) \<and> distinct_keys (snd kv)) \<longrightarrow> spaces a \<longrightarrow> spaces b \<longrightarrow>
     length (join ('','' @ q l) (map (member_text p q k l) d)) < n \<longrightarrow>
     jread_members fl n (a @ join ('','' @ q l) (map (member_text p q k l) d) @ b @ CHR ''}'' # r) = Some (d, r))"

lemma reads_items_Suc:
  assumes "\<forall>l. spaces (q l)" "reads_value p q k fl n" "reads_items p q k fl n"
  shows "reads_items p q k fl (Suc n)"
  unfolding reads_items_def
proof (intro allI impI)
  fix vs a b l r
  assume ne: "vs \<noteq> []" and ok: "\<forall>v \<in> set vs. jnormal v \<and> distinct_keys v" and sp: "spaces a" "spaces b"
    and len: "length (join ('','' @ q l) (map (jprint p q k l) vs)) < Suc n"
  from ne obtain v ws where vs: "vs = v # ws" by (cases vs) auto
  show "jread_items fl (Suc n) (a @ join ('','' @ q l) (map (jprint p q k l) vs) @ b @ CHR '']'' # r) = Some (vs, r)"
  proof (cases "ws = []")
    case True
    have "jread fl n (a @ jprint p q k l v @ b @ CHR '']'' # r) = Some (v, b @ CHR '']'' # r)"
      using assms(2) ok sp len number_end_pad [OF sp(2), of "CHR '']''" r]
      by (simp add: reads_value_def vs True number_char_def is_digit_def)
    then show ?thesis by (simp add: vs True skip_pad [OF sp(2)] jspace_def)
  next
    case False
    let ?rest = "join ('','' @ q l) (map (jprint p q k l) ws)"
    have "jread fl n (a @ jprint p q k l v @ CHR '','' # q l @ ?rest @ b @ CHR '']'' # r) =
        Some (v, CHR '','' # q l @ ?rest @ b @ CHR '']'' # r)"
      using assms(2) ok sp len number_end_pad [of "[]" "CHR '',''" "q l @ ?rest @ b @ CHR '']'' # r"]
      by (simp add: reads_value_def vs False join_Cons number_char_def is_digit_def spaces_def)
    moreover have "jread_items fl n (q l @ ?rest @ b @ CHR '']'' # r) = Some (ws, r)"
      using assms(1,3) ok sp len False by (simp add: reads_items_def vs join_Cons)
    ultimately show ?thesis by (simp add: vs False join_Cons jspace_def)
  qed
qed

lemma reads_members_Suc:
  assumes "\<forall>l. spaces (q l)" "spaces k" "reads_value p q k fl n" "reads_members p q k fl n"
  shows "reads_members p q k fl (Suc n)"
  unfolding reads_members_def
proof (intro allI impI)
  fix d a b l r
  assume ne: "d \<noteq> []" and ok: "\<forall>kv \<in> set d. jnormal (snd kv) \<and> distinct_keys (snd kv)" and sp: "spaces a" "spaces b"
    and len: "length (join ('','' @ q l) (map (member_text p q k l) d)) < Suc n"
  from ne obtain key v e where d: "d = (key, v) # e" by (cases d) auto
  have not_space: "\<not> jspace dquote" "\<not> jspace (CHR '':'')" "\<not> jspace (CHR '','')" "\<not> jspace (CHR ''}'')"
    by (simp_all add: jspace_def dquote_def)
  show "jread_members fl (Suc n) (a @ join ('','' @ q l) (map (member_text p q k l) d) @ b @ CHR ''}'' # r) = Some (d, r)"
  proof (cases "e = []")
    case True
    have "jread fl n (k @ jprint p q k l v @ b @ CHR ''}'' # r) = Some (v, b @ CHR ''}'' # r)"
      using assms(2,3) ok len number_end_pad [OF sp(2), of "CHR ''}''" r]
      by (simp add: reads_value_def d True member_text_def number_char_def is_digit_def)
    then show ?thesis
      by (simp add: d True member_text_def jstr_def skip_pad [OF sp(1)] skip_pad [OF sp(2)] not_space jread_string_body)
  next
    case False
    let ?rest = "join ('','' @ q l) (map (member_text p q k l) e)"
    have "jread fl n (k @ jprint p q k l v @ CHR '','' # q l @ ?rest @ b @ CHR ''}'' # r) =
        Some (v, CHR '','' # q l @ ?rest @ b @ CHR ''}'' # r)"
      using assms(2,3) ok len number_end_pad [of "[]" "CHR '',''" "q l @ ?rest @ b @ CHR ''}'' # r"]
      by (simp add: reads_value_def d False join_Cons member_text_def number_char_def is_digit_def spaces_def)
    moreover have "jread_members fl n (q l @ ?rest @ b @ CHR ''}'' # r) = Some (e, r)"
      using assms(1,4) ok sp len False by (simp add: reads_members_def d join_Cons)
    ultimately show ?thesis
      by (simp add: d False join_Cons member_text_def jstr_def skip_pad [OF sp(1)] not_space jread_string_body)
  qed
qed

lemma jprint_dict: "d \<noteq> [] \<Longrightarrow> jprint p q k l (PDict d) =
    ''{'' @ p (l + 1) @ join ('','' @ q (l + 1)) (map (member_text p q k (l + 1)) d) @ p l @ ''}''"
  by (simp add: member_text_def [abs_def])

lemma literal_not_digit: "c \<in> set ''ntf'' \<Longrightarrow> \<not> (c = CHR ''-'' \<or> is_digit c)"
  by (auto simp: is_digit_def)

lemma reads_value_Suc:
  assumes p: "\<forall>l. spaces (p l)" and n: "reads_items p q k fl n" "reads_members p q k fl n"
  shows "reads_value p q k fl (Suc n)"
  unfolding reads_value_def
proof (intro allI impI)
  fix v a l r
  assume v: "jnormal v" "distinct_keys v" and sp: "spaces a" and r: "number_end r" and len: "length (jprint p q k l v) \<le> Suc n"
  have skip: "skip (a @ jprint p q k l v @ r) = jprint p q k l v @ r" by (rule skip_jprint [OF v(1) sp])
  show "jread fl (Suc n) (a @ jprint p q k l v @ r) = Some (v, r)"
  proof (cases v)
    case (PInt i)
    obtain c s where c: "int_str i = c # s" "c = CHR ''-'' \<or> is_digit c" using int_str_hd by blast
    then have "c \<notin> {dquote, CHR ''['', CHR ''{'', CHR ''n'', CHR ''t'', CHR ''f''}" by (auto simp: dquote_def is_digit_def)
    then show ?thesis using skip jread_number_int_str [OF r, of fl i] by (simp add: PInt c)
  next
    case (PStr s)
    then show ?thesis using skip by (simp add: jstr_def jread_string_body)
  next
    case (PList vs)
    show ?thesis
    proof (cases "vs = []")
      case True
      then show ?thesis using skip by (simp add: PList dquote_def jspace_def)
    next
      case False
      let ?body = "p (l + 1) @ join ('','' @ q (l + 1)) (map (jprint p q k (l + 1)) vs) @ p l @ CHR '']'' # r"
      obtain w ws where vs: "vs = w # ws" using False by (cases vs) auto
      obtain c s where c: "jprint p q k (l + 1) w = c # s" "\<not> jspace c" "c \<noteq> CHR '']''" using jprint_hd [of w p q k "l + 1"] v(1) PList vs by auto
      have "\<not> startswith (skip ?body) '']''"
        using p c by (simp add: skip_spaces vs join_Cons)
      moreover have "jread_items fl n ?body = Some (vs, r)"
        using n(1) v False p len by (simp add: reads_items_def PList)
      ultimately show ?thesis using skip False by (simp add: PList dquote_def)
    qed
  next
    case (PDict d)
    show ?thesis
    proof (cases "d = []")
      case True
      then show ?thesis using skip by (simp add: PDict dquote_def jspace_def)
    next
      case False
      let ?body = "p (l + 1) @ join ('','' @ q (l + 1)) (map (member_text p q k (l + 1)) d) @ p l @ CHR ''}'' # r"
      obtain kv e where d: "d = kv # e" using False by (cases d) auto
      have "\<not> startswith (skip ?body) ''}''"
        using p by (simp add: skip_spaces d join_Cons member_text_def jstr_def jspace_def dquote_def)
      moreover have "jread_members fl n ?body = Some (d, r)"
        using n(2) v False p len by (simp add: reads_members_def PDict jprint_dict del: jprint.simps)
      moreover have "dmerge [] d = d" using v(2) PDict dmerge_distinct [of "[]" d] by simp
      ultimately show ?thesis using skip False by (simp add: PDict jprint_dict dquote_def del: jprint.simps)
    qed
  qed (use v skip in \<open>auto simp: dquote_def\<close>)
qed

lemma reads:
  assumes "\<forall>l. spaces (p l)" "\<forall>l. spaces (q l)" "spaces k"
  shows "reads_value p q k fl n \<and> reads_items p q k fl n \<and> reads_members p q k fl n"
proof (induction n)
  case 0
  have "jnormal v \<Longrightarrow> jprint p q k l v \<noteq> []" for l v using jprint_hd [of v p q k l] by auto
  then show ?case by (auto simp: reads_value_def reads_items_def reads_members_def)
next
  case (Suc n)
  then show ?case using assms reads_value_Suc reads_items_Suc reads_members_Suc by blast
qed

lemma jprint_read:
  assumes "\<forall>l. spaces (p l)" "\<forall>l. spaces (q l)" "spaces k" "jnormal v" "distinct_keys v" "spaces r"
  shows "json_text_value fl (jprint p q k l v @ r) = Some v"
proof -
  have stop: "number_end r" using assms(6) by (cases r) (auto simp: number_end_def spaces_def jspace_def number_char_def is_digit_def)
  have "jread fl m (jprint p q k l v @ r) = Some (v, r)" if "length (jprint p q k l v) \<le> m" for m
  proof -
    from reads [OF assms(1-3)] have "reads_value p q k fl m" by blast
    from this [unfolded reads_value_def, rule_format, of v "[]" r l] that stop assms(4,5) show ?thesis
      by (simp add: spaces_def)
  qed
  from this [of "length (jprint p q k l v @ r) + 1"] show ?thesis
    using skip_spaces [OF assms(6), of "[]"] by (simp add: json_text_value_def skip_def del: jread.simps)
qed

section \<open>The interface\<close>

lemma distinct_sort_key_fst [simp]: "distinct (map fst (sort_key fst d)) \<longleftrightarrow> distinct (map fst d)"
  by (simp add: distinct_map)

lemma distinct_keys_jnorm: "distinct_keys v \<Longrightarrow> distinct_keys (jnorm v)"
proof (induction v rule: jnorm.induct)
  case (3 d)
  then have "distinct (map fst (map (\<lambda>kv. (fst kv, jnorm (snd kv))) d))" by (simp add: comp_def)
  then have "distinct (map fst (sort_key fst (map (\<lambda>kv. (fst kv, jnorm (snd kv))) d)))" by (simp only: distinct_sort_key_fst)
  with 3 show ?case by auto
qed auto

text \<open>A value without floats and with distinct keys, and what a reader can return.\<close>

definition plain :: "pv \<Rightarrow> bool" where
  "plain v = (nofloat v \<and> distinct_keys v)"

fun json_value :: "pv \<Rightarrow> bool" where
  "json_value (PTup vs) = False"
| "json_value (PList vs) = (\<forall>v \<in> set vs. json_value v)"
| "json_value (PDict d) = (distinct (map fst d) \<and> (\<forall>kv \<in> set d. json_value (snd kv)))"
| "json_value v = True"

lemma json_value_distinct: "json_value v \<Longrightarrow> distinct_keys v"
  by (induction v rule: json_value.induct) auto

lemma json_value_normal: "json_value v \<Longrightarrow> nofloat v \<Longrightarrow> jnormal v"
  by (induction v rule: json_value.induct) auto

lemma jtext_jprint: "json_value v \<Longrightarrow> nofloat v \<Longrightarrow> jtext v = jprint (\<lambda>_. []) (\<lambda>_. '' '') '' '' l v"
  by (induction v arbitrary: l rule: json_value.induct) (auto cong: map_cong)

lemma dset_values: "snd ` set (dset d k v) \<subseteq> insert v (snd ` set d)"
  by (induction d k v rule: dset.induct) auto

lemma dmerge_values: "snd ` set (dmerge a b) \<subseteq> snd ` set a \<union> snd ` set b"
proof (induction b arbitrary: a)
  case (Cons x b)
  have "snd ` set (dmerge a (x # b)) \<subseteq> snd ` set (dset a (fst x) (snd x)) \<union> snd ` set b"
    using Cons [of "dset a (fst x) (snd x)"] by (simp add: dmerge_def)
  also have "\<dots> \<subseteq> snd ` set a \<union> snd ` set (x # b)" using dset_values [of a "fst x" "snd x"] by auto
  finally show ?case .
qed (simp add: dmerge_def)

lemma json_value_merged:
  assumes "\<forall>kv \<in> set d. json_value (snd kv)"
  shows "json_value (PDict (dmerge [] d))"
proof -
  have "json_value (snd kv)" if "kv \<in> set (dmerge [] d)" for kv
  proof -
    from that have "snd kv \<in> snd ` set d" using dmerge_values [of "[]" d] by auto
    with assms show ?thesis by auto
  qed
  then show ?thesis using distinct_dmerge [of "[]" d] by simp
qed

lemma jread_value:
  "jread fl n s = Some (v, r) \<Longrightarrow> json_value v"
  "jread_items fl n s = Some (vs, r) \<Longrightarrow> \<forall>v \<in> set vs. json_value v"
  "jread_members fl n s = Some (d, r) \<Longrightarrow> \<forall>kv \<in> set d. json_value (snd kv)"
proof (induction fl n s and fl n s and fl n s arbitrary: v r and vs r and d r rule: jread_jread_items_jread_members.induct)
  case (2 fl n s)
  have empty: "json_value (PDict [])" by simp
  from 2 show ?case
    by (auto simp: jread_number_def Let_def empty simp del: json_value.simps(3) intro!: json_value_merged
        split: list.splits if_splits option.splits)
qed (auto split: list.splits if_splits option.splits, fastforce)

text \<open>Without float literals no float is read.\<close>

lemma nofloat_merged: "\<forall>kv \<in> set d. nofloat (snd kv) \<Longrightarrow> nofloat (PDict (dmerge [] d))"
  using dmerge_values [of "[]" d] by fastforce

lemma jread_nofloat:
  "jread (\<lambda>_. None) n s = Some (v, r) \<Longrightarrow> nofloat v"
  "jread_items (\<lambda>_. None) n s = Some (vs, r) \<Longrightarrow> \<forall>v \<in> set vs. nofloat v"
  "jread_members (\<lambda>_. None) n s = Some (d, r) \<Longrightarrow> \<forall>kv \<in> set d. nofloat (snd kv)"
proof (induction "\<lambda>_ :: string. None :: (string \<times> int option) option" n s and "\<lambda>_ :: string. None :: (string \<times> int option) option" n s
    and "\<lambda>_ :: string. None :: (string \<times> int option) option" n s arbitrary: v r and vs r and d r rule: jread_jread_items_jread_members.induct)
  case (2 n s)
  have empty: "nofloat (PDict [])" by simp
  from 2 show ?case
    by (auto simp: jread_number_def Let_def empty simp del: nofloat.simps(4) intro!: nofloat_merged
        split: list.splits if_splits option.splits)
qed (auto split: list.splits if_splits option.splits, fastforce)

lemma json_text_nofloat: "json_text_value (\<lambda>_. None) s = Some v \<Longrightarrow> nofloat v"
  by (auto simp: json_text_value_def jread_nofloat(1) split: option.splits if_splits simp del: jread.simps)

locale json_reader =
  fixes loads :: "string \<Rightarrow> pv option"
  assumes loads_canonical: "plain v \<Longrightarrow> loads (canonical v) = Some (jnorm v)"
    and loads_indented: "plain v \<Longrightarrow> loads (jindent 0 v @ [CHR 0x0A]) = Some (jnorm v)"
    and loads_text: "json_value v \<Longrightarrow> nofloat v \<Longrightarrow> loads (jtext v) = Some v"
    and loads_value: "loads s = Some v \<Longrightarrow> json_value v"

interpretation text_value: json_reader "json_text_value fl" for fl
proof
  fix v :: pv
  assume v: "plain v"
  then have n: "jnormal (jnorm v)" "distinct_keys (jnorm v)" by (simp_all add: plain_def jnormal_jnorm distinct_keys_jnorm)
  have "canonical v = jprint (\<lambda>_. []) (\<lambda>_. []) [] 0 (jnorm v) @ []" using n by (simp add: canonical_enc enc_jprint)
  moreover have "json_text_value fl (jprint (\<lambda>_. []) (\<lambda>_. []) [] 0 (jnorm v) @ []) = Some (jnorm v)"
    by (rule jprint_read) (use n in \<open>simp_all add: spaces_def\<close>)
  ultimately show "json_text_value fl (canonical v) = Some (jnorm v)" by (simp only:)
  have "json_text_value fl (jprint pad pad '' '' 0 (jnorm v) @ [CHR 0x0A]) = Some (jnorm v)"
    by (rule jprint_read) (use n in \<open>simp_all add: spaces_def pad_def jspace_def list_all_iff\<close>)
  then show "json_text_value fl (jindent 0 v @ [CHR 0x0A]) = Some (jnorm v)"
    using v by (simp add: plain_def jindent_jprint)
next
  fix v :: pv
  assume v: "json_value v" "nofloat v"
  have "json_text_value fl (jprint (\<lambda>_. []) (\<lambda>_. '' '') '' '' 0 v @ []) = Some v"
    by (rule jprint_read) (use v in \<open>simp_all add: spaces_def jspace_def json_value_normal json_value_distinct\<close>)
  then show "json_text_value fl (jtext v) = Some v" using v by (simp add: jtext_jprint [of _ 0])
next
  fix s v
  assume "json_text_value fl s = Some v"
  then show "json_value v" by (auto simp: json_text_value_def jread_value(1) split: option.splits if_splits simp del: jread.simps)
qed

end
