(* ===== verification/Tools.thy ===== *)
theory Tools
  imports Environment Redaction JsonRead "HOL-Library.AList"
begin

text \<open>
  The tool layer, \<open>tools/runner.py\<close> and the wrappers over it (\<open>forge\<close>, \<open>cast\<close>, \<open>git\<close>,
  \<open>solc\<close>, \<open>halmos\<close>, \<open>medusa\<close>, \<open>echidna\<close>, \<open>slither\<close>, the registry and the Docker sandbox): how a
  command is run, what of it is recorded, and how its outcome is judged. The program that is started
  is the argument \<open>sh_exec\<close>, which may change the world \<open>'w\<close> in any way; the environment of the
  process, the clock and the measured seconds are arguments too. The files that the runner writes are
  returned as pairs of a path and a text.
\<close>

section \<open>Steps that can fail and change the world\<close>

type_synonym ('a, 's) act = "'s \<Rightarrow> 'a res \<times> 's"

definition abind :: "('a, 's) act \<Rightarrow> ('a \<Rightarrow> ('b, 's) act) \<Rightarrow> ('b, 's) act" where
  "abind m f = (\<lambda>s. case m s of (Inl e, s') \<Rightarrow> (Inl e, s') | (Inr x, s') \<Rightarrow> f x s')"

definition alift :: "'a res \<Rightarrow> ('a, 's) act" where
  "alift r = (\<lambda>s. (r, s))"

lemma abind_eq_Inr [exn_simps]: "abind m f s = (Inr y, t) \<longleftrightarrow> (\<exists>x s'. m s = (Inr x, s') \<and> f x s' = (Inr y, t))"
  by (auto simp: abind_def split: prod.splits sum.splits)

lemma alift_eq_Inr [exn_simps]: "alift r s = (Inr y, t) \<longleftrightarrow> r = Inr y \<and> t = s"
  by (auto simp: alift_def)

lemma abind_Inr [simp]: "m s = (Inr x, s') \<Longrightarrow> abind m f s = f x s'"
  by (simp add: abind_def)

section \<open>Lines\<close>

definition line_break :: "char \<Rightarrow> bool" where
  "line_break c = (let n = (of_char c :: nat) in (10 \<le> n \<and> n \<le> 13) \<or> (28 \<le> n \<and> n \<le> 30))"

function splitlines :: "string \<Rightarrow> string list" where
  "splitlines s = (if s = [] then [] else
     takeWhile (\<lambda>c. \<not> line_break c) s #
       (case dropWhile (\<lambda>c. \<not> line_break c) s of
          [] \<Rightarrow> []
        | c # r \<Rightarrow> if c = CHR 0x0D \<and> r \<noteq> [] \<and> hd r = CHR 0x0A then splitlines (tl r) else splitlines r))"
  by pat_completeness auto
termination
proof (relation "measure length")
  fix s :: string and c r
  assume "dropWhile (\<lambda>c. \<not> line_break c) s = c # r"
  then have "length r < length s" by (metis length_dropWhile_le less_le_trans length_Cons lessI)
  then show "(r, s) \<in> measure length" and "(tl r, s) \<in> measure length" by auto
qed simp

section \<open>The runner\<close>

definition DEFAULT_MAX_OUTPUT_BYTES :: int where
  "DEFAULT_MAX_OUTPUT_BYTES = 8 * 1024 * 1024"

definition SENSITIVE_ENV_MARKERS :: "string list" where
  "SENSITIVE_ENV_MARKERS = [''KEY'', ''TOKEN'', ''SECRET'', ''PASSWORD'', ''MNEMONIC'', ''PRIVATE'', ''CREDENTIAL'']"

record tool_result =
  tr_cmd :: "string list"
  tr_rc :: int
  tr_stdout :: string
  tr_stderr :: string
  tr_secs :: pv
  tr_artifact_path :: "string option"
  tr_record_path :: "string option"

definition path_name :: "string \<Rightarrow> string" where
  "path_name p = (let parts = path_parts p in if parts = [] then [] else last parts)"

definition safe_name :: "string list \<Rightarrow> string" where
  "safe_name argv =
     (let joined = join ''-'' (map path_name (take 2 argv)); token = (if joined = [] then ''tool'' else joined) in
      take 80 (map (\<lambda>ch. if is_alnum ch \<or> ch \<in> set ''._-'' then ch else CHR ''_'') token))"

definition TRUNCATION_MARKER :: string where
  "TRUNCATION_MARKER = [CHR 0x0A] @ ''...[truncated by l0vi0x runner]...'' @ [CHR 0x0A]"

definition truncate_output :: "string \<Rightarrow> int \<Rightarrow> string" where
  "truncate_output text limit =
     (let safe = redact text in
      if int (length safe) \<le> limit then safe
      else take (nat (max 0 (limit - int (length TRUNCATION_MARKER)))) safe @ TRUNCATION_MARKER)"

lemma size_redact_payload [simp]: "size (redact_payload v) = size v"
proof (induction v rule: redact_payload.induct)
  case (4 d)
  then have "size_list (size_prod (\<lambda>x. 0) size) (map (\<lambda>kv. (fst kv, redact_payload (snd kv))) d) =
      size_list (size_prod (\<lambda>x. 0) size) d"
    by (induction d) auto
  then show ?case by simp
qed (auto simp: size_list_conv_sum_list comp_def cong: map_cong)

text \<open>The result of \<open>redact_payload\<close> is taken apart once more, and its elements are redacted again.\<close>

function redact_for_persistence :: "pv \<Rightarrow> pv" where
  "redact_for_persistence v = (case redact_payload v of
     PStr s \<Rightarrow> PStr (replace_all s ''[REDACTED]'' ''<redacted>'')
   | PList vs \<Rightarrow> PList (map redact_for_persistence vs)
   | PTup vs \<Rightarrow> PTup (map redact_for_persistence vs)
   | PDict d \<Rightarrow> PDict (map (\<lambda>kv. (fst kv, redact_for_persistence (snd kv))) d)
   | w \<Rightarrow> w)"
  by pat_completeness auto
termination
proof (relation "measure size")
  fix v vs x
  assume "redact_payload v = PList vs" "x \<in> set vs"
  then have "size x < size (redact_payload v)" by (simp add: less_Suc_eq_le size_list_estimation')
  then show "(x, v) \<in> measure size" by simp
next
  fix v vs x
  assume "redact_payload v = PTup vs" "x \<in> set vs"
  then have "size x < size (redact_payload v)" by (simp add: less_Suc_eq_le size_list_estimation')
  then show "(x, v) \<in> measure size" by simp
next
  fix v d kv
  assume "redact_payload v = PDict d" "kv \<in> set d"
  then have "size (snd kv) < size (redact_payload v)" using size_snd_list [of kv d] by simp
  then show "(snd kv, v) \<in> measure size" by simp
qed simp

definition safe_env :: "(string \<times> string) list \<Rightarrow> (string \<times> string) list" where
  "safe_env env = map (\<lambda>(k, v). (k,
     if list_ex (contains (upper k)) SENSITIVE_ENV_MARKERS then ''<redacted>''
     else py_str (redact_for_persistence (PStr v)))) (sort_key fst env)"

text \<open>
  How a program ends: with a status and its outputs, without being found, at its time limit, or with
  another exception of \<open>subprocess.run\<close>, which nothing catches.
\<close>

datatype process = Exited int string string | NoBinary string | Expired "string option" "string option" | CannotStart exc

record 'w shell =
  sh_exec :: "string list \<Rightarrow> string option \<Rightarrow> (string \<times> string) list \<Rightarrow> string option \<Rightarrow> int \<Rightarrow> 'w \<Rightarrow> process \<times> 'w"
  sh_environ :: "(string \<times> string) list"
  sh_secs :: "'w \<Rightarrow> pv"
  sh_millis :: "'w \<Rightarrow> int"

record tool_request =
  tc_argv :: "string list"
  tc_cwd :: "string option"
  tc_env :: "(string \<times> string) list option"
  tc_timeout :: int
  tc_runs_dir :: "string option"
  tc_artifact :: "string option"
  tc_input :: "string option"
  tc_max_output :: int

definition tool_call :: "string list \<Rightarrow> string option \<Rightarrow> int \<Rightarrow> string option \<Rightarrow> tool_request" where
  "tool_call argv cwd timeout runs_dir = \<lparr>tc_argv = argv, tc_cwd = cwd, tc_env = None, tc_timeout = timeout,
     tc_runs_dir = runs_dir, tc_artifact = None, tc_input = None, tc_max_output = DEFAULT_MAX_OUTPUT_BYTES\<rparr>"

definition full_env :: "'w shell \<Rightarrow> tool_request \<Rightarrow> (string \<times> string) list" where
  "full_env S c = (case tc_env c of None \<Rightarrow> sh_environ S
     | Some env \<Rightarrow> fold (\<lambda>(k, v). AList.update k v) env (sh_environ S))"

fun process_result :: "string list \<Rightarrow> pv \<Rightarrow> process \<Rightarrow> tool_result res" where
  "process_result argv secs (Exited rc out err) = Inr \<lparr>tr_cmd = argv, tr_rc = rc, tr_stdout = out, tr_stderr = err,
     tr_secs = secs, tr_artifact_path = None, tr_record_path = None\<rparr>"
| "process_result argv secs (NoBinary m) = Inr \<lparr>tr_cmd = argv, tr_rc = 127, tr_stdout = [], tr_stderr = m,
     tr_secs = secs, tr_artifact_path = None, tr_record_path = None\<rparr>"
| "process_result argv secs (Expired out err) = Inr \<lparr>tr_cmd = argv, tr_rc = 124,
     tr_stdout = (case out of None \<Rightarrow> [] | Some s \<Rightarrow> s), tr_stderr = (case err of None \<Rightarrow> ''timeout'' | Some s \<Rightarrow> s),
     tr_secs = secs, tr_artifact_path = None, tr_record_path = None\<rparr>"
| "process_result argv secs (CannotStart e) = Inl e"

definition persisted :: "string option \<Rightarrow> pv" where
  "persisted s = (case s of None \<Rightarrow> PNone | Some t \<Rightarrow> redact_for_persistence (PStr t))"

definition env_pv :: "(string \<times> string) list \<Rightarrow> pv" where
  "env_pv env = PDict (map (\<lambda>(k, v). (k, PStr v)) env)"

definition record_name :: "'w shell \<Rightarrow> host \<Rightarrow> tool_request \<Rightarrow> 'w \<Rightarrow> string" where
  "record_name S H c w =
     (let digest_input = PDict [(''argv'', redact_payload (PList (map PStr (tc_argv c)))),
        (''cwd'', case tc_cwd c of None \<Rightarrow> PNone | Some d \<Rightarrow> PStr (redact d)),
        (''env'', env_pv (safe_env (full_env S c)))];
        digest = take 16 (hs_sha256 H (canonical digest_input)) in
      safe_name (tc_argv c) @ ''-'' @ digest @ ''-'' @ int_str (sh_millis S w) @ ''.json'')"

definition record_payload :: "'w shell \<Rightarrow> host \<Rightarrow> tool_request \<Rightarrow> tool_result \<Rightarrow> pdict" where
  "record_payload S H c r =
     [(''cmd'', redact_for_persistence (PList (map PStr (tr_cmd r)))), (''rc'', PInt (tr_rc r)), (''secs'', tr_secs r),
      (''cwd'', persisted (tc_cwd c)), (''env'', env_pv (safe_env (full_env S c))),
      (''env_sha256'', PStr (hs_sha256 H (canonical (PList (map (\<lambda>(k, v). PTup [PStr k, PStr v]) (sort_key fst (full_env S c))))))),
      (''artifact_path'', case tr_artifact_path r of Some (x # p) \<Rightarrow> persisted (Some (x # p)) | _ \<Rightarrow> PNone),
      (''stdout_truncated'', PStr (truncate_output (tr_stdout r) (tc_max_output c))),
      (''stderr_truncated'', PStr (truncate_output (tr_stderr r) (tc_max_output c))),
      (''stdin_sha256'', case tc_input c of None \<Rightarrow> PNone | Some s \<Rightarrow> PStr (hs_sha256 H s))]"

text \<open>\<open>run\<close>: the result, and the files that are written.\<close>

definition with_artifact :: "tool_request \<Rightarrow> tool_result \<Rightarrow> tool_result \<times> (string \<times> string) list" where
  "with_artifact c r = (case tc_artifact c of
     None \<Rightarrow> (r, [])
   | Some a \<Rightarrow> (r\<lparr>tr_artifact_path := Some a\<rparr>, [(a, truncate_output (tr_stdout r) (tc_max_output c))]))"

definition with_record :: "'w shell \<Rightarrow> host \<Rightarrow> tool_request \<Rightarrow> 'w \<Rightarrow> tool_result \<Rightarrow> tool_result \<times> (string \<times> string) list" where
  "with_record S H c w r = (case tc_runs_dir c of
     None \<Rightarrow> (r, [])
   | Some d \<Rightarrow> (let path = d @ ''/'' @ record_name S H c w in
       (r\<lparr>tr_record_path := Some path\<rparr>, [(path, jindent 0 (PDict (record_payload S H c r)))])))"

definition run_tool :: "'w shell \<Rightarrow> host \<Rightarrow> tool_request \<Rightarrow> 'w \<Rightarrow> (tool_result \<times> (string \<times> string) list) res \<times> 'w" where
  "run_tool S H c w =
     (if tc_argv c = [] \<or> [] \<in> set (tc_argv c) then
        (Inl (ValueError ''argv must be a non-empty sequence of non-empty strings''), w)
      else if tc_timeout c \<le> 0 then (Inl (ValueError ''timeout_s must be positive''), w)
      else if tc_max_output c \<le> 0 then (Inl (ValueError ''max_output_bytes must be positive''), w)
      else (case sh_exec S (tc_argv c) (tc_cwd c) (full_env S c) (tc_input c) (tc_timeout c) w of (p, w') \<Rightarrow>
        (ebind (process_result (tc_argv c) (sh_secs S w') p) (\<lambda>r0.
           case with_artifact c r0 of (r1, f1) \<Rightarrow>
           case with_record S H c w' r1 of (r2, f2) \<Rightarrow> Inr (r2, f1 @ f2)), w')))"

section \<open>Forge\<close>

record forge_report =
  fr_command :: "string list"
  fr_passed :: bool
  fr_returncode :: int
  fr_stdout :: string
  fr_stderr :: string
  fr_json_result :: pv
  fr_record_path :: "string option"

text \<open>\<open>_parse_json_lines\<close>: the JSON texts among the lines; null when there is none, the value when there is one.\<close>

definition parse_json_lines :: "(string \<Rightarrow> pv option) \<Rightarrow> string \<Rightarrow> pv" where
  "parse_json_lines loads text =
     (let rows = List.map_filter (\<lambda>l. let line = strip l in
        if startswith line ''{'' \<or> startswith line ''['' then loads line else None) (splitlines text)
      in case rows of [] \<Rightarrow> PNone | [r] \<Rightarrow> r | _ \<Rightarrow> PList rows)"

definition report_of :: "string list \<Rightarrow> pv \<Rightarrow> tool_result \<Rightarrow> forge_report" where
  "report_of argv parsed r = \<lparr>fr_command = argv, fr_passed = (tr_rc r = 0), fr_returncode = tr_rc r,
     fr_stdout = tr_stdout r, fr_stderr = tr_stderr r, fr_json_result = parsed, fr_record_path = tr_record_path r\<rparr>"

definition on_report :: "(tool_result \<Rightarrow> 'b) \<Rightarrow> (tool_result \<times> (string \<times> string) list) res \<times> 'w \<Rightarrow>
    ('b \<times> (string \<times> string) list) res \<times> 'w" where
  "on_report f x = (case x of (r, w) \<Rightarrow> (map_sum id (\<lambda>(t, files). (f t, files)) r, w))"

definition forge_build :: "'w shell \<Rightarrow> host \<Rightarrow> string \<Rightarrow> string \<Rightarrow> int \<Rightarrow> string option \<Rightarrow> string list \<Rightarrow> 'w \<Rightarrow>
    (forge_report \<times> (string \<times> string) list) res \<times> 'w" where
  "forge_build S H root forge_bin timeout runs_dir paths w =
     (let argv = [forge_bin, ''build'', ''--root'', root, ''--color'', ''never''] @ paths in
      on_report (report_of argv PNone) (run_tool S H (tool_call argv (Some root) timeout runs_dir) w))"

record forge_test_call =
  ft_root :: string
  ft_test_file :: string
  ft_test_name :: string
  ft_forge_bin :: string
  ft_timeout :: int
  ft_runs_dir :: "string option"
  ft_json :: bool
  ft_verbosity :: int
  ft_extra :: "string list"
  ft_env :: "(string \<times> string) list option"

definition forge_test :: "'w shell \<Rightarrow> host \<Rightarrow> (string \<Rightarrow> pv option) \<Rightarrow> forge_test_call \<Rightarrow> 'w \<Rightarrow>
    (forge_report \<times> (string \<times> string) list) res \<times> 'w" where
  "forge_test S H loads c w =
     (let argv = [ft_forge_bin c, ''test'', ''--root'', ft_root c, ''--match-path'', ft_test_file c, ''--match-test'', ft_test_name c]
        @ (if ft_json c then [''--json''] else [''--color'', ''never''])
        @ [''-'' @ replicate (nat (max 1 (ft_verbosity c))) (CHR ''v'')] @ ft_extra c in
      on_report (\<lambda>r. report_of argv (if ft_json c then parse_json_lines loads (tr_stdout r) else PNone) r)
        (run_tool S H ((tool_call argv (Some (ft_root c)) (ft_timeout c) (ft_runs_dir c))\<lparr>tc_env := ft_env c\<rparr>) w))"

definition inspect_storage_layout :: "'w shell \<Rightarrow> host \<Rightarrow> string \<Rightarrow> string \<Rightarrow> string \<Rightarrow> int \<Rightarrow> string option \<Rightarrow> 'w \<Rightarrow>
    (tool_result \<times> (string \<times> string) list) res \<times> 'w" where
  "inspect_storage_layout S H root contract forge_bin timeout runs_dir w =
     run_tool S H (tool_call [forge_bin, ''inspect'', contract, ''storage-layout'', ''--json'', ''--root'', root]
       (Some root) timeout runs_dir) w"

section \<open>The thin wrappers\<close>

type_synonym 'w tool_run = "(tool_result \<times> (string \<times> string) list) res \<times> 'w"

definition cast_call :: "'w shell \<Rightarrow> host \<Rightarrow> string \<Rightarrow> string \<Rightarrow> string \<Rightarrow> string \<Rightarrow> string list \<Rightarrow> int \<Rightarrow> string option \<Rightarrow>
    'w \<Rightarrow> 'w tool_run" where
  "cast_call S H cast_bin rpc_url dest signature args timeout runs_dir w =
     run_tool S H (tool_call ([cast_bin, ''call'', dest, signature] @ args @ [''--rpc-url'', rpc_url]) None timeout runs_dir) w"

definition cast_storage :: "'w shell \<Rightarrow> host \<Rightarrow> string \<Rightarrow> string \<Rightarrow> string \<Rightarrow> string \<Rightarrow> int \<Rightarrow> string option \<Rightarrow> 'w \<Rightarrow> 'w tool_run" where
  "cast_storage S H cast_bin rpc_url address slot timeout runs_dir w =
     run_tool S H (tool_call [cast_bin, ''storage'', address, slot, ''--rpc-url'', rpc_url] None timeout runs_dir) w"

definition cast_code :: "'w shell \<Rightarrow> host \<Rightarrow> string \<Rightarrow> string \<Rightarrow> string \<Rightarrow> int \<Rightarrow> string option \<Rightarrow> 'w \<Rightarrow> 'w tool_run" where
  "cast_code S H cast_bin rpc_url address timeout runs_dir w =
     run_tool S H (tool_call [cast_bin, ''code'', address, ''--rpc-url'', rpc_url] None timeout runs_dir) w"

text \<open>What a wrapper makes of a finished run: its own value or its own exception.\<close>

definition after_run :: "(tool_result \<Rightarrow> 'b res) \<Rightarrow> 'w tool_run \<Rightarrow> ('b \<times> (string \<times> string) list) res \<times> 'w" where
  "after_run f x = (case x of (r, w) \<Rightarrow> (ebind r (\<lambda>(t, files). ebind (f t) (\<lambda>b. Inr (b, files))), w))"

definition stderr_or :: "tool_result \<Rightarrow> string \<Rightarrow> string" where
  "stderr_or r dflt = (if strip (tr_stderr r) = [] then dflt else strip (tr_stderr r))"

definition failed_output :: "tool_result \<Rightarrow> exc" where
  "failed_output r = RuntimeError (if tr_stderr r = [] then tr_stdout r else tr_stderr r)"

definition rev_parse_head :: "'w shell \<Rightarrow> host \<Rightarrow> string \<Rightarrow> string \<Rightarrow> string option \<Rightarrow> 'w \<Rightarrow> (string \<times> (string \<times> string) list) res \<times> 'w" where
  "rev_parse_head S H git_bin root runs_dir w =
     after_run (\<lambda>r. if tr_rc r \<noteq> 0 \<or> strip (tr_stdout r) = [] then Inl (RuntimeError (stderr_or r ''git rev-parse HEAD failed''))
         else Inr (last (splitlines (strip (tr_stdout r)))))
       (run_tool S H (tool_call [git_bin, ''rev-parse'', ''HEAD''] (Some root) 30 runs_dir) w)"

definition set_version :: "'w shell \<Rightarrow> host \<Rightarrow> string \<Rightarrow> string \<Rightarrow> int \<Rightarrow> string option \<Rightarrow> 'w \<Rightarrow> 'w tool_run" where
  "set_version S H solc_select_bin version timeout runs_dir w =
     (if version = [] \<or> list_ex (\<lambda>c. c \<notin> set ''0123456789.'') version then (Inl (ValueError ''invalid Solidity version''), w)
      else run_tool S H (tool_call [solc_select_bin, ''use'', version] None timeout runs_dir) w)"

record sym_report =
  sy_status :: string
  sy_stdout :: string
  sy_stderr :: string

definition halmos_check :: "'w shell \<Rightarrow> host \<Rightarrow> string \<Rightarrow> string \<Rightarrow> string option \<Rightarrow> int \<Rightarrow> string option \<Rightarrow> 'w \<Rightarrow>
    (sym_report \<times> (string \<times> string) list) res \<times> 'w" where
  "halmos_check S H halmos_bin root test_name timeout runs_dir w =
     after_run (\<lambda>r. Inr \<lparr>sy_status = (if tr_rc r = 0 then ''pass'' else ''fail''), sy_stdout = tr_stdout r, sy_stderr = tr_stderr r\<rparr>)
       (run_tool S H (tool_call ([halmos_bin, ''--root'', root] @
          (case test_name of Some (c # n) \<Rightarrow> [''--function'', c # n] | _ \<Rightarrow> [])) (Some root) timeout runs_dir) w)"

record fuzz_report =
  fz_violations :: "pv list"
  fz_coverage :: pdict
  fz_raw :: pdict

definition medusa_fuzz :: "'w shell \<Rightarrow> host \<Rightarrow> (string \<Rightarrow> pv option) \<Rightarrow> string \<Rightarrow> string \<Rightarrow> string \<Rightarrow> int \<Rightarrow> string option \<Rightarrow> 'w \<Rightarrow>
    (fuzz_report \<times> (string \<times> string) list) res \<times> 'w" where
  "medusa_fuzz S H loads medusa_bin root config timeout runs_dir w =
     after_run (\<lambda>r. if tr_rc r \<noteq> 0 then Inl (failed_output r)
         else ebind (need_dict (case loads (tr_stdout r) of None \<Rightarrow> PDict [] | Some v \<Rightarrow> v)) (\<lambda>data.
           ebind (py_iter (dget_or data ''violations'' (PList []))) (\<lambda>violations.
           ebind (to_dict (dget_or data ''coverage'' (PDict []))) (\<lambda>coverage.
             Inr \<lparr>fz_violations = violations, fz_coverage = coverage, fz_raw = data\<rparr>))))
       (run_tool S H (tool_call [medusa_bin, ''fuzz'', ''--config'', config] (Some root) timeout runs_dir) w)"

definition echidna_fuzz :: "'w shell \<Rightarrow> host \<Rightarrow> string \<Rightarrow> string \<Rightarrow> string \<Rightarrow> int \<Rightarrow> string option \<Rightarrow> 'w \<Rightarrow>
    (fuzz_report \<times> (string \<times> string) list) res \<times> 'w" where
  "echidna_fuzz S H echidna_bin root config timeout runs_dir w =
     after_run (\<lambda>r. if tr_rc r \<noteq> 0 then Inl (failed_output r)
         else Inr \<lparr>fz_violations = [], fz_coverage = [], fz_raw = [(''stdout'', PStr (tr_stdout r))]\<rparr>)
       (run_tool S H (tool_call [echidna_bin, root, ''--config'', config] (Some root) timeout runs_dir) w)"

definition slither_analyze :: "'w shell \<Rightarrow> host \<Rightarrow> string \<Rightarrow> string \<Rightarrow> int \<Rightarrow> string option \<Rightarrow> 'w \<Rightarrow>
    (string \<times> (string \<times> string) list) res \<times> 'w" where
  "slither_analyze S H slither_bin root timeout runs_dir w =
     after_run (\<lambda>r. if tr_rc r \<noteq> 0 then Inl (failed_output r) else Inr (tr_stdout r))
       (run_tool S H (tool_call [slither_bin, root, ''--json'', ''-''] (Some root) timeout runs_dir) w)"

text \<open>The registry: the last specification of a name counts.\<close>

record tool_spec =
  ts_name :: string
  ts_binary :: string
  ts_timeout :: int

definition registry_spec :: "tool_spec list \<Rightarrow> string \<Rightarrow> tool_spec res" where
  "registry_spec specs name = (case find (\<lambda>s. ts_name s = name) (rev specs) of
     None \<Rightarrow> Inl (KeyError (str_repr (''unknown tool: '' @ name)))
   | Some s \<Rightarrow> Inr s)"

definition registry_execute :: "'w shell \<Rightarrow> host \<Rightarrow> tool_spec list \<Rightarrow> string \<Rightarrow> string \<Rightarrow> string list \<Rightarrow> string \<Rightarrow>
    (string \<times> string) list option \<Rightarrow> 'w \<Rightarrow> 'w tool_run" where
  "registry_execute S H specs audit_root name tail cwd env w =
     (case registry_spec specs name of
        Inl e \<Rightarrow> (Inl e, w)
      | Inr s \<Rightarrow> run_tool S H ((tool_call (ts_binary s # tail) (Some cwd) (ts_timeout s)
          (Some (audit_root @ ''/tool_runs'')))\<lparr>tc_env := env\<rparr>) w)"

text \<open>The Docker sandbox; \<open>repo\<close> is the resolved path of the repository.\<close>

definition sandbox_exec :: "'w shell \<Rightarrow> host \<Rightarrow> string \<Rightarrow> string \<Rightarrow> string list \<Rightarrow> string \<Rightarrow> (string \<times> string) list option \<Rightarrow>
    int \<Rightarrow> string option \<Rightarrow> 'w \<Rightarrow> 'w tool_run" where
  "sandbox_exec S H compose_file service command repo env timeout runs_dir w =
     (if command = [] then (Inl (ValueError ''sandbox command cannot be empty''), w)
      else run_tool S H ((tool_call ([''docker'', ''compose'', ''-f'', compose_file, ''run'', ''--rm'', service] @ command)
        (Some repo) timeout runs_dir)\<lparr>tc_env := Some (AList.update ''SANDBOX_TASK_DIR'' repo (case env of None \<Rightarrow> [] | Some e \<Rightarrow> e))\<rparr>) w)"

text \<open>The entry point of the sandbox: the exit status and the variables it refuses.\<close>

definition ALLOWED_ENV :: "string list" where
  "ALLOWED_ENV = [''PATH'', ''HOME'', ''FOUNDRY_PROFILE'', ''FOUNDRY_FUZZ_RUNS'', ''FOUNDRY_FUZZ_SEED'', ''FOUNDRY_VERBOSITY'',
     ''SOLC_VERSION'', ''GATE_URL'']"

definition leaked_env :: "string list \<Rightarrow> string list" where
  "leaked_env names = sort (filter (\<lambda>k. upper k \<notin> set ALLOWED_ENV \<and>
     list_ex (contains (upper k)) [''KEY'', ''TOKEN'', ''SECRET'', ''PASSWORD'', ''RPC'', ''MNEMONIC'']) names)"

definition entrypoint_main :: "string list \<Rightarrow> int" where
  "entrypoint_main names = (if leaked_env names \<noteq> [] then 77 else 0)"

section \<open>What is recorded\<close>

lemma truncate_bound:
  assumes "int (length TRUNCATION_MARKER) \<le> limit"
  shows "int (length (truncate_output text limit)) \<le> limit"
  using assms by (auto simp: truncate_output_def Let_def)

lemma safe_env_masks:
  "(k, v) \<in> set (safe_env env) \<Longrightarrow> m \<in> set SENSITIVE_ENV_MARKERS \<Longrightarrow> contains (upper k) m \<Longrightarrow> v = ''<redacted>''"
  by (auto simp: safe_env_def list_ex_iff)

lemma full_env_outer:
  "map_of (full_env S c) k = (case tc_env c of None \<Rightarrow> map_of (sh_environ S) k
     | Some env \<Rightarrow> (case map_of (rev env) k of None \<Rightarrow> map_of (sh_environ S) k | Some v \<Rightarrow> Some v))"
proof -
  have "map_of (fold (\<lambda>(k, v). AList.update k v) env d) k = (case map_of (rev env) k of None \<Rightarrow> map_of d k | Some v \<Rightarrow> Some v)"
    for env d :: "(string \<times> string) list"
    by (induction env arbitrary: d) (auto simp: update_conv' map_add_def split: option.splits)
  then show ?thesis by (simp add: full_env_def split: option.splits)
qed

end
