(* ===== verification/Replay.thy ===== *)
theory Replay
  imports FoundryConfig Derived Tools
begin

text \<open>
  \<open>chain/replay.py\<close>: the executor that runs a witness and its control under Forge and retains the
  evidence, and the coordinator that collects three or more such runs in fresh copies of the repository.

  The tree of a copy is its list of files, as in \<open>Environment\<close>; the programs that are started are the
  runner's argument and may change the tree. Directories without files, permissions and symbolic links
  are not modelled; the random part of a run directory's name, the resolution of a path and the parsers
  for JSON, TOML and YAML are arguments.
\<close>

section \<open>The tree of a copy\<close>

definition tree_text :: "string list \<Rightarrow> (string option, tree \<times> 'x) act" where
  "tree_text parts = (\<lambda>(t, x). (Inr (map_option universal_newlines (map_of t parts)), (t, x)))"

definition put_text :: "string list \<Rightarrow> string \<Rightarrow> (unit, tree \<times> 'x) act" where
  "put_text parts s = (\<lambda>(t, x). (Inr (), (AList.update parts s t, x)))"

text \<open>The files that the runner has written, by their path below the root of the copy.\<close>

definition add_files :: "string list \<Rightarrow> (string \<times> string) list \<Rightarrow> tree \<Rightarrow> tree" where
  "add_files root files t = fold (\<lambda>(p, s). AList.update (drop (length root) (path_parts p)) s) files t"

definition run_in :: "string list \<Rightarrow> (('b \<times> (string \<times> string) list), tree \<times> 'x) act \<Rightarrow> ('b, tree \<times> 'x) act" where
  "run_in root m = abind m (\<lambda>(b, files). \<lambda>(t, x). (Inr b, (add_files root files t, x)))"

section \<open>The executor\<close>

record 'x forge_world =
  fw_shell :: "(tree \<times> 'x) shell"
  fw_host :: host
  fw_loads :: "string \<Rightarrow> pv option"
  fw_toml :: "string \<Rightarrow> pdict option"
  fw_yaml :: "string \<Rightarrow> pv option"
  fw_ranked :: "pv list \<Rightarrow> pv list res"

record forge_executor =
  fe_forge_bin :: string
  fe_tool_runs :: string
  fe_env :: "(string \<times> string) list"
  fe_trace_schema :: "string option"
  fe_libraries :: "string list"
  fe_plans :: "string list"
  fe_policy :: "(string \<times> string option) option"

text \<open>\<open>_strip_wall_clock_duration\<close>.\<close>

lemma size_dpop: "kv \<in> set (dpop d k) \<Longrightarrow> size (snd kv) \<le> size_list (size_prod (\<lambda>x. 0) size) d"
  using size_snd_list [of kv d] by (auto simp: dpop_def)

function strip_wall_clock_duration :: "pv \<Rightarrow> pv" where
  "strip_wall_clock_duration (PDict d) =
     PDict (map (\<lambda>kv. (fst kv, strip_wall_clock_duration (snd kv))) (dpop d ''duration''))"
| "strip_wall_clock_duration (PList vs) = PList (map strip_wall_clock_duration vs)"
| "strip_wall_clock_duration PNone = PNone"
| "strip_wall_clock_duration (PBool b) = PBool b"
| "strip_wall_clock_duration (PInt i) = PInt i"
| "strip_wall_clock_duration (PFloat r n) = PFloat r n"
| "strip_wall_clock_duration (PStr s) = PStr s"
| "strip_wall_clock_duration (PTup vs) = PTup vs"
  by pat_completeness auto
termination
  by (relation "Wellfounded.measure size") (simp_all add: size_dpop less_Suc_eq_le size_list_estimation')

definition env_text :: "(string \<times> string) list \<Rightarrow> string \<Rightarrow> string option" where
  "env_text env k = (case map_of env k of Some (c # s) \<Rightarrow> Some (c # s) | _ \<Rightarrow> None)"

definition runtime_err :: "string \<Rightarrow> 'a res" where
  "runtime_err m = Inl (RuntimeError m)"

definition initial_environment :: "'x forge_world \<Rightarrow> forge_executor \<Rightarrow> witness \<Rightarrow> tree \<Rightarrow> (int \<times> int) res" where
  "initial_environment F E w t =
     (if w_witness_class w = Local_deployment then initial_block_env_from_config (fw_toml F) t
      else (case (map_of (fe_env E) ''L0VI0X_INITIAL_BLOCK'', map_of (fe_env E) ''L0VI0X_INITIAL_TIMESTAMP'') of
        (Some raw_block, Some raw_timestamp) \<Rightarrow>
          (case (int_literal raw_block, int_literal raw_timestamp) of
             (Some block, Some timestamp) \<Rightarrow> Inr (timestamp, block)
           | _ \<Rightarrow> runtime_err ''invalid replay initial block/timestamp'')
      | _ \<Rightarrow> runtime_err ''deployed_fork replay requires independently observed initial block/timestamp''))"

definition tool_version :: "'w shell \<Rightarrow> host \<Rightarrow> forge_executor \<Rightarrow> string \<Rightarrow> 'w \<Rightarrow> (string \<times> (string \<times> string) list) res \<times> 'w" where
  "tool_version S H E cwd w =
     after_run (\<lambda>r. if tr_rc r \<noteq> 0 \<or> strip (tr_stdout r) = [] then runtime_err (stderr_or r ''forge --version failed'')
         else Inr (strip (tr_stdout r)))
       (run_tool S H (tool_call [fe_forge_bin E, ''--version''] (Some cwd) 30 None) w)"

definition out_dir :: "nat \<Rightarrow> string list" where
  "out_dir index = [''artifacts'', ''run-'' @ nat_str index]"

text \<open>A tool under the copy's root, recorded in its directory of tool runs.\<close>

definition copy_tool :: "'x forge_world \<Rightarrow> forge_executor \<Rightarrow> string list \<Rightarrow> string list \<Rightarrow> (tool_result, tree \<times> 'x) act" where
  "copy_tool F E root argv = run_in root (run_tool (fw_shell F) (fw_host F)
     (tool_call argv (Some (path_text root)) 30 (Some (path_text (root @ [fe_tool_runs E])))))"

text \<open>The sanitized configuration replaces the project's, and is retained.\<close>

definition sanitize_step :: "'x forge_world \<Rightarrow> forge_executor \<Rightarrow> witness \<Rightarrow> nat \<Rightarrow> (unit, tree \<times> 'x) act" where
  "sanitize_step F E w index =
     abind (tree_text [''foundry.toml'']) (\<lambda>source.
     abind (alift (sanitize_foundry_config (fw_ranked F) (fw_toml F) (fw_yaml F)
       \<lparr>sz_compiler = w_compiler w, sz_gate_url = (case map_of (fe_env E) ''GATE_URL'' of None \<Rightarrow> [] | Some u \<Rightarrow> u),
        sz_policy = fe_policy E, sz_fuzz_runs = 256, sz_fuzz_seed = 1\<rparr> source)) (\<lambda>(cfg, text).
     abind (put_text [''foundry.toml''] text) (\<lambda>_.
       put_text (out_dir index @ [''sanitized-foundry.json'']) (jindent 0 (PDict cfg) @ [CHR 0x0A]))))"

definition build_step :: "'x forge_world \<Rightarrow> forge_executor \<Rightarrow> string list \<Rightarrow> nat \<Rightarrow> (bool, tree \<times> 'x) act" where
  "build_step F E root index =
     abind (run_in root (forge_build (fw_shell F) (fw_host F) (path_text root) (fe_forge_bin E) 900
       (Some (path_text (root @ [fe_tool_runs E]))) [])) (\<lambda>r.
     abind (put_text (out_dir index @ [''build.json'']) (jindent 0 (PDict [(''passed'', PBool (fr_passed r)),
       (''returncode'', PInt (fr_returncode r)), (''stdout'', PStr (redact (fr_stdout r))),
       (''stderr'', PStr (redact (fr_stderr r)))]) @ [CHR 0x0A])) (\<lambda>_.
       alift (if fr_passed r then Inr (fr_passed r)
         else runtime_err (''forge build failed on run '' @ nat_str index @ '': '' @
           (if fr_stderr r = [] then fr_stdout r else fr_stderr r)))))"

text \<open>One test under Forge, which must pass and answer with a JSON object.\<close>

definition test_step :: "'x forge_world \<Rightarrow> forge_executor \<Rightarrow> string list \<Rightarrow> witness \<Rightarrow> nat \<Rightarrow> string \<Rightarrow> string \<Rightarrow>
    (pdict, tree \<times> 'x) act" where
  "test_step F E root w index what name =
     abind (run_in root (forge_test (fw_shell F) (fw_host F) (fw_loads F)
       \<lparr>ft_root = path_text root, ft_test_file = w_test_file w, ft_test_name = name, ft_forge_bin = fe_forge_bin E,
        ft_timeout = 900, ft_runs_dir = Some (path_text (root @ [fe_tool_runs E])), ft_json = True, ft_verbosity = 5,
        ft_extra = [], ft_env = Some (fe_env E)\<rparr>)) (\<lambda>r.
       alift (if \<not> fr_passed r then
           runtime_err (''forge '' @ what @ '' failed on run '' @ nat_str index @ '': '' @
             (if fr_stderr r = [] then fr_stdout r else fr_stderr r))
         else (case fr_json_result r of
           PDict d \<Rightarrow> Inr d | _ \<Rightarrow> runtime_err (''Forge did not return JSON '' @ what @ '' results''))))"

definition trace_of :: "'x forge_world \<Rightarrow> forge_executor \<Rightarrow> witness \<Rightarrow> string \<Rightarrow> int \<Rightarrow> int \<Rightarrow> pv \<Rightarrow> pdict res" where
  "trace_of F E w name ts bl v =
     ebind (adapt_forge_test_json (fw_host F) v (w_test_file w) name ts bl) (\<lambda>envelope.
       extract_structured_trace (PDict envelope)
         (Some (case fe_trace_schema E of Some (c # s) \<Rightarrow> c # s | _ \<Rightarrow> CANONICAL_TRACE_SCHEMA)))"

text \<open>A canonical JSON text and the file with its digest.\<close>

definition put_hashed :: "'x forge_world \<Rightarrow> nat \<Rightarrow> string \<Rightarrow> string \<Rightarrow> (unit, tree \<times> 'x) act" where
  "put_hashed F index stem raw =
     abind (put_text (out_dir index @ [stem @ ''.json'']) raw) (\<lambda>_.
       put_text (out_dir index @ [stem @ ''.sha256'']) (hs_sha256 (fw_host F) raw @ [CHR 0x0A]))"

text \<open>\<open>_canonical_hash\<close>.\<close>

definition canonical_hash :: "host \<Rightarrow> pv \<Rightarrow> string" where
  "canonical_hash H v = hs_sha256 H (canonical v)"

text \<open>The control's result without its durations, retained canonically with its digest.\<close>

definition control_object :: "'x forge_world \<Rightarrow> pdict \<Rightarrow> pv res" where
  "control_object F d = (case fw_loads F (jtext (PDict d)) of
     None \<Rightarrow> Inl (JSONDecodeError ''Expecting value'')
   | Some v \<Rightarrow> Inr (strip_wall_clock_duration v))"

definition observe_versions :: "'x forge_world \<Rightarrow> forge_executor \<Rightarrow> string list \<Rightarrow> (pdict, tree \<times> 'x) act" where
  "observe_versions F E root = foldr (\<lambda>(name, binary) rest.
     abind (copy_tool F E root [binary, ''--version'']) (\<lambda>r.
     abind (alift (if tr_rc r \<noteq> 0 \<or> strip (tr_stdout r) = [] then
         runtime_err (stderr_or r (''cannot observe '' @ name @ '' version'')) else Inr ())) (\<lambda>_.
     abind rest (\<lambda>versions. alift (Inr ((name, PStr (strip (tr_stdout r))) # versions))))))
     [(''forge'', fe_forge_bin E), (''anvil'', ''anvil''), (''cast'', ''cast'')] (alift (Inr []))"

definition gas_price_of :: "tool_result \<Rightarrow> int res" where
  "gas_price_of r =
     (if tr_rc r \<noteq> 0 then runtime_err (stderr_or r ''cast gas-price failed'')
      else (case splitlines (strip (tr_stdout r)) of
        [] \<Rightarrow> Inl (IndexError ''list index out of range'')
      | l # ls \<Rightarrow>
          (let text = last (l # ls) in
           case (case int_literal text of Some n \<Rightarrow> Some n | None \<Rightarrow> parse_int text) of
             None \<Rightarrow> runtime_err (''invalid observed gas price: '' @ str_repr text)
           | Some n \<Rightarrow> if n < 0 then runtime_err ''negative gas price is impossible'' else Inr n)))"

definition observe_gas_price :: "'x forge_world \<Rightarrow> forge_executor \<Rightarrow> string list \<Rightarrow> (int, tree \<times> 'x) act" where
  "observe_gas_price F E root =
     (case (case env_text (fe_env E) ''L0VI0X_RPC_URL'' of Some u \<Rightarrow> Some u | None \<Rightarrow> env_text (fe_env E) ''GATE_URL'') of
        None \<Rightarrow> alift (runtime_err ''M1b economic replay requires a gated RPC URL for actual gas-price observation'')
      | Some url \<Rightarrow> abind (copy_tool F E root [''cast'', ''gas-price'', ''--rpc-url'', url]) (\<lambda>r. alift (gas_price_of r)))"

definition environment_record :: "tree_observation \<Rightarrow> pdict \<Rightarrow> int \<Rightarrow> int \<Rightarrow> int \<Rightarrow> string \<Rightarrow> pdict" where
  "environment_record ob versions ts bl gas env_hash =
     [(''observation'', PDict (observation_to_dict ob)), (''tool_versions'', PDict versions),
      (''initial_timestamp'', PInt ts), (''initial_block'', PInt bl), (''gas_price_wei'', PInt gas),
      (''environment_hash'', PStr env_hash)]"

text \<open>The observation of the tree, the tools and the gas price, and the environment hash over them.\<close>

definition environment_step :: "'x forge_world \<Rightarrow> forge_executor \<Rightarrow> string list \<Rightarrow> witness \<Rightarrow> nat \<Rightarrow> int \<Rightarrow> int \<Rightarrow>
    (string, tree \<times> 'x) act" where
  "environment_step F E root w index ts bl =
     abind (\<lambda>(t, x). (observe_tree (fw_host F) (fw_toml F) t (w_test_file w) (w_witness_class w) (fe_libraries E) (fe_plans E), (t, x))) (\<lambda>ob.
     abind (observe_versions F E root) (\<lambda>versions.
     abind (observe_gas_price F E root) (\<lambda>gas.
       let env_hash = environment_hash (fw_host F) ob w versions (Some ts) (Some bl) in
       abind (put_text (out_dir index @ [''environment.json''])
         (jindent 0 (PDict (environment_record ob versions ts bl gas env_hash)) @ [CHR 0x0A])) (\<lambda>_.
       abind (put_text (out_dir index @ [''environment.sha256'']) (env_hash @ [CHR 0x0A])) (\<lambda>_.
         alift (Inr env_hash))))))"

definition run_result :: "string list \<Rightarrow> nat \<Rightarrow> string \<Rightarrow> string \<Rightarrow> bool \<Rightarrow> pdict" where
  "run_result root index control_sha env_hash built =
     (let at = (\<lambda>name. PStr (path_text (root @ out_dir index @ [name]))) in
      [(''passed'', PBool True), (''trace_path'', at ''trace.json''), (''control_path'', at ''control.json''),
       (''control_trace_path'', at ''control-trace.json''), (''environment_path'', at ''environment.json''),
       (''control_sha256'', PStr control_sha), (''environment_hash'', PStr env_hash),
       (''artifact_dir'', PStr (path_text (root @ out_dir index))), (''build_passed'', PBool built)])"

text \<open>\<open>FoundryReplayExecutor.execute\<close>.\<close>

definition execute :: "'x forge_world \<Rightarrow> forge_executor \<Rightarrow> string list \<Rightarrow> witness \<Rightarrow> nat \<Rightarrow> (pdict, tree \<times> 'x) act" where
  "execute F E root w index =
     abind (sanitize_step F E w index) (\<lambda>_.
     abind (build_step F E root index) (\<lambda>built.
     abind (\<lambda>(t, x). (initial_environment F E w t, (t, x))) (\<lambda>(ts, bl).
     abind (test_step F E root w index ''witness'' (w_test_name w)) (\<lambda>result.
     abind (alift (trace_of F E w (w_test_name w) ts bl (PDict result))) (\<lambda>trace.
     abind (put_hashed F index ''trace'' (canonical (PDict trace))) (\<lambda>_.
     abind (test_step F E root w index ''control'' (w_control_test_name w)) (\<lambda>control.
     abind (alift (control_object F control)) (\<lambda>control_obj.
     abind (put_text (out_dir index @ [''control.json'']) (canonical control_obj)) (\<lambda>_.
     let control_sha = canonical_hash (fw_host F) control_obj in
     abind (put_text (out_dir index @ [''control.sha256'']) (control_sha @ [CHR 0x0A])) (\<lambda>_.
     abind (alift (trace_of F E w (w_control_test_name w) ts bl control_obj)) (\<lambda>control_trace.
     abind (put_hashed F index ''control-trace'' (canonical (PDict control_trace))) (\<lambda>_.
     abind (environment_step F E root w index ts bl) (\<lambda>env_hash.
       alift (Inr (run_result root index control_sha env_hash built)))))))))))))))"

section \<open>The coordinator\<close>

definition IGNORED_EXACT :: "string list" where
  "IGNORED_EXACT = [''.git'', ''.venv'', ''.mypy_cache'', ''.ruff_cache'', ''.pytest_cache'', ''__pycache__'', ''audits'',
     ''eval'', ''out'', ''cache'', ''tool_runs'', ''artifacts'', ''keys'']"

definition ignored_name :: "string \<Rightarrow> bool" where
  "ignored_name name =
     (name \<in> set IGNORED_EXACT \<or> list_ex (endswith name) [''.pyc'', ''.db'', ''.sqlite'', ''.sqlite3''] \<or>
      name = ''.env'' \<or> (startswith name ''.env.'' \<and> name \<noteq> ''.env.example''))"

definition copy_ignore :: "string list \<Rightarrow> string list" where
  "copy_ignore names = filter ignored_name names"

text \<open>\<open>shutil.copytree\<close> asks for the names in every directory on the way to a file.\<close>

definition copy_tree :: "tree \<Rightarrow> tree" where
  "copy_tree repo = filter (\<lambda>f. copy_ignore (fst f) = []) repo"

record replay_run =
  rr_index :: nat
  rr_passed :: bool
  rr_artifact_dir :: "string list"
  rr_trace_path :: "string list"
  rr_control_path :: "string list"
  rr_control_trace_path :: "string list"
  rr_environment_path :: "string list"
  rr_control_sha256 :: string
  rr_environment_hash :: string
  rr_structured :: trace_summary

record replay_collection =
  cl_witness_hash :: string
  cl_root :: "string list"
  cl_runs :: "replay_run list"
  cl_observed_records_sha256 :: string
  cl_trace_policy_sha256 :: string
  cl_control_sha256 :: string
  cl_environment_hash :: string

record coordinator =
  co_host :: host
  co_loads :: "string \<Rightarrow> pv option"
  co_repo :: tree
  co_replay_root :: "string list"
  co_catalog :: "(string \<times> string) list"
  co_policy :: pdict
  co_random :: "nat \<Rightarrow> string"
  co_resolve :: "string \<Rightarrow> string list"

type_synonym 'x executor = "string list \<Rightarrow> witness \<Rightarrow> nat \<Rightarrow> (pdict, tree \<times> 'x) act"

text \<open>\<open>CallableReplayExecutor\<close>: the executor of a function.\<close>

definition callable_execute :: "(string list \<Rightarrow> witness \<Rightarrow> nat \<Rightarrow> (pdict, tree \<times> 'x) act) \<Rightarrow> 'x executor" where
  "callable_execute fn = (\<lambda>root w index. fn root w index)"

definition REQUIRED :: "string list" where
  "REQUIRED = [''trace_path'', ''control_path'', ''control_trace_path'', ''environment_path'', ''control_sha256'', ''environment_hash'']"

text \<open>Whether a resolved path is a file of the fresh copy, and the text of one.\<close>

definition fresh_file :: "string list \<Rightarrow> tree \<Rightarrow> string list \<Rightarrow> bool" where
  "fresh_file copy t p = (is_relative_to p copy \<and> map_of t (drop (length copy) p) \<noteq> None)"

definition fresh_text :: "string list \<Rightarrow> tree \<Rightarrow> string list \<Rightarrow> string" where
  "fresh_text copy t p = (case map_of t (drop (length copy) p) of None \<Rightarrow> [] | Some b \<Rightarrow> universal_newlines b)"

definition value_err :: "string \<Rightarrow> 'a res" where
  "value_err m = Inl (ValueError m)"

text \<open>What the coordinator makes of the result of one run.\<close>

definition accept_run :: "coordinator \<Rightarrow> witness \<Rightarrow> nat \<Rightarrow> string list \<Rightarrow> tree \<Rightarrow> pdict \<Rightarrow> replay_run res" where
  "accept_run C w index copy t result =
     (let missing = filter (\<lambda>k. \<not> dhas result k) REQUIRED;
          text = (\<lambda>k. py_str (dget_or result k PNone)); at = (\<lambda>k. co_resolve C (text k)) in
      if missing \<noteq> [] then value_err (''replay executor did not return required artifacts: '' @ py_repr (PList (map PStr missing)))
      else (case find (\<lambda>p. \<not> fresh_file copy t p) (map at [''trace_path'', ''control_path'', ''control_trace_path'', ''environment_path'']) of
        Some p \<Rightarrow> value_err (''replay artifact is missing or outside fresh copy: '' @ path_text p)
      | None \<Rightarrow>
          ebind (case co_loads C (fresh_text copy t (at ''trace_path'')) of
            None \<Rightarrow> Inl (JSONDecodeError ''Expecting value'') | Some v \<Rightarrow> Inr v) (\<lambda>trace.
          ebind (parse_trace (co_host C) (co_loads C) (InObj trace) (co_catalog C)) (\<lambda>structured.
          ebind (enforce_time_block_limits structured (w_max_time_advance_s w) (w_max_block_advance w)) (\<lambda>_.
          ebind (enforce_cheatcode_policy structured (witness_class_value (w_witness_class w)) (co_policy C) (w_fork_block w)) (\<lambda>_.
            Inr \<lparr>rr_index = index, rr_passed = truthy (dget_or result ''passed'' PNone),
              rr_artifact_dir = (if dhas result ''artifact_dir'' then at ''artifact_dir'' else butlast (at ''trace_path'')),
              rr_trace_path = at ''trace_path'', rr_control_path = at ''control_path'',
              rr_control_trace_path = at ''control_trace_path'', rr_environment_path = at ''environment_path'',
              rr_control_sha256 = text ''control_sha256'', rr_environment_hash = text ''environment_hash'',
              rr_structured = structured\<rparr>))))))"

definition copy_root :: "coordinator \<Rightarrow> string list \<Rightarrow> nat \<Rightarrow> string list" where
  "copy_root C root index = root @ [''run-'' @ nat_str index @ ''-'' @ co_random C index, ''repo'']"

text \<open>The runs of a list of indices, each with the tree that it leaves behind.\<close>

fun collect_runs :: "coordinator \<Rightarrow> 'x executor \<Rightarrow> witness \<Rightarrow> string list \<Rightarrow> nat list \<Rightarrow> 'x \<Rightarrow> (replay_run \<times> tree) list res \<times> 'x" where
  "collect_runs C exec w root [] x = (Inr [], x)"
| "collect_runs C exec w root (i # is) x =
     (case exec (copy_root C root i) w i (copy_tree (co_repo C), x) of
        (Inl e, (t, x')) \<Rightarrow> (Inl e, x')
      | (Inr result, (t, x')) \<Rightarrow>
          (case accept_run C w i (copy_root C root i) t result of
             Inl e \<Rightarrow> (Inl e, x')
           | Inr run \<Rightarrow> (case collect_runs C exec w root is x' of
               (r, x'') \<Rightarrow> (map_sum id (Cons (run, t)) r, x''))))"

text \<open>The checks over all runs.\<close>

definition judge_runs :: "coordinator \<Rightarrow> witness \<Rightarrow> string list \<Rightarrow> replay_run list \<Rightarrow> replay_collection res" where
  "judge_runs C w root runs =
     (let H = co_host C; environments = remdups (map rr_environment_hash runs);
          records = map (\<lambda>r. summary_sha256 H (rr_structured r)) runs; controls = remdups (map rr_control_sha256 runs) in
      if \<not> list_all rr_passed runs then value_err ''not all replay runs passed''
      else if length environments \<noteq> 1 then value_err ''NONDETERMINISTIC_ENV''
      else if hd environments \<noteq> w_env_hash w then value_err ''ENV_DECLARATION_MISMATCH''
      else if length (remdups records) \<noteq> 1 then value_err ''NONDETERMINISTIC_TRACE''
      else if length controls \<noteq> 1 then value_err ''CONTROL_NONDETERMINISTIC''
      else Inr \<lparr>cl_witness_hash = witness_hash H w, cl_root = root, cl_runs = runs,
        cl_observed_records_sha256 = canonical_hash H (PList (map PStr records)),
        cl_trace_policy_sha256 = canonical_hash H (PDict [(''catalog'', PDict (map (\<lambda>(k, c). (k, PStr c)) (co_catalog C))),
          (''policy'', PDict (co_policy C))]),
        cl_control_sha256 = hd controls, cl_environment_hash = hd environments\<rparr>)"

text \<open>\<open>ReplayCoordinator.collect\<close>, with the trees of the copies that are retained.\<close>

definition collect :: "coordinator \<Rightarrow> 'x executor \<Rightarrow> witness \<Rightarrow> int \<Rightarrow> 'x \<Rightarrow> (replay_collection \<times> tree list) res \<times> 'x" where
  "collect C exec w n x =
     (if n < 3 then (value_err ''replay collection requires >=3 fresh runs'', x)
      else (let root = co_replay_root C @ [witness_hash (co_host C) w] in
        case collect_runs C exec w root [1 ..< nat n + 1] x of (r, x') \<Rightarrow>
          (ebind r (\<lambda>rs. ebind (judge_runs C w root (map fst rs)) (\<lambda>c. Inr (c, map snd rs))), x')))"

text \<open>The certifier's view of a collection.\<close>

definition certifier_view :: "replay_collection \<Rightarrow> collection" where
  "certifier_view c = \<lparr>rc_witness_hash = cl_witness_hash c, rc_root = cl_root c, rc_runs = length (cl_runs c),
     rc_observed_records_sha256 = cl_observed_records_sha256 c, rc_trace_policy_sha256 = cl_trace_policy_sha256 c,
     rc_control_sha256 = cl_control_sha256 c, rc_environment_hash = cl_environment_hash c\<rparr>"

section \<open>What a collection holds\<close>

text \<open>The executor produced this run, and the coordinator accepted it, in its own fresh copy.\<close>

definition run_from :: "coordinator \<Rightarrow> 'x executor \<Rightarrow> witness \<Rightarrow> string list \<Rightarrow> nat \<Rightarrow> replay_run \<times> tree \<Rightarrow> bool" where
  "run_from C exec w root i rt = (\<exists>x result x'. exec (copy_root C root i) w i (copy_tree (co_repo C), x) = (Inr result, (snd rt, x')) \<and>
     accept_run C w i (copy_root C root i) (snd rt) result = Inr (fst rt))"

lemma collect_runs_from:
  "collect_runs C exec w root is x = (Inr rs, x') \<Longrightarrow> list_all2 (run_from C exec w root) is rs"
proof (induction "is" arbitrary: x rs x')
  case (Cons i "is")
  from Cons.prems obtain result t x1 run r x2 where
    a: "exec (copy_root C root i) w i (copy_tree (co_repo C), x) = (Inr result, (t, x1))"
      "accept_run C w i (copy_root C root i) t result = Inr run" and
    r: "collect_runs C exec w root is x1 = (Inr r, x2)" "rs = (run, t) # r"
    by (auto split: prod.splits sum.splits simp: map_sum_def)
  from Cons.IH [OF r(1)] a show ?case by (auto simp: r(2) run_from_def)
qed simp

text \<open>What the coordinator has checked of an accepted run.\<close>

definition run_checked :: "coordinator \<Rightarrow> witness \<Rightarrow> string list \<Rightarrow> replay_run \<Rightarrow> tree \<Rightarrow> bool" where
  "run_checked C w copy r t =
     ((\<forall>p \<in> {rr_trace_path r, rr_control_path r, rr_control_trace_path r, rr_environment_path r}. fresh_file copy t p) \<and>
      (\<exists>trace. co_loads C (fresh_text copy t (rr_trace_path r)) = Some trace \<and>
         parse_trace (co_host C) (co_loads C) (InObj trace) (co_catalog C) = Inr (rr_structured r)) \<and>
      enforce_time_block_limits (rr_structured r) (w_max_time_advance_s w) (w_max_block_advance w) = Inr () \<and>
      enforce_cheatcode_policy (rr_structured r) (witness_class_value (w_witness_class w)) (co_policy C) (w_fork_block w) = Inr ())"

lemma accept_run_checked:
  assumes "accept_run C w i copy t result = Inr r"
  shows "rr_index r = i \<and> run_checked C w copy r t"
  using assms
  by (auto simp: accept_run_def Let_def ebind_eq_Inr find_None_iff run_checked_def value_err_def split: if_splits option.splits)

lemma remdups_one: "length (remdups xs) = 1 \<longleftrightarrow> xs \<noteq> [] \<and> (\<forall>x \<in> set xs. x = hd (remdups xs))"
proof
  assume "length (remdups xs) = 1"
  then obtain y where y: "remdups xs = [y]" by (cases "remdups xs") auto
  then have "set xs = {y}" by (metis set_remdups list.set empty_set)
  with y show "xs \<noteq> [] \<and> (\<forall>x \<in> set xs. x = hd (remdups xs))" by auto
next
  assume a: "xs \<noteq> [] \<and> (\<forall>x \<in> set xs. x = hd (remdups xs))"
  then have "set xs = {hd (remdups xs)}" by (auto simp: neq_Nil_conv)
  then show "length (remdups xs) = 1" by (simp add: length_remdups_card_conv)
qed

lemma judge_runs_agree:
  assumes "judge_runs C w root runs = Inr c"
  shows "cl_runs c = runs" "runs \<noteq> []" "cl_root c = root" "cl_witness_hash c = witness_hash (co_host C) w"
    "cl_environment_hash c = w_env_hash w"
    "\<forall>r \<in> set runs. rr_passed r \<and> rr_environment_hash r = w_env_hash w \<and> rr_control_sha256 r = cl_control_sha256 c \<and>
       summary_sha256 (co_host C) (rr_structured r) = summary_sha256 (co_host C) (rr_structured (hd runs))"
proof -
  let ?rec = "map (\<lambda>r. summary_sha256 (co_host C) (rr_structured r)) runs"
  from assms have passed: "list_all rr_passed runs" and env: "length (remdups (map rr_environment_hash runs)) = 1"
    "hd (remdups (map rr_environment_hash runs)) = w_env_hash w" and rec: "length (remdups ?rec) = 1"
    and ctl: "length (remdups (map rr_control_sha256 runs)) = 1"
    "cl_control_sha256 c = hd (remdups (map rr_control_sha256 runs))"
    and c: "cl_runs c = runs" "cl_root c = root" "cl_witness_hash c = witness_hash (co_host C) w" "cl_environment_hash c = w_env_hash w"
    by (auto simp: judge_runs_def Let_def value_err_def split: if_splits)
  show "cl_runs c = runs" "cl_root c = root" "cl_witness_hash c = witness_hash (co_host C) w" "cl_environment_hash c = w_env_hash w"
    by (rule c)+
  show ne: "runs \<noteq> []" using env(1) by auto
  then have "hd runs \<in> set runs" by simp
  then show "\<forall>r \<in> set runs. rr_passed r \<and> rr_environment_hash r = w_env_hash w \<and> rr_control_sha256 r = cl_control_sha256 c \<and>
       summary_sha256 (co_host C) (rr_structured r) = summary_sha256 (co_host C) (rr_structured (hd runs))"
    using passed env ctl rec unfolding remdups_one by (auto simp: list_all_iff)
qed

text \<open>
  C36: a replay collection that any executor lets through has at least three runs, in the order they were
  made, each in a fresh copy without private or generated files that retains its four artifacts; every
  run passed, and its trace stays within the witness's limits and obeys the cheatcode policy; all of
  them agree on the declared environment, on the control and on the observed records.
\<close>
theorem collection_sound:
  assumes "collect C exec w n x = (Inr (c, trees), x')"
  shows "3 \<le> length (cl_runs c) \<and> map rr_index (cl_runs c) = [1 ..< nat n + 1] \<and>
    list_all2 (\<lambda>r t. run_from C exec w (cl_root c) (rr_index r) (r, t) \<and>
      run_checked C w (copy_root C (cl_root c) (rr_index r)) r t) (cl_runs c) trees \<and>
    (\<forall>r \<in> set (cl_runs c). rr_passed r \<and> rr_environment_hash r = w_env_hash w \<and> rr_control_sha256 r = cl_control_sha256 c \<and>
       summary_sha256 (co_host C) (rr_structured r) = summary_sha256 (co_host C) (rr_structured (hd (cl_runs c)))) \<and>
    cl_environment_hash c = w_env_hash w \<and> cl_witness_hash c = witness_hash (co_host C) w"
proof -
  define root where "root = co_replay_root C @ [witness_hash (co_host C) w]"
  from assms obtain rs where n: "3 \<le> n" and rs: "collect_runs C exec w root [1 ..< nat n + 1] x = (Inr rs, x')"
    and judged: "judge_runs C w root (map fst rs) = Inr c" and trees: "trees = map snd rs"
    by (auto simp: collect_def Let_def root_def ebind_eq_Inr value_err_def split: if_splits prod.splits)
  note j = judge_runs_agree [OF judged]
  from collect_runs_from [OF rs] have made: "list_all2 (run_from C exec w root) [1 ..< nat n + 1] rs" .
  then have "list_all2 (\<lambda>i rt. rr_index (fst rt) = i \<and> run_from C exec w root i rt \<and> run_checked C w (copy_root C root i) (fst rt) (snd rt)) [1 ..< nat n + 1] rs"
    by (rule list_all2_mono) (auto simp: run_from_def dest: accept_run_checked)
  then have "map (rr_index \<circ> fst) rs = [1 ..< nat n + 1] \<and>
      list_all (\<lambda>rt. run_from C exec w root (rr_index (fst rt)) rt \<and>
        run_checked C w (copy_root C root (rr_index (fst rt))) (fst rt) (snd rt)) rs"
    by (induction rule: list_all2_induct) auto
  moreover have "length rs = nat n" using list_all2_lengthD [OF made] by (simp split: if_splits)
  ultimately show ?thesis using j n trees by (auto simp: list_all2_map1 list_all2_map2 list.rel_refl list_all_iff list_all2_same)
qed

section \<open>What a copy leaves out\<close>

lemma copy_tree_iff: "f \<in> set (copy_tree repo) \<longleftrightarrow> f \<in> set repo \<and> (\<forall>name \<in> set (fst f). \<not> ignored_name name)"
  by (auto simp: copy_tree_def copy_ignore_def filter_empty_conv)

lemma ignored_names: "list_all ignored_name [''keys'', ''eval'', ''audits'', ''artifacts'', ''tool_runs'', ''out'', ''.git'', ''.env'', ''.env.local'']"
  by (simp add: ignored_name_def IGNORED_EXACT_def)

lemma copy_excludes_private:
  assumes "(parts, s) \<in> set (copy_tree repo)" "name \<in> set parts"
  shows "name \<notin> set [''keys'', ''eval'', ''audits'', ''artifacts'', ''tool_runs'', ''out'', ''.git'', ''.env'', ''.env.local'']"
  using assms ignored_names unfolding copy_tree_iff list_all_iff by fastforce

end
