(* ===== verification/ReplayLoad.thy ===== *)
theory ReplayLoad
  imports Replay
begin

text \<open>
  The executor of \<open>chain/replay.py\<close> and the loader of \<open>verifier/derived.py\<close> together: the directory that
  a run has left behind is the one that the verifier reads, and it derives the same trace, control hash
  and environment hash from it. The verifier reads JSON with any reader of the interface \<open>json_reader\<close>.
\<close>

section \<open>Normal values\<close>

lemma sort_key_sorted [simp]: "sort_key f (sort_key f xs) = sort_key f xs"
  by (simp add: sort_key_id_if_sorted)

lemma jnorm_idem [simp]: "jnorm (jnorm v) = jnorm v"
proof (induction v rule: jnorm.induct)
  case (3 d)
  have "map (\<lambda>kv. (fst kv, jnorm (snd kv))) (sort_key fst (map (\<lambda>kv. (fst kv, jnorm (snd kv))) d)) =
      sort_key fst (map (\<lambda>kv. (fst kv, jnorm (snd kv))) d)"
    by (rule map_idI) (use 3 in auto)
  then show ?case by (simp del: map_map)
qed auto

lemma canonical_jnorm [simp]: "canonical (jnorm v) = canonical v"
  by (simp add: canonical_enc)

lemma canonical_cong: "jnorm v = jnorm w \<Longrightarrow> canonical v = canonical w"
  by (simp add: canonical_enc)

lemma sort_key_map_of:
  fixes d :: "(string \<times> 'b) list"
  assumes "distinct (map fst d)" "distinct (map fst e)" "map_of d = map_of e"
  shows "sort_key fst d = sort_key fst e"
proof (rule map_sorted_distinct_set_unique [of fst])
  have "set d = set e" using assms by (simp add: map_of_inject_set)
  then show "set (sort_key fst d) = set (sort_key fst e)" by simp
  have "inj_on fst (set e)" using assms(2) by (simp add: distinct_map)
  with \<open>set d = set e\<close> show "inj_on fst (set (sort_key fst d) \<union> set (sort_key fst e))" by simp
qed (use assms in simp_all)

lemma map_of_jnorm:
  fixes d :: pdict
  assumes "distinct (map fst d)"
  shows "map_of (sort_key fst (map (\<lambda>kv. (fst kv, jnorm (snd kv))) d)) k = map_option jnorm (map_of d k)"
proof -
  have "map_of (sort_key fst (map (\<lambda>kv. (fst kv, jnorm (snd kv))) d)) = map_of (map (\<lambda>kv. (fst kv, jnorm (snd kv))) d)"
    by (rule map_of_sort_key) (use assms in \<open>simp add: comp_def\<close>)
  moreover have "map_of (map (\<lambda>kv. (fst kv, jnorm (snd kv))) d) k = map_option jnorm (map_of d k)" by (induction d) auto
  ultimately show ?thesis by simp
qed

section \<open>The two strippers of durations\<close>

lemma strip_agrees: "strip_wall_clock_duration v = strip_duration v"
proof (induction v rule: strip_wall_clock_duration.induct)
  case (1 d)
  then show ?case by (induction d) (auto simp: dpop_def)
qed auto

lemma strip_items_id:
  "(\<And>kv. kv \<in> set d \<Longrightarrow> fst kv \<noteq> ''duration'' \<and> strip_duration (snd kv) = snd kv) \<Longrightarrow>
    concat (map (\<lambda>kv. if fst kv = ''duration'' then [] else [(fst kv, strip_duration (snd kv))]) d) = d"
  by (induction d) auto

lemma strip_duration_jnorm: "json_value v \<Longrightarrow> strip_duration (jnorm (strip_duration v)) = jnorm (strip_duration v)"
proof (induction v rule: strip_duration.induct)
  case (1 d)
  let ?D = "concat (map (\<lambda>kv. if fst kv = ''duration'' then [] else [(fst kv, strip_duration (snd kv))]) d)"
  let ?E = "sort_key fst (map (\<lambda>kv. (fst kv, jnorm (snd kv))) ?D)"
  have "fst kv \<noteq> ''duration'' \<and> strip_duration (snd kv) = snd kv" if "kv \<in> set ?E" for kv
    using that 1 by (auto split: if_splits)
  from strip_items_id [OF this] show ?case by (simp only: strip_duration.simps jnorm.simps)
qed auto

lemma strip_duration_json: "json_value v \<Longrightarrow> json_value (strip_duration v)"
proof (induction v rule: strip_duration.induct)
  case (1 d)
  let ?D = "concat (map (\<lambda>kv. if fst kv = ''duration'' then [] else [(fst kv, strip_duration (snd kv))]) d)"
  have keys: "map fst ?D = filter (\<lambda>k. k \<noteq> ''duration'') (map fst d)" by (induction d) auto
  from 1 have "distinct (map fst ?D)" unfolding keys by simp
  moreover from 1 have "\<forall>kv \<in> set ?D. json_value (snd kv)" by (auto split: if_splits)
  ultimately show ?case by (simp only: strip_duration.simps json_value.simps)
qed auto

lemma strip_duration_nofloat: "nofloat v \<Longrightarrow> nofloat (strip_duration v)"
  by (induction v rule: strip_duration.induct) auto

context json_reader
begin

lemma control_hash_kept:
  assumes "wo_loads W = loads" "json_value v" "nofloat v" "is_dict (strip_duration v)"
  shows "control_hash_from_raw W (canonical (strip_duration v)) = Inr (canonical_hash (wo_host W) (strip_duration v))"
proof -
  have "is_dict (jnorm (strip_duration v))" using assms(4) by (cases "strip_duration v") (auto simp: is_dict_def)
  moreover have "plain (strip_duration v)"
    using assms(2,3) by (simp add: plain_def strip_duration_nofloat strip_duration_json json_value_distinct)
  ultimately show ?thesis
    using assms(1,2) by (simp add: control_hash_from_raw_def json_loads_def json_hash_def canonical_hash_def
        strip_duration_jnorm loads_canonical)
qed

end

section \<open>The environment read back\<close>

definition dict_of :: "pv \<Rightarrow> pdict" where
  "dict_of v = (case v of PDict d \<Rightarrow> d | _ \<Rightarrow> [])"

definition normal_observation :: "tree_observation \<Rightarrow> tree_observation" where
  "normal_observation ob = ob\<lparr>to_compiler := dict_of (jnorm (PDict (to_compiler ob))),
     to_sanitized_config := dict_of (jnorm (PDict (to_sanitized_config ob))),
     to_harness_library_hashes := sort_key fst (to_harness_library_hashes ob)\<rparr>"

lemma sort_ptexts: "sort_key fst (map (\<lambda>(k, s). (k, PStr s)) d) = map (\<lambda>(k, s). (k, PStr s)) (sort_key fst d)"
  using sort_key_map_snd [of PStr d] by (simp add: case_prod_beta')

lemma jnorm_ptexts_sorted: "jnorm (ptexts d) = ptexts (sort_key fst d)"
  using sort_ptexts [of d] by (simp add: ptexts_def comp_def case_prod_beta')

lemma observation_from_normal:
  assumes "jnorm (PDict (observation_to_dict ob)) = PDict d"
  shows "observation_from_dict d = Inr (normal_observation ob)"
proof -
  have keys: "distinct (map fst (observation_to_dict ob))" by (simp add: observation_to_dict_def)
  have d: "map_of d k = map_option jnorm (map_of (observation_to_dict ob) k)" for k
    using assms map_of_jnorm [OF keys, of k] by auto
  have missing: "filter (\<lambda>k. \<not> dhas d k) observation_fields = []"
    by (simp add: observation_fields_def dhas_def d observation_to_dict_def)
  have libs: "map (\<lambda>kv. (fst kv, py_str (snd kv))) (map (\<lambda>(k, s). (k, PStr s)) e) = e" for e :: "(string \<times> string) list"
    by (induction e) auto
  show ?thesis
    unfolding observation_from_dict_def Let_def missing
    by (cases "to_deployment_plan_hash ob")
      (simp_all add: dget_or_def d observation_to_dict_def normal_observation_def to_dict_def dict_of_def jnorm_ptexts_sorted
        ptexts_def [of "sort_key _ _"] libs del: list.map map_map)
qed

lemma PDict_dict_of [simp]: "PDict (dict_of (jnorm (PDict d))) = jnorm (PDict d)"
  by (simp add: dict_of_def)

lemma jnorm_dset:
  assumes "distinct (map fst d)"
  shows "jnorm (PDict (dset (dict_of (jnorm (PDict d))) k v)) = jnorm (PDict (dset d k v))"
proof -
  let ?n = "map (\<lambda>kv. (fst kv, jnorm (snd kv)))" and ?e = "dict_of (jnorm (PDict d))"
  have e: "distinct (map fst ?e)" "\<And>i. map_of ?e i = map_option jnorm (map_of d i)"
  proof -
    have "?e = sort_key fst (?n d)" by (simp add: dict_of_def)
    moreover have "distinct (map fst (?n d))" using assms by (simp add: comp_def)
    ultimately show "distinct (map fst ?e)" by (simp only: distinct_sort_key_fst)
    show "map_of ?e i = map_option jnorm (map_of d i)" for i
      unfolding \<open>?e = sort_key fst (?n d)\<close> by (rule map_of_jnorm [OF assms])
  qed
  have fst_n: "map fst (?n x) = map fst x" for x :: pdict by simp
  have map_n: "map_of (?n x) i = map_option jnorm (map_of x i)" for x :: pdict and i by (induction x) auto
  have "sort_key fst (?n (dset ?e k v)) = sort_key fst (?n (dset d k v))"
  proof (rule sort_key_map_of)
    show "distinct (map fst (?n (dset ?e k v)))" unfolding fst_n by (rule distinct_dset [OF e(1)])
    show "distinct (map fst (?n (dset d k v)))" unfolding fst_n by (rule distinct_dset [OF assms])
    show "map_of (?n (dset ?e k v)) = map_of (?n (dset d k v))"
    proof
      fix i
      show "map_of (?n (dset ?e k v)) i = map_of (?n (dset d k v)) i"
        unfolding map_n map_of_dset using e(2) [of i] by (cases "map_of d i") auto
    qed
  qed
  then show ?thesis by simp
qed

lemma environment_hash_normal:
  assumes "distinct (map fst tools)"
  shows "environment_hash H (normal_observation ob) w (dict_of (jnorm (PDict tools))) ts bl = environment_hash H ob w tools ts bl"
proof -
  have b: "binding_payload (normal_observation ob) w = binding_payload ob w"
    by (simp add: binding_payload_def normal_observation_def)
  have "map (\<lambda>kv. (fst kv, jnorm (snd kv))) (env_payload (env_inputs_of H (normal_observation ob) w (dict_of (jnorm (PDict tools))) ts bl)) =
      map (\<lambda>kv. (fst kv, jnorm (snd kv))) (env_payload (env_inputs_of H ob w tools ts bl))"
    unfolding env_payload_def env_inputs_of_def b
    by (simp add: normal_observation_def jnorm_ptexts_sorted jnorm_dset [OF assms] del: jnorm.simps(3))
  then have "canonical (PDict (env_payload (env_inputs_of H (normal_observation ob) w (dict_of (jnorm (PDict tools))) ts bl))) =
      canonical (PDict (env_payload (env_inputs_of H ob w tools ts bl)))"
    by (intro canonical_cong) (simp only: jnorm.simps(3))
  then show ?thesis unfolding environment_hash_def compute_env_hash_def by (rule arg_cong)
qed

lemma map_of_dict_of:
  assumes "distinct (map fst d)"
  shows "map_of (dict_of (jnorm (PDict d))) k = map_option jnorm (map_of d k)"
  using map_of_jnorm [OF assms] by (simp add: dict_of_def)

context json_reader
begin

lemma load_environment_written:
  assumes W: "wo_loads W = loads" and plain: "plain (PDict (environment_record ob versions ts bl gas h))"
    and h: "h = environment_hash (wo_host W) ob w versions (Some ts) (Some bl)" and versions: "versions \<noteq> []" and sha: "strip env_sha = h"
  shows "load_environment W t w (jindent 0 (PDict (environment_record ob versions ts bl gas h)) @ [CHR 0x0A]) env_sha =
    ebind (check_declaration (wo_host W) (normal_observation ob) w (Some t))
      (\<lambda>_. Inr (dict_of (jnorm (PDict (environment_record ob versions ts bl gas h))), h))"
proof -
  let ?r = "environment_record ob versions ts bl gas h" and ?v = "dict_of (jnorm (PDict versions))"
  define e where "e = dict_of (jnorm (PDict ?r))"
  define d where "d = dict_of (jnorm (PDict (observation_to_dict ob)))"
  have keys: "distinct (map fst ?r)" by (simp add: environment_record_def)
  have get: "map_of e k = map_option jnorm (map_of ?r k)" for k unfolding e_def by (rule map_of_dict_of [OF keys])
  have tools: "distinct (map fst versions)" using plain by (simp add: plain_def environment_record_def)
  have ob: "observation_from_dict d = Inr (normal_observation ob)" by (rule observation_from_normal) (simp only: d_def PDict_dict_of)
  have tv: "?v \<noteq> []" using versions by (simp add: dict_of_def)
  have read: "json_loads W (jindent 0 (PDict ?r) @ [CHR 0x0A]) = Inr (PDict e)"
    unfolding json_loads_def W loads_indented [OF plain] e_def by (simp only: option.case PDict_dict_of)
  have hash: "environment_hash (wo_host W) (normal_observation ob) w ?v (Some ts) (Some bl) = h"
    unfolding h by (rule environment_hash_normal [OF tools])
  have vals: "dget_or e ''environment_hash'' (PStr []) = PStr h" "need e ''observation'' = Inr (PDict d)"
    "dget_or e ''tool_versions'' PNone = PDict ?v"
    "int_item e ''initial_timestamp'' = Inr ts" "int_item e ''initial_block'' = Inr bl"
    by (simp_all add: dget_or_def need_def int_item_def get del: PDict_dict_of jnorm.simps(3))
      (simp_all add: environment_record_def d_def dict_of_def)
  show ?thesis
    unfolding load_environment_def read e_def [symmetric]
    by (simp add: vals to_dict_def ob por_def tv hash sha del: PDict_dict_of jnorm.simps(3))
qed

end

section \<open>Paths\<close>

definition proper :: "string \<Rightarrow> bool" where
  "proper c = (c \<noteq> [] \<and> c \<noteq> ''.'' \<and> CHR ''/'' \<notin> set c)"

lemma path_parts_join:
  "list_all proper ps \<Longrightarrow> ps \<noteq> [] \<Longrightarrow> path_parts (join ''/'' ps @ ''/'' @ n) = ps @ path_parts n"
  by (induction "''/''" ps rule: join.induct) (auto simp: path_parts_def split_on_append proper_def)

lemma path_parts_text:
  assumes "list_all proper ps" "ps \<noteq> []"
  shows "path_parts (path_text ps @ ''/'' @ n) = ps @ path_parts n"
proof -
  have "path_parts (path_text ps @ ''/'' @ n) = path_parts (join ''/'' ps @ ''/'' @ n)"
    by (simp add: path_text_def path_parts_def)
  with path_parts_join [OF assms] show ?thesis by simp
qed

section \<open>What the steps of the executor leave alone\<close>

text \<open>Everything outside the outputs of the tools and the runner's records.\<close>

definition frame :: "tree \<Rightarrow> tree \<Rightarrow> bool" where
  "frame t t' = (\<forall>q. q \<noteq> [] \<longrightarrow> hd q \<notin> {''out'', ''cache'', ''tool_runs''} \<longrightarrow> map_of t' q = map_of t q)"

text \<open>Forge and Cast write below \<open>out\<close> and \<open>cache\<close> only.\<close>

definition tools_write_outputs :: "'x forge_world \<Rightarrow> bool" where
  "tools_write_outputs F = (\<forall>argv cwd env inp limit s p s'. sh_exec (fw_shell F) argv cwd env inp limit s = (p, s') \<longrightarrow>
     frame (fst s) (fst s'))"

lemma frame_refl [simp]: "frame t t"
  by (simp add: frame_def)

lemma frame_trans: "frame t u \<Longrightarrow> frame u v \<Longrightarrow> frame t v"
  by (simp add: frame_def)

lemma map_of_put: "map_of (AList.update k v t) q = (if q = k then Some v else map_of t q)"
  by (simp add: update_conv')

lemma record_frame:
  assumes "list_all proper root" "root \<noteq> []"
  shows "frame t (add_files root [(path_text (root @ [''tool_runs'']) @ ''/'' @ name, s)] t)"
proof -
  have "list_all proper (root @ [''tool_runs''])" using assms by (simp add: proper_def)
  from path_parts_text [OF this, of name]
  have "drop (length root) (path_parts (path_text (root @ [''tool_runs'']) @ ''/'' @ name)) = ''tool_runs'' # path_parts name"
    by simp
  then show ?thesis by (auto simp: add_files_def frame_def map_of_put)
qed

lemma run_tool_frame:
  assumes "tools_write_outputs F" "list_all proper root" "root \<noteq> []"
    and "run_tool (fw_shell F) H c s = (Inr (r, files), s')"
    and "tc_runs_dir c = Some (path_text (root @ [''tool_runs'']))" "tc_artifact c = None"
  shows "frame (fst s) (add_files root files (fst s'))"
proof -
  obtain p u where p: "sh_exec (fw_shell F) (tc_argv c) (tc_cwd c) (full_env (fw_shell F) c) (tc_input c) (tc_timeout c) s = (p, u)"
    by (rule prod.exhaust)
  with assms(4-6) obtain name body where f: "files = [(path_text (root @ [''tool_runs'']) @ ''/'' @ name, body)]" "s' = u"
    by (auto simp: run_tool_def with_artifact_def with_record_def Let_def ebind_eq_Inr split: if_splits)
  have "frame (fst s) (fst u)" using assms(1) p unfolding tools_write_outputs_def by blast
  then show ?thesis using record_frame [OF assms(2,3)] unfolding f by (rule frame_trans)
qed

lemma on_report_eq_Inr: "on_report g x = (Inr (b, files), s') \<longleftrightarrow> (\<exists>r. x = (Inr (r, files), s') \<and> b = g r)"
  by (cases x; cases "fst x") (auto simp: on_report_def)

text \<open>The world of a run and the root of its copy.\<close>

definition replay_setting :: "'x forge_world \<Rightarrow> forge_executor \<Rightarrow> string list \<Rightarrow> bool" where
  "replay_setting F E root = (tools_write_outputs F \<and> list_all proper root \<and> root \<noteq> [] \<and> fe_tool_runs E = ''tool_runs'')"

lemma run_in_frame:
  assumes "run_in root m s = (Inr b, s')" "\<And>b files u. m s = (Inr (b, files), u) \<Longrightarrow> frame (fst s) (add_files root files (fst u))"
  shows "frame (fst s) (fst s')"
  using assms by (auto simp: run_in_def abind_eq_Inr split: prod.splits)

lemma copy_tool_frame:
  assumes "replay_setting F E root" "copy_tool F E root argv s = (Inr r, s')"
  shows "frame (fst s) (fst s')"
  using assms unfolding copy_tool_def replay_setting_def
  by (intro run_in_frame [of root]) (auto intro!: run_tool_frame simp: tool_call_def)

lemma test_step_frame:
  assumes "replay_setting F E root" "test_step F E root w index what name s = (Inr d, s')"
  shows "frame (fst s) (fst s')"
proof -
  from assms(2) obtain r where r: "run_in root (forge_test (fw_shell F) (fw_host F) (fw_loads F)
       \<lparr>ft_root = path_text root, ft_test_file = w_test_file w, ft_test_name = name, ft_forge_bin = fe_forge_bin E,
        ft_timeout = 900, ft_runs_dir = Some (path_text (root @ [fe_tool_runs E])), ft_json = True, ft_verbosity = 5,
        ft_extra = [], ft_env = Some (fe_env E)\<rparr>) s = (Inr r, s')"
    unfolding test_step_def by (auto simp: abind_eq_Inr alift_eq_Inr)
  show ?thesis
  proof (rule run_in_frame [OF r])
    fix b files u
    assume "forge_test (fw_shell F) (fw_host F) (fw_loads F)
       \<lparr>ft_root = path_text root, ft_test_file = w_test_file w, ft_test_name = name, ft_forge_bin = fe_forge_bin E,
        ft_timeout = 900, ft_runs_dir = Some (path_text (root @ [fe_tool_runs E])), ft_json = True, ft_verbosity = 5,
        ft_extra = [], ft_env = Some (fe_env E)\<rparr> s = (Inr (b, files), u)"
    with assms(1) show "frame (fst s) (add_files root files (fst u))"
      unfolding forge_test_def replay_setting_def Let_def on_report_eq_Inr
      by (auto intro!: run_tool_frame simp: tool_call_def)
  qed
qed

section \<open>What the executor retains\<close>

text \<open>The files below \<open>artifacts\<close>.\<close>

definition evidence :: "tree \<Rightarrow> string list \<Rightarrow> string option" where
  "evidence t = (\<lambda>q. map_of t (''artifacts'' # q))"

lemma frame_evidence: "frame t t' \<Longrightarrow> evidence t' = evidence t"
  by (auto simp: frame_def evidence_def)

lemma frame_toml: "frame t t' \<Longrightarrow> map_of t' [''foundry.toml''] = map_of t [''foundry.toml'']"
  by (simp add: frame_def)

definition run_dir :: "nat \<Rightarrow> string" where
  "run_dir index = ''run-'' @ nat_str index"

lemma out_dir_eq: "out_dir index @ [name] = [''artifacts'', run_dir index, name]"
  by (simp add: out_dir_def run_dir_def)

lemma put_evidence:
  assumes "put_text [''artifacts'', d, name] v s = (Inr u, s')"
  shows "evidence (fst s') = (evidence (fst s))([d, name] \<mapsto> v)" "map_of (fst s') [''foundry.toml''] = map_of (fst s) [''foundry.toml'']"
  using assms by (auto simp: put_text_def evidence_def map_of_put split: prod.splits)

lemma put_toml:
  assumes "put_text [''foundry.toml''] v s = (Inr u, s')"
  shows "evidence (fst s') = evidence (fst s)" "map_of (fst s') [''foundry.toml''] = Some v"
  using assms by (auto simp: put_text_def evidence_def map_of_put split: prod.splits)

lemma put_hashed_evidence:
  assumes "put_hashed F index stem raw s = (Inr u, s')"
  shows "evidence (fst s') = (evidence (fst s))([run_dir index, stem @ ''.json''] \<mapsto> raw,
      [run_dir index, stem @ ''.sha256''] \<mapsto> hs_sha256 (fw_host F) raw @ [CHR 0x0A])"
    "map_of (fst s') [''foundry.toml''] = map_of (fst s) [''foundry.toml'']"
proof -
  from assms obtain u1 s1 where "put_text [''artifacts'', run_dir index, stem @ ''.json''] raw s = (Inr u1, s1)"
    "put_text [''artifacts'', run_dir index, stem @ ''.sha256''] (hs_sha256 (fw_host F) raw @ [CHR 0x0A]) s1 = (Inr u, s')"
    unfolding put_hashed_def out_dir_eq by (auto simp only: abind_eq_Inr)
  from put_evidence [OF this(1)] put_evidence [OF this(2)]
  show "evidence (fst s') = (evidence (fst s))([run_dir index, stem @ ''.json''] \<mapsto> raw,
      [run_dir index, stem @ ''.sha256''] \<mapsto> hs_sha256 (fw_host F) raw @ [CHR 0x0A])"
    "map_of (fst s') [''foundry.toml''] = map_of (fst s) [''foundry.toml'']" by simp_all
qed

lemma sanitize_evidence:
  assumes "sanitize_step F E w index s = (Inr u, s')"
  shows "\<exists>cfg text z source. sanitize_foundry_config (fw_ranked F) (fw_toml F) (fw_yaml F) z source = Inr (cfg, text) \<and>
    evidence (fst s') = (evidence (fst s))([run_dir index, ''sanitized-foundry.json''] \<mapsto> jindent 0 (PDict cfg) @ [CHR 0x0A]) \<and>
    map_of (fst s') [''foundry.toml''] = Some text"
proof -
  from assms obtain source s0 cfg body s1 u1 where a:
    "tree_text [''foundry.toml''] s = (Inr source, s0)"
    "sanitize_foundry_config (fw_ranked F) (fw_toml F) (fw_yaml F)
       \<lparr>sz_compiler = w_compiler w, sz_gate_url = (case map_of (fe_env E) ''GATE_URL'' of None \<Rightarrow> [] | Some u \<Rightarrow> u),
        sz_policy = fe_policy E, sz_fuzz_runs = 256, sz_fuzz_seed = 1\<rparr> source = Inr (cfg, body)"
    "put_text [''foundry.toml''] body s0 = (Inr u1, s1)"
    "put_text (out_dir index @ [''sanitized-foundry.json'']) (jindent 0 (PDict cfg) @ [CHR 0x0A]) s1 = (Inr u, s')"
    unfolding sanitize_step_def by (auto simp: abind_eq_Inr alift_eq_Inr)
  from a(1) have "fst s0 = fst s" by (auto simp: tree_text_def split: prod.splits)
  with a(2) put_toml [OF a(3)] put_evidence [OF a(4) [unfolded out_dir_eq]] show ?thesis by auto
qed

lemma build_frame:
  assumes "replay_setting F E root"
    and "run_in root (forge_build (fw_shell F) (fw_host F) (path_text root) (fe_forge_bin E) 900
       (Some (path_text (root @ [fe_tool_runs E]))) []) s = (Inr r, s')"
  shows "frame (fst s) (fst s')"
proof (rule run_in_frame [OF assms(2)])
  fix b files u
  assume "forge_build (fw_shell F) (fw_host F) (path_text root) (fe_forge_bin E) 900
     (Some (path_text (root @ [fe_tool_runs E]))) [] s = (Inr (b, files), u)"
  with assms(1) show "frame (fst s) (add_files root files (fst u))"
    unfolding forge_build_def replay_setting_def Let_def on_report_eq_Inr
    by (auto intro!: run_tool_frame simp: tool_call_def)
qed

lemma build_evidence:
  assumes "replay_setting F E root" "build_step F E root index s = (Inr b, s')"
  shows "\<exists>v. evidence (fst s') = (evidence (fst s))([run_dir index, ''build.json''] \<mapsto> v)"
    "map_of (fst s') [''foundry.toml''] = map_of (fst s) [''foundry.toml'']"
proof -
  from assms(2) obtain r s1 v u where r:
    "run_in root (forge_build (fw_shell F) (fw_host F) (path_text root) (fe_forge_bin E) 900
       (Some (path_text (root @ [fe_tool_runs E]))) []) s = (Inr r, s1)" and u: "put_text (out_dir index @ [''build.json'']) v s1 = (Inr u, s')"
    unfolding build_step_def by (auto simp: abind_eq_Inr alift_eq_Inr)
  note f = build_frame [OF assms(1) r]
  show "\<exists>v. evidence (fst s') = (evidence (fst s))([run_dir index, ''build.json''] \<mapsto> v)"
    "map_of (fst s') [''foundry.toml''] = map_of (fst s) [''foundry.toml'']"
    using put_evidence [OF u [unfolded out_dir_eq]] frame_evidence [OF f] frame_toml [OF f] by auto
qed

lemma versions_frame:
  assumes "replay_setting F E root" "observe_versions F E root s = (Inr vs, s')"
  shows "frame (fst s) (fst s')" "map fst vs = [''forge'', ''anvil'', ''cast'']" "plain (PDict vs)"
proof -
  from assms(2) obtain r1 s1 r2 s2 r3 where a: "copy_tool F E root [fe_forge_bin E, ''--version''] s = (Inr r1, s1)"
    "copy_tool F E root [''anvil'', ''--version''] s1 = (Inr r2, s2)" "copy_tool F E root [''cast'', ''--version''] s2 = (Inr r3, s')"
    and vs: "vs = [(''forge'', PStr (strip (tr_stdout r1))), (''anvil'', PStr (strip (tr_stdout r2))), (''cast'', PStr (strip (tr_stdout r3)))]"
    unfolding observe_versions_def by (auto simp: abind_eq_Inr alift_eq_Inr)
  show "frame (fst s) (fst s')"
    using copy_tool_frame [OF assms(1)] a by (blast intro: frame_trans)
  show "map fst vs = [''forge'', ''anvil'', ''cast'']" "plain (PDict vs)" by (simp_all add: vs plain_def)
qed

lemma gas_frame:
  assumes "replay_setting F E root" "observe_gas_price F E root s = (Inr n, s')"
  shows "frame (fst s) (fst s')"
  using assms(2) unfolding observe_gas_price_def
  by (auto simp: alift_eq_Inr abind_eq_Inr runtime_err_def split: option.splits dest!: copy_tool_frame [OF assms(1)])

text \<open>An observation of a tree whose configuration is plain is plain.\<close>

definition plain_config :: "(string \<Rightarrow> pdict option) \<Rightarrow> string option \<Rightarrow> bool" where
  "plain_config toml file = (\<forall>s d. file = Some s \<longrightarrow> toml (universal_newlines s) = Some d \<longrightarrow> plain (PDict d))"

lemma plain_item: "plain (PDict d) \<Longrightarrow> map_of d k = Some v \<Longrightarrow> plain v"
  by (auto simp: plain_def dest!: map_of_SomeD)

lemma plain_dget_or: "plain (PDict d) \<Longrightarrow> plain dflt \<Longrightarrow> plain (dget_or d k dflt)"
  by (auto simp: dget_or_def plain_item split: option.splits)

lemma plain_get_get:
  assumes "get_get d k k2 dflt = Inr v" "plain (PDict d)" "plain dflt"
  shows "plain v"
proof -
  from assms(1) obtain e where e: "dget_or d k (PDict []) = PDict e" "v = dget_or e k2 dflt"
    by (auto simp: get_get_def split: pv.splits)
  have "plain (PDict e)" using plain_dget_or [OF assms(2), of "PDict []" k] by (simp add: e plain_def)
  with assms(3) show ?thesis by (simp add: e plain_dget_or)
qed

lemma compiler_plain: "observe_compiler toml t = Inr c \<Longrightarrow> plain (PDict c)"
  by (auto simp: observe_compiler_def ebind_eq_Inr Let_def env_err_def plain_def split: if_splits)

lemma library_keys:
  "emap (\<lambda>p. map_sum id (Pair p) (sha256_file H t p)) libs = Inr hs \<Longrightarrow> map fst hs = libs"
  by (induction libs arbitrary: hs) (auto simp: ebind_eq_Inr sha256_file_def map_sum_def split: sum.splits)

lemma plain_ptexts: "distinct (map fst d) \<Longrightarrow> plain (ptexts d)"
  by (auto simp: plain_def ptexts_def comp_def case_prod_beta')

lemma map_sum_Inr: "map_sum f id r = Inr y \<longleftrightarrow> r = Inr y"
  by (cases r) auto

lemma observe_tree_plain:
  assumes "observe_tree H toml t file class libs plans = Inr ob" "plain_config toml (map_of t [''foundry.toml''])" "distinct libs"
  shows "plain (PDict (observation_to_dict ob))"
proof -
  from assms(1) obtain raw profile hs c where raw: "read_foundry_toml toml t = Inr raw" and c: "observe_compiler toml t = Inr c"
    and p: "get_get raw ''profile'' ''default'' (PDict []) = Inr profile"
    and hs: "emap (\<lambda>p. map_sum id (Pair p) (sha256_file H t p)) libs = Inr hs"
    and ob: "to_compiler ob = c" "to_harness_library_hashes ob = hs"
    "to_sanitized_config ob = [(''profile'', profile), (''rpc_endpoints'', dget_or raw ''rpc_endpoints'' (PDict []))]"
    by (auto simp: observe_tree_def ebind_eq_Inr map_sum_Inr)
  from raw assms(2) have "plain (PDict raw)"
    by (auto simp: read_foundry_toml_def read_text_def read_bytes_def path_parts_def env_err_def map_sum_Inr plain_config_def
        ebind_eq_Inr split: option.splits)
  then have "plain profile" "plain (dget_or raw ''rpc_endpoints'' (PDict []))"
    using plain_get_get [OF p] plain_dget_or [of raw "PDict []"] by (simp_all add: plain_def)
  moreover have "plain (ptexts hs)" using library_keys [OF hs] assms(3) by (simp add: plain_ptexts)
  ultimately show ?thesis
    using compiler_plain [OF c] by (cases "to_deployment_plan_hash ob") (simp_all add: plain_def observation_to_dict_def ob)
qed

text \<open>Everything outside the outputs of the tools, the runner's records and the evidence.\<close>

definition same_sources :: "tree \<Rightarrow> tree \<Rightarrow> bool" where
  "same_sources t t' =
     (\<forall>q. q \<noteq> [] \<longrightarrow> hd q \<notin> {''out'', ''cache'', ''tool_runs'', ''artifacts''} \<longrightarrow> map_of t' q = map_of t q)"

lemma frame_sources: "frame t t' \<Longrightarrow> same_sources t t'"
  by (simp add: frame_def same_sources_def)

lemma sources_trans: "same_sources t u \<Longrightarrow> same_sources u v \<Longrightarrow> same_sources t v"
  by (simp add: same_sources_def)

lemma put_sources: "put_text (out_dir index @ [name]) v s = (Inr u, s') \<Longrightarrow> same_sources (fst s) (fst s')"
  by (auto simp: put_text_def same_sources_def map_of_put out_dir_eq split: prod.splits)

lemma environment_evidence:
  assumes "replay_setting F E root" "environment_step F E root w index ts bl s = (Inr h, s')"
  shows "\<exists>ob versions gas. observe_tree (fw_host F) (fw_toml F) (fst s) (w_test_file w) (w_witness_class w) (fe_libraries E) (fe_plans E) = Inr ob \<and>
    versions \<noteq> [] \<and> plain (PDict versions) \<and> h = environment_hash (fw_host F) ob w versions (Some ts) (Some bl) \<and>
    same_sources (fst s) (fst s') \<and>
    evidence (fst s') = (evidence (fst s))([run_dir index, ''environment.json''] \<mapsto>
        jindent 0 (PDict (environment_record ob versions ts bl gas h)) @ [CHR 0x0A],
      [run_dir index, ''environment.sha256''] \<mapsto> h @ [CHR 0x0A])"
proof -
  from assms(2) obtain ob versions s1 gas s2 u1 s3 u2 where
    ob: "observe_tree (fw_host F) (fw_toml F) (fst s) (w_test_file w) (w_witness_class w) (fe_libraries E) (fe_plans E) = Inr ob"
    and v: "observe_versions F E root s = (Inr versions, s1)" and g: "observe_gas_price F E root s1 = (Inr gas, s2)"
    and h: "h = environment_hash (fw_host F) ob w versions (Some ts) (Some bl)"
    and p1: "put_text (out_dir index @ [''environment.json'']) (jindent 0 (PDict (environment_record ob versions ts bl gas h)) @ [CHR 0x0A]) s2 = (Inr u1, s3)"
    and p2: "put_text (out_dir index @ [''environment.sha256'']) (h @ [CHR 0x0A]) s3 = (Inr u2, s')"
    unfolding environment_step_def by (cases s) (auto simp: abind_eq_Inr alift_eq_Inr Let_def simp del: jindent.simps)
  note vf = versions_frame [OF assms(1) v] and gf = gas_frame [OF assms(1) g]
  have "same_sources (fst s) (fst s')"
    using frame_sources [OF vf(1)] frame_sources [OF gf] put_sources [OF p1] put_sources [OF p2] by (blast intro: sources_trans)
  moreover have "versions \<noteq> []" using vf(2) by auto
  ultimately show ?thesis
    using ob h vf(3) put_evidence(1) [OF p1 [unfolded out_dir_eq]] put_evidence(1) [OF p2 [unfolded out_dir_eq]]
      frame_evidence [OF vf(1)] frame_evidence [OF gf] by (intro exI conjI) simp_all
qed

text \<open>All that a successful run leaves behind.\<close>

definition run_evidence :: "host \<Rightarrow> nat \<Rightarrow> string \<Rightarrow> string \<Rightarrow> pdict \<Rightarrow> pv \<Rightarrow> pdict \<Rightarrow> pdict \<Rightarrow> string \<Rightarrow> string list \<Rightarrow> string option" where
  "run_evidence H index conf build trace obj ctl record h = Map.empty
      ([run_dir index, ''sanitized-foundry.json''] \<mapsto> conf, [run_dir index, ''build.json''] \<mapsto> build,
       [run_dir index, ''trace.json''] \<mapsto> canonical (PDict trace),
       [run_dir index, ''trace.sha256''] \<mapsto> hs_sha256 H (canonical (PDict trace)) @ [CHR 0x0A],
       [run_dir index, ''control.json''] \<mapsto> canonical obj,
       [run_dir index, ''control.sha256''] \<mapsto> canonical_hash H obj @ [CHR 0x0A],
       [run_dir index, ''control-trace.json''] \<mapsto> canonical (PDict ctl),
       [run_dir index, ''control-trace.sha256''] \<mapsto> hs_sha256 H (canonical (PDict ctl)) @ [CHR 0x0A],
       [run_dir index, ''environment.json''] \<mapsto> jindent 0 (PDict record) @ [CHR 0x0A],
       [run_dir index, ''environment.sha256''] \<mapsto> h @ [CHR 0x0A])"

lemma execute_retains:
  assumes "replay_setting F E root" "execute F E root w index s = (Inr result, s')" "evidence (fst s) = Map.empty"
  shows "\<exists>conf build trace d0 d v ctl ob versions gas ts bl built t1. let obj = strip_wall_clock_duration v;
      h = environment_hash (fw_host F) ob w versions (Some ts) (Some bl) in
    result = run_result root index (canonical_hash (fw_host F) obj) h built \<and>
    (\<exists>t. initial_environment F E w t = Inr (ts, bl)) \<and>
    (\<exists>s1 s2. test_step F E root w index ''witness'' (w_test_name w) s1 = (Inr d0, s2)) \<and>
    (\<exists>s1 s2. test_step F E root w index ''control'' (w_control_test_name w) s1 = (Inr d, s2)) \<and>
    trace_of F E w (w_test_name w) ts bl (PDict d0) = Inr trace \<and> fw_loads F (jtext (PDict d)) = Some v \<and>
    trace_of F E w (w_control_test_name w) ts bl obj = Inr ctl \<and>
    observe_tree (fw_host F) (fw_toml F) t1 (w_test_file w) (w_witness_class w) (fe_libraries E) (fe_plans E) = Inr ob \<and>
    same_sources t1 (fst s') \<and> versions \<noteq> [] \<and> plain (PDict versions) \<and>
    evidence (fst s') = run_evidence (fw_host F) index conf build trace obj ctl (environment_record ob versions ts bl gas h) h"
proof -
  from assms(2) obtain u0 s0 built s1 ts bl d0 s2 trace u3 s3 control s4 obj u5 s5 u6 s6 ctl u7 s7 h where
    a: "sanitize_step F E w index s = (Inr u0, s0)" "build_step F E root index s0 = (Inr built, s1)"
      "test_step F E root w index ''witness'' (w_test_name w) s1 = (Inr d0, s2)"
      "initial_environment F E w (fst s1) = Inr (ts, bl)" "trace_of F E w (w_test_name w) ts bl (PDict d0) = Inr trace"
      "put_hashed F index ''trace'' (canonical (PDict trace)) s2 = (Inr u3, s3)"
      "test_step F E root w index ''control'' (w_control_test_name w) s3 = (Inr control, s4)"
      "control_object F control = Inr obj"
      "put_text (out_dir index @ [''control.json'']) (canonical obj) s4 = (Inr u5, s5)"
      "put_text (out_dir index @ [''control.sha256'']) (canonical_hash (fw_host F) obj @ [CHR 0x0A]) s5 = (Inr u6, s6)"
      "trace_of F E w (w_control_test_name w) ts bl obj = Inr ctl"
      "put_hashed F index ''control-trace'' (canonical (PDict ctl)) s6 = (Inr u7, s7)"
      "environment_step F E root w index ts bl s7 = (Inr h, s')"
      "result = run_result root index (canonical_hash (fw_host F) obj) h built"
    unfolding execute_def by (auto simp: abind_eq_Inr alift_eq_Inr Let_def split: prod.splits)
  from a(8) obtain v where v: "fw_loads F (jtext (PDict control)) = Some v" "obj = strip_wall_clock_duration v"
    by (auto simp: control_object_def split: option.splits)
  from sanitize_evidence [OF a(1)] obtain conf where e0: "evidence (fst s0) = (evidence (fst s))([run_dir index, ''sanitized-foundry.json''] \<mapsto> conf)"
    by blast
  from build_evidence(1) [OF assms(1) a(2)] obtain build where e1: "evidence (fst s1) = (evidence (fst s0))([run_dir index, ''build.json''] \<mapsto> build)" ..
  note e2 = frame_evidence [OF test_step_frame [OF assms(1) a(3)]] and e3 = put_hashed_evidence(1) [OF a(6)]
    and e4 = frame_evidence [OF test_step_frame [OF assms(1) a(7)]]
    and e5 = put_evidence(1) [OF a(9) [unfolded out_dir_eq]] and e6 = put_evidence(1) [OF a(10) [unfolded out_dir_eq]]
    and e7 = put_hashed_evidence(1) [OF a(12)]
  from environment_evidence [OF assms(1) a(13)] obtain ob versions gas where
    ob: "observe_tree (fw_host F) (fw_toml F) (fst s7) (w_test_file w) (w_witness_class w) (fe_libraries E) (fe_plans E) = Inr ob"
      "versions \<noteq> []" "plain (PDict versions)" "h = environment_hash (fw_host F) ob w versions (Some ts) (Some bl)"
      "same_sources (fst s7) (fst s')"
    and e8: "evidence (fst s') = (evidence (fst s7))([run_dir index, ''environment.json''] \<mapsto>
        jindent 0 (PDict (environment_record ob versions ts bl gas h)) @ [CHR 0x0A],
      [run_dir index, ''environment.sha256''] \<mapsto> h @ [CHR 0x0A])" by blast
  show ?thesis
    unfolding Let_def run_evidence_def
    by (rule exI [of _ conf], rule exI [of _ build], rule exI [of _ trace], rule exI [of _ d0], rule exI [of _ control], rule exI [of _ v],
        rule exI [of _ ctl], rule exI [of _ ob], rule exI [of _ versions], rule exI [of _ gas], rule exI [of _ ts],
        rule exI [of _ bl], rule exI [of _ built], rule exI [of _ "fst s7"], intro conjI)
      (use a v ob in \<open>(blast | simp only: e0 e1 e2 e3 e4 e5 e6 e7 e8 assms(3) append.simps simp_thms)+\<close>)
qed

section \<open>The loader finds what the executor left\<close>

text \<open>JSON is written in printable characters and the given white space.\<close>

definition printable :: "char \<Rightarrow> bool" where
  "printable c = (32 \<le> (of_char c :: nat) \<and> (of_char c :: nat) \<le> 126)"

lemma printable_hex_char: "d < 16 \<Longrightarrow> printable (hex_char d)"
  by (simp add: printable_def hex_char_def Let_def)

lemma printable_jstr: "list_all printable (jstr s)"
proof -
  have "of_char c div 16 < (16 :: nat)" "of_char c mod 16 < (16 :: nat)" for c
    using of_char_less_256 [of c] by (simp_all add: less_mult_imp_div_less)
  then have "list_all printable (jesc c)" for c
    by (auto simp: jesc_def Let_def dquote_def printable_hex_char) (auto simp: printable_def)
  then have "list_all printable (concat (map jesc s))" by (induction s) auto
  then show ?thesis by (simp add: jstr_def) (simp add: printable_def dquote_def)
qed

lemma printable_int_str: "list_all printable (int_str i)"
proof -
  have "printable c" if "is_digit c" for c using that by (simp add: is_digit_def printable_def Let_def)
  then have "list_all printable (nat_str n)" for n using nat_str_digits [of _ n] by (auto simp: list_all_iff)
  then show ?thesis by (simp add: int_str_def) (simp add: printable_def)
qed

lemma list_all_join: "list_all P s \<Longrightarrow> \<forall>x \<in> set xs. list_all P x \<Longrightarrow> list_all P (join s xs)"
  unfolding list_all_iff using join_set by blast

lemma jprint_chars:
  assumes "\<forall>c. printable c \<longrightarrow> P c" "\<forall>l. list_all P (p l)" "\<forall>l. list_all P (q l)" "list_all P k"
  shows "jnormal v \<Longrightarrow> list_all P (jprint p q k l v)"
proof (induction v arbitrary: l rule: jnormal.induct)
  case (3 vs)
  have comma: "P (CHR '','')" "P (CHR ''['')" "P (CHR '']'')" using assms(1) by (simp_all add: printable_def)
  with assms 3 have "list_all P (join ('','' @ q (l + 1)) (map (jprint p q k (l + 1)) vs))" by (intro list_all_join) auto
  with assms comma show ?case by simp
next
  case (4 d)
  have marks: "P (CHR '','')" "P (CHR ''{'')" "P (CHR ''}'')" "P (CHR '':'')" using assms(1) by (simp_all add: printable_def)
  have "list_all P (jstr s)" for s using printable_jstr [of s] assms(1) by (auto simp: list_all_iff)
  with assms 4 marks have "list_all P (join ('','' @ q (l + 1))
      (map (\<lambda>kv. jstr (fst kv) @ '':'' @ k @ jprint p q k (l + 1) (snd kv)) d))" by (intro list_all_join) auto
  with assms marks show ?case by simp
qed (use assms(1) printable_jstr printable_int_str in \<open>auto simp: list_all_iff printable_def\<close>)

lemma cr_json:
  assumes "plain v"
  shows "CHR 0x0D \<notin> set (canonical v)" "CHR 0x0D \<notin> set (jindent l v)"
proof -
  from assms have n: "nofloat v" "jnormal (jnorm v)" by (simp_all add: plain_def jnormal_jnorm)
  have all: "list_all (\<lambda>c. c \<noteq> CHR 0x0D) s \<Longrightarrow> CHR 0x0D \<notin> set s" for s by (auto simp: list_all_iff)
  show "CHR 0x0D \<notin> set (canonical v)" unfolding canonical_enc enc_jprint [OF n(2), of 0, symmetric]
    by (rule all, rule jprint_chars) (use n in \<open>auto simp: printable_def\<close>)
  show "CHR 0x0D \<notin> set (jindent l v)" unfolding jindent_jprint [OF n(1)]
    by (rule all, rule jprint_chars) (use n in \<open>auto simp: printable_def pad_def list_all_iff\<close>)
qed

lemma universal_newlines_id: "CHR 0x0D \<notin> set s \<Longrightarrow> universal_newlines s = s"
  by (induction s rule: universal_newlines.induct) auto

lemma remdups_single_set:
  assumes "set xs = {a}"
  shows "remdups xs = [a]"
proof -
  have "length (remdups xs) = 1" using assms by (simp add: length_remdups_card_conv)
  then obtain y where y: "remdups xs = [y]" by (auto simp: length_Suc_conv)
  with assms show ?thesis using set_remdups [of xs] by simp
qed

lemma artifact_dirs_single:
  assumes "\<And>q. evidence t q \<noteq> None \<Longrightarrow> \<exists>name. q = [run_dir i, name]" "evidence t [run_dir i, n] \<noteq> None"
  shows "artifact_dirs t = [run_dir i]"
proof -
  let ?ds = "concat (map (\<lambda>f. case fst f of
     a # d # _ \<Rightarrow> if a = ''artifacts'' \<and> startswith d ''run-'' then [d] else [] | _ \<Rightarrow> []) t)"
  have run: "startswith (run_dir i) ''run-''" by (simp add: run_dir_def)
  have "set ?ds = {run_dir i}"
  proof
    show "set ?ds \<subseteq> {run_dir i}"
    proof
      fix d assume "d \<in> set ?ds"
      then obtain f rest where f: "f \<in> set t" "fst f = ''artifacts'' # d # rest"
        by (auto split: list.splits if_splits)
      then have "evidence t (d # rest) \<noteq> None" by (metis evidence_def domIff dom_map_of_conv_image_fst imageI)
      from assms(1) [OF this] show "d \<in> {run_dir i}" by auto
    qed
    from assms(2) obtain v where "([''artifacts'', run_dir i, n], v) \<in> set t"
      by (auto simp: evidence_def dest: map_of_SomeD)
    with run show "{run_dir i} \<subseteq> set ?ds" by (auto intro!: bexI)
  qed
  then have "remdups ?ds = [run_dir i]" by (rule remdups_single_set)
  then show ?thesis by (simp only: artifact_dirs_def) simp
qed

text \<open>
  The executor, the coordinator and the verifier of one run: they share the host, the JSON reader and the
  tree that the run has left; the digests are stripped texts, a path of the evidence resolves to itself,
  nothing that is read has a float, and no carriage return is in a digest or a retained trace.
\<close>

definition replay_worlds :: "'x forge_world \<Rightarrow> forge_executor \<Rightarrow> coordinator \<Rightarrow> 'f world \<Rightarrow> string list \<Rightarrow> nat \<Rightarrow> tree \<Rightarrow> bool" where
  "replay_worlds F E C W root index t =
     (replay_setting F E root \<and> distinct (fe_libraries E) \<and> json_reader (fw_loads F) \<and>
      (\<forall>s v. fw_loads F s = Some v \<longrightarrow> nofloat v) \<and> plain_config (fw_toml F) (map_of t [''foundry.toml'']) \<and>
      (\<forall>s. strip (hs_sha256 (fw_host F) s @ [CHR 0x0A]) = hs_sha256 (fw_host F) s) \<and>
      (\<forall>s. CHR 0x0D \<notin> set (hs_sha256 (fw_host F) s)) \<and>
      (\<forall>name s. name \<in> {''trace.json'', ''control-trace.json''} \<longrightarrow> evidence t [run_dir index, name] = Some s \<longrightarrow> CHR 0x0D \<notin> set s) \<and>
      co_host C = fw_host F \<and> wo_host W = fw_host F \<and> co_loads C = fw_loads F \<and> wo_loads W = fw_loads F \<and>
      wo_tree W root = t \<and>
      (\<forall>name \<in> set ARTIFACTS. co_resolve C (path_text (root @ out_dir index @ [name])) = root @ out_dir index @ [name]))"

lemma replay_worldsD:
  assumes "replay_worlds F E C W root index t"
  shows "replay_setting F E root" "distinct (fe_libraries E)" "json_reader (fw_loads F)"
    "\<forall>s v. fw_loads F s = Some v \<longrightarrow> nofloat v" "plain_config (fw_toml F) (map_of t [''foundry.toml''])"
    "\<forall>s. strip (hs_sha256 (fw_host F) s @ [CHR 0x0A]) = hs_sha256 (fw_host F) s" "\<forall>s. CHR 0x0D \<notin> set (hs_sha256 (fw_host F) s)"
    "\<forall>name s. name \<in> {''trace.json'', ''control-trace.json''} \<longrightarrow> evidence t [run_dir index, name] = Some s \<longrightarrow> CHR 0x0D \<notin> set s"
    "co_host C = fw_host F" "wo_host W = fw_host F" "co_loads C = fw_loads F" "wo_loads W = fw_loads F" "wo_tree W root = t"
    "\<forall>name \<in> set ARTIFACTS. co_resolve C (path_text (root @ out_dir index @ [name])) = root @ out_dir index @ [name]"
  using assms by (simp_all only: replay_worlds_def simp_thms) (elim conjE, assumption)+

lemma ebind_assoc: "ebind (ebind r f) g = ebind r (\<lambda>x. ebind (f x) g)"
  by (cases r) auto

lemma artifact_text_evidence:
  assumes "evidence t [dir, name] = Some s" "CHR 0x0D \<notin> set s"
  shows "artifact_text t dir name = s" "map_of t [''artifacts'', dir, name] = Some s"
  using assms by (simp_all add: artifact_text_def evidence_def universal_newlines_id)

text \<open>The loader's view of the evidence.\<close>

lemma run_evidence_texts:
  assumes ev: "evidence t = run_evidence H index conf build trace obj ctl record h"
    and no_cr: "CHR 0x0D \<notin> set (canonical (PDict trace))" "CHR 0x0D \<notin> set (canonical (PDict ctl))" "plain obj" "plain (PDict record)"
      "\<forall>s. CHR 0x0D \<notin> set (hs_sha256 H s)" "CHR 0x0D \<notin> set h"
  shows "artifact_text t (run_dir index) ''trace.json'' = canonical (PDict trace)"
    "artifact_text t (run_dir index) ''trace.sha256'' = hs_sha256 H (canonical (PDict trace)) @ [CHR 0x0A]"
    "artifact_text t (run_dir index) ''control.json'' = canonical obj"
    "artifact_text t (run_dir index) ''control.sha256'' = canonical_hash H obj @ [CHR 0x0A]"
    "artifact_text t (run_dir index) ''control-trace.json'' = canonical (PDict ctl)"
    "artifact_text t (run_dir index) ''control-trace.sha256'' = hs_sha256 H (canonical (PDict ctl)) @ [CHR 0x0A]"
    "artifact_text t (run_dir index) ''environment.json'' = jindent 0 (PDict record) @ [CHR 0x0A]"
    "artifact_text t (run_dir index) ''environment.sha256'' = h @ [CHR 0x0A]"
    "find (\<lambda>n. map_of t [''artifacts'', run_dir index, n] = None) ARTIFACTS = None"
    "artifact_dirs t = [run_dir index]"
proof -
  have files: "artifact_text t (run_dir index) n = s" if "evidence t [run_dir index, n] = Some s" "CHR 0x0D \<notin> set s" for n s
    using artifact_text_evidence [OF that] by blast
  have json: "CHR 0x0D \<notin> set (canonical obj)" "CHR 0x0D \<notin> set (jindent 0 (PDict record))"
    using no_cr by (simp_all add: cr_json del: jindent.simps)
  note ev = ev [unfolded run_evidence_def]
  have m: "map_of t [''artifacts'', run_dir index, n] = evidence t [run_dir index, n]" for n by (simp add: evidence_def)
  show "artifact_text t (run_dir index) ''trace.json'' = canonical (PDict trace)"
    "artifact_text t (run_dir index) ''trace.sha256'' = hs_sha256 H (canonical (PDict trace)) @ [CHR 0x0A]"
    "artifact_text t (run_dir index) ''control.json'' = canonical obj"
    "artifact_text t (run_dir index) ''control.sha256'' = canonical_hash H obj @ [CHR 0x0A]"
    "artifact_text t (run_dir index) ''control-trace.json'' = canonical (PDict ctl)"
    "artifact_text t (run_dir index) ''control-trace.sha256'' = hs_sha256 H (canonical (PDict ctl)) @ [CHR 0x0A]"
    "artifact_text t (run_dir index) ''environment.json'' = jindent 0 (PDict record) @ [CHR 0x0A]"
    "artifact_text t (run_dir index) ''environment.sha256'' = h @ [CHR 0x0A]"
    by (rule files; use no_cr json in \<open>simp add: ev canonical_hash_def del: jindent.simps\<close>)+
  show "find (\<lambda>n. map_of t [''artifacts'', run_dir index, n] = None) ARTIFACTS = None"
    by (simp add: find_None_iff ARTIFACTS_def m ev del: jindent.simps)
  show "artifact_dirs t = [run_dir index]"
    by (rule artifact_dirs_single [of _ _ "''trace.json''"]) (auto simp: ev split: if_splits simp del: jindent.simps)
qed

lemma trace_of_dict: "trace_of F E w name ts bl v = Inr tr \<Longrightarrow> is_dict v"
  by (cases v) (auto simp: trace_of_def adapt_forge_test_json_def ebind_eq_Inr fmt_err_def is_dict_def)

text \<open>What the coordinator accepts of the executor's result.\<close>

lemma accept_run_result:
  assumes "accept_run C w index root t (run_result root index control_sha h built) = Inr run"
    and "\<forall>name \<in> set ARTIFACTS. co_resolve C (path_text (root @ out_dir index @ [name])) = root @ out_dir index @ [name]"
  shows "rr_control_sha256 run = control_sha" "rr_environment_hash run = h"
    "\<exists>v. co_loads C (artifact_text t (run_dir index) ''trace.json'') = Some v \<and>
       parse_trace (co_host C) (co_loads C) (InObj v) (co_catalog C) = Inr (rr_structured run)"
proof -
  have at: "co_resolve C (path_text (root @ out_dir index @ [''trace.json''])) = root @ [''artifacts'', run_dir index, ''trace.json'']"
    using assms(2) by (simp add: ARTIFACTS_def out_dir_def run_dir_def)
  show "rr_control_sha256 run = control_sha" "rr_environment_hash run = h"
    using assms(1) by (auto simp: accept_run_def Let_def ebind_eq_Inr value_err_def run_result_def dget_or_def split: if_splits option.splits)
  show "\<exists>v. co_loads C (artifact_text t (run_dir index) ''trace.json'') = Some v \<and>
       parse_trace (co_host C) (co_loads C) (InObj v) (co_catalog C) = Inr (rr_structured run)"
    using assms(1) unfolding accept_run_def Let_def
    by (auto simp: ebind_eq_Inr value_err_def run_result_def dget_or_def at fresh_text_def artifact_text_def split: if_splits option.splits)
qed


end
