(* ===== verification/ReplaySample.thy ===== *)
theory ReplaySample
  imports ReplayLoad
begin

text \<open>
  A replay that runs in the model: a shell that answers as Forge, Anvil and Cast would, a project of one
  file and a witness for it. The executor succeeds in every fresh copy of the project, and the witnesses of
  the properties of \<open>Replay\<close> and \<open>ReplayLoad\<close> are about its runs.
\<close>

section \<open>The tools\<close>

definition mini_result :: pv where
  "mini_result = PDict [(''status'', PStr ''Success''), (''kind'', PDict [(''Unit'', PDict [])]),
     (''traces'', PList [PList [PStr ''Execution'', PDict [(''arena'', PList [PDict
        [(''idx'', PInt 0), (''parent'', PNone), (''children'', PList []), (''logs'', PList []), (''ordering'', PList []),
         (''trace'', sample_node_trace (CHR ''a'') 0 True)]])]]]),
     (''logs'', PList [])]"

definition mini_forge :: "string \<Rightarrow> pdict" where
  "mini_forge name = [(''t:W'', PDict [(''test_results'', PDict [(name @ ''()'', mini_result)])])]"

definition mini_loads :: "string \<Rightarrow> pv option" where
  "mini_loads = json_text_value (\<lambda>_. None)"

definition mini_config :: pdict where
  "mini_config = [(''profile'', PDict [(''default'', PDict [(''solc_version'', PStr ''0.8.24''), (''optimizer'', PBool True),
     (''optimizer_runs'', PInt 200), (''evm_version'', PStr ''cancun'')])])]"

text \<open>Digests are all the same text: what the sample shows does not depend on them.\<close>

definition quiet_host :: host where
  "quiet_host = sample_host\<lparr>hs_sha256 := (\<lambda>_. ''h'')\<rparr>"

definition mini_answer :: "string list \<Rightarrow> string" where
  "mini_answer argv = (if ''test'' \<notin> set argv then ''1''
     else jtext (PDict (mini_forge (if ''n'' \<in> set argv then ''n'' else ''m''))))"

definition mini_shell :: "'w shell" where
  "mini_shell = \<lparr>sh_exec = (\<lambda>argv cwd env inp limit s. (Exited 0 (mini_answer argv) [], s)), sh_environ = [],
     sh_secs = (\<lambda>_. PInt 0), sh_millis = (\<lambda>_. 0)\<rparr>"

definition mini_world :: "unit forge_world" where
  "mini_world = \<lparr>fw_shell = mini_shell, fw_host = quiet_host, fw_loads = mini_loads, fw_toml = (\<lambda>_. Some mini_config),
     fw_yaml = (\<lambda>_. None), fw_ranked = Inr\<rparr>"

definition mini_executor :: forge_executor where
  "mini_executor = \<lparr>fe_forge_bin = ''forge'', fe_tool_runs = ''tool_runs'', fe_env = [(''GATE_URL'', ''http://g'')],
     fe_trace_schema = None, fe_libraries = [], fe_plans = [], fe_policy = None\<rparr>"

definition mini_witness :: witness where
  "mini_witness = (sample_witness ''h'')\<lparr>w_witness_class := Local_deployment, w_template_sha256 := ''h'',
     w_attack_body_sha256 := ''h'', w_wrapper_callsite_sha256 := ''h''\<rparr>"

definition mini_test :: string where
  "mini_test = ''// BEGIN ATTACK BODY x // END ATTACK BODY // BEGIN WRAPPER CALLSITE y // END WRAPPER CALLSITE''"

section \<open>Reading the answers\<close>

lemma mini_forge_json: "json_value (PDict (mini_forge x))" "nofloat (PDict (mini_forge x))"
  by (simp_all add: mini_forge_def mini_result_def sample_node_trace_def)

lemma mini_loads_text: "mini_loads (jtext (PDict (mini_forge x))) = Some (PDict (mini_forge x))"
  unfolding mini_loads_def by (rule text_value.loads_text) (rule mini_forge_json)+

lemma splitlines_single:
  assumes "s \<noteq> []" "list_all (\<lambda>c. \<not> line_break c) s"
  shows "splitlines s = [s]"
proof -
  from assms(2) have "takeWhile (\<lambda>c. \<not> line_break c) s = s" "dropWhile (\<lambda>c. \<not> line_break c) s = []"
    by (simp_all add: list_all_iff)
  then show ?thesis by (subst splitlines.simps) (simp only: assms(1) if_False list.case)
qed

lemma strip_braces: "strip (CHR ''{'' # s @ ''}'') = CHR ''{'' # s @ ''}''"
  by (simp add: strip_def is_space_def)

lemma mini_lines: "list_all (\<lambda>c. \<not> line_break c) (jtext (PDict (mini_forge x)))"
proof -
  have space: "\<not> line_break (CHR '' '')" by (simp add: line_break_def)
  show ?thesis unfolding jtext_jprint [OF mini_forge_json, of _ 0]
    by (rule jprint_chars) (use space mini_forge_json in \<open>auto simp: line_break_def printable_def Let_def json_value_normal simp del: jnormal.simps\<close>)
qed

lemma parse_one_line:
  assumes "splitlines s = [s]" "strip s = s" "startswith s ''{''" "loads s = Some v"
  shows "parse_json_lines loads s = v"
  using assms by (simp add: parse_json_lines_def List.map_filter_def del: splitlines.simps)

lemma mini_read: "parse_json_lines mini_loads (jtext (PDict (mini_forge x))) = PDict (mini_forge x)"
proof -
  obtain body where shape: "jtext (PDict (mini_forge x)) = CHR ''{'' # body @ ''}''" by (auto simp: mini_forge_def)
  show ?thesis
  proof (rule parse_one_line)
    show "mini_loads (jtext (PDict (mini_forge x))) = Some (PDict (mini_forge x))" by (rule mini_loads_text)
    show "splitlines (jtext (PDict (mini_forge x))) = [jtext (PDict (mini_forge x))]"
      by (rule splitlines_single [OF _ mini_lines]) (simp only: shape list.distinct not_False_eq_True)
  qed (simp_all only: shape strip_braces, simp)
qed

section \<open>The steps of a run\<close>

text \<open>What no step changes: the test file, and the configuration once it is there.\<close>

definition ready :: "tree \<times> unit \<Rightarrow> bool" where
  "ready s = (map_of (fst s) [''t''] = Some mini_test \<and> map_of (fst s) [''foundry.toml''] \<noteq> None)"

lemma ready_frame: "ready s \<Longrightarrow> frame (fst s) (fst s') \<Longrightarrow> ready s'"
  by (simp add: ready_def frame_def)

lemma ready_put: "ready s \<Longrightarrow> \<exists>s'. put_text (out_dir index @ [name]) v s = (Inr (), s') \<and> ready s'"
  by (cases s) (auto simp: ready_def put_text_def map_of_put out_dir_eq)

lemma run_tool_exited:
  assumes "sh_exec S (tc_argv c) (tc_cwd c) (full_env S c) (tc_input c) (tc_timeout c) s = (Exited rc body err, s')"
    "tc_argv c \<noteq> []" "[] \<notin> set (tc_argv c)" "0 < tc_timeout c" "0 < tc_max_output c"
  shows "\<exists>r files. run_tool S H c s = (Inr (r, files), s') \<and> tr_rc r = rc \<and> tr_stdout r = body \<and> tr_stderr r = err"
  using assms by (auto simp: run_tool_def with_artifact_def with_record_def Let_def split: option.splits prod.splits)

lemma mini_setting: "list_all proper root \<Longrightarrow> root \<noteq> [] \<Longrightarrow> replay_setting mini_world mini_executor root"
  by (simp add: replay_setting_def tools_write_outputs_def mini_world_def mini_shell_def mini_executor_def)

lemma mini_run:
  assumes "[] \<notin> set (tc_argv c)" "tc_argv c \<noteq> []" "0 < tc_timeout c" "0 < tc_max_output c"
  shows "\<exists>r files. run_tool (fw_shell mini_world) H c s = (Inr (r, files), s) \<and> tr_rc r = 0 \<and>
    tr_stdout r = mini_answer (tc_argv c) \<and> tr_stderr r = []"
  by (rule run_tool_exited) (use assms in \<open>simp_all add: mini_world_def mini_shell_def\<close>)

lemma path_text_names [simp]: "path_text root \<noteq> ''n''" "path_text root \<noteq> ''test''" "''n'' \<noteq> path_text root" "''test'' \<noteq> path_text root"
    "path_text root \<noteq> []" "[] \<noteq> path_text root"
  by (simp_all add: path_text_def)

lemma mini_test_step:
  assumes "x = ''n'' \<or> x = ''m''"
  shows "\<exists>s'. test_step mini_world mini_executor root mini_witness i what x s = (Inr (mini_forge x), s')"
proof -
  let ?c = "(tool_call ([''forge'', ''test'', ''--root'', path_text root, ''--match-path'', ''t'', ''--match-test'', x] @ [''--json''] @
      [''-'' @ replicate 5 (CHR ''v'')]) (Some (path_text root)) 900 (Some (path_text (root @ [''tool_runs'']))))\<lparr>tc_env := Some [(''GATE_URL'', ''http://g'')]\<rparr>"
  have answer: "mini_answer (tc_argv ?c) = jtext (PDict (mini_forge x))" using assms by (auto simp: mini_answer_def tool_call_def simp del: jtext.simps)
  obtain r files where r: "run_tool (fw_shell mini_world) (fw_host mini_world) ?c s = (Inr (r, files), s)" "tr_rc r = 0"
    "tr_stdout r = jtext (PDict (mini_forge x))"
    using mini_run [of ?c "fw_host mini_world" s] assms unfolding answer by (auto simp: tool_call_def DEFAULT_MAX_OUTPUT_BYTES_def simp del: jtext.simps)
  have loads: "fw_loads mini_world = mini_loads" by (simp add: mini_world_def)
  obtain report where t: "forge_test (fw_shell mini_world) (fw_host mini_world) (fw_loads mini_world)
       \<lparr>ft_root = path_text root, ft_test_file = w_test_file mini_witness, ft_test_name = x, ft_forge_bin = fe_forge_bin mini_executor,
        ft_timeout = 900, ft_runs_dir = Some (path_text (root @ [fe_tool_runs mini_executor])), ft_json = True, ft_verbosity = 5,
        ft_extra = [], ft_env = Some (fe_env mini_executor)\<rparr> s = (Inr (report, files), s)"
      "fr_passed report" "fr_json_result report = PDict (mini_forge x)"
    using r unfolding forge_test_def Let_def loads
    by (simp add: on_report_def report_of_def mini_executor_def mini_witness_def sample_witness_def mini_read del: jtext.simps)
  show ?thesis
    by (cases s) (use t in \<open>simp add: test_step_def run_in_def abind_def alift_def split_def\<close>)
qed

lemma mini_build_step: "\<exists>s'. build_step mini_world mini_executor root i s = (Inr True, s')"
proof -
  let ?c = "tool_call [''forge'', ''build'', ''--root'', path_text root, ''--color'', ''never''] (Some (path_text root)) 900
      (Some (path_text (root @ [''tool_runs''])))"
  obtain r files where r: "run_tool (fw_shell mini_world) (fw_host mini_world) ?c s = (Inr (r, files), s)" "tr_rc r = 0"
    using mini_run [of ?c "fw_host mini_world" s] by (auto simp: tool_call_def DEFAULT_MAX_OUTPUT_BYTES_def)
  then obtain report where t: "forge_build (fw_shell mini_world) (fw_host mini_world) (path_text root) (fe_forge_bin mini_executor) 900
       (Some (path_text (root @ [fe_tool_runs mini_executor]))) [] s = (Inr (report, files), s)" "fr_passed report"
    by (simp add: forge_build_def on_report_def report_of_def mini_executor_def)
  show ?thesis
    by (cases s) (use t in \<open>simp add: build_step_def run_in_def abind_def alift_def put_text_def split_def\<close>)
qed

lemma mini_copy_tool:
  assumes "argv \<noteq> []" "[] \<notin> set argv"
  shows "\<exists>r s'. copy_tool mini_world mini_executor root argv s = (Inr r, s') \<and> tr_rc r = 0 \<and> tr_stdout r = mini_answer argv"
proof -
  let ?c = "tool_call argv (Some (path_text root)) 30 (Some (path_text (root @ [fe_tool_runs mini_executor])))"
  obtain r files where r: "run_tool (fw_shell mini_world) (fw_host mini_world) ?c s = (Inr (r, files), s)" "tr_rc r = 0" "tr_stdout r = mini_answer argv"
    using mini_run [of ?c "fw_host mini_world" s] assms by (auto simp: tool_call_def DEFAULT_MAX_OUTPUT_BYTES_def)
  then show ?thesis by (cases s) (simp add: copy_tool_def run_in_def abind_def split_def)
qed

lemma mini_versions: "\<exists>vs s'. observe_versions mini_world mini_executor root s = (Inr vs, s')"
proof -
  have one: "strip ''1'' \<noteq> []" by (simp add: strip_def is_space_def)
  obtain r1 s1 where a: "copy_tool mini_world mini_executor root [''forge'', ''--version''] s = (Inr r1, s1)" "tr_rc r1 = 0" "tr_stdout r1 = ''1''"
    using mini_copy_tool [of "[''forge'', ''--version'']" root s] by (auto simp: mini_answer_def)
  obtain r2 s2 where b: "copy_tool mini_world mini_executor root [''anvil'', ''--version''] s1 = (Inr r2, s2)" "tr_rc r2 = 0" "tr_stdout r2 = ''1''"
    using mini_copy_tool [of "[''anvil'', ''--version'']" root s1] by (auto simp: mini_answer_def)
  obtain r3 s3 where c: "copy_tool mini_world mini_executor root [''cast'', ''--version''] s2 = (Inr r3, s3)" "tr_rc r3 = 0" "tr_stdout r3 = ''1''"
    using mini_copy_tool [of "[''cast'', ''--version'']" root s2] by (auto simp: mini_answer_def)
  have "fe_forge_bin mini_executor = ''forge''" by (simp add: mini_executor_def)
  then show ?thesis using a b c one by (cases s3) (simp add: observe_versions_def abind_def alift_def)
qed

lemma mini_gas: "\<exists>n s'. observe_gas_price mini_world mini_executor root s = (Inr n, s')"
proof -
  have url: "env_text (fe_env mini_executor) ''L0VI0X_RPC_URL'' = None" "env_text (fe_env mini_executor) ''GATE_URL'' = Some ''http://g''"
    by (simp_all add: env_text_def mini_executor_def)
  obtain r s' where r: "copy_tool mini_world mini_executor root [''cast'', ''gas-price'', ''--rpc-url'', ''http://g''] s = (Inr r, s')" "tr_rc r = 0" "tr_stdout r = ''1''"
    using mini_copy_tool [of "[''cast'', ''gas-price'', ''--rpc-url'', ''http://g'']" root s] by (auto simp: mini_answer_def)
  have "strip ''1'' = ''1''" by (simp add: strip_def is_space_def)
  moreover have "splitlines ''1'' = [''1'']" by (rule splitlines_single) (simp_all add: line_break_def)
  moreover have "int_literal ''1'' = Some 1" by code_simp
  ultimately have "gas_price_of r = Inr 1" using r by (simp add: gas_price_of_def del: splitlines.simps)
  with r url show ?thesis by (cases s') (simp add: observe_gas_price_def abind_def alift_def)
qed

lemma mini_sanitized:
  "\<exists>cfg conf. sanitize_foundry_config Inr (\<lambda>_. Some mini_config) (\<lambda>_. None)
     \<lparr>sz_compiler = [], sz_gate_url = ''http://g'', sz_policy = None, sz_fuzz_runs = 256, sz_fuzz_seed = 1\<rparr> None = Inr (cfg, conf)"
proof -
  let ?z = "\<lparr>sz_compiler = [], sz_gate_url = ''http://g'', sz_policy = None, sz_fuzz_runs = 256, sz_fuzz_seed = 1\<rparr>"
  have kept: "\<exists>kept. supplied_default (PDict []) = Inr kept" by (simp add: supplied_default_def ALLOWED_PROFILE_KEYS_def)
  obtain fixed where fixed: "overrides ?z (dict_or_empty (dget DEFAULT_SECURITY ''security'')) = Inr fixed"
    and rendered: "\<exists>conf. render_toml (configuration ''http://g'' fixed) = Inr conf"
    by (simp add: overrides_def DEFAULT_SECURITY_def dict_or_empty_def dget_def dget_or_def Let_def
        render_toml_def configuration_def need_def text_lines_def number_lines_def seed_hex_def seed_number_def)
  show ?thesis using kept rendered fixed by (auto simp: sanitize_eq_Inr read_source_def read_policy_def)
qed

lemma mini_sanitize_step:
  assumes "map_of t [''t''] = Some mini_test" "map_of t [''foundry.toml''] = None"
  shows "\<exists>s'. sanitize_step mini_world mini_executor mini_witness i (t, ()) = (Inr (), s') \<and> ready s'"
proof -
  obtain cfg conf where c: "sanitize_foundry_config Inr (\<lambda>_. Some mini_config) (\<lambda>_. None)
     \<lparr>sz_compiler = [], sz_gate_url = ''http://g'', sz_policy = None, sz_fuzz_runs = 256, sz_fuzz_seed = 1\<rparr> None = Inr (cfg, conf)"
    using mini_sanitized by blast
  then have "sanitize_step mini_world mini_executor mini_witness i (t, ()) =
      put_text (out_dir i @ [''sanitized-foundry.json'']) (jindent 0 (PDict cfg) @ [CHR 0x0A]) (AList.update [''foundry.toml''] conf t, ())"
    using assms(2) by (simp add: sanitize_step_def tree_text_def abind_def alift_def put_text_def mini_world_def mini_executor_def
        mini_witness_def sample_witness_def del: jindent.simps)
  moreover have "ready (AList.update [''foundry.toml''] conf t, ())" using assms by (simp add: ready_def map_of_put)
  ultimately show ?thesis using ready_put by simp
qed

lemma mini_initial:
  assumes "ready s"
  shows "initial_environment mini_world mini_executor mini_witness (fst s) = Inr (1, 1)"
proof -
  from assms obtain conf where "map_of (fst s) [''foundry.toml''] = Some conf" by (auto simp: ready_def)
  then have "default_profile (\<lambda>_. Some mini_config) (fst s) = Inr [(''solc_version'', PStr ''0.8.24''), (''optimizer'', PBool True),
     (''optimizer_runs'', PInt 200), (''evm_version'', PStr ''cancun'')]"
    by (simp add: default_profile_def read_foundry_toml_def read_text_def read_bytes_def path_parts_def get_get_def dget_or_def mini_config_def)
  then show ?thesis by (simp add: initial_environment_def mini_witness_def mini_world_def initial_block_env_from_config_def
      block_field_def dget_or_def)
qed

text \<open>The configuration and the marked regions are there, so the tree can be observed.\<close>

lemma mini_regions: "marked_region mini_test ''ATTACK BODY'' = Inr '' x ''" "marked_region mini_test ''WRAPPER CALLSITE'' = Inr '' y ''"
  by code_simp+

lemma mini_observe:
  assumes "ready s"
  shows "\<exists>ob. observe_tree quiet_host (\<lambda>_. Some mini_config) (fst s) ''t'' Local_deployment [] [] = Inr ob"
proof -
  from assms obtain conf where conf: "map_of (fst s) [''foundry.toml''] = Some conf" and test: "map_of (fst s) [''t''] = Some mini_test"
    by (auto simp: ready_def)
  have "CHR 0x0D \<notin> set mini_test" by (simp add: mini_test_def)
  then have body: "read_text (fst s) ''t'' = Inr mini_test" "sha256_file quiet_host (fst s) ''t'' = Inr ''h''"
    using test by (simp_all add: read_text_def read_bytes_def path_parts_def sha256_file_def quiet_host_def universal_newlines_id)
  have raw: "read_foundry_toml (\<lambda>_. Some mini_config) (fst s) = Inr mini_config"
    using conf by (simp add: read_foundry_toml_def read_text_def read_bytes_def path_parts_def)
  then have compiler: "\<exists>c. observe_compiler (\<lambda>_. Some mini_config) (fst s) = Inr c"
    by (simp add: observe_compiler_def default_profile_def get_get_def dget_or_def mini_config_def dhas_def)
  have profile: "\<exists>p. get_get mini_config ''profile'' ''default'' (PDict []) = Inr p" by (simp add: get_get_def mini_config_def dget_or_def)
  have remaps: "\<exists>r. (if map_of (fst s) [''remappings.txt''] = None then Inr [] else read_text (fst s) ''remappings.txt'') = (Inr r :: string res)"
    by (auto simp: read_text_def read_bytes_def path_parts_def)
  from compiler profile remaps show ?thesis
    by (auto simp: observe_tree_def raw body marked_region_sha256_def mini_regions plan_hash_def)
qed

lemma mini_environment_step:
  assumes "ready s"
  shows "\<exists>s'. environment_step mini_world mini_executor root mini_witness i 1 1 s = (Inr ''h'', s')"
proof -
  have w: "fw_host mini_world = quiet_host" "fw_toml mini_world = (\<lambda>_. Some mini_config)" "w_test_file mini_witness = ''t''"
    "w_witness_class mini_witness = Local_deployment" "fe_libraries mini_executor = []" "fe_plans mini_executor = []"
    by (simp_all add: mini_world_def mini_witness_def sample_witness_def mini_executor_def)
  have digest: "environment_hash quiet_host ob mini_witness vs ts bl = ''h''" for ob vs ts bl
    by (simp add: environment_hash_def compute_env_hash_def quiet_host_def)
  obtain t where s: "s = (t, ())" by (cases s) auto
  obtain ob where ob: "observe_tree quiet_host (\<lambda>_. Some mini_config) t ''t'' Local_deployment [] [] = Inr ob"
    using mini_observe [OF assms] by (auto simp: s)
  obtain vs s1 where vs: "observe_versions mini_world mini_executor root s = (Inr vs, s1)" using mini_versions by blast
  obtain n s2 where n: "observe_gas_price mini_world mini_executor root s1 = (Inr n, s2)" using mini_gas by blast
  show ?thesis
    using ob vs n unfolding environment_step_def
    by (cases s2) (simp add: s w digest abind_def alift_def Let_def put_text_def del: jindent.simps)
qed

section \<open>The traces\<close>

definition mini_trace :: "string \<Rightarrow> pdict res" where
  "mini_trace name = ebind (adapt_forge_test_json quiet_host (PDict (mini_forge name)) ''t'' name 1 1) (\<lambda>envelope.
     extract_structured_trace (PDict envelope) (Some CANONICAL_TRACE_SCHEMA))"

definition trace_accepted :: "string \<Rightarrow> bool" where
  "trace_accepted name = (case mini_trace name of
     Inl _ \<Rightarrow> False
   | Inr tr \<Rightarrow> nofloat (PDict tr) \<and> distinct_keys (PDict tr) \<and>
       (case parse_trace quiet_host (\<lambda>_. None) (InObj (jnorm (PDict tr))) CATALOG of
          Inl _ \<Rightarrow> False
        | Inr s \<Rightarrow> enforce_time_block_limits s 0 0 = Inr () \<and> enforce_cheatcode_policy s ''local_deployment'' POLICY (Some 7) = Inr ()))"

lemma mini_accepted: "trace_accepted ''n''" "trace_accepted ''m''"
  by code_simp+

section \<open>The executor runs\<close>

lemma mini_trace_of:
  "trace_of mini_world mini_executor mini_witness name 1 1 (PDict (mini_forge name)) = mini_trace name"
  by (simp add: trace_of_def mini_trace_def mini_world_def mini_executor_def mini_witness_def sample_witness_def)

lemma mini_control_object: "control_object mini_world (mini_forge ''m'') = Inr (PDict (mini_forge ''m''))"
proof -
  have "strip_wall_clock_duration (PDict (mini_forge ''m'')) = PDict (mini_forge ''m'')"
    by (simp add: strip_agrees mini_forge_def mini_result_def sample_node_trace_def)
  then show ?thesis by (simp add: control_object_def mini_world_def mini_loads_text del: jtext.simps)
qed

lemma ready_put_hashed:
  "ready s \<Longrightarrow> \<exists>s'. put_hashed F index stem raw s = (Inr (), s') \<and> ready s'"
  using ready_put [of s index "stem @ ''.json''" raw] ready_put unfolding put_hashed_def abind_def by fastforce

lemma ready_test_step:
  assumes "ready s" "list_all proper root" "root \<noteq> []" "x = ''n'' \<or> x = ''m''"
  shows "\<exists>s'. test_step mini_world mini_executor root mini_witness i what x s = (Inr (mini_forge x), s') \<and> ready s'"
  using mini_test_step [OF assms(4), of root i what s] test_step_frame [OF mini_setting [OF assms(2,3)]] ready_frame [OF assms(1)] by blast

lemma ready_build_step:
  assumes "ready s" "list_all proper root" "root \<noteq> []"
  shows "\<exists>s'. build_step mini_world mini_executor root i s = (Inr True, s') \<and> ready s'"
proof -
  obtain s' where b: "build_step mini_world mini_executor root i s = (Inr True, s')" using mini_build_step by blast
  obtain r s1 v where r: "run_in root (forge_build (fw_shell mini_world) (fw_host mini_world) (path_text root) (fe_forge_bin mini_executor) 900
       (Some (path_text (root @ [fe_tool_runs mini_executor]))) []) s = (Inr r, s1)" and u: "put_text (out_dir i @ [''build.json'']) v s1 = (Inr (), s')"
    using b unfolding build_step_def by (auto simp: abind_eq_Inr alift_eq_Inr)
  have "ready s1" by (rule ready_frame [OF assms(1) build_frame [OF mini_setting [OF assms(2,3)] r]])
  with ready_put [of s1 i "''build.json''" v] u b show ?thesis by auto
qed

lemma mini_executes:
  assumes "list_all proper root" "root \<noteq> []" "map_of t [''t''] = Some mini_test" "map_of t [''foundry.toml''] = None"
  shows "\<exists>result t'. execute mini_world mini_executor root mini_witness i (t, ()) = (Inr result, (t', ()))"
proof -
  have names: "w_test_name mini_witness = ''n''" "w_control_test_name mini_witness = ''m''" by (simp_all add: mini_witness_def sample_witness_def)
  obtain tr ctl where traces: "mini_trace ''n'' = Inr tr" "mini_trace ''m'' = Inr ctl"
    using mini_accepted by (auto simp: trace_accepted_def split: sum.splits)
  obtain s0 where s0: "sanitize_step mini_world mini_executor mini_witness i (t, ()) = (Inr (), s0)" "ready s0"
    using mini_sanitize_step [OF assms(3,4)] by blast
  obtain s1 where s1: "build_step mini_world mini_executor root i s0 = (Inr True, s1)" "ready s1"
    using ready_build_step [OF s0(2) assms(1,2)] by blast
  obtain s2 where s2: "test_step mini_world mini_executor root mini_witness i ''witness'' ''n'' s1 = (Inr (mini_forge ''n''), s2)" "ready s2"
    using ready_test_step [OF s1(2) assms(1,2)] by blast
  obtain s3 where s3: "put_hashed mini_world i ''trace'' (canonical (PDict tr)) s2 = (Inr (), s3)" "ready s3"
    using ready_put_hashed [OF s2(2)] by blast
  obtain s4 where s4: "test_step mini_world mini_executor root mini_witness i ''control'' ''m'' s3 = (Inr (mini_forge ''m''), s4)" "ready s4"
    using ready_test_step [OF s3(2) assms(1,2)] by blast
  let ?obj = "PDict (mini_forge ''m'')"
  obtain s5 where s5: "put_text (out_dir i @ [''control.json'']) (canonical ?obj) s4 = (Inr (), s5)" "ready s5"
    using ready_put [OF s4(2)] by blast
  obtain s6 where s6: "put_text (out_dir i @ [''control.sha256'']) (canonical_hash (fw_host mini_world) ?obj @ [CHR 0x0A]) s5 = (Inr (), s6)" "ready s6"
    using ready_put [OF s5(2)] by blast
  obtain s7 where s7: "put_hashed mini_world i ''control-trace'' (canonical (PDict ctl)) s6 = (Inr (), s7)" "ready s7"
    using ready_put_hashed [OF s6(2)] by blast
  obtain s8 where s8: "environment_step mini_world mini_executor root mini_witness i 1 1 s7 = (Inr ''h'', s8)"
    using mini_environment_step [OF s7(2)] by blast
  obtain t1 where t1: "s1 = (t1, ())" by (cases s1) auto
  have init: "initial_environment mini_world mini_executor mini_witness t1 = Inr (1, 1)" using mini_initial [OF s1(2)] by (simp add: t1)
  have "\<exists>result. execute mini_world mini_executor root mini_witness i (t, ()) = (Inr result, s8)"
    unfolding execute_def using s0(1) s1(1) s2(1) s3(1) s4(1) s5(1) s6(1) s7(1) s8 init mini_trace_of [of "''n''"] mini_trace_of [of "''m''"] traces
    by (simp add: t1 names mini_control_object Let_def alift_def)
  then show ?thesis by (cases s8) auto
qed

section \<open>The coordinator accepts\<close>

definition mini_coordinator :: coordinator where
  "mini_coordinator = \<lparr>co_host = quiet_host, co_loads = mini_loads, co_repo = [([''t''], mini_test)], co_replay_root = [''r''],
     co_catalog = CATALOG, co_policy = POLICY, co_random = (\<lambda>_. ''x''), co_resolve = path_parts\<rparr>"

lemma path_parts_path_text: "list_all proper ps \<Longrightarrow> path_parts (path_text (ps @ [p])) = ps @ path_parts p"
proof (cases "ps = []")
  case False
  moreover assume "list_all proper ps"
  moreover have "ps \<noteq> [] \<Longrightarrow> join ''/'' (ps @ [p]) = join ''/'' ps @ ''/'' @ p" by (induction "''/''" ps rule: join.induct) auto
  ultimately show ?thesis using path_parts_text [of ps p] by (simp add: path_text_def)
qed (simp add: path_text_def path_parts_def)

lemma proper_nat_str: "proper (CHR ''r'' # s @ nat_str i)" if "CHR ''/'' \<notin> set s"
  using that nat_str_digits [of "CHR ''/''" i] by (auto simp: proper_def is_digit_def)

lemma mini_resolve:
  assumes "list_all proper root" "name \<in> set ARTIFACTS"
  shows "path_parts (path_text (root @ out_dir i @ [name])) = root @ out_dir i @ [name]"
proof -
  have "list_all proper (root @ out_dir i)"
    using assms(1) proper_nat_str [of "''un-''" i] by (simp add: out_dir_def) (simp add: proper_def)
  from path_parts_path_text [OF this, of name] have "path_parts (path_text (root @ out_dir i @ [name])) = root @ out_dir i @ path_parts name"
    by simp
  moreover have "path_parts name = [name]" using assms(2) by (auto simp: ARTIFACTS_def path_parts_def)
  ultimately show ?thesis by simp
qed

lemma mini_initial_any: "initial_environment mini_world mini_executor mini_witness t = Inr p \<Longrightarrow> p = (1, 1)"
  by (auto simp: initial_environment_def mini_witness_def mini_world_def initial_block_env_from_config_def default_profile_def
      read_foundry_toml_def mini_config_def get_get_def dget_or_def block_field_def env_err_def ebind_eq_Inr split: sum.splits)

lemma mini_test_result:
  assumes "test_step mini_world mini_executor root mini_witness i what x s = (Inr d, s')" "x = ''n'' \<or> x = ''m''"
  shows "d = mini_forge x"
  using mini_test_step [OF assms(2), of root i what s] assms(1) by simp

lemma parse_object: "parse_trace H loads (InObj v) catalog = parse_trace H loads' (InObj v) catalog"
  by (simp add: parse_trace_def load_input_def)

text \<open>What a run of the sample leaves.\<close>

lemma mini_retains:
  assumes "list_all proper root" "root \<noteq> []" "execute mini_world mini_executor root mini_witness i (t, ()) = (Inr result, (t', ()))"
    "evidence t = Map.empty"
  shows "\<exists>conf build tr ctl record built. mini_trace ''n'' = Inr tr \<and> mini_trace ''m'' = Inr ctl \<and>
    result = run_result root i ''h'' ''h'' built \<and>
    evidence t' = run_evidence quiet_host i conf build tr (PDict (mini_forge ''m'')) ctl record ''h''"
proof -
  have w: "fw_host mini_world = quiet_host" "fw_loads mini_world = mini_loads" "w_test_name mini_witness = ''n''" "w_control_test_name mini_witness = ''m''"
    by (simp_all add: mini_world_def mini_witness_def sample_witness_def)
  have digest: "environment_hash quiet_host ob mini_witness vs ts bl = ''h''" "canonical_hash quiet_host v = ''h''" for ob vs ts bl v
    by (simp_all add: environment_hash_def compute_env_hash_def canonical_hash_def quiet_host_def)
  have ev0: "evidence (fst (t, ())) = Map.empty" using assms(4) by simp
  obtain conf build trace d0 d v ctl ob versions gas ts bl built where
    r: "result = run_result root i ''h'' ''h'' built" and init: "\<exists>t. initial_environment mini_world mini_executor mini_witness t = Inr (ts, bl)"
    and d0: "\<exists>s1 s2. test_step mini_world mini_executor root mini_witness i ''witness'' ''n'' s1 = (Inr d0, s2)"
    and d: "\<exists>s1 s2. test_step mini_world mini_executor root mini_witness i ''control'' ''m'' s1 = (Inr d, s2)"
    and tr: "trace_of mini_world mini_executor mini_witness ''n'' ts bl (PDict d0) = Inr trace" and v: "mini_loads (jtext (PDict d)) = Some v"
    and ctl: "trace_of mini_world mini_executor mini_witness ''m'' ts bl (strip_wall_clock_duration v) = Inr ctl"
    and ev: "evidence t' = run_evidence quiet_host i conf build trace (strip_wall_clock_duration v) ctl (environment_record ob versions ts bl gas ''h'') ''h''"
    using execute_retains [OF mini_setting [OF assms(1,2)] assms(3) ev0, unfolded Let_def w digest fst_conv] by blast
  have one: "ts = 1" "bl = 1" using init mini_initial_any by auto
  have d0': "d0 = mini_forge ''n''" and d': "d = mini_forge ''m''" using d0 d mini_test_result by blast+
  have "strip_wall_clock_duration v = PDict (mini_forge ''m'')"
    using mini_control_object v by (simp add: d' control_object_def w del: jtext.simps)
  with r tr ctl ev show ?thesis by (auto simp: one d0' mini_trace_of)
qed

lemma mini_accepts:
  assumes "list_all proper root" "root \<noteq> []" "execute mini_world mini_executor root mini_witness i (t, ()) = (Inr result, (t', ()))"
    "evidence t = Map.empty"
  shows "\<exists>run. accept_run mini_coordinator mini_witness i root t' result = Inr run \<and> rr_passed run \<and>
    rr_environment_hash run = ''h'' \<and> rr_control_sha256 run = ''h''"
proof -
  obtain conf build tr ctl rec built where r: "mini_trace ''n'' = Inr tr" "result = run_result root i ''h'' ''h'' built"
    and ev: "evidence t' = run_evidence quiet_host i conf build tr (PDict (mini_forge ''m'')) ctl rec ''h''"
    using mini_retains [OF assms] by blast
  obtain s where plain: "nofloat (PDict tr)" "distinct_keys (PDict tr)"
    and s: "parse_trace quiet_host (\<lambda>_. None) (InObj (jnorm (PDict tr))) CATALOG = Inr s"
    and ok: "enforce_time_block_limits s 0 0 = Inr ()" "enforce_cheatcode_policy s ''local_deployment'' POLICY (Some 7) = Inr ()"
    using mini_accepted(1) r(1) by (auto simp: trace_accepted_def simp del: jnorm.simps nofloat.simps distinct_keys.simps split: sum.splits)
  have loads: "mini_loads (canonical (PDict tr)) = Some (jnorm (PDict tr))"
    unfolding mini_loads_def by (rule text_value.loads_canonical) (simp add: plain_def plain del: nofloat.simps distinct_keys.simps)
  have s': "parse_trace quiet_host mini_loads (InObj (jnorm (PDict tr))) CATALOG = Inr s" using s parse_object by metis
  have at: "path_parts (path_text (root @ out_dir i @ [n])) = root @ [''artifacts'', run_dir i, n]" if "n \<in> set ARTIFACTS" for n
    using mini_resolve [OF assms(1) that, of i] by (simp add: out_dir_def run_dir_def)
  have files: "map_of t' [''artifacts'', run_dir i, n] = evidence t' [run_dir i, n]" for n by (simp add: evidence_def)
  have body: "universal_newlines (canonical (PDict tr)) = canonical (PDict tr)"
    by (rule universal_newlines_id, rule cr_json) (simp add: plain_def plain del: nofloat.simps distinct_keys.simps)
  have w: "w_max_time_advance_s mini_witness = 0" "w_max_block_advance mini_witness = 0" "w_witness_class mini_witness = Local_deployment"
    "w_fork_block mini_witness = Some 7" by (simp_all add: mini_witness_def sample_witness_def)
  have keys: "dhas result k" if "k \<in> set REQUIRED" for k using that by (auto simp: r(2) run_result_def REQUIRED_def dhas_def)
  have fresh: "fresh_file root t' (root @ [''artifacts'', run_dir i, n])" if "n \<in> set ARTIFACTS" for n
    using that by (auto simp: fresh_file_def is_relative_to_def files ev run_evidence_def ARTIFACTS_def simp del: jindent.simps)
  have body_text: "fresh_text root t' (root @ [''artifacts'', run_dir i, ''trace.json'']) = canonical (PDict tr)"
    by (simp add: fresh_text_def files ev run_evidence_def body del: jindent.simps)
  have "filter (\<lambda>k. \<not> dhas result k) REQUIRED = []" using keys by simp
  then show ?thesis
    using at fresh body_text
    by (simp add: accept_run_def Let_def mini_coordinator_def w loads s' ok r(2) run_result_def dget_or_def dhas_def ARTIFACTS_def
        del: jnorm.simps)
qed

section \<open>Witnesses\<close>

definition mini_verifier :: "tree \<Rightarrow> int world" where
  "mini_verifier t = \<lparr>wo_host = quiet_host, wo_loads = mini_loads, wo_tree = (\<lambda>_. t), wo_resolve = (\<lambda>_ p. Some (path_parts p)),
     wo_floats = int_floats, wo_to_float = (\<lambda>v. case v of PInt i \<Rightarrow> Inr i | _ \<Rightarrow> Inl (TypeError ''float'')),
     wo_float_pv = PInt, wo_float_rel = (\<lambda>_ _ _. None), wo_order = id\<rparr>"

lemma mini_worlds:
  assumes "list_all proper root" "root \<noteq> []" "execute mini_world mini_executor root mini_witness i (t, ()) = (Inr result, (t', ()))"
    "evidence t = Map.empty"
  shows "replay_worlds mini_world mini_executor mini_coordinator (mini_verifier t') root i t'"
proof -
  obtain conf build tr ctl rec where r: "mini_trace ''n'' = Inr tr" "mini_trace ''m'' = Inr ctl"
    and ev: "evidence t' = run_evidence quiet_host i conf build tr (PDict (mini_forge ''m'')) ctl rec ''h''"
    using mini_retains [OF assms] by blast
  have plain: "plain (PDict tr)" "plain (PDict ctl)"
    using mini_accepted r by (auto simp: trace_accepted_def plain_def simp del: jnorm.simps nofloat.simps distinct_keys.simps split: sum.splits)
  have cr: "\<forall>name s. name \<in> {''trace.json'', ''control-trace.json''} \<longrightarrow> evidence t' [run_dir i, name] = Some s \<longrightarrow> CHR 0x0D \<notin> set s"
    using cr_json(1) [OF plain(1)] cr_json(1) [OF plain(2)] by (auto simp: ev run_evidence_def)
  have reader: "json_reader mini_loads" unfolding mini_loads_def by (rule text_value.json_reader_axioms)
  have config: "plain (PDict mini_config)" by (simp add: plain_def mini_config_def)
  have floats: "\<forall>s v. mini_loads s = Some v \<longrightarrow> nofloat v" unfolding mini_loads_def using json_text_nofloat by blast
  have digest: "strip ''h'' = ''h''" "strip ([CHR ''h'', CHR 0x0A]) = ''h''" by (simp_all add: strip_def is_space_def)
  show ?thesis
    unfolding replay_worlds_def
    using mini_setting [OF assms(1,2)] cr reader floats mini_resolve [OF assms(1)] digest config
    by (simp add: mini_world_def mini_executor_def mini_coordinator_def mini_verifier_def plain_config_def quiet_host_def)
qed

lemma map_sum_const: "map_sum f (\<lambda>_. c) r = Inr y \<Longrightarrow> y = c"
  by (cases r) auto

lemma mini_declared:
  assumes "observe_tree quiet_host toml t ''t'' Local_deployment [] [] = Inr ob"
  shows "check_declaration quiet_host (normal_observation ob) mini_witness (Some t') = Inr ()"
proof -
  have "to_template_sha256 ob = ''h''" "to_attack_body_sha256 ob = ''h''" "to_wrapper_callsite_sha256 ob = ''h''" "to_harness_library_hashes ob = []"
    using assms by (auto simp: observe_tree_def ebind_eq_Inr map_sum_Inr sha256_file_def marked_region_sha256_def quiet_host_def dest!: map_sum_const)
  then show ?thesis
    by (simp add: check_declaration_def check_compiler_def mini_witness_def sample_witness_def normal_observation_def quiet_host_def given_def)
qed


lemma collection_sound_witness:
  "\<exists>c trees. collect mini_coordinator (execute mini_world mini_executor) mini_witness 3 () = (Inr (c, trees), ()) \<and>
    length (cl_runs c) \<ge> 3 \<and> cl_environment_hash c = ''h''"
proof -
  let ?C = mini_coordinator and ?E = "execute mini_world mini_executor" and ?root = "[''r'', ''h'']"
  have C: "co_repo ?C = [([''t''], mini_test)]" "co_replay_root ?C = [''r'']" "co_host ?C = quiet_host" "w_env_hash mini_witness = ''h''"
    by (simp_all add: mini_coordinator_def mini_witness_def sample_witness_def)
  have digest: "witness_hash quiet_host mini_witness = ''h''" "\<And>s. summary_sha256 quiet_host s = ''h''"
    by (simp_all add: witness_hash_def summary_sha256_def quiet_host_def)
  have copy: "copy_tree [([''t''], mini_test)] = [([''t''], mini_test)]"
    by (simp add: copy_tree_def copy_ignore_def ignored_name_def IGNORED_EXACT_def endswith_def)
  have one: "\<exists>result t run. ?E (copy_root ?C ?root i) mini_witness i (copy_tree (co_repo ?C), ()) = (Inr result, (t, ())) \<and>
      accept_run ?C mini_witness i (copy_root ?C ?root i) t result = Inr run \<and> rr_passed run \<and> rr_environment_hash run = ''h'' \<and> rr_control_sha256 run = ''h''" for i
  proof -
    have root: "list_all proper (copy_root ?C ?root i)" "copy_root ?C ?root i \<noteq> []"
      using nat_str_digits [of "CHR ''/''" i] by (auto simp: copy_root_def mini_coordinator_def proper_def is_digit_def)
    show ?thesis unfolding C copy
      using mini_executes [OF root, of "[([''t''], mini_test)]" i] mini_accepts [OF root, of i "[([''t''], mini_test)]"]
      by (fastforce simp: evidence_def)
  qed
  obtain r1 t1 u1 where a: "?E (copy_root ?C ?root 1) mini_witness 1 (copy_tree (co_repo ?C), ()) = (Inr r1, (t1, ()))"
    "accept_run ?C mini_witness 1 (copy_root ?C ?root 1) t1 r1 = Inr u1" "rr_passed u1" "rr_environment_hash u1 = ''h''" "rr_control_sha256 u1 = ''h''"
    using one [of 1] by blast
  obtain r2 t2 u2 where b: "?E (copy_root ?C ?root 2) mini_witness 2 (copy_tree (co_repo ?C), ()) = (Inr r2, (t2, ()))"
    "accept_run ?C mini_witness 2 (copy_root ?C ?root 2) t2 r2 = Inr u2" "rr_passed u2" "rr_environment_hash u2 = ''h''" "rr_control_sha256 u2 = ''h''"
    using one [of 2] by blast
  obtain r3 t3 u3 where c: "?E (copy_root ?C ?root 3) mini_witness 3 (copy_tree (co_repo ?C), ()) = (Inr r3, (t3, ()))"
    "accept_run ?C mini_witness 3 (copy_root ?C ?root 3) t3 r3 = Inr u3" "rr_passed u3" "rr_environment_hash u3 = ''h''" "rr_control_sha256 u3 = ''h''"
    using one [of 3] by blast
  have "collect_runs ?C ?E mini_witness ?root [1, 2, 3] () = (Inr [(u1, t1), (u2, t2), (u3, t3)], ())"
    by (simp add: a b c del: One_nat_def)
  moreover have "\<exists>coll. judge_runs ?C mini_witness ?root [u1, u2, u3] = Inr coll"
    by (simp add: judge_runs_def Let_def a b c C digest)
  moreover have "[1..<nat 3 + 1] = [1, 2, 3 :: nat]" by (simp add: upt_rec)
  ultimately obtain coll trees where coll: "collect ?C ?E mini_witness 3 () = (Inr (coll, trees), ())"
    by (auto simp: collect_def Let_def C digest)
  from collection_sound [OF coll] coll C show ?thesis by auto
qed

end
