(* ===== verification/ToolLock.thy ===== *)
theory ToolLock
  imports Tools
begin

text \<open>
  The tool lock, \<open>tools/lock.py\<close>: how the versions and digests of the external tools are recorded,
  and how a lock is checked against the tools that are installed or against those of a container.
  A program that is started is the argument \<open>lh_exec\<close>, and may change the world \<open>'w\<close>; the files, the
  search path and the YAML parser are arguments too. A lock file is its text. Where the source asks a
  value for the items of a dictionary, the model raises at the first use of a value that is none.
\<close>

record 'w lock_host =
  lh_hash :: host
  lh_which :: "string \<Rightarrow> string option"
  lh_resolve :: "string \<Rightarrow> string"
  lh_exists :: "string \<Rightarrow> bool"
  lh_bytes :: "string \<Rightarrow> string res"
  lh_yaml :: "string \<Rightarrow> pv res"
  lh_exec :: "string list \<Rightarrow> 'w \<Rightarrow> process \<times> 'w"
  lh_shell :: "string \<Rightarrow> 'w \<Rightarrow> process \<times> 'w"

section \<open>Files and commands\<close>

definition actual_sha256 :: "'w lock_host \<Rightarrow> string \<Rightarrow> string res" where
  "actual_sha256 L path = ebind (lh_bytes L path) (\<lambda>b. Inr (hs_sha256 (lh_hash L) b))"

definition discover_binary :: "'w lock_host \<Rightarrow> string \<Rightarrow> string option" where
  "discover_binary L binary = (case lh_which L binary of
     None \<Rightarrow> None | Some found \<Rightarrow> if found = [] then None else Some (lh_resolve L found))"

text \<open>\<open>subprocess.run\<close> with the time limit of 30 seconds: its status and outputs, or what it raises.\<close>

fun process_outcome :: "string list \<Rightarrow> process \<Rightarrow> (int \<times> string \<times> string) res" where
  "process_outcome argv (Exited rc out err) = Inr (rc, out, err)"
| "process_outcome argv (NoBinary m) = Inl (FileNotFoundError m)"
| "process_outcome argv (Expired out err) =
     Inl (Timeout (''Command '' @ py_repr (PList (map PStr argv)) @ '' timed out after 30 seconds''))"
| "process_outcome argv (CannotStart e) = Inl e"

definition spawn :: "'w lock_host \<Rightarrow> string list \<Rightarrow> (int \<times> string \<times> string, 'w) act" where
  "spawn L argv w = (case lh_exec L argv w of (p, w') \<Rightarrow> (process_outcome argv p, w'))"

text \<open>\<open>a or b or c\<close> on texts.\<close>

fun first_text :: "string list \<Rightarrow> string" where
  "first_text [] = []"
| "first_text [s] = s"
| "first_text (s # t # r) = (if s = [] then first_text (t # r) else s)"

definition both_outputs :: "string \<Rightarrow> string \<Rightarrow> string" where
  "both_outputs out err = strip (out @ [CHR 0x0A] @ err)"

definition command_text :: "'w lock_host \<Rightarrow> string \<Rightarrow> string list \<Rightarrow> string \<Rightarrow> (string, 'w) act" where
  "command_text L binary args label =
     abind (spawn L (binary # args)) (\<lambda>(rc, out, err).
       alift (if rc \<noteq> 0 then Inl (RuntimeError (first_text [strip err, strip out, label @ '' failed'']))
              else Inr (both_outputs out err)))"

section \<open>The version of a uv tool\<close>

text \<open>
  \<open>^\s*package(?: v)?([0-9][^\s()]*)\<close> with \<open>re.MULTILINE\<close>: the text of the group at the first line
  start where the pattern matches. No part of the pattern can be matched in two ways.
\<close>

definition listed_version :: "string \<Rightarrow> string \<Rightarrow> string option" where
  "listed_version package s =
     (let s1 = dropWhile is_space s in
      if \<not> startswith s1 package then None
      else (let s2 = drop (length package) s1; s3 = (if startswith s2 '' v'' then drop 2 s2 else s2) in
        if s3 \<noteq> [] \<and> is_digit (hd s3)
        then Some (takeWhile (\<lambda>c. \<not> is_space c \<and> c \<noteq> CHR ''('' \<and> c \<noteq> CHR '')'') s3) else None))"

fun search_lines :: "(string \<Rightarrow> 'a option) \<Rightarrow> bool \<Rightarrow> string \<Rightarrow> 'a option" where
  "search_lines f at_start [] = (if at_start then f [] else None)"
| "search_lines f at_start (c # s) =
     (case (if at_start then f (c # s) else None) of
        Some x \<Rightarrow> Some x | None \<Rightarrow> search_lines f (c = CHR 0x0A) s)"

text \<open>\<open>line.split(":", 1)[1].strip()\<close> of the first line that names a version.\<close>

definition shown_version :: "string \<Rightarrow> string option" where
  "shown_version out = (case filter (\<lambda>v. v \<noteq> [])
     (map (\<lambda>l. strip (drop 8 l)) (filter (\<lambda>l. startswith l ''Version:'') (splitlines out))) of
       [] \<Rightarrow> None | v # _ \<Rightarrow> Some v)"

definition interpreter_code :: string where
  "interpreter_code = ''import importlib.metadata as m, sys; print(m.version(sys.argv[1]))''"

text \<open>The interpreter named by the first line of a script: the source fails on a bare \<open>#!\<close>.\<close>

definition shebang :: "string \<Rightarrow> string option res" where
  "shebang first_line =
     (if startswith first_line ''#!'' then
        (case dropWhile is_space (strip (drop 2 first_line)) of
           [] \<Rightarrow> Inl (IndexError ''list index out of range'')
         | c # s \<Rightarrow> Inr (Some (takeWhile (\<lambda>c. \<not> is_space c) (c # s))))
      else Inr None)"

definition first_line_of :: "'w lock_host \<Rightarrow> string \<Rightarrow> string res" where
  "first_line_of L path = (case lh_bytes L path of
     Inr b \<Rightarrow> (case splitlines (universal_newlines (filter (\<lambda>c. (of_char c :: nat) < 128) b)) of [] \<Rightarrow> Inr [] | l # _ \<Rightarrow> Inr l)
   | Inl (OSError m) \<Rightarrow> Inr [] | Inl (FileNotFoundError m) \<Rightarrow> Inr [] | Inl (PermissionError m) \<Rightarrow> Inr []
   | Inl e \<Rightarrow> Inl e)"

definition version_from_interpreter :: "'w lock_host \<Rightarrow> string \<Rightarrow> string \<Rightarrow> (string option, 'w) act" where
  "version_from_interpreter L interpreter package =
     abind (spawn L [interpreter, ''-c'', interpreter_code, package]) (\<lambda>(rc, out, err).
       if rc = 0 \<and> strip out \<noteq> [] then alift (Inr (Some (strip out)))
       else abind (spawn L [interpreter, ''-m'', ''pip'', ''show'', package]) (\<lambda>(rc, out, err).
         alift (Inr (if rc = 0 then shown_version out else None))))"

definition version_from_uv :: "'w lock_host \<Rightarrow> string \<Rightarrow> (string, 'w) act" where
  "version_from_uv L package =
     (let missing = Inl (RuntimeError (package @ '' Python distribution metadata not found'')) in
      case lh_which L ''uv'' of
        Some (c # uv) \<Rightarrow> abind (spawn L [c # uv, ''tool'', ''list'']) (\<lambda>(rc, out, err).
          alift (case (if rc = 0 then search_lines (listed_version package) True out else None) of
            Some v \<Rightarrow> Inr v | None \<Rightarrow> missing))
      | _ \<Rightarrow> alift missing)"

definition uv_tool_package_version :: "'w lock_host \<Rightarrow> string \<Rightarrow> string \<Rightarrow> (string, 'w) act" where
  "uv_tool_package_version L binary package =
     abind (alift (ebind (first_line_of L (lh_resolve L binary)) shebang)) (\<lambda>i.
     abind (case i of
         Some interpreter \<Rightarrow> if lh_exists L interpreter then version_from_interpreter L interpreter package
                             else alift (Inr None)
       | None \<Rightarrow> alift (Inr None)) (\<lambda>v.
     case v of Some version \<Rightarrow> alift (Inr version) | None \<Rightarrow> version_from_uv L package))"

definition version_text :: "'w lock_host \<Rightarrow> string \<Rightarrow> string \<Rightarrow> (string \<times> string, 'w) act" where
  "version_text L binary name =
     (if name = ''solc-select'' then
        abind (uv_tool_package_version L binary ''solc-select'') (\<lambda>v.
        abind (command_text L binary [''versions''] ''solc-select versions'') (\<lambda>probe. alift (Inr (v, probe))))
      else abind (command_text L binary [''--version''] (binary @ '' --version'')) (\<lambda>out. alift (Inr (out, out))))"

section \<open>Writing a lock\<close>

text \<open>\<open>x or {}\<close> on a value that must then be a dictionary.\<close>

definition table_or_empty :: "pv \<Rightarrow> pdict res" where
  "table_or_empty v = (if truthy v then need_dict v else Inr [])"

definition tools_of :: "pdict \<Rightarrow> pdict res" where
  "tools_of d = table_or_empty (dget_or d ''tools'' PNone)"

fun need_item :: "pv \<Rightarrow> string \<Rightarrow> pv res" where
  "need_item (PDict d) k = need d k"
| "need_item v k = Inl (TypeError ''object is not subscriptable'')"

definition locked_tool :: "string \<Rightarrow> string \<Rightarrow> string \<Rightarrow> string \<Rightarrow> pv" where
  "locked_tool binary version probe digest = PDict [(''binary'', PStr binary), (''version'', PStr version),
     (''probe_output'', PStr probe), (''sha256'', PStr digest)]"

text \<open>An item of the configuration: the message that it is missing, or its entry of the lock.\<close>

definition lock_tool :: "'w lock_host \<Rightarrow> string \<times> pv \<Rightarrow> (string + (string \<times> pv), 'w) act" where
  "lock_tool L kv = (case kv of (name, spec) \<Rightarrow>
     abind (alift (need_item spec ''binary'')) (\<lambda>b.
     case discover_binary L (py_str b) of
       None \<Rightarrow> alift (Inr (Inl (name @ '': '' @ py_str b @ '' not found'')))
     | Some binary \<Rightarrow>
         abind (version_text L binary name) (\<lambda>(version, probe).
         alift (ebind (actual_sha256 L binary) (\<lambda>d. Inr (Inr (name, locked_tool binary version probe d)))))))"

fun amap :: "('a \<Rightarrow> ('b, 's) act) \<Rightarrow> 'a list \<Rightarrow> ('b list, 's) act" where
  "amap f [] = alift (Inr [])"
| "amap f (x # xs) = abind (f x) (\<lambda>y. abind (amap f xs) (\<lambda>ys. alift (Inr (y # ys))))"

definition lock_document :: "string \<Rightarrow> pdict \<Rightarrow> pv" where
  "lock_document now tools = PDict [(''version'', PInt 1), (''status'', PStr ''verified''), (''generated_at'', PStr now),
     (''tools'', PDict tools)]"

text \<open>\<open>update_lock\<close>: the document that is returned, whose YAML text is written.\<close>

definition update_lock :: "'w lock_host \<Rightarrow> string \<Rightarrow> string \<Rightarrow> (pv, 'w) act" where
  "update_lock L now config_text =
     abind (alift (ebind (lh_yaml L config_text) (\<lambda>v. ebind (need_dict v) tools_of))) (\<lambda>tools.
     abind (amap (lock_tool L) tools) (\<lambda>found.
     let missing = concat (map (case_sum (\<lambda>m. [m]) (\<lambda>e. [])) found);
         entries = concat (map (case_sum (\<lambda>m. []) (\<lambda>e. [e])) found)
     in alift (if missing \<noteq> [] then
          Inl (RuntimeError (''cannot create complete tools.lock.yaml:'' @ [CHR 0x0A] @ join [CHR 0x0A] missing))
        else Inr (lock_document now entries))))"

section \<open>Checking a lock against the installed tools\<close>

definition unset :: "pv \<Rightarrow> bool" where
  "unset v = (v = PNone \<or> v = PStr [])"

text \<open>The program that is checked: the given path, or the recorded one, or that of the search path.\<close>

definition locked_binary :: "'w lock_host \<Rightarrow> (string \<times> string) list \<Rightarrow> string \<Rightarrow> pdict \<Rightarrow> pv" where
  "locked_binary L paths name entry =
     (let binary = (case map_of paths name of Some (c # p) \<Rightarrow> PStr (c # p) | _ \<Rightarrow> dget_or entry ''binary'' PNone) in
      if truthy binary \<and> \<not> lh_exists L (py_str binary) then
        (case lh_which L name of Some (c # p) \<Rightarrow> PStr (c # p) | _ \<Rightarrow> binary)
      else binary)"

definition hash_problem :: "'w lock_host \<Rightarrow> string \<Rightarrow> pv \<Rightarrow> pv \<Rightarrow> string list res" where
  "hash_problem L name binary expected = (case binary of
     PStr path \<Rightarrow> ebind (actual_sha256 L path) (\<lambda>d.
       Inr (if py_eq (PStr d) expected then [] else [name @ '': sha256 mismatch'']))
   | _ \<Rightarrow> Inl (TypeError ''expected str, bytes or os.PathLike object''))"

definition entry_problems :: "'w lock_host \<Rightarrow> (string \<times> string) list \<Rightarrow> string \<times> pv \<Rightarrow> (string list, 'w) act" where
  "entry_problems L paths kv = (case kv of (name, v) \<Rightarrow>
     case need_dict v of Inl e \<Rightarrow> alift (Inl e) | Inr entry \<Rightarrow>
     let binary = locked_binary L paths name entry; version = dget_or entry ''version'' PNone;
         digest = dget_or entry ''sha256'' PNone; probe = dget_or entry ''probe_output'' PNone
     in if \<not> truthy binary \<or> unset version \<or> unset digest then alift (Inr [name @ '': unresolved lock entry''])
        else (\<lambda>w. case version_text L (py_str binary) name w of
          (Inl e, w') \<Rightarrow> (Inr [name @ '': version probe failed: '' @ exc_msg e], w')
        | (Inr (actual, output), w') \<Rightarrow>
            (ebind (hash_problem L name binary digest) (\<lambda>h.
              Inr ((if strip (py_str version) \<noteq> strip actual then [name @ '': version mismatch''] else []) @
                   (if \<not> unset probe \<and> strip (py_str probe) \<noteq> strip output then [name @ '': probe output mismatch''] else []) @
                   h)), w')))"

definition set_problem :: "string \<Rightarrow> string list \<Rightarrow> string list \<Rightarrow> string list" where
  "set_problem label xs ys =
     (let d = sort (remdups (filter (\<lambda>x. x \<notin> set ys) xs)) in if d = [] then [] else [label @ join '', '' d])"

text \<open>
  The names that must be locked: those of the caller, or the tools of the configuration beside the lock,
  whose text is \<open>sibling\<close> when the file exists.
\<close>

definition required_tools_of :: "'w lock_host \<Rightarrow> string list option \<Rightarrow> string option \<Rightarrow> string list option res" where
  "required_tools_of L names sibling = (case (names, sibling) of
     (Some ns, _) \<Rightarrow> Inr (Some ns)
   | (None, None) \<Rightarrow> Inr None
   | (None, Some s) \<Rightarrow> ebind (lh_yaml L s) (\<lambda>v. ebind (table_or_empty v) (\<lambda>d. ebind (tools_of d) (\<lambda>t. Inr (Some (map fst t))))))"

definition lock_header_problems :: "pdict \<Rightarrow> pdict \<Rightarrow> string list" where
  "lock_header_problems lock tools =
     (if dget_or lock ''status'' PNone \<noteq> PStr ''verified'' then [''lock status is not verified''] else []) @
     (if tools = [] then [''lock contains no tool entries''] else [])"

definition required_problems :: "string list option \<Rightarrow> bool \<Rightarrow> pdict \<Rightarrow> string list" where
  "required_problems required extra_ok tools = (case required of
     Some (n # ns) \<Rightarrow> set_problem ''missing required tools: '' (n # ns) (map fst tools) @
       (if extra_ok then [] else set_problem ''unexpected locked tools: '' (map fst tools) (n # ns))
   | _ \<Rightarrow> [])"

definition checked_tools :: "string list option \<Rightarrow> pdict \<Rightarrow> pdict" where
  "checked_tools required tools = (case required of None \<Rightarrow> tools | Some ns \<Rightarrow> filter (\<lambda>kv. fst kv \<in> set ns) tools)"

definition verify_binary_lock :: "'w lock_host \<Rightarrow> string \<Rightarrow> string option \<Rightarrow> (string \<times> string) list \<Rightarrow> string list option \<Rightarrow>
    bool \<Rightarrow> (string list, 'w) act" where
  "verify_binary_lock L lock_text sibling paths names extra_ok =
     abind (alift (ebind (lh_yaml L lock_text) table_or_empty)) (\<lambda>lock.
     abind (alift (tools_of lock)) (\<lambda>tools.
     abind (alift (required_tools_of L names sibling)) (\<lambda>required.
     abind (amap (entry_problems L paths) (checked_tools required tools)) (\<lambda>problems.
     alift (Inr (lock_header_problems lock tools @ required_problems required extra_ok tools @ concat problems))))))"

section \<open>Checking a lock against a container\<close>

definition squote :: char where
  "squote = CHR 0x27"

definition container_probe :: "string \<Rightarrow> string \<Rightarrow> string" where
  "container_probe img name =
     ''docker run --rm --entrypoint sh '' @ img @ '' -lc '' @ [squote] @ ''for tool in '' @ name @ ''; do echo '' @
     [dquote] @ ''=== $tool ==='' @ [dquote] @
     ''; /usr/local/bin/$tool --version; sha256sum /usr/local/bin/$tool; done'' @ [squote]"

text \<open>
  \<open>stripped.split(None, 1)\<close> with the second part stripped: the digest and the path of a line of
  \<open>sha256sum\<close>.
\<close>

definition digest_line :: "string \<Rightarrow> string \<Rightarrow> string option" where
  "digest_line target line =
     (let s = strip line; digest = takeWhile (\<lambda>c. \<not> is_space c) s; rest = dropWhile (\<lambda>c. \<not> is_space c) s in
      if strip rest \<noteq> [] \<and> strip rest = target then Some digest else None)"

text \<open>The lines of the version and the digest; without a digest line the digest is empty.\<close>

fun scan_probe :: "string \<Rightarrow> string list \<Rightarrow> string list \<times> string" where
  "scan_probe target [] = ([], [])"
| "scan_probe target (l # ls) =
     (if strip l = [] then scan_probe target ls
      else case digest_line target l of
        Some d \<Rightarrow> ([], d)
      | None \<Rightarrow> (case scan_probe target ls of (vs, d) \<Rightarrow> (l # vs, d)))"

text \<open>\<open>lines[lines.index(marker) + 1:]\<close>, or all lines when there is no marker.\<close>

definition after_marker :: "string \<Rightarrow> string list \<Rightarrow> string list" where
  "after_marker marker ls = (if marker \<in> set ls then tl (dropWhile (\<lambda>l. l \<noteq> marker) ls) else ls)"

definition shell_run :: "'w lock_host \<Rightarrow> string \<Rightarrow> (int \<times> string \<times> string, 'w) act" where
  "shell_run L command w = (case lh_shell L command w of (p, w') \<Rightarrow> (process_outcome [command] p, w'))"

definition probe_problems :: "string \<Rightarrow> pdict \<Rightarrow> string \<Rightarrow> string list" where
  "probe_problems name entry output =
     (let text_of = (\<lambda>k. strip (py_str (dget_or entry k (PStr []))));
          version = text_of ''version''; probe = text_of ''probe_output''; digest = text_of ''sha256'';
          found = scan_probe (''/usr/local/bin/'' @ name) (after_marker (''=== '' @ name @ '' ==='') (splitlines output));
          actual = strip (join [CHR 0x0A] (fst found)); actual_digest = snd found
      in (if version \<noteq> [] \<and> actual \<noteq> [] \<and> version \<noteq> actual then [name @ '': version mismatch''] else []) @
         (if probe \<noteq> [] \<and> \<not> contains output probe then [name @ '': probe output mismatch''] else []) @
         (if digest \<noteq> [] \<and> actual_digest \<noteq> [] \<and> digest \<noteq> actual_digest then [name @ '': sha256 mismatch''] else []))"

definition container_problems :: "'w lock_host \<Rightarrow> string \<Rightarrow> pdict \<Rightarrow> string \<Rightarrow> (string list, 'w) act" where
  "container_problems L img tools name =
     (case dget_or tools name PNone of
        PNone \<Rightarrow> alift (Inr [])
      | v \<Rightarrow> abind (alift (need_dict v)) (\<lambda>entry.
          abind (shell_run L (container_probe img name)) (\<lambda>(rc, out, err).
          alift (Inr (if rc \<noteq> 0 then [name @ '': docker probe failed: '' @ first_text [strip err, strip out]]
                      else probe_problems name entry (both_outputs out err))))))"

definition image_problem :: "string \<Rightarrow> pdict \<Rightarrow> string list res" where
  "image_problem img lock = ebind (table_or_empty (dget_or lock ''image'' PNone)) (\<lambda>i.
     Inr (let r = dget_or i ''ref'' PNone in
       if r = PStr img then [] else [''image ref mismatch: expected '' @ img @ '', found '' @ py_str r]))"

definition verify_container_binary_lock :: "'w lock_host \<Rightarrow> string \<Rightarrow> string \<Rightarrow> string list \<Rightarrow> (string list, 'w) act" where
  "verify_container_binary_lock L lock_text img names =
     abind (alift (ebind (lh_yaml L lock_text) table_or_empty)) (\<lambda>lock.
     abind (alift (image_problem img lock)) (\<lambda>imgp.
     abind (alift (tools_of lock)) (\<lambda>tools.
     abind (amap (container_problems L img tools) names) (\<lambda>problems.
     alift (Inr ((if dget_or lock ''status'' PNone \<noteq> PStr ''verified'' then [''lock status is not verified''] else []) @
       imgp @ set_problem ''missing required tools: '' names (map fst tools) @ concat problems))))))"

section \<open>Lemmas\<close>

lemma amap_member:
  assumes "amap f xs w = (Inr ys, w')" and "x \<in> set xs"
  shows "\<exists>y \<in> set ys. \<exists>w1 w2. f x w1 = (Inr y, w2)"
  using assms
proof (induction xs arbitrary: ys w)
  case (Cons a xs)
  from Cons.prems(1) obtain y w1 zs where c: "f a w = (Inr y, w1)" "amap f xs w1 = (Inr zs, w')" "ys = y # zs"
    by (auto simp: exn_simps)
  show ?case
  proof (cases "x = a")
    case True
    with c show ?thesis by auto
  next
    case False
    with Cons.prems(2) Cons.IH [OF c(2)] c(3) show ?thesis by auto
  qed
qed simp

lemma amap_origin:
  assumes "amap f xs w = (Inr ys, w')" and "y \<in> set ys"
  shows "\<exists>x \<in> set xs. \<exists>w1 w2. f x w1 = (Inr y, w2)"
  using assms by (induction xs arbitrary: ys w) (fastforce simp: exn_simps)+

lemma amap_steady:
  assumes "\<And>x w. x \<in> set xs \<Longrightarrow> fst (f x w) = Inr (g x)"
  shows "fst (amap f xs w) = Inr (map g xs)"
  using assms
proof (induction xs arbitrary: w)
  case (Cons a xs)
  from Cons.prems [of a w] obtain w1 where "f a w = (Inr (g a), w1)" by (metis list.set_intros(1) prod.collapse)
  moreover have "fst (amap f xs w1) = Inr (map g xs)" by (rule Cons.IH) (simp add: Cons.prems)
  ultimately show ?case by (cases "amap f xs w1") (auto simp: abind_def alift_def)
qed (simp add: alift_def)

lemma set_problem_Nil: "set_problem l xs ys = [] \<longleftrightarrow> set xs \<subseteq> set ys"
proof -
  have "sort (remdups (filter (\<lambda>x. x \<notin> set ys) xs)) = [] \<longleftrightarrow> filter (\<lambda>x. x \<notin> set ys) xs = []"
    by (metis set_empty set_remdups set_sort)
  then show ?thesis by (auto simp: set_problem_def Let_def filter_empty_conv)
qed

text \<open>What it means that the installed tool is the one that an entry of the lock records.\<close>

definition tool_matches :: "'w lock_host \<Rightarrow> (string \<times> string) list \<Rightarrow> string \<Rightarrow> pdict \<Rightarrow> bool" where
  "tool_matches L paths name entry = (\<exists>path version answer w1 w2.
     locked_binary L paths name entry = PStr path \<and>
     version_text L path name w1 = (Inr (version, answer), w2) \<and>
     strip (py_str (dget_or entry ''version'' PNone)) = strip version \<and>
     (unset (dget_or entry ''probe_output'' PNone) \<or> strip (py_str (dget_or entry ''probe_output'' PNone)) = strip answer) \<and>
     (\<exists>d. actual_sha256 L path = Inr d \<and> dget_or entry ''sha256'' PNone = PStr d))"

lemma hash_problem_Nil:
  "hash_problem L name binary expected = Inr [] \<longleftrightarrow>
     (\<exists>path d. binary = PStr path \<and> actual_sha256 L path = Inr d \<and> expected = PStr d)"
  by (auto simp: hash_problem_def exn_simps split: pv.splits if_splits)

lemma entry_problems_Nil:
  assumes "entry_problems L paths (name, v) w = (Inr [], w')"
  shows "\<exists>entry. v = PDict entry \<and> tool_matches L paths name entry"
proof -
  from assms obtain entry where d: "v = PDict entry" by (cases v) (auto simp: entry_problems_def exn_simps)
  with assms obtain version answer w1 where m: "version_text L (py_str (locked_binary L paths name entry)) name w = (Inr (version, answer), w1)"
    by (auto simp: entry_problems_def exn_simps Let_def split: if_splits prod.splits sum.splits)
  with assms d have h: "hash_problem L name (locked_binary L paths name entry) (dget_or entry ''sha256'' PNone) = Inr []"
    and v: "strip (py_str (dget_or entry ''version'' PNone)) = strip version"
    and p: "unset (dget_or entry ''probe_output'' PNone) \<or> strip (py_str (dget_or entry ''probe_output'' PNone)) = strip answer"
    by (auto simp: entry_problems_def exn_simps Let_def split: if_splits prod.splits sum.splits)
  from h obtain path dg where b: "locked_binary L paths name entry = PStr path" "actual_sha256 L path = Inr dg"
      "dget_or entry ''sha256'' PNone = PStr dg"
    by (auto simp: hash_problem_Nil)
  with m have "version_text L path name w = (Inr (version, answer), w1)" by simp
  with b v p have "tool_matches L paths name entry" unfolding tool_matches_def by blast
  with d show ?thesis by blast
qed

section \<open>A lock without problems\<close>


section \<open>Writing and checking\<close>

text \<open>A step whose result does not depend on the world.\<close>

definition steady :: "('a, 'w) act \<Rightarrow> bool" where
  "steady m = (\<forall>w w'. fst (m w) = fst (m w'))"

lemma steady_alift [intro!]: "steady (alift r)"
  by (simp add: steady_def alift_def)

lemma steady_abind [intro]:
  assumes "steady m" and "\<And>x. steady (f x)"
  shows "steady (abind m f)"
  unfolding steady_def
proof (intro allI)
  fix w w'
  from assms(1) have "fst (m w) = fst (m w')" by (simp add: steady_def)
  moreover have "fst (f x u) = fst (f x u')" for x u u' using assms(2) [of x] by (simp add: steady_def)
  ultimately show "fst (abind m f w) = fst (abind m f w')"
    by (cases "m w"; cases "m w'") (auto simp: abind_def split: sum.splits)
qed

definition steady_host :: "'w lock_host \<Rightarrow> bool" where
  "steady_host L = (\<forall>argv w w'. fst (lh_exec L argv w) = fst (lh_exec L argv w'))"

lemma steady_spawn:
  assumes "steady_host L"
  shows "steady (spawn L argv)"
  unfolding steady_def spawn_def using assms by (auto simp: steady_host_def split: prod.splits) (metis fst_conv)

lemma steady_version_text:
  assumes "steady_host L"
  shows "steady (version_text L binary name)"
proof -
  note spawned = steady_abind [OF steady_spawn [OF assms]]
  have command: "steady (command_text L b args label)" for b args label
    unfolding command_text_def by (rule spawned) (auto split: prod.splits)
  have uv: "steady (version_from_uv L p)" for p
    unfolding version_from_uv_def Let_def by (auto split: option.splits list.splits intro!: spawned)
  have inter: "steady (version_from_interpreter L i p)" for i p
    unfolding version_from_interpreter_def by (rule spawned) (auto split: prod.splits intro!: spawned)
  have "steady (uv_tool_package_version L b p)" for b p
    unfolding uv_tool_package_version_def
    by (intro steady_abind steady_alift) (auto intro: uv inter split: option.splits)
  then show ?thesis
    unfolding version_text_def by (auto intro!: steady_abind command split: prod.splits)
qed

definition lock_entries :: "pv \<Rightarrow> pdict" where
  "lock_entries doc = (case doc of PDict d \<Rightarrow> (case dget d ''tools'' of Some (PDict t) \<Rightarrow> t | _ \<Rightarrow> []) | _ \<Rightarrow> [])"

text \<open>What the rest of the system does for the tool lock: paths that are found exist, digests are not empty.\<close>

definition found_exist :: "'w lock_host \<Rightarrow> bool" where
  "found_exist L = ((\<forall>b f. lh_which L b = Some f \<longrightarrow> lh_resolve L f \<noteq> [] \<and> lh_exists L (lh_resolve L f)) \<and>
     (\<forall>s. hs_sha256 (lh_hash L) s \<noteq> []))"

lemma lock_tool_found:
  assumes "lock_tool L (name, spec) w = (Inr r, w')" and "found_exist L"
  shows "(\<exists>m. r = Inl m) \<or> (\<exists>binary version probe d w1 w2. r = Inr (name, locked_tool binary version probe d) \<and>
    version_text L binary name w1 = (Inr (version, probe), w2) \<and> actual_sha256 L binary = Inr d \<and>
    binary \<noteq> [] \<and> lh_exists L binary \<and> d \<noteq> [])"
proof (cases r)
  case (Inr e)
  from assms(1) Inr obtain b binary version probe d w1 where
    "discover_binary L (py_str b) = Some binary" "version_text L binary name w = (Inr (version, probe), w1)"
    "actual_sha256 L binary = Inr d" "e = (name, locked_tool binary version probe d)"
    by (auto simp: lock_tool_def exn_simps split: option.splits)
  moreover from this(1) assms(2) have "binary \<noteq> []" "lh_exists L binary"
    by (auto simp: discover_binary_def found_exist_def split: option.splits if_splits)
  moreover from calculation(3) assms(2) have "d \<noteq> []"
    by (auto simp: actual_sha256_def found_exist_def exn_simps)
  ultimately show ?thesis using Inr by blast
qed simp

lemma entry_problems_steady:
  assumes "steady_host L" "version_text L binary name w1 = (Inr (version, probe), w2)" "actual_sha256 L binary = Inr d"
    and "binary \<noteq> []" "lh_exists L binary" "d \<noteq> []" "version \<noteq> []"
  shows "fst (entry_problems L [] (name, locked_tool binary version probe d) w) = Inr []"
proof -
  from steady_version_text [OF assms(1), of binary name] assms(2) have "fst (version_text L binary name w) = Inr (version, probe)"
    by (metis steady_def fst_conv)
  then obtain w3 where "version_text L binary name w = (Inr (version, probe), w3)" by (metis prod.collapse)
  with assms(3-7) show ?thesis
    by (simp add: entry_problems_def locked_tool_def locked_binary_def unset_def hash_problem_def Let_def)
qed

lemma update_lock_eq:
  assumes "update_lock L now config_text w = (Inr doc, w')"
  obtains tools found where "ebind (lh_yaml L config_text) (\<lambda>v. ebind (need_dict v) tools_of) = Inr tools"
    "amap (lock_tool L) tools w = (Inr (map Inr found), w')" "doc = lock_document now found"
proof -
  from assms obtain tools found where u: "ebind (lh_yaml L config_text) (\<lambda>v. ebind (need_dict v) tools_of) = Inr tools"
    "amap (lock_tool L) tools w = (Inr found, w')" "concat (map (case_sum (\<lambda>m. [m]) (\<lambda>e. [])) found) = []"
    "doc = lock_document now (concat (map (case_sum (\<lambda>m. []) (\<lambda>e. [e])) found))"
    by (auto simp: update_lock_def Let_def abind_eq_Inr alift_eq_Inr)
  from u(3) have "\<exists>es. found = map Inr es \<and> concat (map (case_sum (\<lambda>m. []) (\<lambda>e. [e])) found) = es"
    by (induction found) (auto split: sum.splits)
  then obtain es where "found = map Inr es" "concat (map (case_sum (\<lambda>m. []) (\<lambda>e. [e])) found) = es" by blast
  with u that [of tools es] show ?thesis by simp
qed

lemma lock_tool_names:
  assumes "amap (lock_tool L) tools w = (Inr (map Inr found), w')"
  shows "map fst found = map fst tools"
  using assms
proof (induction tools arbitrary: w found)
  case (Cons kv tools)
  then show ?case
    by (cases kv; cases found) (auto simp: exn_simps lock_tool_def split: option.splits)
qed (simp add: exn_simps)

text \<open>
  A lock that is written and read back is found without problems on the host where it was written, as
  long as the programs answer alike each time, paths that are found exist, and no version is empty.
\<close>

lemma lock_update_roundtrip:
  assumes "update_lock L now config_text w = (Inr doc, w')" and "lh_yaml L lock_text = Inr doc"
    and "steady_host L" and "found_exist L"
    and "lock_entries doc \<noteq> []" and "\<forall>(n, v) \<in> set (lock_entries doc). \<forall>e. v = PDict e \<longrightarrow> dget e ''version'' \<noteq> Some (PStr [])"
  shows "fst (verify_binary_lock L lock_text (Some config_text) [] None False w2) = Inr []"
proof -
  from update_lock_eq [OF assms(1)] obtain tools found where
    config: "ebind (lh_yaml L config_text) (\<lambda>v. ebind (need_dict v) tools_of) = Inr tools"
    and found: "amap (lock_tool L) tools w = (Inr (map Inr found), w')" and doc: "doc = lock_document now found" .
  from doc have entries: "lock_entries doc = found" by (simp add: lock_entries_def lock_document_def)
  have names: "map fst found = map fst tools" by (rule lock_tool_names [OF found])
  with assms(5) entries have ne: "found \<noteq> []" "tools \<noteq> []" by auto
  from config obtain cfg where c: "lh_yaml L config_text = Inr (PDict cfg)" "tools_of cfg = Inr tools"
    by (auto simp: exn_simps elim!: need_dict.elims)
  with ne(2) have "cfg \<noteq> []" by (auto simp: tools_of_def table_or_empty_def)
  with c have required: "required_tools_of L None (Some config_text) = Inr (Some (map fst tools))"
    by (simp add: required_tools_of_def table_or_empty_def)
  have "fst (entry_problems L [] kv u) = Inr []" if kv: "kv \<in> set found" for kv u
  proof -
    from kv have "Inr kv \<in> set (map Inr found)" by simp
    from amap_origin [OF found this] obtain name spec w1 w3 where "lock_tool L (name, spec) w1 = (Inr (Inr kv), w3)" by auto
    from lock_tool_found [OF this assms(4)] obtain binary version probe d w4 w5 where
      k: "kv = (name, locked_tool binary version probe d)" "version_text L binary name w4 = (Inr (version, probe), w5)"
        "actual_sha256 L binary = Inr d" "binary \<noteq> []" "lh_exists L binary" "d \<noteq> []" by auto
    from assms(6) kv entries k(1) have "version \<noteq> []" by (fastforce simp: locked_tool_def)
    with entry_problems_steady [OF assms(3) k(2-6)] k(1) show ?thesis by simp
  qed
  then have "fst (amap (entry_problems L []) found w2) = Inr (map (\<lambda>_. []) found)" by (rule amap_steady)
  then obtain w3 where "amap (entry_problems L []) found w2 = (Inr (map (\<lambda>_. []) found), w3)" by (metis prod.collapse)
  moreover have "checked_tools (Some (map fst tools)) found = found"
    using names by (auto simp: checked_tools_def filter_id_conv) (metis fst_conv image_eqI list.set_map)
  moreover have "required_problems (Some (map fst tools)) False found = []"
    using ne(2) names by (cases "map fst tools") (auto simp: required_problems_def set_problem_Nil)
  moreover have "table_or_empty doc = Inr (case doc of PDict d \<Rightarrow> d | _ \<Rightarrow> [])" "tools_of (case doc of PDict d \<Rightarrow> d | _ \<Rightarrow> []) = Inr found"
    "lock_header_problems (case doc of PDict d \<Rightarrow> d | _ \<Rightarrow> []) found = []"
    using ne(1) doc by (simp_all add: lock_document_def table_or_empty_def tools_of_def lock_header_problems_def)
  ultimately show ?thesis
    using assms(2) required
    by (simp add: verify_binary_lock_def abind_def alift_def)
qed

section \<open>A sample lock\<close>

definition lock_sample_host :: host where
  "lock_sample_host = \<lparr>hs_sha256 = \<lambda>s. CHR ''d'' # s, hs_hmac = \<lambda>k s. s, hs_keccak = \<lambda>s. s, hs_driver_secret = []\<rparr>"

definition sample_lock_doc :: pv where
  "sample_lock_doc = lock_document ''now'' [(''forge'', locked_tool ''/forge'' ''1.0'' ''1.0'' ''d7f'')]"

definition sample_lock_host :: "unit lock_host" where
  "sample_lock_host = \<lparr>lh_hash = lock_sample_host, lh_which = \<lambda>b. if b = ''forge'' then Some ''/forge'' else None,
     lh_resolve = id, lh_exists = \<lambda>p. p \<noteq> [], lh_bytes = \<lambda>p. Inr ''7f'',
     lh_yaml = \<lambda>s. if s = ''lock'' then Inr sample_lock_doc
       else Inr (PDict [(''tools'', PDict [(''forge'', PDict [(''binary'', PStr ''forge'')])])]),
     lh_exec = \<lambda>argv w. (Exited 0 ''1.0'' [], w), lh_shell = \<lambda>c w. (Exited 0 ''1.0'' [], w)\<rparr>"

lemma sample_lock_facts:
  "update_lock sample_lock_host ''now'' ''tools'' () = (Inr sample_lock_doc, ())"
  "verify_binary_lock sample_lock_host ''lock'' None [] (Some [''forge'']) False () = (Inr [], ())"
  by code_simp+


lemma lock_update_roundtrip_witness:
  "fst (verify_binary_lock sample_lock_host ''lock'' (Some ''tools'') [] None False ()) = Inr []"
proof (rule lock_update_roundtrip [OF sample_lock_facts(1)])
  show "lh_yaml sample_lock_host ''lock'' = Inr sample_lock_doc" by (simp add: sample_lock_host_def)
  show "steady_host sample_lock_host" by (simp add: steady_host_def sample_lock_host_def)
  show "found_exist sample_lock_host" by (simp add: found_exist_def sample_lock_host_def lock_sample_host_def)
  show "lock_entries sample_lock_doc \<noteq> []"
    and "\<forall>(n, v) \<in> set (lock_entries sample_lock_doc). \<forall>e. v = PDict e \<longrightarrow> dget e ''version'' \<noteq> Some (PStr [])"
    by (simp_all add: sample_lock_doc_def lock_document_def lock_entries_def locked_tool_def)
qed

section \<open>What the checks let through\<close>

text \<open>An empty list of required tools, such as that of an empty configuration, checks no entry at all.\<close>

lemma empty_requirement_checks_nothing:
  assumes "lh_yaml L lock_text = Inr (PDict lock)" and "dget lock ''status'' = Some (PStr ''verified'')"
    and "dget lock ''tools'' = Some (PDict (kv # tools))"
  shows "verify_binary_lock L lock_text sibling paths (Some []) extra_ok w = (Inr [], w)"
proof -
  from assms(2) have "lock \<noteq> []" by auto
  with assms show ?thesis
    by (simp add: verify_binary_lock_def table_or_empty_def tools_of_def required_tools_of_def checked_tools_def
        required_problems_def lock_header_problems_def abind_def alift_def dget_def dget_or_def)
qed

text \<open>A probe of a container that prints no digest is not compared with the recorded one.\<close>

lemma container_digest_optional:
  "probe_problems ''forge'' [(''version'', PStr ''1.0''), (''sha256'', PStr digest)] ''1.0'' = []"
proof -
  have "scan_probe ''/usr/local/bin/forge'' (after_marker ''=== forge ==='' (splitlines ''1.0'')) = ([''1.0''], [])"
    by code_simp
  then show ?thesis by (simp add: probe_problems_def)
qed

end
