(* ===== verification/Workspace.thy ===== *)
theory Workspace
  imports Tools RpcGate FoundryConfig Certificates
begin

text \<open>
  The helpers around the workspace: the file system that an agent sees (\<open>agents/sandbox_fs.py\<close>), the
  home directory with the audit keys (\<open>core/home.py\<close>), the budget (\<open>core/budget.py\<close>) and the pinned
  fork (\<open>chain/fork.py\<close>). The resolution of a path, the test for a symbolic link, the random bytes of a
  key, regular expressions and the float operations are arguments; permissions are not modelled.
\<close>

section \<open>The sandbox\<close>

record sandbox =
  sb_roots :: "string list list"
  sb_resolve :: "string list \<Rightarrow> string list"
  sb_symlink :: "string \<Rightarrow> bool" \<comment> \<open>the path exists and is a symbolic link\<close>

definition make_sandbox :: "(string list \<Rightarrow> string list) \<Rightarrow> (string \<Rightarrow> bool) \<Rightarrow> string list \<Rightarrow> sandbox res" where
  "make_sandbox resolve symlink allowed =
     (if allowed = [] then Inl (ValueError ''at least one allowed root is required'')
      else Inr \<lparr>sb_roots = map (\<lambda>r. resolve (path_parts r)) allowed, sb_resolve = resolve, sb_symlink = symlink\<rparr>)"

text \<open>\<open>Path.parents\<close> of an absolute path.\<close>

fun parents :: "string list \<Rightarrow> string list list" where
  "parents [] = []"
| "parents (c # p) = map (Cons c) (parents p) @ [[]]"

definition inside_roots :: "sandbox \<Rightarrow> string list \<Rightarrow> bool" where
  "inside_roots S target =
     list_ex (\<lambda>root. list_ex (\<lambda>p. root = p \<or> root \<in> set (parents p)) (target # parents target)) (sb_roots S)"

definition inside :: "sandbox \<Rightarrow> string \<Rightarrow> bool \<Rightarrow> string list res" where
  "inside S path for_write =
     (if \<not> startswith path ''/'' then Inl (SandboxPathError ''sandbox paths must be absolute'')
      else let target = sb_resolve S (path_parts path) in
        if \<not> inside_roots S target then Inl (SandboxPathError (''path escapes sandbox roots: '' @ path))
        else if for_write \<and> sb_symlink S path then Inl (SandboxPathError ''writing through a symlink is forbidden'')
        else Inr target)"

definition sandbox_read :: "sandbox \<Rightarrow> tree \<Rightarrow> string \<Rightarrow> string res" where
  "sandbox_read S t path = ebind (inside S path False) (\<lambda>target.
     case map_of t target of
       None \<Rightarrow> Inl (FileNotFoundError (''/'' @ join ''/'' target))
     | Some b \<Rightarrow> Inr (universal_newlines b))"

text \<open>A directory of the sandbox: it holds a file, or a root, or is a root, which is created.\<close>

definition sandbox_dir :: "sandbox \<Rightarrow> tree \<Rightarrow> string list \<Rightarrow> bool" where
  "sandbox_dir S t p = (list_ex (\<lambda>f. is_relative_to (fst f) p \<and> fst f \<noteq> p) t \<or> list_ex (\<lambda>r. is_relative_to r p) (sb_roots S))"

text \<open>
  The text is written to a temporary file beside the target, which then replaces it; when the target is a
  directory the replacement fails and the temporary file stays.
\<close>

definition sandbox_write :: "sandbox \<Rightarrow> string \<Rightarrow> string \<Rightarrow> (string list, tree) act" where
  "sandbox_write S path content t =
     (case inside S path True of
        Inl e \<Rightarrow> (Inl e, t)
      | Inr target \<Rightarrow>
          if list_ex (\<lambda>p. map_of t p \<noteq> None) (parents target) then (Inl (OSError ''Not a directory''), t)
          else if target = [] then (Inl (ValueError ''has an empty name''), t)
          else (let tmp = butlast target @ [last target @ ''.tmp''] in
            if sandbox_dir S t tmp then (Inl (OSError ''Is a directory''), t)
            else if sandbox_dir S t target then (Inl (OSError ''Is a directory''), AList.update tmp content t)
            else (Inr target, AList.update target content (AList.delete tmp t))))"

definition sandbox_grep :: "(string \<Rightarrow> (string \<Rightarrow> bool) res) \<Rightarrow> sandbox \<Rightarrow> tree \<Rightarrow> string \<Rightarrow> string \<Rightarrow> string list res" where
  "sandbox_grep compile S t path pattern =
     ebind (sandbox_read S t path) (\<lambda>body. ebind (compile pattern) (\<lambda>rx. Inr (filter rx (splitlines body))))"

section \<open>The home directory\<close>

text \<open>The path of an audit's key: \<open>env_home\<close> is the environment variable, \<open>expand\<close> is \<open>expanduser\<close>.\<close>

definition home_path :: "(string \<Rightarrow> string) \<Rightarrow> string option \<Rightarrow> string option \<Rightarrow> string" where
  "home_path expand explicit env_home =
     expand (if given explicit then the explicit else case env_home of None \<Rightarrow> ''~/.l0vi0x'' | Some h \<Rightarrow> h)"

text \<open>The path of the key, and its content, which is made once.\<close>

definition ensure_audit_key :: "(string \<Rightarrow> bool) \<Rightarrow> string \<Rightarrow> string \<Rightarrow> string \<Rightarrow> (string, (string \<times> string) list) act" where
  "ensure_audit_key symlink fresh home audit_id files =
     (if audit_id = [] \<or> audit_id \<in> {''.'', ''..''} \<or> CHR ''/'' \<in> set audit_id \<or> CHR 0x5C \<in> set audit_id then
        (Inl (ValueError ''audit_id must be a single path-safe identifier''), files)
      else let path = home @ ''/keys/'' @ audit_id @ ''.key'' in
        if symlink path then (Inl (RuntimeError (''refusing certificate key symlink: '' @ path)), files)
        else (Inr path, case map_of files path of None \<Rightarrow> (path, fresh) # files | Some k \<Rightarrow> files))"

section \<open>The budget\<close>

record 'f budget =
  bu_caps :: "(string \<times> 'f) list"
  bu_reserve :: 'f
  bu_used :: "(string \<times> 'f) list"

record 'f budget_floats =
  bf_zero :: 'f
  bf_inf :: 'f
  bf_add :: "'f \<Rightarrow> 'f \<Rightarrow> 'f"
  bf_sub :: "'f \<Rightarrow> 'f \<Rightarrow> 'f"
  bf_max :: "'f \<Rightarrow> 'f \<Rightarrow> 'f"
  bf_le :: "'f \<Rightarrow> 'f \<Rightarrow> bool"

definition budget_new :: "'f budget_floats \<Rightarrow> (string \<times> 'f) list \<Rightarrow> 'f \<Rightarrow> 'f budget" where
  "budget_new F caps reserve = \<lparr>bu_caps = caps, bu_reserve = reserve, bu_used = map (\<lambda>(p, c). (p, bf_zero F)) caps\<rparr>"

definition phase_cap :: "'f budget_floats \<Rightarrow> 'f budget \<Rightarrow> string \<Rightarrow> 'f" where
  "phase_cap F b phase = (case map_of (bu_caps b) phase of None \<Rightarrow> bf_inf F | Some c \<Rightarrow> c)"

definition phase_used :: "'f budget_floats \<Rightarrow> 'f budget \<Rightarrow> string \<Rightarrow> 'f" where
  "phase_used F b phase = (case map_of (bu_used b) phase of None \<Rightarrow> bf_zero F | Some u \<Rightarrow> u)"

definition charge :: "'f budget_floats \<Rightarrow> 'f budget \<Rightarrow> string \<Rightarrow> 'f \<Rightarrow> bool \<times> 'f budget" where
  "charge F b phase amount =
     (let total = bf_add F (phase_used F b phase) amount in
      if bf_le F total (phase_cap F b phase) then (True, b\<lparr>bu_used := AList.update phase total (bu_used b)\<rparr>) else (False, b))"

definition budget_remaining :: "'f budget_floats \<Rightarrow> 'f budget \<Rightarrow> string \<Rightarrow> 'f" where
  "budget_remaining F b phase = bf_max F (bf_zero F) (bf_sub F (phase_cap F b phase) (phase_used F b phase))"

section \<open>The pinned fork\<close>

text \<open>\<open>int(text, 16)\<close>.\<close>

definition hex_nat :: "string \<Rightarrow> nat option" where
  "hex_nat s = (if startswith s ''0x'' \<or> startswith s ''0X'' then prefixed_nat 16 (drop 2 s) else base_nat 16 s)"

definition int_base16 :: "string \<Rightarrow> int option" where
  "int_base16 s = (case strip s of
     [] \<Rightarrow> None
   | c # cs \<Rightarrow> if c = CHR ''-'' then map_option (\<lambda>n. - int n) (hex_nat cs)
              else if c = CHR ''+'' then map_option int (hex_nat cs) else map_option int (hex_nat (c # cs)))"

definition hex_result :: "pv \<Rightarrow> int res" where
  "hex_result v = ebind (need_dict v) (\<lambda>d. case dget_or d ''result'' (PStr ''0x0'') of
     PStr s \<Rightarrow> (case int_base16 s of Some n \<Rightarrow> Inr n | None \<Rightarrow> Inl (ValueError ''invalid literal for int() with base 16''))
   | _ \<Rightarrow> Inl (TypeError ''int() cannot convert non-string with explicit base''))"

record fork =
  fo_chain_id :: int
  fo_block_number :: int
  fo_provider_label :: string
  fo_gate_url :: string

text \<open>\<open>call\<close> is the client's \<open>call\<close>; both questions are asked before either answer is read.\<close>

definition pinned_fork :: "rpc_client \<Rightarrow> (string \<Rightarrow> (pv, 'w) act) \<Rightarrow> string \<Rightarrow> int \<Rightarrow> int \<Rightarrow> (fork, 'w) act" where
  "pinned_fork c call label expected_chain expected_block =
     abind (call ''eth_chainId'') (\<lambda>chain. abind (call ''eth_blockNumber'') (\<lambda>block.
     alift (ebind (hex_result chain) (\<lambda>chain_id. ebind (hex_result block) (\<lambda>block_no.
       if chain_id \<noteq> expected_chain then
         Inl (ValueError (''chain id mismatch: '' @ int_str chain_id @ '' != '' @ int_str expected_chain))
       else if block_no \<noteq> expected_block then
         Inl (ValueError (''block mismatch: '' @ int_str block_no @ '' != '' @ int_str expected_block))
       else Inr \<lparr>fo_chain_id = chain_id, fo_block_number = block_no, fo_provider_label = label, fo_gate_url = rc_gate_url c\<rparr>)))))"

section \<open>Lemmas\<close>

lemma parents_iff: "q \<in> set (parents p) \<longleftrightarrow> (\<exists>r. r \<noteq> [] \<and> p = q @ r)"
proof (induction p arbitrary: q)
  case (Cons c p)
  then show ?case by (cases q) auto
qed simp

lemma is_relative_iff: "is_relative_to p root \<longleftrightarrow> (\<exists>r. p = root @ r)"
  by (auto simp: is_relative_to_def) (metis append_take_drop_id)

lemma inside_roots_iff: "inside_roots S target \<longleftrightarrow> (\<exists>root \<in> set (sb_roots S). is_relative_to target root)"
proof -
  have "list_ex (\<lambda>p. root = p \<or> root \<in> set (parents p)) (target # parents target) \<longleftrightarrow> (\<exists>r. target = root @ r)" for root
  proof
    assume "list_ex (\<lambda>p. root = p \<or> root \<in> set (parents p)) (target # parents target)"
    then show "\<exists>r. target = root @ r" by (auto simp: list_ex_iff parents_iff)
  next
    assume "\<exists>r. target = root @ r"
    then have "root = target \<or> root \<in> set (parents target)" by (auto simp: parents_iff)
    then show "list_ex (\<lambda>p. root = p \<or> root \<in> set (parents p)) (target # parents target)" by simp
  qed
  then show ?thesis by (simp add: inside_roots_def is_relative_iff list_ex_iff)
qed

lemma inside_eq_Inr:
  "inside S path w = Inr target \<longleftrightarrow> startswith path ''/'' \<and> target = sb_resolve S (path_parts path) \<and>
     (\<exists>root \<in> set (sb_roots S). is_relative_to target root) \<and> \<not> (w \<and> sb_symlink S path)"
  by (auto simp: inside_def Let_def inside_roots_iff)

text \<open>The only path outside the roots that a write may leave behind: the temporary file of a root itself.\<close>

definition beside_root :: "sandbox \<Rightarrow> string list \<Rightarrow> bool" where
  "beside_root S p = (\<exists>root \<in> set (sb_roots S). root \<noteq> [] \<and> p = butlast root @ [last root @ ''.tmp''])"

lemma tmp_inside:
  assumes "is_relative_to target root" and "target \<noteq> []" and "target \<noteq> root"
  shows "is_relative_to (butlast target @ [x]) root"
  using assms by (auto simp: is_relative_iff butlast_append)

text \<open>
  C39: Whatever an agent writes stays in the sandbox: a write, whether it succeeds or fails, changes no file
  outside the roots but the temporary file of a root, and that only when it fails; after a success the
  target is inside, holds the text, and no other file but its temporary one has changed.
\<close>

theorem sandbox_write_confined:
  assumes "sandbox_write S path content t = (r, t')"
  shows "(\<forall>p. map_of t' p = map_of t p \<or> (\<exists>root \<in> set (sb_roots S). is_relative_to p root) \<or> (beside_root S p \<and> isl r)) \<and>
    (case r of Inl e \<Rightarrow> True
     | Inr target \<Rightarrow> target = sb_resolve S (path_parts path) \<and> (\<exists>root \<in> set (sb_roots S). is_relative_to target root) \<and>
         map_of t' target = Some content \<and>
         (\<forall>p. p = target \<or> p = butlast target @ [last target @ ''.tmp''] \<or> map_of t' p = map_of t p))"
proof (cases "inside S path True")
  case (Inl e)
  with assms have "r = Inl e" "t' = t" by (simp_all add: sandbox_write_def)
  then show ?thesis by simp
next
  case (Inr target)
  then obtain root where root: "root \<in> set (sb_roots S)" "is_relative_to target root"
    and target: "target = sb_resolve S (path_parts path)" by (auto simp: inside_eq_Inr)
  let ?tmp = "butlast target @ [last target @ ''.tmp'']"
  show ?thesis
  proof (cases "target = [] \<or> list_ex (\<lambda>p. map_of t p \<noteq> None) (parents target) \<or> sandbox_dir S t ?tmp")
    case True
    with assms Inr show ?thesis by (auto simp: sandbox_write_def Let_def split: if_splits)
  next
    case False
    show ?thesis
    proof (cases "sandbox_dir S t target")
      case True
      with False assms Inr have "t' = AList.update ?tmp content t" "isl r"
        by (auto simp: sandbox_write_def Let_def split: if_splits)
      moreover have "is_relative_to ?tmp root \<or> beside_root S ?tmp"
        using tmp_inside [OF root(2)] root(1) False by (auto simp: beside_root_def)
      ultimately show ?thesis using root(1) by (auto simp: update_conv' isl_def split: sum.splits)
    next
      case dir: False
      with False assms Inr have t': "t' = AList.update target content (AList.delete ?tmp t)" "r = Inr target"
        by (auto simp: sandbox_write_def Let_def split: if_splits)
      from dir root have "target \<noteq> root" by (auto simp: sandbox_dir_def list_ex_iff is_relative_iff)
      with False have "is_relative_to ?tmp root" using tmp_inside [OF root(2)] by simp
      with root target t' show ?thesis by (auto simp: update_conv' delete_conv')
    qed
  qed
qed

text \<open>A write to a root itself leaves a file beside it.\<close>

lemma root_write_escapes:
  assumes "sb_roots S = [[''box'']]" and "sb_resolve S = id" and "\<not> sb_symlink S ''/box''"
  shows "sandbox_write S ''/box'' x [] = (Inl (OSError ''Is a directory''), [([''box.tmp''], x)])"
proof -
  have "path_parts ''/box'' = [''box'']" by code_simp
  with assms show ?thesis
    by (simp add: sandbox_write_def inside_def inside_roots_def sandbox_dir_def is_relative_to_def Let_def)
qed

section \<open>Keys and budgets\<close>

lemma audit_key_stable:
  assumes "ensure_audit_key symlink fresh home audit files = (Inr path, files')"
  shows "ensure_audit_key symlink other home audit files' = (Inr path, files') \<and>
    map_of files' path = Some (case map_of files path of None \<Rightarrow> fresh | Some k \<Rightarrow> k)"
  using assms by (auto simp: ensure_audit_key_def Let_def split: if_splits option.splits)

text \<open>A refused charge changes nothing, an accepted one stays within the cap.\<close>

lemma charge_capped:
  assumes "charge F b phase amount = (ok, b')"
  shows "if ok then bf_le F (phase_used F b' phase) (phase_cap F b' phase) else b' = b"
  using assms by (auto simp: charge_def phase_used_def phase_cap_def Let_def update_conv' split: if_splits)

lemma pinned_fork_matches:
  assumes "pinned_fork c call label chain block w = (Inr f, w')"
  shows "fo_chain_id f = chain \<and> fo_block_number f = block"
  using assms by (auto simp: pinned_fork_def exn_simps split: if_splits)

section \<open>Witness\<close>

definition sample_sandbox :: sandbox where
  "sample_sandbox = \<lparr>sb_roots = [[''box'']], sb_resolve = id, sb_symlink = \<lambda>p. False\<rparr>"

lemma sandbox_write_confined_witness:
  "(\<forall>p. map_of [([''box'', ''a''], ''x'')] p = map_of ([] :: tree) p \<or>
      (\<exists>root \<in> set (sb_roots sample_sandbox). is_relative_to p root) \<or>
      (beside_root sample_sandbox p \<and> isl (Inr [''box'', ''a''] :: string list res))) \<and>
   (case Inr [''box'', ''a''] :: string list res of Inl e \<Rightarrow> True
    | Inr target \<Rightarrow> target = sb_resolve sample_sandbox (path_parts ''/box/a'') \<and>
        (\<exists>root \<in> set (sb_roots sample_sandbox). is_relative_to target root) \<and>
        map_of [([''box'', ''a''], ''x'')] target = Some ''x'' \<and>
        (\<forall>p. p = target \<or> p = butlast target @ [last target @ ''.tmp''] \<or>
           map_of [([''box'', ''a''], ''x'')] p = map_of ([] :: tree) p))"
proof (rule sandbox_write_confined)
  show "sandbox_write sample_sandbox ''/box/a'' ''x'' [] = (Inr [''box'', ''a''], [([''box'', ''a''], ''x'')])" by code_simp
qed

end
