(* ===== verification/Acceptance.thy ===== *)
theory Acceptance
  imports Pipeline ReplayLoad ToolLock Workspace
begin

text \<open>
  The acceptance driver \<open>driver/m1b_acceptance.py\<close>: it collects replays of the pinned fixture inside the
  container, and certifies them on the host. Here are its paths, its documents, the witness it declares,
  the collection it loads again, and the phase \<open>certify\<close>; the phase \<open>collect\<close> is in \<open>AcceptanceRun\<close>.

  The repository and the retained runs are the trees of the verifier's world; the files that the driver
  itself writes below its work root are the state. The resolution of a path, the parsers for JSON and YAML
  and pydantic's parsing of a witness are arguments, as are the clock and the tools of the lock.
\<close>

section \<open>Constants\<close>

definition FIXTURE_REL :: "string list" where
  "FIXTURE_REL = [''tests'', ''fixtures'', ''m1b_foundry'']"

definition WITNESS_FILE :: string where
  "WITNESS_FILE = ''test/OracleExploitWitness.t.sol''"

definition CONTROL_TEST :: string where
  "CONTROL_TEST = ''test_control''"

definition WITNESS_TEST :: string where
  "WITNESS_TEST = ''test_witness''"

definition HARNESS_SOURCE :: string where
  "HARNESS_SOURCE = ''test/lib/EconHarness.sol''"

definition WRAPPER_SOURCE :: string where
  "WRAPPER_SOURCE = ''test/Create2HarnessFactory.sol''"

definition ASSERTION_EXPECTED :: int where
  "ASSERTION_EXPECTED = 50 * 10 ^ 18"

definition ACTOR_FALLBACK :: string where
  "ACTOR_FALLBACK = ''0x000000000000000000000000000000000000a11ce''"

definition zeros :: "nat \<Rightarrow> string" where
  "zeros n = replicate n (CHR ''0'')"

definition HARNESS_SALT :: string where
  "HARNESS_SALT = ''0x'' @ zeros 60 @ ''1111''"

definition M1B_TOOL_LOCK_REL :: string where
  "M1B_TOOL_LOCK_REL = ''config/tools.m1b.lock.yaml''"

definition M1B_FOUNDRY_IMAGE :: string where
  "M1B_FOUNDRY_IMAGE = ''ghcr.io/foundry-rs/foundry@'' @
     ''sha256:2e4287278639262de76db72477301d5d3212fa1b1cce710d7d148750a46ce9e7''"

section \<open>Paths across the container's boundary\<close>

definition SANDBOX_ROOT :: "string list" where
  "SANDBOX_ROOT = [''workspace'', ''task'']"

text \<open>An absolute path with exactly two leading slashes is another root for \<open>pathlib\<close>.\<close>

definition normalize_meta_path :: "(string list \<Rightarrow> string list) \<Rightarrow> string \<Rightarrow> string list \<Rightarrow> string list" where
  "normalize_meta_path resolve path host_root =
     (let p = path_parts path in
      if \<not> startswith path ''/'' then resolve (host_root @ p)
      else if \<not> (startswith path ''//'' \<and> \<not> startswith path ''///'') \<and> is_relative_to p SANDBOX_ROOT then
        resolve (host_root @ drop (length SANDBOX_ROOT) p)
      else resolve p)"

definition relative_text :: "string list \<Rightarrow> string" where
  "relative_text p = (if p = [] then ''.'' else join ''/'' p)"

definition encode_work_path :: "(string list \<Rightarrow> string list) \<Rightarrow> string list \<Rightarrow> string list \<Rightarrow> string" where
  "encode_work_path resolve path host_root =
     (let p = resolve path in
      if is_relative_to p SANDBOX_ROOT then relative_text (drop (length SANDBOX_ROOT) p)
      else if is_relative_to p (resolve host_root) then relative_text (drop (length (resolve host_root)) p)
      else path_text p)"

section \<open>The bench\<close>

record ('f, 'x) bench =
  bn_world :: "'f world"
  bn_root :: "string list"
  bn_work :: "string list"
  bn_resolve :: "string list \<Rightarrow> string list"
  bn_yaml :: "string \<Rightarrow> pv res"
  bn_validate :: "pv \<Rightarrow> witness res"
  bn_lock :: "'x lock_host"
  bn_now :: string
  bn_cwd :: "string list"

definition repo_tree :: "('f, 'x) bench \<Rightarrow> tree" where
  "repo_tree B = wo_tree (bn_world B) (bn_root B)"

definition bench_host :: "('f, 'x) bench \<Rightarrow> host" where
  "bench_host B = wo_host (bn_world B)"

definition subtree :: "string list \<Rightarrow> tree \<Rightarrow> tree" where
  "subtree dir t = map (\<lambda>f. (drop (length dir) (fst f), snd f)) (filter (\<lambda>f. is_relative_to (fst f) dir) t)"

definition fixture_tree :: "('f, 'x) bench \<Rightarrow> tree" where
  "fixture_tree B = subtree FIXTURE_REL (repo_tree B)"

definition repo_yaml :: "('f, 'x) bench \<Rightarrow> string \<Rightarrow> pv res" where
  "repo_yaml B path = ebind (read_text (repo_tree B) path) (bn_yaml B)"

definition POLICY_PATH :: string where
  "POLICY_PATH = ''config/policy/cheatcode_policy.yaml''"

definition CATALOG_PATH :: string where
  "CATALOG_PATH = ''config/policy/cheatcode_categories.yaml''"

text \<open>\<open>_load_policy\<close>: the policy, or the empty one, and the table of categories.\<close>

definition catalog_entries :: "pv \<Rightarrow> (string \<times> string) list res" where
  "catalog_entries raw =
     (case por raw (PDict []) of
        PDict d \<Rightarrow> (case dget_or d ''categories'' (PDict d) of
            PDict categories \<Rightarrow> Inr (map (\<lambda>kv. (fst kv, py_str (snd kv))) categories)
          | _ \<Rightarrow> Inl (RuntimeError ''cheatcode catalog is malformed''))
      | _ \<Rightarrow> Inl (AttributeError ''get''))"

definition load_policy :: "('f, 'x) bench \<Rightarrow> (pv \<times> (string \<times> string) list) res" where
  "load_policy B = ebind (repo_yaml B POLICY_PATH) (\<lambda>policy. ebind (repo_yaml B CATALOG_PATH) (\<lambda>raw.
     ebind (catalog_entries raw) (\<lambda>catalog. Inr (por policy (PDict []), catalog))))"

section \<open>The identity of the harness\<close>

record traced_identity =
  ti_harness_address :: string
  ti_wrapper_address :: string
  ti_deployer :: string
  ti_init_code_sha256 :: string
  ti_actor :: string
  ti_token :: string
  ti_wrapper_depth :: string

record full_identity = traced_identity +
  ti_harness_source_sha256 :: string
  ti_wrapper_source_sha256 :: string
  ti_harness_runtime_sha256 :: string
  ti_wrapper_runtime_sha256 :: string

definition init_code_hash :: "host \<Rightarrow> pv \<Rightarrow> string res" where
  "init_code_hash H v = (case v of
     PStr s \<Rightarrow> (case from_hex (if startswith s ''0x'' then drop 2 s else s) of
        None \<Rightarrow> bad_hex | Some b \<Rightarrow> Inr (hs_sha256 H b))
   | _ \<Rightarrow> Inl (AttributeError ''startswith''))"

definition extract_identity :: "host \<Rightarrow> trace_summary \<Rightarrow> traced_identity res" where
  "extract_identity H tr =
     (case ts_assertion_events tr of
        [a] \<Rightarrow>
          let lowered = (\<lambda>k. lower (py_str (dget_or a k (PStr []))));
              harness = lowered ''emitter''; creates = filter (harness_create harness) (ts_frames tr) in
          if [] \<in> set (map lowered [''emitter'', ''caller'', ''actor'', ''token'']) then
            runtime_err ''bootstrap assertion does not expose harness/wrapper/actor/token''
          else (case creates of
            [f] \<Rightarrow>
              if \<not> truthy (tf_caller f) \<or> \<not> truthy (tf_data f) then
                runtime_err ''harness CREATE2 frame lacks caller or init code''
              else ebind (init_code_hash H (tf_data f)) (\<lambda>h. Inr
                \<lparr>ti_harness_address = harness, ti_wrapper_address = lowered ''caller'',
                 ti_deployer = lower (py_str (tf_caller f)), ti_init_code_sha256 = h, ti_actor = lowered ''actor'',
                 ti_token = lowered ''token'', ti_wrapper_depth = py_str (dget_or a ''depth'' (PStr ''-1''))\<rparr>)
          | _ \<Rightarrow> runtime_err (''expected one harness CREATE2 frame, found '' @ nat_str (length creates)))
      | events \<Rightarrow> runtime_err (''expected one AssertionChecked event, found '' @ nat_str (length events)))"

definition bench_artifact :: "'f world \<Rightarrow> tree \<Rightarrow> string \<Rightarrow> pdict res" where
  "bench_artifact W t source_path =
     (let stem = path_stem (path_name source_path) in
      ebind (emap (artifact_match W source_path stem) (artifact_candidates t stem)) (\<lambda>found.
        case List.map_filter id found of
          [artifact] \<Rightarrow> Inr artifact
        | ms \<Rightarrow> runtime_err (''expected one compiled artifact for '' @ source_path @ '', found '' @ nat_str (length ms))))"

definition bench_runtime_hash :: "host \<Rightarrow> pdict \<Rightarrow> string res" where
  "bench_runtime_hash H artifact =
     (case dget_or artifact ''deployedBytecode'' PNone of
        PDict d \<Rightarrow> (case dget_or d ''object'' PNone of
            PStr s \<Rightarrow> if startswith s ''0x'' then
                (case from_hex (drop 2 s) of None \<Rightarrow> bad_hex | Some b \<Rightarrow> Inr (hs_sha256 H b))
              else runtime_err ''deployed bytecode is not hex''
          | _ \<Rightarrow> runtime_err ''compiled artifact has no deployedBytecode.object'')
      | _ \<Rightarrow> runtime_err ''compiled artifact has no deployedBytecode.object'')"

definition identity_from_root :: "'f world \<Rightarrow> tree \<Rightarrow> trace_summary \<Rightarrow> full_identity res" where
  "identity_from_root W t tr =
     (let H = wo_host W in
      ebind (extract_identity H tr) (\<lambda>i.
      ebind (sha256_file H t HARNESS_SOURCE) (\<lambda>hs.
      ebind (sha256_file H t WRAPPER_SOURCE) (\<lambda>ws.
      ebind (ebind (bench_artifact W t HARNESS_SOURCE) (bench_runtime_hash H)) (\<lambda>hr.
      ebind (ebind (bench_artifact W t WRAPPER_SOURCE) (bench_runtime_hash H)) (\<lambda>wr.
        Inr (traced_identity.extend i \<lparr>ti_harness_source_sha256 = hs, ti_wrapper_source_sha256 = ws,
          ti_harness_runtime_sha256 = hr, ti_wrapper_runtime_sha256 = wr\<rparr>)))))))"

section \<open>The witness\<close>

definition m1b_compiler :: pdict where
  "m1b_compiler = [(''solc'', PStr ''0.8.24''), (''optimizer'', PBool True), (''optimizer_runs'', PInt 200),
     (''evm_version'', PStr ''cancun'')]"

definition m1b_assertion :: "string \<Rightarrow> string \<Rightarrow> witness_assertion" where
  "m1b_assertion actor token = \<lparr>wa_id = ''M1B_ORACLE'', wa_kind = ''balance_delta'', wa_target = ''balance_delta'',
     wa_operator = ''eq'', wa_expected = PInt ASSERTION_EXPECTED, wa_observed_record = ''AssertionChecked'',
     wa_actor = Some actor, wa_token = Some token, wa_required = True\<rparr>"

text \<open>\<open>_hashes\<close>: of the file, of the attack body and of the call site.\<close>

definition template_hashes :: "host \<Rightarrow> tree \<Rightarrow> string \<Rightarrow> (string \<times> string \<times> string) res" where
  "template_hashes H t file = ebind (read_text t file) (\<lambda>body. ebind (sha256_file H t file) (\<lambda>whole.
     ebind (marked_region_sha256 H body ''ATTACK BODY'') (\<lambda>attack.
     ebind (marked_region_sha256 H body ''WRAPPER CALLSITE'') (\<lambda>site. Inr (whole, attack, site)))))"

definition declared_witness :: "host \<Rightarrow> tree \<Rightarrow> string \<Rightarrow> full_identity \<Rightarrow> string \<Rightarrow> witness res" where
  "declared_witness H fixture commit i env_hash =
     ebind (template_hashes H fixture WITNESS_FILE) (\<lambda>(whole, attack, site).
     ebind (py_int (PStr (ti_wrapper_depth i))) (\<lambda>depth.
       Inr \<lparr>w_witness_class = Local_deployment, w_chain_id = 31337, w_fork_block = None, w_commit = commit,
         w_compiler = m1b_compiler, w_test_file = WITNESS_FILE, w_test_name = WITNESS_TEST,
         w_control_test_name = CONTROL_TEST, w_initial_capital_wei = 10 ^ 18, w_max_time_advance_s = 0,
         w_max_block_advance = 0, w_declared_actors = [ti_actor i], w_declared_tokens = [ti_token i],
         w_token_decimals = [(ti_token i, 18)], w_setup_budget = Some [(''native_wei'', PInt (10 ^ 18))],
         w_assertions = [m1b_assertion (ti_actor i) (ti_token i)], w_invariant_check_pins = [],
         w_template_sha256 = whole, w_attack_body_sha256 = attack, w_harness_address = ti_harness_address i,
         w_harness_create2_salt = HARNESS_SALT, w_harness_create2_deployer = Some (ti_deployer i),
         w_harness_init_code_sha256 = Some (ti_init_code_sha256 i),
         w_harness_runtime_sha256 = Some (ti_harness_runtime_sha256 i), w_harness_source_path = Some HARNESS_SOURCE,
         w_harness_source_sha256 = Some (ti_harness_source_sha256 i), w_wrapper_address = Some (ti_wrapper_address i),
         w_wrapper_runtime_sha256 = Some (ti_wrapper_runtime_sha256 i), w_wrapper_source_path = Some WRAPPER_SOURCE,
         w_wrapper_source_sha256 = Some (ti_wrapper_source_sha256 i), w_expected_wrapper_depth = depth,
         w_wrapper_callsite_sha256 = site, w_rpc_provider_label = Some ''m1b-gated-local'',
         w_cross_check_provider_label = None, w_env_hash = env_hash\<rparr>))"

section \<open>The collection, loaded again\<close>

definition retained_run :: "'f world \<Rightarrow> nat \<Rightarrow> string list \<Rightarrow> derived_run \<Rightarrow> replay_run" where
  "retained_run W i dir d =
     (let ad = dir @ [''artifacts'', hd (artifact_dirs (wo_tree W dir))] in
      \<lparr>rr_index = i, rr_passed = True, rr_artifact_dir = ad, rr_trace_path = ad @ [''trace.json''],
       rr_control_path = ad @ [''control.json''], rr_control_trace_path = ad @ [''control-trace.json''],
       rr_environment_path = ad @ [''environment.json''], rr_control_sha256 = dr_control_hash d,
       rr_environment_hash = dr_environment_hash d, rr_structured = dr_trace d\<rparr>)"

definition load_collection :: "('f, 'x) bench \<Rightarrow> witness \<Rightarrow> (string \<times> string) list \<Rightarrow> string list \<Rightarrow> string list list \<Rightarrow>
    replay_collection res" where
  "load_collection B w catalog replay_root raw_dirs =
     (let W = bn_world B; H = wo_host W; dirs = map (bn_resolve B) raw_dirs in
      if length dirs < 3 then
        runtime_err (''expected at least three retained replay runs under '' @ path_text replay_root)
      else ebind (emap (\<lambda>dir. load_run W dir w catalog) dirs) (\<lambda>derived.
        let records = map (\<lambda>d. summary_sha256 H (dr_trace d)) derived; controls = map dr_control_hash derived;
            envs = map dr_environment_hash derived in
        if length (remdups envs) \<noteq> 1 \<or> length (remdups records) \<noteq> 1 \<or> length (remdups controls) \<noteq> 1 then
          runtime_err ''retained replay collection is not deterministic''
        else ebind (repo_yaml B POLICY_PATH) (\<lambda>policy. ebind (repo_yaml B CATALOG_PATH) (\<lambda>raw.
          Inr \<lparr>cl_witness_hash = witness_hash H w, cl_root = replay_root,
            cl_runs = map (\<lambda>(i, dir, d). retained_run W i dir d) (zip [1 ..< length dirs + 1] (zip dirs derived)),
            cl_observed_records_sha256 = records_aggregate H records, cl_trace_policy_sha256 = policy_hash H policy raw,
            cl_control_sha256 = hd controls, cl_environment_hash = hd envs\<rparr>))))"

section \<open>The tool lock of the fixture\<close>

fun all_present :: "'w lock_host \<Rightarrow> pdict \<Rightarrow> string list \<Rightarrow> bool res" where
  "all_present L tools [] = Inr True"
| "all_present L tools (n # ns) = ebind (need_dict (dget_or tools n PNone)) (\<lambda>entry.
     if lh_exists L (py_str (dget_or entry ''binary'' (PStr []))) then all_present L tools ns else Inr False)"

definition verify_m1b_tool_lock :: "'w lock_host \<Rightarrow> string \<Rightarrow> string list \<Rightarrow> (string list, 'w) act" where
  "verify_m1b_tool_lock L lock_text names =
     abind (alift (ebind (lh_yaml L lock_text) (\<lambda>v. ebind (table_or_empty v) tools_of))) (\<lambda>tools.
     let locked = filter (dhas tools) names in
     abind (alift (if locked = [] then Inr False else all_present L tools locked)) (\<lambda>present.
       if present then verify_binary_lock L lock_text None [] (Some names) True
       else verify_container_binary_lock L lock_text M1B_FOUNDRY_IMAGE names))"

definition LOCKED_TOOLS :: "string list" where
  "LOCKED_TOOLS = [''forge'', ''anvil'', ''cast'']"

section \<open>What is verified\<close>

definition price_line :: string where
  "price_line = ''return oracle.price();''"

definition target_source :: string where
  "target_source = join ''/'' (FIXTURE_REL @ [''src/LendingPool.sol''])"

text \<open>The first line that reads the price, counted from one.\<close>

definition target_span :: "host \<Rightarrow> string \<Rightarrow> span res" where
  "target_span H body =
     (case filter (\<lambda>(i, l). contains l price_line) (List.enumerate 1 (lines_from [] body)) of
        [] \<Rightarrow> Inl StopIteration
      | (i, l) # _ \<Rightarrow> Inr \<lparr>sp_file = target_source, sp_start = int i, sp_end = int i, sp_sha256 = hs_sha256 H l\<rparr>)"

definition m1b_hypothesis :: "string \<Rightarrow> string \<Rightarrow> span \<Rightarrow> hypothesis" where
  "m1b_hypothesis now commit target = \<lparr>h_id = ''H-M1B-ORACLE-001'',
     h_claim = ''The lending pool's borrow capacity is controlled by a mutable oracle price, allowing a caller to extract protocol tokens by inflating that price.'',
     h_target = target, h_invariant_id = ''INV-ORACLE-BORROW-CAPACITY'', h_capabilities = [PERMISSIONLESS, ORACLE_MANIP],
     h_preconditions = [''The attacker can induce an unjustified oracle price increase before borrowing.''],
     h_assumptions = [],
     h_attack_sketch = [''Raise the mutable oracle price, then borrow against the inflated capacity.''],
     h_lens = Some ''oracle_price'', h_channel = ''seed_static'', h_protocol_type = ''lending_market'',
     h_mechanism_tag = ''oracle_manipulation'', h_canonical_key = Some ''m1b:oracle:lending-borrow-capacity'',
     h_prior_p = PFloat ''0.5'' (Some 0), h_est_impact = ''50 token units in the pinned fixture'',
     h_est_cost = ''1 ETH initial setup capital plus gas'', h_state = OPEN, h_ladder = [],
     h_witness_feasibility = ''local_deployment'', h_skeptic_disposition = ''none'', h_skeptic_defects = [],
     h_second_opinion_disposition = ''none'', h_second_opinion_defects = [], h_disputed = False, h_dispute = PNone,
     h_provenance = [(''commit'', PStr commit), (''fixture'', PStr (join ''/'' FIXTURE_REL))], h_parked_unblock = None,
     h_close_reason = None, h_merged_into = None, h_duplicate_of = None, h_reopen_count = 0, h_parent_hypotheses = [],
     h_composition_rationale = None, h_created_at = now, h_updated_at = now\<rparr>"

definition m1b_scope :: "string \<Rightarrow> scope" where
  "m1b_scope commit = \<lparr>sc_version = 1, sc_platform = ''m1b-fixture'', sc_program_ref = ''m1b-real-fixture'',
     sc_commit = commit, sc_prior_commit = None, sc_confidentiality = ''private'',
     sc_in_scope = [\<lparr>st_id = ''LENDING'', st_kind = ''contract'', st_path = Some target_source, st_address = None,
       st_contract = Some ''LendingPool'', st_rationale = None\<rparr>], sc_out_of_scope = [], sc_excluded_classes = [],
     sc_dependencies = [], sc_concurrent_programs = [], sc_deployed = False, sc_attacker_capital_wei = 10 ^ 18,
     sc_poc_required = True, sc_severity_model_ref = ''fixture:pinned-impact''\<rparr>"

definition scope_and_hypothesis :: "('f, 'x) bench \<Rightarrow> string \<Rightarrow> (scope \<times> hypothesis) res" where
  "scope_and_hypothesis B commit = ebind (read_text (repo_tree B) target_source) (\<lambda>body.
     ebind (target_span (bench_host B) body) (\<lambda>target. Inr (m1b_scope commit, m1b_hypothesis (bn_now B) commit target)))"

section \<open>The files of the work root\<close>

definition work_json :: "('f, 'x) bench \<Rightarrow> string \<Rightarrow> (pv, tree \<times> 'x) act" where
  "work_json B name = (\<lambda>(t, x). (ebind (read_text t name) (json_loads (bn_world B)), (t, x)))"

definition write_json :: "string \<Rightarrow> pv \<Rightarrow> (unit, tree \<times> 'x) act" where
  "write_json name v = put_text (path_parts name) (jindent 0 v @ [CHR 0x0A])"

definition check_json :: "check_result \<Rightarrow> pv" where
  "check_json c = PDict [(''check_id'', PStr (cr_check_id c)), (''ok'', PBool (cr_ok c)), (''code'', opt_pstr (cr_code c)),
     (''hard'', PBool (cr_hard c)), (''message'', PStr (cr_message c)), (''details'', PDict (cr_details c))]"

definition verification_json :: "verification_result \<Rightarrow> pv" where
  "verification_json v = PDict [(''passed'', PBool (vr_passed v)), (''checks'', PList (map check_json (vr_checks v))),
     (''route_reason'', opt_pstr (vr_route_reason v)), (''next_state'', opt_pstr (vr_next_state v))]"

definition failures_text :: "verification_result \<Rightarrow> string" where
  "failures_text v = jtext (PList (map check_json (hard_failures v)))"

definition certificate_json :: "certificate \<Rightarrow> pv" where
  "certificate_json c = PDict (cert_dump c @ [(''mac'', PStr (ce_mac c)), (''issued_at'', PStr (ce_issued_at c))])"

section \<open>The context\<close>

definition bench_context :: "('f, 'x) bench \<Rightarrow> witness \<Rightarrow> replay_evidence \<Rightarrow> pv res \<Rightarrow> bool \<Rightarrow> scope \<Rightarrow> hypothesis \<Rightarrow>
    string \<Rightarrow> string list \<Rightarrow> 'f verification_context" where
  "bench_context B w replay prices certified_only scope hyp compiler problems =
     \<lparr>vc_root = bn_root B, vc_hypothesis = hyp, vc_scope = scope, vc_witness = w, vc_known_issues = [],
      vc_replay = Some replay,
      vc_build = Some \<lparr>be_clean = True, be_build_stdout = [], be_build_stderr = [], be_tool_lock_verified = (problems = []),
        be_tool_lock_problems = problems, be_pinned_compiler = Some compiler, be_required_tools = LOCKED_TOOLS\<rparr>,
      vc_forge_build = Inl (RuntimeError []), vc_duplicate = None, vc_production_l7_required = False,
      vc_policy = repo_yaml B POLICY_PATH, vc_policy_given = True, vc_catalog = Some (repo_yaml B CATALOG_PATH),
      vc_tool_lock_given = True, vc_prices = Some prices, vc_pinned_impact_usd = None, vc_require_certificate = certified_only\<rparr>"

text \<open>The programs of the tool lock leave the files of the work root alone.\<close>

definition on_rest :: "('a, 'x) act \<Rightarrow> ('a, tree \<times> 'x) act" where
  "on_rest m = (\<lambda>(t, x). case m x of (r, x') \<Rightarrow> (r, (t, x')))"

text \<open>\<open>_context\<close> and the verification: the price file is read by the verifier, its content is that of the state.\<close>

definition make_context :: "('f, 'x) bench \<Rightarrow> witness \<Rightarrow> replay_evidence \<Rightarrow> bool \<Rightarrow> ('f verification_context, tree \<times> 'x) act" where
  "make_context B w replay certified_only =
     abind (alift (scope_and_hypothesis B (w_commit w))) (\<lambda>(scope, hyp).
     abind (alift (read_text (repo_tree B) M1B_TOOL_LOCK_REL)) (\<lambda>lock_text.
     abind (on_rest (verify_m1b_tool_lock (bn_lock B) lock_text LOCKED_TOOLS)) (\<lambda>problems.
     abind (alift (need (w_compiler w) ''solc'')) (\<lambda>compiler. \<lambda>(t, x).
       (Inr (bench_context B w replay (ebind (read_text t ''prices.json'') (json_loads (bn_world B))) certified_only scope hyp
          (py_str compiler) problems), (t, x))))))"

section \<open>The phase certify\<close>

record certify_inputs =
  ci_witness :: witness
  ci_catalog :: "(string \<times> string) list"
  ci_replay_root :: "string list"
  ci_run_dirs :: "string list list"

fun meta_path :: "('f, 'x) bench \<Rightarrow> pv \<Rightarrow> string list res" where
  "meta_path B (PStr p) = Inr (normalize_meta_path (bn_resolve B) p (bn_work B))"
| "meta_path B _ = Inl (TypeError ''expected str, bytes or os.PathLike object'')"

definition read_inputs :: "('f, 'x) bench \<Rightarrow> (certify_inputs, tree \<times> 'x) act" where
  "read_inputs B =
     abind (alift (load_policy B)) (\<lambda>(policy, catalog).
     abind (work_json B ''witness.json'') (\<lambda>raw. abind (alift (bn_validate B raw)) (\<lambda>w.
     abind (work_json B ''collection.json'') (\<lambda>meta.
     abind (alift (ebind (need_item meta ''run_dirs'') (\<lambda>v. ebind (py_iter v) (emap (meta_path B))))) (\<lambda>dirs.
     abind (alift (ebind (need_item meta ''replay_root'') (meta_path B))) (\<lambda>root.
       alift (Inr \<lparr>ci_witness = w, ci_catalog = catalog, ci_replay_root = root, ci_run_dirs = dirs\<rparr>)))))))"

text \<open>\<open>key_path.is_relative_to(dir)\<close>: the path of the key is not resolved here.\<close>

definition key_below :: "string \<Rightarrow> string list \<Rightarrow> bool" where
  "key_below path dir = (startswith path ''/'' \<and> is_relative_to (path_parts path) dir)"

definition resolved_key :: "('f, 'x) bench \<Rightarrow> string \<Rightarrow> string list" where
  "resolved_key B path = bn_resolve B (if startswith path ''/'' then path_parts path else bn_cwd B @ path_parts path)"

text \<open>Up to the certificate: it is issued only when the verification without one has passed.\<close>

definition certify_issue :: "('f, 'x) bench \<Rightarrow> certify_inputs \<Rightarrow> string \<Rightarrow> string \<Rightarrow> (certificate, tree \<times> 'x) act" where
  "certify_issue B i path key =
     abind (alift (if key_below path (bn_resolve B (bn_root B)) \<or> key_below path (bn_resolve B (bn_work B)) then
         runtime_err ''certificate key must remain outside the repository and sandbox work root'' else Inr ())) (\<lambda>_.
     abind (alift (load_collection B (ci_witness i) (ci_catalog i) (ci_replay_root i) (ci_run_dirs i))) (\<lambda>collection.
     abind (make_context B (ci_witness i) \<lparr>re_root = ci_replay_root i, re_run_dirs = ci_run_dirs i,
         re_certificate = None, re_certificate_key = None\<rparr> False) (\<lambda>ctx.
     abind (alift (verify (bn_world B) ctx)) (\<lambda>pre.
     abind (write_json ''certify-precheck-verification.json'' (verification_json pre)) (\<lambda>_.
     abind (alift (if vr_passed pre then Inr ()
         else runtime_err (''certificate issuance blocked: hard verification did not pass: '' @ failures_text pre))) (\<lambda>_.
     abind (alift (certifier_issue (bench_host B) (bn_now B) (resolved_key B path) (Some key)
         (witness_hash (bench_host B) (ci_witness i))
         ((certifier_view collection)\<lparr>rc_root := bn_resolve B (cl_root collection)\<rparr>) (vr_passed pre) ''CERT-M1B-REAL'')) (\<lambda>cert.
     abind (write_json ''certificate.json'' (certificate_json cert)) (\<lambda>_. alift (Inr cert)))))))))"

definition acceptance_json :: "('f, 'x) bench \<Rightarrow> certify_inputs \<Rightarrow> certificate \<Rightarrow> pv" where
  "acceptance_json B i cert = PDict [(''status'', PStr ''PASS''), (''witness_hash'', PStr (witness_hash (bench_host B) (ci_witness i))),
     (''certificate_id'', PStr (ce_id cert)), (''issued_at'', PStr (ce_issued_at cert)),
     (''replay_root'', PStr (path_text (ci_replay_root i))), (''runs'', PInt (int (length (ci_run_dirs i))))]"

text \<open>The verification with the certificate, and the acceptance.\<close>

definition certify_final :: "('f, 'x) bench \<Rightarrow> certify_inputs \<Rightarrow> string \<Rightarrow> certificate \<Rightarrow> (unit, tree \<times> 'x) act" where
  "certify_final B i key cert =
     abind (make_context B (ci_witness i) \<lparr>re_root = ci_replay_root i, re_run_dirs = ci_run_dirs i,
         re_certificate = Some cert, re_certificate_key = Some key\<rparr> True) (\<lambda>ctx.
     abind (alift (verify (bn_world B) ctx)) (\<lambda>final.
     abind (write_json ''certificate-verification.json'' (verification_json final)) (\<lambda>_.
     abind (alift (if vr_passed final then Inr () else runtime_err ''final certificate-backed verification failed'')) (\<lambda>_.
       write_json ''acceptance.json'' (acceptance_json B i cert)))))"

text \<open>\<open>certify\<close>, with the files of the home directory.\<close>

definition certify :: "('f, 'x) bench \<Rightarrow> (string \<Rightarrow> bool) \<Rightarrow> string \<Rightarrow> string \<Rightarrow>
    (unit, (string \<times> string) list \<times> tree \<times> 'x) act" where
  "certify B symlink fresh home = (\<lambda>(keys, s).
     case read_inputs B s of
       (Inl e, s1) \<Rightarrow> (Inl e, (keys, s1))
     | (Inr i, s1) \<Rightarrow> (case ensure_audit_key symlink fresh home ''M1B'' keys of
         (Inl e, keys') \<Rightarrow> (Inl e, (keys', s1))
       | (Inr path, keys') \<Rightarrow> (let key = the (map_of keys' path) in
           case abind (certify_issue B i path key) (certify_final B i key) s1 of (r, s2) \<Rightarrow> (r, (keys', s2)))))"

section \<open>Paths that are recorded and read again\<close>

lemma path_parts_relative:
  assumes "list_all proper q"
  shows "path_parts (relative_text q) = q \<and> \<not> startswith (relative_text q) ''/''"
proof (cases q)
  case Nil
  have "path_parts ''.'' = []" by code_simp
  with Nil show ?thesis by (simp add: relative_text_def)
next
  case (Cons c cs)
  with assms have "split_on (CHR ''/'') (join ''/'' q) = q"
    by (intro split_on_join) (auto simp: proper_def list_all_iff)
  moreover have "filter (\<lambda>c. c \<noteq> [] \<and> c \<noteq> ''.'') q = q"
    using assms by (auto simp: filter_id_conv proper_def list_all_iff)
  moreover have "\<not> startswith (join ''/'' q) ''/''"
    using assms Cons by (cases c; cases cs) (auto simp: proper_def)
  ultimately show ?thesis using Cons by (simp add: path_parts_def relative_text_def)
qed

lemma path_parts_absolute: "list_all proper q \<Longrightarrow> path_parts (path_text q) = q"
  using path_parts_relative [of q]
  by (cases "q = []") (auto simp: path_text_def relative_text_def path_parts_def)

lemma encode_normalize:
  assumes "list_all proper p" and "resolve p = p" and "resolve host_root = host_root"
  shows "normalize_meta_path resolve (encode_work_path resolve p host_root) host_root =
    (if is_relative_to p SANDBOX_ROOT then resolve (host_root @ drop (length SANDBOX_ROOT) p) else p)"
proof -
  have again: "normalize_meta_path resolve (relative_text (drop n p)) host_root = resolve (host_root @ drop n p)" for n
    using path_parts_relative [of "drop n p"] assms(1)
    by (simp add: normalize_meta_path_def list_all_iff in_set_dropD Let_def)
  show ?thesis
  proof (cases "is_relative_to p SANDBOX_ROOT \<or> is_relative_to p host_root")
    case True
    have "host_root @ drop (length host_root) p = p" if "is_relative_to p host_root"
      using that by (metis is_relative_to_def append_take_drop_id)
    with True show ?thesis using again assms(2,3) by (auto simp: encode_work_path_def Let_def)
  next
    case False
    have "startswith (path_text p) ''/''" by (simp add: path_text_def)
    with False show ?thesis
      using path_parts_absolute [OF assms(1)] assms(2,3) by (simp add: encode_work_path_def normalize_meta_path_def Let_def)
  qed
qed

text \<open>
  A path that is recorded in one phase is read back in another as the file that it means there: what the
  container saw below its mount point is found below the host's work root, and every other path, whether it
  is recorded relative to the work root or as it is, is itself again.
\<close>

lemma meta_path_roundtrip:
  assumes "list_all proper p" and "resolve p = p" and "resolve host_root = host_root"
  shows "normalize_meta_path resolve (encode_work_path resolve p host_root) host_root =
    (if is_relative_to p SANDBOX_ROOT then resolve (host_root @ drop (length SANDBOX_ROOT) p) else p)"
  by (rule encode_normalize [OF assms])

section \<open>From the pre-check to the acceptance\<close>

text \<open>What the verifier demands of a certificate, met by one that is issued for the same evidence.\<close>

lemma issued_certificate_fits:
  assumes "certifier_issue H now kp (Some key) (witness_hash H w) coll passed cid = Inr cert" and "wo_host W = H"
    and "re_certificate r = Some cert" "re_certificate_key r = Some key"
    and "rc_environment_hash coll = env" "rc_observed_records_sha256 coll = agg" "rc_control_sha256 coll = ctl"
    and "policy = Some (rc_trace_policy_sha256 coll)"
  shows "certificate_problem W w r env agg ctl policy = None"
proof -
  from assms(1) have i: "issue H now key cid (witness_hash H w) env (int (rc_runs coll)) agg (rc_trace_policy_sha256 coll) ctl None = Inr cert"
    using assms(5-7) by (auto simp: certifier_issue_def split: if_splits)
  then have c: "3 \<le> ce_runs cert" "ce_env_hash cert = env" "ce_control_sha256 cert = ctl"
    "ce_observed_records_sha256 cert = agg" "ce_trace_policy_sha256 cert = rc_trace_policy_sha256 coll"
    by (auto simp: issue_eq_Inr)
  from i have "verify_cert H cert key (witness_hash H w) env (Some agg) (Some (rc_trace_policy_sha256 coll)) (Some ctl) None"
    by (auto simp: issue_eq_Inr verify_cert_iff certificate_ok_def cert_dump_of_fields)
  with c assms(2-4,8) show ?thesis by (simp add: certificate_problem_def)
qed

text \<open>A verification that passes without a certificate gives the same result with one that fits its evidence.\<close>

lemma verify_certified:
  assumes v: "verify W ctx = Inr v" "vr_passed v" and r: "vc_replay ctx = Some r" and no: "\<not> vc_require_certificate ctx"
    and dirs: "re_root r' = re_root r" "re_run_dirs r' = re_run_dirs r"
    and fits: "\<And>runs policy. derived_runs W ctx = Inr runs \<Longrightarrow> expected_policy W ctx = Inr policy \<Longrightarrow>
      certificate_problem W (vc_witness ctx) r' (hd (map dr_environment_hash runs))
        (records_aggregate (wo_host W) (map (\<lambda>x. summary_sha256 (wo_host W) (dr_trace x)) runs))
        (hd (map dr_control_hash runs)) policy = None"
  shows "verify W (ctx\<lparr>vc_replay := Some r', vc_require_certificate := True\<rparr>) = Inr v"
proof -
  let ?ctx = "ctx\<lparr>vc_replay := Some r', vc_require_certificate := True\<rparr>"
  have sel: "vc_root ?ctx = vc_root ctx" "vc_hypothesis ?ctx = vc_hypothesis ctx" "vc_scope ?ctx = vc_scope ctx"
    "vc_witness ?ctx = vc_witness ctx" "vc_known_issues ?ctx = vc_known_issues ctx" "vc_build ?ctx = vc_build ctx"
    "vc_forge_build ?ctx = vc_forge_build ctx" "vc_duplicate ?ctx = vc_duplicate ctx"
    "vc_production_l7_required ?ctx = vc_production_l7_required ctx" "vc_policy ?ctx = vc_policy ctx"
    "vc_policy_given ?ctx = vc_policy_given ctx" "vc_catalog ?ctx = vc_catalog ctx"
    "vc_tool_lock_given ?ctx = vc_tool_lock_given ctx" "vc_prices ?ctx = vc_prices ctx"
    "vc_pinned_impact_usd ?ctx = vc_pinned_impact_usd ctx" "vc_replay ?ctx = Some r'" "vc_require_certificate ?ctx = True"
    by simp_all
  have same: "v03 ?ctx = v03 ctx" "expected_policy W ?ctx = expected_policy W ctx" "catalog_of ?ctx = catalog_of ctx"
    unfolding v03_def expected_policy_def catalog_of_def sel by (rule refl)+
  have runs: "derived_runs W ?ctx = derived_runs W ctx"
    unfolding derived_runs_def sel r option.case dirs same by (rule refl)
  have rest: "verify_derived W ?ctx = verify_derived W ctx"
    unfolding verify_derived_def load_prices_def sel by (rule refl)
  have v04: "v04 W ?ctx r' runs = v04 W ctx r runs" if "derived_runs W ctx = Inr runs" for runs
    unfolding v04_def sel same using no fits [OF that]
    by (cases "expected_policy W ctx") (auto simp: Let_def)
  obtain runs where d: "derived_runs W ctx = Inr runs" using v by (rule verify_passes)
  from v(1) show ?thesis
    unfolding verify_def sel same runs d sum.case r option.case rest v04 [OF d] .
qed

lemma runtime_guard [exn_simps]:
  "(if c then runtime_err m else Inr ()) = Inr u \<longleftrightarrow> \<not> c" "(if c then Inr () else runtime_err m) = Inr u \<longleftrightarrow> c"
  by (simp_all add: runtime_err_def)

lemma on_rest_eq [exn_simps]: "on_rest m (t, x) = (Inr y, s) \<longleftrightarrow> (\<exists>x'. m x = (Inr y, x') \<and> s = (t, x'))"
  by (auto simp: on_rest_def split: prod.splits)

lemma make_context_eq:
  "make_context B w replay certified_only (t, x) = (Inr ctx, s) \<longleftrightarrow>
     (\<exists>scope hyp lock_text problems compiler x'. scope_and_hypothesis B (w_commit w) = Inr (scope, hyp) \<and>
        read_text (repo_tree B) M1B_TOOL_LOCK_REL = Inr lock_text \<and>
        verify_m1b_tool_lock (bn_lock B) lock_text LOCKED_TOOLS x = (Inr problems, x') \<and>
        need (w_compiler w) ''solc'' = Inr compiler \<and> s = (t, x') \<and>
        ctx = bench_context B w replay (ebind (read_text t ''prices.json'') (json_loads (bn_world B))) certified_only scope hyp
          (py_str compiler) problems)"
  by (auto simp: make_context_def exn_simps split: prod.splits)

lemma emap_same:
  assumes "emap f xs = Inr ys" "emap g xs = Inr zs" "\<And>x z. x \<in> set xs \<Longrightarrow> g x = Inr z \<Longrightarrow> f x = Inr z"
  shows "ys = zs"
  using assms by (induction xs arbitrary: ys zs) (fastforce simp: exn_simps)+

lemma load_collection_eq:
  assumes "load_collection B w catalog root dirs = Inr col" and "map (bn_resolve B) dirs = dirs"
  obtains derived policy raw where "emap (\<lambda>dir. load_run (bn_world B) dir w catalog) dirs = Inr derived" "3 \<le> length dirs"
    "repo_yaml B POLICY_PATH = Inr policy" "repo_yaml B CATALOG_PATH = Inr raw" "cl_root col = root"
    "length (cl_runs col) = length dirs" "cl_control_sha256 col = hd (map dr_control_hash derived)"
    "cl_environment_hash col = hd (map dr_environment_hash derived)"
    "cl_observed_records_sha256 col = records_aggregate (bench_host B) (map (\<lambda>d. summary_sha256 (bench_host B) (dr_trace d)) derived)"
    "cl_trace_policy_sha256 col = policy_hash (bench_host B) policy raw"
  using assms
  by (auto simp: load_collection_def Let_def exn_simps runtime_err_def bench_host_def dest: emap_length split: if_splits)

lemma catalog_of_entries:
  assumes "repo_yaml B CATALOG_PATH = Inr raw" "catalog_entries raw = Inr catalog"
  shows "catalog_of (bench_context B w replay prices req scope hyp compiler problems) = Inr catalog"
  using assms
  by (auto simp: catalog_of_def bench_context_def catalog_entries_def split: pv.splits)

lemma bench_runs:
  assumes "load_policy B = Inr (p, catalog)" and "emap (\<lambda>dir. load_run (bn_world B) dir w catalog) dirs = Inr derived"
    and "derived_runs (bn_world B) (bench_context B w replay prices req scope hyp compiler problems) = Inr runs"
    and "re_run_dirs replay = dirs"
  shows "runs = derived"
proof -
  let ?ctx = "bench_context B w replay prices req scope hyp compiler problems"
  from assms(1) obtain raw where "repo_yaml B CATALOG_PATH = Inr raw" "catalog_entries raw = Inr catalog"
    by (auto simp: load_policy_def exn_simps)
  then have c: "catalog_of ?ctx = Inr catalog" by (rule catalog_of_entries)
  have sel: "vc_replay ?ctx = Some replay" "vc_witness ?ctx = w" by (simp_all add: bench_context_def)
  from assms(3,4) have "emap (\<lambda>dir. if \<not> is_relative_to dir (re_root replay) then val_err ''replay run escapes declared replay trust root''
      else load_run (bn_world B) dir w catalog) dirs = Inr runs"
    unfolding derived_runs_def sel c ebind_Inr by (simp add: val_err_def split: if_splits)
  from assms(2) this have "derived = runs" by (rule emap_same) (simp add: val_err_def split: if_splits)
  then show ?thesis by simp
qed

lemma prices_kept:
  assumes "write_json name v (t, x) = (Inr u, (t', x'))" "path_parts name \<noteq> [''prices.json'']"
  shows "read_text t' ''prices.json'' = read_text t ''prices.json'' \<and> x' = x \<and>
    map_of t' (path_parts name) = Some (jindent 0 v @ [CHR 0x0A]) \<and> (\<forall>p. p \<noteq> path_parts name \<longrightarrow> map_of t' p = map_of t p)"
proof -
  have "path_parts ''prices.json'' = [''prices.json'']" by code_simp
  with assms show ?thesis by (auto simp: write_json_def put_text_def read_text_def read_bytes_def update_conv')
qed

text \<open>What the first part of certify leaves behind when it issues a certificate.\<close>

lemma certify_issue_eq:
  assumes "certify_issue B i path key (t, x) = (Inr cert, s)"
  obtains col scope hyp lock_text problems compiler x1 pre t2 where
    "\<not> key_below path (bn_resolve B (bn_root B))" "\<not> key_below path (bn_resolve B (bn_work B))"
    "load_collection B (ci_witness i) (ci_catalog i) (ci_replay_root i) (ci_run_dirs i) = Inr col"
    "scope_and_hypothesis B (w_commit (ci_witness i)) = Inr (scope, hyp)"
    "read_text (repo_tree B) M1B_TOOL_LOCK_REL = Inr lock_text"
    "verify_m1b_tool_lock (bn_lock B) lock_text LOCKED_TOOLS x = (Inr problems, x1)"
    "need (w_compiler (ci_witness i)) ''solc'' = Inr compiler"
    "verify (bn_world B) (bench_context B (ci_witness i) \<lparr>re_root = ci_replay_root i, re_run_dirs = ci_run_dirs i,
       re_certificate = None, re_certificate_key = None\<rparr> (ebind (read_text t ''prices.json'') (json_loads (bn_world B)))
       False scope hyp (py_str compiler) problems) = Inr pre" "vr_passed pre"
    "certifier_issue (bench_host B) (bn_now B) (resolved_key B path) (Some key) (witness_hash (bench_host B) (ci_witness i))
       ((certifier_view col)\<lparr>rc_root := bn_resolve B (cl_root col)\<rparr>) True ''CERT-M1B-REAL'' = Inr cert"
    "s = (t2, x1)" "read_text t2 ''prices.json'' = read_text t ''prices.json''"
    "map_of t2 [''certificate.json''] = Some (jindent 0 (certificate_json cert) @ [CHR 0x0A])"
proof -
  have parts: "path_parts ''certify-precheck-verification.json'' = [''certify-precheck-verification.json'']"
    "path_parts ''certificate.json'' = [''certificate.json'']" by code_simp+
  from assms obtain col scope hyp lock_text problems compiler x1 pre s1 where
    a: "\<not> key_below path (bn_resolve B (bn_root B))" "\<not> key_below path (bn_resolve B (bn_work B))"
    "load_collection B (ci_witness i) (ci_catalog i) (ci_replay_root i) (ci_run_dirs i) = Inr col"
    "scope_and_hypothesis B (w_commit (ci_witness i)) = Inr (scope, hyp)"
    "read_text (repo_tree B) M1B_TOOL_LOCK_REL = Inr lock_text"
    "verify_m1b_tool_lock (bn_lock B) lock_text LOCKED_TOOLS x = (Inr problems, x1)"
    "need (w_compiler (ci_witness i)) ''solc'' = Inr compiler"
    "verify (bn_world B) (bench_context B (ci_witness i) \<lparr>re_root = ci_replay_root i, re_run_dirs = ci_run_dirs i,
       re_certificate = None, re_certificate_key = None\<rparr> (ebind (read_text t ''prices.json'') (json_loads (bn_world B)))
       False scope hyp (py_str compiler) problems) = Inr pre" and
    w1: "write_json ''certify-precheck-verification.json'' (verification_json pre) (t, x1) = (Inr (), s1)" and
    p: "vr_passed pre" and
    c: "certifier_issue (bench_host B) (bn_now B) (resolved_key B path) (Some key) (witness_hash (bench_host B) (ci_witness i))
       ((certifier_view col)\<lparr>rc_root := bn_resolve B (cl_root col)\<rparr>) (vr_passed pre) ''CERT-M1B-REAL'' = Inr cert" and
    w2: "write_json ''certificate.json'' (certificate_json cert) s1 = (Inr (), s)"
    unfolding certify_issue_def by (auto simp: exn_simps make_context_eq)
  obtain t1 y1 t2 y2 where s: "s1 = (t1, y1)" "s = (t2, y2)" by (cases s1; cases s) simp
  from prices_kept [OF w1 [unfolded s]] prices_kept [OF w2 [unfolded s]] parts
  have "y2 = x1" "read_text t2 ''prices.json'' = read_text t ''prices.json''"
    "map_of t2 [''certificate.json''] = Some (jindent 0 (certificate_json cert) @ [CHR 0x0A])" by simp_all
  with a p c s show thesis by (intro that) simp_all
qed

text \<open>The certificate fits what the verifier derives from the same runs.\<close>

lemma issued_for_runs:
  assumes "load_policy B = Inr (p, ci_catalog i)" and "map (bn_resolve B) (ci_run_dirs i) = ci_run_dirs i"
    and "load_collection B (ci_witness i) (ci_catalog i) (ci_replay_root i) (ci_run_dirs i) = Inr col"
    and "certifier_issue (bench_host B) now kp (Some key) (witness_hash (bench_host B) (ci_witness i))
       ((certifier_view col)\<lparr>rc_root := r0\<rparr>) True cid = Inr cert"
    and "ctx = bench_context B (ci_witness i) \<lparr>re_root = ci_replay_root i, re_run_dirs = ci_run_dirs i,
       re_certificate = None, re_certificate_key = None\<rparr> prices False scope hyp compiler problems"
    and "derived_runs (bn_world B) ctx = Inr runs" and "expected_policy (bn_world B) ctx = Inr policy"
    and "re_certificate r' = Some cert" "re_certificate_key r' = Some key"
  shows "certificate_problem (bn_world B) (vc_witness ctx) r' (hd (map dr_environment_hash runs))
    (records_aggregate (wo_host (bn_world B)) (map (\<lambda>x. summary_sha256 (wo_host (bn_world B)) (dr_trace x)) runs))
    (hd (map dr_control_hash runs)) policy = None"
proof -
  from load_collection_eq [OF assms(3,2)] obtain derived pol raw where
    l: "emap (\<lambda>dir. load_run (bn_world B) dir (ci_witness i) (ci_catalog i)) (ci_run_dirs i) = Inr derived"
    "repo_yaml B POLICY_PATH = Inr pol" "repo_yaml B CATALOG_PATH = Inr raw" and
    c: "cl_control_sha256 col = hd (map dr_control_hash derived)" "cl_environment_hash col = hd (map dr_environment_hash derived)"
    "cl_observed_records_sha256 col = records_aggregate (bench_host B) (map (\<lambda>d. summary_sha256 (bench_host B) (dr_trace d)) derived)"
    "cl_trace_policy_sha256 col = policy_hash (bench_host B) pol raw" by blast
  have "runs = derived"
    by (rule bench_runs [OF assms(1) l(1) assms(6) [unfolded assms(5)]]) simp
  moreover have "policy = Some (cl_trace_policy_sha256 col)"
    using assms(5,7) l(2,3) c(4) by (simp add: expected_policy_def bench_context_def bench_host_def)
  moreover have "vc_witness ctx = ci_witness i" using assms(5) by (simp add: bench_context_def)
  ultimately show ?thesis
    using issued_certificate_fits [OF assms(4) _ assms(8,9) refl refl refl, where W = "bn_world B"] c
    by (simp add: certifier_view_def bench_host_def)
qed

text \<open>The tools of the lock answer alike each time.\<close>

definition steady_tools :: "'x lock_host \<Rightarrow> bool" where
  "steady_tools L = (steady_host L \<and> (\<forall>c w w'. fst (lh_shell L c w) = fst (lh_shell L c w')))"

lemma steady_amap: "(\<And>x. steady (f x)) \<Longrightarrow> steady (amap f xs)"
  by (induction xs) (auto intro: steady_abind)

lemma steady_entry_problems:
  assumes "steady_host L"
  shows "steady (entry_problems L paths kv)"
proof -
  obtain name v where kv: "kv = (name, v)" by (cases kv)
  have same: "fst (version_text L b n w) = fst (version_text L b n w')" for b n w w'
    using steady_version_text [OF assms] unfolding steady_def by blast
  have "fst (entry_problems L paths kv w) = fst (entry_problems L paths kv w')" for w w'
  proof (cases "need_dict v")
    case (Inr entry)
    let ?b = "py_str (locked_binary L paths name entry)"
    show ?thesis
      using same [of ?b name w w'] Inr
      by (cases "version_text L ?b name w"; cases "version_text L ?b name w'")
         (auto simp: entry_problems_def kv Let_def alift_def split: sum.splits)
  qed (simp add: entry_problems_def kv alift_def)
  then show ?thesis by (simp add: steady_def)
qed

lemma steady_tool_lock:
  assumes "steady_tools L"
  shows "steady (verify_m1b_tool_lock L lock_text names)"
proof -
  have shell: "steady (shell_run L c)" for c
    using assms unfolding steady_def steady_tools_def shell_run_def by (auto split: prod.splits) (metis fst_conv)
  have entries: "steady (amap (entry_problems L paths) es)" for paths es
    using assms by (intro steady_amap steady_entry_problems) (simp add: steady_tools_def)
  have "steady (container_problems L img tools n)" for img tools n
    unfolding container_problems_def
    by (cases "dget_or tools n PNone") (auto intro!: steady_abind shell split: prod.splits)
  then have containers: "steady (amap (container_problems L img tools) ns)" for img tools ns by (rule steady_amap)
  show ?thesis
    unfolding verify_m1b_tool_lock_def verify_binary_lock_def verify_container_binary_lock_def Let_def
    by (auto intro!: steady_abind entries containers)
qed

lemma read_inputs_eq:
  assumes "read_inputs B s = (Inr i, s1)" and "\<And>q. bn_resolve B (bn_resolve B q) = bn_resolve B q"
  shows "s1 = s \<and> (\<exists>p. load_policy B = Inr (p, ci_catalog i)) \<and> map (bn_resolve B) (ci_run_dirs i) = ci_run_dirs i"
proof -
  have path: "bn_resolve B q = q" if "meta_path B v = Inr q" for v q
    using that assms(2) by (cases v) (auto simp: normalize_meta_path_def Let_def split: if_splits)
  have "map (bn_resolve B) qs = qs" if "emap (meta_path B) vs = Inr qs" for vs qs
    using that by (induction vs arbitrary: qs) (auto simp: exn_simps path)
  with assms(1) show ?thesis
    by (cases s) (auto simp: read_inputs_def work_json_def exn_simps)
qed

lemma completes_from_issue:
  assumes "steady_tools (bn_lock B)" and "load_policy B = Inr (p, ci_catalog i)"
    and "map (bn_resolve B) (ci_run_dirs i) = ci_run_dirs i" and "certify_issue B i path key s = (Inr cert, s2)"
  shows "\<exists>t' x'. certify_final B i key cert s2 = (Inr (), (t', x')) \<and>
    map_of t' [''acceptance.json''] = Some (jindent 0 (acceptance_json B i cert) @ [CHR 0x0A])"
proof -
  obtain t x where s: "s = (t, x)" by (cases s)
  from assms(4) [unfolded s] obtain col scope hyp lock_text problems compiler x1 pre t2 where
    col: "load_collection B (ci_witness i) (ci_catalog i) (ci_replay_root i) (ci_run_dirs i) = Inr col" and
    sh: "scope_and_hypothesis B (w_commit (ci_witness i)) = Inr (scope, hyp)" and
    lt: "read_text (repo_tree B) M1B_TOOL_LOCK_REL = Inr lock_text" and
    lk: "verify_m1b_tool_lock (bn_lock B) lock_text LOCKED_TOOLS x = (Inr problems, x1)" and
    co: "need (w_compiler (ci_witness i)) ''solc'' = Inr compiler" and
    v: "verify (bn_world B) (bench_context B (ci_witness i) \<lparr>re_root = ci_replay_root i, re_run_dirs = ci_run_dirs i,
       re_certificate = None, re_certificate_key = None\<rparr> (ebind (read_text t ''prices.json'') (json_loads (bn_world B)))
       False scope hyp (py_str compiler) problems) = Inr pre" "vr_passed pre" and
    c: "certifier_issue (bench_host B) (bn_now B) (resolved_key B path) (Some key) (witness_hash (bench_host B) (ci_witness i))
       ((certifier_view col)\<lparr>rc_root := bn_resolve B (cl_root col)\<rparr>) True ''CERT-M1B-REAL'' = Inr cert" and
    st: "s2 = (t2, x1)" "read_text t2 ''prices.json'' = read_text t ''prices.json''"
    by (rule certify_issue_eq)
  let ?ev = "\<lambda>cert key. \<lparr>re_root = ci_replay_root i, re_run_dirs = ci_run_dirs i, re_certificate = cert, re_certificate_key = key\<rparr>"
  let ?ctx = "\<lambda>ev only. bench_context B (ci_witness i) ev (ebind (read_text t ''prices.json'') (json_loads (bn_world B)))
       only scope hyp (py_str compiler) problems"
  have "vc_replay (?ctx (?ev None None) False) = Some (?ev None None)" "\<not> vc_require_certificate (?ctx (?ev None None) False)"
    by (simp_all add: bench_context_def)
  from verify_certified [OF v this, of "?ev (Some cert) (Some key)"]
    issued_for_runs [OF assms(2,3) col c refl]
  have "verify (bn_world B) (?ctx (?ev None None) False\<lparr>vc_replay := Some (?ev (Some cert) (Some key)), vc_require_certificate := True\<rparr>) = Inr pre"
    by simp
  then have final: "verify (bn_world B) (?ctx (?ev (Some cert) (Some key)) True) = Inr pre" by (simp add: bench_context_def)
  have "fst (verify_m1b_tool_lock (bn_lock B) lock_text LOCKED_TOOLS x1) = Inr problems"
    using steady_tool_lock [OF assms(1), of lock_text LOCKED_TOOLS] lk unfolding steady_def by (metis fst_conv)
  then obtain x2 where "verify_m1b_tool_lock (bn_lock B) lock_text LOCKED_TOOLS x1 = (Inr problems, x2)" by (metis prod.collapse)
  with sh lt co st have m: "make_context B (ci_witness i) (?ev (Some cert) (Some key)) True s2 = (Inr (?ctx (?ev (Some cert) (Some key)) True), (t2, x2))"
    by (auto simp: make_context_eq)
  have parts: "path_parts ''acceptance.json'' = [''acceptance.json'']" by code_simp
  show ?thesis
    using v(2) by (simp add: certify_final_def abind_def m final alift_def write_json_def put_text_def parts update_conv')
qed

text \<open>
  Once certify has issued a certificate it accepts: with tools that answer alike, and paths that are
  resolved once, the verification that demands the certificate gives the result of the pre-check again, so
  that the failure after the certificate cannot happen.
\<close>

lemma certify_completes:
  assumes "\<And>q. bn_resolve B (bn_resolve B q) = bn_resolve B q" and "steady_tools (bn_lock B)"
    and "read_inputs B s = (Inr i, s1)" and "ensure_audit_key symlink fresh home ''M1B'' keys = (Inr path, keys')"
    and "certify_issue B i path (the (map_of keys' path)) s1 = (Inr cert, s2)"
  shows "\<exists>t' x'. certify B symlink fresh home (keys, s) = (Inr (), (keys', t', x')) \<and>
    map_of t' [''acceptance.json''] = Some (jindent 0 (acceptance_json B i cert) @ [CHR 0x0A])"
proof -
  from read_inputs_eq [OF assms(3,1)] obtain p where
    "load_policy B = Inr (p, ci_catalog i)" "map (bn_resolve B) (ci_run_dirs i) = ci_run_dirs i" by blast
  from completes_from_issue [OF assms(2) this assms(5)] assms(3-5) show ?thesis
    by (auto simp: certify_def Let_def abind_def)
qed

lemma certify_final_eq:
  assumes "certify_final B i key cert (t, x) = (Inr (), (t', x'))"
  obtains ctx final where "verify (bn_world B) ctx = Inr final" "vr_passed final" "vc_require_certificate ctx"
    "vc_witness ctx = ci_witness i" "vc_replay ctx = Some \<lparr>re_root = ci_replay_root i, re_run_dirs = ci_run_dirs i,
       re_certificate = Some cert, re_certificate_key = Some key\<rparr>"
    "map_of t' [''acceptance.json''] = Some (jindent 0 (acceptance_json B i cert) @ [CHR 0x0A])"
    "map_of t' [''certificate.json''] = map_of t [''certificate.json'']"
proof -
  have parts: "path_parts ''acceptance.json'' = [''acceptance.json'']"
    "path_parts ''certificate-verification.json'' = [''certificate-verification.json'']" by code_simp+
  from assms obtain ctx final x1 s2 where
    m: "make_context B (ci_witness i) \<lparr>re_root = ci_replay_root i, re_run_dirs = ci_run_dirs i,
       re_certificate = Some cert, re_certificate_key = Some key\<rparr> True (t, x) = (Inr ctx, (t, x1))" and
    v: "verify (bn_world B) ctx = Inr final" "vr_passed final" and
    w1: "write_json ''certificate-verification.json'' (verification_json final) (t, x1) = (Inr (), s2)" and
    w2: "write_json ''acceptance.json'' (acceptance_json B i cert) s2 = (Inr (), (t', x'))"
    by (auto simp: certify_final_def exn_simps make_context_eq)
  obtain t2 x2 where s2: "s2 = (t2, x2)" by (cases s2)
  from m have "vc_require_certificate ctx" "vc_witness ctx = ci_witness i" "vc_replay ctx = Some \<lparr>re_root = ci_replay_root i,
      re_run_dirs = ci_run_dirs i, re_certificate = Some cert, re_certificate_key = Some key\<rparr>"
    by (auto simp: make_context_eq bench_context_def)
  moreover from prices_kept [OF w1 [unfolded s2]] prices_kept [OF w2 [unfolded s2]] parts
  have "map_of t' [''acceptance.json''] = Some (jindent 0 (acceptance_json B i cert) @ [CHR 0x0A])"
    "map_of t' [''certificate.json''] = map_of t [''certificate.json'']" by simp_all
  ultimately show thesis by (intro that [OF v])
qed

text \<open>What an accepted certificate rests on.\<close>

definition accepted :: "('f, 'x) bench \<Rightarrow> certify_inputs \<Rightarrow> string \<Rightarrow> string \<Rightarrow> certificate \<Rightarrow> bool" where
  "accepted B i path key cert =
     (\<not> key_below path (bn_resolve B (bn_root B)) \<and> \<not> key_below path (bn_resolve B (bn_work B)) \<and>
      \<not> is_relative_to (resolved_key B path) (bn_resolve B (ci_replay_root i)) \<and>
      (\<exists>ctx r runs. vc_witness ctx = ci_witness i \<and> vc_replay ctx = Some r \<and> re_certificate r = Some cert \<and>
         re_certificate_key r = Some key \<and> re_run_dirs r = ci_run_dirs i \<and>
         derived_runs (bn_world B) ctx = Inr runs \<and> 3 \<le> length runs \<and> runs_agree (bn_world B) (ci_witness i) runs \<and>
         run_supported (bn_world B) ctx (hd runs) \<and> certified (bn_world B) ctx r runs))"


end
