(* ===== verification/AcceptanceRun.thy ===== *)
theory AcceptanceRun
  imports Acceptance
begin

text \<open>
  The phase \<open>collect\<close> of \<open>driver/m1b_acceptance.py\<close>: the build of the fixture, the bootstrap run that
  observes the harness, the declaration of the environment, the replays, their first verification and the
  files that are left for \<open>certify\<close>; and the phases of its command line. Forge runs in temporary copies of
  the fixture, whose trees are dropped; the names of the temporary directories are an argument.
\<close>

section \<open>The rig\<close>

record 'x rig =
  rg_forge :: "'x forge_world"
  rg_environ :: "(string \<times> string) list"
  rg_temp :: "string \<Rightarrow> string list"
  rg_random :: "nat \<Rightarrow> string"
  rg_resolve :: "string \<Rightarrow> string list"

text \<open>Work in a copy: its tree is a state of its own and is returned beside the result.\<close>

definition in_copy :: "tree \<Rightarrow> ('b, tree \<times> 'x) act \<Rightarrow> ('b \<times> tree, tree \<times> 'x) act" where
  "in_copy copy m = (\<lambda>(t, x). case m (copy, x) of (r, (c, x')) \<Rightarrow> (map_sum id (\<lambda>b. (b, c)) r, (t, x')))"

definition FOUNDRY_POLICY_PATH :: string where
  "FOUNDRY_POLICY_PATH = ''config/policy/foundry_config_policy.yaml''"

definition make_executor :: "('f, 'x) bench \<Rightarrow> 'x rig \<Rightarrow> forge_executor" where
  "make_executor B G = \<lparr>fe_forge_bin = ''forge'', fe_tool_runs = ''tool_runs'',
     fe_env = [(''GATE_URL'', case map_of (rg_environ G) ''GATE_URL'' of None \<Rightarrow> [] | Some u \<Rightarrow> u)],
     fe_trace_schema = None, fe_libraries = [HARNESS_SOURCE], fe_plans = [],
     fe_policy = Some (path_text (bn_resolve B (bn_root B @ path_parts FOUNDRY_POLICY_PATH)),
       map_option universal_newlines (map_of (repo_tree B) (path_parts FOUNDRY_POLICY_PATH)))\<rparr>"

text \<open>\<open>_commit\<close>: the pinned commit of the environment, or the head of the repository.\<close>

definition bench_commit :: "('f, 'x) bench \<Rightarrow> 'x rig \<Rightarrow> (string, tree \<times> 'x) act" where
  "bench_commit B G =
     (case env_text (rg_environ G) ''L0VI0X_COMMIT'' of
        Some c \<Rightarrow> alift (Inr (strip c))
      | None \<Rightarrow> abind (rev_parse_head (fw_shell (rg_forge G)) (fw_host (rg_forge G)) ''git'' (path_text (bn_root B)) None)
          (\<lambda>(commit, files). alift (Inr commit)))"

text \<open>\<open>_build\<close>: the runner's records go to the work root.\<close>

definition bench_build :: "('f, 'x) bench \<Rightarrow> 'x rig \<Rightarrow> (unit, tree \<times> 'x) act" where
  "bench_build B G =
     abind (in_copy (fixture_tree B) (forge_build (fw_shell (rg_forge G)) (fw_host (rg_forge G))
       (path_text (rg_temp G ''l0vi0x-m1b-target-build-'' @ [''fixture''])) ''forge'' 900
       (Some (path_text (bn_work B @ [''tool_runs'']))) [])) (\<lambda>((report, files), c).
     abind (\<lambda>(t, x). (Inr (), (add_files (bn_work B) files t, x))) (\<lambda>_.
       alift (if fr_passed report then Inr ()
         else runtime_err (''fixture forge build failed: '' @
           (if fr_stderr report = [] then fr_stdout report else fr_stderr report)))))"

text \<open>The text of a file of the copy, by the path that the executor returned for it.\<close>

definition result_text :: "'x rig \<Rightarrow> string list \<Rightarrow> tree \<Rightarrow> pdict \<Rightarrow> string \<Rightarrow> string res" where
  "result_text G root c result k = ebind (need result k) (\<lambda>v. case v of
     PStr p \<Rightarrow> (case map_of c (drop (length root) (rg_resolve G p)) of
         None \<Rightarrow> Inl (FileNotFoundError p) | Some b \<Rightarrow> Inr (universal_newlines b))
   | _ \<Rightarrow> Inl (TypeError ''expected str, bytes or os.PathLike object''))"

definition traced :: "'f world \<Rightarrow> (string \<times> string) list \<Rightarrow> string \<Rightarrow> trace_summary res" where
  "traced W catalog text = ebind (json_loads W text) (\<lambda>v. parse_trace (wo_host W) (wo_loads W) (InObj v) catalog)"

text \<open>\<open>_bootstrap\<close>: a run of a placeholder witness shows the harness.\<close>

definition bootstrap :: "('f, 'x) bench \<Rightarrow> 'x rig \<Rightarrow> witness \<Rightarrow> (string \<times> string) list \<Rightarrow> (full_identity, tree \<times> 'x) act" where
  "bootstrap B G placeholder catalog =
     (let root = rg_temp G ''l0vi0x-m1b-bootstrap-'' @ [''repo''] in
      abind (in_copy (fixture_tree B) (execute (rg_forge G) (make_executor B G) root placeholder 0)) (\<lambda>(result, c).
      alift (ebind (ebind (result_text G root c result ''trace_path'') (traced (bn_world B) catalog))
        (identity_from_root (bn_world B) c))))"

text \<open>\<open>_make_declaration\<close>: the environment that the witness declares is the one that a run observes.\<close>

definition make_declaration :: "('f, 'x) bench \<Rightarrow> 'x rig \<Rightarrow> witness \<Rightarrow> (witness, tree \<times> 'x) act" where
  "make_declaration B G w =
     abind (in_copy (fixture_tree B) (execute (rg_forge G) (make_executor B G)
       (rg_temp G ''l0vi0x-m1b-declare-'' @ [''repo'']) w 0)) (\<lambda>(result, c).
     alift (ebind (need result ''environment_hash'') (\<lambda>v. Inr (w\<lparr>w_env_hash := py_str v\<rparr>))))"

definition ZERO_ADDRESS :: string where
  "ZERO_ADDRESS = ''0x'' @ zeros 40"

definition placeholder_witness :: "host \<Rightarrow> tree \<Rightarrow> string \<Rightarrow> witness res" where
  "placeholder_witness H fixture commit =
     ebind (template_hashes H fixture WITNESS_FILE) (\<lambda>(whole, attack, site).
       Inr \<lparr>w_witness_class = Local_deployment, w_chain_id = 31337, w_fork_block = None, w_commit = commit,
         w_compiler = m1b_compiler, w_test_file = WITNESS_FILE, w_test_name = WITNESS_TEST,
         w_control_test_name = CONTROL_TEST, w_initial_capital_wei = 10 ^ 18, w_max_time_advance_s = 0,
         w_max_block_advance = 0, w_declared_actors = [ACTOR_FALLBACK], w_declared_tokens = [ZERO_ADDRESS],
         w_token_decimals = [(ZERO_ADDRESS, 18)], w_setup_budget = Some [(''native_wei'', PInt (10 ^ 18))],
         w_assertions = [m1b_assertion ACTOR_FALLBACK ZERO_ADDRESS], w_invariant_check_pins = [],
         w_template_sha256 = whole, w_attack_body_sha256 = attack, w_harness_address = ZERO_ADDRESS,
         w_harness_create2_salt = HARNESS_SALT, w_harness_create2_deployer = None, w_harness_init_code_sha256 = None,
         w_harness_runtime_sha256 = None, w_harness_source_path = None, w_harness_source_sha256 = None,
         w_wrapper_address = None, w_wrapper_runtime_sha256 = None, w_wrapper_source_path = None,
         w_wrapper_source_sha256 = None, w_expected_wrapper_depth = 2, w_wrapper_callsite_sha256 = site,
         w_rpc_provider_label = None, w_cross_check_provider_label = None, w_env_hash = zeros 64\<rparr>)"

section \<open>Prices\<close>

text \<open>\<open>_price_evidence\<close>: the placeholder's price becomes that of the observed token.\<close>

definition price_document :: "string \<Rightarrow> pv \<Rightarrow> pv res" where
  "price_document token v =
     ebind (need_item v ''prices'') (\<lambda>p. case (v, p) of
       (PDict payload, PDict prices) \<Rightarrow>
         (case find (\<lambda>kv. startswith (fst kv) ''0x'') prices of
            None \<Rightarrow> Inl StopIteration
          | Some (zero_key, price) \<Rightarrow> (case price of
              PDict d \<Rightarrow> Inr (PDict (dset payload ''prices'' (PDict (dset (dpop prices zero_key) (lower token)
                (PDict (dset d ''asset'' (PStr (lower token))))))))
            | _ \<Rightarrow> Inl (TypeError ''object does not support item assignment'')))
     | _ \<Rightarrow> Inl (AttributeError ''startswith''))"

definition price_evidence :: "('f, 'x) bench \<Rightarrow> string \<Rightarrow> (unit, tree \<times> 'x) act" where
  "price_evidence B token =
     abind (alift (ebind (read_text (repo_tree B) (join ''/'' (FIXTURE_REL @ [''prices.json'']))) (\<lambda>body.
       ebind (json_loads (bn_world B) body) (price_document token)))) (\<lambda>doc. write_json ''prices.json'' doc)"

section \<open>The phase collect\<close>

text \<open>\<open>policy["rules"] if "rules" in policy else policy\<close>, which the policy check reads as a dictionary.\<close>

definition replay_rules :: "pv \<Rightarrow> pdict res" where
  "replay_rules policy = ebind (need_dict policy) (\<lambda>d. case dget d ''rules'' of None \<Rightarrow> Inr d | Some r \<Rightarrow> need_dict r)"

definition make_coordinator :: "('f, 'x) bench \<Rightarrow> 'x rig \<Rightarrow> (string \<times> string) list \<Rightarrow> pdict \<Rightarrow> coordinator" where
  "make_coordinator B G catalog rules = \<lparr>co_host = bench_host B, co_loads = wo_loads (bn_world B), co_repo = fixture_tree B,
     co_replay_root = bn_resolve B (bn_work B @ [''replays'']), co_catalog = catalog, co_policy = rules,
     co_random = rg_random G, co_resolve = rg_resolve G\<rparr>"

text \<open>The verifier's world once the runs are retained: \<open>run.artifact_dir.parent.parent\<close> is a run's directory.\<close>

definition collected_dirs :: "replay_collection \<Rightarrow> string list list" where
  "collected_dirs c = map (\<lambda>r. butlast (butlast (rr_artifact_dir r))) (cl_runs c)"

definition after_replay :: "'f world \<Rightarrow> string list list \<Rightarrow> tree list \<Rightarrow> 'f world" where
  "after_replay W dirs trees = W\<lparr>wo_tree := \<lambda>d. case map_of (zip dirs trees) d of None \<Rightarrow> wo_tree W d | Some t \<Rightarrow> t\<rparr>"

definition collection_json :: "('f, 'x) bench \<Rightarrow> replay_collection \<Rightarrow> pv" where
  "collection_json B c = PDict [(''replay_root'', PStr (encode_work_path (bn_resolve B) (cl_root c) (bn_work B))),
     (''run_dirs'', PList (map (\<lambda>d. PStr (encode_work_path (bn_resolve B) d (bn_work B))) (collected_dirs c))),
     (''witness_hash'', PStr (cl_witness_hash c))]"

text \<open>The witness that is replayed: what the bootstrap shows, and the environment that a run observes.\<close>

definition declare_step :: "('f, 'x) bench \<Rightarrow> 'x rig \<Rightarrow> (string \<times> string) list \<Rightarrow> (full_identity \<times> witness, tree \<times> 'x) act" where
  "declare_step B G catalog =
     abind (bench_commit B G) (\<lambda>commit.
     abind (bench_build B G) (\<lambda>_.
     abind (alift (placeholder_witness (bench_host B) (fixture_tree B) commit)) (\<lambda>placeholder.
     abind (bootstrap B G placeholder catalog) (\<lambda>identity.
     abind (alift (declared_witness (bench_host B) (fixture_tree B) commit identity (zeros 64))) (\<lambda>w0.
     abind (make_declaration B G w0) (\<lambda>w. alift (Inr (identity, w))))))))"

text \<open>The first verification, without a certificate, and the files for the next phase.\<close>

definition hand_over :: "('f, 'x) bench \<Rightarrow> witness \<Rightarrow> replay_collection \<Rightarrow> (unit, tree \<times> 'x) act" where
  "hand_over B w c =
     abind (make_context B w \<lparr>re_root = cl_root c, re_run_dirs = collected_dirs c, re_certificate = None,
         re_certificate_key = None\<rparr> False) (\<lambda>ctx.
     abind (alift (verify (bn_world B) ctx)) (\<lambda>result.
     abind (write_json ''precertificate-verification.json'' (verification_json result)) (\<lambda>_.
     abind (alift (if vr_passed result then Inr ()
         else runtime_err (''pre-certificate V01-V09 verification failed: '' @ failures_text result))) (\<lambda>_.
     abind (write_json ''witness.json'' (PDict (witness_dump w))) (\<lambda>_.
       write_json ''collection.json'' (collection_json B c))))))"

definition collect_phase :: "('f, 'x) bench \<Rightarrow> 'x rig \<Rightarrow> (replay_collection \<times> tree list, tree \<times> 'x) act" where
  "collect_phase B G =
     abind (alift (load_policy B)) (\<lambda>(policy, catalog).
     abind (declare_step B G catalog) (\<lambda>(identity, w).
     abind (alift (replay_rules policy)) (\<lambda>rules.
     abind (on_rest (collect (make_coordinator B G catalog rules) (execute (rg_forge G) (make_executor B G)) w 3)) (\<lambda>(c, trees).
     abind (price_evidence B (ti_token identity)) (\<lambda>_.
     abind (hand_over (B\<lparr>bn_world := after_replay (bn_world B) (collected_dirs c) trees\<rparr>) w c) (\<lambda>_.
       alift (Inr (c, trees))))))))"

section \<open>The command line\<close>

text \<open>\<open>main\<close>: the exit status, with the text for standard error.\<close>

datatype phase = Collect | Certify | Probes | All

definition phase_status :: "'a res \<Rightarrow> int \<times> string" where
  "phase_status r = (case r of Inr _ \<Rightarrow> (0, []) | Inl e \<Rightarrow> (2, ''M1b acceptance: FAIL/BLOCKED'' @ [CHR 0x0A] @ exc_msg e @ [CHR 0x0A]))"

definition acceptance_main :: "(unit, 's) act \<Rightarrow> (unit, 's) act \<Rightarrow> (unit, 's) act \<Rightarrow> phase \<Rightarrow> 's \<Rightarrow> (int \<times> string) \<times> 's" where
  "acceptance_main run_collect run_certify run_probes phase s =
     (let m = (case phase of Collect \<Rightarrow> run_collect | Certify \<Rightarrow> run_certify | Probes \<Rightarrow> run_probes
        | All \<Rightarrow> abind run_collect (\<lambda>_. abind run_certify (\<lambda>_. run_probes))) in
      case m s of (r, s') \<Rightarrow> (phase_status r, s'))"

section \<open>What the first phase leaves can be certified\<close>

lemma map_equal_one:
  assumes "xs \<noteq> []" and "\<And>x. x \<in> set xs \<Longrightarrow> f x = a"
  shows "length (remdups (map f xs)) = 1"
proof -
  from assms have "set (map f xs) = {a}" by (cases xs) auto
  then show ?thesis by (simp add: remdups_single_set)
qed

lemma collection_from_runs:
  assumes "derived_runs (bn_world B) ctx = Inr runs" and "runs_agree (bn_world B) w runs"
    and "ctx = bench_context B w \<lparr>re_root = root, re_run_dirs = dirs, re_certificate = None, re_certificate_key = None\<rparr>
       prices False scope hyp compiler problems"
    and "load_policy B = Inr (p, catalog)" and "map (bn_resolve B) dirs = dirs"
  shows "\<exists>col. load_collection B w catalog root dirs = Inr col"
proof -
  let ?sum = "\<lambda>d. summary_sha256 (wo_host (bn_world B)) (dr_trace d)"
  from assms(4) obtain pol raw where l: "repo_yaml B POLICY_PATH = Inr pol" "repo_yaml B CATALOG_PATH = Inr raw"
    "catalog_entries raw = Inr catalog" by (auto simp: load_policy_def exn_simps)
  have c: "catalog_of ctx = Inr catalog" unfolding assms(3) by (rule catalog_of_entries [OF l(2,3)])
  have sel: "vc_replay ctx = Some \<lparr>re_root = root, re_run_dirs = dirs, re_certificate = None, re_certificate_key = None\<rparr>"
    "vc_witness ctx = w" by (simp_all add: assms(3) bench_context_def)
  from derived_runs_eq [OF assms(1) sel(1)] have n: "3 \<le> length dirs" "length runs = length dirs" by simp_all
  from assms(1) n(1) have "emap (\<lambda>dir. if \<not> is_relative_to dir root then val_err ''replay run escapes declared replay trust root''
      else load_run (bn_world B) dir w catalog) dirs = Inr runs"
    unfolding derived_runs_def sel c ebind_Inr by (simp add: val_err_def split: if_splits)
  then have load: "emap (\<lambda>dir. load_run (bn_world B) dir w catalog) dirs = Inr runs"
    unfolding emap_eq_Inr by (auto simp: val_err_def elim!: list.rel_mono_strong split: if_splits)
  from n have "runs \<noteq> []" by auto
  note equal = map_equal_one [OF this]
  from assms(2) have one: "length (remdups (map dr_environment_hash runs)) = 1" "length (remdups (map ?sum runs)) = 1"
    "length (remdups (map dr_control_hash runs)) = 1"
    by (intro equal [where a = "w_env_hash w"] equal [where a = "?sum (hd runs)"] equal [where a = "dr_control_hash (hd runs)"];
        simp add: runs_agree_def)+
  show ?thesis
    unfolding load_collection_def Let_def assms(5) load ebind_Inr
    using n(1) one l(1,2) by simp
qed

lemma work_json_written:
  assumes "map_of t (path_parts name) = Some (jindent 0 v @ [CHR 0x0A])" and "plain v" and "json_reader (wo_loads (bn_world B))"
  shows "work_json B name (t, x) = (Inr (jnorm v), (t, x))"
proof -
  have "universal_newlines (jindent 0 v @ [CHR 0x0A]) = jindent 0 v @ [CHR 0x0A]"
    using cr_json(2) [OF assms(2), of 0] by (intro universal_newlines_id) simp
  with assms(1) json_reader.loads_indented [OF assms(3,2)] show ?thesis
    by (simp add: work_json_def read_text_def read_bytes_def json_loads_def)
qed

lemma after_hand_over:
  assumes "hand_over B w c (t0, x0) = (Inr (), (t, x))" and "plain (PDict (witness_dump w))" and "plain (collection_json B c)"
    and "json_reader (wo_loads (bn_world B))"
  shows "work_json B ''witness.json'' (t, x) = (Inr (jnorm (PDict (witness_dump w))), (t, x)) \<and>
    work_json B ''collection.json'' (t, x) = (Inr (jnorm (collection_json B c)), (t, x))"
proof -
  have parts: "path_parts ''precertificate-verification.json'' = [''precertificate-verification.json'']"
    "path_parts ''witness.json'' = [''witness.json'']" "path_parts ''collection.json'' = [''collection.json'']" by code_simp+
  from assms(1) obtain v s1 s2 s3 where
    w2: "write_json ''witness.json'' (PDict (witness_dump w)) s2 = (Inr (), s3)" and
    w3: "write_json ''collection.json'' (collection_json B c) s3 = (Inr (), (t, x))"
    by (auto simp: hand_over_def exn_simps make_context_eq)
  obtain t2 x2 t3 x3 where s: "s2 = (t2, x2)" "s3 = (t3, x3)" by (cases s2; cases s3) simp
  from prices_kept [OF w2 [unfolded s]] prices_kept [OF w3 [unfolded s]] parts
  have "map_of t [''witness.json''] = Some (jindent 0 (PDict (witness_dump w)) @ [CHR 0x0A])"
    "map_of t [''collection.json''] = Some (jindent 0 (collection_json B c) @ [CHR 0x0A])" by simp_all
  then show ?thesis
    using work_json_written [OF _ assms(2,4), of t "''witness.json''"] work_json_written [OF _ assms(3,4), of t "''collection.json''"]
      parts by (simp del: jnorm.simps jindent.simps)
qed

text \<open>The paths of a collection: proper, resolved, and found again below the work root.\<close>

definition recorded_path :: "('f, 'x) bench \<Rightarrow> string list \<Rightarrow> bool" where
  "recorded_path B d = (list_all proper d \<and> bn_resolve B d = d \<and>
     (is_relative_to d SANDBOX_ROOT \<longrightarrow> bn_resolve B (bn_work B @ drop (length SANDBOX_ROOT) d) = d))"

lemma meta_path_recorded:
  assumes "recorded_path B d" and "bn_resolve B (bn_work B) = bn_work B"
  shows "meta_path B (PStr (encode_work_path (bn_resolve B) d (bn_work B))) = Inr d"
  using assms encode_normalize [of d "bn_resolve B" "bn_work B"] by (simp add: recorded_path_def)

lemma plain_collection_json: "plain (collection_json B c)"
  by (simp add: plain_def collection_json_def)

lemma read_handed_over:
  assumes "hand_over B w c (t0, x0) = (Inr (), (t, x))" and "load_policy B = Inr (p, catalog)"
    and "plain (PDict (witness_dump w))" and "bn_validate B (jnorm (PDict (witness_dump w))) = Inr w"
    and "json_reader (wo_loads (bn_world B))" and "bn_resolve B (bn_work B) = bn_work B"
    and "\<forall>d \<in> set (cl_root c # collected_dirs c). recorded_path B d"
  shows "read_inputs B (t, x) = (Inr \<lparr>ci_witness = w, ci_catalog = catalog, ci_replay_root = cl_root c,
     ci_run_dirs = collected_dirs c\<rparr>, (t, x))"
proof -
  let ?enc = "\<lambda>d. encode_work_path (bn_resolve B) d (bn_work B)"
  from after_hand_over [OF assms(1,3) plain_collection_json assms(5)]
  have docs: "work_json B ''witness.json'' (t, x) = (Inr (jnorm (PDict (witness_dump w))), (t, x))"
    "work_json B ''collection.json'' (t, x) = (Inr (jnorm (collection_json B c)), (t, x))" by simp_all
  obtain d where d: "jnorm (collection_json B c) = PDict d" "map_of d ''replay_root'' = Some (PStr (?enc (cl_root c)))"
    "map_of d ''run_dirs'' = Some (PList (map (\<lambda>d. PStr (?enc d)) (collected_dirs c)))"
    by (simp add: collection_json_def map_of_jnorm comp_def)
  have dirs: "emap (meta_path B) (map (\<lambda>d. PStr (?enc d)) ds) = Inr ds" if "\<forall>d \<in> set ds. recorded_path B d" for ds
    using that by (induction ds) (simp_all add: meta_path_recorded [OF _ assms(6)] del: meta_path.simps)
  have "need_item (PDict d) ''run_dirs'' = Inr (PList (map (\<lambda>d. PStr (?enc d)) (collected_dirs c)))"
    "need_item (PDict d) ''replay_root'' = Inr (PStr (?enc (cl_root c)))"
    using d by (simp_all add: need_def)
  with docs d(1) dirs [of "collected_dirs c"] meta_path_recorded [OF _ assms(6), of "cl_root c"] assms(2,4,7) show ?thesis
    by (simp add: read_inputs_def abind_def alift_def del: jnorm.simps meta_path.simps)
qed

lemma hand_over_eq:
  assumes "hand_over B w c (t0, x0) = (Inr (), (t, x))"
  obtains scope hyp lock_text problems compiler x1 pre where
    "scope_and_hypothesis B (w_commit w) = Inr (scope, hyp)" "read_text (repo_tree B) M1B_TOOL_LOCK_REL = Inr lock_text"
    "verify_m1b_tool_lock (bn_lock B) lock_text LOCKED_TOOLS x0 = (Inr problems, x1)"
    "need (w_compiler w) ''solc'' = Inr compiler"
    "verify (bn_world B) (bench_context B w \<lparr>re_root = cl_root c, re_run_dirs = collected_dirs c, re_certificate = None,
       re_certificate_key = None\<rparr> (ebind (read_text t ''prices.json'') (json_loads (bn_world B))) False scope hyp
       (py_str compiler) problems) = Inr pre" "vr_passed pre"
proof -
  have parts: "path_parts ''precertificate-verification.json'' = [''precertificate-verification.json'']"
    "path_parts ''witness.json'' = [''witness.json'']" "path_parts ''collection.json'' = [''collection.json'']" by code_simp+
  from assms obtain scope hyp lock_text problems compiler x1 pre s2 s3 where
    a: "scope_and_hypothesis B (w_commit w) = Inr (scope, hyp)" "read_text (repo_tree B) M1B_TOOL_LOCK_REL = Inr lock_text"
    "verify_m1b_tool_lock (bn_lock B) lock_text LOCKED_TOOLS x0 = (Inr problems, x1)"
    "need (w_compiler w) ''solc'' = Inr compiler" and
    v: "verify (bn_world B) (bench_context B w \<lparr>re_root = cl_root c, re_run_dirs = collected_dirs c, re_certificate = None,
       re_certificate_key = None\<rparr> (ebind (read_text t0 ''prices.json'') (json_loads (bn_world B))) False scope hyp
       (py_str compiler) problems) = Inr pre" "vr_passed pre" and
    w1: "write_json ''precertificate-verification.json'' (verification_json pre) (t0, x1) = (Inr (), s2)" and
    w2: "write_json ''witness.json'' (PDict (witness_dump w)) s2 = (Inr (), s3)" and
    w3: "write_json ''collection.json'' (collection_json B c) s3 = (Inr (), (t, x))"
    by (auto simp: hand_over_def exn_simps make_context_eq)
  obtain t2 x2 t3 x3 where s: "s2 = (t2, x2)" "s3 = (t3, x3)" by (cases s2; cases s3) simp
  from prices_kept [OF w1 [unfolded s]] prices_kept [OF w2 [unfolded s]] prices_kept [OF w3 [unfolded s]] parts
  have "read_text t ''prices.json'' = read_text t0 ''prices.json''" by simp
  with v have "verify (bn_world B) (bench_context B w \<lparr>re_root = cl_root c, re_run_dirs = collected_dirs c, re_certificate = None,
       re_certificate_key = None\<rparr> (ebind (read_text t ''prices.json'') (json_loads (bn_world B))) False scope hyp
       (py_str compiler) problems) = Inr pre" by simp
  with a v(2) show thesis by (intro that)
qed

lemma issue_after_hand_over:
  assumes "hand_over B w c (t0, x0) = (Inr (), (t, x))" and "load_policy B = Inr (p, catalog)"
    and "steady_tools (bn_lock B)" and "map (bn_resolve B) (collected_dirs c) = collected_dirs c"
    and "\<not> key_below path (bn_resolve B (bn_root B))" "\<not> key_below path (bn_resolve B (bn_work B))"
    and "\<not> is_relative_to (resolved_key B path) (bn_resolve B (cl_root c))"
  shows "\<exists>cert s2. certify_issue B \<lparr>ci_witness = w, ci_catalog = catalog, ci_replay_root = cl_root c,
     ci_run_dirs = collected_dirs c\<rparr> path key (t, x) = (Inr cert, s2)"
proof -
  let ?ev = "\<lparr>re_root = cl_root c, re_run_dirs = collected_dirs c, re_certificate = None, re_certificate_key = None\<rparr>"
  from assms(1) obtain scope hyp lock_text problems compiler x1 pre where
    a: "scope_and_hypothesis B (w_commit w) = Inr (scope, hyp)" "read_text (repo_tree B) M1B_TOOL_LOCK_REL = Inr lock_text"
    "verify_m1b_tool_lock (bn_lock B) lock_text LOCKED_TOOLS x0 = (Inr problems, x1)"
    "need (w_compiler w) ''solc'' = Inr compiler" and
    v: "verify (bn_world B) (bench_context B w ?ev (ebind (read_text t ''prices.json'') (json_loads (bn_world B))) False scope hyp
       (py_str compiler) problems) = Inr pre" "vr_passed pre"
    by (rule hand_over_eq)
  let ?ctx = "bench_context B w ?ev (ebind (read_text t ''prices.json'') (json_loads (bn_world B))) False scope hyp (py_str compiler) problems"
  have sel: "vc_replay ?ctx = Some ?ev" "vc_witness ?ctx = w" by (simp_all add: bench_context_def)
  from v obtain runs where r: "derived_runs (bn_world B) ?ctx = Inr runs" "runs_agree (bn_world B) (vc_witness ?ctx) runs"
    by (rule verify_passes)
  from collection_from_runs [OF r(1) r(2) [unfolded sel] refl assms(2,4)] obtain col where
    col: "load_collection B w catalog (cl_root c) (collected_dirs c) = Inr col" by blast
  have n: "3 \<le> length (cl_runs col)" "cl_root col = cl_root c" by (rule load_collection_eq [OF col assms(4)]; simp)+
  have "fst (verify_m1b_tool_lock (bn_lock B) lock_text LOCKED_TOOLS x) = Inr problems"
    using steady_tool_lock [OF assms(3), of lock_text LOCKED_TOOLS] a(3) unfolding steady_def by (metis fst_conv)
  then obtain x2 where "verify_m1b_tool_lock (bn_lock B) lock_text LOCKED_TOOLS x = (Inr problems, x2)" by (metis prod.collapse)
  with a have m: "make_context B w ?ev False (t, x) = (Inr ?ctx, (t, x2))" by (auto simp: make_context_eq)
  obtain cert where c: "certifier_issue (bench_host B) (bn_now B) (resolved_key B path) (Some key) (witness_hash (bench_host B) w)
       ((certifier_view col)\<lparr>rc_root := bn_resolve B (cl_root col)\<rparr>) True ''CERT-M1B-REAL'' = Inr cert"
    using assms(7) n by (simp add: certifier_issue_def certifier_view_def issue_eq_Inr)
  show ?thesis
    using assms(5,6) v(2) by (simp add: certify_issue_def abind_def alift_def col m v(1) c write_json_def put_text_def)
qed

text \<open>The witness that is declared can be written and read as JSON.\<close>

lemma declared_witness_plain:
  assumes "declared_witness H fixture commit i env = Inr w"
  shows "plain (PDict (witness_dump (w\<lparr>w_env_hash := h\<rparr>)))"
  using assms
  by (auto simp: declared_witness_def exn_simps plain_def witness_dump_def witness_fields_def m1b_compiler_def m1b_assertion_def
      assertion_dump_def pstrs_def pints_def ptexts_def opt_pdict_def)

lemma declare_step_plain:
  assumes "declare_step B G catalog s = (Inr (identity, w), s')"
  shows "plain (PDict (witness_dump w))"
  using assms by (auto simp: declare_step_def make_declaration_def exn_simps declared_witness_plain split: prod.splits)

lemma hand_over_certified:
  assumes "hand_over B w c (t0, x0) = (Inr (), (t, x))" and "load_policy B = Inr (policy, catalog)"
    and "json_reader (wo_loads (bn_world B))"
    and "plain (PDict (witness_dump w))" and "bn_validate B (jnorm (PDict (witness_dump w))) = Inr w"
    and "bn_resolve B (bn_work B) = bn_work B" and "\<forall>d \<in> set (cl_root c # collected_dirs c). recorded_path B d"
    and "steady_tools (bn_lock B)" and "ensure_audit_key symlink fresh home ''M1B'' keys = (Inr path, keys')"
    and "\<not> key_below path (bn_resolve B (bn_root B))" "\<not> key_below path (bn_resolve B (bn_work B))"
    and "\<not> is_relative_to (resolved_key B path) (bn_resolve B (cl_root c))"
  shows "\<exists>t' x'. certify B symlink fresh home (keys, (t, x)) = (Inr (), (keys', t', x'))"
proof -
  let ?i = "\<lparr>ci_witness = w, ci_catalog = catalog, ci_replay_root = cl_root c, ci_run_dirs = collected_dirs c\<rparr>"
  have read: "read_inputs B (t, x) = (Inr ?i, (t, x))"
    by (rule read_handed_over [OF assms(1,2,4,5,3,6,7)])
  have dirs: "map (bn_resolve B) (collected_dirs c) = collected_dirs c"
    using assms(7) by (simp add: recorded_path_def map_idI)
  from issue_after_hand_over [OF assms(1,2,8) dirs assms(10-12)] obtain cert s3 where
    issue: "certify_issue B ?i path (the (map_of keys' path)) (t, x) = (Inr cert, s3)" by blast
  from completes_from_issue [OF assms(8) _ _ issue] assms(2) dirs read assms(9) issue show ?thesis
    by (auto simp: certify_def Let_def abind_def)
qed


text \<open>
  The same from the beginning of the phase: its witness is always one that can be written as JSON. The
  verifier's world of the next phase is that of the first with the trees of the retained runs.
\<close>

lemma collected_is_certified:
  assumes "collect_phase B0 G s = (Inr (c, trees), (t, x))"
    and "B = B0\<lparr>bn_world := after_replay (bn_world B0) (collected_dirs c) trees\<rparr>" and "bn_root B \<notin> set (collected_dirs c)"
    and "json_reader (wo_loads (bn_world B))"
    and "\<And>w. plain (PDict (witness_dump w)) \<Longrightarrow> bn_validate B (jnorm (PDict (witness_dump w))) = Inr w"
    and "bn_resolve B (bn_work B) = bn_work B" and "\<forall>d \<in> set (cl_root c # collected_dirs c). recorded_path B d"
    and "steady_tools (bn_lock B)" and "ensure_audit_key symlink fresh home ''M1B'' keys = (Inr path, keys')"
    and "\<not> key_below path (bn_resolve B (bn_root B))" "\<not> key_below path (bn_resolve B (bn_work B))"
    and "\<not> is_relative_to (resolved_key B path) (bn_resolve B (cl_root c))"
  shows "\<exists>t' x'. certify B symlink fresh home (keys, (t, x)) = (Inr (), (keys', t', x'))"
proof -
  from assms(1) obtain policy catalog identity w s2 s3 where
    p: "load_policy B0 = Inr (policy, catalog)" and d: "declare_step B0 G catalog s = (Inr (identity, w), s2)"
    and h: "hand_over B w c s3 = (Inr (), (t, x))"
    unfolding assms(2) by (auto simp: collect_phase_def exn_simps)
  obtain t0 x0 where "s3 = (t0, x0)" by (cases s3)
  with h have h: "hand_over B w c (t0, x0) = (Inr (), (t, x))" by simp
  have plain: "plain (PDict (witness_dump w))" by (rule declare_step_plain [OF d])
  have "repo_tree B = repo_tree B0"
    using assms(2,3) by (auto simp: repo_tree_def after_replay_def dest: map_of_SomeD set_zip_leftD split: option.splits)
  with p assms(2) have "load_policy B = Inr (policy, catalog)" by (simp add: load_policy_def repo_yaml_def)
  from hand_over_certified [OF h this assms(4) plain assms(5) [OF plain] assms(6-12)] show ?thesis .
qed

end
