(* ===== verification/Probes.thy ===== *)
theory Probes
  imports AcceptanceRun
begin

text \<open>
  The phase \<open>probes\<close> of \<open>driver/m1b_acceptance.py\<close>: copies of the retained runs are tampered with, their
  digests refreshed, and the verifier must reject them; two more witnesses must fail in their own way. A
  probe changes the trees of the copies, in the order of their directories.
\<close>

section \<open>Changing frames and their logs\<close>

text \<open>Every frame, and the frames below it; a frame is changed before its children are visited.\<close>

function iter_frame :: "(pdict \<Rightarrow> pdict res) \<Rightarrow> pv \<Rightarrow> pv res" where
  "iter_frame f v = (case v of
     PDict d \<Rightarrow> ebind (f d) (\<lambda>d1. case dget_or d ''children'' PNone of
         PList cs \<Rightarrow> ebind (emap (iter_frame f) cs) (\<lambda>cs1. Inr (PDict (dset d1 ''children'' (PList cs1))))
       | _ \<Rightarrow> Inr (PDict d1))
   | _ \<Rightarrow> Inl (AttributeError ''get''))"
  by pat_completeness auto
termination
proof (relation "Wellfounded.measure (size \<circ> snd)")
  fix f :: "pdict \<Rightarrow> pdict res" and v d d1 cs and c
  assume "v = PDict d" "dget_or d ''children'' PNone = PList cs" "c \<in> set cs"
  then have "(''children'', PList cs) \<in> set d" by (auto simp: dget_or_def split: option.splits dest: map_of_SomeD)
  from size_snd_list [OF this] have "size (PList cs) < size v" using \<open>v = PDict d\<close> by simp
  moreover have "size c < size (PList cs)" using \<open>c \<in> set cs\<close> by (simp add: less_Suc_eq_le size_list_estimation')
  ultimately show "((f, c), (f, v)) \<in> Wellfounded.measure (size \<circ> snd)" by simp
qed simp

declare iter_frame.simps [simp del]

definition change_logs :: "(pdict \<Rightarrow> pdict) \<Rightarrow> pdict \<Rightarrow> pdict res" where
  "change_logs g d =
     (case dget d ''logs'' of
        None \<Rightarrow> Inr d
      | Some v \<Rightarrow> ebind (ebind (py_iter v) (emap need_dict)) (\<lambda>logs. Inr (case v of
          PList vs \<Rightarrow> dset d ''logs'' (PList (map (PDict \<circ> g) logs)) | _ \<Rightarrow> d)))"

definition on_event :: "string \<Rightarrow> (pdict \<Rightarrow> pdict) \<Rightarrow> pdict \<Rightarrow> pdict" where
  "on_event name g log = (if dget log ''event'' = Some (PStr name) then g log else log)"

section \<open>Changing the files of a run\<close>

text \<open>A file of the only artifact directory, read and written below the copy's \<open>repo\<close>.\<close>

definition artifact_file :: "tree \<Rightarrow> string \<Rightarrow> (string list) res" where
  "artifact_file t name = (case artifact_dirs t of [] \<Rightarrow> Inl StopIteration | d # ds \<Rightarrow> Inr [''artifacts'', d, name])"

definition tree_read :: "tree \<Rightarrow> string list \<Rightarrow> string res" where
  "tree_read t p = (case map_of t p of None \<Rightarrow> Inl (FileNotFoundError (join ''/'' p)) | Some b \<Rightarrow> Inr (universal_newlines b))"

text \<open>\<open>_refresh_hash\<close>.\<close>

definition refresh_hash :: "host \<Rightarrow> string list \<Rightarrow> string list \<Rightarrow> tree \<Rightarrow> tree" where
  "refresh_hash H path hash_path t =
     AList.update hash_path (hs_sha256 H (case map_of t path of None \<Rightarrow> [] | Some b \<Rightarrow> b) @ [CHR 0x0A]) t"

text \<open>A document of a run is changed, written as canonical JSON, and its digest refreshed.\<close>

definition change_document :: "'f world \<Rightarrow> string \<Rightarrow> (pv \<Rightarrow> pv res) \<Rightarrow> tree \<Rightarrow> tree res" where
  "change_document W stem f t =
     ebind (artifact_file t (stem @ ''.json'')) (\<lambda>path.
     ebind (artifact_file t (stem @ ''.sha256'')) (\<lambda>hash_path.
     ebind (ebind (tree_read t path) (json_loads W)) (\<lambda>data.
     ebind (f data) (\<lambda>changed.
       Inr (refresh_hash (wo_host W) path hash_path (AList.update path (canonical changed) t))))))"

definition change_trace :: "(pdict \<Rightarrow> pdict) \<Rightarrow> pv \<Rightarrow> pv res" where
  "change_trace g data = ebind (need_item data ''trace'') (\<lambda>v. ebind (py_iter v) (\<lambda>frames.
     ebind (emap (iter_frame (change_logs g)) frames) (\<lambda>frames1.
       Inr (case (data, v) of (PDict d, PList _) \<Rightarrow> PDict (dset d ''trace'' (PList frames1)) | _ \<Rightarrow> data))))"

section \<open>The mutations\<close>

definition forged :: "'f world \<Rightarrow> tree list \<Rightarrow> tree list res" where
  "forged W = emap (change_document W ''trace''
     (change_trace (on_event ''AssertionChecked'' (\<lambda>log. dset log ''emitter'' (PStr (''0x'' @ replicate 40 (CHR ''f'')))))))"

definition forged_event :: "'f world \<Rightarrow> tree list \<Rightarrow> tree list res" where
  "forged_event W = emap (change_document W ''trace''
     (change_trace (on_event ''AssertionChecked'' (\<lambda>log. dset (dset log ''observed'' (PInt 51)) ''ok'' (PBool True)))))"

definition coverage_omission :: "'f world \<Rightarrow> tree list \<Rightarrow> tree list res" where
  "coverage_omission W = emap (change_document W ''trace''
     (change_trace (on_event ''AssertionContext'' (\<lambda>log. dpop (dpop log ''actor'') ''token''))))"

definition control_effect :: "'f world \<Rightarrow> tree list \<Rightarrow> tree list res" where
  "control_effect W = emap (change_document W ''control-trace''
     (change_trace (on_event ''ControlObserved'' (\<lambda>log. dset log ''state_changed'' (PBool True)))))"

definition on_first :: "(tree \<Rightarrow> tree res) \<Rightarrow> tree list \<Rightarrow> tree list res" where
  "on_first f ts = (case ts of [] \<Rightarrow> Inl (IndexError ''list index out of range'') | t # r \<Rightarrow> ebind (f t) (\<lambda>t1. Inr (t1 # r)))"

definition on_last :: "(tree \<Rightarrow> tree res) \<Rightarrow> tree list \<Rightarrow> tree list res" where
  "on_last f ts = (if ts = [] then Inl (IndexError ''list index out of range'')
     else ebind (f (last ts)) (\<lambda>t1. Inr (butlast ts @ [t1])))"

definition text_imitation :: "tree list \<Rightarrow> tree list res" where
  "text_imitation = on_first (\<lambda>t. ebind (artifact_file t ''trace.json'') (\<lambda>path.
     Inr (AList.update path (''forge -vvvv output: AssertionChecked=true'' @ [CHR 0x0A]) t)))"

definition TAMPER :: string where
  "TAMPER = [CHR 0x0A] @ ''// tampered by acceptance probe'' @ [CHR 0x0A]"

definition wrapper_tamper :: "tree list \<Rightarrow> tree list res" where
  "wrapper_tamper = emap (\<lambda>t. ebind (tree_read t (path_parts WRAPPER_SOURCE)) (\<lambda>source.
     Inr (AList.update (path_parts WRAPPER_SOURCE) (source @ TAMPER) t)))"

definition single_artifact :: "tree \<Rightarrow> string \<Rightarrow> string list res" where
  "single_artifact t name = (case artifact_dirs t of
     [d] \<Rightarrow> Inr [''artifacts'', d, name] | _ \<Rightarrow> runtime_err ''expected exactly one artifact directory'')"

text \<open>The gas of the first frame; the rest of the trace stays.\<close>

definition more_gas :: "pv \<Rightarrow> pv res" where
  "more_gas data = ebind (need_item data ''trace'') (\<lambda>v. case (data, v) of
     (PDict d, PList (PDict f # frames)) \<Rightarrow> ebind (py_int (dget_or f ''gas_used'' (PInt 0))) (\<lambda>gas.
        Inr (PDict (dset d ''trace'' (PList (PDict (dset f ''gas_used'' (PInt (gas + 1))) # frames)))))
   | (_, PList []) \<Rightarrow> Inl (IndexError ''list index out of range'')
   | _ \<Rightarrow> Inl (AttributeError ''get''))"

definition trace_drift :: "'f world \<Rightarrow> tree list \<Rightarrow> tree list res" where
  "trace_drift W = on_last (\<lambda>t. ebind (single_artifact t ''trace.json'') (\<lambda>_. change_document W ''trace'' more_gas t))"

text \<open>Another tool version, with the environment hash that belongs to it.\<close>

definition drifted_environment :: "'f world \<Rightarrow> witness \<Rightarrow> pv \<Rightarrow> (pdict \<times> string) res" where
  "drifted_environment W w data =
     ebind (need_dict data) (\<lambda>env.
     ebind (ebind (need env ''tool_versions'') need_dict) (\<lambda>tools.
     ebind (need tools ''forge'') (\<lambda>forge.
     let tools1 = dset tools ''forge'' (PStr (py_str forge @ '' tampered'')); env1 = dset env ''tool_versions'' (PDict tools1) in
     ebind (ebind (ebind (need env ''observation'') to_dict) observation_from_dict) (\<lambda>ob.
     ebind (int_item env ''initial_timestamp'') (\<lambda>ts.
     ebind (int_item env ''initial_block'') (\<lambda>bl.
       let h = environment_hash (wo_host W) ob w tools1 (Some ts) (Some bl) in
       Inr (dset env1 ''environment_hash'' (PStr h), h)))))))"

definition env_drift :: "'f world \<Rightarrow> witness \<Rightarrow> tree list \<Rightarrow> tree list res" where
  "env_drift W w = on_last (\<lambda>t.
     ebind (single_artifact t ''environment.json'') (\<lambda>path. ebind (single_artifact t ''environment.sha256'') (\<lambda>hash_path.
     ebind (ebind (tree_read t path) (json_loads W)) (\<lambda>data. ebind (drifted_environment W w data) (\<lambda>(env, h).
       Inr (AList.update hash_path (h @ [CHR 0x0A]) (AList.update path (jindent 0 (PDict env) @ [CHR 0x0A]) t)))))))"

section \<open>A probe\<close>

definition probe_dirs :: "string list \<Rightarrow> nat \<Rightarrow> string list list" where
  "probe_dirs dest n = map (\<lambda>i. dest @ [''run-'' @ nat_str i, ''repo'']) [1 ..< n + 1]"

text \<open>What a probe reports: the next state, and the codes of the hard failures.\<close>

definition probe_report :: "verification_result \<Rightarrow> string \<times> string" where
  "probe_report v = (case vr_next_state v of None \<Rightarrow> [] | Some s \<Rightarrow> s,
     join '','' (map (\<lambda>c. case cr_code c of None \<Rightarrow> [] | Some s \<Rightarrow> s) (hard_failures v)))"

definition adversarial_probe :: "('f, 'x) bench \<Rightarrow> string \<Rightarrow> ('f world \<Rightarrow> witness \<Rightarrow> tree list \<Rightarrow> tree list res) \<Rightarrow>
    (string \<times> string, tree \<times> 'x) act" where
  "adversarial_probe B name mutate =
     abind (work_json B ''witness.json'') (\<lambda>raw. abind (alift (bn_validate B raw)) (\<lambda>w.
     abind (alift (load_policy B)) (\<lambda>_.
     abind (work_json B ''collection.json'') (\<lambda>meta.
     abind (alift (ebind (need_item meta ''run_dirs'') (\<lambda>v. ebind (py_iter v) (emap (meta_path B))))) (\<lambda>sources.
     let dest = bn_work B @ [''adversarial'', name]; dirs = probe_dirs dest (length sources) in
     abind (alift (mutate (bn_world B) w (map (wo_tree (bn_world B)) sources))) (\<lambda>trees.
     let W = after_replay (bn_world B) dirs trees in
     abind (make_context (B\<lparr>bn_world := W\<rparr>) w \<lparr>re_root = dest, re_run_dirs = sort dirs, re_certificate = None,
         re_certificate_key = None\<rparr> False) (\<lambda>ctx.
       alift (map_sum id probe_report (verify W ctx)))))))))"

section \<open>The other witnesses\<close>

text \<open>
  \<open>_fixture_sanity_probe\<close>: the run of a witness without a harness; every failure of the run becomes the
  report \<open>ERROR\<close>.
\<close>

definition sanity_witness :: "host \<Rightarrow> tree \<Rightarrow> string \<Rightarrow> string \<Rightarrow> string \<Rightarrow> witness res" where
  "sanity_witness H fixture commit file name =
     ebind (template_hashes H fixture file) (\<lambda>(whole, attack, site).
       Inr \<lparr>w_witness_class = Local_deployment, w_chain_id = 31337, w_fork_block = None, w_commit = commit,
         w_compiler = m1b_compiler, w_test_file = file, w_test_name = name, w_control_test_name = CONTROL_TEST,
         w_initial_capital_wei = 10 ^ 18, w_max_time_advance_s = 0, w_max_block_advance = 0,
         w_declared_actors = [ACTOR_FALLBACK], w_declared_tokens = [], w_token_decimals = [],
         w_setup_budget = Some [(''native_wei'', PInt (10 ^ 18))], w_assertions = [], w_invariant_check_pins = [],
         w_template_sha256 = whole, w_attack_body_sha256 = attack, w_harness_address = ZERO_ADDRESS,
         w_harness_create2_salt = HARNESS_SALT, w_harness_create2_deployer = None, w_harness_init_code_sha256 = None,
         w_harness_runtime_sha256 = None, w_harness_source_path = None, w_harness_source_sha256 = None,
         w_wrapper_address = None, w_wrapper_runtime_sha256 = None, w_wrapper_source_path = None,
         w_wrapper_source_sha256 = None, w_expected_wrapper_depth = 0, w_wrapper_callsite_sha256 = site,
         w_rpc_provider_label = None, w_cross_check_provider_label = None, w_env_hash = zeros 64\<rparr>)"

definition sanity_report :: "witness \<Rightarrow> pv \<Rightarrow> bool \<Rightarrow> trace_summary res \<Rightarrow> (string \<times> string) res" where
  "sanity_report w policy expect_violation tr = ebind tr (\<lambda>tr.
     if expect_violation then
       (case ebind (need_dict policy) (\<lambda>p. enforce_cheatcode_policy tr (witness_class_value (w_witness_class w)) p None) of
          Inl (TracePolicyError m) \<Rightarrow> Inr (''POLICY_VIOLATION'', m)
        | Inl e \<Rightarrow> Inl e
        | Inr _ \<Rightarrow> Inr (''PASS'', ''forbidden witness cheatcode was not rejected''))
     else Inr (''NO_ASSERTION'', nat_str (length (ts_assertion_events tr))))"

definition sanity_probe :: "('f, 'x) bench \<Rightarrow> 'x rig \<Rightarrow> string \<Rightarrow> string \<Rightarrow> string \<Rightarrow> bool \<Rightarrow> (string \<times> string, tree \<times> 'x) act" where
  "sanity_probe B G name file test expect_violation =
     abind (alift (load_policy B)) (\<lambda>(policy, catalog).
     abind (bench_commit B G) (\<lambda>commit.
     abind (alift (sanity_witness (bench_host B) (fixture_tree B) commit file test)) (\<lambda>w.
     let root = rg_temp G (''l0vi0x-m1b-negative-'' @ name @ ''-'') @ [''repo''] in
     (\<lambda>s. case in_copy (fixture_tree B) (execute (rg_forge G) (make_executor B G) root w 1) s of
        (r, s1) \<Rightarrow> (case ebind r (\<lambda>(result, c). sanity_report w policy expect_violation
              (ebind (result_text G root c result ''trace_path'') (traced (bn_world B) catalog))) of
          Inl e \<Rightarrow> (Inr (''ERROR'', exc_msg e), s1)
        | Inr rep \<Rightarrow> (Inr rep, s1))))))"

section \<open>The judgement\<close>

type_synonym cases = "(string \<times> (string \<times> string)) list"

definition cases_json :: "cases \<Rightarrow> pv" where
  "cases_json cs = PDict (map (\<lambda>(k, a, b). (k, PTup [PStr a, PStr b])) cs)"

definition case_of :: "cases \<Rightarrow> string \<Rightarrow> string \<times> string" where
  "case_of cs k = (case map_of cs k of None \<Rightarrow> ([], []) | Some c \<Rightarrow> c)"

definition case_repr :: "string \<times> string \<Rightarrow> string" where
  "case_repr c = py_repr (PTup [PStr (fst c), PStr (snd c)])"

definition judge_probes :: "cases \<Rightarrow> unit res" where
  "judge_probes cs =
     (let at = case_of cs; code = (\<lambda>k. snd (at k)) in
      if code ''forged_assertion'' \<notin> {''HARNESS_TAMPERED'', ''ENV_DECLARATION_MISMATCH'', ''CERTIFICATE_INVALID''} then
        runtime_err (''forged assertion probe did not fail closed: '' @ case_repr (at ''forged_assertion''))
      else if code ''trace_text_imitation'' = [] then runtime_err ''trace text imitation probe unexpectedly passed''
      else if code ''environment_tamper'' \<noteq> ''NONDETERMINISTIC_ENV'' then
        runtime_err (''environment drift did not route as NONDETERMINISTIC_ENV: '' @ case_repr (at ''environment_tamper''))
      else if code ''trace_drift'' \<noteq> ''NONDETERMINISTIC_TRACE'' then
        runtime_err (''stable-environment trace drift did not route as NONDETERMINISTIC_TRACE: '' @ case_repr (at ''trace_drift''))
      else if code ''tampered_wrapper'' = [] then runtime_err ''wrapper tamper probe unexpectedly passed''
      else if code ''actor_token_omission'' = [] then runtime_err ''actor/token omission probe unexpectedly passed''
      else if code ''control_state_change'' = [] then runtime_err ''control-effect probe unexpectedly passed''
      else if fst (at ''cheat_exploit'') \<noteq> ''POLICY_VIOLATION'' then
        runtime_err (''cheat exploit probe was not rejected: '' @ case_repr (at ''cheat_exploit''))
      else if fst (at ''benign_twin'') \<noteq> ''NO_ASSERTION'' then
        runtime_err (''benign twin unexpectedly emitted an assertion: '' @ case_repr (at ''benign_twin''))
      else Inr ())"

definition probe_list :: "('f, 'x) bench \<Rightarrow> 'x rig \<Rightarrow> (string \<times> (string \<times> string, tree \<times> 'x) act) list" where
  "probe_list B G =
     (let probe = adversarial_probe B in
      [(''forged_assertion'', probe ''forged_assertion'' (\<lambda>W w. forged W)),
       (''forged_event'', probe ''forged_event'' (\<lambda>W w. forged_event W)),
       (''trace_text_imitation'', probe ''trace_text_imitation'' (\<lambda>W w. text_imitation)),
       (''environment_tamper'', probe ''environment_tamper'' env_drift),
       (''trace_drift'', probe ''trace_drift'' (\<lambda>W w. trace_drift W)),
       (''tampered_wrapper'', probe ''tampered_wrapper'' (\<lambda>W w. wrapper_tamper)),
       (''actor_token_omission'', probe ''actor_token_omission'' (\<lambda>W w. coverage_omission W)),
       (''control_state_change'', probe ''control_state_change'' (\<lambda>W w. control_effect W)),
       (''cheat_exploit'', sanity_probe B G ''cheat_exploit'' ''test/CheatExploitWitness.t.sol'' ''test_witness'' True),
       (''benign_twin'', sanity_probe B G ''benign_twin'' ''test/BenignTwin.t.sol'' ''test_witness'' False)])"

definition probes :: "('f, 'x) bench \<Rightarrow> 'x rig \<Rightarrow> (unit, tree \<times> 'x) act" where
  "probes B G =
     abind (amap (\<lambda>(k, m). abind m (\<lambda>c. alift (Inr (k, c)))) (probe_list B G)) (\<lambda>cs.
     abind (write_json ''adversarial-probes.json'' (cases_json cs)) (\<lambda>_. alift (judge_probes cs)))"

section \<open>A tampered wrapper is found\<close>

lemma load_run_tree: "load_run W dir w catalog = Inr run \<Longrightarrow> dr_tree run = wo_tree W dir"
  by (auto simp: load_run_def Let_def exn_simps split: list.splits option.splits if_splits)

lemma harness_wrapper_source:
  assumes "derive_harness W run w = Inr harness" and "w_wrapper_source_path w = Some p"
    and "wo_resolve W (dr_root run) p = Some parts" and "map_of (dr_tree run) parts = Some source"
  shows "w_wrapper_source_sha256 w = Some (hs_sha256 (wo_host W) source)"
proof -
  from assms(1,2) obtain s r where "contract_identity W run ''wrapper'' p (the (w_wrapper_source_sha256 w)) (w_wrapper_runtime_sha256 w) = Inr (s, r)"
    and "given (w_wrapper_source_sha256 w)"
    by (auto simp: derive_harness_def Let_def exn_simps val_err_def split: if_splits)
  with assms(3,4) show ?thesis
    by (auto simp: contract_identity_def artifact_contract_def Let_def exn_simps val_err_def given_def split: if_splits list.splits)
qed

lemma after_replay_tree:
  assumes "d \<in> set dirs" and "length trees = length dirs"
  shows "wo_tree (after_replay W dirs trees) d \<in> set trees"
proof -
  from assms obtain t where "map_of (zip dirs trees) d = Some t"
    by (metis map_of_zip_is_Some)
  then show ?thesis by (auto simp: after_replay_def dest!: map_of_SomeD set_zip_rightD)
qed

lemma tampered_trees:
  assumes "wrapper_tamper ts = Inr trees"
  shows "length trees = length ts \<and> (\<forall>t \<in> set trees. \<exists>source. map_of t (path_parts WRAPPER_SOURCE) = Some (source @ TAMPER))"
  using assms unfolding wrapper_tamper_def
  by (induction ts arbitrary: trees) (auto simp: exn_simps update_conv')

lemma passed_run_source:
  assumes "verify W ctx = Inr v" "vr_passed v" and "vc_replay ctx = Some r" and "w_wrapper_source_path (vc_witness ctx) = Some p"
    and "\<And>root. wo_resolve W root p = Some (path_parts p)"
    and "\<forall>d \<in> set (re_run_dirs r). \<exists>source. map_of (wo_tree W d) (path_parts p) = Some source \<and> hs_sha256 (wo_host W) source \<noteq> digest"
  shows "w_wrapper_source_sha256 (vc_witness ctx) \<noteq> Some digest"
proof -
  from assms(1,2) obtain r' runs where p: "vc_replay ctx = Some r'" "derived_runs W ctx = Inr runs" "runs \<noteq> []"
    "run_supported W ctx (hd runs)" by (rule verify_passes)
  from p(4) obtain harness where h: "derive_harness W (hd runs) (vc_witness ctx) = Inr harness"
    by (auto simp: run_supported_def Let_def)
  from derived_runs_eq(4) [OF p(2) assms(3)] p(3) have
    "\<exists>d catalog. d \<in> set (re_run_dirs r) \<and> load_run W d (vc_witness ctx) catalog = Inr (hd runs)"
    by (cases runs) (fastforce simp: list_all2_Cons2)+
  then obtain d catalog where d: "d \<in> set (re_run_dirs r)" "load_run W d (vc_witness ctx) catalog = Inr (hd runs)" by blast
  from assms(6) d(1) obtain source where "map_of (wo_tree W d) (path_parts p) = Some source" "hs_sha256 (wo_host W) source \<noteq> digest" by blast
  with harness_wrapper_source [OF h assms(4) assms(5)] load_run_tree [OF d(2)] show ?thesis by auto
qed

lemma length_probe_dirs: "length (probe_dirs dest n) = n"
  by (simp add: probe_dirs_def del: upt_Suc)

lemma adversarial_probe_eq:
  assumes "adversarial_probe B name mutate (t, x) = (Inr report, s')"
  shows "\<exists>raw w dirs trees ctx v. bn_validate B raw = Inr w \<and>
    mutate (bn_world B) w (map (wo_tree (bn_world B)) dirs) = Inr trees \<and>
    vc_witness ctx = w \<and> vc_replay ctx = Some \<lparr>re_root = bn_work B @ [''adversarial'', name],
       re_run_dirs = sort (probe_dirs (bn_work B @ [''adversarial'', name]) (length dirs)), re_certificate = None, re_certificate_key = None\<rparr> \<and>
    verify (after_replay (bn_world B) (probe_dirs (bn_work B @ [''adversarial'', name]) (length dirs)) trees) ctx = Inr v \<and>
    report = probe_report v"
proof -
  let ?dest = "bn_work B @ [''adversarial'', name]"
  from assms obtain raw w dirs trees ctx s1 s2 where
    w: "bn_validate B raw = Inr w" and m: "mutate (bn_world B) w (map (wo_tree (bn_world B)) dirs) = Inr trees" and
    c: "make_context (B\<lparr>bn_world := after_replay (bn_world B) (probe_dirs ?dest (length dirs)) trees\<rparr>) w
       \<lparr>re_root = ?dest, re_run_dirs = sort (probe_dirs ?dest (length dirs)), re_certificate = None, re_certificate_key = None\<rparr>
       False s1 = (Inr ctx, s2)" and
    v: "map_sum id probe_report (verify (after_replay (bn_world B) (probe_dirs ?dest (length dirs)) trees) ctx) = Inr report"
    by (auto simp: adversarial_probe_def Let_def exn_simps)
  obtain t1 x1 where s1: "s1 = (t1, x1)" by (cases s1)
  from c [unfolded s1 make_context_eq] have "vc_witness ctx = w" "vc_replay ctx = Some \<lparr>re_root = ?dest,
       re_run_dirs = sort (probe_dirs ?dest (length dirs)), re_certificate = None, re_certificate_key = None\<rparr>"
    by (auto simp: bench_context_def)
  moreover from v obtain r where "verify (after_replay (bn_world B) (probe_dirs ?dest (length dirs)) trees) ctx = Inr r" "report = probe_report r"
    by (cases "verify (after_replay (bn_world B) (probe_dirs ?dest (length dirs)) trees) ctx") auto
  ultimately show ?thesis using w m by blast
qed

text \<open>
  The verifier never lets a copy with a tampered wrapper through: whenever the probe answers, the state
  that it reports is not FINDING, as long as the tampered sources do not have the declared digest.
\<close>

lemma tampered_wrapper_rejected:
  assumes "adversarial_probe B ''tampered_wrapper'' (\<lambda>W w. wrapper_tamper) (t, x) = (Inr report, s')"
    and "\<And>raw w. bn_validate B raw = Inr w \<Longrightarrow> w_wrapper_source_path w = Some WRAPPER_SOURCE"
    and "\<And>raw w source. bn_validate B raw = Inr w \<Longrightarrow> w_wrapper_source_sha256 w \<noteq> Some (hs_sha256 (bench_host B) (source @ TAMPER))"
    and "\<And>root. wo_resolve (bn_world B) root WRAPPER_SOURCE = Some (path_parts WRAPPER_SOURCE)"
  shows "fst report \<noteq> ''FINDING''"
proof -
  obtain raw w dirs trees ctx v where
    w: "bn_validate B raw = Inr w" and m: "wrapper_tamper (map (wo_tree (bn_world B)) dirs) = Inr trees" and
    c: "vc_witness ctx = w" "vc_replay ctx = Some \<lparr>re_root = bn_work B @ [''adversarial'', ''tampered_wrapper''],
       re_run_dirs = sort (probe_dirs (bn_work B @ [''adversarial'', ''tampered_wrapper'']) (length dirs)), re_certificate = None, re_certificate_key = None\<rparr>" and
    v: "verify (after_replay (bn_world B) (probe_dirs (bn_work B @ [''adversarial'', ''tampered_wrapper'']) (length dirs)) trees) ctx = Inr v"
    and report: "report = probe_report v"
    using adversarial_probe_eq [OF assms(1)] by (elim exE conjE)
  let ?dirs = "probe_dirs (bn_work B @ [''adversarial'', ''tampered_wrapper'']) (length dirs)"
  let ?W = "after_replay (bn_world B) ?dirs trees"
  have W: "wo_host ?W = bench_host B" "wo_resolve ?W = wo_resolve (bn_world B)" by (simp_all add: after_replay_def bench_host_def)
  from tampered_trees [OF m] have len: "length trees = length ?dirs" and
    tampered: "\<forall>t \<in> set trees. \<exists>source. map_of t (path_parts WRAPPER_SOURCE) = Some (source @ TAMPER)"
    by (simp_all add: length_probe_dirs)
  have "\<not> vr_passed v"
  proof
    assume passed: "vr_passed v"
    from w assms(3) have declared: "w_wrapper_source_sha256 w \<noteq> Some (hs_sha256 (bench_host B) (source @ TAMPER))" for source by blast
    have "w_wrapper_source_sha256 w \<noteq> Some digest" for digest
    proof (cases "\<exists>source. digest = hs_sha256 (bench_host B) (source @ TAMPER)")
      case True
      with declared show ?thesis by auto
    next
      case False
      have "\<forall>d \<in> set ?dirs. \<exists>source. map_of (wo_tree ?W d) (path_parts WRAPPER_SOURCE) = Some source \<and> hs_sha256 (wo_host ?W) source \<noteq> digest"
      proof
        fix d assume "d \<in> set ?dirs"
        from after_replay_tree [OF this len] tampered obtain source where
          "map_of (wo_tree ?W d) (path_parts WRAPPER_SOURCE) = Some (source @ TAMPER)" by blast
        with False W(1) show "\<exists>source. map_of (wo_tree ?W d) (path_parts WRAPPER_SOURCE) = Some source \<and> hs_sha256 (wo_host ?W) source \<noteq> digest"
          by auto
      qed
      with passed_run_source [OF v passed c(2), of WRAPPER_SOURCE digest] c(1) w assms(2,4) W(2) show ?thesis by auto
    qed
    moreover from v passed obtain runs harness where "derive_harness ?W (hd runs) (vc_witness ctx) = Inr harness"
      by (elim verify_passes) (auto simp: run_supported_def Let_def)
    then have "given (w_wrapper_source_sha256 w)"
      using c(1) by (auto simp: derive_harness_def Let_def exn_simps val_err_def split: if_splits)
    ultimately show False by (cases "w_wrapper_source_sha256 w") auto
  qed
  with verify_outcome [OF v] have "vr_next_state v \<noteq> Some ''FINDING''"
    by (auto simp: outcome_def failure_result_def Let_def split: if_splits)
  then show ?thesis by (auto simp: report probe_report_def split: option.splits)
qed

text \<open>The judgement never looks at the forged event, nor at the number of assertions of the benign twin.\<close>

lemma forged_event_unjudged: "judge_probes (AList.update ''forged_event'' c cs) = judge_probes cs"
  by (simp add: judge_probes_def case_of_def Let_def update_conv')

lemma benign_twin_unjudged:
  "map_of cs ''benign_twin'' = Some (''NO_ASSERTION'', m) \<Longrightarrow>
     judge_probes (AList.update ''benign_twin'' (''NO_ASSERTION'', n) cs) = judge_probes cs"
  by (simp add: judge_probes_def case_of_def Let_def update_conv')

end
