(* ===== verification/M1a.thy ===== *)
theory M1a
  imports AcceptanceRun
begin

text \<open>
  The first acceptance driver, \<open>driver/m1a_acceptance.py\<close>, with the fixtures of \<open>chain/m1a_fixtures.py\<close>:
  for each class of witness a bootstrap run, a declaration, three replays and a certificate. It works on
  the same bench as the second driver and has the same helpers for paths; its certificates are issued
  without the verifier.
\<close>

section \<open>The fixtures\<close>

record fixture_spec =
  fs_class :: witness_class
  fs_test_file :: string
  fs_test_name :: string
  fs_control_test_name :: string
  fs_fork_block :: "int option"
  fs_provider_label :: "string option"

definition FIXTURES :: "fixture_spec list" where
  "FIXTURES =
     [\<lparr>fs_class = Local_deployment, fs_test_file = ''test/LocalDeploymentWitness.t.sol'', fs_test_name = ''test_witness'',
       fs_control_test_name = ''test_control'', fs_fork_block = None, fs_provider_label = None\<rparr>,
      \<lparr>fs_class = Deployed_fork, fs_test_file = ''test/DeployedForkWitness.t.sol'', fs_test_name = ''test_witness'',
       fs_control_test_name = ''test_control'', fs_fork_block = Some 3, fs_provider_label = Some ''m1a-fixture-upstream''\<rparr>]"

definition m1a_fixture_tree :: "('f, 'x) bench \<Rightarrow> tree" where
  "m1a_fixture_tree B = subtree [''fixtures'', ''m1a_foundry''] (repo_tree B)"

definition template_hash :: "host \<Rightarrow> tree \<Rightarrow> string \<Rightarrow> string res" where
  "template_hash H t path = sha256_file H t path"

section \<open>The bootstrap\<close>

definition m1a_assertion :: "string \<Rightarrow> bool \<Rightarrow> witness_assertion" where
  "m1a_assertion i loc = \<lparr>wa_id = i, wa_kind = ''custom'', wa_target = ''credit'', wa_operator = ''eq'',
     wa_expected = PInt (if loc then 7 else 3), wa_observed_record = ''AssertionChecked'', wa_actor = Some ACTOR_FALLBACK,
     wa_token = None, wa_required = True\<rparr>"

definition bootstrap_witness :: "host \<Rightarrow> tree \<Rightarrow> string \<Rightarrow> fixture_spec \<Rightarrow> witness res" where
  "bootstrap_witness H fixture commit spec =
     ebind (template_hashes H fixture (fs_test_file spec)) (\<lambda>(whole, attack, site).
     let loc = (fs_class spec = Local_deployment) in
       Inr \<lparr>w_witness_class = fs_class spec, w_chain_id = 31337, w_fork_block = fs_fork_block spec, w_commit = commit,
         w_compiler = m1b_compiler, w_test_file = fs_test_file spec, w_test_name = fs_test_name spec,
         w_control_test_name = fs_control_test_name spec, w_initial_capital_wei = (if loc then 10 ^ 18 else 0),
         w_max_time_advance_s = (if loc then 1000 else 1), w_max_block_advance = 1, w_declared_actors = [ACTOR_FALLBACK],
         w_declared_tokens = [], w_token_decimals = [],
         w_setup_budget = (if loc then Some [(''native_wei'', PInt (10 ^ 18))] else None),
         w_assertions = [m1a_assertion ''bootstrap'' loc], w_invariant_check_pins = [],
         w_template_sha256 = whole, w_attack_body_sha256 = attack, w_harness_address = ZERO_ADDRESS,
         w_harness_create2_salt = ''0x'' @ zeros 64, w_harness_create2_deployer = None, w_harness_init_code_sha256 = None,
         w_harness_runtime_sha256 = None, w_harness_source_path = None, w_harness_source_sha256 = None,
         w_wrapper_address = None, w_wrapper_runtime_sha256 = None, w_wrapper_source_path = None,
         w_wrapper_source_sha256 = None, w_expected_wrapper_depth = 2, w_wrapper_callsite_sha256 = site,
         w_rpc_provider_label = fs_provider_label spec, w_cross_check_provider_label = None, w_env_hash = zeros 64\<rparr>)"

section \<open>The identity of the harness\<close>

definition deploy_topic :: "host \<Rightarrow> string" where
  "deploy_topic H = ''0x'' @ to_hex (hs_keccak H ''HarnessDeployed(address,address,bytes32)'')"

text \<open>\<open>topics[i]\<close>.\<close>

definition topic_at :: "pv \<Rightarrow> nat \<Rightarrow> pv res" where
  "topic_at v i = (case v of
     PList vs \<Rightarrow> if i < length vs then Inr (vs ! i) else Inl (IndexError ''list index out of range'')
   | PTup vs \<Rightarrow> if i < length vs then Inr (vs ! i) else Inl (IndexError ''tuple index out of range'')
   | PStr s \<Rightarrow> if i < length s then Inr (PStr [s ! i]) else Inl (IndexError ''string index out of range'')
   | PDict d \<Rightarrow> Inl (KeyError (nat_str i))
   | _ \<Rightarrow> Inl (TypeError ''object is not subscriptable''))"

text \<open>A log that announces a harness: its topics, when the first of them is that of the event.\<close>

definition deployment_log :: "host \<Rightarrow> pv \<Rightarrow> (pv option) res" where
  "deployment_log H log = (case log of
     PDict d \<Rightarrow> (let topics = dget_or d ''topics'' PNone in
       if \<not> truthy topics then Inr None
       else ebind (topic_at topics 0) (\<lambda>t. Inr (if lower (py_str t) = lower (deploy_topic H) then Some topics else None)))
   | _ \<Rightarrow> Inr None)"

definition deployments :: "host \<Rightarrow> trace_summary \<Rightarrow> (pv list) res" where
  "deployments H tr = ebind (emap (deployment_log H)
     (concat (map tf_logs (filter (\<lambda>f. tf_phase f = ''setup'') (ts_frames tr))))) (\<lambda>found. Inr (List.map_filter id found))"

definition need_text :: "pv \<Rightarrow> string res" where
  "need_text v = (case v of PStr s \<Rightarrow> Inr s | _ \<Rightarrow> Inl (TypeError ''can only concatenate str (not another type) to str''))"

record m1a_identity =
  mi_harness :: string
  mi_salt :: string
  mi_depth :: int
  mi_wrapper :: string
  mi_init_hash :: string

definition m1a_extract :: "host \<Rightarrow> trace_summary \<Rightarrow> m1a_identity res" where
  "m1a_extract H tr =
     ebind (deployments H tr) (\<lambda>ds.
     case (ds, ts_assertion_events tr) of
       ([topics], [a]) \<Rightarrow>
         ebind (ebind (topic_at topics 1) need_text) (\<lambda>t1.
         ebind (topic_at topics 3) (\<lambda>salt.
         let harness = ''0x'' @ drop (length t1 - 40) t1; caller = lower (py_str (dget_or a ''caller'' (PStr []))) in
         ebind (py_int (dget_or a ''depth'' (PInt (-1)))) (\<lambda>depth.
         if lower (py_str (dget_or a ''emitter'' (PStr []))) \<noteq> lower harness \<or> depth \<noteq> 2 \<or> length caller \<noteq> 42 then
           runtime_err ''M1a witness wrapper/harness identity is inconsistent''
         else (case filter (harness_create (lower harness)) (ts_frames tr) of
           [f] \<Rightarrow> if \<not> truthy (tf_caller f) \<or> \<not> truthy (tf_data f) then
               runtime_err ''M1a witness CREATE2 identity is incomplete''
             else ebind (init_code_hash H (tf_data f)) (\<lambda>init_hash. case salt of
               PStr s \<Rightarrow> Inr \<lparr>mi_harness = lower harness, mi_salt = lower s, mi_depth = depth, mi_wrapper = caller,
                 mi_init_hash = init_hash\<rparr>
             | _ \<Rightarrow> Inl (AttributeError ''lower''))
         | _ \<Rightarrow> runtime_err ''M1a witness CREATE2 identity is incomplete''))))
     | _ \<Rightarrow> runtime_err ''M1a fixture did not produce exactly one harness deployment and one assertion'')"

definition final_witness :: "witness \<Rightarrow> m1a_identity \<Rightarrow> witness" where
  "final_witness w i =
     (let loc = (w_witness_class w = Local_deployment) in
      w\<lparr>w_assertions := [m1a_assertion (if loc then ''A-local'' else ''A-fork'') loc], w_harness_address := mi_harness i,
        w_harness_create2_salt := mi_salt i, w_harness_create2_deployer := Some (mi_wrapper i),
        w_harness_init_code_sha256 := Some (mi_init_hash i), w_wrapper_address := Some (mi_wrapper i),
        w_harness_source_path := Some ''test/WitnessHarness.sol'', w_wrapper_source_path := Some ''test/WitnessWrapper.sol'',
        w_expected_wrapper_depth := mi_depth i\<rparr>)"

section \<open>The executor and the target\<close>

definition m1a_environment :: "(string \<times> string) list \<Rightarrow> (string \<times> string) list" where
  "m1a_environment environ = List.map_filter (\<lambda>k. map_option (Pair k) (env_text environ k))
     [''GATE_URL'', ''L0VI0X_INITIAL_BLOCK'', ''L0VI0X_INITIAL_TIMESTAMP'']"

definition m1a_executor :: "('f, 'x) bench \<Rightarrow> 'x rig \<Rightarrow> forge_executor" where
  "m1a_executor B G = (make_executor B G)\<lparr>fe_env := m1a_environment (rg_environ G), fe_libraries := [''test/WitnessHarness.sol'']\<rparr>"

text \<open>The executor of a class: a fork starts at its block, behind the gate.\<close>

definition class_executor :: "('f, 'x) bench \<Rightarrow> 'x rig \<Rightarrow> fixture_spec \<Rightarrow> forge_executor res" where
  "class_executor B G spec =
     (let E = m1a_executor B G in
      if fs_class spec \<noteq> Deployed_fork then Inr E
      else if env_text (fe_env E) ''GATE_URL'' = None then
        runtime_err ''deployed_fork requires GATE_URL from the Docker trust stack''
      else Inr (E\<lparr>fe_env := AList.update ''L0VI0X_INITIAL_TIMESTAMP'' ''1700000100''
        (AList.update ''L0VI0X_INITIAL_BLOCK'' (case fs_fork_block spec of None \<Rightarrow> ''None'' | Some b \<Rightarrow> int_str b) (fe_env E))\<rparr>))"

definition creation_code :: "pv \<Rightarrow> string res" where
  "creation_code obj = ebind (ebind (need_item obj ''bytecode'') (\<lambda>b. need_item b ''object'')) (\<lambda>code. case code of
     PStr s \<Rightarrow> if startswith s ''0x'' \<and> 4 \<le> length s then Inr s else runtime_err ''M1aTarget creation bytecode is missing''
   | _ \<Rightarrow> runtime_err ''M1aTarget creation bytecode is missing'')"

definition build_target :: "('f, 'x) bench \<Rightarrow> 'x rig \<Rightarrow> (string, tree \<times> 'x) act" where
  "build_target B G =
     abind (in_copy (m1a_fixture_tree B) (forge_build (fw_shell (rg_forge G)) (fw_host (rg_forge G))
       (path_text (rg_temp G ''l0vi0x-m1a-target-build-'' @ [''fixture''])) ''forge'' 900
       (Some (path_text (bn_work B @ [''tool_runs'']))) [])) (\<lambda>((report, files), c).
     abind (\<lambda>(t, x). (Inr (), (add_files (bn_work B) files t, x))) (\<lambda>_.
       alift (if \<not> fr_passed report then runtime_err (first_text [fr_stderr report, fr_stdout report, ''forge build failed''])
         else ebind (ebind (read_text c ''out/M1aTarget.sol/M1aTarget.json'') (json_loads (bn_world B))) creation_code)))"

section \<open>The phase collect\<close>

definition class_name :: "fixture_spec \<Rightarrow> string" where
  "class_name spec = witness_class_value (fs_class spec)"

text \<open>The witness of a class: the identity of a first run, and the environment of a second.\<close>

definition m1a_declare :: "('f, 'x) bench \<Rightarrow> 'x rig \<Rightarrow> (string \<times> string) list \<Rightarrow> string \<Rightarrow> fixture_spec \<Rightarrow>
    (forge_executor \<times> witness, tree \<times> 'x) act" where
  "m1a_declare B G catalog commit spec =
     abind (alift (bootstrap_witness (bench_host B) (m1a_fixture_tree B) commit spec)) (\<lambda>w0.
     abind (alift (class_executor B G spec)) (\<lambda>E.
     let root = rg_temp G (''l0vi0x-m1a-'' @ class_name spec @ ''-bootstrap-'') @ [''repo''] in
     abind (in_copy (m1a_fixture_tree B) (execute (rg_forge G) E root w0 0)) (\<lambda>(result, c).
     abind (alift (ebind (ebind (result_text G root c result ''trace_path'') (traced (bn_world B) catalog))
       (m1a_extract (bench_host B)))) (\<lambda>i.
     let w1 = final_witness w0 i in
     abind (in_copy (m1a_fixture_tree B) (execute (rg_forge G) E
       (rg_temp G (''l0vi0x-m1a-'' @ class_name spec @ ''-declare-'') @ [''repo'']) w1 0)) (\<lambda>(result, c).
     alift (ebind (need result ''environment_hash'') (\<lambda>v. Inr (E, w1\<lparr>w_env_hash := py_str v\<rparr>))))))))"

definition m1a_meta :: "('f, 'x) bench \<Rightarrow> witness \<Rightarrow> replay_collection \<Rightarrow> pv" where
  "m1a_meta B w c = PDict [(''witness'', PDict (witness_dump w)),
     (''replay_root'', PStr (encode_work_path (bn_resolve B) (cl_root c) (bn_work B))),
     (''run_dirs'', PList (map (\<lambda>d. PStr (encode_work_path (bn_resolve B) d (bn_work B))) (collected_dirs c)))]"

definition m1a_coordinator :: "('f, 'x) bench \<Rightarrow> 'x rig \<Rightarrow> (string \<times> string) list \<Rightarrow> pdict \<Rightarrow> fixture_spec \<Rightarrow> coordinator" where
  "m1a_coordinator B G catalog rules spec = (make_coordinator B G catalog rules)\<lparr>co_repo := m1a_fixture_tree B,
     co_replay_root := bn_resolve B (bn_work B @ [class_name spec, ''replays''])\<rparr>"

definition collect_class :: "('f, 'x) bench \<Rightarrow> 'x rig \<Rightarrow> pv \<Rightarrow> (string \<times> string) list \<Rightarrow> string \<Rightarrow> fixture_spec \<Rightarrow>
    (replay_collection \<times> tree list, tree \<times> 'x) act" where
  "collect_class B G policy catalog commit spec =
     abind (m1a_declare B G catalog commit spec) (\<lambda>(E, w).
     abind (alift (replay_rules policy)) (\<lambda>rules.
     abind (on_rest (collect (m1a_coordinator B G catalog rules spec) (execute (rg_forge G) E) w 3)) (\<lambda>(c, trees).
     abind (put_text [class_name spec, ''witness.json''] (jindent 0 (m1a_meta B w c) @ [CHR 0x0A])) (\<lambda>_.
       alift (Inr (c, trees))))))"

definition m1a_commit :: "('f, 'x) bench \<Rightarrow> 'x rig \<Rightarrow> (string, tree \<times> 'x) act" where
  "m1a_commit B G =
     (case env_text (rg_environ G) ''L0VI0X_COMMIT'' of
        Some c \<Rightarrow> alift (Inr c)
      | None \<Rightarrow> abind (rev_parse_head (fw_shell (rg_forge G)) (fw_host (rg_forge G)) ''git'' (path_text (bn_root B)) None)
          (\<lambda>(commit, files). alift (Inr commit)))"

text \<open>\<open>policy_and_catalog\<close>: without the second driver's check of the table's type.\<close>

definition policy_and_catalog :: "('f, 'x) bench \<Rightarrow> (pv \<times> (string \<times> string) list) res" where
  "policy_and_catalog B = ebind (repo_yaml B POLICY_PATH) (\<lambda>policy. ebind (repo_yaml B CATALOG_PATH) (\<lambda>raw.
     case catalog_entries raw of
       Inl (RuntimeError m) \<Rightarrow> Inl (AttributeError ''items'')
     | r \<Rightarrow> ebind r (\<lambda>catalog. Inr (por policy (PDict []), catalog))))"

definition m1a_collect :: "('f, 'x) bench \<Rightarrow> 'x rig \<Rightarrow> ((replay_collection \<times> tree list) list, tree \<times> 'x) act" where
  "m1a_collect B G =
     abind (m1a_commit B G) (\<lambda>commit.
     abind (alift (policy_and_catalog B)) (\<lambda>(policy, catalog).
     abind (build_target B G) (\<lambda>code.
     abind (alift (case from_hex (drop 2 code) of None \<Rightarrow> bad_hex | Some b \<Rightarrow> Inr (hs_sha256 (bench_host B) b))) (\<lambda>digest.
     abind (put_text [''target-creation.sha256''] (digest @ [CHR 0x0A])) (\<lambda>_.
       amap (collect_class B G policy catalog commit) FIXTURES)))))"

section \<open>The phase certify\<close>

text \<open>The retained runs of a class, which must agree; their number is left to the certifier.\<close>

definition m1a_load :: "('f, 'x) bench \<Rightarrow> pv \<Rightarrow> witness \<Rightarrow> (string \<times> string) list \<Rightarrow> replay_collection res" where
  "m1a_load B meta w catalog =
     (let W = bn_world B; H = wo_host W in
      ebind (ebind (need_item meta ''replay_root'') (meta_path B)) (\<lambda>root.
      ebind (ebind (need_item meta ''run_dirs'') (\<lambda>v. ebind (py_iter v) (emap (meta_path B)))) (\<lambda>dirs.
      ebind (emap (\<lambda>dir. load_run W dir w catalog) dirs) (\<lambda>derived.
        let records = map (\<lambda>d. summary_sha256 H (dr_trace d)) derived; controls = map dr_control_hash derived;
            envs = map dr_environment_hash derived in
        if length (remdups records) \<noteq> 1 \<or> length (remdups controls) \<noteq> 1 \<or> length (remdups envs) \<noteq> 1 then
          runtime_err ''M1a retained replay set is nondeterministic''
        else ebind (repo_yaml B POLICY_PATH) (\<lambda>policy. ebind (repo_yaml B CATALOG_PATH) (\<lambda>raw.
          Inr \<lparr>cl_witness_hash = witness_hash H w, cl_root = root,
            cl_runs = map (\<lambda>(i, dir, d). retained_run W i dir d) (zip [1 ..< length dirs + 1] (zip dirs derived)),
            cl_observed_records_sha256 = records_aggregate H records, cl_trace_policy_sha256 = policy_hash H policy raw,
            cl_control_sha256 = hd controls, cl_environment_hash = hd envs\<rparr>))))))"

definition certify_class :: "('f, 'x) bench \<Rightarrow> (string \<times> string) list \<Rightarrow> string \<Rightarrow> string \<Rightarrow> fixture_spec \<Rightarrow>
    (certificate, tree \<times> 'x) act" where
  "certify_class B catalog path key spec =
     abind (work_json B (class_name spec @ ''/witness.json'')) (\<lambda>meta.
     abind (alift (ebind (need_item meta ''witness'') (bn_validate B))) (\<lambda>w.
     abind (alift (m1a_load B meta w catalog)) (\<lambda>collection.
     let H = bench_host B; view = (certifier_view collection)\<lparr>rc_root := bn_resolve B (cl_root collection)\<rparr> in
     abind (alift (certifier_issue H (bn_now B) (resolved_key B path) (Some key) (witness_hash H w) view True
       (''CERT-M1A-'' @ class_name spec))) (\<lambda>cert.
     abind (alift (if verify_cert H cert key (witness_hash H w) (w_env_hash w) (Some (cl_observed_records_sha256 collection))
           (Some (cl_trace_policy_sha256 collection)) (Some (cl_control_sha256 collection)) None then Inr ()
         else runtime_err (''M1a certificate verification failed: '' @ class_name spec))) (\<lambda>_.
     abind (put_text [class_name spec, ''certificate.json''] (jindent 0 (certificate_json cert) @ [CHR 0x0A])) (\<lambda>_.
       alift (Inr cert)))))))"

definition m1a_certify :: "('f, 'x) bench \<Rightarrow> (string \<Rightarrow> bool) \<Rightarrow> string \<Rightarrow> string \<Rightarrow>
    (certificate list, (string \<times> string) list \<times> tree \<times> 'x) act" where
  "m1a_certify B symlink fresh home = (\<lambda>(keys, s).
     case policy_and_catalog B of
       Inl e \<Rightarrow> (Inl e, (keys, s))
     | Inr (policy, catalog) \<Rightarrow> (case ensure_audit_key symlink fresh home ''M1A'' keys of
         (Inl e, keys') \<Rightarrow> (Inl e, (keys', s))
       | (Inr path, keys') \<Rightarrow>
           if key_below path (bn_resolve B (bn_root B)) \<or> key_below path (bn_resolve B (bn_work B)) then
             (runtime_err ''certificate key must remain outside the repository and sandbox work root'', (keys', s))
           else (case amap (certify_class B catalog path (the (map_of keys' path))) FIXTURES s of (r, s2) \<Rightarrow> (r, (keys', s2)))))"

section \<open>The command line\<close>

datatype m1a_phase = M1a_collect | M1a_certify | M1a_all

definition m1a_status :: "'a res \<Rightarrow> int \<times> string" where
  "m1a_status r = (case r of Inr _ \<Rightarrow> (0, []) | Inl e \<Rightarrow> (2, ''M1a acceptance: FAIL/BLOCKED'' @ [CHR 0x0A] @ exc_msg e @ [CHR 0x0A]))"

definition m1a_main :: "(unit, 's) act \<Rightarrow> (unit, 's) act \<Rightarrow> m1a_phase \<Rightarrow> 's \<Rightarrow> (int \<times> string) \<times> 's" where
  "m1a_main run_collect run_certify phase s =
     (case (case phase of M1a_collect \<Rightarrow> run_collect | M1a_certify \<Rightarrow> run_certify
        | M1a_all \<Rightarrow> abind run_collect (\<lambda>_. run_certify)) s of (r, s') \<Rightarrow> (m1a_status r, s'))"

section \<open>What a certificate of the first driver says\<close>

text \<open>
  At least three retained runs are loaded for the witness, they agree on their records and their control,
  all have the declared environment, and the certificate verifies for them.
\<close>

definition m1a_supported :: "('f, 'x) bench \<Rightarrow> string \<Rightarrow> fixture_spec \<Rightarrow> certificate \<Rightarrow> bool" where
  "m1a_supported B key spec cert = (\<exists>w catalog runs. let H = wo_host (bn_world B); records = map (\<lambda>d. summary_sha256 H (dr_trace d)) runs in
     3 \<le> length runs \<and> (\<forall>run \<in> set runs. (\<exists>dir. load_run (bn_world B) dir w catalog = Inr run) \<and>
        dr_environment_hash run = w_env_hash w \<and> dr_control_hash run = ce_control_sha256 cert \<and>
        summary_sha256 H (dr_trace run) = hd records) \<and>
     ce_id cert = ''CERT-M1A-'' @ class_name spec \<and>
     verify_cert (bench_host B) cert key (witness_hash (bench_host B) w) (w_env_hash w) (Some (records_aggregate H records))
       (Some (ce_trace_policy_sha256 cert)) (Some (ce_control_sha256 cert)) None)"

lemma one_distinct:
  assumes "length (remdups xs) = 1" and "x \<in> set xs"
  shows "x = hd xs"
proof -
  from assms(1) obtain a where "remdups xs = [a]" by (cases "remdups xs") auto
  then have "set xs = {a}" by (metis list.set(1) list.set(2) set_remdups)
  with assms(2) show ?thesis by (metis hd_in_set empty_iff empty_set singletonD)
qed

lemma m1a_load_eq:
  assumes "m1a_load B meta w catalog = Inr col"
  obtains dirs derived where "emap (\<lambda>dir. load_run (bn_world B) dir w catalog) dirs = Inr derived"
    "length (cl_runs col) = length derived"
    "\<forall>d \<in> set derived. dr_control_hash d = cl_control_sha256 col \<and> dr_environment_hash d = cl_environment_hash col \<and>
       summary_sha256 (wo_host (bn_world B)) (dr_trace d) = hd (map (\<lambda>d. summary_sha256 (wo_host (bn_world B)) (dr_trace d)) derived)"
    "cl_observed_records_sha256 col =
       records_aggregate (wo_host (bn_world B)) (map (\<lambda>d. summary_sha256 (wo_host (bn_world B)) (dr_trace d)) derived)"
proof -
  let ?sum = "\<lambda>d. summary_sha256 (wo_host (bn_world B)) (dr_trace d)"
  from assms obtain dirs derived where d: "emap (\<lambda>dir. load_run (bn_world B) dir w catalog) dirs = Inr derived" and
    one: "length (remdups (map ?sum derived)) = 1" "length (remdups (map dr_control_hash derived)) = 1"
      "length (remdups (map dr_environment_hash derived)) = 1" and
    col: "length (cl_runs col) = min (length dirs) (min (length dirs) (length derived))" "cl_control_sha256 col = hd (map dr_control_hash derived)"
      "cl_environment_hash col = hd (map dr_environment_hash derived)"
      "cl_observed_records_sha256 col = records_aggregate (wo_host (bn_world B)) (map ?sum derived)"
    by (auto simp: m1a_load_def Let_def exn_simps runtime_err_def simp del: upt_Suc split: if_splits)
  have "length derived = length dirs" using emap_length [OF d] by simp
  with d col one_distinct [OF one(1)] one_distinct [OF one(2)] one_distinct [OF one(3)] show thesis
    by (intro that [OF d]) auto
qed

lemma certify_class_supported:
  assumes "certify_class B catalog path key spec s = (Inr cert, s')"
  shows "m1a_supported B key spec cert"
proof -
  from assms obtain meta w col where c: "m1a_load B meta w catalog = Inr col" and
    i: "certifier_issue (bench_host B) (bn_now B) (resolved_key B path) (Some key) (witness_hash (bench_host B) w)
      ((certifier_view col)\<lparr>rc_root := bn_resolve B (cl_root col)\<rparr>) True (''CERT-M1A-'' @ class_name spec) = Inr cert" and
    v: "verify_cert (bench_host B) cert key (witness_hash (bench_host B) w) (w_env_hash w) (Some (cl_observed_records_sha256 col))
       (Some (cl_trace_policy_sha256 col)) (Some (cl_control_sha256 col)) None"
    by (auto simp: certify_class_def Let_def exn_simps runtime_err_def split: if_splits)
  from c obtain dirs derived where d: "emap (\<lambda>dir. load_run (bn_world B) dir w catalog) dirs = Inr derived"
    "length (cl_runs col) = length derived"
    "\<forall>d \<in> set derived. dr_control_hash d = cl_control_sha256 col \<and> dr_environment_hash d = cl_environment_hash col \<and>
       summary_sha256 (wo_host (bn_world B)) (dr_trace d) = hd (map (\<lambda>d. summary_sha256 (wo_host (bn_world B)) (dr_trace d)) derived)"
    "cl_observed_records_sha256 col =
       records_aggregate (wo_host (bn_world B)) (map (\<lambda>d. summary_sha256 (wo_host (bn_world B)) (dr_trace d)) derived)"
    by (rule m1a_load_eq)
  from i have f: "3 \<le> length (cl_runs col)" "ce_id cert = ''CERT-M1A-'' @ class_name spec"
    "ce_control_sha256 cert = cl_control_sha256 col" "ce_trace_policy_sha256 cert = cl_trace_policy_sha256 col"
    "ce_env_hash cert = cl_environment_hash col"
    by (auto simp: certifier_issue_def certifier_view_def issue_eq_Inr split: if_splits)
  from v f(5) have env: "cl_environment_hash col = w_env_hash w" by (simp add: verify_cert_def split: if_splits)
  have "\<exists>dir. load_run (bn_world B) dir w catalog = Inr run" if "run \<in> set derived" for run
    using d(1) that by (auto simp: emap_eq_Inr list_all2_conv_all_nth in_set_conv_nth)
  with d f v env show ?thesis unfolding m1a_supported_def Let_def
    by (intro exI [of _ w] exI [of _ catalog] exI [of _ derived]) auto
qed

lemma amap_all:
  assumes "amap f xs s = (Inr ys, s')" and "\<And>x y s s'. f x s = (Inr y, s') \<Longrightarrow> P x y"
  shows "list_all2 P xs ys"
  using assms(1) by (induction xs arbitrary: ys s) (auto simp: exn_simps dest: assms(2))


end
