(* ===== verification/AcceptanceSample.thy ===== *)
theory AcceptanceSample
  imports Probes M1a
begin

text \<open>
  An acceptance that runs in the model: a repository with the pinned fixture, three retained runs, the tools
  of a lock that are installed, and a reader of JSON that also knows some documents by one letter each. The
  first phase hands the runs over, and certify issues a certificate for them.
\<close>

section \<open>The bench\<close>

definition bench_environment :: pv where
  "bench_environment = PDict [(''environment_hash'', PStr ''d''), (''gas_price_wei'', PInt 2),
     (''initial_timestamp'', PInt 1), (''initial_block'', PInt 1),
     (''tool_versions'', PDict [(''forge'', PStr ''1.0'')]),
     (''observation'', PDict (observation_to_dict \<lparr>to_compiler = m1b_compiler, to_sanitized_config = [], to_remappings = [],
        to_template_sha256 = ''T'', to_attack_body_sha256 = ''B'', to_wrapper_callsite_sha256 = ''C'',
        to_harness_library_hashes = [], to_deployment_plan_hash = None, to_source_manifest_sha256 = ''M''\<rparr>))]"

definition bench_documents :: "(string \<times> pv) list" where
  "bench_documents = [(''T'', trace_doc), (''O'', PDict []), (''X'', control_doc), (''E'', bench_environment),
     (''A'', artifact_doc HARNESS_SOURCE ''EconHarness''), (''B'', artifact_doc WRAPPER_SOURCE ''Create2HarnessFactory''),
     (''M'', PDict [(''witness'', PDict []), (''replay_root'', PStr ''r''),
        (''run_dirs'', PList (map PStr [''r/run-1/repo'', ''r/run-2/repo'', ''r/run-3/repo'']))]),
     (''P'', PDict [(''native'', PDict [(''usd_per_unit'', PInt 200), (''decimals'', PInt 0), (''source'', PStr ''s'')])])]"

definition bench_loads :: "string \<Rightarrow> pv option" where
  "bench_loads s = (case map_of bench_documents s of None \<Rightarrow> json_text_value (\<lambda>_. None) s | Some v \<Rightarrow> Some v)"

definition bench_run_tree :: tree where
  "bench_run_tree =
     map (\<lambda>n. ([''artifacts'', ''run-1'', n @ ''.sha256''], ''d'')) [''trace'', ''control'', ''control-trace'', ''environment''] @
     [([''artifacts'', ''run-1'', ''trace.json''], ''T''), ([''artifacts'', ''run-1'', ''control.json''], ''O''),
      ([''artifacts'', ''run-1'', ''control-trace.json''], ''X''), ([''artifacts'', ''run-1'', ''environment.json''], ''E''),
      (path_parts HARNESS_SOURCE, ''h''), (path_parts WRAPPER_SOURCE, ''w''), ([''out'', ''EconHarness.json''], ''A''),
      ([''out'', ''Create2HarnessFactory.json''], ''B''), ([''foundry.toml''], concat config_fragments)]"

definition bench_repo_tree :: tree where
  "bench_repo_tree = [(path_parts target_source, price_line), (path_parts POLICY_PATH, ''p''), (path_parts CATALOG_PATH, ''c''),
     (path_parts M1B_TOOL_LOCK_REL, ''lock'')]"

definition sample_bench_world :: "int world" where
  "sample_bench_world = small_world\<lparr>wo_loads := bench_loads,
     wo_tree := \<lambda>p. if p = [''repo''] then bench_repo_tree else bench_run_tree\<rparr>"

definition bench_witness :: witness where
  "bench_witness = replayed_witness\<lparr>w_compiler := m1b_compiler, w_harness_source_path := Some HARNESS_SOURCE,
     w_wrapper_source_path := Some WRAPPER_SOURCE\<rparr>"

definition bench_lock :: "unit lock_host" where
  "bench_lock = sample_lock_host\<lparr>lh_yaml := \<lambda>_. Inr (lock_document ''now''
     (map (\<lambda>n. (n, locked_tool (CHR ''/'' # n) ''1.0'' ''1.0'' ''d7f'')) LOCKED_TOOLS))\<rparr>"

definition sample_bench :: "(int, unit) bench" where
  "sample_bench = \<lparr>bn_world = sample_bench_world, bn_root = [''repo''], bn_work = [''work''], bn_resolve = id,
     bn_yaml = (\<lambda>_. Inr (PDict [])), bn_validate = (\<lambda>_. Inr bench_witness), bn_lock = bench_lock, bn_now = ''now'',
     bn_cwd = []\<rparr>"

definition bench_dirs :: "string list list" where
  "bench_dirs = map (\<lambda>n. [''work'', ''r'', n, ''repo'']) [''run-1'', ''run-2'', ''run-3'']"

lemma bench_policy: "load_policy sample_bench = Inr (PDict [], [])"
  by code_simp

definition bench_span :: span where
  "bench_span = \<lparr>sp_file = target_source, sp_start = 1, sp_end = 1, sp_sha256 = ''d''\<rparr>"

definition bench_hypothesis :: hypothesis where
  "bench_hypothesis = m1b_hypothesis ''now'' (w_commit bench_witness) bench_span"

definition bench_collected :: "int verification_context" where
  "bench_collected = bench_context sample_bench bench_witness \<lparr>re_root = [''work'', ''r''], re_run_dirs = bench_dirs,
     re_certificate = None, re_certificate_key = None\<rparr> (json_loads sample_bench_world ''P'') False
     (m1b_scope (w_commit bench_witness)) bench_hypothesis ''0.8.24'' []"

lemma bench_scope:
  "scope_and_hypothesis sample_bench (w_commit bench_witness) = Inr (m1b_scope (w_commit bench_witness), bench_hypothesis)"
  by code_simp

lemma bench_lock_holds: "verify_m1b_tool_lock bench_lock ''lock'' LOCKED_TOOLS () = (Inr [], ())"
  by code_simp

section \<open>The retained runs are verified\<close>

definition bench_run :: "string list \<Rightarrow> derived_run" where
  "bench_run dir = (small_run dir)\<lparr>dr_tree := bench_run_tree, dr_environment := pv_dict bench_environment\<rparr>"

lemma bench_load: "load_run sample_bench_world [''r''] bench_witness [] = Inr (bench_run [''r''])"
  by code_simp

lemma bench_loaded: "dir \<noteq> [''repo''] \<Longrightarrow> load_run sample_bench_world dir bench_witness [] = Inr (bench_run dir)"
  using load_run_elsewhere [OF bench_load, of dir] by (simp add: sample_bench_world_def bench_run_def small_run_def)

lemma bench_yaml: "repo_yaml sample_bench POLICY_PATH = Inr (PDict [])" "repo_yaml sample_bench CATALOG_PATH = Inr (PDict [])"
  by code_simp+

lemma bench_catalog: "catalog_of bench_collected = Inr []"
proof -
  have "catalog_entries (PDict []) = Inr []" by code_simp
  with bench_yaml(2) show ?thesis unfolding bench_collected_def by (rule catalog_of_entries)
qed

lemma bench_expected_policy: "expected_policy sample_bench_world bench_collected = Inr (Some ''d'')"
  by (simp add: expected_policy_def bench_collected_def bench_context_def bench_yaml policy_hash_def sample_bench_world_def
      small_world_def constant_host_def)

lemma bench_replayed: "derived_runs sample_bench_world bench_collected = Inr (map bench_run bench_dirs)"
proof -
  have "vc_replay bench_collected = Some \<lparr>re_root = [''work'', ''r''], re_run_dirs = bench_dirs, re_certificate = None,
      re_certificate_key = None\<rparr>" "vc_witness bench_collected = bench_witness"
    by (simp_all add: bench_collected_def bench_context_def)
  then show ?thesis by (simp add: derived_runs_def bench_catalog bench_dirs_def is_relative_to_def bench_loaded)
qed

lemma bench_v03: "v03 bench_collected = Inr (passing ''V03'' ''project builds cleanly under the verified toolchain'')"
  by (simp add: v03_def bench_collected_def bench_context_def)

lemma bench_v01:
  "check_eligibility (vc_hypothesis bench_collected) (vc_scope bench_collected) (vc_known_issues bench_collected)
     (Some (w_commit (vc_witness bench_collected))) = passing ''V01'' ''finding is within declared scope''"
  by code_simp

lemma bench_v02:
  "check_span (wo_host sample_bench_world) (wo_resolve sample_bench_world (vc_root bench_collected))
      (wo_tree sample_bench_world (vc_root bench_collected)) (h_target (vc_hypothesis bench_collected)) =
    passing ''V02'' ''cited span exists and hash-matches''"
  by code_simp

lemma bench_v04:
  "v04 sample_bench_world bench_collected (the (vc_replay bench_collected)) (map bench_run bench_dirs) =
    Inr (details (passing ''V04'' ''three fresh replay roots agree and all replay evidence is independently derived'')
      [(''environment_hash'', PStr ''d''), (''observed_records_sha256'', PStr ''d''), (''control_sha256'', PStr ''d'')])"
proof -
  have sel: "vc_replay bench_collected = Some \<lparr>re_root = [''work'', ''r''], re_run_dirs = bench_dirs, re_certificate = None,
      re_certificate_key = None\<rparr>" "vc_witness bench_collected = bench_witness" "\<not> vc_require_certificate bench_collected"
    by (simp_all add: bench_collected_def bench_context_def)
  have H: "wo_host sample_bench_world = constant_host" by (simp add: sample_bench_world_def small_world_def)
  show ?thesis
    unfolding v04_def sel(2) bench_expected_policy ebind_Inr H using sel(3)
    by (simp add: bench_run_def small_run_def bench_dirs_def constant_host_def
        summary_sha256_def bench_witness_def replayed_witness_def sample_witness_def records_aggregate_def Let_def)
qed

lemma bench_checks:
  "verify sample_bench_world bench_collected =
     verify_derived sample_bench_world bench_collected (bench_run (hd bench_dirs)) first_four"
proof -
  obtain r where "vc_replay bench_collected = Some r" by (simp add: bench_collected_def bench_context_def)
  with bench_v04 show ?thesis
    by (simp add: verify_def bench_replayed bench_v01 bench_v02 bench_v03 continue_def first_four_def bench_dirs_def cong: if_cong)
qed

lemma bench_verified: "(case verify sample_bench_world bench_collected of Inr v \<Rightarrow> vr_passed v | Inl _ \<Rightarrow> False)"
  unfolding bench_checks by code_simp

section \<open>The first phase hands over\<close>

definition bench_collection :: replay_collection where
  "bench_collection = \<lparr>cl_witness_hash = ''d'', cl_root = [''work'', ''r''],
     cl_runs = map (\<lambda>(i, d). retained_run sample_bench_world i d (bench_run d)) (List.enumerate 1 bench_dirs),
     cl_observed_records_sha256 = ''d'', cl_trace_policy_sha256 = ''d'', cl_control_sha256 = ''d'', cl_environment_hash = ''d''\<rparr>"

definition bench_files :: tree where
  "bench_files = [([''prices.json''], ''P'')]"

lemma bench_collected_dirs: "collected_dirs bench_collection = bench_dirs"
  by (simp add: collected_dirs_def bench_collection_def retained_run_def bench_dirs_def Let_def butlast_append)

lemma bench_made:
  "make_context sample_bench bench_witness \<lparr>re_root = [''work'', ''r''], re_run_dirs = bench_dirs, re_certificate = None,
     re_certificate_key = None\<rparr> False (bench_files, ()) = (Inr bench_collected, (bench_files, ()))"
proof -
  have "read_text bench_files ''prices.json'' = Inr ''P''" and "read_text (repo_tree sample_bench) M1B_TOOL_LOCK_REL = Inr ''lock''"
    and "need (w_compiler bench_witness) ''solc'' = Inr (PStr ''0.8.24'')" by code_simp+
  moreover have "bn_world sample_bench = sample_bench_world" "bn_lock sample_bench = bench_lock"
    by (simp_all add: sample_bench_def)
  ultimately show ?thesis
    using bench_scope bench_lock_holds by (simp add: make_context_eq bench_collected_def)
qed

lemma bench_handed_over: "\<exists>t. hand_over sample_bench bench_witness bench_collection (bench_files, ()) = (Inr (), (t, ()))"
proof -
  from bench_verified obtain v where v: "verify sample_bench_world bench_collected = Inr v" "vr_passed v"
    by (auto split: sum.splits)
  have "bn_world sample_bench = sample_bench_world" "cl_root bench_collection = [''work'', ''r'']"
    by (simp_all add: sample_bench_def bench_collection_def)
  with v bench_made show ?thesis
    by (simp add: hand_over_def bench_collected_dirs abind_def alift_def write_json_def put_text_def)
qed

section \<open>Its reader\<close>

lemma bench_loads_text:
  assumes "json_text_value (\<lambda>_. None) s = Some v"
  shows "bench_loads s = Some v"
proof -
  have "json_text_value (\<lambda>_. None) k = None" if "k \<in> set (map fst bench_documents)" for k
    using that by (simp add: bench_documents_def) (elim disjE; simp; code_simp)
  with assms have "s \<notin> fst ` set bench_documents" by force
  then have "map_of bench_documents s = None" by (simp add: map_of_eq_None_iff)
  with assms show ?thesis by (simp add: bench_loads_def)
qed

lemma bench_documents_json: "(k, v) \<in> set bench_documents \<Longrightarrow> json_value v"
  unfolding bench_documents_def
  by (auto simp: trace_doc_def control_doc_def bench_environment_def artifact_doc_def observation_to_dict_def m1b_compiler_def ptexts_def)

lemma bench_reader: "json_reader bench_loads"
proof
  fix v :: pv
  assume "plain v"
  then show "bench_loads (canonical v) = Some (jnorm v)" "bench_loads (jindent 0 v @ [CHR 0x0A]) = Some (jnorm v)"
    by (intro bench_loads_text text_value.loads_canonical text_value.loads_indented; assumption)+
next
  fix v :: pv
  assume "json_value v" "nofloat v"
  then show "bench_loads (jtext v) = Some v" by (intro bench_loads_text text_value.loads_text)
next
  fix s v
  assume "bench_loads s = Some v"
  then show "json_value v"
    using bench_documents_json text_value.loads_value
    by (auto simp: bench_loads_def split: option.splits dest!: map_of_SomeD)
qed

section \<open>The properties of the acceptance\<close>

lemma meta_path_roundtrip_witness:
  "normalize_meta_path id (encode_work_path id [''work'', ''r''] [''work'']) [''work''] = [''work'', ''r'']"
proof -
  have "list_all proper [''work'', ''r'']" "\<not> is_relative_to [''work'', ''r''] SANDBOX_ROOT" by code_simp+
  with meta_path_roundtrip [of "[''work'', ''r'']" id "[''work'']"] show ?thesis by simp
qed

text \<open>What certify demands of the bench, of its tools and of the key.\<close>

lemma bench_plain: "plain (PDict (witness_dump bench_witness))"
  by (simp add: plain_def witness_dump_def witness_fields_def bench_witness_def replayed_witness_def sample_witness_def
      m1b_compiler_def assertion_dump_def pstrs_def pints_def ptexts_def opt_pdict_def)

lemma bench_recorded: "\<forall>d \<in> set (cl_root bench_collection # collected_dirs bench_collection). recorded_path sample_bench d"
proof -
  have "cl_root bench_collection = [''work'', ''r'']" by (simp add: bench_collection_def)
  then show ?thesis
    unfolding bench_collected_dirs
    by (simp add: bench_dirs_def recorded_path_def sample_bench_def proper_def is_relative_to_def SANDBOX_ROOT_def)
qed

lemma bench_steady: "steady_tools (bn_lock sample_bench)"
  by (simp add: steady_tools_def steady_host_def sample_bench_def bench_lock_def sample_lock_host_def)

lemma bench_key: "ensure_audit_key (\<lambda>_. False) ''k'' ''/home'' ''M1B'' [] = (Inr ''/home/keys/M1B.key'', [(''/home/keys/M1B.key'', ''k'')])"
  by (simp add: ensure_audit_key_def Let_def)

lemma bench_key_outside:
  "\<not> key_below ''/home/keys/M1B.key'' (bn_resolve sample_bench (bn_root sample_bench))"
  "\<not> key_below ''/home/keys/M1B.key'' (bn_resolve sample_bench (bn_work sample_bench))"
  "\<not> is_relative_to (resolved_key sample_bench ''/home/keys/M1B.key'') (bn_resolve sample_bench (cl_root bench_collection))"
  by code_simp+

lemma bench_setting:
  "load_policy sample_bench = Inr (PDict [], [])" "json_reader (wo_loads (bn_world sample_bench))"
  "bn_validate sample_bench (jnorm (PDict (witness_dump bench_witness))) = Inr bench_witness"
  "bn_resolve sample_bench (bn_work sample_bench) = bn_work sample_bench"
  using bench_policy bench_reader by (simp_all add: sample_bench_def sample_bench_world_def)



section \<open>The first driver\<close>

definition m1a_files :: tree where
  "m1a_files = [([''local_deployment'', ''witness.json''], ''M''), ([''deployed_fork'', ''witness.json''], ''M'')]"

lemma m1a_paths:
  "meta_path sample_bench (PStr ''r'') = Inr [''work'', ''r'']"
  "emap (meta_path sample_bench) (map PStr [''r/run-1/repo'', ''r/run-2/repo'', ''r/run-3/repo'']) = Inr bench_dirs"
  by code_simp+

lemma m1a_loaded:
  assumes "map_of bench_documents ''M'' = Some meta"
  shows "\<exists>col. m1a_load sample_bench meta bench_witness [] = Inr col \<and> length (cl_runs col) = 3 \<and>
    cl_root col = [''work'', ''r''] \<and> cl_environment_hash col = ''d''"
proof -
  have W: "bn_world sample_bench = sample_bench_world" and H: "wo_host sample_bench_world = constant_host"
    by (simp_all add: sample_bench_def sample_bench_world_def small_world_def)
  have meta: "need_item meta ''replay_root'' = Inr (PStr ''r'')"
    "need_item meta ''run_dirs'' = Inr (PList (map PStr [''r/run-1/repo'', ''r/run-2/repo'', ''r/run-3/repo'']))"
    using assms by (auto simp: bench_documents_def need_def)
  have load: "emap (\<lambda>dir. load_run sample_bench_world dir bench_witness []) bench_dirs = Inr (map bench_run bench_dirs)"
    by (simp add: bench_dirs_def bench_loaded)
  have n: "length bench_dirs = 3" by (simp add: bench_dirs_def)
  show ?thesis
    unfolding m1a_load_def Let_def W H meta ebind_Inr m1a_paths py_iter.simps load bench_yaml
    by (simp add: n bench_run_def small_run_def constant_host_def summary_sha256_def bench_dirs_def)
qed

lemma m1a_class:
  assumes "map_of t [class_name spec, ''witness.json''] = Some ''M''"
  shows "\<exists>cert t'. certify_class sample_bench [] ''/home/keys/M1A.key'' ''k'' spec (t, ()) = (Inr cert, (t', ())) \<and>
    (\<forall>name. map_of t [name, ''witness.json''] = Some ''M'' \<longrightarrow> map_of t' [name, ''witness.json''] = Some ''M'')"
proof -
  obtain meta where meta: "map_of bench_documents ''M'' = Some meta" "need_item meta ''witness'' = Inr (PDict [])"
    by (simp add: bench_documents_def need_def)
  from m1a_loaded [OF meta(1)] obtain col where col: "m1a_load sample_bench meta bench_witness [] = Inr col"
    "length (cl_runs col) = 3" "cl_root col = [''work'', ''r'']" "cl_environment_hash col = ''d''" by blast
  have "path_parts (class_name spec @ ''/witness.json'') = [class_name spec, ''witness.json'']"
    by (cases "fs_class spec") (simp add: class_name_def; code_simp)+
  moreover have "universal_newlines ''M'' = ''M''" by code_simp
  ultimately have json: "work_json sample_bench (class_name spec @ ''/witness.json'') (t, ()) = (Inr meta, (t, ()))"
    using assms meta(1) by (simp add: work_json_def read_text_def read_bytes_def json_loads_def sample_bench_def
      sample_bench_world_def bench_loads_def)
  have B: "bn_validate sample_bench (PDict []) = Inr bench_witness" "bench_host sample_bench = constant_host"
    "bn_resolve sample_bench = id"
    by (simp_all add: sample_bench_def bench_host_def sample_bench_world_def small_world_def)
  have key: "\<not> is_relative_to (resolved_key sample_bench ''/home/keys/M1A.key'') [''work'', ''r'']" by code_simp
  have env: "w_env_hash bench_witness = ''d''" by (simp add: bench_witness_def replayed_witness_def sample_witness_def)
  show ?thesis
    using col key env
    by (simp add: certify_class_def abind_def json alift_def meta(2) B Let_def certifier_issue_def certifier_view_def
        issue_eq_Inr issue_def verify_cert_def constant_host_def put_text_def update_conv')
qed

lemma m1a_certified:
  "\<exists>certs s'. m1a_certify sample_bench (\<lambda>_. False) ''k'' ''/home'' ([], (m1a_files, ())) =
     (Inr certs, ([(''/home/keys/M1A.key'', ''k'')], s'))"
proof -
  have files: "map_of m1a_files [''local_deployment'', ''witness.json''] = Some ''M''"
    "map_of m1a_files [''deployed_fork'', ''witness.json''] = Some ''M''" by (simp_all add: m1a_files_def)
  obtain l d where f: "FIXTURES = [l, d]" "class_name l = ''local_deployment''" "class_name d = ''deployed_fork''"
    by (simp add: FIXTURES_def class_name_def)
  from m1a_class [of m1a_files l] files f(2) obtain c1 t1 where
    c1: "certify_class sample_bench [] ''/home/keys/M1A.key'' ''k'' l (m1a_files, ()) = (Inr c1, (t1, ()))"
    and t1: "map_of t1 [''deployed_fork'', ''witness.json''] = Some ''M''" by auto
  from m1a_class [of t1 d] t1 f(3) obtain c2 t2 where
    c2: "certify_class sample_bench [] ''/home/keys/M1A.key'' ''k'' d (t1, ()) = (Inr c2, (t2, ()))" by auto
  have "policy_and_catalog sample_bench = Inr (PDict [], [])" by code_simp
  moreover have "\<not> key_below ''/home/keys/M1A.key'' (bn_resolve sample_bench (bn_root sample_bench))"
    "\<not> key_below ''/home/keys/M1A.key'' (bn_resolve sample_bench (bn_work sample_bench))" by code_simp+
  moreover have "ensure_audit_key (\<lambda>_. False) ''k'' ''/home'' ''M1A'' [] = (Inr ''/home/keys/M1A.key'', [(''/home/keys/M1A.key'', ''k'')])"
    by (simp add: ensure_audit_key_def Let_def)
  ultimately show ?thesis by (simp add: m1a_certify_def f(1) abind_def alift_def c1 c2)
qed


end
