(* ===== verification/Node.thy ===== *)
theory Node
  imports M1a
begin

text \<open>
  What drives a development node: the controller of \<open>tools/anvil.py\<close> and the start-up script
  \<open>docker/m1a_bootstrap.py\<close>, and the static analyser of \<open>tools/aderyn.py\<close>. The node, the process and the clock
  act on the world \<open>'w\<close>; instants are integers of milliseconds. A loop that waits for a deadline may never end,
  so that its value is optional; it ends under a clock that does not go backwards.
\<close>

section \<open>The controller of Anvil\<close>

record 'w popen =
  pp_start :: "string list \<Rightarrow> 'w \<Rightarrow> unit res \<times> 'w"
  pp_poll :: "'w \<Rightarrow> bool \<times> 'w" \<comment> \<open>the process has ended\<close>
  pp_communicate :: "'w \<Rightarrow> (string \<times> string) res \<times> 'w" \<comment> \<open>with a limit of one second\<close>
  pp_terminate :: "'w \<Rightarrow> 'w"
  pp_kill :: "'w \<Rightarrow> 'w"
  pp_wait :: "'w \<Rightarrow> unit res \<times> 'w" \<comment> \<open>with a limit of five seconds\<close>
  pp_ask :: "string \<Rightarrow> string \<Rightarrow> 'w \<Rightarrow> unit res \<times> 'w" \<comment> \<open>a POST to an address, with a limit of half a second\<close>
  pp_sleep :: "int \<Rightarrow> 'w \<Rightarrow> 'w"

record anvil_process =
  ap_rpc_url :: string
  ap_chain_id :: int
  ap_block_number :: "int option"

definition anvil_argv :: "string \<Rightarrow> string option \<Rightarrow> int option \<Rightarrow> int \<Rightarrow> int \<Rightarrow> string list \<Rightarrow> string list" where
  "anvil_argv anvil_bin fork_url fork_block chain_id port extra =
     [anvil_bin, ''--host'', ''127.0.0.1'', ''--port'', int_str port, ''--chain-id'', int_str chain_id] @
     (if given fork_url then [''--fork-url'', the fork_url] else []) @
     (case fork_block of None \<Rightarrow> [] | Some b \<Rightarrow> [''--fork-block-number'', int_str b]) @ extra"

definition anvil_url :: "int \<Rightarrow> string" where
  "anvil_url port = ''http://127.0.0.1:'' @ int_str port"

definition call_body :: "string \<Rightarrow> pv list \<Rightarrow> string" where
  "call_body m params = jtext (PDict [(''jsonrpc'', PStr ''2.0''), (''id'', PInt 1), (''method'', PStr m), (''params'', PList params)])"

text \<open>The loop over \<open>range(100)\<close>, from the attempts that are left.\<close>

fun anvil_ready :: "'w popen \<Rightarrow> string \<Rightarrow> nat \<Rightarrow> (unit, 'w) act" where
  "anvil_ready P url 0 w = (Inl (RuntimeError ''anvil did not become ready''), pp_terminate P w)"
| "anvil_ready P url (Suc n) w =
     (case pp_poll P w of
        (True, w1) \<Rightarrow> (case pp_communicate P w1 of
            (Inl e, w2) \<Rightarrow> (Inl e, w2)
          | (Inr (out, err), w2) \<Rightarrow> (Inl (RuntimeError (''anvil failed: '' @ first_text [err, out])), w2))
      | (False, w1) \<Rightarrow> (case pp_ask P url (call_body ''eth_chainId'' []) w1 of
            (Inr _, w2) \<Rightarrow> (Inr (), w2)
          | (Inl e, w2) \<Rightarrow> anvil_ready P url n (pp_sleep P 50 w2)))"

definition anvil_start :: "'w popen \<Rightarrow> string \<Rightarrow> string option \<Rightarrow> int option \<Rightarrow> int \<Rightarrow> int \<Rightarrow> string list \<Rightarrow> (anvil_process, 'w) act" where
  "anvil_start P anvil_bin fork_url fork_block chain_id port extra =
     abind (pp_start P (anvil_argv anvil_bin fork_url fork_block chain_id port extra)) (\<lambda>_.
     abind (anvil_ready P (anvil_url port) 100) (\<lambda>_.
       alift (Inr \<lparr>ap_rpc_url = anvil_url port, ap_chain_id = chain_id, ap_block_number = None\<rparr>)))"

definition anvil_stop :: "'w popen \<Rightarrow> (unit, 'w) act" where
  "anvil_stop P = (\<lambda>w. case pp_poll P w of
     (True, w1) \<Rightarrow> (Inr (), w1)
   | (False, w1) \<Rightarrow> (case pp_wait P (pp_terminate P w1) of
       (Inr _, w2) \<Rightarrow> (Inr (), w2)
     | (Inl _, w2) \<Rightarrow> pp_wait P (pp_kill P w2)))"

section \<open>Aderyn\<close>

record static_finding =
  sf_detector :: string
  sf_title :: string
  sf_impact :: pv
  sf_confidence :: pv
  sf_source :: pdict

definition finding_of :: "pdict \<Rightarrow> static_finding" where
  "finding_of r = \<lparr>sf_detector = py_str (dget_or r ''id'' (dget_or r ''detector'' (PStr ''unknown''))),
     sf_title = py_str (dget_or r ''title'' (PStr [])), sf_impact = dget_or r ''impact'' PNone,
     sf_confidence = dget_or r ''confidence'' PNone, sf_source = r\<rparr>"

text \<open>The detectors of a report; a report that is a list has no \<open>get\<close>.\<close>

definition aderyn_findings :: "pv \<Rightarrow> static_finding list res" where
  "aderyn_findings data = (case data of
     PDict d \<Rightarrow> ebind (py_iter (dget_or d ''detectors'' (PList []))) (\<lambda>rows.
       Inr (List.map_filter (\<lambda>r. case r of PDict x \<Rightarrow> Some (finding_of x) | _ \<Rightarrow> None) rows))
   | _ \<Rightarrow> Inl (AttributeError ''get''))"

text \<open>The report is a file below the root, whose tree the shell acts on.\<close>

definition aderyn_analyze :: "(tree \<times> 'x) shell \<Rightarrow> host \<Rightarrow> (string \<Rightarrow> pv option) \<Rightarrow> string \<Rightarrow> string \<Rightarrow> int \<Rightarrow> string option \<Rightarrow>
    (static_finding list \<times> (string \<times> string) list, tree \<times> 'x) act" where
  "aderyn_analyze S H loads root aderyn_bin timeout runs_dir =
     abind (run_tool S H (tool_call [aderyn_bin, ''analyze'', root, ''--output'', root @ ''/aderyn.json''] (Some root) timeout runs_dir))
       (\<lambda>(r, files). \<lambda>(t, x).
         (if tr_rc r \<noteq> 0 then Inl (failed_output r)
          else case map_of t [''aderyn.json''] of
            None \<Rightarrow> Inr ([], files)
          | Some b \<Rightarrow> (case loads (universal_newlines b) of
              None \<Rightarrow> Inl (JSONDecodeError ''Expecting value'')
            | Some v \<Rightarrow> ebind (aderyn_findings v) (\<lambda>fs. Inr (fs, files))), (t, x)))"

section \<open>The node behind the bootstrap\<close>

datatype node_reply = Reply string | Unreachable string | Broken exc

record 'w node =
  nd_post :: "string \<Rightarrow> 'w \<Rightarrow> node_reply \<times> 'w"
  nd_clock :: "'w \<Rightarrow> int \<times> 'w"
  nd_sleep :: "int \<Rightarrow> 'w \<Rightarrow> 'w"
  nd_loads :: "string \<Rightarrow> pv option"

definition call_result :: "string \<Rightarrow> pv \<Rightarrow> pv res" where
  "call_result m v = (case v of
     PDict d \<Rightarrow> (case dget d ''error'' of
         Some e \<Rightarrow> Inl (RuntimeError (m @ '': '' @ py_str e))
       | None \<Rightarrow> need d ''result'')
   | _ \<Rightarrow> Inl (TypeError ''object is not subscriptable''))"

text \<open>The exception of a call, and whether the wait for the node goes on after it.\<close>

definition node_call :: "'w node \<Rightarrow> string \<Rightarrow> pv list \<Rightarrow> 'w \<Rightarrow> (bool \<times> exc + pv) \<times> 'w" where
  "node_call N m params w = (case nd_post N (call_body m params) w of
     (Unreachable e, w1) \<Rightarrow> (Inl (True, OSError e), w1)
   | (Broken e, w1) \<Rightarrow> (Inl (False, e), w1)
   | (Reply s, w1) \<Rightarrow> (case nd_loads N s of
       None \<Rightarrow> Inl (False, JSONDecodeError ''Expecting value'')
     | Some v \<Rightarrow> (case call_result m v of
         Inr r \<Rightarrow> Inr r | Inl e \<Rightarrow> Inl (case e of RuntimeError _ \<Rightarrow> True | _ \<Rightarrow> False, e)), w1))"

definition rpc :: "'w node \<Rightarrow> string \<Rightarrow> pv list \<Rightarrow> (pv, 'w) act" where
  "rpc N m params w = (case node_call N m params w of (r, w1) \<Rightarrow> (map_sum snd id r, w1))"

section \<open>Waiting\<close>

definition last_error :: "exc option \<Rightarrow> string" where
  "last_error e = (case e of None \<Rightarrow> ''None'' | Some e \<Rightarrow> exc_msg e)"

partial_function (option) wait_loop :: "'w node \<Rightarrow> int \<Rightarrow> exc option \<Rightarrow> 'w \<Rightarrow> (unit res \<times> 'w) option" where
  "wait_loop N deadline err w =
     (let (now, w1) = nd_clock N w in
      if now < deadline then
        (let (r, w2) = node_call N ''eth_blockNumber'' [] w1 in
         case r of
           Inr _ \<Rightarrow> Some (Inr (), w2)
         | Inl (again, e) \<Rightarrow> if again then wait_loop N deadline (Some e) (nd_sleep N 250 w2) else Some (Inl e, w2))
      else Some (runtime_err (''m1a_upstream not reachable after 30s: '' @ last_error err), w1))"

definition wait_for_upstream :: "'w node \<Rightarrow> 'w \<Rightarrow> (unit res \<times> 'w) option" where
  "wait_for_upstream N w = (let (now, w1) = nd_clock N w in wait_loop N (now + 30000) None w1)"

text \<open>The receipt of a transaction that was mined and did not revert.\<close>

definition receipt_of :: "string \<Rightarrow> pv \<Rightarrow> pdict res" where
  "receipt_of tx_hash v = ebind (need_dict v) (\<lambda>d.
     if dget_or d ''status'' PNone = PStr ''0x1'' then Inr d else runtime_err (''transaction reverted: '' @ tx_hash))"

partial_function (option) receipt_loop :: "'w node \<Rightarrow> int \<Rightarrow> string \<Rightarrow> 'w \<Rightarrow> (pdict res \<times> 'w) option" where
  "receipt_loop N deadline tx_hash w =
     (let (now, w1) = nd_clock N w in
      if now < deadline then
        (let (r, w2) = rpc N ''eth_getTransactionReceipt'' [PStr tx_hash] w1 in
         case r of
           Inl e \<Rightarrow> Some (Inl e, w2)
         | Inr v \<Rightarrow> if truthy v then Some (receipt_of tx_hash v, w2) else receipt_loop N deadline tx_hash (nd_sleep N 50 w2))
      else Some (runtime_err (''transaction not mined: '' @ tx_hash), w1))"

definition send_transaction :: "'w node \<Rightarrow> pdict \<Rightarrow> 'w \<Rightarrow> (pdict res \<times> 'w) option" where
  "send_transaction N tx w = (case rpc N ''eth_sendTransaction'' [PDict tx] w of
     (Inl e, w1) \<Rightarrow> Some (Inl e, w1)
   | (Inr v, w1) \<Rightarrow> (let (now, w2) = nd_clock N w1 in receipt_loop N (now + 30000) (py_str v) w2))"

section \<open>The script\<close>

text \<open>Steps that may not end, on the files of the work root and the node's world.\<close>

type_synonym ('a, 'x) step = "tree \<times> 'x \<Rightarrow> ('a res \<times> (tree \<times> 'x)) option"

definition obind :: "('a, 'x) step \<Rightarrow> ('a \<Rightarrow> ('b, 'x) step) \<Rightarrow> ('b, 'x) step" where
  "obind m f s = (case m s of None \<Rightarrow> None | Some (Inl e, s1) \<Rightarrow> Some (Inl e, s1) | Some (Inr x, s1) \<Rightarrow> f x s1)"

definition lift_step :: "('a, tree \<times> 'x) act \<Rightarrow> ('a, 'x) step" where
  "lift_step m s = Some (m s)"

definition on_node :: "('x \<Rightarrow> ('a res \<times> 'x) option) \<Rightarrow> ('a, 'x) step" where
  "on_node m = (\<lambda>(t, x). map_option (\<lambda>(r, x1). (r, (t, x1))) (m x))"

definition TARGET :: string where
  "TARGET = ''0x5fbdb2315678afecb367f032d93f642f64180aa3''"

definition rjust64 :: "string \<Rightarrow> string" where
  "rjust64 s = zeros (64 - length s) @ s"

definition word_addr :: "string \<Rightarrow> string" where
  "word_addr a = rjust64 (if startswith a ''0x'' then drop 2 a else a)"

text \<open>\<open>hex(n)[2:]\<close> of a number that is not negative.\<close>

fun hex_digits :: "nat \<Rightarrow> string" where
  "hex_digits n = (if n < 16 then [hex_char n] else hex_digits (n div 16) @ [hex_char (n mod 16)])"

declare hex_digits.simps [simp del]

definition hex_text :: "nat \<Rightarrow> string" where
  "hex_text n = ''0x'' @ hex_digits n"

definition word_int :: "nat \<Rightarrow> string" where
  "word_int n = rjust64 (hex_digits n)"

definition fund_calldata :: "host \<Rightarrow> string" where
  "fund_calldata H = ''0x'' @ to_hex (take 4 (hs_keccak H ''fund(address,uint256)'')) @ word_addr ACTOR_FALLBACK @ word_int 3"

definition first_account :: "pv \<Rightarrow> string res" where
  "first_account v = (case v of
     PList (a # _) \<Rightarrow> Inr (py_str a)
   | _ \<Rightarrow> runtime_err ''upstream Anvil exposes no unlocked account'')"

text \<open>\<open>int(str(v), 16)\<close>.\<close>

definition hex_number :: "pv \<Rightarrow> int res" where
  "hex_number v = (case int_base16 (py_str v) of
     Some n \<Rightarrow> Inr n | None \<Rightarrow> Inl (ValueError ''invalid literal for int() with base 16''))"

definition ask_node :: "'x node \<Rightarrow> string \<Rightarrow> pv list \<Rightarrow> (pv \<Rightarrow> 'a res) \<Rightarrow> ('a, 'x) step" where
  "ask_node N m params f = on_node (\<lambda>x. case rpc N m params x of (r, x1) \<Rightarrow> Some (ebind r f, x1))"

definition account_of :: "'x node \<Rightarrow> (string, 'x) step" where
  "account_of N = ask_node N ''eth_accounts'' [] first_account"

definition head_of :: "'x node \<Rightarrow> (int, 'x) step" where
  "head_of N = ask_node N ''eth_blockNumber'' [] hex_number"

text \<open>A chain that is in use must be the one that an earlier start has left.\<close>

definition check_used_chain :: "'x node \<Rightarrow> int \<Rightarrow> (unit, 'x) step" where
  "check_used_chain N nonce =
     obind (ask_node N ''eth_getCode'' [PStr TARGET, PStr ''latest''] (\<lambda>v. Inr (py_str v))) (\<lambda>code.
     obind (head_of N) (\<lambda>head. lift_step (alift (
       if code \<notin> {''0x'', []} \<and> 4 \<le> head then Inr ()
       else runtime_err (''upstream account nonce is '' @ int_str nonce @ '', expected a fresh chain'')))))"

definition scratch_dir :: "string list" where
  "scratch_dir = [''m1a-upstream-build'']"

text \<open>The build in the scratch directory, which replaces an older one, and the target's creation code.\<close>

definition build_scratch :: "('f, 'x) bench \<Rightarrow> 'x rig \<Rightarrow> (pv, tree \<times> 'x) act" where
  "build_scratch B G =
     abind (\<lambda>(t, x). case forge_build (fw_shell (rg_forge G)) (fw_host (rg_forge G)) (path_text (bn_work B @ scratch_dir))
         ''forge'' 900 (Some (path_text (bn_work B @ [''tool_runs'']))) [] (m1a_fixture_tree B, x) of
       (r, (c, x1)) \<Rightarrow>
         (let kept = filter (\<lambda>f. \<not> is_relative_to (fst f) scratch_dir) t @ map (\<lambda>f. (scratch_dir @ fst f, snd f)) c in
          case r of
            Inl e \<Rightarrow> (Inl e, (kept, x1))
          | Inr (report, files) \<Rightarrow> (Inr (report, c), (add_files (bn_work B) files kept, x1)))) (\<lambda>(report, c).
     alift (if \<not> fr_passed report then runtime_err (first_text [fr_stderr report, fr_stdout report, ''forge build failed''])
       else ebind (ebind (read_text c ''out/M1aTarget.sol/M1aTarget.json'') (json_loads (bn_world B)))
         (\<lambda>obj. ebind (need_item obj ''bytecode'') (\<lambda>b. need_item b ''object''))))"

definition ready_json :: pv where
  "ready_json = PDict [(''target'', PStr TARGET), (''fork_block'', PInt 3), (''head'', PInt 4)]"

definition READY_PATH :: "string list" where
  "READY_PATH = [''m1a-upstream-ready.json'']"

text \<open>The target is deployed and funded, and the head brought to block 4.\<close>

definition deploy_target :: "('f, 'x) bench \<Rightarrow> 'x rig \<Rightarrow> 'x node \<Rightarrow> (unit, 'x) step" where
  "deploy_target B G N =
     obind (lift_step (build_scratch B G)) (\<lambda>creation.
     obind (account_of N) (\<lambda>account.
     obind (on_node (send_transaction N [(''from'', PStr account), (''data'', creation), (''gas'', PStr (hex_text 1000000))])) (\<lambda>receipt.
     obind (lift_step (alift (if lower (py_str (dget_or receipt ''contractAddress'' (PStr []))) \<noteq> lower TARGET then
         runtime_err (''unexpected target address: '' @ py_str (dget_or receipt ''contractAddress'' PNone)) else Inr ()))) (\<lambda>_.
     obind (on_node (send_transaction N [(''from'', PStr account), (''to'', PStr TARGET),
         (''data'', PStr (fund_calldata (bench_host B))), (''gas'', PStr (hex_text 200000))])) (\<lambda>_.
     obind (ask_node N ''evm_mine'' [PInt 1700000100] Inr) (\<lambda>_.
     obind (ask_node N ''evm_mine'' [PInt 1700000200] Inr) (\<lambda>_.
     obind (head_of N) (\<lambda>head.
     obind (lift_step (alift (if head \<noteq> 4 then runtime_err ''upstream fixture head must be block 4'' else Inr ()))) (\<lambda>_.
       lift_step (put_text READY_PATH (jprint pad pad '' '' 0 ready_json @ [CHR 0x0A])))))))))))"

definition bootstrap_main :: "('f, 'x) bench \<Rightarrow> 'x rig \<Rightarrow> 'x node \<Rightarrow> (unit, 'x) step" where
  "bootstrap_main B G N =
     obind (on_node (wait_for_upstream N)) (\<lambda>_.
     obind (account_of N) (\<lambda>account.
     obind (ask_node N ''eth_getTransactionCount'' [PStr account, PStr ''latest''] hex_number) (\<lambda>nonce.
       if nonce \<noteq> 0 then check_used_chain N nonce else deploy_target B G N)))"

section \<open>The waits end\<close>

text \<open>The clock reads \<open>t\<close>, never goes backwards, and a sleep takes at least its time.\<close>

definition timely :: "'w node \<Rightarrow> ('w \<Rightarrow> int) \<Rightarrow> bool" where
  "timely N t = ((\<forall>w. fst (nd_clock N w) = t (snd (nd_clock N w)) \<and> t w \<le> t (snd (nd_clock N w))) \<and>
     (\<forall>b w. t w \<le> t (snd (nd_post N b w))) \<and> (\<forall>d w. t w + d \<le> t (nd_sleep N d w)))"

lemma timely_clock: "timely N t \<Longrightarrow> nd_clock N w = (now, w1) \<Longrightarrow> now = t w1 \<and> t w \<le> t w1"
  unfolding timely_def by (metis fst_conv snd_conv)

lemma timely_call: "timely N t \<Longrightarrow> node_call N m params w = (r, w1) \<Longrightarrow> t w \<le> t w1"
  unfolding timely_def node_call_def by (auto split: prod.splits node_reply.splits option.splits sum.splits) (metis snd_conv)+

lemma timely_sleep: "timely N t \<Longrightarrow> t w + d \<le> t (nd_sleep N d w)"
  by (simp add: timely_def)

lemma wait_loop_ends:
  assumes "timely N t"
  shows "wait_loop N deadline err w \<noteq> None"
proof (induction "nat (deadline - t w)" arbitrary: err w rule: less_induct)
  case less
  obtain now w1 where c: "nd_clock N w = (now, w1)" by (cases "nd_clock N w")
  obtain r w2 where a: "node_call N ''eth_blockNumber'' [] w1 = (r, w2)" by (cases "node_call N ''eth_blockNumber'' [] w1")
  note now = timely_clock [OF assms c]
  have "wait_loop N deadline (Some e) (nd_sleep N 250 w2) \<noteq> None" if "now < deadline" for e
    by (rule less) (use now that timely_call [OF assms a] timely_sleep [OF assms, of w2 250] in linarith)
  then show ?case
    by (subst wait_loop.simps) (auto simp: c a Let_def split: sum.splits)
qed

lemma receipt_loop_ends:
  assumes "timely N t"
  shows "receipt_loop N deadline tx_hash w \<noteq> None"
proof (induction "nat (deadline - t w)" arbitrary: w rule: less_induct)
  case less
  obtain now w1 where c: "nd_clock N w = (now, w1)" by (cases "nd_clock N w")
  obtain r w2 where a: "node_call N ''eth_getTransactionReceipt'' [PStr tx_hash] w1 = (r, w2)"
    by (cases "node_call N ''eth_getTransactionReceipt'' [PStr tx_hash] w1")
  note now = timely_clock [OF assms c]
  have "receipt_loop N deadline tx_hash (nd_sleep N 50 w2) \<noteq> None" if "now < deadline"
    by (rule less) (use now that timely_call [OF assms a] timely_sleep [OF assms, of w2 50] in linarith)
  then show ?case
    by (subst receipt_loop.simps) (auto simp: c a rpc_def Let_def split: sum.splits)
qed

lemma send_transaction_ends: "timely N t \<Longrightarrow> send_transaction N tx w \<noteq> None"
  using receipt_loop_ends by (force simp: send_transaction_def split: prod.splits sum.splits)

definition ending :: "('a, 'x) step \<Rightarrow> bool" where
  "ending m = (\<forall>s. m s \<noteq> None)"

lemma obind_ending [intro!]: "ending m \<Longrightarrow> (\<And>x. ending (f x)) \<Longrightarrow> ending (obind m f)"
  unfolding ending_def obind_def by (auto split: option.splits sum.splits)

lemma on_node_ending [intro]: "(\<And>x. h x \<noteq> None) \<Longrightarrow> ending (on_node h)"
  by (auto simp: ending_def on_node_def)

lemma step_ending [intro!]: "ending (lift_step m)" "ending (ask_node N c params g)"
  by (auto simp: ending_def lift_step_def ask_node_def on_node_def split: prod.splits)

text \<open>
  C40: The bootstrap always comes to an end: whatever the node answers, or if it never does, each wait stops at
  its deadline, provided that the clock does not go backwards and a sleep takes its time.
\<close>

theorem bootstrap_ends:
  assumes "timely N t"
  shows "\<exists>r s'. bootstrap_main B G N s = Some (r, s')"
proof -
  have wait: "wait_for_upstream N w \<noteq> None" for w
    using wait_loop_ends [OF assms] by (simp add: wait_for_upstream_def split: prod.splits)
  have "ending (deploy_target B G N)"
    unfolding deploy_target_def account_of_def head_of_def
    by (intro obind_ending step_ending on_node_ending send_transaction_ends [OF assms])
  moreover have "ending (check_used_chain N nonce)" for nonce
    unfolding check_used_chain_def head_of_def by (intro obind_ending step_ending)
  ultimately have "ending (bootstrap_main B G N)"
    unfolding bootstrap_main_def account_of_def
    by (intro obind_ending step_ending on_node_ending wait) simp
  from this [unfolded ending_def, rule_format, of s] show ?thesis by auto
qed

text \<open>It succeeds only on a chain whose head is at least block 4.\<close>

lemma obind_eq_Inr: "obind m f s = Some (Inr y, s') \<longleftrightarrow> (\<exists>x s1. m s = Some (Inr x, s1) \<and> f x s1 = Some (Inr y, s'))"
  by (auto simp: obind_def split: option.splits sum.splits)

lemma lift_step_eq_Inr: "lift_step (alift r) s = Some (Inr y, s') \<longleftrightarrow> r = Inr y \<and> s' = s"
  by (auto simp: lift_step_def alift_def)

lemma deploy_head:
  assumes "deploy_target B G N s = Some (Inr (), s')"
  shows "\<exists>s1 s2. head_of N s1 = Some (Inr 4, s2)"
  using assms unfolding deploy_target_def obind_eq_Inr lift_step_eq_Inr runtime_err_def
  by (elim exE conjE) (simp only: if_Inl_eq_Inr not_not, blast)

lemma used_head:
  assumes "check_used_chain N nonce s = Some (Inr (), s')"
  shows "\<exists>s1 s2 head. head_of N s1 = Some (Inr head, s2) \<and> 4 \<le> head"
  using assms unfolding check_used_chain_def obind_eq_Inr lift_step_eq_Inr runtime_err_def
  by (elim exE conjE) (auto simp del: split_paired_Ex split: if_splits)

lemma bootstrap_head:
  assumes "bootstrap_main B G N s = Some (Inr (), s')"
  shows "\<exists>s1 s2 head. head_of N s1 = Some (Inr head, s2) \<and> 4 \<le> head"
proof -
  from assms obtain nonce s0 where "(if nonce \<noteq> 0 then check_used_chain N nonce else deploy_target B G N) s0 = Some (Inr (), s')"
    unfolding bootstrap_main_def obind_eq_Inr by blast
  then show ?thesis using used_head [of N nonce s0 s'] deploy_head [of B G N s0 s'] by (fastforce split: if_splits)
qed

text \<open>The controller answers for a node that has replied, after a hundred attempts at most.\<close>

lemma anvil_ready_replied:
  assumes "anvil_ready P url n w = (Inr (), w')"
  shows "\<exists>w1. pp_ask P url (call_body ''eth_chainId'' []) w1 = (Inr (), w')"
  using assms by (induction P url n w rule: anvil_ready.induct) (auto split: prod.splits bool.splits sum.splits)

text \<open>A report that is a list is refused, although the analyser's default is there to read one.\<close>

lemma aderyn_list_refused: "aderyn_findings (PList rows) = Inl (AttributeError ''get'')"
  by (simp add: aderyn_findings_def)

section \<open>A node that never answers\<close>

definition silent_node :: "int node" where
  "silent_node = \<lparr>nd_post = \<lambda>b w. (Unreachable ''refused'', w), nd_clock = \<lambda>w. (w, w), nd_sleep = \<lambda>d w. w + d, nd_loads = \<lambda>s. None\<rparr>"

definition silent_lock :: "int lock_host" where
  "silent_lock = \<lparr>lh_hash = constant_host, lh_which = \<lambda>b. None, lh_resolve = id, lh_exists = \<lambda>p. False,
     lh_bytes = \<lambda>p. Inl (FileNotFoundError p), lh_yaml = \<lambda>s. Inr PNone, lh_exec = \<lambda>argv w. (NoBinary ''none'', w),
     lh_shell = \<lambda>c w. (NoBinary ''none'', w)\<rparr>"

definition silent_bench :: "(int, int) bench" where
  "silent_bench = \<lparr>bn_world = small_world, bn_root = [''repo''], bn_work = [''work''], bn_resolve = id, bn_yaml = \<lambda>s. Inr PNone,
     bn_validate = \<lambda>v. Inr replayed_witness, bn_lock = silent_lock, bn_now = ''now'', bn_cwd = []\<rparr>"

definition silent_rig :: "int rig" where
  "silent_rig = \<lparr>rg_forge = \<lparr>fw_shell = \<lparr>sh_exec = \<lambda>argv cwd env inp limit s. (NoBinary ''none'', s), sh_environ = [],
       sh_secs = \<lambda>s. PInt 0, sh_millis = \<lambda>s. 0\<rparr>, fw_host = constant_host, fw_loads = \<lambda>s. None, fw_toml = \<lambda>s. None,
       fw_yaml = \<lambda>s. None, fw_ranked = Inr\<rparr>,
     rg_environ = [], rg_temp = \<lambda>p. [p], rg_random = nat_str, rg_resolve = path_parts\<rparr>"

lemma bootstrap_ends_witness: "\<exists>r s'. bootstrap_main silent_bench silent_rig silent_node ([], 0) = Some (r, s')"
proof (rule bootstrap_ends)
  show "timely silent_node id" by (simp add: timely_def silent_node_def)
qed

end
