(* ===== verification/Spec2Isabelle.thy ===== *)
theory Spec2Isabelle
  imports Redaction Lifecycle Ladder Trace FoundryTrace RpcGate WitnessBinding Environment Econ Verifier Derived Pipeline Store ModelGates ReplaySample AcceptanceSample Node
begin

text \<open>
  A verification library for \<open>l0vi0x\<close>, an auditor for smart contracts whose findings must be replayed
  deterministically, verified and certified before they count. All paths below are relative to
  \<open>src/l0vi0x/\<close> of the repository, except \<open>docker/\<close>, which lies beside it.

  \<^bold>\<open>The program.\<close> A hypothesis about a contract moves through a life cycle; every step needs a
  driver token and evidence. Its evidence is a ladder of levels on six axes, kept with everything else
  in an event-first SQLite store. A witness, a Foundry test with a control, is replayed in fresh copies of
  the repository behind RPC gates; the traces, the control and the environment are retained with their
  digests. The verifier derives everything again from the retained files, runs the checks V01 to V09 and
  routes a failure; only then the host's certifier issues a certificate, which the high levels of the ladder
  demand. The acceptance drivers connect these parts on two fixtures. Beside this path lie the model layer
  (a router over backends with its gates and its lock), the tool layer (a runner, wrappers and a tool lock)
  and the workspace of an agent.

  \<^bold>\<open>The theories.\<close> They follow the modules and read in this order.

  \<^item> \<open>PyBase\<close>, \<open>PyJson\<close>, \<open>JsonRead\<close>: the prelude. Exceptions are values of \<open>exc\<close>, a fallible step has type
  \<open>'a res\<close>; Python values are \<open>pv\<close>; the canonical JSON text determines its value, and what is written
  is read back (the interface \<open>json_reader\<close> and its reader \<open>json_text_value\<close>). \<open>Samples\<close> holds the inputs
  that several witnesses share.
  \<^item> \<open>Redaction\<close> (\<open>core/redaction.py\<close>), \<open>CoreModels\<close> (\<open>core/models.py\<close>), \<open>Tokens\<close> (\<open>core/interfaces.py\<close>,
  \<open>driver/run.py\<close>), \<open>Lifecycle\<close>, \<open>Certificates\<close> (with \<open>core/certifier.py\<close>), \<open>Ladder\<close>: the core. A history
  is a sequence of accepted transitions or awards; what a FINDING, a reopening or a high level has gone
  through is proved over all of them.
  \<^item> \<open>StoreDb\<close>, \<open>Store\<close> (\<open>core/store.py\<close>, \<open>core/events.py\<close>, \<open>core/ids.py\<close>, \<open>core/tasks.py\<close>): the tables with their triggers, and
  the operations as steps of a machine (\<open>store_step\<close>). Every row is what its event recorded, and a
  transition of the store refines that of \<open>Lifecycle\<close>.
  \<^item> \<open>CheatAbi\<close>, \<open>Trace\<close>, \<open>FoundryTrace\<close>, \<open>WitnessBinding\<close> (with \<open>chain/harness_identity.py\<close>), \<open>Environment\<close>, \<open>Econ\<close> (with
  \<open>chain/prices.py\<close>), \<open>FoundryConfig\<close>: the modules of \<open>chain/\<close>. The decoder inverts the ABI encoding, the
  parser accounts for every record of a trace, the policy admits only classified calls, the adapter's
  arena is walked completely, hashes bind what they name, and nothing of a supplied configuration
  reaches the sanitized one.
  \<^item> \<open>RpcGate\<close> (\<open>chain/rpc_gate.py\<close>, \<open>docker/rpc_gate.py\<close>): both gates, which implement one interface and agree.
  \<^item> \<open>Tools\<close> (\<open>tools/runner.py\<close> and the wrappers), \<open>ToolLock\<close> (\<open>tools/lock.py\<close>), \<open>Workspace\<close>
  (\<open>agents/sandbox_fs.py\<close>, \<open>core/home.py\<close>, \<open>core/budget.py\<close>, \<open>chain/fork.py\<close>). A step that may change the world has type
  \<open>('a, 's) act\<close> and is composed with \<open>abind\<close>.
  \<^item> \<open>Replay\<close> (\<open>chain/replay.py\<close>), \<open>Verifier\<close> (the checks of \<open>verifier/\<close>), \<open>Derived\<close> (\<open>verifier/derived.py\<close>), \<open>Pipeline\<close>
  (\<open>verifier/pipeline.py\<close>), \<open>ReplayLoad\<close>. A passed verification rests on three agreeing runs; \<open>ReplayLoad\<close>
  connects the two sides: what the executor retains is what the verifier derives.
  \<^item> \<open>Adapters\<close>, \<open>Router\<close>, \<open>ModelGates\<close> (\<open>models/\<close>): the router serves a request from the first candidate that
  answers, and a private audit stays with paid models.
  \<^item> \<open>Acceptance\<close>, \<open>AcceptanceRun\<close>, \<open>Probes\<close> (\<open>driver/m1b_acceptance.py\<close>) and \<open>M1a\<close> (\<open>driver/m1a_acceptance.py\<close>,
  \<open>chain/m1a_fixtures.py\<close>): the phases collect, certify and probes. What collect hands over, certify
  accepts; a certificate that certify has written is supported by the retained runs.
  \<^item> \<open>Node\<close> (\<open>docker/m1a_bootstrap.py\<close>, \<open>tools/anvil.py\<close>, \<open>tools/aderyn.py\<close>): what starts and prepares a development node;
  its waits end.
  \<^item> \<open>ReplaySample\<close>, \<open>AcceptanceSample\<close>: a replay and an acceptance that run in the model, for the witnesses.

  \<^bold>\<open>Interfaces.\<close> The locales state what one part relies on of another, and each is interpreted on the
  model: the backends of the router, the JSON reader, the policy of a gate, and event-sourced tables.

  \<^bold>\<open>Arguments of the model.\<close> What is not in the repository is an argument, and a theorem that needs a law of
  it names the law as a hypothesis: SHA-256, HMAC and Keccak (\<open>host\<close>; injective or separating where a
  theorem is about binding); the network and the node behind a gate; a program that is started (\<open>shell\<close>,
  \<open>lock_host\<close>), with the files it writes; \<open>json.loads\<close>, \<open>tomllib\<close> and \<open>yaml\<close>; pydantic's parsing of a whole
  document; float arithmetic and comparison; the order in which a set is iterated; the clock, random bytes
  and the names of temporary directories; the resolution of a path with its symbolic links. Text is ASCII,
  and a file is its content.

  \<^bold>\<open>Bounds and fuel.\<close> The recursion on a text of \<open>re_sub\<close>, of \<open>str.replace\<close> and of the JSON reader has fuel, which
  their callers set to the length of the text (one more for the reader): every step consumes a character,
  so that it is never exhausted; the round trips of the reader would fail otherwise. The walk over an arena
  and over nested frames terminates by a measure. A loop that waits for a deadline is a partial function, whose
  value exists under a clock that does not go backwards. Balances, gas and words are unbounded integers, checked
  against their width where the code checks it.

  \<^bold>\<open>Not modelled.\<close> \<open>core/schema_gen.py\<close> prints schemas that pydantic generates; \<open>tools/z3_tools.py\<close> calls
  a solver without constraints. Of the modelled modules, permissions, locks,
  threads, sockets, directories without files, logging and printed messages are left out, and so are SQLite's
  column affinities and the classes of \<open>core/models.py\<close> that only carry data between parts without
  operations. Each theory's opening text says what it leaves out.
\<close>

end
